(* ===== verification/Prelude.thy ===== *)
theory Prelude
  imports Main "HOL-Library.AList"
begin

text \<open>
  Shared vocabulary of the development: the Python values the model uses (text as \<open>string\<close>
  is written with plain HOL strings, dictionaries as ordered association lists, JSON values), the
  string operations of the Python standard library the sources call, and the programs with errors
  and state that every component is written in.
\<close>

section \<open>Collections of facts\<close>

named_theorems prog_simps "unfolding the program combinators"
named_theorems preserves_intros "compositional rules for invariants of programs"
named_theorems text_simps "facts about the text operations"

section \<open>Dictionaries\<close>

text \<open>A Python dict keeps insertion order: assignment to a present key keeps its place.\<close>

type_synonym ('k, 'v) dict = "('k \<times> 'v) list"

abbreviation dict_get :: "('k, 'v) dict \<Rightarrow> 'k \<Rightarrow> 'v option" where
  "dict_get d k \<equiv> map_of d k"

abbreviation dict_set :: "'k \<Rightarrow> 'v \<Rightarrow> ('k, 'v) dict \<Rightarrow> ('k, 'v) dict" where
  "dict_set k v d \<equiv> AList.update k v d"

abbreviation dict_pop :: "'k \<Rightarrow> ('k, 'v) dict \<Rightarrow> ('k, 'v) dict" where
  "dict_pop k d \<equiv> AList.delete k d"

definition dict_has :: "('k, 'v) dict \<Rightarrow> 'k \<Rightarrow> bool" where
  "dict_has d k = (dict_get d k \<noteq> None)"

definition dict_update :: "('k, 'v) dict \<Rightarrow> ('k, 'v) dict \<Rightarrow> ('k, 'v) dict" where
  "dict_update d upd = fold (\<lambda>(k, v) acc. dict_set k v acc) upd d"

definition dict_keys :: "('k, 'v) dict \<Rightarrow> 'k list" where
  "dict_keys d = map fst d"

definition dict_values :: "('k, 'v) dict \<Rightarrow> 'v list" where
  "dict_values d = map snd d"

definition opt_or :: "'a option \<Rightarrow> 'a \<Rightarrow> 'a" where
  "opt_or x d = (case x of None \<Rightarrow> d | Some y \<Rightarrow> y)"

lemma opt_or_simps [simp]: "opt_or None d = d" "opt_or (Some x) d = x"
  by (simp_all add: opt_or_def)

lemma dict_get_set [simp]:
  "dict_get (dict_set k v d) k' = (if k' = k then Some v else dict_get d k')"
  by (simp add: update_conv')

lemma dict_get_pop [simp]:
  "dict_get (dict_pop k d) k' = (if k' = k then None else dict_get d k')"
  by (simp add: delete_conv')

lemma dict_update_get:
  "distinct (map fst upd) \<Longrightarrow>
   dict_get (dict_update d upd) k = (case dict_get upd k of None \<Rightarrow> dict_get d k | Some v \<Rightarrow> Some v)"
proof (induction upd arbitrary: d)
  case Nil
  then show ?case by (simp add: dict_update_def)
next
  case (Cons p upd)
  obtain k1 v1 where p: "p = (k1, v1)" by (cases p)
  have step: "dict_update d (p # upd) = dict_update (dict_set k1 v1 d) upd"
    by (simp add: dict_update_def p)
  have "k1 \<notin> fst ` set upd" using Cons.prems p by simp
  then have "dict_get upd k1 = None" by (simp add: map_of_eq_None_iff)
  then show ?case
    using Cons.IH [of "dict_set k1 v1 d"] Cons.prems unfolding step unfolding p
    by (auto split: option.splits)
qed

lemma dict_keys_set:
  "dict_keys (dict_set k v d) = (if dict_has d k then dict_keys d else dict_keys d @ [k])"
  by (induction d) (auto simp: dict_keys_def dict_has_def)

lemma dict_set_fresh: "\<not> dict_has d k \<Longrightarrow> dict_set k v d = d @ [(k, v)]"
  by (induction d) (auto simp: dict_has_def split: if_splits)

lemma dict_keys_pop: "dict_keys (dict_pop k d) = filter (\<lambda>x. x \<noteq> k) (dict_keys d)"
  by (induction d) (auto simp: dict_keys_def)

lemma dict_has_keys: "dict_has d k \<longleftrightarrow> k \<in> set (dict_keys d)"
  by (auto simp: dict_has_def dict_keys_def map_of_eq_None_iff)

section \<open>JSON values\<close>

text \<open>Numbers are integers: the model counts time in milliseconds, so no result needs a float.\<close>

datatype json =
    JNull
  | JBool bool
  | JInt int
  | JStr string
  | JList "json list"
  | JDict "(string \<times> json) list"

definition jopt :: "string option \<Rightarrow> json" where
  "jopt x = (case x of None \<Rightarrow> JNull | Some s \<Rightarrow> JStr s)"

definition jopt_int :: "int option \<Rightarrow> json" where
  "jopt_int x = (case x of None \<Rightarrow> JNull | Some i \<Rightarrow> JInt i)"

definition jstrs :: "string list \<Rightarrow> json" where
  "jstrs xs = JList (map JStr xs)"

text \<open>\<open>result.get(k)\<close> and \<open>result[k] = v\<close> on a value that is a dictionary.\<close>

fun jget :: "json \<Rightarrow> string \<Rightarrow> json option" where
  "jget (JDict d) k = dict_get d k"
| "jget _ k = None"

fun jset :: "string \<Rightarrow> json \<Rightarrow> json \<Rightarrow> json" where
  "jset k v (JDict d) = JDict (dict_set k v d)"
| "jset k v j = j"

text \<open>Python truthiness.\<close>

fun truthy :: "json \<Rightarrow> bool" where
  "truthy JNull = False"
| "truthy (JBool b) = b"
| "truthy (JInt i) = (i \<noteq> 0)"
| "truthy (JStr s) = (s \<noteq> [])"
| "truthy (JList xs) = (xs \<noteq> [])"
| "truthy (JDict d) = (d \<noteq> [])"

section \<open>Text\<close>

definition cc :: "nat \<Rightarrow> char" where
  "cc n = char_of n"

abbreviation NL :: char where "NL \<equiv> CHR 0x0A"
abbreviation CR :: char where "CR \<equiv> CHR 0x0D"
abbreviation TAB :: char where "TAB \<equiv> CHR 0x09"
abbreviation ESC :: char where "ESC \<equiv> CHR 0x1B"
abbreviation BEL :: char where "BEL \<equiv> CHR 0x07"
abbreviation DQ :: char where "DQ \<equiv> CHR 0x22"
abbreviation BSL :: char where "BSL \<equiv> CHR 0x5C"
abbreviation SQ :: char where "SQ \<equiv> CHR 0x27"

definition ord :: "char \<Rightarrow> nat" where
  "ord c = of_char c"

definition char_between :: "char \<Rightarrow> char \<Rightarrow> char \<Rightarrow> bool" where
  "char_between lo hi c = (ord lo \<le> ord c \<and> ord c \<le> ord hi)"

definition is_digit :: "char \<Rightarrow> bool" where
  "is_digit = char_between (CHR ''0'') (CHR ''9'')"

definition is_upper :: "char \<Rightarrow> bool" where
  "is_upper = char_between (CHR ''A'') (CHR ''Z'')"

definition is_lower :: "char \<Rightarrow> bool" where
  "is_lower = char_between (CHR ''a'') (CHR ''z'')"

definition is_alpha :: "char \<Rightarrow> bool" where
  "is_alpha c = (is_upper c \<or> is_lower c)"

definition is_alnum :: "char \<Rightarrow> bool" where
  "is_alnum c = (is_alpha c \<or> is_digit c)"

definition is_hex :: "char \<Rightarrow> bool" where
  "is_hex c = (is_digit c \<or> char_between (CHR ''a'') (CHR ''f'') c \<or> char_between (CHR ''A'') (CHR ''F'') c)"

text \<open>\<open>str.isspace\<close> on ASCII: tab to carriage return, the separators 1C to 1F, space.\<close>

definition is_space :: "char \<Rightarrow> bool" where
  "is_space c = (let n = ord c in (9 \<le> n \<and> n \<le> 13) \<or> (28 \<le> n \<and> n \<le> 32))"

text \<open>The characters that end a line in \<open>str.splitlines\<close>, on ASCII.\<close>

definition is_linebreak :: "char \<Rightarrow> bool" where
  "is_linebreak c = (let n = ord c in (10 \<le> n \<and> n \<le> 13) \<or> (28 \<le> n \<and> n \<le> 30))"

definition char_lower :: "char \<Rightarrow> char" where
  "char_lower c = (if is_upper c then cc (ord c + 32) else c)"

definition char_upper :: "char \<Rightarrow> char" where
  "char_upper c = (if is_lower c then cc (ord c - 32) else c)"

definition py_lower :: "string \<Rightarrow> string" where
  "py_lower s = map char_lower s"

definition py_upper :: "string \<Rightarrow> string" where
  "py_upper s = map char_upper s"

definition lstrip_by :: "(char \<Rightarrow> bool) \<Rightarrow> string \<Rightarrow> string" where
  "lstrip_by p s = dropWhile p s"

definition rstrip_by :: "(char \<Rightarrow> bool) \<Rightarrow> string \<Rightarrow> string" where
  "rstrip_by p s = rev (dropWhile p (rev s))"

definition strip_by :: "(char \<Rightarrow> bool) \<Rightarrow> string \<Rightarrow> string" where
  "strip_by p s = rstrip_by p (lstrip_by p s)"

abbreviation py_strip :: "string \<Rightarrow> string" where
  "py_strip s \<equiv> strip_by is_space s"

definition strip_chars :: "string \<Rightarrow> string \<Rightarrow> string" where
  "strip_chars cs s = strip_by (\<lambda>c. c \<in> set cs) s"

definition starts_with :: "string \<Rightarrow> string \<Rightarrow> bool" where
  "starts_with p s = (take (length p) s = p)"

definition ends_with :: "string \<Rightarrow> string \<Rightarrow> bool" where
  "ends_with p s = (length p \<le> length s \<and> drop (length s - length p) s = p)"

fun contains :: "string \<Rightarrow> string \<Rightarrow> bool" where
  "contains p [] = (p = [])"
| "contains p (c # s) = (starts_with p (c # s) \<or> contains p s)"

definition take_last :: "nat \<Rightarrow> 'a list \<Rightarrow> 'a list" where
  "take_last n xs = drop (length xs - n) xs"

text \<open>\<open>str.splitlines\<close>: a carriage return and newline pair ends one line.\<close>

fun split_lines_aux :: "string \<Rightarrow> string \<Rightarrow> string list" where
  "split_lines_aux acc [] = (if acc = [] then [] else [rev acc])"
| "split_lines_aux acc (c # s) =
     (if c = CR then
        (case s of [] \<Rightarrow> [rev acc]
         | d # s' \<Rightarrow> if d = NL then rev acc # split_lines_aux [] s' else rev acc # split_lines_aux [] s)
      else if is_linebreak c then rev acc # split_lines_aux [] s
      else split_lines_aux (c # acc) s)"

definition split_lines :: "string \<Rightarrow> string list" where
  "split_lines s = split_lines_aux [] s"

text \<open>\<open>s.split(c)\<close> for one character, \<open>s.partition(p)\<close> and \<open>sep.join(xs)\<close>.\<close>

fun split_char :: "char \<Rightarrow> string \<Rightarrow> string list" where
  "split_char c [] = [[]]"
| "split_char c (d # s) =
     (if d = c then [] # split_char c s
      else (case split_char c s of [] \<Rightarrow> [[d]] | w # ws \<Rightarrow> (d # w) # ws))"

fun partition_at :: "string \<Rightarrow> string \<Rightarrow> string \<times> bool \<times> string" where
  "partition_at p [] = ([], p = [], [])"
| "partition_at p (c # s) =
     (if starts_with p (c # s) then ([], True, drop (length p) (c # s))
      else (case partition_at p s of (a, found, b) \<Rightarrow> (c # a, found, b)))"

fun join_with :: "string \<Rightarrow> string list \<Rightarrow> string" where
  "join_with sep [] = []"
| "join_with sep [x] = x"
| "join_with sep (x # y # xs) = x @ sep @ join_with sep (y # xs)"

text \<open>\<open>s.split()\<close>: the maximal runs of characters that are not whitespace.\<close>

fun words_aux :: "string \<Rightarrow> string \<Rightarrow> string list" where
  "words_aux acc [] = (if acc = [] then [] else [rev acc])"
| "words_aux acc (c # s) =
     (if is_space c then (if acc = [] then words_aux [] s else rev acc # words_aux [] s)
      else words_aux (c # acc) s)"

definition split_words :: "string \<Rightarrow> string list" where
  "split_words s = words_aux [] s"

text \<open>\<open>s.replace(a, b)\<close> for a non-empty \<open>a\<close>: \<open>skip\<close> counts the characters of a
  match that are still to be passed over.\<close>

fun replace_aux :: "string \<Rightarrow> string \<Rightarrow> nat \<Rightarrow> string \<Rightarrow> string" where
  "replace_aux a b skip [] = []"
| "replace_aux a b (Suc n) (c # s) = replace_aux a b n s"
| "replace_aux a b 0 (c # s) =
     (if starts_with a (c # s) then b @ replace_aux a b (length a - 1) s
      else c # replace_aux a b 0 s)"

definition py_replace :: "string \<Rightarrow> string \<Rightarrow> string \<Rightarrow> string" where
  "py_replace a b s = replace_aux a b 0 s"

text \<open>Decimal text of integers and back.\<close>

definition digit_char :: "nat \<Rightarrow> char" where
  "digit_char n = cc (48 + n mod 10)"

fun nat_text :: "nat \<Rightarrow> string" where
  "nat_text n = (if n < 10 then [digit_char n] else nat_text (n div 10) @ [digit_char n])"

declare nat_text.simps [simp del]

definition int_text :: "int \<Rightarrow> string" where
  "int_text i = (if i < 0 then CHR ''-'' # nat_text (nat (- i)) else nat_text (nat i))"

definition pad_left :: "nat \<Rightarrow> char \<Rightarrow> string \<Rightarrow> string" where
  "pad_left n c s = replicate (n - length s) c @ s"

definition digits_value :: "string \<Rightarrow> nat" where
  "digits_value s = foldl (\<lambda>acc c. 10 * acc + (ord c - 48)) 0 s"

definition all_digits :: "string \<Rightarrow> bool" where
  "all_digits s = (s \<noteq> [] \<and> list_all is_digit s)"

text \<open>\<open>int(s)\<close>: None is its ValueError.\<close>

definition py_nat :: "string \<Rightarrow> nat option" where
  "py_nat s =
     (let groups = split_char (CHR ''_'') s
      in if list_all all_digits groups then Some (digits_value (concat groups)) else None)"

definition py_int :: "string \<Rightarrow> int option" where
  "py_int text =
     (case py_strip text of
        [] \<Rightarrow> None
      | c # s \<Rightarrow>
          if c = CHR ''-'' then map_option (\<lambda>n. - int n) (py_nat s)
          else if c = CHR ''+'' then map_option int (py_nat s)
          else map_option int (py_nat (c # s)))"

definition hex_digit_value :: "char \<Rightarrow> nat" where
  "hex_digit_value c =
     (if is_digit c then ord c - 48
      else if char_between (CHR ''a'') (CHR ''f'') c then ord c - 87 else ord c - 55)"

definition hex_value :: "string \<Rightarrow> nat" where
  "hex_value s = foldl (\<lambda>acc c. 16 * acc + hex_digit_value c) 0 s"

subsection \<open>Facts about text\<close>

lemma starts_with_append [simp, text_simps]: "starts_with p (p @ s)"
  by (simp add: starts_with_def)

lemma starts_with_iff: "starts_with p s \<longleftrightarrow> (\<exists>t. s = p @ t)"
  by (metis append_eq_conv_conj starts_with_def)

lemma ends_with_iff: "ends_with p s \<longleftrightarrow> (\<exists>t. s = t @ p)"
proof
  assume "ends_with p s"
  then show "\<exists>t. s = t @ p" unfolding ends_with_def by (metis append_take_drop_id)
next
  assume "\<exists>t. s = t @ p"
  then show "ends_with p s" by (auto simp: ends_with_def)
qed

lemma contains_iff: "contains p s \<longleftrightarrow> (\<exists>a b. s = a @ p @ b)"
proof (induction s)
  case Nil
  then show ?case by auto
next
  case (Cons c s)
  note IH = Cons.IH
  show ?case
  proof
    assume "contains p (c # s)"
    then show "\<exists>a b. c # s = a @ p @ b"
      using Cons by (auto simp: starts_with_iff intro: exI [of _ "c # _"]) (metis append_Cons append_Nil)+
  next
    assume "\<exists>a b. c # s = a @ p @ b"
    then obtain a b where ab: "c # s = a @ p @ b" by blast
    show "contains p (c # s)"
    proof (cases a)
      case Nil
      then have "starts_with p (c # s)" using ab by (simp add: starts_with_iff)
      then show ?thesis by simp
    next
      case (Cons x a')
      then have "s = a' @ p @ b" using ab by simp
      then have "contains p s" using IH by blast
      then show ?thesis by simp
    qed
  qed
qed

lemma take_last_length [simp]: "length (take_last n xs) = min n (length xs)"
  by (simp add: take_last_def)

lemma take_last_all [simp]: "length xs \<le> n \<Longrightarrow> take_last n xs = xs"
  by (simp add: take_last_def)

lemma take_last_append: "take_last n (take_last n xs @ ys) = take_last n (xs @ ys)"
  by (cases "length xs \<le> n") (auto simp: take_last_def add.commute)

lemma dropWhile_idem [simp]: "dropWhile p (dropWhile p xs) = dropWhile p xs"
  by (induction xs) auto

lemma rstrip_idem [simp]: "rstrip_by p (rstrip_by p s) = rstrip_by p s"
  by (simp add: rstrip_by_def)

lemma ord_cc [simp]: "n < 256 \<Longrightarrow> ord (cc n) = n"
  by (simp add: ord_def cc_def)

lemma ord_inject: "ord c = ord d \<longleftrightarrow> c = d"
  by (simp add: ord_def)

lemma split_char_ne [simp]: "split_char c s \<noteq> []"
  by (induction s) (auto split: list.splits)

lemma join_split_char: "join_with [c] (split_char c s) = s"
proof (induction s)
  case Nil
  then show ?case by simp
next
  case (Cons d s)
  obtain w ws where sp: "split_char c s = w # ws"
    using split_char_ne by (metis list.exhaust)
  show ?case
    using Cons by (cases ws) (auto simp: sp)
qed

subsection \<open>Texts inside texts, and decimal texts\<close>

lemma contains_trans: "contains a b \<Longrightarrow> contains b c \<Longrightarrow> contains a c"
proof -
  assume "contains a b" "contains b c"
  then obtain x y u v where "b = x @ a @ y" "c = u @ b @ v" by (auto simp: contains_iff)
  then have "c = (u @ x) @ a @ (y @ v)" by simp
  then show ?thesis using contains_iff by blast
qed

lemma not_within_starts: "\<not> contains m s \<Longrightarrow> \<not> starts_with m (drop i s)"
  by (metis append_take_drop_id contains_iff starts_with_iff)

lemma contains_apart: "contains m (a @ c # b) \<Longrightarrow> c \<notin> set m \<Longrightarrow> m \<noteq> [] \<Longrightarrow> contains m a \<or> contains m b"
proof -
  assume "contains m (a @ c # b)" and c: "c \<notin> set m" "m \<noteq> []"
  then obtain x y where xy: "a @ c # b = x @ m @ y" by (auto simp: contains_iff)
  show ?thesis
  proof (cases "length x + length m \<le> length a")
    case True
    then have "a = take (length a) (x @ m @ y)" by (simp add: xy [symmetric])
    also have "\<dots> = x @ m @ take (length a - length x - length m) y" using True by simp
    finally show ?thesis using contains_iff by blast
  next
    case False
    have "length a < length x"
    proof (rule ccontr)
      assume ge: "\<not> length a < length x"
      then have i: "length a - length x < length m" using False by linarith
      have "(x @ m @ y) ! length a = m ! (length a - length x)"
        using ge i by (simp add: nth_append)
      moreover have "(x @ m @ y) ! length a = c" by (simp add: xy [symmetric])
      ultimately show False using c(1) nth_mem [OF i] by simp
    qed
    then have "b = drop (Suc (length a)) (x @ m @ y)" by (simp add: xy [symmetric])
    also have "\<dots> = drop (Suc (length a)) x @ m @ y" using \<open>length a < length x\<close> by simp
    finally show ?thesis using contains_iff by blast
  qed
qed

lemma contains_length: "contains m s \<Longrightarrow> length m \<le> length s"
  by (auto simp: contains_iff)

lemma not_starts_before:
  assumes "\<not> contains m b" and "b = [] \<or> last b \<notin> set m" and "i < length b"
  shows "\<not> starts_with m (drop i b @ t)"
proof
  assume "starts_with m (drop i b @ t)"
  then have m: "take (length m) (drop i b @ t) = m" by (simp add: starts_with_def)
  show False
  proof (cases "length m \<le> length b - i")
    case True
    then have "take (length m) (drop i b) = m" using m by simp
    then show False using assms(1) not_within_starts [of m b i] by (simp add: starts_with_def)
  next
    case False
    then have "m = drop i b @ take (length m - (length b - i)) t" using m by simp
    then have "set (drop i b) \<subseteq> set m" by (metis set_append Un_upper1)
    moreover have "last b \<in> set (drop i b)" using assms(3) by (metis drop_eq_Nil last_drop last_in_set linorder_not_le)
    ultimately show False using assms(2,3) by auto
  qed
qed

lemma digits_value_snoc: "digits_value (s @ [c]) = 10 * digits_value s + (ord c - 48)"
  by (simp add: digits_value_def)

lemma digit_char_ord: "ord (digit_char n) = 48 + n mod 10"
  by (simp add: digit_char_def)

lemma digits_value_nat_text: "digits_value (nat_text n) = n"
proof (induction n rule: nat_text.induct)
  case (1 n)
  show ?case
  proof (cases "n < 10")
    case True
    then show ?thesis by (simp add: nat_text.simps digits_value_def digit_char_ord)
  next
    case False
    then show ?thesis using 1 by (simp add: nat_text.simps [of n] digits_value_snoc digit_char_ord)
  qed
qed

lemma nat_text_digits: "list_all is_digit (nat_text n)"
proof (induction n rule: nat_text.induct)
  case (1 n)
  have d: "is_digit (digit_char k)" for k
    by (simp add: is_digit_def char_between_def digit_char_ord) (simp add: ord_def)
  show ?case using 1 by (simp add: nat_text.simps [of n] d)
qed

lemma nat_text_ne: "nat_text n \<noteq> []"
  by (simp add: nat_text.simps [of n])

lemma split_char_append: "split_char c (a @ c # b) = split_char c a @ split_char c b"
  by (induction a) (auto split: list.splits)

lemma split_char_whole: "c \<notin> set a \<Longrightarrow> split_char c a = [a]"
  by (induction a) auto

lemma split_char_parts: "l \<in> set (split_char c s) \<Longrightarrow> contains l s"
proof (induction s arbitrary: l)
  case Nil
  then show ?case by simp
next
  case (Cons d s)
  obtain w ws where sp: "split_char c s = w # ws" using split_char_ne by (metis list.exhaust)
  have starts: "starts_with w s" using join_split_char [of c s]
    by (cases ws) (auto simp: sp starts_with_iff)
  show ?case
  proof (cases "d = c \<or> l \<in> set ws")
    case True
    then have "l = [] \<or> l \<in> set (split_char c s)" using Cons.prems by (auto simp: sp split: if_splits)
    then show ?thesis
    proof
      assume "l = []" then show ?thesis by (simp add: starts_with_def)
    next
      assume "l \<in> set (split_char c s)"
      from Cons.IH [OF this] show ?thesis by simp
    qed
  next
    case False
    then have "l = d # w" using Cons.prems by (auto simp: sp)
    then show ?thesis using starts by (auto simp: starts_with_iff)
  qed
qed

lemma strip_chars_snoc: "strip_chars [c] (s @ [c]) = strip_chars [c] s"
proof (cases "\<forall>x \<in> set s. x = c")
  case True
  then show ?thesis by (auto simp: strip_chars_def strip_by_def rstrip_by_def lstrip_by_def dropWhile_append dest!: set_dropWhileD)
next
  case False
  then show ?thesis by (auto simp: strip_chars_def strip_by_def rstrip_by_def lstrip_by_def dropWhile_append)
qed

section \<open>Programs with errors and state\<close>

text \<open>
  A coroutine or method of the sources is a function of the state that returns either the exception
  it leaves with or its value, and the state it leaves behind: a raise keeps every effect so far.
\<close>

type_synonym ('w, 'x, 'a) prog = "'w \<Rightarrow> ('x + 'a) \<times> 'w"

definition ret :: "'a \<Rightarrow> ('w, 'x, 'a) prog" where
  "ret x w = (Inr x, w)"

definition raise :: "'x \<Rightarrow> ('w, 'x, 'a) prog" where
  "raise e w = (Inl e, w)"

definition bindE :: "('w, 'x, 'a) prog \<Rightarrow> ('a \<Rightarrow> ('w, 'x, 'b) prog) \<Rightarrow> ('w, 'x, 'b) prog" where
  "bindE m f w = (case m w of (Inl e, w') \<Rightarrow> (Inl e, w') | (Inr x, w') \<Rightarrow> f x w')"

definition thenE :: "('w, 'x, 'a) prog \<Rightarrow> ('w, 'x, 'b) prog \<Rightarrow> ('w, 'x, 'b) prog" where
  "thenE m k = bindE m (\<lambda>_. k)"

text \<open>\<open>tryE m h k\<close> is \<open>try: x = m\<close> with the handler \<open>h\<close> and the else branch
  \<open>k\<close>: exceptions of \<open>k\<close> are not caught.\<close>

definition tryE ::
  "('w, 'x, 'a) prog \<Rightarrow> ('x \<Rightarrow> ('w, 'x, 'b) prog) \<Rightarrow> ('a \<Rightarrow> ('w, 'x, 'b) prog) \<Rightarrow> ('w, 'x, 'b) prog" where
  "tryE m h k w = (case m w of (Inl e, w') \<Rightarrow> h e w' | (Inr x, w') \<Rightarrow> k x w')"

definition getS :: "('w \<Rightarrow> 'a) \<Rightarrow> ('w, 'x, 'a) prog" where
  "getS f w = (Inr (f w), w)"

definition modifyS :: "('w \<Rightarrow> 'w) \<Rightarrow> ('w, 'x, unit) prog" where
  "modifyS f w = (Inr (), f w)"

definition guardE :: "bool \<Rightarrow> 'x \<Rightarrow> ('w, 'x, unit) prog" where
  "guardE b e = (if b then ret () else raise e)"

definition whenE :: "bool \<Rightarrow> ('w, 'x, unit) prog \<Rightarrow> ('w, 'x, unit) prog" where
  "whenE b m = (if b then m else ret ())"

primrec forE :: "'a list \<Rightarrow> ('a \<Rightarrow> ('w, 'x, unit) prog) \<Rightarrow> ('w, 'x, unit) prog" where
  "forE [] f = ret ()"
| "forE (x # xs) f = thenE (f x) (forE xs f)"

primrec mapE :: "('a \<Rightarrow> ('w, 'x, 'b) prog) \<Rightarrow> 'a list \<Rightarrow> ('w, 'x, 'b list) prog" where
  "mapE f [] = ret []"
| "mapE f (x # xs) = bindE (f x) (\<lambda>y. bindE (mapE f xs) (\<lambda>ys. ret (y # ys)))"

text \<open>A program of a part of the state, run on the whole.\<close>

definition zoom ::
  "('w \<Rightarrow> 's) \<Rightarrow> ('s \<Rightarrow> 'w \<Rightarrow> 'w) \<Rightarrow> ('s, 'x, 'a) prog \<Rightarrow> ('w, 'x, 'a) prog" where
  "zoom get put m w = (case m (get w) of (r, s) \<Rightarrow> (r, put s w))"

lemmas prog_unfold =
  ret_def raise_def bindE_def thenE_def tryE_def getS_def modifyS_def guardE_def whenE_def zoom_def

declare prog_unfold [prog_simps]

lemma bindE_ret [simp]: "bindE (ret x) f = f x"
  by (rule ext) (simp add: prog_unfold)

lemma bindE_raise [simp]: "bindE (raise e) f = raise e"
  by (rule ext) (simp add: prog_unfold)

lemma bindE_Inr: "m w = (Inr x, w') \<Longrightarrow> bindE m f w = f x w'"
  by (simp add: bindE_def)

lemma bindE_Inl: "m w = (Inl e, w') \<Longrightarrow> bindE m f w = (Inl e, w')"
  by (simp add: bindE_def)

lemma thenE_Inr: "m w = (Inr x, w') \<Longrightarrow> thenE m k w = k w'"
  by (simp add: thenE_def bindE_def)

lemma thenE_Inl: "m w = (Inl e, w') \<Longrightarrow> thenE m k w = (Inl e, w')"
  by (simp add: thenE_def bindE_def)

lemma bindE_assoc: "bindE (bindE m f) g = bindE m (\<lambda>x. bindE (f x) g)"
  by (rule ext) (simp add: prog_unfold split: prod.splits sum.splits)

lemma bindE_ret_right [simp]: "bindE m ret = m"
  by (rule ext) (simp add: prog_unfold split: prod.splits sum.splits)

subsection \<open>Invariants of programs\<close>

definition hoare ::
  "('w \<Rightarrow> bool) \<Rightarrow> ('w \<Rightarrow> 'r \<times> 'w) \<Rightarrow> ('r \<Rightarrow> 'w \<Rightarrow> bool) \<Rightarrow> bool" where
  "hoare P m Q = (\<forall>w. P w \<longrightarrow> Q (fst (m w)) (snd (m w)))"

definition preserves :: "('w \<Rightarrow> bool) \<Rightarrow> ('w \<Rightarrow> 'r \<times> 'w) \<Rightarrow> bool" where
  "preserves I m = hoare I m (\<lambda>_. I)"

lemma preservesI: "(\<And>w. I w \<Longrightarrow> I (snd (m w))) \<Longrightarrow> preserves I m"
  by (simp add: preserves_def hoare_def)

lemma preservesD: "preserves I m \<Longrightarrow> I w \<Longrightarrow> I (snd (m w))"
  by (simp add: preserves_def hoare_def)

lemma preserves_ret [simp, preserves_intros]: "preserves I (ret x)"
  by (rule preservesI) (simp add: ret_def)

lemma preserves_raise [simp, preserves_intros]: "preserves I (raise e)"
  by (rule preservesI) (simp add: raise_def)

lemma preserves_getS [simp, preserves_intros]: "preserves I (getS f)"
  by (rule preservesI) (simp add: getS_def)

lemma preserves_modifyS [preserves_intros]: "(\<And>w. I w \<Longrightarrow> I (f w)) \<Longrightarrow> preserves I (modifyS f)"
  by (rule preservesI) (simp add: modifyS_def)

lemma preserves_bindE [preserves_intros]:
  assumes "preserves I m" and "\<And>x. preserves I (f x)"
  shows "preserves I (bindE m f)"
proof (rule preservesI)
  fix w assume "I w"
  then have "I (snd (m w))" by (rule preservesD [OF assms(1)])
  then show "I (snd (bindE m f w))"
    using preservesD [OF assms(2)] by (auto simp: bindE_def split: prod.splits sum.splits)
qed

lemma preserves_thenE [preserves_intros]:
  "preserves I m \<Longrightarrow> preserves I k \<Longrightarrow> preserves I (thenE m k)"
  by (simp add: thenE_def preserves_bindE)

lemma preserves_tryE [preserves_intros]:
  assumes "preserves I m" and "\<And>e. preserves I (h e)" and "\<And>x. preserves I (k x)"
  shows "preserves I (tryE m h k)"
proof (rule preservesI)
  fix w assume "I w"
  then have "I (snd (m w))" by (rule preservesD [OF assms(1)])
  then show "I (snd (tryE m h k w))"
    using preservesD [OF assms(2)] preservesD [OF assms(3)]
    by (auto simp: tryE_def split: prod.splits sum.splits)
qed

lemma preserves_guardE [simp, preserves_intros]: "preserves I (guardE b e)"
  by (simp add: guardE_def)

lemma preserves_whenE [preserves_intros]: "preserves I m \<Longrightarrow> preserves I (whenE b m)"
  by (simp add: whenE_def)

lemma preserves_if [preserves_intros]:
  "preserves I m \<Longrightarrow> preserves I k \<Longrightarrow> preserves I (if b then m else k)"
  by simp

lemma preserves_let [preserves_intros]: "preserves I (f x) \<Longrightarrow> preserves I (let y = x in f y)"
  by simp

lemma preserves_option [preserves_intros]:
  "preserves I m \<Longrightarrow> (\<And>x. preserves I (f x)) \<Longrightarrow> preserves I (case y of None \<Rightarrow> m | Some x \<Rightarrow> f x)"
  by (cases y) simp_all

lemma preserves_prod [preserves_intros]:
  "(\<And>a b. preserves I (f a b)) \<Longrightarrow> preserves I (case p of (a, b) \<Rightarrow> f a b)"
  by (cases p) simp

lemma preserves_forE [preserves_intros]: "(\<And>x. preserves I (f x)) \<Longrightarrow> preserves I (forE xs f)"
  by (induction xs) (simp_all add: preserves_thenE)

lemma preserves_mapE [preserves_intros]: "(\<And>x. preserves I (f x)) \<Longrightarrow> preserves I (mapE f xs)"
  by (induction xs) (simp_all add: preserves_bindE)

subsection \<open>What a program returns\<close>

text \<open>Every value the program returns satisfies \<open>Q\<close>.\<close>

definition yields :: "('w, 'x, 'a) prog \<Rightarrow> ('a \<Rightarrow> bool) \<Rightarrow> bool" where
  "yields m Q = (\<forall>w x w'. m w = (Inr x, w') \<longrightarrow> Q x)"

lemma yieldsI: "(\<And>w x w'. m w = (Inr x, w') \<Longrightarrow> Q x) \<Longrightarrow> yields m Q"
  by (simp add: yields_def)

lemma yieldsD: "yields m Q \<Longrightarrow> m w = (Inr x, w') \<Longrightarrow> Q x"
  unfolding yields_def by blast

lemma yields_weaken: "yields m P \<Longrightarrow> (\<And>x. P x \<Longrightarrow> Q x) \<Longrightarrow> yields m Q"
  unfolding yields_def by blast

lemma yields_any: "yields m (\<lambda>x. True)"
  by (simp add: yields_def)

lemma yields_ret: "Q x \<Longrightarrow> yields (ret x) Q"
  by (simp add: yields_def ret_def)

lemma yields_raise: "yields (raise e) Q"
  by (simp add: yields_def raise_def)

lemma yields_bindE: "yields m P \<Longrightarrow> (\<And>x. P x \<Longrightarrow> yields (f x) Q) \<Longrightarrow> yields (bindE m f) Q"
  unfolding yields_def bindE_def by (fastforce split: prod.splits sum.splits)

lemma yields_thenE: "yields k Q \<Longrightarrow> yields (thenE m k) Q"
  unfolding thenE_def by (rule yields_bindE [OF yields_any])

lemma yields_tryE:
  "yields m P \<Longrightarrow> (\<And>e. yields (h e) Q) \<Longrightarrow> (\<And>x. P x \<Longrightarrow> yields (k x) Q) \<Longrightarrow> yields (tryE m h k) Q"
  unfolding yields_def tryE_def by (fastforce split: prod.splits sum.splits)

lemma yields_mapE:
  "(\<And>x. x \<in> set xs \<Longrightarrow> yields (f x) (Q x)) \<Longrightarrow> yields (mapE f xs) (\<lambda>ys. list_all2 Q xs ys)"
  by (induction xs) (auto intro!: yields_ret yields_bindE)

end
