(* ===== verification/Errors.thy ===== *)
theory Errors
  imports Prelude
begin

text \<open>
  \<open>errors.py\<close>: the error every layer raises, its wire form and its HTTP status. A Python
  exception of any other class is a value of \<open>exn\<close> too, because the dispatcher turns those
  into errors of this class. At the raise sites of the other theories an error carries its code and
  its tags; the English message and hint are left empty there, except where the code reads them.
\<close>

section \<open>Codes\<close>

abbreviation VM_NOT_FOUND :: string where "VM_NOT_FOUND \<equiv> ''vm_not_found''"
abbreviation VM_NOT_RUNNING :: string where "VM_NOT_RUNNING \<equiv> ''vm_not_running''"
abbreviation GUEST_FROZEN :: string where "GUEST_FROZEN \<equiv> ''guest_frozen_by_debugger''"
abbreviation KD_NOT_ATTACHED :: string where "KD_NOT_ATTACHED \<equiv> ''kd_not_attached''"
abbreviation KD_ALREADY_ATTACHED :: string where "KD_ALREADY_ATTACHED \<equiv> ''kd_already_attached''"
abbreviation KD_NOT_BROKEN :: string where "KD_NOT_BROKEN \<equiv> ''kd_not_broken''"
abbreviation SESSION_NOT_FOUND :: string where "SESSION_NOT_FOUND \<equiv> ''session_not_found''"
abbreviation SESSION_DISCONNECTED :: string where "SESSION_DISCONNECTED \<equiv> ''session_disconnected''"
abbreviation SESSION_BUSY :: string where "SESSION_BUSY \<equiv> ''session_busy''"
abbreviation CONFIRM_REQUIRED :: string where "CONFIRM_REQUIRED \<equiv> ''confirm_required''"
abbreviation POLICY_DENIED :: string where "POLICY_DENIED \<equiv> ''policy_denied''"
abbreviation BACKEND_UNSUPPORTED :: string where "BACKEND_UNSUPPORTED \<equiv> ''backend_unsupported''"
abbreviation BACKEND_ERROR :: string where "BACKEND_ERROR \<equiv> ''backend_error''"
abbreviation SNAPSHOT_NOT_FOUND :: string where "SNAPSHOT_NOT_FOUND \<equiv> ''snapshot_not_found''"
abbreviation INVALID_ARGS :: string where "INVALID_ARGS \<equiv> ''invalid_args''"
abbreviation VERIFY_FAILED :: string where "VERIFY_FAILED \<equiv> ''verify_failed''"
abbreviation TIMEOUT :: string where "TIMEOUT \<equiv> ''timeout''"
abbreviation DAEMON_UNAVAILABLE :: string where "DAEMON_UNAVAILABLE \<equiv> ''daemon_unavailable''"
abbreviation UNAUTHORIZED :: string where "UNAUTHORIZED \<equiv> ''unauthorized''"
abbreviation VERSION_MISMATCH :: string where "VERSION_MISMATCH \<equiv> ''version_mismatch''"
abbreviation TOOL_NOT_FOUND :: string where "TOOL_NOT_FOUND \<equiv> ''tool_not_found''"
abbreviation INTERNAL :: string where "INTERNAL \<equiv> ''internal''"

abbreviation REASON_ENCRYPTED_LIVE :: string where
  "REASON_ENCRYPTED_LIVE \<equiv> ''encrypted_live_snapshot''"
abbreviation REASON_PASSWORD_REQUIRED :: string where
  "REASON_PASSWORD_REQUIRED \<equiv> ''password_required''"
abbreviation REASON_CONFIG_UNREADABLE :: string where
  "REASON_CONFIG_UNREADABLE \<equiv> ''config_unreadable''"
abbreviation REASON_SNAPSHOT_MISSING :: string where
  "REASON_SNAPSHOT_MISSING \<equiv> ''snapshot_missing''"
abbreviation REASON_SNAPSHOT_EXISTS :: string where
  "REASON_SNAPSHOT_EXISTS \<equiv> ''snapshot_name_exists''"
abbreviation REASON_GUEST_ACCESS :: string where
  "REASON_GUEST_ACCESS \<equiv> ''guest_access_denied''"
abbreviation REASON_SAVED_STATE_STALE :: string where
  "REASON_SAVED_STATE_STALE \<equiv> ''saved_state_stale''"

definition HTTP_STATUS :: "(string, int) dict" where
  "HTTP_STATUS =
    [(VM_NOT_FOUND, 404),
     (VM_NOT_RUNNING, 409),
     (GUEST_FROZEN, 409),
     (KD_NOT_ATTACHED, 409),
     (KD_ALREADY_ATTACHED, 409),
     (KD_NOT_BROKEN, 409),
     (SESSION_NOT_FOUND, 404),
     (SESSION_DISCONNECTED, 409),
     (SESSION_BUSY, 409),
     (CONFIRM_REQUIRED, 428),
     (POLICY_DENIED, 403),
     (BACKEND_UNSUPPORTED, 400),
     (BACKEND_ERROR, 502),
     (SNAPSHOT_NOT_FOUND, 404),
     (INVALID_ARGS, 400),
     (VERIFY_FAILED, 409),
     (TIMEOUT, 504),
     (UNAUTHORIZED, 401),
     (VERSION_MISMATCH, 409),
     (TOOL_NOT_FOUND, 404)]"

section \<open>Python's text of a value\<close>

text \<open>\<open>repr\<close> of a text: single quotes unless the text has one and no double quote.\<close>

definition hex_char :: "nat \<Rightarrow> char" where
  "hex_char n = (if n < 10 then cc (48 + n) else cc (87 + n))"

definition repr_char :: "char \<Rightarrow> char \<Rightarrow> string" where
  "repr_char q c =
     (if c = BSL then [BSL, BSL]
      else if c = q then [BSL, q]
      else if c = NL then [BSL, CHR ''n'']
      else if c = CR then [BSL, CHR ''r'']
      else if c = TAB then [BSL, CHR ''t'']
      else if ord c < 32 \<or> 127 \<le> ord c
        then [BSL, CHR ''x'', hex_char (ord c div 16), hex_char (ord c mod 16)]
      else [c])"

definition repr_str :: "string \<Rightarrow> string" where
  "repr_str s =
     (let q = (if SQ \<in> set s \<and> DQ \<notin> set s then DQ else SQ)
      in [q] @ concat (map (repr_char q) s) @ [q])"

fun py_repr :: "json \<Rightarrow> string" where
  "py_repr JNull = ''None''"
| "py_repr (JBool b) = (if b then ''True'' else ''False'')"
| "py_repr (JInt i) = int_text i"
| "py_repr (JStr s) = repr_str s"
| "py_repr (JList xs) = ''['' @ join_with '', '' (map py_repr xs) @ '']''"
| "py_repr (JDict d) =
     ''{'' @ join_with '', '' (map (\<lambda>(k, v). repr_str k @ '': '' @ py_repr v) d) @ ''}''"

definition py_str :: "json \<Rightarrow> string" where
  "py_str j = (case j of JStr s \<Rightarrow> s | _ \<Rightarrow> py_repr j)"

section \<open>The error class\<close>

record nt_error =
  err_code :: string
  err_message :: string
  err_hint :: string
  err_extra :: "(string, json) dict"

definition nt_err :: "string \<Rightarrow> nt_error" where
  "nt_err code = \<lparr>err_code = code, err_message = [], err_hint = [], err_extra = []\<rparr>"

definition nt_err_with :: "string \<Rightarrow> (string, json) dict \<Rightarrow> nt_error" where
  "nt_err_with code extra = \<lparr>err_code = code, err_message = [], err_hint = [], err_extra = extra\<rparr>"

lemma nt_err_sel [simp]:
  "err_code (nt_err c) = c" "err_extra (nt_err c) = []"
  "err_code (nt_err_with c x) = c" "err_extra (nt_err_with c x) = x"
  by (simp_all add: nt_err_def nt_err_with_def)

text \<open>Any exception a handler can leave with.\<close>

datatype exn =
    Nt nt_error
  | Timeout_Exn
  | Exn string

type_synonym ('w, 'a) app = "('w, exn, 'a) prog"

definition throw :: "string \<Rightarrow> ('w, 'a) app" where
  "throw code = raise (Nt (nt_err code))"

definition throw_with :: "string \<Rightarrow> (string, json) dict \<Rightarrow> ('w, 'a) app" where
  "throw_with code extra = raise (Nt (nt_err_with code extra))"

lemma preserves_throw [simp, preserves_intros]: "preserves I (throw c)"
  by (simp add: throw_def)

lemma preserves_throw_with [simp, preserves_intros]: "preserves I (throw_with c x)"
  by (simp add: throw_with_def)

declare throw_def [prog_simps] throw_with_def [prog_simps]

text \<open>\<open>except NtDriveError\<close> around a call, and \<open>contextlib.suppress(NtDriveError)\<close>.\<close>

definition catch_nt :: "('w, 'a) app \<Rightarrow> (nt_error \<Rightarrow> ('w, 'b) app) \<Rightarrow> ('a \<Rightarrow> ('w, 'b) app) \<Rightarrow> ('w, 'b) app" where
  "catch_nt m h k = tryE m (\<lambda>x. case x of Nt e \<Rightarrow> h e | _ \<Rightarrow> raise x) k"

definition suppress_nt :: "('w, unit) app \<Rightarrow> ('w, unit) app" where
  "suppress_nt m = catch_nt m (\<lambda>_. ret ()) ret"

lemma preserves_catch_nt [preserves_intros]:
  "preserves I m \<Longrightarrow> (\<And>e. preserves I (h e)) \<Longrightarrow> (\<And>x. preserves I (k x)) \<Longrightarrow>
   preserves I (catch_nt m h k)"
  unfolding catch_nt_def by (intro preserves_tryE) (auto split: exn.splits)

lemma preserves_suppress_nt [preserves_intros]: "preserves I m \<Longrightarrow> preserves I (suppress_nt m)"
  by (simp add: suppress_nt_def preserves_catch_nt)

definition status :: "nt_error \<Rightarrow> int" where
  "status e = opt_or (dict_get HTTP_STATUS (err_code e)) 500"

definition reason :: "nt_error \<Rightarrow> string" where
  "reason e = py_str (opt_or (dict_get (err_extra e) ''reason'') (JStr []))"

definition error_body :: "nt_error \<Rightarrow> (string, json) dict" where
  "error_body e =
     dict_update
       [(''code'', JStr (err_code e)), (''message'', JStr (err_message e)), (''hint'', JStr (err_hint e))]
       (err_extra e)"

definition to_dict :: "nt_error \<Rightarrow> (string, json) dict" where
  "to_dict e = [(''error'', JDict (error_body e))]"

text \<open>\<open>dict(x)\<close> of a JSON value: a mapping, or a list of pairs with text keys.\<close>

fun pair_of_json :: "json \<Rightarrow> (string \<times> json) option" where
  "pair_of_json (JList [JStr k, v]) = Some (k, v)"
| "pair_of_json _ = None"

fun dict_of_json :: "json \<Rightarrow> (string, json) dict option" where
  "dict_of_json (JDict d) = Some d"
| "dict_of_json (JStr s) = (if s = [] then Some [] else None)"
| "dict_of_json (JList xs) =
     (if list_all (\<lambda>x. pair_of_json x \<noteq> None) xs
      then Some (dict_update [] (map (the \<circ> pair_of_json) xs)) else None)"
| "dict_of_json _ = None"

definition pop_str :: "string \<Rightarrow> string \<Rightarrow> (string, json) dict \<Rightarrow> string" where
  "pop_str k dflt d = py_str (opt_or (dict_get d k) (JStr dflt))"

definition from_dict :: "(string, json) dict \<Rightarrow> exn + nt_error" where
  "from_dict data =
     (case dict_of_json (opt_or (dict_get data ''error'') (JDict data)) of
        None \<Rightarrow> Inl (Exn ''TypeError'')
      | Some err \<Rightarrow>
          let code = pop_str ''code'' INTERNAL err;
              err1 = dict_pop ''code'' err;
              message = pop_str ''message'' ''unknown error'' err1;
              err2 = dict_pop ''message'' err1;
              hint = pop_str ''hint'' [] err2;
              err3 = dict_pop ''hint'' err2
          in if dict_has err3 ''self'' then Inl (Exn ''TypeError'')
             else Inr \<lparr>err_code = code, err_message = message, err_hint = hint, err_extra = err3\<rparr>)"

definition error_text :: "nt_error \<Rightarrow> string" where
  "error_text e =
     (if err_hint e \<noteq> []
      then ''['' @ err_code e @ ''] '' @ err_message e @ '' (hint: '' @ err_hint e @ '')''
      else ''['' @ err_code e @ ''] '' @ err_message e)"

section \<open>The wire form keeps an error\<close>

text \<open>Keyword arguments of a constructor call: distinct names, none of the positional ones.\<close>

definition extra_ok :: "(string, json) dict \<Rightarrow> bool" where
  "extra_ok d =
     (distinct (map fst d) \<and>
      list_all (\<lambda>(k, v). k \<notin> {''code'', ''message'', ''hint'', ''self''}) d)"

lemma dict_update_append:
  "distinct (map fst (d @ upd)) \<Longrightarrow> dict_update d upd = d @ upd"
proof (induction upd arbitrary: d)
  case Nil
  then show ?case by (simp add: dict_update_def)
next
  case (Cons p upd)
  obtain k v where p: "p = (k, v)" by (cases p)
  have "\<not> dict_has d k" using Cons.prems by (force simp: p dict_has_def dest: map_of_SomeD)
  then have "dict_set k v d = d @ [(k, v)]" by (rule dict_set_fresh)
  moreover have "dict_update (d @ [(k, v)]) upd = d @ p # upd"
    using Cons.IH [of "d @ [(k, v)]"] Cons.prems by (simp add: p)
  ultimately show ?case by (simp add: dict_update_def p)
qed

lemma error_body_eq:
  assumes "extra_ok (err_extra e)"
  shows "error_body e =
    [(''code'', JStr (err_code e)), (''message'', JStr (err_message e)), (''hint'', JStr (err_hint e))]
      @ err_extra e"
  unfolding error_body_def
proof (rule dict_update_append)
  have "\<And>k. k \<in> fst ` set (err_extra e) \<Longrightarrow> k \<notin> {''code'', ''message'', ''hint'', ''self''}"
    using assms by (auto simp: extra_ok_def list_all_iff)
  then show "distinct (map fst ([(''code'', JStr (err_code e)), (''message'', JStr (err_message e)),
      (''hint'', JStr (err_hint e))] @ err_extra e))"
    using assms by (auto simp: extra_ok_def)
qed

lemma delete_absent: "k \<notin> fst ` set d \<Longrightarrow> dict_pop k d = d"
  by (induction d) auto

lemma from_to_dict:
  assumes "extra_ok (err_extra e)"
  shows "from_dict (to_dict e) = Inr e"
proof -
  have k: "k \<in> fst ` set (err_extra e) \<Longrightarrow> k \<notin> {''code'', ''message'', ''hint'', ''self''}" for k
    using assms by (auto simp: extra_ok_def list_all_iff)
  have absent: "''code'' \<notin> fst ` set (err_extra e)" "''message'' \<notin> fst ` set (err_extra e)"
    "''hint'' \<notin> fst ` set (err_extra e)" "''self'' \<notin> fst ` set (err_extra e)"
    using k by blast+
  have "dict_get (err_extra e) ''self'' = None"
    using absent(4) by (simp add: map_of_eq_None_iff)
  then show ?thesis
    using absent
    by (simp add: from_dict_def to_dict_def error_body_eq [OF assms] pop_str_def py_str_def
        delete_absent dict_has_def)
qed

section \<open>Results past a caught error\<close>

lemma yields_catch_nt:
  assumes "yields m P" "\<And>e. yields (h e) Q" "\<And>x. P x \<Longrightarrow> yields (k x) Q"
  shows "yields (catch_nt m h k) Q"
  unfolding catch_nt_def by (rule yields_tryE [OF assms(1)]) (auto simp: yields_raise assms split: exn.splits)

end
