(* ===== verification/Config.thy ===== *)
theory Config
  imports Errors
begin

text \<open>
  \<open>config.py\<close> and \<open>paths.py\<close>: the host and VM settings, how secrets are resolved,
  how vms.yaml is found and read, and how the KDNET settings are written back. A yaml file is what
  PyYAML makes of it: missing, unparsable or a value.
\<close>

section \<open>Host and guest settings\<close>

record host_config =
  h_vmrun :: string
  h_kd :: string
  h_kdnet :: string
  h_symbol_path :: string
  h_daemon_bind :: string
  h_log_dir :: string
  h_tool_timeout_max :: int
  h_ssh_connect_timeout :: int

definition DEFAULT_HOST :: host_config where
  "DEFAULT_HOST =
     \<lparr>h_vmrun = ''C:/Program Files (x86)/VMware/VMware Workstation/vmrun.exe'',
      h_kd = ''C:/Program Files (x86)/Windows Kits/10/Debuggers/x64/kd.exe'',
      h_kdnet = ''C:/Program Files (x86)/Windows Kits/10/Debuggers/x64/kdnet.exe'',
      h_symbol_path = ''srv*C:'' @ [BSL] @ ''symbols*https://msdl.microsoft.com/download/symbols'',
      h_daemon_bind = ''127.0.0.1:8765'',
      h_log_dir = [],
      h_tool_timeout_max = 600,
      h_ssh_connect_timeout = 10\<rparr>"

text \<open>\<open>daemon_bind.rsplit(':', 1)\<close>: the parts around the last colon.\<close>

definition rsplit_colon :: "string \<Rightarrow> string \<times> string option" where
  "rsplit_colon s =
     (if CHR '':'' \<in> set s
      then (let tail = takeWhile (\<lambda>c. c \<noteq> CHR '':'') (rev s)
            in (take (length s - length tail - 1) s, Some (rev tail)))
      else (s, None))"

definition bind_host :: "host_config \<Rightarrow> string" where
  "bind_host h = fst (rsplit_colon (h_daemon_bind h))"

definition bind_port :: "host_config \<Rightarrow> exn + nat" where
  "bind_port h =
     (case snd (rsplit_colon (h_daemon_bind h)) of
        None \<Rightarrow> Inl (Exn ''IndexError'')
      | Some p \<Rightarrow> if all_digits (py_strip p) then Inr (digits_value (py_strip p)) else Inl (Exn ''ValueError''))"

datatype account = Admin | Standard

definition account_text :: "account \<Rightarrow> string" where
  "account_text a = (case a of Admin \<Rightarrow> ''admin'' | Standard \<Rightarrow> ''standard'')"

record guest_config =
  g_user :: string
  g_password_env :: string
  g_password :: string
  g_standard_user :: string
  g_standard_password_env :: string
  g_standard_password :: string
  g_ssh_port :: int
  g_shell :: string

text \<open>The two places a secret can live: the User scope of the registry (on Windows) and the
  environment the process started with.\<close>

record env_vars =
  ev_win32 :: bool
  ev_registry :: "(string, string) dict"
  ev_process :: "(string, string) dict"

definition user_environment :: "env_vars \<Rightarrow> string \<Rightarrow> string" where
  "user_environment ev name = opt_or (dict_get (ev_registry ev) name) []"

definition secret_from_env :: "env_vars \<Rightarrow> string \<Rightarrow> string" where
  "secret_from_env ev name =
     (let value = (if ev_win32 ev then user_environment ev name else [])
      in if value \<noteq> [] then value else opt_or (dict_get (ev_process ev) name) [])"

definition resolve_secret :: "env_vars \<Rightarrow> string \<Rightarrow> string \<Rightarrow> string" where
  "resolve_secret ev env inline =
     (let value = (if env \<noteq> [] then secret_from_env ev env else [])
      in if value \<noteq> [] then value else inline)"

definition resolve_password :: "env_vars \<Rightarrow> guest_config \<Rightarrow> string" where
  "resolve_password ev g = resolve_secret ev (g_password_env g) (g_password g)"

definition resolve_standard_password :: "env_vars \<Rightarrow> guest_config \<Rightarrow> string" where
  "resolve_standard_password ev g =
     resolve_secret ev (g_standard_password_env g) (g_standard_password g)"

definition credentials :: "env_vars \<Rightarrow> guest_config \<Rightarrow> account \<Rightarrow> string \<times> string" where
  "credentials ev g a =
     (if a = Standard then (g_standard_user g, resolve_standard_password ev g)
      else (g_user g, resolve_password ev g))"

datatype kd_transport = Net | Serial

definition transport_text :: "kd_transport \<Rightarrow> string" where
  "transport_text t = (case t of Net \<Rightarrow> ''net'' | Serial \<Rightarrow> ''serial'')"

record kdnet_config =
  kn_port :: int
  kn_key :: string

definition DEFAULT_KDNET :: kdnet_config where
  "DEFAULT_KDNET = \<lparr>kn_port = 50000, kn_key = []\<rparr>"

record vm_config =
  vc_name :: string
  vc_backend :: string
  vc_vmx :: string
  vc_kdnet_hostip :: string
  vc_encryption_password_env :: string
  vc_encryption_password :: string
  vc_kd_transport :: kd_transport
  vc_serial_pipe :: string
  vc_guest :: guest_config
  vc_kdnet :: kdnet_config

definition resolved_serial_pipe :: "vm_config \<Rightarrow> string" where
  "resolved_serial_pipe vm =
     (if vc_serial_pipe vm \<noteq> [] then vc_serial_pipe vm
      else [BSL, BSL] @ ''.'' @ [BSL] @ ''pipe'' @ [BSL] @ ''ntdrive-'' @ vc_name vm)"

definition resolve_encryption_password :: "env_vars \<Rightarrow> vm_config \<Rightarrow> string" where
  "resolve_encryption_password ev vm =
     resolve_secret ev (vc_encryption_password_env vm) (vc_encryption_password vm)"

record nt_config =
  c_host :: host_config
  c_vms :: "(string, vm_config) dict"
  c_path :: string

definition config_vm :: "nt_config \<Rightarrow> string \<Rightarrow> exn + vm_config" where
  "config_vm c name =
     (case dict_get (c_vms c) name of
        Some vm \<Rightarrow> Inr vm
      | None \<Rightarrow> Inl (Nt (nt_err VM_NOT_FOUND)))"

section \<open>Finding and reading vms.yaml\<close>

definition find_config_path ::
  "(string \<Rightarrow> bool) \<Rightarrow> string \<Rightarrow> string \<Rightarrow> string \<Rightarrow> string option" where
  "find_config_path is_file state_dir env_config explicit =
     find is_file
       ((if explicit \<noteq> [] then [explicit] else []) @
        (if env_config \<noteq> [] then [env_config] else []) @ [state_dir @ ''/vms.yaml''])"

datatype yaml_file = Y_Missing | Y_Error | Y_Value json

definition read_raw_config :: "yaml_file \<Rightarrow> exn + (string, json) dict" where
  "read_raw_config f =
     (case f of
        Y_Missing \<Rightarrow> Inr []
      | Y_Error \<Rightarrow> Inl (Nt (nt_err INVALID_ARGS))
      | Y_Value v \<Rightarrow>
          if \<not> truthy v then Inr []
          else (case v of JDict d \<Rightarrow> Inr d | _ \<Rightarrow> Inl (Nt (nt_err INVALID_ARGS))))"

text \<open>\<open>body.setdefault('name', name)\<close> for every VM entry that is a mapping.\<close>

definition set_default :: "string \<Rightarrow> json \<Rightarrow> (string, json) dict \<Rightarrow> (string, json) dict" where
  "set_default k v d = (if dict_has d k then d else dict_set k v d)"

definition name_vms :: "(string, json) dict \<Rightarrow> (string, json) dict" where
  "name_vms vms =
     map (\<lambda>(name, body). (name, case body of JDict d \<Rightarrow> JDict (set_default ''name'' (JStr name) d) | _ \<Rightarrow> body)) vms"

text \<open>\<open>Config.model_validate\<close> is pydantic's, a parameter here.\<close>

definition load_config ::
  "(json \<Rightarrow> json \<Rightarrow> exn + nt_config) \<Rightarrow> (string \<Rightarrow> yaml_file) \<Rightarrow> string option \<Rightarrow> exn + nt_config" where
  "load_config validate read found =
     (case found of
        None \<Rightarrow> Inr \<lparr>c_host = DEFAULT_HOST, c_vms = [], c_path = []\<rparr>
      | Some path \<Rightarrow>
          (case read_raw_config (read path) of
             Inl e \<Rightarrow> Inl e
           | Inr raw \<Rightarrow>
               let vms_raw = opt_or (dict_get raw ''vms'') JNull;
                   host_raw = opt_or (dict_get raw ''host'') JNull;
                   host = (if truthy host_raw then host_raw else JDict [])
               in (case (if truthy vms_raw then vms_raw else JDict []) of
                     JDict vms \<Rightarrow>
                       (case validate host (JDict (name_vms vms)) of
                          Inl e \<Rightarrow> Inl e
                        | Inr c \<Rightarrow> Inr (c\<lparr>c_path := path\<rparr>))
                   | _ \<Rightarrow> Inl (Exn ''AttributeError''))))"

section \<open>Writing vms.yaml\<close>

text \<open>\<open>write_raw_config\<close>: the text of the file; \<open>dump\<close> is PyYAML's safe_dump.\<close>

definition CONFIG_HEADER :: string where
  "CONFIG_HEADER =
     ''# Written by ntdrive (ntdrive setup, kd_setup_guest). git-ignored: it names VM paths,'' @ [NL] @
     ''# accounts and the variables that hold passwords. `ntdrive setup` adds or changes a VM.'' @ [NL]"

definition raw_config_text :: "((string, json) dict \<Rightarrow> string) \<Rightarrow> (string, json) dict \<Rightarrow> string" where
  "raw_config_text dump data = CONFIG_HEADER @ dump data"

text \<open>The two field validators of \<open>VmConfig\<close>, and the log directory of \<open>HostConfig\<close>.\<close>

definition kdnet_empty_is_default :: "json \<Rightarrow> json" where
  "kdnet_empty_is_default j = (if j = JNull then JDict [] else j)"

definition backend_known :: "string \<Rightarrow> string" where
  "backend_known s = py_lower s"

definition resolved_log_dir :: "string \<Rightarrow> string \<Rightarrow> string" where
  "resolved_log_dir state_dir log_dir = (if log_dir \<noteq> [] then log_dir else state_dir @ ''/logs'')"

text \<open>The edit of the parsed file. \<open>setdefault\<close> and \<open>get\<close> on a value that is not a
  mapping raise AttributeError, item assignment on one raises TypeError.\<close>

definition kdnet_entry :: "int \<Rightarrow> string \<Rightarrow> (string, json) dict \<Rightarrow> exn + (string, json) dict" where
  "kdnet_entry port key entry =
     (let old = opt_or (dict_get entry ''kdnet'') JNull
      in case (if truthy old then old else JDict []) of
           JDict k \<Rightarrow> Inr (dict_set ''kdnet'' (JDict (dict_set ''key'' (JStr key) (dict_set ''port'' (JInt port) k))) entry)
         | _ \<Rightarrow> Inl (Exn ''TypeError''))"

definition kdnet_raw :: "string \<Rightarrow> int \<Rightarrow> string \<Rightarrow> (string, json) dict \<Rightarrow> exn + (string, json) dict" where
  "kdnet_raw vm_name port key raw =
     (case opt_or (dict_get raw ''vms'') (JDict []) of
        JDict vms \<Rightarrow>
          (case opt_or (dict_get vms vm_name) (JDict []) of
             JDict entry \<Rightarrow>
               (case kdnet_entry port key entry of
                  Inl e \<Rightarrow> Inl e
                | Inr entry' \<Rightarrow> Inr (dict_set ''vms'' (JDict (dict_set vm_name (JDict entry') vms)) raw))
           | _ \<Rightarrow> Inl (Exn ''AttributeError''))
      | _ \<Rightarrow> Inl (Exn ''AttributeError''))"

text \<open>The file is the first component of the state, the loaded configuration the second.\<close>

definition save_kdnet_settings ::
  "string \<Rightarrow> int \<Rightarrow> string \<Rightarrow> (yaml_file \<times> nt_config, unit) app" where
  "save_kdnet_settings vm_name port key st =
     (case st of (file, c) \<Rightarrow>
        if c_path c = [] then throw INVALID_ARGS st
        else (case read_raw_config file of
                Inl e \<Rightarrow> (Inl e, st)
              | Inr raw \<Rightarrow>
                  (case kdnet_raw vm_name port key raw of
                     Inl e \<Rightarrow> (Inl e, st)
                   | Inr raw' \<Rightarrow>
                       (case dict_get (c_vms c) vm_name of
                          None \<Rightarrow> (Inl (Exn ''KeyError''), (Y_Value (JDict raw'), c))
                        | Some vm \<Rightarrow>
                            (Inr (), (Y_Value (JDict raw'),
                              c\<lparr>c_vms := dict_set vm_name
                                (vm\<lparr>vc_kdnet := \<lparr>kn_port = port, kn_key = key\<rparr>\<rparr>) (c_vms c)\<rparr>))))))"

section \<open>Host paths\<close>

text \<open>\<open>os.path.abspath\<close> is the platform's, a parameter of \<open>absolutize_local\<close>.\<close>

definition ends_sep :: "string \<Rightarrow> bool" where
  "ends_sep s = (s \<noteq> [] \<and> last s \<in> {BSL, CHR ''/''})"

definition absolutize_local :: "(string \<Rightarrow> string) \<Rightarrow> char \<Rightarrow> string \<Rightarrow> string" where
  "absolutize_local abspath sep value =
     (let out = abspath value
      in if ends_sep value \<and> \<not> ends_sep out then out @ [sep] else out)"

definition is_absolute_local :: "(string \<Rightarrow> bool) \<Rightarrow> string \<Rightarrow> bool" where
  "is_absolute_local isabs value =
     (isabs value \<or> starts_with [BSL, BSL] value \<or> starts_with ''//'' value)"

section \<open>Facts\<close>

lemma kdnet_raw_lookup:
  assumes "kdnet_raw vm port key raw = Inr raw'"
  obtains vms' entry' kn where
    "dict_get raw' ''vms'' = Some (JDict vms')" "dict_get vms' vm = Some (JDict entry')"
    "dict_get entry' ''kdnet'' = Some (JDict kn)"
    "dict_get kn ''port'' = Some (JInt port)" "dict_get kn ''key'' = Some (JStr key)"
    "\<And>k. k \<noteq> ''vms'' \<Longrightarrow> dict_get raw' k = dict_get raw k"
  using assms
  by (auto simp: kdnet_raw_def kdnet_entry_def Let_def split: json.splits sum.splits if_splits)

lemma secret_registry_wins:
  "ev_win32 ev \<Longrightarrow> user_environment ev n \<noteq> [] \<Longrightarrow> secret_from_env ev n = user_environment ev n"
  by (simp add: secret_from_env_def Let_def)

lemma absolutize_keeps_separator:
  "sep \<in> {BSL, CHR ''/''} \<Longrightarrow> ends_sep value \<Longrightarrow> ends_sep (absolutize_local f sep value)"
  by (auto simp: absolutize_local_def ends_sep_def Let_def)

section \<open>A machine for the witnesses\<close>

definition sample_guest :: guest_config where
  "sample_guest =
     \<lparr>g_user = ''admin'', g_password_env = [], g_password = ''pw'', g_standard_user = [],
      g_standard_password_env = [], g_standard_password = [], g_ssh_port = 22, g_shell = ''powershell''\<rparr>"

definition sample_vm :: vm_config where
  "sample_vm =
     \<lparr>vc_name = ''win'', vc_backend = ''vmware'', vc_vmx = ''C:/vm/win.vmx'', vc_kdnet_hostip = [],
      vc_encryption_password_env = [], vc_encryption_password = [], vc_kd_transport = Net,
      vc_serial_pipe = [], vc_guest = sample_guest, vc_kdnet = DEFAULT_KDNET\<rparr>"

end
