(* ===== verification/Registry.thy ===== *)
theory Registry
  imports Errors
begin

text \<open>
  \<open>core/registry.py\<close>: the description of a tool and the ordered registry. The parameter
  model of a tool is its pydantic validator, a function from the arguments to the issues or to the
  attributes of the validated parameters; its handler is a program of the service state.
\<close>

datatype effect = Eff_Read | Eff_Additive | Eff_Destructive

definition effect_text :: "effect \<Rightarrow> string" where
  "effect_text e = (case e of Eff_Read \<Rightarrow> ''read'' | Eff_Additive \<Rightarrow> ''additive'' | Eff_Destructive \<Rightarrow> ''destructive'')"

definition TABLE_GROUP_ORDER :: "string list" where
  "TABLE_GROUP_ORDER = [''vm'', ''snap'', ''kd'', ''term'', ''con'', ''file'', ''sys'']"

text \<open>One issue of a validation error: where, and the message.\<close>

type_synonym issue = "string list \<times> string"
type_synonym attrs = "(string, json) dict"

record 'w tool_spec =
  ts_name :: string
  ts_description :: string
  ts_validate :: "json \<Rightarrow> issue list + attrs"
  ts_schema :: "(string, json) dict"
  ts_handler :: "attrs \<Rightarrow> ('w, json) app"
  ts_effect :: effect
  ts_positional :: "string list"
  ts_destructive :: bool
  ts_idempotent :: bool
  ts_long_poll :: bool
  ts_touches_guest :: bool

text \<open>\<open>name.split('_', 1)\<close>.\<close>

definition group_of :: "string \<Rightarrow> string" where
  "group_of name = takeWhile (\<lambda>c. c \<noteq> CHR ''_'') name"

definition verb_of :: "string \<Rightarrow> string" where
  "verb_of name = (if CHR ''_'' \<in> set name then tl (dropWhile (\<lambda>c. c \<noteq> CHR ''_'') name) else name)"

text \<open>\<open>input_schema\<close> strips the schema pydantic makes, which is a field of the spec here.\<close>

definition drop_null_default :: "json \<Rightarrow> json" where
  "drop_null_default prop =
     (case prop of
        JDict d \<Rightarrow> if dict_get d ''default'' = Some JNull then JDict (dict_pop ''default'' d) else prop
      | _ \<Rightarrow> prop)"

definition input_schema :: "'w tool_spec \<Rightarrow> (string, json) dict" where
  "input_schema spec =
     (let schema = dict_pop ''description'' (dict_pop ''title'' (ts_schema spec))
      in case dict_get schema ''properties'' of
           Some (JDict props) \<Rightarrow>
             dict_set ''properties'' (JDict (map (\<lambda>(k, v). (k, drop_null_default v)) props)) schema
         | _ \<Rightarrow> schema)"

definition spec_summary :: "'w tool_spec \<Rightarrow> (string, json) dict" where
  "spec_summary spec =
     [(''name'', JStr (ts_name spec)),
      (''group'', JStr (group_of (ts_name spec))),
      (''verb'', JStr (verb_of (ts_name spec))),
      (''description'', JStr (ts_description spec)),
      (''positional'', jstrs (ts_positional spec)),
      (''effect'', JStr (effect_text (ts_effect spec))),
      (''destructive'', JBool (ts_destructive spec)),
      (''idempotent'', JBool (ts_idempotent spec)),
      (''long_poll'', JBool (ts_long_poll spec)),
      (''input_schema'', JDict (input_schema spec))]"

section \<open>The registry\<close>

type_synonym 'w registry = "(string, 'w tool_spec) dict"

definition register :: "'w tool_spec \<Rightarrow> 'w registry \<Rightarrow> exn + 'w registry" where
  "register spec tools =
     (if dict_has tools (ts_name spec) then Inl (Exn ''ValueError'')
      else Inr (dict_set (ts_name spec) spec tools))"

definition registry_get :: "'w registry \<Rightarrow> string \<Rightarrow> 'w tool_spec option" where
  "registry_get tools name = dict_get tools name"

definition registry_names :: "'w registry \<Rightarrow> string list" where
  "registry_names tools = dict_keys tools"

primrec register_all :: "'w tool_spec list \<Rightarrow> 'w registry \<Rightarrow> exn + 'w registry" where
  "register_all [] tools = Inr tools"
| "register_all (s # ss) tools =
     (case register s tools of Inl e \<Rightarrow> Inl e | Inr tools' \<Rightarrow> register_all ss tools')"

definition add_to_group :: "'w tool_spec \<Rightarrow> (string, 'w tool_spec list) dict \<Rightarrow> (string, 'w tool_spec list) dict" where
  "add_to_group spec out =
     (let g = group_of (ts_name spec) in dict_set g (opt_or (dict_get out g) [] @ [spec]) out)"

definition groups :: "'w registry \<Rightarrow> (string, 'w tool_spec list) dict" where
  "groups tools = fold add_to_group (dict_values tools) []"

definition bar_to_slash :: "string \<Rightarrow> string" where
  "bar_to_slash s = map (\<lambda>c. if c = CHR ''|'' then CHR ''/'' else c) s"

definition table_row :: "'w tool_spec \<Rightarrow> string" where
  "table_row spec =
     ''| `'' @ ts_name spec @ ''` | '' @ effect_text (ts_effect spec) @ '' | '' @
     bar_to_slash (ts_description spec) @ '' |''"

definition group_order :: "(string, 'w tool_spec list) dict \<Rightarrow> string list" where
  "group_order gs =
     (let order = filter (dict_has gs) TABLE_GROUP_ORDER
      in order @ filter (\<lambda>g. g \<notin> set order) (dict_keys gs))"

definition markdown_table :: "'w registry \<Rightarrow> string" where
  "markdown_table tools =
     (let gs = groups tools
      in join_with [NL]
           ([''| Tool | Effect | What it does |'', ''|---|---|---|''] @
            concat (map (\<lambda>g. map table_row (opt_or (dict_get gs g) [])) (group_order gs))) @ [NL])"

section \<open>Facts\<close>

lemma group_verb:
  "CHR ''_'' \<in> set name \<Longrightarrow> name = group_of name @ ''_'' @ verb_of name"
proof -
  assume in_name: "CHR ''_'' \<in> set name"
  have split: "name = takeWhile (\<lambda>c. c \<noteq> CHR ''_'') name @ dropWhile (\<lambda>c. c \<noteq> CHR ''_'') name"
    by simp
  have "dropWhile (\<lambda>c. c \<noteq> CHR ''_'') name \<noteq> []" using in_name by (auto simp: dropWhile_eq_Nil_conv)
  moreover have "hd (dropWhile (\<lambda>c. c \<noteq> CHR ''_'') name) = CHR ''_''"
    using hd_dropWhile [OF calculation] by simp
  ultimately have "dropWhile (\<lambda>c. c \<noteq> CHR ''_'') name = CHR ''_'' # tl (dropWhile (\<lambda>c. c \<noteq> CHR ''_'') name)"
    by (metis list.collapse)
  then show ?thesis using split in_name by (simp add: group_of_def verb_of_def)
qed

text \<open>A registry holds every spec under its own name, once.\<close>

definition registry_ok :: "'w registry \<Rightarrow> bool" where
  "registry_ok tools =
     (distinct (map fst tools) \<and> (\<forall>(n, s) \<in> set tools. ts_name s = n))"

lemma registry_ok_Nil: "registry_ok []"
  by (simp add: registry_ok_def)

lemma register_append:
  "register spec tools = Inr tools' \<Longrightarrow> tools' = tools @ [(ts_name spec, spec)]"
  by (auto simp: register_def dict_set_fresh split: if_splits)

lemma register_ok:
  assumes "registry_ok tools" "register spec tools = Inr tools'"
  shows "registry_ok tools'"
proof -
  have "\<not> dict_has tools (ts_name spec)" using assms(2) by (auto simp: register_def split: if_splits)
  then have "ts_name spec \<notin> fst ` set tools" by (auto simp: dict_has_keys dict_keys_def)
  then show ?thesis
    using assms(1) register_append [OF assms(2)] by (auto simp: registry_ok_def)
qed

lemma register_all_ok:
  "registry_ok tools \<Longrightarrow> register_all specs tools = Inr tools' \<Longrightarrow> registry_ok tools'"
  by (induction specs arbitrary: tools) (auto split: sum.splits dest: register_ok)

lemma register_all_names:
  "register_all specs tools = Inr tools' \<Longrightarrow>
   registry_names tools' = registry_names tools @ map ts_name specs"
  by (induction specs arbitrary: tools)
    (auto simp: registry_names_def dict_keys_def split: sum.splits dest: register_append)

lemma registry_get_name:
  "registry_ok tools \<Longrightarrow> registry_get tools name = Some spec \<Longrightarrow> ts_name spec = name"
  by (auto simp: registry_ok_def registry_get_def dest!: map_of_SomeD)

end
