(* ===== verification/Policy.thy ===== *)
theory Policy
  imports Config Registry
begin

text \<open>
  \<open>core/policy.py\<close> and the policy file of \<open>config.py\<close>: allow, confirm or deny a call
  before it runs. The levels are linearly ordered by strictness, and the gate is monotone in them.
\<close>

datatype level = Allow | Confirm | Deny

definition level_rank :: "level \<Rightarrow> nat" where
  "level_rank l = (case l of Allow \<Rightarrow> 0 | Confirm \<Rightarrow> 1 | Deny \<Rightarrow> 2)"

instantiation level :: linorder
begin

definition less_eq_level :: "level \<Rightarrow> level \<Rightarrow> bool" where
  "less_eq_level a b = (level_rank a \<le> level_rank b)"

definition less_level :: "level \<Rightarrow> level \<Rightarrow> bool" where
  "less_level a b = (level_rank a < level_rank b)"

instance
proof
  fix a b c :: level
  show "(a < b) = (a \<le> b \<and> \<not> b \<le> a)" by (auto simp: less_eq_level_def less_level_def)
  show "a \<le> a" by (simp add: less_eq_level_def)
  show "a \<le> b \<Longrightarrow> b \<le> c \<Longrightarrow> a \<le> c" by (simp add: less_eq_level_def)
  show "a \<le> b \<Longrightarrow> b \<le> a \<Longrightarrow> a = b"
    by (cases a; cases b) (simp_all add: less_eq_level_def level_rank_def)
  show "a \<le> b \<or> b \<le> a" by (auto simp: less_eq_level_def)
qed

end

record policy_config =
  pc_default :: level
  pc_tools :: "(string, level) dict"

definition DEFAULT_POLICY :: policy_config where
  "DEFAULT_POLICY = \<lparr>pc_default = Allow, pc_tools = []\<rparr>"

text \<open>\<open>load_policy\<close>: policy.yaml next to vms.yaml, else in the state directory; the file
  system, PyYAML and pydantic's validation are parameters.\<close>

definition load_policy ::
  "(string \<Rightarrow> yaml_file) \<Rightarrow> (json \<Rightarrow> exn + policy_config) \<Rightarrow> (string \<Rightarrow> string) \<Rightarrow> string \<Rightarrow> nt_config \<Rightarrow> exn + policy_config" where
  "load_policy read validate sibling state_dir c =
     (case find (\<lambda>p. read p \<noteq> Y_Missing)
             ((if c_path c \<noteq> [] then [sibling (c_path c)] else []) @ [state_dir @ ''/policy.yaml'']) of
        None \<Rightarrow> Inr DEFAULT_POLICY
      | Some path \<Rightarrow>
          (case read path of
             Y_Value v \<Rightarrow> validate (if truthy v then v else JDict [])
           | _ \<Rightarrow> Inl (Exn ''YAMLError'')))"

definition policy_level :: "policy_config \<Rightarrow> 'w tool_spec \<Rightarrow> level" where
  "policy_level pc spec =
     (case dict_get (pc_tools pc) (ts_name spec) of
        Some l \<Rightarrow> l
      | None \<Rightarrow> if ts_destructive spec then Confirm else pc_default pc)"

definition policy_check :: "policy_config \<Rightarrow> 'w tool_spec \<Rightarrow> attrs \<Rightarrow> nt_error option" where
  "policy_check pc spec params =
     (let level = policy_level pc spec
      in if level = Deny then Some (nt_err POLICY_DENIED)
         else if level \<noteq> Confirm then None
         else
           let mode = opt_or (dict_get params ''mode'') JNull
           in if mode \<noteq> JNull \<and> mode \<notin> {JStr ''hard'', JStr ''kill''} then None
              else if \<not> dict_has params ''confirm'' then Some (nt_err POLICY_DENIED)
              else if truthy (opt_or (dict_get params ''confirm'') (JBool False)) then None
              else Some (nt_err CONFIRM_REQUIRED))"

section \<open>The gate\<close>

definition soft_mode :: "attrs \<Rightarrow> bool" where
  "soft_mode params =
     (case dict_get params ''mode'' of
        None \<Rightarrow> False
      | Some m \<Rightarrow> m \<noteq> JNull \<and> m \<noteq> JStr ''hard'' \<and> m \<noteq> JStr ''kill'')"

definition confirmed :: "attrs \<Rightarrow> bool" where
  "confirmed params = (case dict_get params ''confirm'' of None \<Rightarrow> False | Some c \<Rightarrow> truthy c)"

lemma policy_check_iff:
  "policy_check pc spec params = None \<longleftrightarrow>
     policy_level pc spec = Allow \<or>
     policy_level pc spec = Confirm \<and> (soft_mode params \<or> confirmed params)"
  by (cases "policy_level pc spec")
    (auto simp: policy_check_def Let_def soft_mode_def confirmed_def dict_has_def split: option.splits)

lemma policy_check_code:
  "policy_check pc spec params = Some e \<Longrightarrow> err_code e \<in> {POLICY_DENIED, CONFIRM_REQUIRED}"
  by (auto simp: policy_check_def Let_def split: if_splits)

lemma policy_check_mono:
  assumes "policy_level pc spec \<le> policy_level pc' spec" "policy_check pc' spec params = None"
  shows "policy_check pc spec params = None"
  using assms unfolding policy_check_iff
  by (cases "policy_level pc spec"; cases "policy_level pc' spec")
    (simp_all add: less_eq_level_def level_rank_def)

end
