(* ===== verification/Regex.thy ===== *)
theory Regex
  imports Prelude
begin

text \<open>
  The part of Python's \<open>re\<close> module the sources use: a backtracking matcher in continuation
  style for patterns whose repetitions are over character classes (every pattern of the sources has
  this shape), with groups, anchors and the greedy and lazy repetition order of Python, and
  \<open>match\<close>, \<open>fullmatch\<close>, \<open>search\<close>, \<open>finditer\<close>, \<open>sub\<close> and \<open>split\<close>
  on top of it. The lemmas bound every match by its subject text.
\<close>

section \<open>Patterns\<close>

datatype rx =
    REps
  | RSet "char \<Rightarrow> bool"
  | RSeq rx rx
  | RAlt rx rx
  | RStar "char \<Rightarrow> bool"
  | RLazy "char \<Rightarrow> bool"
  | RGroup nat rx
  | RBegin
  | RBeginLine
  | RDollar
  | RDollarLine
  | REnd
  | RBoundary

definition rlit :: "string \<Rightarrow> rx" where
  "rlit s = foldr (\<lambda>c r. RSeq (RSet (\<lambda>d. d = c)) r) s REps"

definition same_letter :: "char \<Rightarrow> char \<Rightarrow> bool" where
  "same_letter c d = (char_lower c = char_lower d)"

definition rlit_ci :: "string \<Rightarrow> rx" where
  "rlit_ci s = foldr (\<lambda>c r. RSeq (RSet (same_letter c)) r) s REps"

definition rplus :: "(char \<Rightarrow> bool) \<Rightarrow> rx" where
  "rplus p = RSeq (RSet p) (RStar p)"

definition ropt :: "rx \<Rightarrow> rx" where
  "ropt r = RAlt r REps"

definition rseq :: "rx list \<Rightarrow> rx" where
  "rseq rs = foldr RSeq rs REps"

primrec ralts :: "rx \<Rightarrow> rx list \<Rightarrow> rx" where
  "ralts r [] = r"
| "ralts r (q # qs) = RAlt r (ralts q qs)"

text \<open>\<open>p{lo,hi}\<close>, greedy.\<close>

primrec rupto :: "nat \<Rightarrow> (char \<Rightarrow> bool) \<Rightarrow> rx" where
  "rupto 0 p = REps"
| "rupto (Suc n) p = RAlt (RSeq (RSet p) (rupto n p)) REps"

definition rrange :: "nat \<Rightarrow> nat \<Rightarrow> (char \<Rightarrow> bool) \<Rightarrow> rx" where
  "rrange lo hi p = RSeq (rseq (replicate lo (RSet p))) (rupto (hi - lo) p)"

definition is_word :: "char \<Rightarrow> bool" where
  "is_word c = (is_alnum c \<or> c = CHR ''_'')"

definition not_nl :: "char \<Rightarrow> bool" where
  "not_nl c = (c \<noteq> NL)"

definition ci :: "(char \<Rightarrow> bool) \<Rightarrow> char \<Rightarrow> bool" where
  "ci p c = (p (char_lower c) \<or> p (char_upper c))"

text \<open>\<open>\s\<close> of a \<open>bytes\<close> or ASCII pattern.\<close>

definition rx_space :: "char \<Rightarrow> bool" where
  "rx_space c = is_space c"

section \<open>The matcher\<close>

type_synonym caps = "(nat \<times> string) list"
type_synonym 'r cont = "char option \<Rightarrow> string \<Rightarrow> caps \<Rightarrow> 'r option"

definition orelse :: "'a option \<Rightarrow> 'a option \<Rightarrow> 'a option" where
  "orelse x y = (case x of None \<Rightarrow> y | Some v \<Rightarrow> Some v)"

fun star_m :: "(char \<Rightarrow> bool) \<Rightarrow> 'r cont \<Rightarrow> char option \<Rightarrow> string \<Rightarrow> caps \<Rightarrow> 'r option" where
  "star_m p k prev [] cs = k prev [] cs"
| "star_m p k prev (c # s) cs =
     (if p c
      then (case star_m p k (Some c) s cs of Some r \<Rightarrow> Some r | None \<Rightarrow> k prev (c # s) cs)
      else k prev (c # s) cs)"

fun lazy_m :: "(char \<Rightarrow> bool) \<Rightarrow> 'r cont \<Rightarrow> char option \<Rightarrow> string \<Rightarrow> caps \<Rightarrow> 'r option" where
  "lazy_m p k prev [] cs = k prev [] cs"
| "lazy_m p k prev (c # s) cs =
     (case k prev (c # s) cs of
        Some r \<Rightarrow> Some r
      | None \<Rightarrow> if p c then lazy_m p k (Some c) s cs else None)"

definition word_edge :: "char option \<Rightarrow> string \<Rightarrow> bool" where
  "word_edge prev s =
     ((case prev of None \<Rightarrow> False | Some c \<Rightarrow> is_word c) \<noteq> (case s of [] \<Rightarrow> False | c # _ \<Rightarrow> is_word c))"

primrec rx_m :: "rx \<Rightarrow> 'r cont \<Rightarrow> char option \<Rightarrow> string \<Rightarrow> caps \<Rightarrow> 'r option" where
  "rx_m REps k prev s cs = k prev s cs"
| "rx_m (RSet p) k prev s cs =
     (case s of [] \<Rightarrow> None | c # s' \<Rightarrow> if p c then k (Some c) s' cs else None)"
| "rx_m (RSeq a b) k prev s cs = rx_m a (rx_m b k) prev s cs"
| "rx_m (RAlt a b) k prev s cs =
     (case rx_m a k prev s cs of Some r \<Rightarrow> Some r | None \<Rightarrow> rx_m b k prev s cs)"
| "rx_m (RStar p) k prev s cs = star_m p k prev s cs"
| "rx_m (RLazy p) k prev s cs = lazy_m p k prev s cs"
| "rx_m (RGroup n a) k prev s cs =
     rx_m a (\<lambda>prev' s' cs'. k prev' s' (AList.update n (take (length s - length s') s) cs')) prev s cs"
| "rx_m RBegin k prev s cs = (if prev = None then k prev s cs else None)"
| "rx_m RBeginLine k prev s cs = (if prev = None \<or> prev = Some NL then k prev s cs else None)"
| "rx_m RDollar k prev s cs = (if s = [] \<or> s = [NL] then k prev s cs else None)"
| "rx_m RDollarLine k prev s cs = (if s = [] \<or> hd s = NL then k prev s cs else None)"
| "rx_m REnd k prev s cs = (if s = [] then k prev s cs else None)"
| "rx_m RBoundary k prev s cs = (if word_edge prev s then k prev s cs else None)"

section \<open>Match objects and the module functions\<close>

record rx_match =
  m_start :: nat
  m_end :: nat
  m_text :: string
  m_caps :: caps

definition m_group :: "rx_match \<Rightarrow> nat \<Rightarrow> string option" where
  "m_group m n = (if n = 0 then Some (m_text m) else map_of (m_caps m) n)"

text \<open>The group of a match in which it always takes part.\<close>

definition group :: "rx_match \<Rightarrow> nat \<Rightarrow> string" where
  "group m n = opt_or (m_group m n) []"

definition rx_at :: "rx \<Rightarrow> nat \<Rightarrow> char option \<Rightarrow> string \<Rightarrow> rx_match option" where
  "rx_at r pos prev s =
     (case rx_m r (\<lambda>prev' s' cs. Some (s', cs)) prev s [] of
        None \<Rightarrow> None
      | Some (s', cs) \<Rightarrow>
          let n = length s - length s'
          in Some \<lparr>m_start = pos, m_end = pos + n, m_text = take n s, m_caps = cs\<rparr>)"

definition rx_match_at_start :: "rx \<Rightarrow> string \<Rightarrow> rx_match option" where
  "rx_match_at_start r s = rx_at r 0 None s"

definition rx_fullmatch :: "rx \<Rightarrow> string \<Rightarrow> rx_match option" where
  "rx_fullmatch r s = rx_at (RSeq r REnd) 0 None s"

fun rx_search_from :: "rx \<Rightarrow> nat \<Rightarrow> char option \<Rightarrow> string \<Rightarrow> rx_match option" where
  "rx_search_from r pos prev [] = rx_at r pos prev []"
| "rx_search_from r pos prev (c # s) =
     (case rx_at r pos prev (c # s) of
        Some m \<Rightarrow> Some m
      | None \<Rightarrow> rx_search_from r (Suc pos) (Some c) s)"

definition rx_search :: "rx \<Rightarrow> string \<Rightarrow> rx_match option" where
  "rx_search r s = rx_search_from r 0 None s"

definition rx_test :: "rx \<Rightarrow> string \<Rightarrow> bool" where
  "rx_test r s = (rx_search r s \<noteq> None)"

text \<open>\<open>finditer\<close> and \<open>sub\<close> for patterns that never match the empty text (all of the
  sources' do not): \<open>skip\<close> counts the characters of a match still to be passed over.\<close>

fun rx_scan :: "rx \<Rightarrow> nat \<Rightarrow> nat \<Rightarrow> char option \<Rightarrow> string \<Rightarrow> rx_match list" where
  "rx_scan r pos skip prev [] = []"
| "rx_scan r pos (Suc n) prev (c # s) = rx_scan r (Suc pos) n (Some c) s"
| "rx_scan r pos 0 prev (c # s) =
     (case rx_at r pos prev (c # s) of
        None \<Rightarrow> rx_scan r (Suc pos) 0 (Some c) s
      | Some m \<Rightarrow>
          if m_text m = [] then rx_scan r (Suc pos) 0 (Some c) s
          else m # rx_scan r (Suc pos) (length (m_text m) - 1) (Some c) s)"

definition rx_finditer :: "rx \<Rightarrow> string \<Rightarrow> rx_match list" where
  "rx_finditer r s = rx_scan r 0 0 None s"

fun rx_sub_aux :: "rx \<Rightarrow> (rx_match \<Rightarrow> string) \<Rightarrow> nat \<Rightarrow> nat \<Rightarrow> char option \<Rightarrow> string \<Rightarrow> string" where
  "rx_sub_aux r f pos skip prev [] = []"
| "rx_sub_aux r f pos (Suc n) prev (c # s) = rx_sub_aux r f (Suc pos) n (Some c) s"
| "rx_sub_aux r f pos 0 prev (c # s) =
     (case rx_at r pos prev (c # s) of
        None \<Rightarrow> c # rx_sub_aux r f (Suc pos) 0 (Some c) s
      | Some m \<Rightarrow>
          if m_text m = [] then c # rx_sub_aux r f (Suc pos) 0 (Some c) s
          else f m @ rx_sub_aux r f (Suc pos) (length (m_text m) - 1) (Some c) s)"

definition rx_sub :: "rx \<Rightarrow> string \<Rightarrow> string \<Rightarrow> string" where
  "rx_sub r by s = rx_sub_aux r (\<lambda>_. by) 0 0 None s"

text \<open>\<open>re.split\<close>: the pieces between the matches.\<close>

fun split_between :: "nat \<Rightarrow> rx_match list \<Rightarrow> string \<Rightarrow> string list" where
  "split_between from [] s = [drop from s]"
| "split_between from (m # ms) s = drop from (take (m_start m) s) # split_between (m_end m) ms s"

definition rx_split :: "rx \<Rightarrow> string \<Rightarrow> string list" where
  "rx_split r s = split_between 0 (rx_finditer r s) s"

section \<open>Bounds of matches\<close>

text \<open>A continuation result is a rest of the subject: \<open>within\<close> is the invariant of the
  matcher, carried through every pattern.\<close>

definition within :: "string \<Rightarrow> (string \<times> caps) option \<Rightarrow> bool" where
  "within s res = (case res of None \<Rightarrow> True | Some (s', _) \<Rightarrow> \<exists>u. s = u @ s')"

definition eaten :: "string \<Rightarrow> (string \<times> caps) option \<Rightarrow> bool" where
  "eaten s res = (case res of None \<Rightarrow> True | Some (s', _) \<Rightarrow> \<exists>u. u \<noteq> [] \<and> s = u @ s')"

text \<open>Both are closed under reading a character, and so carried through by the matcher.\<close>

definition carried :: "(string \<Rightarrow> 'r option \<Rightarrow> bool) \<Rightarrow> bool" where
  "carried R = ((\<forall>s. R s None) \<and> (\<forall>s c res. R s res \<longrightarrow> R (c # s) res))"

lemma carriedD: "carried R \<Longrightarrow> R s None" "carried R \<Longrightarrow> R s res \<Longrightarrow> R (c # s) res"
  by (auto simp: carried_def)

lemma carried_within: "carried within"
  unfolding carried_def within_def by (auto split: option.splits)

lemma carried_eaten: "carried eaten"
  unfolding carried_def eaten_def by (auto split: option.splits)

lemma carried_star:
  assumes R: "carried R" and k: "\<And>prev s cs. R s (k prev s cs)"
  shows "R s (star_m p k prev s cs)"
proof (induction s arbitrary: prev)
  case Nil
  then show ?case by (simp add: k)
next
  case (Cons c s)
  have "R (c # s) (star_m p k (Some c) s cs)" by (rule carriedD(2) [OF R Cons.IH])
  then show ?case using k [of "c # s" prev cs] by (auto split: option.splits)
qed

lemma carried_lazy:
  assumes R: "carried R" and k: "\<And>prev s cs. R s (k prev s cs)"
  shows "R s (lazy_m p k prev s cs)"
proof (induction s arbitrary: prev)
  case Nil
  then show ?case by (simp add: k)
next
  case (Cons c s)
  have "R (c # s) (lazy_m p k (Some c) s cs)" by (rule carriedD(2) [OF R Cons.IH])
  then show ?case using k [of "c # s" prev cs] carriedD(1) [OF R] by (auto split: option.splits)
qed

lemma carried_rx_m:
  assumes R: "carried R"
  shows "(\<And>prev s cs. R s (k prev s cs)) \<Longrightarrow> R s (rx_m r k prev s cs)"
proof (induction r arbitrary: k prev s cs)
  case (RSet p)
  then show ?case using carriedD [OF R] by (auto split: list.splits)
next
  case (RSeq a b)
  show ?case using RSeq.IH(1) [of "rx_m b k" s prev cs] RSeq.IH(2) [of k] RSeq.prems by simp
next
  case (RAlt a b)
  then show ?case by (auto split: option.splits) metis+
next
  case (RStar p)
  then show ?case by (simp add: carried_star [OF R])
next
  case (RLazy p)
  then show ?case by (simp add: carried_lazy [OF R])
next
  case (RGroup n a)
  then show ?case by simp
qed (simp_all add: carriedD(1) [OF R])

lemmas within_rx_m = carried_rx_m [OF carried_within]

text \<open>A pattern every match of which reads at least one character.\<close>

primrec consuming :: "rx \<Rightarrow> bool" where
  "consuming REps = False"
| "consuming (RSet p) = True"
| "consuming (RSeq a b) = (consuming a \<or> consuming b)"
| "consuming (RAlt a b) = (consuming a \<and> consuming b)"
| "consuming (RStar p) = False"
| "consuming (RLazy p) = False"
| "consuming (RGroup n a) = consuming a"
| "consuming RBegin = False"
| "consuming RBeginLine = False"
| "consuming RDollar = False"
| "consuming RDollarLine = False"
| "consuming REnd = False"
| "consuming RBoundary = False"

lemma eaten_rx_m:
  "consuming r \<Longrightarrow> (\<And>prev s cs. within s (k prev s cs)) \<Longrightarrow> eaten s (rx_m r k prev s cs)"
proof (induction r arbitrary: k prev s cs)
  case (RSet p)
  show ?case
  proof (cases s)
    case Nil
    then show ?thesis by (simp add: eaten_def)
  next
    case (Cons c s')
    have "eaten (c # s') (k (Some c) s' cs)"
      using RSet.prems(2) [of s' "Some c" cs]
      by (auto simp: within_def eaten_def split: option.splits)
    then show ?thesis using Cons by (simp add: eaten_def [of _ None])
  qed
next
  case (RSeq a b)
  show ?case
  proof (cases "consuming a")
    case True
    then show ?thesis
      using RSeq.IH(1) [of "rx_m b k" s prev cs] within_rx_m [of k _ b] RSeq.prems by simp
  next
    case False
    then have "\<And>prev s cs. eaten s (rx_m b k prev s cs)" using RSeq by simp
    then show ?thesis using carried_rx_m [OF carried_eaten, of "rx_m b k" s a prev cs] by simp
  qed
next
  case (RAlt a b)
  then show ?case by (auto split: option.splits) metis+
next
  case (RGroup n a)
  then show ?case by simp
qed simp_all

lemma rx_at_eats:
  assumes "consuming r" "rx_at r pos prev s = Some m"
  shows "m_text m \<noteq> []"
proof -
  have "eaten s (rx_m r (\<lambda>prev' s' cs. Some (s', cs)) prev s [])"
    by (rule eaten_rx_m [OF assms(1)]) (simp add: within_def)
  then show ?thesis using assms(2) by (auto simp: rx_at_def eaten_def Let_def split: option.splits)
qed

lemma rx_at_bounds:
  assumes "rx_at r pos prev s = Some m"
  shows "m_start m = pos" "m_end m = pos + length (m_text m)" "length (m_text m) \<le> length s"
    "m_text m = take (length (m_text m)) s"
proof -
  have w: "within s (rx_m r (\<lambda>prev' s' cs. Some (s', cs)) prev s [])"
    by (rule within_rx_m) (simp add: within_def)
  show "m_start m = pos" "m_end m = pos + length (m_text m)" "length (m_text m) \<le> length s"
    "m_text m = take (length (m_text m)) s"
    using assms w by (auto simp: rx_at_def within_def Let_def split: option.splits)
qed

lemma rx_search_from_bounds:
  "rx_search_from r pos prev s = Some m \<Longrightarrow>
   pos \<le> m_start m \<and> m_end m = m_start m + length (m_text m) \<and> m_end m \<le> pos + length s \<and>
   m_text m = take (length (m_text m)) (drop (m_start m - pos) s)"
proof (induction s arbitrary: pos prev)
  case Nil
  then show ?case using rx_at_bounds [of r pos prev "[]" m] by auto
next
  case (Cons c s)
  show ?case
  proof (cases "rx_at r pos prev (c # s)")
    case None
    then have "rx_search_from r (Suc pos) (Some c) s = Some m" using Cons.prems by simp
    from Cons.IH [OF this] show ?thesis by (auto simp: Suc_diff_le drop_Cons' Suc_le_eq)
  next
    case (Some m')
    then have "m' = m" using Cons.prems by simp
    then show ?thesis using rx_at_bounds [OF Some] by auto
  qed
qed

lemma rx_search_bounds:
  assumes "rx_search r s = Some m"
  shows "m_start m \<le> m_end m" "m_end m \<le> length s"
    "s = take (m_start m) s @ m_text m @ drop (m_end m) s"
proof -
  note b = rx_search_from_bounds [OF assms [unfolded rx_search_def]]
  show "m_start m \<le> m_end m" "m_end m \<le> length s" using b by auto
  have "m_text m = take (length (m_text m)) (drop (m_start m) s)" using b by simp
  then show "s = take (m_start m) s @ m_text m @ drop (m_end m) s"
    using b by (metis add.commute append_take_drop_id drop_drop)
qed

lemma rx_scan_text_ne: "m \<in> set (rx_scan r pos skip prev s) \<Longrightarrow> m_text m \<noteq> []"
  by (induction r pos skip prev s rule: rx_scan.induct) (auto split: option.splits if_splits)

text \<open>Where no position matches, substitution is the identity.\<close>

lemma rx_sub_aux_none:
  "rx_scan r pos 0 prev s = [] \<Longrightarrow> rx_sub_aux r f pos 0 prev s = s"
proof (induction s arbitrary: pos prev)
  case Nil
  then show ?case by simp
next
  case (Cons c s)
  then show ?case by (auto split: option.splits if_splits)
qed

lemma rx_sub_none: "rx_finditer r s = [] \<Longrightarrow> rx_sub r by s = s"
  by (simp add: rx_finditer_def rx_sub_def rx_sub_aux_none)

section \<open>Texts without a required character\<close>

text \<open>\<open>needs c r\<close>: every match of the pattern passes over the character.\<close>

primrec needs :: "char \<Rightarrow> rx \<Rightarrow> bool" where
  "needs c REps = False"
| "needs c (RSet p) = (\<forall>d. p d \<longrightarrow> d = c)"
| "needs c (RSeq a b) = (needs c a \<or> needs c b)"
| "needs c (RAlt a b) = (needs c a \<and> needs c b)"
| "needs c (RStar p) = False"
| "needs c (RLazy p) = False"
| "needs c (RGroup n a) = needs c a"
| "needs c RBegin = False"
| "needs c RBeginLine = False"
| "needs c RDollar = False"
| "needs c RDollarLine = False"
| "needs c REnd = False"
| "needs c RBoundary = False"

lemma rx_m_dead:
  assumes "\<And>prev' s' cs'. set s' \<subseteq> set s \<Longrightarrow> k prev' s' cs' = None"
  shows "rx_m r k prev s cs = None"
  using assms
proof (induction r arbitrary: k prev s cs)
  case (RSet p)
  have "set (tl s) \<subseteq> set s" by (cases s) auto
  then show ?case using RSet.prems by (cases s) auto
next
  case (RSeq a b)
  have "rx_m b k prev' s' cs' = None" if "set s' \<subseteq> set s" for prev' s' cs'
    using that by (intro RSeq.IH(2) RSeq.prems) blast
  then show ?case by (simp add: RSeq.IH(1))
next
  case (RStar p)
  then have "star_m p k prev s cs = None"
  proof (induction s arbitrary: prev)
    case (Cons c s)
    have "star_m p k (Some c) s cs = None" by (rule Cons.IH, rule Cons.prems) auto
    then show ?case using Cons.prems [of "c # s"] by simp
  qed simp
  then show ?case by simp
next
  case (RLazy p)
  then have "lazy_m p k prev s cs = None"
  proof (induction s arbitrary: prev)
    case (Cons c s)
    have "lazy_m p k (Some c) s cs = None" by (rule Cons.IH, rule Cons.prems) auto
    then show ?case using Cons.prems [of "c # s"] by simp
  qed simp
  then show ?case by simp
qed auto

lemma rx_m_needs: "needs c r \<Longrightarrow> c \<notin> set s \<Longrightarrow> rx_m r k prev s cs = None"
proof (induction r arbitrary: k prev s cs)
  case (RSeq a b)
  show ?case
  proof (cases "needs c a")
    case True
    then show ?thesis using RSeq by simp
  next
    case False
    then have "rx_m b k prev' s' cs' = None" if "set s' \<subseteq> set s" for prev' s' cs'
      using that RSeq.prems by (intro RSeq.IH(2)) auto
    then show ?thesis by (simp add: rx_m_dead)
  qed
qed (auto split: list.splits)

lemma rx_search_from_needs: "needs c r \<Longrightarrow> c \<notin> set s \<Longrightarrow> rx_search_from r pos prev s = None"
  by (induction r pos prev s rule: rx_search_from.induct) (auto simp: rx_at_def rx_m_needs)

lemma rx_search_needs: "needs c r \<Longrightarrow> c \<notin> set s \<Longrightarrow> rx_search r s = None"
  by (simp add: rx_search_def rx_search_from_needs)

lemma rx_test_needs: "needs c r \<Longrightarrow> c \<notin> set s \<Longrightarrow> \<not> rx_test r s"
  by (simp add: rx_test_def rx_search_needs)

section \<open>Repetitions over known text\<close>

definition after_text :: "char option \<Rightarrow> string \<Rightarrow> char option" where
  "after_text prev xs = (if xs = [] then prev else Some (last xs))"

lemma star_m_greedy:
  "list_all p xs \<Longrightarrow> ys = [] \<or> \<not> p (hd ys) \<Longrightarrow> k (after_text prev xs) ys cs = Some r \<Longrightarrow>
   star_m p k prev (xs @ ys) cs = Some r"
proof (induction xs arbitrary: prev)
  case Nil
  then show ?case by (cases ys) (auto simp: after_text_def)
next
  case (Cons x xs)
  then have "star_m p k (Some x) (xs @ ys) cs = Some r"
    by (intro Cons.IH) (auto simp: after_text_def split: if_splits)
  then show ?case using Cons.prems by simp
qed

text \<open>A greedy repetition that has to give back one character.\<close>

lemma star_m_but_last:
  "list_all p (xs @ [y]) \<Longrightarrow> (\<And>pv. k pv [] cs = None) \<Longrightarrow> k (after_text prev xs) [y] cs = Some r \<Longrightarrow>
   star_m p k prev (xs @ [y]) cs = Some r"
proof (induction xs arbitrary: prev)
  case Nil
  then show ?case by (simp add: after_text_def)
next
  case (Cons x xs)
  then have "star_m p k (Some x) (xs @ [y]) cs = Some r"
    by (intro Cons.IH) (auto simp: after_text_def split: if_splits)
  then show ?case using Cons.prems by simp
qed

lemma star_m_split:
  "star_m p k prev s cs = Some r \<Longrightarrow> \<exists>xs ys pv. s = xs @ ys \<and> list_all p xs \<and> k pv ys cs = Some r"
proof (induction p k prev s cs rule: star_m.induct)
  case (2 p k prev c s cs)
  show ?case
  proof (cases "p c \<and> star_m p k (Some c) s cs \<noteq> None")
    case True
    then have "star_m p k (Some c) s cs = Some r" using "2.prems" by auto
    then obtain xs ys pv where "s = xs @ ys" "list_all p xs" "k pv ys cs = Some r" using True "2.IH" by blast
    then show ?thesis using True by (intro exI [of _ "c # xs"] exI [of _ ys] exI [of _ pv]) simp
  next
    case False
    then have "k prev (c # s) cs = Some r" using "2.prems" by (auto split: if_splits)
    then show ?thesis by (intro exI [of _ "[]"] exI [of _ "c # s"] exI [of _ prev]) simp
  qed
qed auto

lemma rx_seq_star:
  "list_all p xs \<Longrightarrow> ys = [] \<or> \<not> p (hd ys) \<Longrightarrow> rx_m b k (after_text prev xs) ys cs = Some r \<Longrightarrow>
   rx_m (RSeq (RStar p) b) k prev (xs @ ys) cs = Some r"
  by (simp add: star_m_greedy)

lemma rx_seq_set:
  "p c \<Longrightarrow> rx_m b k (Some c) ys cs = Some r \<Longrightarrow> rx_m (RSeq (RSet p) b) k prev (c # ys) cs = Some r"
  by simp

section \<open>Patterns that begin with a literal\<close>

lemma rx_m_rlit:
  "rx_m (rlit m) k prev s cs = (if starts_with m s then k (after_text prev m) (drop (length m) s) cs else None)"
proof (induction m arbitrary: prev s)
  case Nil
  show ?case by (simp add: rlit_def starts_with_def after_text_def)
next
  case (Cons c m)
  have r: "rlit (c # m) = RSeq (RSet (\<lambda>d. d = c)) (rlit m)" by (simp add: rlit_def)
  show ?case
    by (cases s) (simp_all add: r Cons starts_with_def after_text_def)
qed

lemma rx_at_lit_none: "\<not> starts_with m s \<Longrightarrow> rx_at (RSeq (rlit m) r) pos prev s = None"
  by (simp add: rx_at_def rx_m_rlit)

lemma rx_search_from_lit_none: "\<not> contains m s \<Longrightarrow> rx_search_from (RSeq (rlit m) r) pos prev s = None"
proof (induction s arbitrary: pos prev)
  case Nil
  then show ?case by (simp add: rx_at_lit_none starts_with_def)
next
  case (Cons c s)
  then show ?case by (simp add: rx_at_lit_none)
qed

lemma rx_scan_lit_none: "\<not> contains m s \<Longrightarrow> rx_scan (RSeq (rlit m) r) pos 0 prev s = []"
  by (induction s arbitrary: pos prev) (simp_all add: rx_at_lit_none)

lemma rx_scan_lit_skip:
  assumes "\<And>i. i < length b \<Longrightarrow> \<not> starts_with m (drop i b @ t)"
  shows "rx_scan (RSeq (rlit m) r) pos 0 prev (b @ t) = rx_scan (RSeq (rlit m) r) (pos + length b) 0 (after_text prev b) t"
  using assms
proof (induction b arbitrary: pos prev)
  case Nil
  show ?case by (simp add: after_text_def)
next
  case (Cons c b)
  have "\<not> starts_with m (c # b @ t)" using Cons.prems [of 0] by simp
  moreover have "\<not> starts_with m (drop i b @ t)" if "i < length b" for i using Cons.prems [of "Suc i"] that by simp
  ultimately show ?case using Cons.IH [of "Suc pos" "Some c"] by (simp add: rx_at_lit_none after_text_def)
qed

lemma rx_scan_pass: "rx_scan r pos (length xs) prev (xs @ t) = rx_scan r (pos + length xs) 0 (after_text prev xs) t"
proof (induction xs arbitrary: pos prev)
  case Nil
  show ?case by (simp add: after_text_def)
next
  case (Cons x xs)
  show ?case using Cons [of "Suc pos" "Some x"] by (simp add: after_text_def)
qed

lemma rx_scan_hit:
  assumes "rx_at r pos prev (xs @ t) = Some m" and "m_text m = xs" and "xs \<noteq> []"
  shows "rx_scan r pos 0 prev (xs @ t) = m # rx_scan r (pos + length xs) 0 (after_text prev xs) t"
proof (cases xs)
  case (Cons c ys)
  then show ?thesis using assms rx_scan_pass [of r "Suc pos" ys "Some c" t] by (simp add: after_text_def)
qed (use assms in simp)

end
