(* ===== verification/State.thy ===== *)
theory State
  imports Errors
begin

text \<open>
  \<open>core/state.py\<close>: the in-memory record of every VM (power, debugger state, terminal
  sessions), created on first use, and its wire forms. Times are milliseconds.
\<close>

section \<open>Enumerations and events\<close>

datatype power_state = P_Off | P_Running | P_Suspended | P_Unknown

definition power_text :: "power_state \<Rightarrow> string" where
  "power_text p =
     (case p of P_Off \<Rightarrow> ''off'' | P_Running \<Rightarrow> ''running'' | P_Suspended \<Rightarrow> ''suspended'' | P_Unknown \<Rightarrow> ''unknown'')"

datatype kd_state = K_Detached | K_Waiting | K_Running | K_Broken

definition kd_state_text :: "kd_state \<Rightarrow> string" where
  "kd_state_text k =
     (case k of K_Detached \<Rightarrow> ''detached'' | K_Waiting \<Rightarrow> ''waiting'' | K_Running \<Rightarrow> ''running'' | K_Broken \<Rightarrow> ''broken'')"

type_synonym event = "(string, json) dict"

definition first_line :: "string \<Rightarrow> string" where
  "first_line text =
     (case filter (\<lambda>ln. ln \<noteq> []) (map py_strip (split_lines text)) of [] \<Rightarrow> [] | ln # _ \<Rightarrow> ln)"

definition summarize_kd_event :: "event option \<Rightarrow> event option" where
  "summarize_kd_event ev =
     (case ev of
        None \<Rightarrow> None
      | Some event \<Rightarrow>
          if event = [] then None
          else
            let s0 = [(''event'', opt_or (dict_get event ''event'') JNull)];
                s1 = (case dict_get event ''at'' of
                        None \<Rightarrow> s0
                      | Some at \<Rightarrow> if at = JNull then s0 else dict_set ''at'' at s0);
                s2 = (case dict_get event ''processor'' of None \<Rightarrow> s1 | Some p \<Rightarrow> dict_set ''processor'' p s1);
                s3 = (case dict_get event ''bugcheck'' of None \<Rightarrow> s2 | Some b \<Rightarrow> dict_set ''bugcheck'' b s2);
                first = first_line (py_str (opt_or (dict_get event ''output'') (JStr [])))
            in Some (if first \<noteq> [] then dict_set ''summary'' (JStr (take 160 first)) s3 else s3))"

datatype term_state = T_Open | T_Disconnected | T_Closed

definition term_state_text :: "term_state \<Rightarrow> string" where
  "term_state_text t =
     (case t of T_Open \<Rightarrow> ''open'' | T_Disconnected \<Rightarrow> ''disconnected'' | T_Closed \<Rightarrow> ''closed'')"

section \<open>Sessions and machines\<close>

record term_info =
  ti_session_id :: string
  ti_vm :: string
  ti_shell :: string
  ti_transport :: string
  ti_account :: string
  ti_state :: term_state
  ti_opened_at :: int
  ti_last_activity :: int
  ti_successor :: "string option"
  ti_coview_url :: string

definition term_info_dict :: "term_info \<Rightarrow> (string, json) dict" where
  "term_info_dict t =
     [(''session_id'', JStr (ti_session_id t)),
      (''vm'', JStr (ti_vm t)),
      (''shell'', JStr (ti_shell t)),
      (''transport'', JStr (ti_transport t)),
      (''account'', JStr (ti_account t)),
      (''state'', JStr (term_state_text (ti_state t))),
      (''opened_at'', JInt (ti_opened_at t)),
      (''last_activity'', JInt (ti_last_activity t)),
      (''successor'', jopt (ti_successor t))]"

record vm_runtime =
  rt_name :: string
  rt_power :: power_state
  rt_kd_state :: kd_state
  rt_kd_transport :: string
  rt_kd_port :: "int option"
  rt_kd_serial_pipe :: "string option"
  rt_kd_target_info :: string
  rt_kd_last_event :: "event option"
  rt_kd_log_path :: string
  rt_current_snapshot :: "string option"
  rt_terms :: "(string, term_info) dict"
  rt_last_event :: "event option"

definition fresh_runtime :: "string \<Rightarrow> vm_runtime" where
  "fresh_runtime name =
     \<lparr>rt_name = name, rt_power = P_Unknown, rt_kd_state = K_Detached, rt_kd_transport = ''net'',
      rt_kd_port = None, rt_kd_serial_pipe = None, rt_kd_target_info = [], rt_kd_last_event = None,
      rt_kd_log_path = [], rt_current_snapshot = None, rt_terms = [], rt_last_event = None\<rparr>"

definition guest_frozen :: "vm_runtime \<Rightarrow> bool" where
  "guest_frozen r = (rt_kd_state r = K_Broken)"

definition jevent :: "event option \<Rightarrow> json" where
  "jevent ev = (case ev of None \<Rightarrow> JNull | Some e \<Rightarrow> JDict e)"

definition runtime_dict :: "vm_runtime \<Rightarrow> (string, json) dict" where
  "runtime_dict r =
     [(''name'', JStr (rt_name r)),
      (''power'', JStr (power_text (rt_power r))),
      (''kd'', JDict
         [(''state'', JStr (kd_state_text (rt_kd_state r))),
          (''transport'', JStr (rt_kd_transport r)),
          (''port'', jopt_int (rt_kd_port r)),
          (''serial_pipe'', jopt (rt_kd_serial_pipe r)),
          (''target_info'', JStr (rt_kd_target_info r)),
          (''last_event'', jevent (summarize_kd_event (rt_kd_last_event r))),
          (''log_path'', JStr (rt_kd_log_path r))]),
      (''current_snapshot'', jopt (rt_current_snapshot r)),
      (''term_open'', JList (map (\<lambda>t. JStr (ti_session_id t))
         (filter (\<lambda>t. ti_state t = T_Open) (dict_values (rt_terms r))))),
      (''term_disconnected'', JList (map (\<lambda>t. JDict
           [(''session_id'', JStr (ti_session_id t)), (''successor'', jopt (ti_successor t))])
         (filter (\<lambda>t. ti_state t = T_Disconnected) (dict_values (rt_terms r))))),
      (''guest_frozen'', JBool (guest_frozen r)),
      (''last_event'', jevent (rt_last_event r))]"

section \<open>The store\<close>

record store =
  st_started_at :: int
  st_vms :: "(string, vm_runtime) dict"

definition empty_store :: "int \<Rightarrow> store" where
  "empty_store now = \<lparr>st_started_at = now, st_vms = []\<rparr>"

text \<open>\<open>self.vm(name)\<close>: the runtime, and the store with it present.\<close>

definition store_vm :: "string \<Rightarrow> store \<Rightarrow> vm_runtime \<times> store" where
  "store_vm name st =
     (case dict_get (st_vms st) name of
        Some r \<Rightarrow> (r, st)
      | None \<Rightarrow> (fresh_runtime name, st\<lparr>st_vms := dict_set name (fresh_runtime name) (st_vms st)\<rparr>))"

text \<open>The runtime a read of \<open>self.vm(name)\<close> sees, and an update of it in place.\<close>

definition vm_of :: "store \<Rightarrow> string \<Rightarrow> vm_runtime" where
  "vm_of st name = fst (store_vm name st)"

definition update_vm :: "string \<Rightarrow> (vm_runtime \<Rightarrow> vm_runtime) \<Rightarrow> store \<Rightarrow> store" where
  "update_vm name f st =
     (case store_vm name st of (r, st') \<Rightarrow> st'\<lparr>st_vms := dict_set name (f r) (st_vms st')\<rparr>)"

definition store_all :: "store \<Rightarrow> vm_runtime list" where
  "store_all st = dict_values (st_vms st)"

definition store_term :: "string \<Rightarrow> store \<Rightarrow> term_info option" where
  "store_term sid st = List.find (\<lambda>_. True) (List.map_filter (\<lambda>r. dict_get (rt_terms r) sid) (store_all st))"

text \<open>\<open>T+MM:SS.mmm\<close> of the milliseconds since the start, never before it.\<close>

definition t_plus :: "int \<Rightarrow> store \<Rightarrow> string" where
  "t_plus now st =
     (let elapsed = max 0 (now - st_started_at st);
          minutes = elapsed div 60000;
          rest = elapsed - minutes * 60000
      in ''T+'' @ pad_left 2 (CHR ''0'') (int_text minutes) @ '':'' @
         pad_left 2 (CHR ''0'') (int_text (rest div 1000)) @ ''.'' @
         pad_left 3 (CHR ''0'') (int_text (rest mod 1000)))"

definition make_event :: "int \<Rightarrow> string \<Rightarrow> event \<Rightarrow> store \<Rightarrow> event" where
  "make_event now kind data st =
     dict_update [(''kind'', JStr kind), (''at'', JInt now), (''t_plus'', JStr (t_plus now st))] data"

definition record_event :: "int \<Rightarrow> string \<Rightarrow> string \<Rightarrow> event \<Rightarrow> store \<Rightarrow> store" where
  "record_event now vm kind data st =
     update_vm vm (\<lambda>r. r\<lparr>rt_last_event := Some (make_event now kind data st)\<rparr>) st"

section \<open>Facts\<close>

lemma vm_of_update [simp]:
  "vm_of (update_vm name f st) n = (if n = name then f (vm_of st name) else vm_of st n)"
  by (auto simp: vm_of_def update_vm_def store_vm_def split: option.splits)

lemma store_vm_fst [simp]: "fst (store_vm name st) = vm_of st name"
  by (simp add: vm_of_def)

lemma vm_of_store_vm [simp]: "vm_of (snd (store_vm name st)) n = vm_of st n"
  by (auto simp: vm_of_def store_vm_def split: option.splits)

lemma update_vm_started [simp]: "st_started_at (update_vm n f st) = st_started_at st"
  by (auto simp: update_vm_def store_vm_def split: option.splits)

text \<open>The store maps every name to a runtime of that name, each once.\<close>

definition store_ok :: "store \<Rightarrow> bool" where
  "store_ok st =
     (distinct (dict_keys (st_vms st)) \<and> list_all (\<lambda>(n, r). rt_name r = n) (st_vms st))"

lemma distinct_dict_set: "distinct (dict_keys d) \<Longrightarrow> distinct (dict_keys (dict_set k v d))"
  by (auto simp: dict_keys_set dict_has_keys)

lemma list_all_dict_set:
  "list_all P d \<Longrightarrow> P (k, v) \<Longrightarrow> list_all P (dict_set k v d)"
  by (induction d) auto

lemma store_ok_empty: "store_ok (empty_store now)"
  by (simp add: store_ok_def empty_store_def dict_keys_def)

lemma store_ok_store_vm: "store_ok st \<Longrightarrow> store_ok (snd (store_vm n st))"
  by (auto simp: store_ok_def store_vm_def fresh_runtime_def distinct_dict_set list_all_dict_set
      split: option.splits)

lemma vm_of_name: "store_ok st \<Longrightarrow> rt_name (vm_of st n) = n"
  by (auto simp: vm_of_def store_vm_def store_ok_def fresh_runtime_def list_all_iff
      split: option.splits dest: map_of_SomeD)

lemma store_ok_update:
  assumes "store_ok st" "\<And>r. rt_name (f r) = rt_name r"
  shows "store_ok (update_vm n f st)"
proof -
  obtain r st' where sv: "store_vm n st = (r, st')" by (cases "store_vm n st")
  have "store_ok st'" using store_ok_store_vm [OF assms(1), of n] by (simp add: sv)
  moreover have "rt_name (f r) = n"
    using vm_of_name [OF assms(1), of n] assms(2) by (simp add: vm_of_def sv)
  ultimately show ?thesis
    by (simp add: update_vm_def sv store_ok_def distinct_dict_set list_all_dict_set)
qed

lemma store_ok_record_event: "store_ok st \<Longrightarrow> store_ok (record_event now vm kind data st)"
  by (simp add: record_event_def store_ok_update)

lemma record_event_read:
  "rt_last_event (vm_of (record_event now vm kind data st) vm) = Some (make_event now kind data st)"
  by (simp add: record_event_def)

lemma record_event_keeps [simp]:
  "rt_kd_state (vm_of (record_event now vm kind data st) n) = rt_kd_state (vm_of st n)"
  "rt_power (vm_of (record_event now vm kind data st) n) = rt_power (vm_of st n)"
  "rt_terms (vm_of (record_event now vm kind data st) n) = rt_terms (vm_of st n)"
  "rt_current_snapshot (vm_of (record_event now vm kind data st) n) = rt_current_snapshot (vm_of st n)"
  by (simp_all add: record_event_def)

end
