(* ===== verification/Audit_Log.thy ===== *)
theory Audit_Log
  imports Regex State
begin

text \<open>
  \<open>core/audit.py\<close>: one line of JSON per tool call, with the values under secret-looking keys
  masked and the tokens of URLs masked in the text of the result. \<open>json_dumps\<close> is Python's
  \<open>json.dumps(ensure_ascii=True)\<close> on the model's values.
\<close>

section \<open>Masking\<close>

definition SECRET_KEY :: rx where
  "SECRET_KEY =
     RSeq (RGroup 1 (ralts (rlit_ci ''password'') [rlit_ci ''passwd'', rlit_ci ''secret'', rlit_ci ''token'', rlit_ci ''key'']))
          RDollar"

definition secret_key :: "string \<Rightarrow> bool" where
  "secret_key k = rx_test SECRET_KEY k"

definition TOKEN_IN_TEXT :: rx where
  "TOKEN_IN_TEXT = RSeq (rlit ''token='') (rplus (\<lambda>c. c \<notin> {CHR ''&'', SQ, DQ, CHR '' ''}))"

definition STARS :: string where "STARS = ''***''"

fun mask_secrets :: "json \<Rightarrow> json" where
  "mask_secrets (JDict d) =
     JDict (map (\<lambda>(k, v). (k, if secret_key k \<and> v \<noteq> JNull \<and> v \<noteq> JStr [] then JStr STARS else mask_secrets v)) d)"
| "mask_secrets (JList xs) = JList (map mask_secrets xs)"
| "mask_secrets v = v"

section \<open>JSON text\<close>

definition json_char :: "char \<Rightarrow> string" where
  "json_char c =
     (if c = DQ then [BSL, DQ]
      else if c = BSL then [BSL, BSL]
      else if c = NL then [BSL, CHR ''n'']
      else if c = CR then [BSL, CHR ''r'']
      else if c = TAB then [BSL, CHR ''t'']
      else if c = CHR 0x08 then [BSL, CHR ''b'']
      else if c = CHR 0x0C then [BSL, CHR ''f'']
      else if ord c < 32 \<or> 126 < ord c
        then [BSL] @ ''u00'' @ [hex_char (ord c div 16), hex_char (ord c mod 16)]
      else [c])"

definition json_string :: "string \<Rightarrow> string" where
  "json_string s = [DQ] @ concat (map json_char s) @ [DQ]"

fun json_dumps :: "json \<Rightarrow> string" where
  "json_dumps JNull = ''null''"
| "json_dumps (JBool b) = (if b then ''true'' else ''false'')"
| "json_dumps (JInt i) = int_text i"
| "json_dumps (JStr s) = json_string s"
| "json_dumps (JList xs) = ''['' @ join_with '', '' (map json_dumps xs) @ '']''"
| "json_dumps (JDict d) =
     ''{'' @ join_with '', '' (map (\<lambda>(k, v). json_string k @ '': '' @ json_dumps v) d) @ ''}''"

section \<open>The log\<close>

definition result_text :: "json \<Rightarrow> string" where
  "result_text result =
     (let text = rx_sub TOKEN_IN_TEXT ''token=***'' (json_dumps (mask_secrets result))
      in if length text \<le> 2000 then text else take 2000 text @ ''...(truncated)'')"

text \<open>\<open>record\<close>: the entry, and the file as its list of lines.\<close>

record audit_args =
  au_tool :: string
  au_args :: json
  au_caller :: string
  au_ok :: bool
  au_elapsed :: int
  au_result :: "json option"
  au_error :: "(string, json) dict option"

definition audit_entry :: "int \<Rightarrow> string \<Rightarrow> audit_args \<Rightarrow> (string, json) dict" where
  "audit_entry now tplus a =
     (let entry =
        [(''ts'', JInt now), (''t_plus'', JStr tplus), (''tool'', JStr (au_tool a)),
         (''caller'', JStr (au_caller a)), (''args'', mask_secrets (au_args a)), (''ok'', JBool (au_ok a)),
         (''elapsed_ms'', JInt (au_elapsed a))]
      in case au_error a of
           Some e \<Rightarrow> dict_set ''error'' (JDict e) entry
         | None \<Rightarrow>
             (case au_result a of
                None \<Rightarrow> entry
              | Some r \<Rightarrow> dict_set ''result'' (JStr (result_text r)) entry))"

definition audit_record :: "int \<Rightarrow> string \<Rightarrow> audit_args \<Rightarrow> string list \<Rightarrow> string list" where
  "audit_record now tplus a lines = lines @ [json_dumps (JDict (audit_entry now tplus a))]"

section \<open>What masking promises\<close>

text \<open>No value under a secret-looking key survives: it is the stars, null or empty.\<close>

fun masked :: "json \<Rightarrow> bool" where
  "masked (JDict d) =
     list_all (\<lambda>(k, v). if secret_key k then v \<in> {JNull, JStr [], JStr STARS} else masked v) d"
| "masked (JList xs) = list_all masked xs"
| "masked v = True"

lemma mask_secrets_masked: "masked (mask_secrets j)"
proof (induction j rule: mask_secrets.induct)
  case (1 d)
  then show ?case
    by (auto simp: list_all_iff)
next
  case (2 xs)
  then show ?case by (auto simp: list_all_iff)
qed simp_all

lemma mask_secrets_fixed: "masked j \<Longrightarrow> mask_secrets j = j"
proof (induction j rule: mask_secrets.induct)
  case (1 d)
  have "map (\<lambda>(k, v). (k, if secret_key k \<and> v \<noteq> JNull \<and> v \<noteq> JStr [] then JStr STARS else mask_secrets v)) d = d"
  proof (rule map_idI)
    fix p assume p: "p \<in> set d"
    obtain k v where kv: "p = (k, v)" by (cases p)
    have m: "if secret_key k then v \<in> {JNull, JStr [], JStr STARS} else masked v"
      using "1.prems" p by (auto simp: kv list_all_iff)
    show "(case p of (k, v) \<Rightarrow> (k, if secret_key k \<and> v \<noteq> JNull \<and> v \<noteq> JStr [] then JStr STARS else mask_secrets v)) = p"
    proof (cases "secret_key k")
      case True
      then show ?thesis using m by (auto simp: kv)
    next
      case False
      then have "mask_secrets v = v" using "1.IH" [OF p kv [symmetric]] m by auto
      then show ?thesis using False by (simp add: kv)
    qed
  qed
  then show ?case by simp
next
  case (2 xs)
  then show ?case by (auto simp: list_all_iff intro: map_idI)
qed simp_all

lemma mask_secrets_idem: "mask_secrets (mask_secrets j) = mask_secrets j"
  by (rule mask_secrets_fixed) (rule mask_secrets_masked)

text \<open>A text of printable ASCII characters.\<close>

definition printable :: "string \<Rightarrow> bool" where
  "printable s = list_all (\<lambda>c. 32 \<le> ord c \<and> ord c \<le> 126) s"

lemma printable_append [simp]: "printable (a @ b) \<longleftrightarrow> printable a \<and> printable b"
  by (simp add: printable_def)

lemma printable_concat: "(\<And>x. x \<in> set xs \<Longrightarrow> printable x) \<Longrightarrow> printable (concat xs)"
  by (induction xs) (auto simp: printable_def)

lemma printable_join: "printable sep \<Longrightarrow> (\<And>x. x \<in> set xs \<Longrightarrow> printable x) \<Longrightarrow> printable (join_with sep xs)"
  by (induction sep xs rule: join_with.induct) (auto simp: printable_def)

lemma printable_hex_char: "n < 16 \<Longrightarrow> 32 \<le> ord (hex_char n) \<and> ord (hex_char n) \<le> 126"
  by (simp add: hex_char_def)

lemma ord_less [simp]: "ord c < 256"
  by (simp add: ord_def)

lemma printable_json_char: "printable (json_char c)"
proof (cases "ord c < 32 \<or> 126 < ord c")
  case True
  have "ord c div 16 < 16" using ord_less [of c] by (simp add: less_mult_imp_div_less)
  then have "32 \<le> ord (hex_char (ord c div 16)) \<and> ord (hex_char (ord c div 16)) \<le> 126"
    "32 \<le> ord (hex_char (ord c mod 16)) \<and> ord (hex_char (ord c mod 16)) \<le> 126"
    by (simp_all add: printable_hex_char)
  then show ?thesis unfolding json_char_def printable_def by (simp add: ord_def)
next
  case False
  then show ?thesis unfolding json_char_def printable_def by (simp add: ord_def)
qed

lemma printable_json_string: "printable (json_string s)"
proof -
  have "printable (concat (map json_char s))"
    by (rule printable_concat) (auto simp: printable_json_char)
  moreover have "printable [DQ]" by (simp add: printable_def ord_def)
  ultimately show ?thesis unfolding json_string_def printable_append by blast
qed

lemma printable_nat_text: "printable (nat_text n)"
proof (induction n rule: nat_text.induct)
  case (1 n)
  have d: "printable [digit_char n]" by (simp add: printable_def digit_char_def)
  show ?case
  proof (cases "n < 10")
    case True
    then show ?thesis using d by (simp add: nat_text.simps [of n])
  next
    case False
    then have "nat_text n = nat_text (n div 10) @ [digit_char n]" by (simp add: nat_text.simps [of n])
    then show ?thesis using d 1 False by (metis printable_append)
  qed
qed

lemma printable_int_text: "printable (int_text i)"
proof (cases "i < 0")
  case True
  then have "int_text i = [CHR ''-''] @ nat_text (nat (- i))" by (simp add: int_text_def)
  moreover have "printable [CHR ''-'']" by (simp add: printable_def ord_def)
  ultimately show ?thesis using printable_nat_text by (metis printable_append)
next
  case False
  then show ?thesis by (simp add: int_text_def printable_nat_text)
qed

lemma printable_json_dumps: "printable (json_dumps j)"
proof (induction j rule: json_dumps.induct)
  case (5 xs)
  have "printable (join_with '', '' (map json_dumps xs))"
    using 5 by (intro printable_join) (auto simp: printable_def ord_def)
  moreover have "printable ''[''" "printable '']''" by (simp_all add: printable_def ord_def)
  ultimately show ?case unfolding json_dumps.simps printable_append by blast
next
  case (6 d)
  have pair: "printable (json_string k @ '': '' @ json_dumps v)" if "(k, v) \<in> set d" for k v
  proof -
    have "printable '': ''" by (simp add: printable_def ord_def)
    moreover have "printable (json_dumps v)" using 6 that by blast
    ultimately show ?thesis unfolding printable_append using printable_json_string by blast
  qed
  have "printable (join_with '', '' (map (\<lambda>(k, v). json_string k @ '': '' @ json_dumps v) d))"
    using pair by (intro printable_join) (auto simp: printable_def [of "[_, _]"] ord_def)
  moreover have "printable ''{''" "printable ''}''" by (simp_all add: printable_def ord_def)
  ultimately show ?case unfolding json_dumps.simps printable_append by blast
qed (simp_all add: printable_int_text printable_json_string, simp_all add: printable_def ord_def)

end
