(* ===== verification/Dispatch.thy ===== *)
theory Dispatch
  imports Policy Audit_Log
begin

text \<open>
  \<open>NtDriveService.call\<close> of \<open>core/service.py\<close>, the one entry point of every front
  door: validate, gate, cap the timeout, run the handler, write one audit line. It is generic in the
  state the handlers work on; the registry, the policy, the cap and the clocks are its parameters.
\<close>

record 'w dispatcher =
  dp_registry :: "'w registry"
  dp_policy :: policy_config
  dp_timeout_max :: int
  dp_now :: "'w \<Rightarrow> int"
  dp_mono :: "'w \<Rightarrow> int"
  dp_t_plus :: "'w \<Rightarrow> string"

record 'w service_state =
  sv_inner :: 'w
  sv_audit :: "string list"

definition issue_text :: "issue list \<Rightarrow> string" where
  "issue_text issues = join_with ''; '' (map (\<lambda>(loc, msg). join_with ''.'' loc @ '': '' @ msg) issues)"

definition confirm_hint :: "'w registry \<Rightarrow> issue list \<Rightarrow> string" where
  "confirm_hint tools issues =
     (if list_ex (\<lambda>(loc, msg). loc = [''confirm'']) issues
      then ''this tool has no confirm flag, only '' @
           join_with '', '' (map ts_name (filter ts_destructive (dict_values tools))) @
           '' take confirm=true (vm_stop and vm_reboot only for mode=hard or kill)''
      else [])"

definition invalid_args :: "'w registry \<Rightarrow> string \<Rightarrow> issue list \<Rightarrow> nt_error" where
  "invalid_args tools name issues =
     \<lparr>err_code = INVALID_ARGS,
      err_message = ''invalid arguments for '' @ name @ '': '' @ issue_text issues,
      err_hint = confirm_hint tools issues, err_extra = []\<rparr>"

definition cap_timeout :: "int \<Rightarrow> attrs \<Rightarrow> exn + attrs" where
  "cap_timeout cap params =
     (case dict_get params ''timeout'' of
        None \<Rightarrow> Inr params
      | Some (JInt t) \<Rightarrow> Inr (if cap < t then dict_set ''timeout'' (JInt cap) params else params)
      | Some v \<Rightarrow> Inl (Exn ''TypeError''))"

definition run_tool :: "'w dispatcher \<Rightarrow> 'w tool_spec \<Rightarrow> json \<Rightarrow> ('w, json) app" where
  "run_tool D spec args =
     (case ts_validate spec (if truthy args then args else JDict []) of
        Inl issues \<Rightarrow> raise (Nt (invalid_args (dp_registry D) (ts_name spec) issues))
      | Inr params \<Rightarrow>
          (case policy_check (dp_policy D) spec params of
             Some e \<Rightarrow> raise (Nt e)
           | None \<Rightarrow>
               (case cap_timeout (dp_timeout_max D) params of
                  Inl x \<Rightarrow> raise x
                | Inr params' \<Rightarrow> ts_handler spec params')))"

text \<open>The audit line of a call that left the handlers' state \<open>w\<close> behind.\<close>

definition log_call :: "'w dispatcher \<Rightarrow> audit_args \<Rightarrow> 'w \<Rightarrow> string list \<Rightarrow> 'w service_state" where
  "log_call D a w lines =
     \<lparr>sv_inner = w, sv_audit = audit_record (dp_now D w) (dp_t_plus D w) a lines\<rparr>"

definition crash_error :: "exn \<Rightarrow> nt_error" where
  "crash_error x = (case x of Nt e \<Rightarrow> e | Timeout_Exn \<Rightarrow> nt_err TIMEOUT | Exn _ \<Rightarrow> nt_err INTERNAL)"

definition call :: "'w dispatcher \<Rightarrow> string \<Rightarrow> json \<Rightarrow> string \<Rightarrow> ('w service_state, json) app" where
  "call D name args caller sv =
     (case registry_get (dp_registry D) name of
        None \<Rightarrow> throw TOOL_NOT_FOUND sv
      | Some spec \<Rightarrow>
          let started = dp_mono D (sv_inner sv);
              (r, w) = run_tool D spec args (sv_inner sv);
              elapsed = dp_mono D w - started;
              base = \<lparr>au_tool = name, au_args = args, au_caller = caller, au_ok = False,
                      au_elapsed = elapsed, au_result = None, au_error = None\<rparr>
          in case r of
               Inr result \<Rightarrow>
                 (Inr result, log_call D (base\<lparr>au_ok := True, au_result := Some result\<rparr>) w (sv_audit sv))
             | Inl (Nt e) \<Rightarrow>
                 (Inl (Nt e), log_call D (base\<lparr>au_error := Some (error_body e)\<rparr>) w (sv_audit sv))
             | Inl Timeout_Exn \<Rightarrow>
                 (Inl (Nt (nt_err TIMEOUT)),
                  log_call D (base\<lparr>au_elapsed := 0, au_error := Some (error_body (nt_err TIMEOUT))\<rparr>) w (sv_audit sv))
             | Inl (Exn t) \<Rightarrow>
                 (Inl (Nt (nt_err INTERNAL)),
                  log_call D (base\<lparr>au_elapsed := 0, au_error := Some (error_body (nt_err INTERNAL))\<rparr>) w (sv_audit sv)))"

section \<open>Facts\<close>

lemma cap_timeout_bound:
  "cap_timeout cap params = Inr params' \<Longrightarrow> dict_get params' ''timeout'' = Some (JInt t) \<Longrightarrow> t \<le> cap"
  by (auto simp: cap_timeout_def split: option.splits json.splits if_splits)

lemma cap_timeout_keeps:
  "cap_timeout cap params = Inr params' \<Longrightarrow> k \<noteq> ''timeout'' \<Longrightarrow> dict_get params' k = dict_get params k"
  by (auto simp: cap_timeout_def split: option.splits json.splits if_splits)

lemma call_unknown: "registry_get (dp_registry D) name = None \<Longrightarrow> call D name args caller sv = throw TOOL_NOT_FOUND sv"
  by (simp add: call_def)

text \<open>What a call of a known tool makes of its handler's outcome.\<close>

lemma call_known:
  assumes "registry_get (dp_registry D) name = Some spec"
    and "run_tool D spec args (sv_inner sv) = (r, w)"
  obtains a where
    "snd (call D name args caller sv) = log_call D a w (sv_audit sv)"
    "au_tool a = name" "au_args a = args" "au_caller a = caller"
    "au_ok a = (case r of Inr _ \<Rightarrow> True | Inl _ \<Rightarrow> False)"
    "fst (call D name args caller sv) =
       (case r of Inr v \<Rightarrow> Inr v | Inl x \<Rightarrow> Inl (Nt (crash_error x)))"
    "au_result a = (case r of Inr v \<Rightarrow> Some v | Inl _ \<Rightarrow> None)"
    "au_error a = (case r of Inr _ \<Rightarrow> None | Inl x \<Rightarrow> Some (error_body (crash_error x)))"
proof (cases r)
  case (Inl x)
  then show ?thesis using assms that by (cases x) (auto simp: call_def Let_def crash_error_def)
next
  case (Inr v)
  then show ?thesis using assms that by (auto simp: call_def Let_def)
qed

lemma run_tool_denied:
  assumes "ts_validate spec (if truthy args then args else JDict []) = Inr params"
    and "policy_check (dp_policy D) spec params = Some e"
  shows "run_tool D spec args w = (Inl (Nt e), w)"
  using assms by (simp add: run_tool_def raise_def)

lemma run_tool_runs:
  assumes "run_tool D spec args w = (r, w')" "w' \<noteq> w \<or> (\<exists>v. r = Inr v)"
  obtains params params' where
    "ts_validate spec (if truthy args then args else JDict []) = Inr params"
    "policy_check (dp_policy D) spec params = None"
    "cap_timeout (dp_timeout_max D) params = Inr params'"
    "ts_handler spec params' w = (r, w')"
  using assms by (auto simp: run_tool_def raise_def split: sum.splits option.splits)

section \<open>Properties of the dispatcher\<close>

text \<open>
  C1. Every call of a known tool leaves exactly one line in the audit log, whatever the outcome: it
  names the tool, the caller and the arguments, it says ok exactly when the caller gets a result, and
  a failure leaves the dispatcher as an NtDriveError whose body is in the line.
\<close>

theorem call_audited:
  assumes "registry_get (dp_registry D) name = Some spec"
    and "call D name args caller sv = (r, sv')"
  shows "\<exists>a :: audit_args. sv_audit sv' =
           sv_audit sv @ [json_dumps (JDict (audit_entry (dp_now D (sv_inner sv')) (dp_t_plus D (sv_inner sv')) a))]
         \<and> au_tool a = name \<and> au_caller a = caller \<and> au_args a = args
         \<and> (case r of
               Inr v \<Rightarrow> au_ok a \<and> au_result a = Some v \<and> au_error a = None
             | Inl x \<Rightarrow> \<not> au_ok a \<and> (\<exists>e. x = Nt e \<and> au_error a = Some (error_body e)))"
proof -
  obtain r' w where run: "run_tool D spec args (sv_inner sv) = (r', w)" by fastforce
  show ?thesis
  proof (rule call_known [OF assms(1) run, where caller = caller])
    fix a
    assume a: "snd (call D name args caller sv) = log_call D a w (sv_audit sv)"
      "au_tool a = name" "au_args a = args" "au_caller a = caller"
      "au_ok a = (case r' of Inr _ \<Rightarrow> True | Inl _ \<Rightarrow> False)"
      "fst (call D name args caller sv) = (case r' of Inr v \<Rightarrow> Inr v | Inl x \<Rightarrow> Inl (Nt (crash_error x)))"
      "au_result a = (case r' of Inr v \<Rightarrow> Some v | Inl _ \<Rightarrow> None)"
      "au_error a = (case r' of Inr _ \<Rightarrow> None | Inl x \<Rightarrow> Some (error_body (crash_error x)))"
    have "sv' = log_call D a w (sv_audit sv)" using a(1) assms(2) by simp
    then show ?thesis
      using a assms(2)
      by (intro exI [of _ a]) (auto simp: log_call_def audit_record_def split: sum.splits)
  qed
qed

text \<open>
  C2. A handler only runs behind the gate: when a call changes the handlers' state or returns a result,
  its arguments validated, the policy allows the tool outright or asks for confirmation and the call
  confirms (or asks for a soft mode), and the handler ran on the validated parameters with every
  timeout clipped to the daemon's cap.
\<close>

theorem call_gated:
  assumes "registry_get (dp_registry D) name = Some spec"
    and "call D name args caller sv = (r, sv')"
    and "sv_inner sv' \<noteq> sv_inner sv \<or> (\<exists>v. r = Inr v)"
  shows "\<exists>params params' h. ts_validate spec (if truthy args then args else JDict []) = Inr params
         \<and> (policy_level (dp_policy D) spec = Allow
            \<or> policy_level (dp_policy D) spec = Confirm \<and> (soft_mode params \<or> confirmed params))
         \<and> (\<forall>t. dict_get params' ''timeout'' = Some (JInt t) \<longrightarrow> t \<le> dp_timeout_max D)
         \<and> (\<forall>k. k \<noteq> ''timeout'' \<longrightarrow> dict_get params' k = dict_get params k)
         \<and> ts_handler spec params' (sv_inner sv) = (h, sv_inner sv')
         \<and> (\<forall>v. r = Inr v \<longrightarrow> h = Inr v)"
proof -
  obtain h w where run: "run_tool D spec args (sv_inner sv) = (h, w)" by fastforce
  have out: "sv_inner sv' = w" "r = (case h of Inr v \<Rightarrow> Inr v | Inl x \<Rightarrow> Inl (Nt (crash_error x)))"
    using call_known [OF assms(1) run, where caller = caller] assms(2)
    by (metis fst_conv service_state.select_convs(1) log_call_def snd_conv)+
  have "w \<noteq> sv_inner sv \<or> (\<exists>v. h = Inr v)"
    using assms(3) out by (auto split: sum.splits)
  then obtain params params' where
    v: "ts_validate spec (if truthy args then args else JDict []) = Inr params"
    and p: "policy_check (dp_policy D) spec params = None"
    and c: "cap_timeout (dp_timeout_max D) params = Inr params'"
    and h: "ts_handler spec params' (sv_inner sv) = (h, w)"
    using run_tool_runs [OF run] by blast
  have "\<forall>x. r = Inr x \<longrightarrow> h = Inr x" using out(2) by (auto split: sum.splits)
  then show ?thesis
    using v p c h cap_timeout_bound [OF c] cap_timeout_keeps [OF c] out(1)
    by (intro exI [of _ params] exI [of _ params'] exI [of _ h]) (auto simp: policy_check_iff)
qed

text \<open>A tool that counts its calls, destructive, with a timeout, for the witnesses.\<close>

definition counter_tool :: "nat tool_spec" where
  "counter_tool =
     \<lparr>ts_name = ''vm_stop'', ts_description = [],
      ts_validate = (\<lambda>args. Inr (opt_or (dict_of_json args) [])), ts_schema = [],
      ts_handler = (\<lambda>p w. (Inr (JInt (int (Suc w))), Suc w)),
      ts_effect = Eff_Destructive, ts_positional = [''vm''], ts_destructive = True,
      ts_idempotent = False, ts_long_poll = False, ts_touches_guest = False\<rparr>"

definition counter_dispatcher :: "nat dispatcher" where
  "counter_dispatcher =
     \<lparr>dp_registry = [(''vm_stop'', counter_tool)], dp_policy = DEFAULT_POLICY, dp_timeout_max = 600,
      dp_now = (\<lambda>w. int w), dp_mono = (\<lambda>w. int w), dp_t_plus = (\<lambda>w. [])\<rparr>"

lemma counter_call:
  "call counter_dispatcher ''vm_stop'' (JDict [(''confirm'', JBool True), (''timeout'', JInt 900)]) ''cli''
     \<lparr>sv_inner = 0, sv_audit = []\<rparr> =
   (Inr (JInt 1),
    \<lparr>sv_inner = 1, sv_audit = [json_dumps (JDict (audit_entry 1 []
       \<lparr>au_tool = ''vm_stop'', au_args = JDict [(''confirm'', JBool True), (''timeout'', JInt 900)],
        au_caller = ''cli'', au_ok = True, au_elapsed = 1, au_result = Some (JInt 1), au_error = None\<rparr>))]\<rparr>)"
  by (simp add: call_def counter_dispatcher_def counter_tool_def registry_get_def run_tool_def
      policy_check_def policy_level_def DEFAULT_POLICY_def dict_has_def cap_timeout_def
      log_call_def audit_record_def Let_def)

lemma counter_get: "registry_get (dp_registry counter_dispatcher) ''vm_stop'' = Some counter_tool"
  by (simp add: counter_dispatcher_def registry_get_def)

theorem call_audited_witness:
  "\<exists>a :: audit_args. au_tool a = ''vm_stop'' \<and> au_caller a = ''cli'' \<and> au_ok a \<and> au_result a = Some (JInt 1)"
  using call_audited [OF counter_get counter_call] by (simp only: sum.case) blast

theorem call_gated_witness:
  "\<exists>params' h. ts_handler counter_tool params' 0 = (h, 1) \<and> h = Inr (JInt 1)"
  using call_gated [OF counter_get counter_call] by auto

end
