(* ===== verification/Keys.thy ===== *)
theory Keys
  imports Regex
begin

text \<open>
  Key input: \<open>term/keys.py\<close> turns text with \<open>{tokens}\<close> into the bytes of a terminal, and
  \<open>screen/keymap.py\<close> turns the same tokens into presses and releases of X keysyms. A burst of
  strokes never leaves a key held.
\<close>

section \<open>Terminal bytes\<close>

definition esc_seq :: "string \<Rightarrow> string" where
  "esc_seq s = ESC # s"

definition NAMED_KEYS :: "(string, string) dict" where
  "NAMED_KEYS =
    [(''enter'', [CR]),
     (''return'', [CR]),
     (''tab'', [TAB]),
     (''esc'', [ESC]),
     (''escape'', [ESC]),
     (''backspace'', [CHR 0x7F]),
     (''space'', '' ''),
     (''up'', esc_seq ''[A''),
     (''down'', esc_seq ''[B''),
     (''right'', esc_seq ''[C''),
     (''left'', esc_seq ''[D''),
     (''home'', esc_seq ''[H''),
     (''end'', esc_seq ''[F''),
     (''pgup'', esc_seq ''[5~''),
     (''pgdn'', esc_seq ''[6~''),
     (''insert'', esc_seq ''[2~''),
     (''delete'', esc_seq ''[3~''),
     (''f1'', esc_seq ''OP''),
     (''f2'', esc_seq ''OQ''),
     (''f3'', esc_seq ''OR''),
     (''f4'', esc_seq ''OS''),
     (''f5'', esc_seq ''[15~''),
     (''f6'', esc_seq ''[17~''),
     (''f7'', esc_seq ''[18~''),
     (''f8'', esc_seq ''[19~''),
     (''f9'', esc_seq ''[20~''),
     (''f10'', esc_seq ''[21~''),
     (''f11'', esc_seq ''[23~''),
     (''f12'', esc_seq ''[24~'')]"

definition token_char :: "char \<Rightarrow> bool" where
  "token_char c = (is_alnum c \<or> c = CHR ''+'' \<or> c = CHR ''_'' \<or> c = CHR ''-'')"

definition TOKEN :: rx where
  "TOKEN = RSeq (RSet (\<lambda>c. c = CHR ''{'')) (RSeq (RGroup 1 (rplus token_char)) (RSet (\<lambda>c. c = CHR ''}'')))"

definition token_bytes :: "string \<Rightarrow> string option" where
  "token_bytes token =
     (let name = py_lower token
      in case dict_get NAMED_KEYS name of
           Some s \<Rightarrow> Some s
         | None \<Rightarrow>
             if starts_with ''ctrl+'' name \<and> length name = 6 \<and>
                (is_lower (name ! 5) \<or> name ! 5 \<in> {CHR ''['', CHR '']'', BSL})
             then (let ch = name ! 5
                   in if is_lower ch then Some [cc (ord ch - ord (CHR ''a'') + 1)]
                      else if ch = CHR ''['' then Some [ESC]
                      else if ch = CHR '']'' then Some [CHR 0x1D]
                      else Some [CHR 0x1C])
             else if starts_with ''alt+'' name \<and> length name = 5 then Some [ESC, name ! 4]
             else None)"

fun encode_matches :: "nat \<Rightarrow> rx_match list \<Rightarrow> string \<Rightarrow> string" where
  "encode_matches pos [] text = drop pos text"
| "encode_matches pos (m # ms) text =
     drop pos (take (m_start m) text) @
     (case token_bytes (group m 1) of Some s \<Rightarrow> s | None \<Rightarrow> m_text m) @
     encode_matches (m_end m) ms text"

definition encode_keys :: "string \<Rightarrow> string" where
  "encode_keys text = encode_matches 0 (rx_finditer TOKEN text) text"

definition encode_key_list :: "string list \<Rightarrow> string" where
  "encode_key_list keys = concat (map encode_keys keys)"

section \<open>Key events\<close>

definition NAMED_KEYSYMS :: "(string, int) dict" where
  "NAMED_KEYSYMS =
    [(''enter'', 0xFF0D),
     (''return'', 0xFF0D),
     (''tab'', 0xFF09),
     (''esc'', 0xFF1B),
     (''escape'', 0xFF1B),
     (''backspace'', 0xFF08),
     (''space'', 0x20),
     (''delete'', 0xFFFF),
     (''insert'', 0xFF63),
     (''up'', 0xFF52),
     (''down'', 0xFF54),
     (''left'', 0xFF51),
     (''right'', 0xFF53),
     (''home'', 0xFF50),
     (''end'', 0xFF57),
     (''pgup'', 0xFF55),
     (''pgdn'', 0xFF56),
     (''win'', 0xFFEB),
     (''menu'', 0xFF67)] @
    map (\<lambda>n. (CHR ''f'' # nat_text n, 0xFFBE + int n - 1)) [1..<13]"

definition MODIFIERS :: "(string, int) dict" where
  "MODIFIERS =
    [(''ctrl'', 0xFFE3),
     (''control'', 0xFFE3),
     (''alt'', 0xFFE9),
     (''shift'', 0xFFE1),
     (''win'', 0xFFEB),
     (''super'', 0xFFEB)]"

definition SHIFT :: int where "SHIFT = 0xFFE1"

definition shifted :: "char \<Rightarrow> bool" where
  "shifted c = (c \<in> set (''~!@#$%^&*()_+{}|:'' @ [DQ] @ ''<>?'') \<or> is_upper c)"

type_synonym stroke = "(int \<times> bool) list"

definition char_stroke :: "char \<Rightarrow> stroke option" where
  "char_stroke ch =
     (if ch = NL then Some [(0xFF0D, True), (0xFF0D, False)]
      else if ch = TAB then Some [(0xFF09, True), (0xFF09, False)]
      else
        let code = int (ord ch)
        in if \<not> (0x20 \<le> code \<and> code \<le> 0x7E) then None
           else if shifted ch then Some [(SHIFT, True), (code, True), (code, False), (SHIFT, False)]
           else Some [(code, True), (code, False)])"

text \<open>The keysyms of the modifiers, in order, or None when one is unknown.\<close>

fun mod_holds :: "string list \<Rightarrow> int list option" where
  "mod_holds [] = Some []"
| "mod_holds (m # ms) =
     (case dict_get MODIFIERS (py_lower m) of
        None \<Rightarrow> None
      | Some k \<Rightarrow> (case mod_holds ms of None \<Rightarrow> None | Some ks \<Rightarrow> Some (k # ks)))"

definition key_symbol :: "string \<Rightarrow> (int \<times> bool) option" where
  "key_symbol key =
     (case dict_get NAMED_KEYSYMS (py_lower key) of
        Some k \<Rightarrow> Some (k, False)
      | None \<Rightarrow>
          if length key = 1 \<and> char_stroke (hd key) \<noteq> None
          then Some (int (ord (hd key)), shifted (hd key)) else None)"

definition combo_stroke :: "int list \<Rightarrow> int \<Rightarrow> stroke" where
  "combo_stroke holds key_sym =
     map (\<lambda>k. (k, True)) holds @ [(key_sym, True), (key_sym, False)] @ map (\<lambda>k. (k, False)) (rev holds)"

definition token_stroke :: "string \<Rightarrow> stroke option" where
  "token_stroke token =
     (let parts = split_char (CHR ''+'') token; mods = butlast parts; key = last parts
      in if key = [] then None
         else case mod_holds mods of
                None \<Rightarrow> None
              | Some holds \<Rightarrow>
                  (case key_symbol key of
                     None \<Rightarrow> None
                   | Some (key_sym, key_shift) \<Rightarrow>
                       Some (combo_stroke
                         (if key_shift \<and> SHIFT \<notin> set holds then holds @ [SHIFT] else holds) key_sym)))"

definition char_strokes :: "string \<Rightarrow> stroke list" where
  "char_strokes text = List.map_filter char_stroke text"

fun strokes_of_matches :: "nat \<Rightarrow> rx_match list \<Rightarrow> string \<Rightarrow> stroke list" where
  "strokes_of_matches pos [] text = char_strokes (drop pos text)"
| "strokes_of_matches pos (m # ms) text =
     char_strokes (drop pos (take (m_start m) text)) @
     (case token_stroke (group m 1) of Some s \<Rightarrow> [s] | None \<Rightarrow> char_strokes (m_text m)) @
     strokes_of_matches (m_end m) ms text"

definition text_strokes :: "string \<Rightarrow> stroke list" where
  "text_strokes text = strokes_of_matches 0 (rx_finditer TOKEN text) text"

definition key_strokes :: "string list \<Rightarrow> stroke list" where
  "key_strokes items = concat (map text_strokes items)"

definition literal_strokes :: "string \<Rightarrow> stroke list" where
  "literal_strokes text = List.map_filter char_stroke text"

definition flatten :: "stroke list \<Rightarrow> (int \<times> bool) list" where
  "flatten strokes = concat strokes"

section \<open>Keys are released in the reverse order they were pressed\<close>

text \<open>The keys held down, innermost first; None once a release does not match the last press.\<close>

fun hold :: "stroke \<Rightarrow> int list \<Rightarrow> int list option" where
  "hold [] held = Some held"
| "hold ((k, True) # ev) held = hold ev (k # held)"
| "hold ((k, False) # ev) held =
     (case held of [] \<Rightarrow> None | h # hs \<Rightarrow> if h = k then hold ev hs else None)"

definition balanced :: "stroke \<Rightarrow> bool" where
  "balanced ev = (\<forall>held. hold ev held = Some held)"

lemma hold_append: "hold (a @ b) held = (case hold a held of None \<Rightarrow> None | Some h \<Rightarrow> hold b h)"
  by (induction a held rule: hold.induct) (auto split: list.splits)

lemma balanced_Nil [simp]: "balanced []"
  by (simp add: balanced_def)

lemma balanced_append: "balanced a \<Longrightarrow> balanced b \<Longrightarrow> balanced (a @ b)"
  by (simp add: balanced_def hold_append)

lemma balanced_press: "balanced ev \<Longrightarrow> balanced ((k, True) # ev @ [(k, False)])"
  by (simp add: balanced_def hold_append)

lemma balanced_concat: "(\<And>s. s \<in> set strokes \<Longrightarrow> balanced s) \<Longrightarrow> balanced (concat strokes)"
  by (induction strokes) (auto intro: balanced_append)

lemma balanced_combo: "balanced (combo_stroke holds key)"
proof (induction holds)
  case Nil
  then show ?case by (simp add: combo_stroke_def balanced_def)
next
  case (Cons h holds)
  have "combo_stroke (h # holds) key = (h, True) # combo_stroke holds key @ [(h, False)]"
    by (simp add: combo_stroke_def)
  then show ?case using balanced_press [OF Cons.IH] by simp
qed

lemma balanced_char: "char_stroke c = Some s \<Longrightarrow> balanced s"
  by (auto simp: char_stroke_def Let_def balanced_def split: if_splits)

lemma balanced_token: "token_stroke t = Some s \<Longrightarrow> balanced s"
  by (auto simp: token_stroke_def Let_def balanced_combo split: if_splits option.splits)

lemma balanced_chars: "s \<in> set (char_strokes text) \<Longrightarrow> balanced s"
  by (auto simp: char_strokes_def List.map_filter_def intro: balanced_char)

lemma balanced_matches: "s \<in> set (strokes_of_matches pos ms text) \<Longrightarrow> balanced s"
  by (induction pos ms "text" rule: strokes_of_matches.induct)
    (auto intro: balanced_chars balanced_token split: option.splits)

section \<open>Text without braces is typed as it is\<close>

lemma token_needs_brace: "CHR ''{'' \<notin> set s \<Longrightarrow> rx_at TOKEN pos prev s = None"
  by (cases s) (auto simp: rx_at_def TOKEN_def)

lemma scan_no_brace: "CHR ''{'' \<notin> set s \<Longrightarrow> rx_scan TOKEN pos 0 prev s = []"
  by (induction s arbitrary: pos prev) (auto simp: token_needs_brace)

lemma finditer_no_brace: "CHR ''{'' \<notin> set s \<Longrightarrow> rx_finditer TOKEN s = []"
  by (simp add: rx_finditer_def scan_no_brace)

section \<open>Properties\<close>

text \<open>
  A burst of keys releases every key it presses, in the reverse order, whatever the items and
  whatever was held before: after the flat event list exactly the keys held before it are held.
\<close>

theorem key_strokes_balanced:
  "hold (flatten (key_strokes items)) held = Some held"
proof -
  have "balanced (concat (key_strokes items))"
    by (rule balanced_concat) (auto simp: key_strokes_def text_strokes_def intro: balanced_matches)
  then show ?thesis by (simp add: flatten_def balanced_def)
qed

text \<open>
  Text without an opening brace reaches the guest as it was given: the terminal gets the same
  bytes, and the console gets the strokes of the characters one by one, as for a literal.
\<close>

theorem plain_text_is_literal:
  assumes "CHR ''{'' \<notin> set text"
  shows "encode_keys text = text \<and> text_strokes text = literal_strokes text"
  using finditer_no_brace [OF assms]
  by (simp add: encode_keys_def text_strokes_def literal_strokes_def char_strokes_def)

theorem plain_text_is_literal_witness:
  "encode_keys ''dir'' = ''dir'' \<and> text_strokes ''dir'' = literal_strokes ''dir''"
  by (rule plain_text_is_literal) simp

end
