(* ===== verification/World.thy ===== *)
theory World
  imports Config State
begin

text \<open>
  The daemon's world as the components share it: the state store and the environment \<open>'e\<close> outside
  the program (clock, network, guests, hypervisor). The records of the components extend this one, so
  an operation of a component runs unchanged on the whole world. The functions of the environment
  come in a record too, which the components extend the same way.
\<close>

record 'e world =
  w_store :: store
  w_env :: 'e

record 'e outside =
  x_now :: "'e \<Rightarrow> int"
  x_sleep_until :: "int \<Rightarrow> 'e \<Rightarrow> 'e"

type_synonym ('e, 'z, 'a) wprog = "(('e, 'z) world_scheme, 'a) app"

text \<open>A call of the environment.\<close>

definition envE :: "('e \<Rightarrow> 'a \<times> 'e) \<Rightarrow> ('e, 'z, 'a) wprog" where
  "envE f w = (case f (w_env w) of (x, e) \<Rightarrow> (Inr x, w\<lparr>w_env := e\<rparr>))"

definition env_tryE :: "('e \<Rightarrow> (exn + 'a) \<times> 'e) \<Rightarrow> ('e, 'z, 'a) wprog" where
  "env_tryE f w = (case f (w_env w) of (r, e) \<Rightarrow> (r, w\<lparr>w_env := e\<rparr>))"

definition now :: "('e, 'x) outside_scheme \<Rightarrow> ('e, 'z) world_scheme \<Rightarrow> int" where
  "now X w = x_now X (w_env w)"

definition sleepE :: "('e, 'x) outside_scheme \<Rightarrow> int \<Rightarrow> ('e, 'z, unit) wprog" where
  "sleepE X d w = (Inr (), w\<lparr>w_env := x_sleep_until X (now X w + d) (w_env w)\<rparr>)"

definition storeE :: "(store \<Rightarrow> store) \<Rightarrow> ('e, 'z, unit) wprog" where
  "storeE f w = (Inr (), w\<lparr>w_store := f (w_store w)\<rparr>)"

definition liftE :: "exn + 'a \<Rightarrow> ('w, 'a) app" where
  "liftE r w = (r, w)"

text \<open>\<open>self.state.record_event(vm, kind, **data)\<close>.\<close>

definition eventE :: "('e, 'x) outside_scheme \<Rightarrow> string \<Rightarrow> string \<Rightarrow> event \<Rightarrow> ('e, 'z, unit) wprog" where
  "eventE X vm kind data w = (Inr (), w\<lparr>w_store := record_event (now X w) vm kind data (w_store w)\<rparr>)"

lemmas world_unfold =
  envE_def env_tryE_def sleepE_def storeE_def liftE_def eventE_def

declare world_unfold [prog_simps]

text \<open>An environment call changes nothing but the environment.\<close>

lemma preserves_envE [preserves_intros]:
  "(\<And>w e. I w \<Longrightarrow> I (w\<lparr>w_env := e\<rparr>)) \<Longrightarrow> preserves I (envE f)"
  by (rule preservesI) (simp add: envE_def split: prod.splits)

lemma preserves_env_tryE [preserves_intros]:
  "(\<And>w e. I w \<Longrightarrow> I (w\<lparr>w_env := e\<rparr>)) \<Longrightarrow> preserves I (env_tryE f)"
  by (rule preservesI) (simp add: env_tryE_def split: prod.splits)

lemma preserves_sleepE [preserves_intros]:
  "(\<And>w e. I w \<Longrightarrow> I (w\<lparr>w_env := e\<rparr>)) \<Longrightarrow> preserves I (sleepE X d)"
  by (rule preservesI) (simp add: sleepE_def)

lemma preserves_storeE [preserves_intros]:
  "(\<And>w. I w \<Longrightarrow> I (w\<lparr>w_store := f (w_store w)\<rparr>)) \<Longrightarrow> preserves I (storeE f)"
  by (rule preservesI) (simp add: storeE_def)

lemma preserves_liftE [simp, preserves_intros]: "preserves I (liftE r)"
  by (rule preservesI) (simp add: liftE_def)

lemma preserves_eventE [preserves_intros]:
  "(\<And>w n. I w \<Longrightarrow> I (w\<lparr>w_store := record_event n vm kind data (w_store w)\<rparr>)) \<Longrightarrow>
   preserves I (eventE X vm kind data)"
  by (rule preservesI) (simp add: eventE_def)

end
