(* ===== verification/Ring_Buffer.thy ===== *)
theory Ring_Buffer
  imports Regex
begin

text \<open>
  \<open>RingBuffer\<close> and \<open>clean_text\<close> of \<open>term/session.py\<close>: the bytes a guest emitted, with a
  monotonically increasing absolute offset. The abstract contract is a byte stream of which the
  buffer keeps a suffix; a locale states it and the buffer is its interpretation. Offsets are
  integers and slices are Python's, negative bounds included.
\<close>

section \<open>Python slices\<close>

definition slice_bound :: "int \<Rightarrow> int \<Rightarrow> int" where
  "slice_bound n i = (if i < 0 then max 0 (i + n) else min i n)"

definition py_slice :: "int \<Rightarrow> int \<Rightarrow> 'a list \<Rightarrow> 'a list" where
  "py_slice i j xs =
     (let n = int (length xs); lo = slice_bound n i; hi = slice_bound n j
      in take (nat (hi - lo)) (drop (nat lo) xs))"

lemma py_slice_nonneg:
  "0 \<le> i \<Longrightarrow> 0 \<le> j \<Longrightarrow> py_slice i j xs = take (nat j - nat i) (drop (nat i) xs)"
  by (cases "i \<le> j") (auto simp: py_slice_def slice_bound_def Let_def min_def nat_diff_distrib)

section \<open>The buffer\<close>

record ring =
  rb_capacity :: nat
  rb_data :: string
  rb_base :: int

definition new_ring :: "nat \<Rightarrow> ring" where
  "new_ring capacity = \<lparr>rb_capacity = capacity, rb_data = [], rb_base = 0\<rparr>"

definition ring_end :: "ring \<Rightarrow> int" where
  "ring_end r = rb_base r + int (length (rb_data r))"

definition ring_append :: "string \<Rightarrow> ring \<Rightarrow> ring" where
  "ring_append bytes r =
     (let all_data = rb_data r @ bytes;
          excess = length all_data - rb_capacity r
      in if 0 < excess
         then r\<lparr>rb_data := drop excess all_data, rb_base := rb_base r + int excess\<rparr>
         else r\<lparr>rb_data := all_data\<rparr>)"

definition ring_read :: "int \<Rightarrow> int \<Rightarrow> ring \<Rightarrow> string \<times> int \<times> bool \<times> bool" where
  "ring_read cursor max_bytes r =
     (let lost = cursor < rb_base r;
          start = max cursor (rb_base r) - rb_base r;
          chunk = py_slice start (start + max_bytes) (rb_data r);
          next_cursor = rb_base r + start + int (length chunk);
          truncated = next_cursor < ring_end r
      in (chunk, next_cursor, lost, truncated))"

definition ring_slice_from :: "int \<Rightarrow> ring \<Rightarrow> string" where
  "ring_slice_from cursor r = drop (nat (max cursor (rb_base r) - rb_base r)) (rb_data r)"

section \<open>Plain text of terminal output\<close>

definition ANSI_RE :: rx where
  "ANSI_RE =
     ralts
       (RSeq (RSet (\<lambda>c. c = ESC)) (RSeq (RSet (\<lambda>c. c = CHR ''['')) (RSeq (RStar (char_between (CHR ''0'') (CHR ''?'')))
         (RSeq (RStar (char_between (CHR '' '') (CHR ''/''))) (RSet (char_between (CHR ''@'') (CHR 0x7E)))))))
       [RSeq (RSet (\<lambda>c. c = ESC)) (RSeq (RSet (\<lambda>c. c = CHR '']'')) (RSeq (RStar (\<lambda>c. c \<noteq> BEL \<and> c \<noteq> ESC))
         (RAlt (RSet (\<lambda>c. c = BEL)) (RSeq (RSet (\<lambda>c. c = ESC)) (RSet (\<lambda>c. c = BSL)))))),
        RSeq (RSet (\<lambda>c. c = ESC)) (RSet (\<lambda>c. char_between (CHR ''@'') (CHR ''Z'') c \<or> char_between BSL (CHR ''_'') c)),
        RSet (\<lambda>c. ord c \<le> 8 \<or> ord c = 11 \<or> ord c = 12 \<or> (14 \<le> ord c \<and> ord c \<le> 31) \<or> ord c = 127)]"

definition clean_text :: "string \<Rightarrow> string" where
  "clean_text bytes = py_replace [CR] [NL] (py_replace [CR, NL] [NL] (rx_sub ANSI_RE [] bytes))"

section \<open>The stream contract\<close>

text \<open>
  A bounded view of a byte stream: appending extends the stream, a read from a cursor inside it
  returns the bytes from the later of the cursor and the base up to the cursor it hands back, and it
  says whether anything before was lost and whether more is there.
\<close>

definition segment :: "string \<Rightarrow> int \<Rightarrow> int \<Rightarrow> string" where
  "segment s i j = take (nat j - nat i) (drop (nat i) s)"

lemma segment_append:
  "0 \<le> i \<Longrightarrow> i \<le> j \<Longrightarrow> j \<le> k \<Longrightarrow> segment s i j @ segment s j k = segment s i k"
proof -
  assume a: "0 \<le> i" "i \<le> j" "j \<le> k"
  have e: "nat k - nat i = (nat j - nat i) + (nat k - nat j)" "nat j = (nat j - nat i) + nat i"
    using a by simp_all
  show ?thesis
    unfolding segment_def e(1) take_add using e(2) by (metis drop_drop)
qed

lemma segment_extend: "j \<le> int (length s) \<Longrightarrow> segment (s @ t) i j = segment s i j"
  by (simp add: segment_def)

locale byte_log =
  fixes holds :: "string \<Rightarrow> 'b \<Rightarrow> bool"
    and base :: "'b \<Rightarrow> int"
    and append :: "string \<Rightarrow> 'b \<Rightarrow> 'b"
  assumes base_bounds: "holds s b \<Longrightarrow> 0 \<le> base b \<and> base b \<le> int (length s)"
    and append_holds: "holds s b \<Longrightarrow> holds (s @ d) (append d b)"
    and base_mono: "holds s b \<Longrightarrow> base b \<le> base (append d b)"
begin

text \<open>Appending a list of chunks, in order.\<close>

lemma holds_fold: "holds s b \<Longrightarrow> holds (s @ concat ds) (fold append ds b)"
proof (induction ds arbitrary: s b)
  case (Cons d ds)
  then show ?case using Cons.IH [OF append_holds [OF Cons.prems, of d]] by simp
qed simp

lemma base_fold_mono: "holds s b \<Longrightarrow> base b \<le> base (fold append ds b)"
proof (induction ds arbitrary: s b)
  case (Cons d ds)
  show ?case
    using Cons.IH [OF append_holds [OF Cons.prems, of d]] base_mono [OF Cons.prems, of d] by simp
qed simp

end

locale byte_stream = byte_log +
  fixes read :: "int \<Rightarrow> int \<Rightarrow> 'a \<Rightarrow> string \<times> int \<times> bool \<times> bool"
  assumes read_segment:
      "holds s b \<Longrightarrow> 0 \<le> c \<Longrightarrow> c \<le> int (length s) \<Longrightarrow> 0 \<le> m \<Longrightarrow> read c m b = (chunk, c', lost, trunc) \<Longrightarrow>
       chunk = segment s (max c (base b)) c' \<and> max c (base b) \<le> c' \<and> c' \<le> int (length s) \<and>
       c' - max c (base b) \<le> m \<and> (lost \<longleftrightarrow> c < base b) \<and> (trunc \<longleftrightarrow> c' < int (length s)) \<and>
       (trunc \<longrightarrow> c' - max c (base b) = m)"
begin

text \<open>Two reads that follow the cursor see one contiguous piece, also when more output arrived in
  between, as long as the cursor was not overtaken by the base.\<close>

lemma reads_contiguous:
  assumes h: "holds s b" and c: "base b \<le> c" "c \<le> int (length s)" "0 \<le> m" "0 \<le> m'"
    and r1: "read c m b = (x, c1, l1, t1)"
    and r2: "read c1 m' (append d b) = (y, c2, l2, t2)"
    and kept: "base (append d b) \<le> c1"
  shows "x @ y = segment (s @ d) c c2 \<and> \<not> l1 \<and> \<not> l2 \<and> c \<le> c1 \<and> c1 \<le> c2"
proof -
  have nn: "0 \<le> base b" using base_bounds [OF h] by simp
  have a: "x = segment s c c1" "c \<le> c1" "c1 \<le> int (length s)" "\<not> l1"
    using read_segment [OF h _ c(2) c(3) r1] c(1) nn by (auto simp: max_def)
  have "c1 \<le> int (length (s @ d))" using a by simp
  then have b: "y = segment (s @ d) c1 c2" "c1 \<le> c2" "\<not> l2"
    using read_segment [OF append_holds [OF h] _ _ c(4) r2] a c(1) nn kept by (auto simp: max_def)
  have "x = segment (s @ d) c c1" using a segment_extend by simp
  then show ?thesis using a b segment_append [of c c1 c2 "s @ d"] c(1) nn by auto
qed

text \<open>A read that reports nothing more has caught up with the stream.\<close>

lemma read_to_end:
  "holds s b \<Longrightarrow> 0 \<le> c \<Longrightarrow> c \<le> int (length s) \<Longrightarrow> 0 \<le> m \<Longrightarrow> read c m b = (x, c', l, False) \<Longrightarrow>
   c' = int (length s)"
  using read_segment [of s b c m x c' l False] by auto

end

section \<open>The buffer keeps the last bytes of its stream\<close>

definition ring_holds :: "string \<Rightarrow> ring \<Rightarrow> bool" where
  "ring_holds s r =
     (rb_data r = take_last (rb_capacity r) s \<and> ring_end r = int (length s))"

lemma ring_holds_new: "ring_holds [] (new_ring n)"
  by (simp add: ring_holds_def new_ring_def ring_end_def take_last_def)

lemma ring_append_data:
  "rb_data (ring_append d r) = take_last (rb_capacity r) (rb_data r @ d)"
  "rb_capacity (ring_append d r) = rb_capacity r"
  "ring_end (ring_append d r) = ring_end r + int (length d)"
  by (auto simp: ring_append_def Let_def take_last_def ring_end_def of_nat_diff)

lemma ring_holds_append: "ring_holds s r \<Longrightarrow> ring_holds (s @ d) (ring_append d r)"
  by (simp add: ring_holds_def ring_append_data take_last_append)

lemma ring_base_bounds: "ring_holds s r \<Longrightarrow> 0 \<le> rb_base r \<and> rb_base r \<le> int (length s)"
  by (auto simp: ring_holds_def ring_end_def take_last_def)

lemma ring_data_drop: "ring_holds s r \<Longrightarrow> rb_data r = drop (nat (rb_base r)) s"
  by (auto simp: ring_holds_def ring_end_def take_last_def)

lemma ring_base_mono: "ring_holds s r \<Longrightarrow> rb_base r \<le> rb_base (ring_append d r)"
  by (auto simp: ring_append_def Let_def)

lemma ring_read_segment:
  assumes h: "ring_holds s r" and c: "0 \<le> c" "c \<le> int (length s)" "0 \<le> m"
    and r: "ring_read c m r = (chunk, c', lost, trunc)"
  shows "chunk = segment s (max c (rb_base r)) c' \<and> max c (rb_base r) \<le> c' \<and> c' \<le> int (length s) \<and>
       c' - max c (rb_base r) \<le> m \<and> (lost \<longleftrightarrow> c < rb_base r) \<and> (trunc \<longleftrightarrow> c' < int (length s)) \<and>
       (trunc \<longrightarrow> c' - max c (rb_base r) = m)"
proof -
  define k where "k = max c (rb_base r)"
  have b: "0 \<le> rb_base r" "rb_base r \<le> int (length s)" using ring_base_bounds [OF h] by auto
  have k: "rb_base r \<le> k" "k \<le> int (length s)" "0 \<le> k" using b c by (auto simp: k_def)
  have "py_slice (k - rb_base r) (k - rb_base r + m) (rb_data r)
        = take (nat (k - rb_base r + m) - nat (k - rb_base r)) (drop (nat (k - rb_base r)) (rb_data r))"
    using k c by (intro py_slice_nonneg) auto
  moreover have "nat (k - rb_base r + m) - nat (k - rb_base r) = nat m" using k c by simp
  moreover have "drop (nat (k - rb_base r)) (rb_data r) = drop (nat k) s"
    using k b by (simp add: ring_data_drop [OF h] flip: nat_add_distrib)
  ultimately have sl: "py_slice (k - rb_base r) (k - rb_base r + m) (rb_data r) = take (nat m) (drop (nat k) s)"
    by simp
  have e: "ring_end r = int (length s)" using h by (simp add: ring_holds_def)
  have ch: "chunk = take (nat m) (drop (nat k) s)" "c' = k + int (length chunk)"
    "lost \<longleftrightarrow> c < rb_base r" "trunc \<longleftrightarrow> c' < int (length s)"
    using r by (auto simp: ring_read_def Let_def e k_def [symmetric] sl)
  have len: "length chunk = min (length s - nat k) (nat m)" using ch(1) by simp
  have "chunk = segment s k c'"
    using ch len k c by (simp add: segment_def nat_add_distrib min_def)
  moreover have li: "int (length chunk) = min (int (length s) - k) m"
    using len k c by (simp add: min_def) linarith
  moreover have "c' - k \<le> m" "k \<le> c'" "c' \<le> int (length s)" using li ch(2) k c by linarith+
  moreover have "trunc \<longrightarrow> c' - k = m" using li ch(2) ch(4) by linarith
  ultimately show ?thesis using ch unfolding k_def by blast
qed

interpretation rb: byte_stream ring_holds rb_base ring_append ring_read
  by unfold_locales
    (use ring_base_bounds ring_holds_append ring_base_mono ring_read_segment in \<open>blast+\<close>)

lemma ring_holds_chunks: "ring_holds (concat ds) (fold ring_append ds (new_ring n))"
  using rb.holds_fold [OF ring_holds_new, of ds n] by simp

section \<open>Plain text has no control characters\<close>

definition plain_char :: "char \<Rightarrow> bool" where
  "plain_char c = (c = TAB \<or> c = NL \<or> c = CR \<or> (32 \<le> ord c \<and> ord c \<noteq> 127))"

lemma not_plain_control:
  "\<not> plain_char c \<Longrightarrow> ord c \<le> 8 \<or> ord c = 11 \<or> ord c = 12 \<or> (14 \<le> ord c \<and> ord c \<le> 31) \<or> ord c = 127"
proof -
  assume n: "\<not> plain_char c"
  have "ord c \<noteq> ord TAB" "ord c \<noteq> ord NL" "ord c \<noteq> ord CR"
    using n unfolding plain_char_def ord_inject by simp_all
  then have "ord c \<noteq> 9" "ord c \<noteq> 10" "ord c \<noteq> 13" by (simp_all add: ord_def)
  then show ?thesis using n unfolding plain_char_def by linarith
qed

text \<open>At a control character every alternative may fail but the last.\<close>

lemma ralts_last:
  "rx_m q k prev s cs \<noteq> None \<Longrightarrow> rx_m (ralts r (qs @ [q])) k prev s cs \<noteq> None"
  by (induction qs arbitrary: r) (auto split: option.splits)

lemma ralts_last3:
  "rx_m q k prev s cs \<noteq> None \<Longrightarrow> rx_m (ralts r [a, b, q]) k prev s cs \<noteq> None"
  using ralts_last [of q k prev s cs r "[a, b]"] by simp

lemma consuming_ralts: "consuming (ralts r qs) \<longleftrightarrow> consuming r \<and> list_all consuming qs"
  by (induction qs arbitrary: r) auto

lemma ansi_hits:
  assumes "\<not> plain_char c"
  obtains m where "rx_at ANSI_RE pos prev (c # s) = Some m" "m_text m \<noteq> []"
proof -
  have "rx_m ANSI_RE (\<lambda>prev' s' cs. Some (s', cs)) prev (c # s) [] \<noteq> None"
    unfolding ANSI_RE_def by (rule ralts_last3) (simp add: not_plain_control [OF assms])
  then obtain m where m: "rx_at ANSI_RE pos prev (c # s) = Some m"
    by (auto simp: rx_at_def Let_def split: option.splits)
  have "consuming ANSI_RE" by (simp add: ANSI_RE_def consuming_ralts)
  then show ?thesis using that m rx_at_eats by blast
qed

lemma ansi_sub_plain: "list_all plain_char (rx_sub_aux ANSI_RE (\<lambda>_. []) pos skip prev s)"
proof (induction s arbitrary: pos skip prev)
  case Nil
  then show ?case by (cases skip) simp_all
next
  case (Cons c s)
  show ?case
  proof (cases skip)
    case (Suc n)
    then show ?thesis using Cons.IH by simp
  next
    case 0
    show ?thesis
    proof (cases "plain_char c")
      case True
      then show ?thesis using 0 Cons.IH by (auto split: option.splits)
    next
      case False
      then obtain m where "rx_at ANSI_RE pos prev (c # s) = Some m" "m_text m \<noteq> []"
        by (rule ansi_hits)
      then show ?thesis using 0 Cons.IH by simp
    qed
  qed
qed

lemma replace_aux_chars: "set (replace_aux a b n s) \<subseteq> set s \<union> set b"
  by (induction a b n s rule: replace_aux.induct) auto

lemma replace_cr_gone: "CR \<notin> set (replace_aux [CR] [NL] n s)"
  by (induction "[CR]" "[NL]" n s rule: replace_aux.induct) (auto simp: starts_with_def)

lemma clean_text_chars: "list_all (\<lambda>c. plain_char c \<and> c \<noteq> CR) (clean_text s)"
proof -
  define x where "x = rx_sub ANSI_RE [] s"
  have "list_all plain_char x" unfolding x_def rx_sub_def by (rule ansi_sub_plain)
  then have "set x \<subseteq> Collect plain_char" by (auto simp: list_all_iff)
  moreover have "plain_char NL" by (simp add: plain_char_def)
  ultimately have "set (clean_text s) \<subseteq> Collect plain_char"
    unfolding clean_text_def py_replace_def x_def [symmetric]
    using replace_aux_chars [of "[CR]" "[NL]" 0 "replace_aux [CR, NL] [NL] 0 x"]
      replace_aux_chars [of "[CR, NL]" "[NL]" 0 x] by auto
  then show ?thesis using replace_cr_gone by (auto simp: list_all_iff clean_text_def py_replace_def)
qed

section \<open>Properties\<close>

text \<open>
  C4. After any chunks of output, a read from a cursor inside the stream returns exactly the bytes of
  the stream from the later of the cursor and the oldest kept byte (the last \<open>capacity\<close> bytes are
  kept) up to the cursor it hands back, at most \<open>max_bytes\<close> of them, and it reports lost bytes
  exactly when the cursor is older than that, and more to come exactly when it stopped before the end.
\<close>

theorem ring_read_stream:
  assumes "ring_read cursor max_bytes (fold ring_append chunks (new_ring n)) = (chunk, next_cursor, lost, truncated)"
    and "0 \<le> cursor" "cursor \<le> int (length (concat chunks))" "0 \<le> max_bytes"
  shows "let len = int (length (concat chunks)); oldest = max 0 (len - int n); from = max cursor oldest
         in chunk = segment (concat chunks) from next_cursor \<and>
            from \<le> next_cursor \<and> next_cursor = min len (from + max_bytes) \<and>
            (lost \<longleftrightarrow> cursor < oldest) \<and> (truncated \<longleftrightarrow> next_cursor < len)"
proof -
  define s where "s = concat chunks"
  define r where "r = fold ring_append chunks (new_ring n)"
  have h: "ring_holds s r" unfolding s_def r_def by (rule ring_holds_chunks)
  have cap: "rb_capacity (fold ring_append ds r0) = rb_capacity r0" for ds r0
    by (induction ds arbitrary: r0) (simp_all add: ring_append_data)
  have "rb_capacity r = n" by (simp add: r_def cap new_ring_def)
  then have base: "rb_base r = max 0 (int (length s) - int n)"
    using h by (auto simp: ring_holds_def ring_end_def)
  have "ring_read cursor max_bytes r = (chunk, next_cursor, lost, truncated)"
    using assms(1) by (simp add: r_def)
  from rb.read_segment [OF h assms(2) _ assms(4) this] assms(3)
  show ?thesis unfolding Let_def base [symmetric] s_def [symmetric] by auto
qed

theorem ring_read_stream_witness:
  "ring_read 1 2 (fold ring_append [''ab'', ''cde''] (new_ring 3)) = (''cd'', 4, True, True) \<and> segment ''abcde'' 2 4 = ''cd''"
proof -
  have r: "ring_read 1 2 (fold ring_append [''ab'', ''cde''] (new_ring 3)) = (''cd'', 4, True, True)"
    by (simp add: ring_read_def ring_append_def new_ring_def ring_end_def Let_def py_slice_def slice_bound_def)
  show ?thesis using ring_read_stream [OF r] r by (simp add: segment_def)
qed

text \<open>
  Following the returned cursor loses nothing and repeats nothing: two reads, with any output in
  between that did not push the base past the cursor, give one contiguous piece of the stream.
\<close>

theorem ring_reads_contiguous:
  assumes "ring_holds s r" and "rb_base r \<le> c" "c \<le> int (length s)" "0 \<le> m" "0 \<le> m'"
    and "ring_read c m r = (x, c1, l1, t1)"
    and "ring_read c1 m' (ring_append d r) = (y, c2, l2, t2)"
    and "rb_base (ring_append d r) \<le> c1"
  shows "x @ y = segment (s @ d) c c2 \<and> \<not> l1 \<and> \<not> l2 \<and> c \<le> c1 \<and> c1 \<le> c2"
  using assms by (rule rb.reads_contiguous)

theorem ring_reads_contiguous_witness:
  "''ab'' @ ''cd'' = segment (''abc'' @ ''de'') 0 4"
proof -
  define r where "r = ring_append ''abc'' (new_ring 9)"
  have h: "ring_holds ''abc'' r" unfolding r_def using ring_holds_append [OF ring_holds_new, of "''abc''" 9] by simp
  have r1: "ring_read 0 2 r = (''ab'', 2, False, True)"
    by (simp add: r_def ring_read_def ring_append_def new_ring_def ring_end_def Let_def py_slice_def slice_bound_def)
  have r2: "ring_read 2 2 (ring_append ''de'' r) = (''cd'', 4, False, True)"
    by (simp add: r_def ring_read_def ring_append_def new_ring_def ring_end_def Let_def py_slice_def slice_bound_def)
  have b: "rb_base r = 0" "rb_base (ring_append ''de'' r) = 0"
    by (simp_all add: r_def ring_append_def new_ring_def Let_def)
  show ?thesis using ring_reads_contiguous [OF h _ _ _ _ r1 r2] b by simp
qed

text \<open>
  The plain text an agent reads holds no control byte but tab and newline: no escape, no carriage
  return, no delete, whatever bytes the guest sent.
\<close>

theorem clean_text_plain:
  "list_all (\<lambda>c. c = TAB \<or> c = NL \<or> (32 \<le> ord c \<and> ord c \<noteq> 127)) (clean_text bytes)"
  using clean_text_chars [of bytes] unfolding list_all_iff plain_char_def by blast

end
