(* ===== verification/Term_Session.thy ===== *)
theory Term_Session
  imports Ring_Buffer State
begin

text \<open>
  \<open>TermSession\<close> of \<open>term/session.py\<close>: the ring buffer with a default read cursor, the
  connection flag, the log, the subscribers and the regex wait. The bytes pyte's screen was fed stand
  for the screen. What arrives while a wait sleeps is an explicit list of timed events: output, the
  close callback, the debugger freezing or releasing the guest, and the wait's own one-second ticks.
\<close>

section \<open>State\<close>

record log_line =
  ll_time :: int
  ll_kind :: string
  ll_text :: string
  ll_source :: string

record term_session =
  ts_session_id :: string
  ts_vm :: string
  ts_shell :: string
  ts_transport_name :: string
  ts_account :: string
  ts_cols :: int
  ts_rows :: int
  ts_ring :: ring
  ts_screen_fed :: string
  ts_cursor :: int
  ts_opened_at :: int
  ts_last_activity :: int
  ts_connected :: bool
  ts_exec_in_flight :: bool
  ts_shell_pid :: "int option"
  ts_successor :: "string option"
  ts_channel :: bool
  ts_channel_open :: bool
  ts_written :: "string list"
  ts_subscribers :: "(nat \<times> string option list) list"
  ts_has_log :: bool
  ts_log_started :: int
  ts_log :: "log_line list"
  ts_events :: "log_line list"

definition RING_CAPACITY :: nat where "RING_CAPACITY = 1048576"
definition LOOKBACK :: int where "LOOKBACK = 65536"

definition new_session ::
  "string \<Rightarrow> string \<Rightarrow> string \<Rightarrow> string \<Rightarrow> int \<Rightarrow> int \<Rightarrow> bool \<Rightarrow> string \<Rightarrow> int \<Rightarrow> term_session" where
  "new_session sid vm shell transport cols rows has_log acct now =
     \<lparr>ts_session_id = sid, ts_vm = vm, ts_shell = shell, ts_transport_name = transport,
      ts_account = acct, ts_cols = cols, ts_rows = rows, ts_ring = new_ring RING_CAPACITY,
      ts_screen_fed = [], ts_cursor = 0, ts_opened_at = now, ts_last_activity = now,
      ts_connected = False, ts_exec_in_flight = False, ts_shell_pid = None, ts_successor = None,
      ts_channel = False, ts_channel_open = False, ts_written = [], ts_subscribers = [],
      ts_has_log = has_log, ts_log_started = now, ts_log = [], ts_events = []\<rparr>"

section \<open>Wiring\<close>

definition session_attach :: "term_session \<Rightarrow> term_session" where
  "session_attach s = s\<lparr>ts_channel := True, ts_channel_open := True, ts_connected := True\<rparr>"

definition session_log :: "int \<Rightarrow> string \<Rightarrow> string \<Rightarrow> string option \<Rightarrow> term_session \<Rightarrow> term_session" where
  "session_log now kind bytes source s =
     (if \<not> ts_has_log s then s
      else
        let line = \<lparr>ll_time = now - ts_log_started s, ll_kind = kind, ll_text = bytes, ll_source = opt_or source ''agent''\<rparr>;
            s1 = s\<lparr>ts_log := ts_log s @ [line]\<rparr>
        in if kind = ''i'' then s1\<lparr>ts_events := ts_events s1 @ [line]\<rparr> else s1)"

definition push_all :: "string option \<Rightarrow> term_session \<Rightarrow> term_session" where
  "push_all item s = s\<lparr>ts_subscribers := map (\<lambda>(q, items). (q, items @ [item])) (ts_subscribers s)\<rparr>"

definition session_feed :: "int \<Rightarrow> string \<Rightarrow> term_session \<Rightarrow> term_session" where
  "session_feed now bytes s =
     push_all (Some bytes)
       (session_log now ''o'' bytes None
         (s\<lparr>ts_ring := ring_append bytes (ts_ring s), ts_screen_fed := ts_screen_fed s @ bytes,
            ts_last_activity := now\<rparr>))"

definition session_disconnected :: "term_session \<Rightarrow> term_session" where
  "session_disconnected s =
     (if \<not> ts_connected s then s else push_all None (s\<lparr>ts_connected := False\<rparr>))"

section \<open>Reading\<close>

definition session_state :: "term_session \<Rightarrow> string" where
  "session_state s = (if ts_connected s then ''open'' else ''disconnected'')"

definition require_connected :: "(term_session, unit) app" where
  "require_connected s =
     (if ts_connected s then ret () s
      else throw_with SESSION_DISCONNECTED [(''successor'', jopt (ts_successor s))] s)"

record delta =
  d_text :: string
  d_cursor :: int
  d_truncated :: bool
  d_lost_before_cursor :: bool
  d_state :: string
  d_successor :: "string option"

definition read_delta :: "int option \<Rightarrow> int \<Rightarrow> bool \<Rightarrow> term_session \<Rightarrow> delta \<times> term_session" where
  "read_delta cursor max_bytes clean s =
     (let start = opt_or cursor (ts_cursor s);
          (chunk, next_cursor, lost, truncated) = ring_read start max_bytes (ts_ring s);
          s1 = (if cursor = None then s\<lparr>ts_cursor := next_cursor\<rparr> else s);
          out = (if clean then clean_text chunk else chunk)
      in (\<lparr>d_text = out, d_cursor = next_cursor, d_truncated = truncated,
           d_lost_before_cursor = lost, d_state = session_state s, d_successor = ts_successor s\<rparr>, s1))"

text \<open>\<open>screen_text\<close> of the rows pyte displays: right-trimmed, trailing blank rows dropped.\<close>

definition screen_text :: "string list \<Rightarrow> string" where
  "screen_text display =
     join_with [NL] (rev (dropWhile (\<lambda>l. l = []) (rev (map (rstrip_by is_space) display))))"

text \<open>The window a regex wait scans.\<close>

definition last_newline :: "string \<Rightarrow> int" where
  "last_newline s =
     (if NL \<in> set s then int (length s) - 1 - int (length (takeWhile (\<lambda>c. c \<noteq> NL) (rev s))) else -1)"

definition scan_from :: "int \<Rightarrow> term_session \<Rightarrow> int" where
  "scan_from start s =
     (if ring_end (ts_ring s) - start \<le> LOOKBACK then start
      else
        let lo = ring_end (ts_ring s) - LOOKBACK;
            head_start = max start (lo - 4096);
            head = py_slice 0 (lo - head_start) (ring_slice_from head_start (ts_ring s));
            nl = last_newline head
        in if 0 \<le> nl then head_start + nl + 1 else lo)"

section \<open>The regex wait\<close>

text \<open>What can happen while the wait sleeps. The compiled pattern is the function \<open>wc_search\<close>:
  the text of the first match of a haystack from a position on.\<close>

datatype term_input = TI_Data string | TI_Close | TI_Freeze bool | TI_Tick

type_synonym term_inbox = "(int \<times> term_input) list"

record wait_config =
  wc_search :: "string \<Rightarrow> nat \<Rightarrow> string option"
  wc_deadline :: int
  wc_start :: int
  wc_cursor :: "int option"
  wc_clean :: bool
  wc_max_bytes :: "int option"
  wc_abort :: bool
  wc_skip_first_line :: bool

record wait_result =
  w_delta :: delta
  w_matched :: "string option"

definition find_newline :: "string \<Rightarrow> nat option" where
  "find_newline s = (if NL \<in> set s then Some (length (takeWhile (\<lambda>c. c \<noteq> NL) s)) else None)"

definition haystack :: "wait_config \<Rightarrow> term_session \<Rightarrow> string" where
  "haystack wc s =
     (let raw = ring_slice_from (scan_from (wc_start wc) s) (ts_ring s)
      in if wc_clean wc then clean_text raw else raw)"

definition wait_match :: "wait_config \<Rightarrow> term_session \<Rightarrow> string option" where
  "wait_match wc s =
     (let h = haystack wc s
      in case (if wc_skip_first_line wc then map_option Suc (find_newline h) else Some 0) of
           None \<Rightarrow> None
         | Some search_from \<Rightarrow> wc_search wc h search_from)"

definition positive_or :: "int option \<Rightarrow> int \<Rightarrow> int" where
  "positive_or m d = (case m of None \<Rightarrow> d | Some x \<Rightarrow> if x = 0 then d else x)"

text \<open>One turn of the loop: None means it goes to sleep.\<close>

definition wait_turn ::
  "wait_config \<Rightarrow> bool \<Rightarrow> int \<Rightarrow> term_session \<Rightarrow> (exn + wait_result) option \<times> term_session" where
  "wait_turn wc frozen now s =
     (case wait_match wc s of
        Some m \<Rightarrow>
          let cap = opt_or (wc_max_bytes wc) (ring_end (ts_ring s) - wc_start wc + 1);
              (d, s1) = read_delta (wc_cursor wc) cap (wc_clean wc) s
          in (Some (Inr \<lparr>w_delta = d, w_matched = Some m\<rparr>), s1)
      | None \<Rightarrow>
          if \<not> ts_connected s
          then (Some (Inl (Nt (nt_err_with SESSION_DISCONNECTED [(''successor'', jopt (ts_successor s))]))), s)
          else if wc_abort wc \<and> frozen
          then let (d, s1) = read_delta (wc_cursor wc) (positive_or (wc_max_bytes wc) 65536) (wc_clean wc) s
               in (Some (Inl (Nt (nt_err_with GUEST_FROZEN [(''output'', JStr (d_text d))]))), s1)
          else if wc_deadline wc - now \<le> 0
          then let (d, s1) = read_delta (wc_cursor wc) (positive_or (wc_max_bytes wc) 65536) (wc_clean wc) s
               in (Some (Inr \<lparr>w_delta = d, w_matched = None\<rparr>), s1)
          else (None, s))"

text \<open>The state of a wait: the session, the debugger's hold on the guest, the clock, what is to
  come.\<close>

record wait_world =
  ww_session :: term_session
  ww_frozen :: bool
  ww_now :: int
  ww_inbox :: term_inbox

definition turn_at ::
  "wait_config \<Rightarrow> bool \<Rightarrow> int \<Rightarrow> term_inbox \<Rightarrow> term_session \<Rightarrow> (exn + wait_result) option \<times> wait_world" where
  "turn_at wc frozen now inbox s =
     (case wait_turn wc frozen now s of (r, s1) \<Rightarrow>
        (r, \<lparr>ww_session = s1, ww_frozen = frozen, ww_now = now, ww_inbox = inbox\<rparr>))"

fun apply_input :: "int \<Rightarrow> term_input \<Rightarrow> bool \<times> term_session \<Rightarrow> bool \<times> term_session" where
  "apply_input now (TI_Data bytes) (f, s) = (f, session_feed now bytes s)"
| "apply_input now TI_Close (f, s) = (f, session_disconnected s)"
| "apply_input now (TI_Freeze b) (f, s) = (b, s)"
| "apply_input now TI_Tick (f, s) = (f, s)"

text \<open>Asleep: an event past the deadline, or none, means the sleep ran to the deadline. A freeze of
  the guest does not wake the wait by itself, its next wake sees it.\<close>

fun wait_sleep ::
  "wait_config \<Rightarrow> bool \<Rightarrow> int \<Rightarrow> term_session \<Rightarrow> term_inbox \<Rightarrow> (exn + wait_result) option \<times> wait_world" where
  "wait_sleep wc f now s [] = turn_at wc f (max now (wc_deadline wc)) [] s"
| "wait_sleep wc f now s ((t, ev) # rest) =
     (if wc_deadline wc < t then turn_at wc f (max now (wc_deadline wc)) ((t, ev) # rest) s
      else
        let now' = max now t; (f', s') = apply_input now' ev (f, s)
        in case ev of
             TI_Freeze _ \<Rightarrow> wait_sleep wc f' now' s' rest
           | _ \<Rightarrow>
               (case turn_at wc f' now' rest s' of
                  (Some r, w) \<Rightarrow> (Some r, w)
                | (None, _) \<Rightarrow> wait_sleep wc f' now' s' rest))"

definition wait_config_of ::
  "(string \<Rightarrow> nat \<Rightarrow> string option) \<Rightarrow> int \<Rightarrow> int option \<Rightarrow> bool \<Rightarrow> int option \<Rightarrow> bool \<Rightarrow> bool \<Rightarrow>
   wait_world \<Rightarrow> wait_config" where
  "wait_config_of search timeout cursor clean max_bytes use_abort skip w =
     \<lparr>wc_search = search, wc_deadline = ww_now w + timeout,
      wc_start = opt_or cursor (ts_cursor (ww_session w)), wc_cursor = cursor, wc_clean = clean,
      wc_max_bytes = max_bytes, wc_abort = use_abort, wc_skip_first_line = skip\<rparr>"

definition wait_until ::
  "(string \<Rightarrow> nat \<Rightarrow> string option) \<Rightarrow> int \<Rightarrow> int option \<Rightarrow> bool \<Rightarrow> int option \<Rightarrow> bool \<Rightarrow> bool \<Rightarrow>
   (wait_world, wait_result) app" where
  "wait_until search timeout cursor clean max_bytes use_abort skip w =
     (let s = ww_session w;
          wc = wait_config_of search timeout cursor clean max_bytes use_abort skip w
      in case turn_at wc (ww_frozen w) (ww_now w) (ww_inbox w) s of
           (Some r, w') \<Rightarrow> (r, w')
         | (None, _) \<Rightarrow>
             (case wait_sleep wc (ww_frozen w) (ww_now w) s (ww_inbox w) of
                (Some r, w') \<Rightarrow> (r, w')
              | (None, w') \<Rightarrow> (Inl Timeout_Exn, w')))"

text \<open>The search of a pattern of the sources, as \<open>re.compile(p, re.MULTILINE).search(h, pos)\<close>.\<close>

definition search_at :: "rx \<Rightarrow> string \<Rightarrow> nat \<Rightarrow> string option" where
  "search_at r h pos =
     map_option m_text
       (rx_search_from r pos (if pos = 0 then None else Some (h ! (pos - 1))) (drop pos h))"

section \<open>Writing and streaming\<close>

text \<open>\<open>self._channel.write\<close> belongs to the transport: \<open>ok\<close> is whether it accepts the bytes, which the SSH channel
  refuses with a backend error (\<open>chan_write\<close> in \<open>Ssh_Files\<close>).\<close>

definition session_send :: "int \<Rightarrow> bool \<Rightarrow> string \<Rightarrow> string \<Rightarrow> (term_session, nat) app" where
  "session_send now ok bytes source =
     thenE require_connected
       (\<lambda>s. if \<not> ts_channel s then (Inl (Exn ''AssertionError''), s)
            else if \<not> ok then throw BACKEND_ERROR s
            else (Inr (length bytes),
                  session_log now ''i'' bytes (Some source)
                    (s\<lparr>ts_written := ts_written s @ [bytes], ts_last_activity := now\<rparr>)))"

definition session_resize :: "int \<Rightarrow> int \<Rightarrow> (term_session, unit) app" where
  "session_resize cols rows =
     thenE require_connected
       (\<lambda>s. if \<not> ts_channel s then (Inl (Exn ''AssertionError''), s)
            else (Inr (), s\<lparr>ts_cols := cols, ts_rows := rows\<rparr>))"

definition session_close :: "term_session \<Rightarrow> term_session" where
  "session_close s = session_disconnected (if ts_channel s then s\<lparr>ts_channel_open := False\<rparr> else s)"

definition subscribe :: "term_session \<Rightarrow> nat \<times> term_session" where
  "subscribe s =
     (let q = Suc (Max (set (0 # map fst (ts_subscribers s))))
      in (q, s\<lparr>ts_subscribers := ts_subscribers s @ [(q, [])]\<rparr>))"

definition unsubscribe :: "nat \<Rightarrow> term_session \<Rightarrow> term_session" where
  "unsubscribe q s = s\<lparr>ts_subscribers := filter (\<lambda>(k, _). k \<noteq> q) (ts_subscribers s)\<rparr>"

definition snapshot_bytes :: "int \<Rightarrow> term_session \<Rightarrow> string" where
  "snapshot_bytes max_bytes s =
     fst (ring_read (max (rb_base (ts_ring s)) (ring_end (ts_ring s) - max_bytes)) max_bytes (ts_ring s))"

section \<open>The scan window\<close>

lemma last_newline_bounds: "- 1 \<le> last_newline s \<and> last_newline s < int (length s)"
proof -
  have "length (takeWhile (\<lambda>c. c \<noteq> NL) (rev s)) < length s" if "NL \<in> set s"
  proof -
    have "takeWhile (\<lambda>c. c \<noteq> NL) (rev s) \<noteq> rev s" using that by (auto simp: takeWhile_eq_all_conv)
    then have "length (takeWhile (\<lambda>c. c \<noteq> NL) (rev s)) \<noteq> length (rev s)"
      by (metis takeWhile_eq_take take_all_iff le_refl)
    then show ?thesis using length_takeWhile_le [of "\<lambda>c. c \<noteq> NL" "rev s"] by simp
  qed
  then show ?thesis by (auto simp: last_newline_def)
qed

lemma scan_from_bounds:
  assumes "rb_base (ts_ring s) \<le> start"
  shows "start \<le> scan_from start s"
    and "ring_end (ts_ring s) - scan_from start s \<le> LOOKBACK + 4096"
    and "ring_end (ts_ring s) - start \<le> LOOKBACK \<Longrightarrow> scan_from start s = start"
    and "LOOKBACK < ring_end (ts_ring s) - start \<Longrightarrow> scan_from start s \<le> ring_end (ts_ring s) - LOOKBACK"
proof -
  define e where "e = ring_end (ts_ring s)"
  define hs where "hs = max start (e - LOOKBACK - 4096)"
  define hd' where "hd' = py_slice 0 (e - LOOKBACK - hs) (ring_slice_from hs (ts_ring s))"
  have hs: "start \<le> hs" "e - LOOKBACK - 4096 \<le> hs" by (auto simp: hs_def)
  have eq: "scan_from start s =
    (if e - start \<le> LOOKBACK then start
     else if 0 \<le> last_newline hd' then hs + last_newline hd' + 1 else e - LOOKBACK)"
    by (simp add: scan_from_def Let_def e_def hs_def hd'_def)
  have len: "int (length hd') \<le> e - LOOKBACK - hs" if "\<not> e - start \<le> LOOKBACK"
  proof -
    have "0 \<le> e - LOOKBACK - hs" using that by (auto simp: hs_def LOOKBACK_def)
    then show ?thesis by (auto simp: hd'_def py_slice_nonneg min_def)
  qed
  show "start \<le> scan_from start s"
    using hs last_newline_bounds [of hd'] eq by (auto simp: LOOKBACK_def)
  show "ring_end (ts_ring s) - scan_from start s \<le> LOOKBACK + 4096"
    using hs last_newline_bounds [of hd'] eq by (auto simp: e_def [symmetric] LOOKBACK_def)
  show "ring_end (ts_ring s) - start \<le> LOOKBACK \<Longrightarrow> scan_from start s = start"
    by (simp add: eq e_def)
  show "LOOKBACK < ring_end (ts_ring s) - start \<Longrightarrow> scan_from start s \<le> ring_end (ts_ring s) - LOOKBACK"
    using len last_newline_bounds [of hd'] eq by (auto simp: e_def [symmetric])
qed

section \<open>The wait ends\<close>

lemma wait_turn_deadline:
  "wc_deadline wc \<le> now \<Longrightarrow> \<exists>r s'. wait_turn wc f now s = (Some r, s')"
  by (auto simp: wait_turn_def Let_def split: option.splits prod.splits)

lemma turn_at_deadline:
  "wc_deadline wc \<le> now \<Longrightarrow> \<exists>r w. turn_at wc f now inbox s = (Some r, w) \<and> ww_now w = now"
  using wait_turn_deadline [of wc now f s] by (auto simp: turn_at_def)

lemma turn_at_now: "ww_now (snd (turn_at wc f now inbox s)) = now"
  by (simp add: turn_at_def split: prod.splits)

lemma wait_sleep_step:
  assumes "\<not> wc_deadline wc < t" "apply_input (max now t) ev (f, s) = (f', s')"
  shows "wait_sleep wc f now s ((t, ev) # rest) =
     (case (if \<exists>b. ev = TI_Freeze b then None else fst (turn_at wc f' (max now t) rest s')) of
        Some r \<Rightarrow> turn_at wc f' (max now t) rest s'
      | None \<Rightarrow> wait_sleep wc f' (max now t) s' rest)"
  using assms by (cases ev) (auto simp: Let_def split: prod.splits option.splits)

text \<open>Every outcome is one of a turn of the loop, at a time up to the deadline.\<close>

lemma wait_sleep_ends:
  "now \<le> wc_deadline wc \<Longrightarrow>
   \<exists>r f' now' inbox' s'. wait_sleep wc f now s inbox = turn_at wc f' now' inbox' s' \<and>
     now \<le> now' \<and> now' \<le> wc_deadline wc \<and> fst (turn_at wc f' now' inbox' s') = Some r"
proof (induction inbox arbitrary: now f s)
  case Nil
  have "\<exists>r. fst (turn_at wc f (wc_deadline wc) [] s) = Some r"
    using turn_at_deadline [of wc "wc_deadline wc" f "[]" s] by auto
  moreover have "wait_sleep wc f now s [] = turn_at wc f (wc_deadline wc) [] s"
    using Nil by (simp add: max_def)
  ultimately show ?case using Nil by blast
next
  case (Cons p rest)
  obtain t ev where p: "p = (t, ev)" by (cases p)
  show ?case
  proof (cases "wc_deadline wc < t")
    case True
    have "\<exists>r. fst (turn_at wc f (wc_deadline wc) (p # rest) s) = Some r"
      using turn_at_deadline [of wc "wc_deadline wc" f "p # rest" s] by auto
    moreover have "wait_sleep wc f now s (p # rest) = turn_at wc f (wc_deadline wc) (p # rest) s"
      using True Cons.prems by (simp add: p max_def)
    ultimately show ?thesis using Cons.prems by blast
  next
    case False
    define m where "m = max now t"
    have le: "now \<le> m" "m \<le> wc_deadline wc" using False Cons.prems by (auto simp: m_def)
    obtain f' s' where ap: "apply_input m ev (f, s) = (f', s')" by fastforce
    have step: "wait_sleep wc f now s (p # rest) =
      (case (if \<exists>b. ev = TI_Freeze b then None else fst (turn_at wc f' m rest s')) of
         Some r \<Rightarrow> turn_at wc f' m rest s'
       | None \<Rightarrow> wait_sleep wc f' m s' rest)"
      unfolding p m_def by (rule wait_sleep_step [OF False ap [unfolded m_def]])
    show ?thesis
    proof (cases "if \<exists>b. ev = TI_Freeze b then None else fst (turn_at wc f' m rest s')")
      case None
      then have "wait_sleep wc f now s (p # rest) = wait_sleep wc f' m s' rest" using step by simp
      then show ?thesis using Cons.IH [OF le(2), of f' s'] le by (metis order_trans)
    next
      case (Some r)
      then have "wait_sleep wc f now s (p # rest) = turn_at wc f' m rest s'"
        "fst (turn_at wc f' m rest s') = Some r"
        using step by (auto split: if_splits)
      then show ?thesis using le by blast
    qed
  qed
qed

lemma wait_until_ends:
  assumes "0 \<le> timeout"
    and "wc = wait_config_of search timeout cursor clean mb ab skip w"
  shows "\<exists>r f' now' inbox' s' s1.
     wait_until search timeout cursor clean mb ab skip w =
       (r, \<lparr>ww_session = s1, ww_frozen = f', ww_now = now', ww_inbox = inbox'\<rparr>) \<and>
     wait_turn wc f' now' s' = (Some r, s1) \<and> ww_now w \<le> now' \<and> now' \<le> ww_now w + timeout"
proof (cases "fst (turn_at wc (ww_frozen w) (ww_now w) (ww_inbox w) (ww_session w))")
  case (Some r)
  then show ?thesis
    using assms by (auto simp: wait_until_def wait_config_of_def Let_def turn_at_def split: prod.splits)
next
  case None
  have "ww_now w \<le> wc_deadline wc" using assms by (simp add: wait_config_of_def)
  from wait_sleep_ends [OF this, of "ww_frozen w" "ww_session w" "ww_inbox w"]
  obtain r f' now' inbox' s' where
    e: "wait_sleep wc (ww_frozen w) (ww_now w) (ww_session w) (ww_inbox w) = turn_at wc f' now' inbox' s'"
      "ww_now w \<le> now'" "now' \<le> wc_deadline wc" "fst (turn_at wc f' now' inbox' s') = Some r"
    by blast
  obtain s1 where s1: "wait_turn wc f' now' s' = (Some r, s1)"
    using e(4) by (auto simp: turn_at_def split: prod.splits)
  have "wait_until search timeout cursor clean mb ab skip w =
    (r, \<lparr>ww_session = s1, ww_frozen = f', ww_now = now', ww_inbox = inbox'\<rparr>)"
    using None e s1 unfolding wait_until_def Let_def assms(2) [symmetric]
    by (auto simp: turn_at_def split: prod.splits)
  then show ?thesis using s1 e assms(2) by (auto simp: wait_config_of_def)
qed

lemma read_delta_keeps:
  "ts_ring (snd (read_delta c m cl s)) = ts_ring s"
  "ts_connected (snd (read_delta c m cl s)) = ts_connected s"
  by (simp_all add: read_delta_def Let_def split: prod.splits)

lemma wait_match_ring: "ts_ring s = ts_ring s' \<Longrightarrow> wait_match wc s = wait_match wc s'"
  by (simp add: wait_match_def haystack_def scan_from_def)

lemma wait_turn_keeps:
  assumes "wait_turn wc f now s = (r, s')"
  shows "ts_connected s' = ts_connected s" "wait_match wc s' = wait_match wc s"
proof -
  have "ts_ring s' = ts_ring s \<and> ts_connected s' = ts_connected s"
    using assms
    by (auto simp: wait_turn_def Let_def split: option.splits prod.splits if_splits)
      (metis read_delta_keeps snd_conv)+
  then show "ts_connected s' = ts_connected s" "wait_match wc s' = wait_match wc s"
    by (auto intro: wait_match_ring)
qed

lemma wait_turn_outcome:
  assumes "wait_turn wc f now s = (Some r, s')"
  shows "case r of
      Inr x \<Rightarrow> w_matched x = wait_match wc s \<and>
               (w_matched x = None \<longrightarrow> ts_connected s \<and> wc_deadline wc \<le> now)
    | Inl e \<Rightarrow> (\<exists>x. e = Nt (nt_err_with SESSION_DISCONNECTED x) \<and> \<not> ts_connected s) \<or>
              (\<exists>x. e = Nt (nt_err_with GUEST_FROZEN x) \<and> wc_abort wc \<and> f)"
  using assms by (auto simp: wait_turn_def Let_def split: option.splits prod.splits if_splits)

section \<open>Properties\<close>

text \<open>
  C3. A regex wait always returns, no later than its deadline and no earlier than it began, and only
  for a reason: a match of the text it scanned, the deadline with the session still connected, the
  session's disconnection, or (when it watches for one) the debugger freezing the guest.
\<close>

theorem wait_until_returns:
  assumes "0 \<le> timeout"
  shows "\<exists>r w'. wait_until search timeout cursor clean mb use_abort skip w = (r, w') \<and>
    ww_now w \<le> ww_now w' \<and> ww_now w' \<le> ww_now w + timeout \<and>
    (case r of
       Inr x \<Rightarrow> w_matched x = wait_match (wait_config_of search timeout cursor clean mb use_abort skip w) (ww_session w')
              \<and> (w_matched x = None \<longrightarrow> ww_now w' = ww_now w + timeout \<and> ts_connected (ww_session w'))
     | Inl e \<Rightarrow> (\<exists>x. e = Nt (nt_err_with SESSION_DISCONNECTED x)) \<and> \<not> ts_connected (ww_session w')
              \<or> (\<exists>x. e = Nt (nt_err_with GUEST_FROZEN x)) \<and> use_abort \<and> ww_frozen w')"
proof -
  define wc where "wc = wait_config_of search timeout cursor clean mb use_abort skip w"
  obtain r f' now' inbox' s' s1 where
    u: "wait_until search timeout cursor clean mb use_abort skip w =
       (r, \<lparr>ww_session = s1, ww_frozen = f', ww_now = now', ww_inbox = inbox'\<rparr>)"
    and t: "wait_turn wc f' now' s' = (Some r, s1)" "ww_now w \<le> now'" "now' \<le> ww_now w + timeout"
    using wait_until_ends [OF assms wc_def] by blast
  have dl: "wc_deadline wc = ww_now w + timeout" "wc_abort wc = use_abort"
    by (simp_all add: wc_def wait_config_of_def)
  show ?thesis
    using wait_turn_outcome [OF t(1)] wait_turn_keeps [OF t(1)] u t(2,3) dl
    unfolding wc_def [symmetric] by (cases r) auto
qed

definition open_session :: term_session where
  "open_session = session_attach (new_session ''t-1'' ''win'' ''cmd'' ''ssh'' 80 24 False ''admin'' 0)"

theorem wait_until_returns_witness:
  "\<exists>r w'. wait_until (search_at (rlit ''ok'')) 5 None True None False False
     \<lparr>ww_session = open_session, ww_frozen = False, ww_now = 0, ww_inbox = [(1, TI_Data ''ok'')]\<rparr> = (r, w') \<and>
     ww_now w' \<le> 5"
  using wait_until_returns [of 5 "search_at (rlit ''ok'')" None True None False False
     "\<lparr>ww_session = open_session, ww_frozen = False, ww_now = 0, ww_inbox = [(1, TI_Data ''ok'')]\<rparr>"]
  by auto

text \<open>
  The window a wake of the wait scans is bounded: it starts no earlier than the wait's cursor,
  spans at most the lookback and the 4 KB in which the cut is moved to a line start, covers everything
  since the cursor while that fits the lookback, and the whole lookback otherwise.
\<close>

theorem scan_window_bounded:
  assumes "rb_base (ts_ring s) \<le> start"
  shows "start \<le> scan_from start s \<and>
    ring_end (ts_ring s) - scan_from start s \<le> LOOKBACK + 4096 \<and>
    (if ring_end (ts_ring s) - start \<le> LOOKBACK then scan_from start s = start
     else LOOKBACK \<le> ring_end (ts_ring s) - scan_from start s)"
  using scan_from_bounds [OF assms] by force

theorem scan_window_bounded_witness:
  "scan_from 0 open_session = 0"
proof -
  have "rb_base (ts_ring open_session) \<le> 0"
    by (simp add: open_session_def session_attach_def new_session_def new_ring_def)
  from scan_window_bounded [OF this] show ?thesis
    by (simp add: open_session_def session_attach_def new_session_def new_ring_def ring_end_def LOOKBACK_def)
qed

end
