(* ===== verification/Ssh.thy ===== *)
theory Ssh
  imports Errors
begin

text \<open>
  \<open>term/ssh.py\<close>: the SSH connection of a VM with its host key pin, the one reconnect of a
  dropped link, and the path arithmetic of the file operations. paramiko is a parameter: what a
  blocking call of it ends with is a value of \<open>link_outcome\<close>, by the exception classes the code
  tells apart.
\<close>

section \<open>Shells and probing\<close>

definition SHELL_COMMANDS :: "(string, string) dict" where
  "SHELL_COMMANDS =
    [(''powershell'', ''powershell.exe -NoLogo''),
     (''pwsh'', ''pwsh.exe -NoLogo''),
     (''cmd'', ''cmd.exe /Q'')]"

text \<open>\<open>wait_for_port\<close>: the answers of the successive probes with the times they ended at; a list
  that runs out means no probe ever answered yes. The sleep between probes is part of the times.\<close>

fun wait_for_port :: "int \<Rightarrow> (int \<times> bool) list \<Rightarrow> bool" where
  "wait_for_port deadline [] = False"
| "wait_for_port deadline ((t, ok) # probes) =
     (if ok then True else if deadline \<le> t then False else wait_for_port deadline probes)"

section \<open>The host key pin\<close>

record host_key =
  hk_type :: string
  hk_key :: string

text \<open>The pin file: absent or unreadable, or a key. \<open>missing_host_key\<close> accepts (with the file as
  it then is) or raises HostKeyChanged.\<close>

datatype pin_outcome = Pin_Accepted | Host_Key_Changed

definition missing_host_key :: "host_key \<Rightarrow> host_key option \<Rightarrow> pin_outcome \<times> host_key option" where
  "missing_host_key seen stored =
     (case stored of
        None \<Rightarrow> (Pin_Accepted, Some seen)
      | Some k \<Rightarrow> if k \<noteq> seen then (Host_Key_Changed, stored) else (Pin_Accepted, stored))"

text \<open>Successive connections of a VM.\<close>

fun connections :: "host_key list \<Rightarrow> host_key option \<Rightarrow> pin_outcome list \<times> host_key option" where
  "connections [] stored = ([], stored)"
| "connections (k # ks) stored =
     (let (r, stored1) = missing_host_key k stored; (rs, stored2) = connections ks stored1
      in (r # rs, stored2))"

lemma connections_pinned:
  "connections ks (Some k) = (map (\<lambda>x. if x = k then Pin_Accepted else Host_Key_Changed) ks, Some k)"
  by (induction ks) (auto simp: missing_host_key_def Let_def split: prod.splits)

section \<open>One connection, reconnected once\<close>

datatype 'a link_outcome =
    L_Done 'a
  | L_Dropped
  | L_Timeout
  | L_Error nt_error
  | L_Other string

text \<open>\<open>_guarded\<close>: any failure that is not an NtDriveError becomes a backend error.\<close>

definition guarded :: "'a link_outcome \<Rightarrow> exn + 'a" where
  "guarded r =
     (case r of L_Done x \<Rightarrow> Inr x | L_Error e \<Rightarrow> Inl (Nt e) | _ \<Rightarrow> Inl (Nt (nt_err BACKEND_ERROR)))"

record 'e ssh_api =
  sa_active :: "nat \<Rightarrow> 'e \<Rightarrow> bool"
  sa_connect :: "'e \<Rightarrow> nat link_outcome \<times> 'e"
  sa_present_key :: "'e \<Rightarrow> host_key option"
  sa_close :: "nat \<Rightarrow> 'e \<Rightarrow> 'e"

text \<open>The client id, the pin file, paramiko's world, and the number of operations sent over the link
  so far.\<close>

record 'e ssh_link =
  sl_client :: "nat option"
  sl_pin :: "host_key option"
  sl_env :: 'e
  sl_runs :: nat

definition ssh_close :: "'e ssh_api \<Rightarrow> ('e ssh_link, unit) app" where
  "ssh_close A s =
     (Inr (), case sl_client s of
                None \<Rightarrow> s
              | Some c \<Rightarrow> s\<lparr>sl_client := None, sl_env := sa_close A c (sl_env s)\<rparr>)"

text \<open>\<open>_connect\<close>: the key the guest presents, None when the connection fails before it, then the
  rest of paramiko's connect.\<close>

definition ssh_connect :: "'e ssh_api \<Rightarrow> ('e ssh_link, nat) app" where
  "ssh_connect A s =
     (case sa_present_key A (sl_env s) of
        None \<Rightarrow> throw BACKEND_ERROR s
      | Some key \<Rightarrow>
          (case missing_host_key key (sl_pin s) of
             (Host_Key_Changed, _) \<Rightarrow> throw BACKEND_ERROR s
           | (Pin_Accepted, pin) \<Rightarrow>
               (case sa_connect A (sl_env s) of
                  (r, e) \<Rightarrow>
                    (case guarded r of
                       Inl x \<Rightarrow> (Inl x, s\<lparr>sl_pin := pin, sl_env := e\<rparr>)
                     | Inr c \<Rightarrow> (Inr c, s\<lparr>sl_client := Some c, sl_pin := pin, sl_env := e\<rparr>)))))"

definition ssh_ensure :: "'e ssh_api \<Rightarrow> ('e ssh_link, nat) app" where
  "ssh_ensure A s =
     (case sl_client s of
        Some c \<Rightarrow> if sa_active A c (sl_env s) then (Inr c, s) else ssh_connect A (s\<lparr>sl_client := None\<rparr>)
      | None \<Rightarrow> ssh_connect A s)"

text \<open>One attempt: ensure the client, run the work on it.\<close>

definition ssh_run ::
  "'e ssh_api \<Rightarrow> (nat \<Rightarrow> 'e \<Rightarrow> 'a link_outcome \<times> 'e) \<Rightarrow> ('e ssh_link, 'a link_outcome) app" where
  "ssh_run A work =
     bindE (ssh_ensure A)
       (\<lambda>c s. case work c (sl_env s) of
          (r, e) \<Rightarrow> (Inr r, s\<lparr>sl_env := e, sl_runs := Suc (sl_runs s)\<rparr>))"

text \<open>\<open>for attempt in (1, 2)\<close>: only a dropped link leads to the second one.\<close>

primrec sftp_attempts ::
  "nat \<Rightarrow> 'e ssh_api \<Rightarrow> (nat \<Rightarrow> 'e \<Rightarrow> 'a link_outcome \<times> 'e) \<Rightarrow> ('e ssh_link, 'a) app" where
  "sftp_attempts 0 A work = raise (Exn ''AssertionError'')"
| "sftp_attempts (Suc n) A work =
     bindE (ssh_run A work)
       (\<lambda>r. case r of
          L_Done x \<Rightarrow> ret x
        | L_Dropped \<Rightarrow>
            thenE (ssh_close A) (if n = 0 then throw BACKEND_ERROR else sftp_attempts n A work)
        | L_Error e \<Rightarrow> raise (Nt e)
        | L_Timeout \<Rightarrow> throw BACKEND_ERROR
        | L_Other _ \<Rightarrow> throw BACKEND_ERROR)"

definition sftp_do :: "'e ssh_api \<Rightarrow> (nat \<Rightarrow> 'e \<Rightarrow> 'a link_outcome \<times> 'e) \<Rightarrow> ('e ssh_link, 'a) app" where
  "sftp_do = sftp_attempts 2"

primrec exec_attempts ::
  "nat \<Rightarrow> 'e ssh_api \<Rightarrow> (nat \<Rightarrow> 'e \<Rightarrow> 'a link_outcome \<times> 'e) \<Rightarrow> ('e ssh_link, 'a) app" where
  "exec_attempts 0 A work = raise (Exn ''AssertionError'')"
| "exec_attempts (Suc n) A work =
     bindE (ssh_run A work)
       (\<lambda>r. case r of
          L_Done x \<Rightarrow> ret x
        | L_Dropped \<Rightarrow>
            thenE (ssh_close A) (if n = 0 then throw BACKEND_ERROR else exec_attempts n A work)
        | L_Timeout \<Rightarrow> throw TIMEOUT
        | L_Error e \<Rightarrow> throw BACKEND_ERROR
        | L_Other _ \<Rightarrow> throw BACKEND_ERROR)"

definition exec_once ::
  "'e ssh_api \<Rightarrow> (nat \<Rightarrow> 'e \<Rightarrow> (int \<times> string) link_outcome \<times> 'e) \<Rightarrow> ('e ssh_link, int \<times> string) app" where
  "exec_once = exec_attempts 2"

text \<open>\<open>open_channel\<close>: the guarded open under its own timeout.\<close>

definition ssh_open_channel ::
  "'e ssh_api \<Rightarrow> (nat \<Rightarrow> 'e \<Rightarrow> unit link_outcome \<times> 'e) \<Rightarrow> ('e ssh_link, unit) app" where
  "ssh_open_channel A opening =
     bindE (ssh_run A opening)
       (\<lambda>r. case r of L_Timeout \<Rightarrow> throw TIMEOUT | _ \<Rightarrow> (\<lambda>s. (guarded r, s)))"

section \<open>Remote paths\<close>

definition slashes :: "string \<Rightarrow> string" where
  "slashes p = map (\<lambda>c. if c = BSL then CHR ''/'' else c) p"

definition sftp_path :: "string \<Rightarrow> string" where
  "sftp_path path =
     (let cleaned = slashes path
      in if 2 \<le> length cleaned \<and> cleaned ! 1 = CHR '':'' \<and> is_alpha (cleaned ! 0)
         then CHR ''/'' # cleaned else cleaned)"

text \<open>\<open>cleaned.rsplit("/", 1)[0]\<close>.\<close>

definition before_last :: "char \<Rightarrow> string \<Rightarrow> string" where
  "before_last c s = take (length s - Suc (length (takeWhile (\<lambda>d. d \<noteq> c) (rev s)))) s"

definition after_last :: "char \<Rightarrow> string \<Rightarrow> string" where
  "after_last c s = rev (takeWhile (\<lambda>d. d \<noteq> c) (rev s))"

definition remote_dirname :: "string \<Rightarrow> string" where
  "remote_dirname path =
     (let cleaned = slashes path in if CHR ''/'' \<in> set cleaned then before_last (CHR ''/'') cleaned else [])"

text \<open>The paths \<open>_mkdirs\<close> stats and creates, in order.\<close>

fun mkdirs_chain :: "string \<Rightarrow> string list \<Rightarrow> string list" where
  "mkdirs_chain current [] = []"
| "mkdirs_chain current (part # parts) =
     (let current' = (if current \<noteq> [] then current @ ''/'' @ part else part)
      in (if current' \<noteq> [] \<and> last current' = CHR '':'' then [] else [current']) @ mkdirs_chain current' parts)"

definition mkdirs_paths :: "string \<Rightarrow> string list" where
  "mkdirs_paths directory =
     (if directory = [] \<or> last directory = CHR '':'' then []
      else mkdirs_chain [] (split_char (CHR ''/'') directory))"

text \<open>\<open>_sftp_rmtree\<close> over the tree the server lists: the deletions it sends, in order.\<close>

datatype remote_entry = R_File string | R_Dir string "remote_entry list"

datatype sftp_op = S_Remove string | S_Rmdir string

definition child_path :: "string \<Rightarrow> string \<Rightarrow> string" where
  "child_path path name = rstrip_by (\<lambda>c. c = CHR ''/'') path @ ''/'' @ name"

fun entry_ops :: "string \<Rightarrow> remote_entry \<Rightarrow> sftp_op list" where
  "entry_ops path (R_File name) = [S_Remove (child_path path name)]"
| "entry_ops path (R_Dir name entries) =
     concat (map (entry_ops (child_path path name)) entries) @ [S_Rmdir (child_path path name)]"

definition rmtree_ops :: "string \<Rightarrow> remote_entry list \<Rightarrow> sftp_op list" where
  "rmtree_ops path entries = concat (map (entry_ops path) entries) @ [S_Rmdir path]"

text \<open>\<open>_delete\<close> of \<open>delete_file\<close> on what the path is; None is a missing path.\<close>

definition delete_ops :: "bool \<Rightarrow> string \<Rightarrow> remote_entry option \<Rightarrow> sftp_op list link_outcome" where
  "delete_ops recurse target entry =
     (case entry of
        None \<Rightarrow> L_Other ''FileNotFoundError''
      | Some (R_File _) \<Rightarrow> L_Done [S_Remove target]
      | Some (R_Dir _ entries) \<Rightarrow>
          if recurse then L_Done (rmtree_ops target entries)
          else if entries = [] then L_Done [S_Rmdir target] else L_Other ''OSError'')"

section \<open>Facts\<close>

lemma ssh_close_runs [simp]: "sl_runs (snd (ssh_close A s)) = sl_runs s"
  by (simp add: ssh_close_def split: option.splits)

lemma ssh_close_client [simp]: "sl_client (snd (ssh_close A s)) = None"
  by (simp add: ssh_close_def split: option.splits)

lemma ssh_ensure_runs: "sl_runs (snd (ssh_ensure A s)) = sl_runs s"
  by (simp add: ssh_ensure_def ssh_connect_def throw_def raise_def
      split: option.splits prod.splits sum.splits pin_outcome.splits)

lemma ssh_run_runs:
  assumes "ssh_run A work s = (r, s')"
  shows "(\<exists>x. r = Inl x \<and> sl_runs s' = sl_runs s) \<or> (\<exists>x. r = Inr x \<and> sl_runs s' = Suc (sl_runs s))"
  using assms ssh_ensure_runs [of A s]
  by (auto simp: ssh_run_def bindE_def split: prod.splits sum.splits)

lemma exec_attempts_runs:
  "sl_runs (snd (exec_attempts n A work s)) \<le> sl_runs s + n"
proof (induction n arbitrary: s)
  case 0
  then show ?case by (simp add: raise_def)
next
  case (Suc n)
  obtain r s1 where r: "ssh_run A work s = (r, s1)" by fastforce
  have le: "sl_runs s1 \<le> Suc (sl_runs s)" using ssh_run_runs [OF r] by auto
  obtain u s2 where c: "ssh_close A s1 = (u, s2)" by fastforce
  have s2: "sl_runs s2 = sl_runs s1" using ssh_close_runs [of A s1] c by simp
  have "sl_runs (snd (exec_attempts n A work s2)) \<le> Suc (sl_runs s) + n"
    using Suc.IH [of s2] le s2 by simp
  then show ?case
    using le s2
    by (auto simp: bindE_def r thenE_def throw_def raise_def ret_def c
        split: sum.splits link_outcome.splits)
qed

lemma entry_ops_dirs_last:
  "entry_ops path (R_Dir name entries) = ops @ [x] \<Longrightarrow> x = S_Rmdir (child_path path name)"
  by simp

lemma ssh_pin_kept:
  "sl_pin s = Some k \<Longrightarrow> sl_pin (snd (ssh_ensure A s)) = Some k"
  by (auto simp: ssh_ensure_def ssh_connect_def missing_host_key_def throw_def raise_def
      split: option.splits prod.splits sum.splits pin_outcome.splits if_splits)

section \<open>Properties\<close>

text \<open>
  C7. A command over SSH is sent at most twice, and a second time only when the first attempt found
  the link dropped: the result is the one of the last attempt, a command that timed out or failed in
  any other way is not run again.
\<close>

theorem exec_once_retries_dropped_links:
  assumes "exec_once A work s = (r, s')"
  shows "sl_runs s' \<le> sl_runs s + 2 \<and>
    (sl_runs s' = sl_runs s + 2 \<longrightarrow> (\<exists>s1. ssh_run A work s = (Inr L_Dropped, s1)))"
proof
  show "sl_runs s' \<le> sl_runs s + 2"
    using exec_attempts_runs [of 2 A work s] assms by (simp add: exec_once_def)
  show "sl_runs s' = sl_runs s + 2 \<longrightarrow> (\<exists>s1. ssh_run A work s = (Inr L_Dropped, s1))"
  proof
    assume two: "sl_runs s' = sl_runs s + 2"
    obtain q s1 where q: "ssh_run A work s = (q, s1)" by fastforce
    have le: "sl_runs s1 \<le> Suc (sl_runs s)" using ssh_run_runs [OF q] by auto
    have "q = Inr L_Dropped"
    proof (rule ccontr)
      assume "q \<noteq> Inr L_Dropped"
      then have "s' = s1"
        using assms unfolding exec_once_def numeral_2_eq_2
        by (auto simp: bindE_def q throw_def raise_def ret_def
            split: sum.splits link_outcome.splits)
      then show False using le two by simp
    qed
    then show "\<exists>s1. ssh_run A work s = (Inr L_Dropped, s1)" using q by simp
  qed
qed

text \<open>A guest whose first connection drops and whose second answers.\<close>

definition flaky_guest :: "nat ssh_api" where
  "flaky_guest =
     \<lparr>sa_active = (\<lambda>c e. True), sa_connect = (\<lambda>e. (L_Done e, e)),
      sa_present_key = (\<lambda>e. Some \<lparr>hk_type = ''ed25519'', hk_key = ''k''\<rparr>), sa_close = (\<lambda>c e. e)\<rparr>"

definition flaky_command :: "nat \<Rightarrow> nat \<Rightarrow> (int \<times> string) link_outcome \<times> nat" where
  "flaky_command c e = (if e = 0 then L_Dropped else L_Done (0, ''ok''), Suc e)"

lemma flaky_run:
  "exec_once flaky_guest flaky_command \<lparr>sl_client = None, sl_pin = None, sl_env = 0, sl_runs = 0\<rparr> =
   (Inr (0, ''ok''),
    \<lparr>sl_client = Some 1, sl_pin = Some \<lparr>hk_type = ''ed25519'', hk_key = ''k''\<rparr>, sl_env = 2, sl_runs = 2\<rparr>)"
  by (simp add: exec_once_def numeral_2_eq_2 bindE_def thenE_def ssh_run_def ssh_ensure_def ssh_connect_def
      flaky_guest_def flaky_command_def missing_host_key_def guarded_def ssh_close_def ret_def)

theorem exec_once_retries_dropped_links_witness:
  "\<exists>s1. ssh_run flaky_guest flaky_command \<lparr>sl_client = None, sl_pin = None, sl_env = 0, sl_runs = 0\<rparr> =
     (Inr L_Dropped, s1)"
  using exec_once_retries_dropped_links [OF flaky_run] by simp

text \<open>
  Trust on first use: over any connections of a VM the key of the first one stays pinned, and a
  later connection is accepted exactly when it presents that key.
\<close>

theorem host_key_pinned:
  "connections (k # ks) None =
     (Pin_Accepted # map (\<lambda>x. if x = k then Pin_Accepted else Host_Key_Changed) ks, Some k)"
  by (simp add: missing_host_key_def connections_pinned)

text \<open>
  Creating the directory chain of an absolute guest path loses the leading slash: for
  \<open>C:\a\b\<close> the path sent to the server is \<open>/C:/a/b\<close>, and the directories created for the file
  are \<open>C:/a\<close> relative to the home directory, not the absolute \<open>/C:/a\<close>.
\<close>

theorem mkdirs_relative:
  "sftp_path (''C:'' @ [BSL] @ ''a'' @ [BSL] @ ''b'') = ''/C:/a/b'' \<and>
   mkdirs_paths (remote_dirname ''/C:/a/b'') = [[], ''C:/a''] \<and>
   ''/C:/a'' \<notin> set (mkdirs_paths (remote_dirname ''/C:/a/b''))"
  by (simp add: sftp_path_def slashes_def remote_dirname_def before_last_def mkdirs_paths_def
      is_alpha_def is_upper_def char_between_def ord_def Let_def)

end
