(* ===== verification/Term_Manager.thy ===== *)
theory Term_Manager
  imports World Term_Session Ssh
begin

text \<open>
  \<open>TermManager\<close> of \<open>term/manager.py\<close>: it opens sessions over one SSH connection per VM and
  account, tracks them in the state store, flags them disconnected when the guest goes away and opens
  successors afterwards. A transport is known by whom it connects; opening a channel, the random part
  of a session id, the wait for the SSH port and what a fresh session prints are the environment's.
\<close>

section \<open>State and environment\<close>

record transport =
  tr_vm :: string
  tr_ip :: string
  tr_account :: account

record 'e term_world = "'e world" +
  w_sessions :: "(string, term_session) dict"
  w_transports :: "(string \<times> account, transport) dict"
  w_ips :: "(string \<times> account, string) dict"

record 'e term_outside = "'e outside" +
  x_token :: "'e \<Rightarrow> string \<times> 'e"
  x_open_channel :: "transport \<Rightarrow> string option \<Rightarrow> int \<Rightarrow> int \<Rightarrow> 'e \<Rightarrow> (exn + unit) \<times> 'e"
  x_close_transport :: "transport \<Rightarrow> 'e \<Rightarrow> 'e"
  x_channel_write :: "string \<Rightarrow> string \<Rightarrow> 'e \<Rightarrow> bool \<times> 'e"
  x_session_inbox :: "string \<Rightarrow> 'e \<Rightarrow> term_inbox \<times> 'e"
  x_session_rest :: "string \<Rightarrow> term_inbox \<Rightarrow> 'e \<Rightarrow> 'e"
  x_wait_for_port :: "string \<Rightarrow> int \<Rightarrow> int \<Rightarrow> 'e \<Rightarrow> bool \<times> 'e"

type_synonym ('e, 'z, 'a) tprog = "(('e, 'z) term_world_scheme, 'a) app"

definition set_session :: "string \<Rightarrow> term_session \<Rightarrow> ('e, 'z) term_world_scheme \<Rightarrow> ('e, 'z) term_world_scheme" where
  "set_session sid s w = w\<lparr>w_sessions := dict_set sid s (w_sessions w)\<rparr>"

section \<open>Lookup\<close>

definition term_get :: "string \<Rightarrow> ('e, 'z, term_session) tprog" where
  "term_get sid w =
     (case dict_get (w_sessions w) sid of Some s \<Rightarrow> (Inr s, w) | None \<Rightarrow> throw SESSION_NOT_FOUND w)"

definition term_sessions :: "string \<Rightarrow> store \<Rightarrow> (string, json) dict list" where
  "term_sessions vm st =
     concat (map (\<lambda>r. if vm \<noteq> [] \<and> rt_name r \<noteq> vm then [] else map term_info_dict (dict_values (rt_terms r)))
       (store_all st))"

definition transport_for :: "string \<Rightarrow> account \<Rightarrow> ('e, 'z) term_world_scheme \<Rightarrow> transport option" where
  "transport_for vm acct w = dict_get (w_transports w) (vm, acct)"

definition close_transport :: "('e, 'x) term_outside_scheme \<Rightarrow> transport \<Rightarrow> ('e, 'z, unit) tprog" where
  "close_transport X tr w = (Inr (), w\<lparr>w_env := x_close_transport X tr (w_env w)\<rparr>)"

definition get_transport ::
  "('e, 'x) term_outside_scheme \<Rightarrow> vm_config \<Rightarrow> string \<Rightarrow> account \<Rightarrow> ('e, 'z, transport) tprog" where
  "get_transport X vm ip acct w =
     (let key = (vc_name vm, acct); existing = dict_get (w_transports w) key
      in case existing of
           Some tr \<Rightarrow>
             if dict_get (w_ips w) key = Some ip then (Inr tr, w)
             else thenE (close_transport X tr)
                    (\<lambda>w1. let new = \<lparr>tr_vm = vc_name vm, tr_ip = ip, tr_account = acct\<rparr>
                     in (Inr new, w1\<lparr>w_transports := dict_set key new (w_transports w1), w_ips := dict_set key ip (w_ips w1)\<rparr>)) w
         | None \<Rightarrow>
             let new = \<lparr>tr_vm = vc_name vm, tr_ip = ip, tr_account = acct\<rparr>
             in (Inr new, w\<lparr>w_transports := dict_set key new (w_transports w), w_ips := dict_set key ip (w_ips w)\<rparr>))"

section \<open>Session operations on the world\<close>

definition set_info :: "string \<Rightarrow> (term_info \<Rightarrow> term_info) \<Rightarrow> vm_runtime \<Rightarrow> vm_runtime" where
  "set_info sid f r =
     (case dict_get (rt_terms r) sid of
        None \<Rightarrow> r
      | Some info \<Rightarrow> r\<lparr>rt_terms := dict_set sid (f info) (rt_terms r)\<rparr>)"

text \<open>An update through the object \<open>self.state.term(sid)\<close> finds: the first VM that has it.\<close>

fun update_first :: "string \<Rightarrow> (term_info \<Rightarrow> term_info) \<Rightarrow> (string, vm_runtime) dict \<Rightarrow> (string, vm_runtime) dict" where
  "update_first sid f [] = []"
| "update_first sid f ((n, r) # vms) =
     (if dict_has (rt_terms r) sid then (n, set_info sid f r) # vms else (n, r) # update_first sid f vms)"

definition update_term :: "string \<Rightarrow> (term_info \<Rightarrow> term_info) \<Rightarrow> store \<Rightarrow> store" where
  "update_term sid f st = st\<lparr>st_vms := update_first sid f (st_vms st)\<rparr>"

definition set_term_state :: "string \<Rightarrow> term_state \<Rightarrow> store \<Rightarrow> store" where
  "set_term_state sid t =
     update_term sid (\<lambda>info. if ti_state info \<noteq> T_Closed then info\<lparr>ti_state := t\<rparr> else info)"

text \<open>\<open>_on_channel_closed\<close>, fired by the transport once the channel is gone.\<close>

definition on_channel_closed :: "string \<Rightarrow> ('e, 'z) term_world_scheme \<Rightarrow> ('e, 'z) term_world_scheme" where
  "on_channel_closed sid w =
     (case dict_get (w_sessions w) sid of
        None \<Rightarrow> w\<lparr>w_store := set_term_state sid T_Disconnected (w_store w)\<rparr>
      | Some s \<Rightarrow> (set_session sid (session_disconnected s) w)
                   \<lparr>w_store := set_term_state sid T_Disconnected (w_store w)\<rparr>)"

definition send_to :: "('e, 'x) term_outside_scheme \<Rightarrow> string \<Rightarrow> string \<Rightarrow> string \<Rightarrow> ('e, 'z, nat) tprog" where
  "send_to X sid bytes source w =
     (case dict_get (w_sessions w) sid of
        None \<Rightarrow> (Inl (Exn ''KeyError''), w)
      | Some s \<Rightarrow>
          if \<not> ts_connected s then (case require_connected s of (Inl x, _) \<Rightarrow> (Inl x, w) | (Inr _, _) \<Rightarrow> (Inr 0, w))
          else
            (case x_channel_write X sid bytes (w_env w) of
               (ok, e) \<Rightarrow>
                 (case session_send (now X w) ok bytes source s of
                    (r, s1) \<Rightarrow> (r, (set_session sid s1 w)\<lparr>w_env := e\<rparr>))))"

text \<open>A wait on a session of the manager: \<open>held\<close> is whether the debugger holds the guest when it begins, \<open>holds\<close>
  when that changes, merged by time into what the channel brings. The transport's close callback also flags
  the session in the store.\<close>

definition is_hold :: "int \<times> term_input \<Rightarrow> bool" where
  "is_hold p = (case snd p of TI_Freeze _ \<Rightarrow> True | _ \<Rightarrow> False)"

fun merge_inbox :: "term_inbox \<Rightarrow> term_inbox \<Rightarrow> term_inbox" where
  "merge_inbox [] ys = ys"
| "merge_inbox xs [] = xs"
| "merge_inbox (x # xs) (y # ys) =
     (if fst y \<le> fst x then y # merge_inbox (x # xs) ys else x # merge_inbox xs (y # ys))"

definition wait_held ::
  "('e, 'x) term_outside_scheme \<Rightarrow> string \<Rightarrow> bool \<Rightarrow> term_inbox \<Rightarrow> (string \<Rightarrow> nat \<Rightarrow> string option) \<Rightarrow> int \<Rightarrow> int option \<Rightarrow>
   bool \<Rightarrow> int option \<Rightarrow> bool \<Rightarrow> bool \<Rightarrow> ('e, 'z, wait_result) tprog" where
  "wait_held X sid held holds search timeout cursor clean max_bytes use_abort skip w =
     (case dict_get (w_sessions w) sid of
        None \<Rightarrow> (Inl (Exn ''KeyError''), w)
      | Some s \<Rightarrow>
          (case x_session_inbox X sid (w_env w) of
             (inbox, e) \<Rightarrow>
               (case wait_until search timeout cursor clean max_bytes use_abort skip
                       \<lparr>ww_session = s, ww_frozen = held, ww_now = x_now X e,
                        ww_inbox = merge_inbox (filter (\<lambda>p. \<not> is_hold p) inbox) holds\<rparr> of
                  (r, ww) \<Rightarrow>
                    let rest = filter (\<lambda>p. \<not> is_hold p) (ww_inbox ww);
                        w1 = (set_session sid (ww_session ww) w)
                              \<lparr>w_env := x_session_rest X sid rest (x_sleep_until X (ww_now ww) e)\<rparr>
                    in (r, if ts_connected s \<and> \<not> ts_connected (ww_session ww) then on_channel_closed sid w1 else w1))))"

text \<open>The manager's own waits do not look at the debugger.\<close>

definition wait_on ::
  "('e, 'x) term_outside_scheme \<Rightarrow> string \<Rightarrow> (string \<Rightarrow> nat \<Rightarrow> string option) \<Rightarrow> int \<Rightarrow> int option \<Rightarrow> bool \<Rightarrow>
   int option \<Rightarrow> bool \<Rightarrow> bool \<Rightarrow> ('e, 'z, wait_result) tprog" where
  "wait_on X sid = wait_held X sid False []"

definition set_cursor :: "string \<Rightarrow> int \<Rightarrow> ('e, 'z, unit) tprog" where
  "set_cursor sid c w =
     (Inr (), w\<lparr>w_sessions := map (\<lambda>(k, s). (k, if k = sid then s\<lparr>ts_cursor := c\<rparr> else s)) (w_sessions w)\<rparr>)"

definition set_shell_pid :: "string \<Rightarrow> int \<Rightarrow> ('e, 'z, unit) tprog" where
  "set_shell_pid sid p w =
     (Inr (), w\<lparr>w_sessions := map (\<lambda>(k, s). (k, if k = sid then s\<lparr>ts_shell_pid := Some p\<rparr> else s)) (w_sessions w)\<rparr>)"

definition session_end :: "string \<Rightarrow> ('e, 'z) term_world_scheme \<Rightarrow> int" where
  "session_end sid w = (case dict_get (w_sessions w) sid of None \<Rightarrow> 0 | Some s \<Rightarrow> ring_end (ts_ring s))"

section \<open>Opening a session\<close>

definition PSREADLINE_OFF :: string where
  "PSREADLINE_OFF = ''Remove-Module PSReadLine -ErrorAction SilentlyContinue; Clear-Host'' @ [CR]"

definition PROMPT_READY :: rx where
  "PROMPT_READY =
     RSeq RBeginLine (RSeq (rlit ''PS '') (RSeq (RStar (\<lambda>c. c \<noteq> CR \<and> c \<noteq> NL))
       (RSeq (RSet (\<lambda>c. c = CHR ''>'')) (RSeq (ropt (RSet (\<lambda>c. c = CHR '' ''))) RDollarLine))))"

definition SHELL_READY_TIMEOUT :: int where "SHELL_READY_TIMEOUT = 5000"

definition PID_MARKER :: string where "PID_MARKER = ''__NTDRIVE_PID__''"

definition PID_PATTERN :: rx where
  "PID_PATTERN = RSeq (rlit PID_MARKER) (RGroup 1 (rplus is_digit))"

definition PID_PROBE_TIMEOUT :: int where "PID_PROBE_TIMEOUT = 3000"

definition PS_PID_PROBE :: string where
  "PS_PID_PROBE =
     ''Write-Output ('' @ [DQ] @ ''__NTDRIVE'' @ [DQ] @ '' + '' @ [DQ] @ ''_PID__'' @ [DQ] @ '' + $PID)'' @ [CR]"

definition CMD_PID_PROBE :: string where
  "CMD_PID_PROBE =
     ''powershell -NoProfile -Command '' @ [DQ] @ ''('' @ [SQ] @ ''__NTDRIVE'' @ [SQ] @ '' + '' @ [SQ] @ ''_PID__'' @ [SQ] @
     '' + (Get-CimInstance Win32_Process -Filter ('' @ [SQ] @ ''ProcessId='' @ [SQ] @ '' + $PID)).ParentProcessId)'' @
     [DQ] @ [CR]"

definition PID_PROBES :: "(string, string) dict" where
  "PID_PROBES = [(''powershell'', PS_PID_PROBE), (''pwsh'', PS_PID_PROBE), (''cmd'', CMD_PID_PROBE)]"

definition wait_for :: "('e, 'x) term_outside_scheme \<Rightarrow> string \<Rightarrow> rx \<Rightarrow> int \<Rightarrow> int \<Rightarrow> ('e, 'z, wait_result) tprog" where
  "wait_for X sid pattern timeout start =
     wait_on X sid (search_at pattern) timeout (Some start) True None False False"

text \<open>The value-error of \<open>int\<close> cannot happen: the group is digits.\<close>

definition probe_shell_pid :: "('e, 'x) term_outside_scheme \<Rightarrow> string \<Rightarrow> string \<Rightarrow> ('e, 'z, unit) tprog" where
  "probe_shell_pid X sid shell =
     (case dict_get PID_PROBES shell of
        None \<Rightarrow> ret ()
      | Some probe \<Rightarrow>
          suppress_nt
            (bindE (getS (session_end sid)) (\<lambda>start.
             thenE (bindE (send_to X sid probe ''system'') (\<lambda>_. ret ()))
             (bindE (wait_for X sid PID_PATTERN PID_PROBE_TIMEOUT start) (\<lambda>answer.
              (case rx_search PID_PATTERN (opt_or (w_matched answer) []) of
                 None \<Rightarrow> ret ()
               | Some found \<Rightarrow>
                   thenE (set_shell_pid sid (int (digits_value (group found 1))))
                     (set_cursor sid (d_cursor (w_delta answer)))))))))"

definition quiet_psreadline :: "('e, 'x) term_outside_scheme \<Rightarrow> string \<Rightarrow> ('e, 'z, unit) tprog" where
  "quiet_psreadline X sid =
     suppress_nt
       (bindE (getS (session_end sid)) (\<lambda>start.
        bindE (send_to X sid PSREADLINE_OFF ''system'') (\<lambda>_.
        bindE (wait_for X sid PROMPT_READY SHELL_READY_TIMEOUT start) (\<lambda>ready.
          if w_matched ready \<noteq> None \<and> w_matched ready \<noteq> Some []
          then set_cursor sid (d_cursor (w_delta ready)) else ret ()))))"

definition register_session ::
  "string \<Rightarrow> vm_config \<Rightarrow> string \<Rightarrow> account \<Rightarrow> int \<Rightarrow> int \<Rightarrow> string \<Rightarrow> int \<Rightarrow> ('e, 'z, unit) tprog" where
  "register_session sid vm shell acct cols rows coview_base t w =
     (let s = session_attach (new_session sid (vc_name vm) shell ''ssh'' cols rows True (account_text acct) t);
          info = \<lparr>ti_session_id = sid, ti_vm = vc_name vm, ti_shell = shell, ti_transport = ''ssh'',
                  ti_account = account_text acct, ti_state = T_Open, ti_opened_at = t, ti_last_activity = t,
                  ti_successor = None,
                  ti_coview_url = (if coview_base \<noteq> [] then coview_base @ ''#'' @ sid else [])\<rparr>
      in (Inr (), (set_session sid s w)
            \<lparr>w_store := update_vm (vc_name vm) (\<lambda>r. r\<lparr>rt_terms := dict_set sid info (rt_terms r)\<rparr>) (w_store w)\<rparr>))"

definition term_open ::
  "('e, 'x) term_outside_scheme \<Rightarrow> string \<Rightarrow> vm_config \<Rightarrow> string \<Rightarrow> string \<Rightarrow> int \<Rightarrow> int \<Rightarrow> string \<Rightarrow> account \<Rightarrow>
   ('e, 'z, string) tprog" where
  "term_open X coview_base vm ip shell cols rows kind acct =
     (if kind \<noteq> ''auto'' \<and> kind \<noteq> ''ssh'' then throw BACKEND_UNSUPPORTED
      else
        bindE (get_transport X vm ip acct) (\<lambda>tr.
        bindE (envE (x_token X)) (\<lambda>tok.
        bindE (env_tryE (x_open_channel X tr (dict_get SHELL_COMMANDS shell) cols rows)) (\<lambda>_.
        bindE (getS (now X)) (\<lambda>t.
        let sid = ''t-'' @ tok in
        thenE (register_session sid vm shell acct cols rows coview_base t)
        (thenE (if shell = ''powershell'' \<or> shell = ''pwsh'' then quiet_psreadline X sid else ret ())
        (thenE (probe_shell_pid X sid shell)
        (ret sid))))))))"

section \<open>Closing\<close>

definition close_session :: "string \<Rightarrow> ('e, 'z) term_world_scheme \<Rightarrow> ('e, 'z) term_world_scheme" where
  "close_session sid w =
     (case dict_get (w_sessions w) sid of None \<Rightarrow> w | Some s \<Rightarrow> set_session sid (session_close s) w)"

definition term_close :: "string \<Rightarrow> ('e, 'z, unit) tprog" where
  "term_close sid =
     bindE (term_get sid)
       (\<lambda>s w. let w1 = close_session sid w
              in (Inr (), w1\<lparr>w_store := set_term_state sid T_Closed (w_store w1)\<rparr>))"

text \<open>\<open>prune\<close>, over the runtimes in order and the sessions of each.\<close>

definition prunable :: "string \<Rightarrow> vm_runtime \<Rightarrow> string list" where
  "prunable vm r =
     (if vm \<noteq> [] \<and> rt_name r \<noteq> vm then []
      else map fst (filter (\<lambda>(sid, info). ti_state info \<noteq> T_Open) (rt_terms r)))"

definition prune_runtime :: "string \<Rightarrow> vm_runtime \<Rightarrow> vm_runtime" where
  "prune_runtime vm r = r\<lparr>rt_terms := filter (\<lambda>(sid, info). sid \<notin> set (prunable vm r)) (rt_terms r)\<rparr>"

definition term_prune :: "string \<Rightarrow> ('e, 'z, string list) tprog" where
  "term_prune vm w =
     (let removed = concat (map (prunable vm) (store_all (w_store w)))
      in (Inr removed,
          w\<lparr>w_sessions := filter (\<lambda>(sid, s). sid \<notin> set removed) (w_sessions w),
            w_store := (w_store w)\<lparr>st_vms := map (\<lambda>(n, r). (n, prune_runtime vm r)) (st_vms (w_store w))\<rparr>\<rparr>))"

text \<open>\<open>mark_disconnected\<close>: the open sessions of a VM, in order.\<close>

definition live_sessions :: "string \<Rightarrow> (string, term_session) dict \<Rightarrow> string list" where
  "live_sessions vm ss = map fst (filter (\<lambda>(sid, s). ts_vm s = vm \<and> ts_connected s) ss)"

definition mark_disconnected :: "string \<Rightarrow> ('e, 'z, string list) tprog" where
  "mark_disconnected vm w =
     (let dropped = live_sessions vm (w_sessions w)
      in (Inr dropped,
          w\<lparr>w_sessions := map (\<lambda>(sid, s). (sid, if ts_vm s = vm \<and> ts_connected s then session_close s else s)) (w_sessions w),
            w_store := fold (\<lambda>sid. set_term_state sid T_Disconnected) dropped (w_store w)\<rparr>))"

definition drop_transport :: "('e, 'x) term_outside_scheme \<Rightarrow> string \<Rightarrow> ('e, 'z, unit) tprog" where
  "drop_transport X vm w =
     (let gone = filter (\<lambda>((v, a), tr). v = vm) (w_transports w)
      in (Inr (),
          w\<lparr>w_transports := filter (\<lambda>((v, a), tr). v \<noteq> vm) (w_transports w),
            w_ips := filter (\<lambda>(k, ip). k \<notin> fst ` set gone) (w_ips w),
            w_env := fold (\<lambda>(k, tr). x_close_transport X tr) gone (w_env w)\<rparr>))"

definition set_successor :: "string \<Rightarrow> string \<Rightarrow> ('e, 'z, unit) tprog" where
  "set_successor old new w =
     (Inr (),
      w\<lparr>w_sessions := map (\<lambda>(k, s). (k, if k = old then s\<lparr>ts_successor := Some new\<rparr> else s)) (w_sessions w),
        w_store := update_term old (\<lambda>info. info\<lparr>ti_successor := Some new\<rparr>) (w_store w)\<rparr>)"

definition open_successor ::
  "('e, 'x) term_outside_scheme \<Rightarrow> string \<Rightarrow> vm_config \<Rightarrow> string \<Rightarrow> string \<Rightarrow> ('e, 'z, string) tprog" where
  "open_successor X base vm ip old_id w =
     (let old = dict_get (w_sessions w) old_id;
          shell = (case old of Some s \<Rightarrow> ts_shell s | None \<Rightarrow> g_shell (vc_guest vm));
          cols = (case old of Some s \<Rightarrow> ts_cols s | None \<Rightarrow> 120);
          rows = (case old of Some s \<Rightarrow> ts_rows s | None \<Rightarrow> 40);
          acct = (case old of Some s \<Rightarrow> if ts_account s = ''standard'' then Standard else Admin | None \<Rightarrow> Admin)
      in bindE (term_open X base vm ip shell cols rows ''auto'' acct)
           (\<lambda>new. thenE (set_successor old_id new) (ret new)) w)"

definition term_reopen ::
  "('e, 'x) term_outside_scheme \<Rightarrow> string \<Rightarrow> vm_config \<Rightarrow> string \<Rightarrow> string list \<Rightarrow> int \<Rightarrow> ('e, 'z, string list) tprog" where
  "term_reopen X base vm ip old_ids timeout =
     (if old_ids = [] then ret []
      else
        bindE (envE (x_wait_for_port X ip (g_ssh_port (vc_guest vm)) timeout)) (\<lambda>ok.
        if \<not> ok then throw TIMEOUT
        else thenE (drop_transport X (vc_name vm)) (mapE (open_successor X base vm ip) old_ids)))"

definition term_close_all :: "('e, 'x) term_outside_scheme \<Rightarrow> ('e, 'z, unit) tprog" where
  "term_close_all X w =
     (Inr (),
      w\<lparr>w_sessions := map (\<lambda>(k, s). (k, session_close s)) (w_sessions w),
        w_env := fold (\<lambda>(k, tr). x_close_transport X tr) (w_transports w) (w_env w),
        w_transports := []\<rparr>)"

end
