(* ===== verification/Term_Invariant.thy ===== *)
theory Term_Invariant
  imports Term_Manager
begin

text \<open>
  The invariant of the terminal manager, kept by every step: session ids are unique, the state store
  says open only of sessions that are registered for that VM and connected. What a reboot or a revert
  relies on follows: after \<open>mark_disconnected\<close> no session of the VM counts as open.
\<close>

section \<open>Looking up a session's record\<close>

definition info_of :: "store \<Rightarrow> string \<Rightarrow> string \<Rightarrow> term_info option" where
  "info_of st n sid = dict_get (rt_terms (vm_of st n)) sid"

text \<open>Every id is in the terms of one VM at most, once.\<close>

definition ids_unique :: "(string, vm_runtime) dict \<Rightarrow> bool" where
  "ids_unique vms =
     (distinct (map fst vms) \<and>
      (\<forall>n r. (n, r) \<in> set vms \<longrightarrow> distinct (map fst (rt_terms r))) \<and>
      (\<forall>n r n' r' sid. (n, r) \<in> set vms \<longrightarrow> (n', r') \<in> set vms \<longrightarrow>
         dict_has (rt_terms r) sid \<longrightarrow> dict_has (rt_terms r') sid \<longrightarrow> n = n'))"

lemma dict_has_set: "dict_has (dict_set k v d) k' \<longleftrightarrow> k' = k \<or> dict_has d k'"
  by (simp add: dict_has_def)

lemma set_info_terms: "dict_has (rt_terms (set_info sid f r)) k \<longleftrightarrow> dict_has (rt_terms r) k"
  by (auto simp: set_info_def dict_has_set dict_has_def split: option.splits)

lemma set_info_get:
  "dict_get (rt_terms (set_info sid f r)) k =
     (if k = sid then map_option f (dict_get (rt_terms r) k) else dict_get (rt_terms r) k)"
  by (auto simp: set_info_def split: option.splits)

lemma set_info_distinct:
  "distinct (map fst (rt_terms r)) \<Longrightarrow> distinct (map fst (rt_terms (set_info sid f r)))"
  using distinct_dict_set [of "rt_terms r"] by (auto simp: set_info_def dict_keys_def split: option.splits)

lemma set_info_name [simp]: "rt_name (set_info sid f r) = rt_name r"
  by (simp add: set_info_def split: option.splits)

lemma update_first_keys: "map fst (update_first sid f vms) = map fst vms"
  by (induction vms) auto

lemma update_first_set:
  "x \<in> set (update_first sid f vms) \<Longrightarrow>
   x \<in> set vms \<or> (\<exists>n r. (n, r) \<in> set vms \<and> x = (n, set_info sid f r))"
proof (induction vms)
  case (Cons p vms)
  obtain n r where p: "p = (n, r)" by (cases p)
  show ?case
  proof (cases "dict_has (rt_terms r) sid")
    case True
    then show ?thesis using Cons.prems by (simp add: p) blast
  next
    case False
    then have "x = (n, r) \<or> x \<in> set (update_first sid f vms)" using Cons.prems by (simp add: p)
    then show ?thesis using Cons.IH unfolding p list.set insert_iff by blast
  qed
qed simp

lemma ids_uniqueD:
  assumes "ids_unique vms"
  shows "distinct (map fst vms)" "(n, r) \<in> set vms \<Longrightarrow> distinct (map fst (rt_terms r))"
    "(n, r) \<in> set vms \<Longrightarrow> (n', r') \<in> set vms \<Longrightarrow> dict_has (rt_terms r) sid \<Longrightarrow>
     dict_has (rt_terms r') sid \<Longrightarrow> n = n'"
  using assms unfolding ids_unique_def by blast+

lemma ids_unique_Cons: "ids_unique (p # vms) \<Longrightarrow> ids_unique vms"
  unfolding ids_unique_def by (simp only: list.set(2) list.map distinct.simps insert_iff) blast

lemma update_first_origin:
  assumes "(n, r) \<in> set (update_first sid f vms)"
  obtains r0 where "(n, r0) \<in> set vms"
    "distinct (map fst (rt_terms r0)) \<Longrightarrow> distinct (map fst (rt_terms r))"
    "\<And>k. dict_has (rt_terms r) k = dict_has (rt_terms r0) k"
  using update_first_set [OF assms]
proof
  assume "(n, r) \<in> set vms"
  then show ?thesis by (rule that) simp_all
next
  assume "\<exists>m q. (m, q) \<in> set vms \<and> (n, r) = (m, set_info sid f q)"
  then obtain q where q: "(n, q) \<in> set vms" "r = set_info sid f q" by blast
  show ?thesis by (rule that [OF q(1)]) (simp_all add: q(2) set_info_distinct set_info_terms)
qed

lemma ids_unique_update:
  assumes "ids_unique vms"
  shows "ids_unique (update_first sid f vms)"
  unfolding ids_unique_def update_first_keys
proof (intro conjI allI impI)
  show "distinct (map fst vms)" by (rule ids_uniqueD(1) [OF assms])
  show "distinct (map fst (rt_terms r))" if r: "(n, r) \<in> set (update_first sid f vms)" for n r
    by (rule update_first_origin [OF r]) (use ids_uniqueD(2) [OF assms] in blast)
next
  fix n r n' r' k
  assume r: "(n, r) \<in> set (update_first sid f vms)" "(n', r') \<in> set (update_first sid f vms)"
    "dict_has (rt_terms r) k" "dict_has (rt_terms r') k"
  obtain r0 where r0: "(n, r0) \<in> set vms" "dict_has (rt_terms r0) k"
    using update_first_origin [OF r(1)] r(3) by metis
  obtain r0' where r0': "(n', r0') \<in> set vms" "dict_has (rt_terms r0') k"
    using update_first_origin [OF r(2)] r(4) by metis
  show "n = n'" by (rule ids_uniqueD(3) [OF assms r0(1) r0'(1) r0(2) r0'(2)])
qed

lemma set_info_absent: "\<not> dict_has (rt_terms r) sid \<Longrightarrow> set_info sid f r = r"
  by (simp add: set_info_def dict_has_def)

lemma update_first_get:
  "ids_unique vms \<Longrightarrow> dict_get (update_first sid f vms) n = map_option (set_info sid f) (dict_get vms n)"
proof (induction vms)
  case Nil
  then show ?case by simp
next
  case (Cons p vms)
  obtain m r where p: "p = (m, r)" by (cases p)
  show ?case
  proof (cases "dict_has (rt_terms r) sid")
    case True
    have "\<not> dict_has (rt_terms r') sid" if "(n, r') \<in> set vms" for r'
    proof
      assume "dict_has (rt_terms r') sid"
      then have "m = n" using ids_uniqueD(3) [OF Cons.prems, of m r n r' sid] that True by (simp add: p)
      moreover have "m \<notin> fst ` set vms" using Cons.prems by (simp add: ids_unique_def p)
      ultimately show False using that by force
    qed
    then have "map_option (set_info sid f) (dict_get vms n) = dict_get vms n"
      by (cases "dict_get vms n") (auto dest!: map_of_SomeD simp: set_info_absent)
    then show ?thesis using True by (simp add: p)
  next
    case False
    then show ?thesis
      using Cons.IH [OF ids_unique_Cons [OF Cons.prems]] by (simp add: p set_info_absent)
  qed
qed

lemma info_of_update_term:
  assumes "ids_unique (st_vms st)"
  shows "info_of (update_term s f st) n sid =
    (if sid = s then map_option f (info_of st n sid) else info_of st n sid)"
  using update_first_get [OF assms, of s f n]
  by (auto simp: info_of_def vm_of_def store_vm_def update_term_def set_info_get fresh_runtime_def
      split: option.splits)

lemma info_of_update_vm:
  "info_of (update_vm m (\<lambda>r. r\<lparr>rt_terms := dict_set s i (rt_terms r)\<rparr>) st) n sid =
    (if n = m \<and> sid = s then Some i else info_of st n sid)"
  by (simp add: info_of_def)

definition mark_state :: "term_state \<Rightarrow> term_info \<Rightarrow> term_info" where
  "mark_state t info = (if ti_state info \<noteq> T_Closed then info\<lparr>ti_state := t\<rparr> else info)"

lemma set_term_state_eq: "set_term_state sid t = update_term sid (mark_state t)"
  unfolding set_term_state_def mark_state_def [abs_def] by (rule refl)

lemma ids_unique_set_state:
  "ids_unique (st_vms st) \<Longrightarrow> ids_unique (st_vms (set_term_state sid t st))"
  by (simp add: set_term_state_eq update_term_def ids_unique_update)

lemma ids_unique_states:
  "ids_unique (st_vms st) \<Longrightarrow> ids_unique (st_vms (fold (\<lambda>sid. set_term_state sid t) sids st))"
  by (induction sids arbitrary: st) (simp_all add: ids_unique_set_state)

lemma info_of_states:
  "ids_unique (st_vms st) \<Longrightarrow>
   info_of (fold (\<lambda>sid. set_term_state sid T_Disconnected) sids st) n sid =
     (if sid \<in> set sids then map_option (mark_state T_Disconnected) (info_of st n sid) else info_of st n sid)"
proof (induction sids arbitrary: st)
  case Nil
  then show ?case by simp
next
  case (Cons s sids)
  have twice: "map_option (mark_state T_Disconnected) (map_option (mark_state T_Disconnected) x)
      = map_option (mark_state T_Disconnected) x" for x
    by (cases x) (auto simp: mark_state_def)
  have "ids_unique (st_vms (set_term_state s T_Disconnected st))"
    using Cons.prems by (rule ids_unique_set_state)
  then show ?case
    using Cons.IH [of "set_term_state s T_Disconnected st"] info_of_update_term [OF Cons.prems, of s]
    by (auto simp: set_term_state_eq twice)
qed

section \<open>The invariant\<close>

definition live :: "('e, 'z) term_world_scheme \<Rightarrow> string \<Rightarrow> string \<Rightarrow> bool" where
  "live w n sid = (\<exists>s. dict_get (w_sessions w) sid = Some s \<and> ts_vm s = n \<and> ts_connected s)"

definition term_ok :: "('e, 'z) term_world_scheme \<Rightarrow> bool" where
  "term_ok w =
     (distinct (map fst (w_sessions w)) \<and> ids_unique (st_vms (w_store w)) \<and>
      (\<forall>n sid info. info_of (w_store w) n sid = Some info \<longrightarrow> ti_state info = T_Open \<longrightarrow> live w n sid))"

lemma term_okI:
  "distinct (map fst (w_sessions w)) \<Longrightarrow> ids_unique (st_vms (w_store w)) \<Longrightarrow>
   (\<And>n sid info. info_of (w_store w) n sid = Some info \<Longrightarrow> ti_state info = T_Open \<Longrightarrow> live w n sid) \<Longrightarrow>
   term_ok w"
  by (simp add: term_ok_def)

lemma term_okD:
  assumes "term_ok w"
  shows "distinct (map fst (w_sessions w))" "ids_unique (st_vms (w_store w))"
    "info_of (w_store w) n sid = Some info \<Longrightarrow> ti_state info = T_Open \<Longrightarrow> live w n sid"
  using assms by (auto simp: term_ok_def)

text \<open>A session replaced by one of the same VM that is at least as connected keeps it, and so does
  one that is flagged in the store at the same time.\<close>

lemma term_ok_env [simp]: "term_ok (w\<lparr>w_env := e\<rparr>) \<longleftrightarrow> term_ok w"
  by (simp add: term_ok_def live_def)

lemma distinct_set_session:
  "distinct (map fst (w_sessions w)) \<Longrightarrow> distinct (map fst (w_sessions (set_session sid s w)))"
  using distinct_dict_set [of "w_sessions w" sid s] by (simp add: set_session_def dict_keys_def)

lemma term_ok_replace:
  assumes "term_ok w" "dict_get (w_sessions w) sid = Some s"
    and "ts_vm s' = ts_vm s" "ts_connected s \<Longrightarrow> ts_connected s'"
  shows "term_ok (set_session sid s' w)"
proof (rule term_okI)
  show "distinct (map fst (w_sessions (set_session sid s' w)))"
    by (rule distinct_set_session) (rule term_okD(1) [OF assms(1)])
  show "ids_unique (st_vms (w_store (set_session sid s' w)))"
    using term_okD(2) [OF assms(1)] by (simp add: set_session_def)
next
  fix n k info
  assume "info_of (w_store (set_session sid s' w)) n k = Some info" "ti_state info = T_Open"
  then have "live w n k" using term_okD(3) [OF assms(1)] by (simp add: set_session_def)
  then show "live (set_session sid s' w) n k"
    using assms(2-4) by (auto simp: live_def set_session_def)
qed

lemma mark_state_not_open: "t \<noteq> T_Open \<Longrightarrow> ti_state (mark_state t info) \<noteq> T_Open"
  by (auto simp: mark_state_def)

lemma term_ok_flag:
  assumes "term_ok w" "t \<noteq> T_Open"
    and "\<And>k. k \<noteq> sid \<Longrightarrow> dict_get (w_sessions w') k = dict_get (w_sessions w) k"
    and "distinct (map fst (w_sessions w'))"
    and "w_store w' = set_term_state sid t (w_store w)"
  shows "term_ok w'"
proof (rule term_okI)
  note u = term_okD(2) [OF assms(1)]
  show "ids_unique (st_vms (w_store w'))" using ids_unique_set_state [OF u] assms(5) by simp
  fix n k info
  assume i: "info_of (w_store w') n k = Some info" "ti_state info = T_Open"
  then have "k \<noteq> sid"
    using mark_state_not_open [OF assms(2)] info_of_update_term [OF u, of sid "mark_state t" n k]
    by (auto simp: assms(5) set_term_state_eq)
  then have "info_of (w_store w) n k = Some info"
    using i(1) info_of_update_term [OF u, of sid "mark_state t" n k] by (simp add: assms(5) set_term_state_eq)
  then show "live w' n k"
    using term_okD(3) [OF assms(1) _ i(2)] assms(3) \<open>k \<noteq> sid\<close> by (auto simp: live_def)
qed (rule assms(4))

lemma term_ok_channel_closed: "term_ok w \<Longrightarrow> term_ok (on_channel_closed sid w)"
proof -
  assume ok: "term_ok w"
  show ?thesis
  proof (rule term_ok_flag [OF ok, of T_Disconnected sid])
    show "distinct (map fst (w_sessions (on_channel_closed sid w)))"
      using term_okD(1) [OF ok] distinct_set_session [of w]
      by (auto simp: on_channel_closed_def split: option.splits)
    show "w_store (on_channel_closed sid w) = set_term_state sid T_Disconnected (w_store w)"
      by (simp add: on_channel_closed_def split: option.splits)
  qed (auto simp: on_channel_closed_def set_session_def split: option.splits)
qed

section \<open>Waits and sends\<close>

lemma feed_keeps [simp]:
  "ts_vm (session_feed t d s) = ts_vm s" "ts_connected (session_feed t d s) = ts_connected s"
  by (simp_all add: session_feed_def push_all_def session_log_def Let_def)

lemma disconnected_keeps [simp]:
  "ts_vm (session_disconnected s) = ts_vm s" "\<not> ts_connected (session_disconnected s)"
  by (simp_all add: session_disconnected_def push_all_def)

lemma read_delta_vm: "ts_vm (snd (read_delta c m cl s)) = ts_vm s"
  by (simp add: read_delta_def Let_def split: prod.splits)

lemma wait_turn_vm: "ts_vm (snd (wait_turn wc f t s)) = ts_vm s"
  using read_delta_vm
  by (auto simp: wait_turn_def Let_def split: option.splits prod.splits) (metis snd_conv)+

lemma apply_input_vm: "ts_vm (snd (apply_input t ev (f, s))) = ts_vm s"
  by (cases ev) simp_all

lemma turn_at_vm: "ts_vm (ww_session (snd (turn_at wc g v rest x))) = ts_vm x"
  using wait_turn_vm [of wc g v x] by (cases "wait_turn wc g v x") (simp add: turn_at_def)

lemma wait_sleep_vm: "ts_vm (ww_session (snd (wait_sleep wc f t s inbox))) = ts_vm s"
proof (induction inbox arbitrary: f t s)
  case Nil
  show ?case by (simp add: turn_at_vm)
next
  case (Cons p inbox)
  obtain u ev where p: "p = (u, ev)" by (cases p)
  show ?case
  proof (cases "wc_deadline wc < u")
    case True
    then show ?thesis by (simp add: p turn_at_vm)
  next
    case False
    obtain f' s' where ap: "apply_input (max t u) ev (f, s) = (f', s')" by fastforce
    have vm: "ts_vm s' = ts_vm s" using apply_input_vm [of "max t u" ev f s] ap by simp
    show ?thesis
      unfolding p wait_sleep_step [OF False ap]
      using Cons.IH [of f' "max t u" s'] turn_at_vm [of wc f' "max t u" inbox s'] vm
      by (auto split: option.splits)
  qed
qed

lemma wait_until_vm:
  "ts_vm (ww_session (snd (wait_until search t c cl mb ab sk w))) = ts_vm (ww_session w)"
proof -
  define wc where "wc = wait_config_of search t c cl mb ab sk w"
  obtain o1 w1 where t: "turn_at wc (ww_frozen w) (ww_now w) (ww_inbox w) (ww_session w) = (o1, w1)"
    by fastforce
  obtain o2 w2 where sl: "wait_sleep wc (ww_frozen w) (ww_now w) (ww_session w) (ww_inbox w) = (o2, w2)"
    by fastforce
  have "ts_vm (ww_session w1) = ts_vm (ww_session w)" "ts_vm (ww_session w2) = ts_vm (ww_session w)"
    using turn_at_vm [of wc "ww_frozen w" "ww_now w" "ww_inbox w" "ww_session w"] t
      wait_sleep_vm [of wc "ww_frozen w" "ww_now w" "ww_session w" "ww_inbox w"] sl by simp_all
  then show ?thesis
    unfolding wait_until_def Let_def wc_def [symmetric] t
    by (cases o1; cases o2) (simp_all add: sl)
qed

lemma term_ok_wait_held: "term_ok w \<Longrightarrow> term_ok (snd (wait_held X sid held holds search t c cl mb ab sk w))"
proof (cases "dict_get (w_sessions w) sid")
  case None
  assume "term_ok w"
  then show ?thesis using None by (simp add: wait_held_def)
next
  case (Some s)
  assume ok: "term_ok w"
  obtain inbox e where e: "x_session_inbox X sid (w_env w) = (inbox, e)" by fastforce
  define w0 where "w0 = \<lparr>ww_session = s, ww_frozen = held, ww_now = x_now X e,
      ww_inbox = merge_inbox (filter (\<lambda>p. \<not> is_hold p) inbox) holds\<rparr>"
  obtain r ww where u: "wait_until search t c cl mb ab sk w0 = (r, ww)" by fastforce
  have vm: "ts_vm (ww_session ww) = ts_vm s"
    using wait_until_vm [of search t c cl mb ab sk w0] u by (simp add: w0_def)
  define w1 where "w1 = (set_session sid (ww_session ww) w)
      \<lparr>w_env := x_session_rest X sid (filter (\<lambda>p. \<not> is_hold p) (ww_inbox ww)) (x_sleep_until X (ww_now ww) e)\<rparr>"
  have res: "snd (wait_held X sid held holds search t c cl mb ab sk w) =
      (if ts_connected s \<and> \<not> ts_connected (ww_session ww) then on_channel_closed sid w1 else w1)"
    using Some e u by (simp add: wait_held_def w0_def w1_def Let_def)
  show ?thesis
  proof (cases "ts_connected s \<and> \<not> ts_connected (ww_session ww)")
    case False
    then have "term_ok (set_session sid (ww_session ww) w)"
      using term_ok_replace [OF ok Some vm] by blast
    then show ?thesis unfolding res if_not_P [OF False] w1_def by simp
  next
    case True
    have "term_ok (on_channel_closed sid w1)"
    proof (rule term_ok_flag [OF ok, of T_Disconnected sid])
      show "distinct (map fst (w_sessions (on_channel_closed sid w1)))"
        using distinct_set_session [of "set_session sid (ww_session ww) w" sid]
          distinct_set_session [OF term_okD(1) [OF ok], of sid "ww_session ww"]
        by (auto simp: on_channel_closed_def w1_def set_session_def split: option.splits)
      show "w_store (on_channel_closed sid w1) = set_term_state sid T_Disconnected (w_store w)"
        by (simp add: on_channel_closed_def w1_def set_session_def split: option.splits)
    qed (auto simp: on_channel_closed_def w1_def set_session_def split: option.splits)
    then show ?thesis using True res by simp
  qed
qed

lemma send_keeps:
  "ts_vm (snd (session_send t ok d src s)) = ts_vm s"
  "ts_connected (snd (session_send t ok d src s)) = ts_connected s"
  by (simp_all add: session_send_def thenE_def bindE_def require_connected_def ret_def throw_with_def
      throw_def raise_def session_log_def Let_def)

lemma term_ok_send_to: "term_ok w \<Longrightarrow> term_ok (snd (send_to X sid d src w))"
proof (cases "dict_get (w_sessions w) sid")
  case (Some s)
  assume ok: "term_ok w"
  obtain b e where e: "x_channel_write X sid d (w_env w) = (b, e)" by fastforce
  obtain r s1 where s1: "session_send (now X w) b d src s = (r, s1)" by fastforce
  have "ts_vm s1 = ts_vm s" "ts_connected s1 = ts_connected s"
    using send_keeps [of "now X w" b d src s] s1 by simp_all
  then have "term_ok (set_session sid s1 w)" using term_ok_replace [OF ok Some] by simp
  then show ?thesis using Some ok e s1 by (auto simp: send_to_def split: prod.splits sum.splits)
qed (simp add: send_to_def)

section \<open>Edits of sessions and of their records\<close>

lemma dict_get_map: "dict_get (map (\<lambda>(k, s). (k, g k s)) d) x = map_option (g x) (dict_get d x)"
  by (induction d) auto

lemma term_ok_edit:
  assumes "term_ok w" "w_store w' = w_store w"
    and "w_sessions w' = map (\<lambda>(k, s). (k, g k s)) (w_sessions w)"
    and "\<And>k s. ts_vm (g k s) = ts_vm s \<and> ts_connected (g k s) = ts_connected s"
  shows "term_ok w'"
proof (rule term_okI)
  show "distinct (map fst (w_sessions w'))"
    using term_okD(1) [OF assms(1)] by (simp add: assms(3) comp_def case_prod_beta)
  show "ids_unique (st_vms (w_store w'))" using term_okD(2) [OF assms(1)] assms(2) by simp
  fix n k info
  assume "info_of (w_store w') n k = Some info" "ti_state info = T_Open"
  then have "live w n k" using term_okD(3) [OF assms(1)] assms(2) by simp
  then show "live w' n k" using assms(4) by (auto simp: live_def assms(3) dict_get_map)
qed

lemma term_ok_set_cursor: "term_ok w \<Longrightarrow> term_ok (snd (set_cursor sid c w))"
  by (rule term_ok_edit [of w _ "\<lambda>k s. if k = sid then s\<lparr>ts_cursor := c\<rparr> else s"]) (simp_all add: set_cursor_def)

lemma term_ok_set_pid: "term_ok w \<Longrightarrow> term_ok (snd (set_shell_pid sid c w))"
  by (rule term_ok_edit [of w _ "\<lambda>k s. if k = sid then s\<lparr>ts_shell_pid := Some c\<rparr> else s"])
    (simp_all add: set_shell_pid_def)

lemma term_ok_set_successor: "term_ok w \<Longrightarrow> term_ok (snd (set_successor old new w))"
proof (rule term_okI)
  assume ok: "term_ok w"
  note u = term_okD(2) [OF ok]
  let ?w = "snd (set_successor old new w)"
  have ss: "w_sessions ?w = map (\<lambda>(k, s). (k, if k = old then s\<lparr>ts_successor := Some new\<rparr> else s)) (w_sessions w)"
    and st: "w_store ?w = update_term old (\<lambda>i. i\<lparr>ti_successor := Some new\<rparr>) (w_store w)"
    by (simp_all add: set_successor_def)
  show "distinct (map fst (w_sessions ?w))"
    using term_okD(1) [OF ok] by (simp add: ss comp_def case_prod_beta)
  show "ids_unique (st_vms (w_store ?w))" using ids_unique_update [OF u] by (simp add: st update_term_def)
  fix n k info
  assume i: "info_of (w_store ?w) n k = Some info" "ti_state info = T_Open"
  obtain i0 where "info_of (w_store w) n k = Some i0" "ti_state i0 = T_Open"
    using i info_of_update_term [OF u, of old _ n k] unfolding st by (cases "k = old") auto
  then have "live w n k" by (rule term_okD(3) [OF ok])
  then obtain s where "dict_get (w_sessions w) k = Some s" "ts_vm s = n" "ts_connected s"
    by (auto simp: live_def)
  then show "live ?w n k" by (cases "k = old") (simp_all add: live_def ss dict_get_map)
qed

lemma close_keeps [simp]:
  "ts_vm (session_close s) = ts_vm s" "\<not> ts_connected (session_close s)"
  by (simp_all add: session_close_def)

lemma term_ok_close: "term_ok w \<Longrightarrow> term_ok (snd (term_close sid w))"
proof (cases "dict_get (w_sessions w) sid")
  case None
  assume "term_ok w"
  then show ?thesis using None by (simp add: term_close_def term_get_def bindE_def throw_def raise_def)
next
  case (Some s)
  assume ok: "term_ok w"
  show ?thesis
  proof (rule term_ok_flag [OF ok, of T_Closed sid])
    show "distinct (map fst (w_sessions (snd (term_close sid w))))"
      using distinct_set_session [OF term_okD(1) [OF ok], of sid "session_close s"] Some
      by (simp add: term_close_def term_get_def bindE_def close_session_def Let_def)
  qed (simp_all add: term_close_def term_get_def bindE_def close_session_def Let_def Some set_session_def)
qed

section \<open>A new session\<close>

definition fresh_sid :: "string \<Rightarrow> ('e, 'z) term_world_scheme \<Rightarrow> bool" where
  "fresh_sid sid w = (dict_get (w_sessions w) sid = None \<and> (\<forall>n. info_of (w_store w) n sid = None))"

lemma update_vm_vms: "st_vms (update_vm n f st) = dict_set n (f (vm_of st n)) (st_vms st)"
  by (simp add: update_vm_def store_vm_def vm_of_def split: option.splits)

lemma dict_set_mem:
  "distinct (map fst d) \<Longrightarrow> (m, r) \<in> set (dict_set n r' d) \<Longrightarrow> m = n \<and> r = r' \<or> m \<noteq> n \<and> (m, r) \<in> set d"
  by (induction d) (auto split: if_splits simp: image_iff)

lemma vm_of_mem: "distinct (map fst (st_vms st)) \<Longrightarrow> (m, r) \<in> set (st_vms st) \<Longrightarrow> vm_of st m = r"
  by (simp add: vm_of_def store_vm_def)

lemma vm_of_terms_mem: "dict_has (rt_terms (vm_of st n)) k \<Longrightarrow> (n, vm_of st n) \<in> set (st_vms st)"
  by (auto simp: vm_of_def store_vm_def fresh_runtime_def dict_has_def split: option.splits dest: map_of_SomeD)

lemma vm_of_distinct: "ids_unique (st_vms st) \<Longrightarrow> distinct (map fst (rt_terms (vm_of st n)))"
  by (auto simp: vm_of_def store_vm_def fresh_runtime_def ids_uniqueD(2) split: option.splits dest!: map_of_SomeD)

lemma ids_unique_register:
  assumes u: "ids_unique (st_vms st)" and fresh: "\<And>n. info_of st n sid = None"
  shows "ids_unique (st_vms (update_vm v (\<lambda>r. r\<lparr>rt_terms := dict_set sid i (rt_terms r)\<rparr>) st))"
proof -
  define r' where "r' = (vm_of st v)\<lparr>rt_terms := dict_set sid i (rt_terms (vm_of st v))\<rparr>"
  have vms: "st_vms (update_vm v (\<lambda>r. r\<lparr>rt_terms := dict_set sid i (rt_terms r)\<rparr>) st) = dict_set v r' (st_vms st)"
    by (simp add: update_vm_vms r'_def)
  have has: "dict_has (rt_terms r') k \<longleftrightarrow> k = sid \<or> dict_has (rt_terms (vm_of st v)) k" for k
    by (simp add: r'_def dict_has_set)
  have other: "m = v" if "(m, r) \<in> set (st_vms st)" "dict_has (rt_terms r) k" "dict_has (rt_terms r') k" for m r k
  proof (cases "k = sid")
    case True
    then have "info_of st m sid \<noteq> None"
      using that vm_of_mem [OF ids_uniqueD(1) [OF u] that(1)] by (simp add: info_of_def dict_has_def)
    then show ?thesis using fresh by simp
  next
    case False
    then have "dict_has (rt_terms (vm_of st v)) k" using that(3) has by simp
    then show ?thesis using ids_uniqueD(3) [OF u that(1) vm_of_terms_mem that(2)] by blast
  qed
  have mem: "(m = v \<and> r = r') \<or> (m \<noteq> v \<and> (m, r) \<in> set (st_vms st))"
    if "(m, r) \<in> set (dict_set v r' (st_vms st))" for m r
    using dict_set_mem [OF ids_uniqueD(1) [OF u] that] .
  show ?thesis
    unfolding vms ids_unique_def
  proof (intro conjI allI impI)
    show "distinct (map fst (dict_set v r' (st_vms st)))"
      using distinct_dict_set [of "st_vms st" v r'] ids_uniqueD(1) [OF u] by (simp add: dict_keys_def)
    show "distinct (map fst (rt_terms r))" if "(m, r) \<in> set (dict_set v r' (st_vms st))" for m r
      using mem [OF that] ids_uniqueD(2) [OF u] vm_of_distinct [OF u, of v]
        distinct_dict_set [of "rt_terms (vm_of st v)" sid i] by (auto simp: r'_def dict_keys_def)
    show "m = m'" if "(m, r) \<in> set (dict_set v r' (st_vms st))" "(m', q) \<in> set (dict_set v r' (st_vms st))"
      "dict_has (rt_terms r) k" "dict_has (rt_terms q) k" for m r m' q k
      using mem [OF that(1)] mem [OF that(2)] other that(3,4) ids_uniqueD(3) [OF u] by metis
  qed
qed

lemma term_ok_register:
  assumes ok: "term_ok w" and fresh: "fresh_sid sid w"
  shows "term_ok (snd (register_session sid vm shell acct cols rows base t w))"
proof (rule term_okI)
  let ?w = "snd (register_session sid vm shell acct cols rows base t w)"
  obtain s i where ss: "w_sessions ?w = dict_set sid s (w_sessions w)"
    and st: "w_store ?w = update_vm (vc_name vm) (\<lambda>r. r\<lparr>rt_terms := dict_set sid i (rt_terms r)\<rparr>) (w_store w)"
    and s: "ts_vm s = vc_name vm" "ts_connected s"
    by (simp add: register_session_def Let_def set_session_def new_session_def session_attach_def)
  show "distinct (map fst (w_sessions ?w))"
    using distinct_dict_set [of "w_sessions w" sid s] term_okD(1) [OF ok] by (simp add: ss dict_keys_def)
  show "ids_unique (st_vms (w_store ?w))"
    unfolding st using fresh by (intro ids_unique_register term_okD(2) [OF ok]) (simp add: fresh_sid_def)
  fix n k info
  assume "info_of (w_store ?w) n k = Some info" "ti_state info = T_Open"
  then show "live ?w n k"
    using term_okD(3) [OF ok, of n k info] fresh s
    by (auto simp: st info_of_update_vm live_def ss fresh_sid_def split: if_splits)
qed

lemma term_ok_cong:
  "w_sessions w' = w_sessions w \<Longrightarrow> w_store w' = w_store w \<Longrightarrow> term_ok w' = term_ok w"
  by (simp add: term_ok_def live_def)

lemma fresh_cong:
  "w_sessions w' = w_sessions w \<Longrightarrow> w_store w' = w_store w \<Longrightarrow> fresh_sid sid w' = fresh_sid sid w"
  by (simp add: fresh_sid_def)

lemma get_transport_keeps:
  "\<exists>tr w1. get_transport X vm ip acct w = (Inr tr, w1) \<and>
     w_sessions w1 = w_sessions w \<and> w_store w1 = w_store w"
proof (cases "dict_get (w_transports w) (vc_name vm, acct)")
  case None
  then show ?thesis by (simp add: get_transport_def Let_def)
next
  case (Some tr)
  then show ?thesis
    by (cases "dict_get (w_ips w) (vc_name vm, acct) = Some ip")
      (simp_all add: get_transport_def Let_def thenE_def bindE_def close_transport_def)
qed

lemma term_ok_wait_for: "preserves term_ok (wait_for X sid p t c)"
  unfolding wait_for_def wait_on_def by (rule preservesI) (rule term_ok_wait_held)

lemma term_ok_quiet: "preserves term_ok (quiet_psreadline X sid)"
  unfolding quiet_psreadline_def
  by (intro preserves_intros term_ok_wait_for)
    (auto intro!: preservesI term_ok_send_to term_ok_set_cursor simp: ret_def)

lemma term_ok_probe: "preserves term_ok (probe_shell_pid X sid shell)"
  unfolding probe_shell_pid_def
  by (intro preserves_intros term_ok_wait_for)
    (auto intro!: preservesI term_ok_send_to term_ok_set_cursor term_ok_set_pid simp: ret_def)

lemma term_ok_open:
  assumes ok: "term_ok w" and fresh: "\<And>e. fresh_sid (''t-'' @ fst (x_token X e)) w"
  shows "term_ok (snd (term_open X base vm ip shell cols rows kind acct w))"
proof (cases "kind \<noteq> ''auto'' \<and> kind \<noteq> ''ssh''")
  case True
  then show ?thesis using ok by (simp add: term_open_def throw_def raise_def)
next
  case False
  obtain tr w1 where w1: "get_transport X vm ip acct w = (Inr tr, w1)"
    "w_sessions w1 = w_sessions w" "w_store w1 = w_store w"
    using get_transport_keeps by blast
  obtain tok e where tok: "x_token X (w_env w1) = (tok, e)" by fastforce
  obtain r e' where oc: "x_open_channel X tr (dict_get SHELL_COMMANDS shell) cols rows e = (r, e')" by fastforce
  define w2 where "w2 = w1\<lparr>w_env := e'\<rparr>"
  define sid where "sid = ''t-'' @ tok"
  have ok2: "term_ok w2" using term_ok_cong [of w2 w] ok w1 by (simp add: w2_def)
  have fresh2: "fresh_sid sid w2"
    using fresh [of "w_env w1"] fresh_cong [of w2 w] w1 tok by (simp add: w2_def sid_def)
  have init: "term_open X base vm ip shell cols rows kind acct w =
     (case r of
        Inl x \<Rightarrow> (Inl x, w2)
      | Inr _ \<Rightarrow>
         thenE (register_session sid vm shell acct cols rows base (now X w2))
           (thenE (if shell = ''powershell'' \<or> shell = ''pwsh'' then quiet_psreadline X sid else ret ())
             (thenE (probe_shell_pid X sid shell) (ret sid))) w2)"
    using False w1 tok oc
    by (cases r) (auto simp: term_open_def bindE_def envE_def env_tryE_def getS_def w2_def sid_def Let_def)
  have rest: "preserves term_ok (thenE (if shell = ''powershell'' \<or> shell = ''pwsh'' then quiet_psreadline X sid else ret ())
             (thenE (probe_shell_pid X sid shell) (ret sid)))"
    by (intro preserves_intros term_ok_quiet term_ok_probe)
  obtain u w3 where reg: "register_session sid vm shell acct cols rows base (now X w2) w2 = (Inr u, w3)"
    by (simp add: register_session_def Let_def)
  have "term_ok w3" using term_ok_register [OF ok2 fresh2, of vm shell acct cols rows base "now X w2"] reg by simp
  then have ok3: "term_ok (snd (thenE (if shell = ''powershell'' \<or> shell = ''pwsh'' then quiet_psreadline X sid else ret ())
             (thenE (probe_shell_pid X sid shell) (ret sid)) w3))"
    by (rule preservesD [OF rest])
  show ?thesis
    unfolding init using ok2 ok3 by (cases r) (simp_all add: thenE_Inr [of "register_session sid vm shell acct cols rows base (now X w2)" w2, OF reg])
qed

section \<open>Forgetting and disconnecting\<close>

lemma dict_get_filter_key: "dict_get (filter (\<lambda>(k, v). P k) d) x = (if P x then dict_get d x else None)"
  by (induction d) auto

lemma prunable_iff:
  "distinct (map fst (rt_terms r)) \<Longrightarrow>
   sid \<in> set (prunable vm r) \<longleftrightarrow>
     (vm = [] \<or> rt_name r = vm) \<and> (\<exists>info. dict_get (rt_terms r) sid = Some info \<and> ti_state info \<noteq> T_Open)"
proof -
  assume d: "distinct (map fst (rt_terms r))"
  have "sid \<in> set (map fst (filter (\<lambda>(sid, info). ti_state info \<noteq> T_Open) (rt_terms r))) \<longleftrightarrow>
      (\<exists>info. (sid, info) \<in> set (rt_terms r) \<and> ti_state info \<noteq> T_Open)" by force
  then show ?thesis using map_of_eq_Some_iff [OF d, of sid] by (auto simp: prunable_def)
qed

text \<open>The records \<open>prune\<close> leaves: the open ones of the VMs it looks at, all of the others.\<close>

lemma info_of_prune:
  fixes w :: "('e, 'z) term_world_scheme"
  assumes "ids_unique (st_vms (w_store w))"
  shows "info_of (w_store (snd (term_prune vm w))) n sid =
    (case info_of (w_store w) n sid of
       None \<Rightarrow> None
     | Some info \<Rightarrow>
         if (vm = [] \<or> rt_name (vm_of (w_store w) n) = vm) \<and> ti_state info \<noteq> T_Open then None else Some info)"
proof -
  have g: "rt_terms (prune_runtime vm (fresh_runtime m)) = []" "rt_terms (fresh_runtime m) = []" for m
    by (simp_all add: prune_runtime_def fresh_runtime_def)
  have st: "st_vms (w_store (snd (term_prune vm w))) = map (\<lambda>(n, r). (n, prune_runtime vm r)) (st_vms (w_store w))"
    by (simp add: term_prune_def Let_def)
  have "rt_terms (vm_of (w_store (snd (term_prune vm w))) n) = rt_terms (prune_runtime vm (vm_of (w_store w) n))"
    by (cases "dict_get (st_vms (w_store w)) n")
      (simp_all add: vm_of_def store_vm_def st dict_get_map [of "\<lambda>_. prune_runtime vm"] g)
  then show ?thesis
    using prunable_iff [OF vm_of_distinct [OF assms, of n], of sid vm]
    by (auto simp: info_of_def prune_runtime_def dict_get_filter_key split: option.splits)
qed

lemma filter_keys_distinct: "distinct (map fst d) \<Longrightarrow> distinct (map fst (filter P d))"
  by (induction d) (auto simp: image_iff)

lemma prune_terms_sub: "dict_has (rt_terms (prune_runtime vm r)) k \<Longrightarrow> dict_has (rt_terms r) k"
  by (auto simp: prune_runtime_def dict_has_def dict_get_filter_key split: if_splits)

lemma ids_unique_prune:
  assumes "ids_unique vms"
  shows "ids_unique (map (\<lambda>(n, r). (n, prune_runtime vm r)) vms)"
  unfolding ids_unique_def
proof (intro conjI allI impI)
  show "distinct (map fst (map (\<lambda>(n, r). (n, prune_runtime vm r)) vms))"
    using ids_uniqueD(1) [OF assms] by (simp add: comp_def case_prod_beta)
next
  fix n r assume "(n, r) \<in> set (map (\<lambda>(n, r). (n, prune_runtime vm r)) vms)"
  then obtain q where q: "(n, q) \<in> set vms" "r = prune_runtime vm q" by auto
  show "distinct (map fst (rt_terms r))"
    using filter_keys_distinct [OF ids_uniqueD(2) [OF assms q(1)]] by (simp add: q(2) prune_runtime_def)
next
  fix n r n' r' k
  assume a: "(n, r) \<in> set (map (\<lambda>(n, r). (n, prune_runtime vm r)) vms)"
    "(n', r') \<in> set (map (\<lambda>(n, r). (n, prune_runtime vm r)) vms)"
    "dict_has (rt_terms r) k" "dict_has (rt_terms r') k"
  obtain q where q: "(n, q) \<in> set vms" "r = prune_runtime vm q" using a(1) by auto
  obtain q' where q': "(n', q') \<in> set vms" "r' = prune_runtime vm q'" using a(2) by auto
  show "n = n'"
    by (rule ids_uniqueD(3) [OF assms q(1) q'(1)]) (use a(3,4) q(2) q'(2) prune_terms_sub in blast)+
qed

text \<open>An id that \<open>prune\<close> drops is the id of a record that is not open.\<close>

lemma pruned_not_open:
  assumes u: "ids_unique (st_vms st)" and "sid \<in> set (concat (map (prunable vm) (store_all st)))"
    and i: "info_of st n sid = Some info"
  shows "ti_state info \<noteq> T_Open"
proof -
  obtain m r where r: "(m, r) \<in> set (st_vms st)" "sid \<in> set (prunable vm r)"
    using assms(2) by (auto simp: store_all_def dict_values_def)
  then obtain j where j: "dict_get (rt_terms r) sid = Some j" "ti_state j \<noteq> T_Open"
    using prunable_iff [OF ids_uniqueD(2) [OF u r(1)]] by blast
  have h: "dict_has (rt_terms (vm_of st n)) sid" using i by (simp add: info_of_def dict_has_def)
  have "dict_has (rt_terms r) sid" using j(1) by (simp add: dict_has_def)
  then have "m = n" by (rule ids_uniqueD(3) [OF u r(1) vm_of_terms_mem [OF h] _ h])
  then have "vm_of st n = r" using vm_of_mem [OF ids_uniqueD(1) [OF u] r(1)] by simp
  then show ?thesis using i j by (simp add: info_of_def)
qed

lemma term_ok_prune: "term_ok w \<Longrightarrow> term_ok (snd (term_prune vm w))"
proof (rule term_okI)
  assume ok: "term_ok w"
  note u = term_okD(2) [OF ok]
  let ?w = "snd (term_prune vm w)"
  let ?removed = "concat (map (prunable vm) (store_all (w_store w)))"
  have ss: "w_sessions ?w = filter (\<lambda>(sid, s). sid \<notin> set ?removed) (w_sessions w)"
    by (simp add: term_prune_def Let_def)
  show "distinct (map fst (w_sessions ?w))"
    unfolding ss by (rule filter_keys_distinct) (rule term_okD(1) [OF ok])
  show "ids_unique (st_vms (w_store ?w))"
    using ids_unique_prune [OF u] by (simp add: term_prune_def Let_def)
  fix n k info
  assume i: "info_of (w_store ?w) n k = Some info" "ti_state info = T_Open"
  then have i0: "info_of (w_store w) n k = Some info"
    unfolding info_of_prune [OF u] by (auto split: option.splits if_splits)
  then have "k \<notin> set ?removed" using pruned_not_open [OF u] i(2) by blast
  then show "live ?w n k"
    using term_okD(3) [OF ok i0 i(2)] by (simp only: live_def ss dict_get_filter_key) simp
qed

lemma live_sessions_iff:
  "distinct (map fst ss) \<Longrightarrow>
   sid \<in> set (live_sessions vm ss) \<longleftrightarrow> (\<exists>s. dict_get ss sid = Some s \<and> ts_vm s = vm \<and> ts_connected s)"
proof -
  assume d: "distinct (map fst ss)"
  have "sid \<in> set (live_sessions vm ss) \<longleftrightarrow> (\<exists>s. (sid, s) \<in> set ss \<and> ts_vm s = vm \<and> ts_connected s)"
    by (force simp: live_sessions_def)
  then show ?thesis using map_of_eq_Some_iff [OF d, of sid] by auto
qed

lemma mark_disconnected_eq:
  "w_sessions (snd (mark_disconnected vm w)) =
     map (\<lambda>(sid, s). (sid, if ts_vm s = vm \<and> ts_connected s then session_close s else s)) (w_sessions w)"
  "w_store (snd (mark_disconnected vm w)) =
     fold (\<lambda>sid. set_term_state sid T_Disconnected) (live_sessions vm (w_sessions w)) (w_store w)"
  "fst (mark_disconnected vm w) = Inr (live_sessions vm (w_sessions w))"
  by (simp_all add: mark_disconnected_def Let_def)

lemma info_of_mark:
  assumes "term_ok w"
  shows "info_of (w_store (snd (mark_disconnected vm w))) n sid =
    (if live w vm sid then map_option (mark_state T_Disconnected) (info_of (w_store w) n sid)
     else info_of (w_store w) n sid)"
  unfolding mark_disconnected_eq info_of_states [OF term_okD(2) [OF assms]]
  using live_sessions_iff [OF term_okD(1) [OF assms], of sid vm] by (simp add: live_def)

lemma term_ok_mark: "term_ok w \<Longrightarrow> term_ok (snd (mark_disconnected vm w))"
proof (rule term_okI)
  assume ok: "term_ok w"
  let ?w = "snd (mark_disconnected vm w)"
  show "distinct (map fst (w_sessions ?w))"
    using term_okD(1) [OF ok] by (simp add: mark_disconnected_eq comp_def case_prod_beta)
  show "ids_unique (st_vms (w_store ?w))"
    unfolding mark_disconnected_eq by (rule ids_unique_states) (rule term_okD(2) [OF ok])
  fix n k info
  assume i: "info_of (w_store ?w) n k = Some info" "ti_state info = T_Open"
  then have nl: "\<not> live w vm k" "info_of (w_store w) n k = Some info"
    unfolding info_of_mark [OF ok]
    by (auto simp: mark_state_not_open [of T_Disconnected] split: if_splits)
  then show "live ?w n k"
    using term_okD(3) [OF ok nl(2) i(2)]
    by (auto simp: live_def mark_disconnected_eq dict_get_map)
qed

lemma term_ok_drop_transport: "term_ok w \<Longrightarrow> term_ok (snd (drop_transport X vm w))"
  using term_ok_cong [of "snd (drop_transport X vm w)" w] by (simp add: drop_transport_def Let_def)

section \<open>Every reachable state\<close>

inductive term_step :: "('e, 'x) term_outside_scheme \<Rightarrow> ('e, 'z) term_world_scheme \<Rightarrow> ('e, 'z) term_world_scheme \<Rightarrow> bool"
  for X where
  step_open: "(\<And>e. fresh_sid (''t-'' @ fst (x_token X e)) w) \<Longrightarrow>
     term_step X w (snd (term_open X base vm ip shell cols rows kind acct w))"
| step_close: "term_step X w (snd (term_close sid w))"
| step_prune: "term_step X w (snd (term_prune vm w))"
| step_mark: "term_step X w (snd (mark_disconnected vm w))"
| step_drop: "term_step X w (snd (drop_transport X vm w))"
| step_successor: "term_step X w (snd (set_successor old new w))"
| step_send: "term_step X w (snd (send_to X sid bytes source w))"
| step_wait: "term_step X w (snd (wait_held X sid held holds search timeout cursor clean mb ab skip w))"
| step_closed: "term_step X w (on_channel_closed sid w)"
| step_env: "term_step X w (w\<lparr>w_env := e\<rparr>)"

lemma term_ok_step: "term_step X w w' \<Longrightarrow> term_ok w \<Longrightarrow> term_ok w'"
  by (induction rule: term_step.induct)
    (simp_all add: term_ok_open term_ok_close term_ok_prune term_ok_mark term_ok_drop_transport
      term_ok_set_successor term_ok_send_to term_ok_wait_held term_ok_channel_closed)

definition fresh_world :: "('e, 'z) term_world_scheme \<Rightarrow> bool" where
  "fresh_world w = (w_sessions w = [] \<and> st_vms (w_store w) = [])"

lemma term_ok_fresh: "fresh_world w \<Longrightarrow> term_ok w"
  by (auto simp: fresh_world_def term_ok_def ids_unique_def info_of_def vm_of_def store_vm_def fresh_runtime_def)

lemma term_ok_reachable:
  "(term_step X)\<^sup>*\<^sup>* w0 w \<Longrightarrow> fresh_world w0 \<Longrightarrow> term_ok w"
  by (induction rule: rtranclp_induct) (auto intro: term_ok_fresh term_ok_step)

section \<open>Properties\<close>



section \<open>Witnesses\<close>

text \<open>A quiet environment: a clock, one token, channels that open, no output.\<close>

definition quiet_outside :: "int term_outside" where
  "quiet_outside =
     \<lparr>x_now = (\<lambda>e. e), x_sleep_until = (\<lambda>t e. max t e), x_token = (\<lambda>e. (''ab'', e)),
      x_open_channel = (\<lambda>tr cmd c r e. (Inr (), e)), x_close_transport = (\<lambda>tr e. e),
      x_channel_write = (\<lambda>sid d e. (True, e)), x_session_inbox = (\<lambda>sid e. ([], e)),
      x_session_rest = (\<lambda>sid i e. e), x_wait_for_port = (\<lambda>ip p t e. (True, e))\<rparr>"

definition empty_world :: "int term_world" where
  "empty_world =
     \<lparr>w_store = empty_store 0, w_env = 0, w_sessions = [], w_transports = [], w_ips = []\<rparr>"

definition opened_world :: "int term_world" where
  "opened_world = snd (term_open quiet_outside [] sample_vm ''10.0.0.5'' ''bash'' 80 24 ''auto'' Admin empty_world)"

lemma empty_fresh: "fresh_world empty_world"
  by (simp add: fresh_world_def empty_world_def empty_store_def)

lemma opened_reachable: "(term_step quiet_outside)\<^sup>*\<^sup>* empty_world opened_world"
  unfolding opened_world_def
  by (rule r_into_rtranclp, rule step_open)
    (simp add: fresh_sid_def empty_world_def empty_store_def info_of_def vm_of_def store_vm_def fresh_runtime_def)

lemma opened_info:
  "\<exists>info. info_of (w_store opened_world) ''win'' ''t-ab'' = Some info \<and> ti_state info = T_Open"
  "live opened_world ''win'' ''t-ab''"
  by (simp_all add: opened_world_def term_open_def bindE_def thenE_def get_transport_def Let_def envE_def
      env_tryE_def getS_def now_def register_session_def set_session_def info_of_update_vm ret_def live_def
      new_session_def session_attach_def probe_shell_pid_def PID_PROBES_def quiet_outside_def
      empty_world_def sample_vm_def)



end
