(* ===== verification/Kd_Text.thy ===== *)
theory Kd_Text
  imports Regex State
begin

text \<open>
  The text side of \<open>kd/session.py\<close>: prompts, the break classification, bugcheck parsing, the
  read-only commands that may be repeated, the symbol path and the KDNET key.
\<close>

section \<open>Patterns\<close>

definition rx_ci_set :: "(char \<Rightarrow> bool) \<Rightarrow> rx" where
  "rx_ci_set p = RSet (ci p)"

definition hex_lower :: "char \<Rightarrow> bool" where
  "hex_lower c = (is_digit c \<or> char_between (CHR ''a'') (CHR ''f'') c)"

text \<open>\<open>(?:^|\r?\n)\<close>.\<close>

definition line_start :: rx where
  "line_start = RAlt RBegin (RSeq (ropt (RSet (\<lambda>c. c = CR))) (RSet (\<lambda>c. c = NL)))"

definition opt_space :: rx where
  "opt_space = ropt (RSet (\<lambda>c. c = CHR '' ''))"

definition PROMPT_RE :: rx where
  "PROMPT_RE =
     RSeq line_start (RSeq (ropt (RSeq (rplus is_digit) (rlit '': ''))) (RSeq (rlit ''kd>'') (RSeq opt_space REnd)))"

definition PROC_PROMPT_RE :: rx where
  "PROC_PROMPT_RE =
     RSeq line_start (RSeq (RGroup 1 (rplus is_digit)) (RSeq (rlit '': kd>'') (RSeq opt_space REnd)))"

definition CONNECTED_RE :: rx where
  "CONNECTED_RE =
     RSeq (rlit ''Connected to '') (RGroup 1 (RSeq (rlit ''Windows'') (RStar (\<lambda>c. c \<noteq> CR \<and> c \<noteq> NL))))"

definition KERNEL_BASE_RE :: rx where
  "KERNEL_BASE_RE =
     RSeq (rlit ''Kernel base'') (RSeq (RStar rx_space) (RSeq (rlit ''='') (RSeq (RStar rx_space)
       (RGroup 1 (rplus (\<lambda>c. is_hex c \<or> c = CHR 0x60 \<or> c = CHR ''x''))))))"

definition RETRY_SAFE_RE :: rx where
  "RETRY_SAFE_RE =
     RSeq RBegin (RSeq (RStar rx_space)
       (RSeq (ralts (RSeq (rlit_ci ''d'') (rx_ci_set (\<lambda>c. c \<in> set ''bwdqcayu''))) [rlit_ci ''r'', rlit_ci ''.bugcheck'', rlit_ci ''bl''])
             (RAlt (RSet rx_space) RDollar)))"

definition BUGCHECK_CODE_RE :: rx where
  "BUGCHECK_CODE_RE =
     RSeq (RAlt (rlit_ci ''bugcheck code'') (rlit_ci ''fatal system error:''))
       (RSeq (RStar rx_space) (RSeq (ropt (rlit ''0'')) (RSeq (ropt (rlit_ci ''x''))
         (RGroup 1 (rrange 1 8 (ci hex_lower))))))"

definition BUGCHECK_ARGS_RE :: rx where
  "BUGCHECK_ARGS_RE =
     RSeq (RAlt (RSeq (rlit_ci ''arguments'') (rplus rx_space)) (rlit ''(''))
       (RSeq (RStar rx_space)
         (RGroup 1 (rplus (ci (\<lambda>c. hex_lower c \<or> c = CHR ''x'' \<or> c = CHR 0x60 \<or> c = CHR '','' \<or> c = CHR '' '')))))"

definition HEX_TOKEN_RE :: rx where
  "HEX_TOKEN_RE = RSeq (ropt (rlit_ci ''0x'')) (rplus (ci hex_lower))"

section \<open>Functions\<close>

definition BASE36 :: string where
  "BASE36 = ''0123456789abcdefghijklmnopqrstuvwxyz''"

text \<open>The digits loop, on the value left and the digits so far.\<close>

fun base36_digits :: "nat \<Rightarrow> string \<Rightarrow> string" where
  "base36_digits value digits =
     (if value = 0 then digits else base36_digits (value div 36) (BASE36 ! (value mod 36) # digits))"

declare base36_digits.simps [simp del]

definition base36_word :: "nat \<Rightarrow> string" where
  "base36_word value = (let d = base36_digits value [] in if d = [] then ''0'' else d)"

text \<open>Of the four random 64-bit values.\<close>

definition generate_kdnet_key :: "nat list \<Rightarrow> string" where
  "generate_kdnet_key values = join_with ''.'' (map base36_word values)"

definition hex_arg :: "string \<Rightarrow> string" where
  "hex_arg token = (let t = py_lower token in if starts_with ''0x'' t then t else ''0x'' @ t)"

definition no_ticks :: "string \<Rightarrow> string" where
  "no_ticks s = filter (\<lambda>c. c \<noteq> CHR 0x60) s"

record bugcheck =
  bc_code :: string
  bc_arguments :: "string list"

definition bugcheck_args :: "string \<Rightarrow> string list" where
  "bugcheck_args rest =
     (case rx_search BUGCHECK_ARGS_RE rest of
        None \<Rightarrow> []
      | Some am \<Rightarrow>
          map hex_arg
            (filter (\<lambda>tok. rx_fullmatch HEX_TOKEN_RE tok \<noteq> None)
              (rx_split (rplus (\<lambda>c. c = CHR '','' \<or> rx_space c)) (py_strip (no_ticks (group am 1))))))"

definition parse_bugcheck :: "string \<Rightarrow> bugcheck option" where
  "parse_bugcheck txt =
     (case rx_search BUGCHECK_CODE_RE txt of
        None \<Rightarrow> None
      | Some m \<Rightarrow>
          Some \<lparr>bc_code = ''0x'' @ pad_left 8 (CHR ''0'') (py_lower (group m 1)),
                bc_arguments = take 4 (bugcheck_args (drop (m_end m) txt))\<rparr>)"

definition bugcheck_json :: "bugcheck \<Rightarrow> json" where
  "bugcheck_json b = JDict [(''code'', JStr (bc_code b)), (''arguments'', jstrs (bc_arguments b))]"

definition classify_break :: "string \<Rightarrow> string" where
  "classify_break txt =
     (let lowered = py_lower txt
      in if contains ''bugcheck'' lowered \<or> contains ''fatal system error'' lowered then ''bugcheck''
         else if contains ''breakpoint'' lowered \<and> contains ''hit'' lowered then ''breakpoint''
         else if contains ''break instruction exception'' lowered then ''user_break''
         else if contains ''modload:'' lowered then ''module_load''
         else if contains ''assertion'' lowered then ''assertion''
         else ''unknown'')"

text \<open>Listing the pipes is the host's; a listing that fails is None.\<close>

definition PIPE_PREFIX :: string where
  "PIPE_PREFIX = [BSL, BSL] @ ''.'' @ [BSL] @ ''pipe'' @ [BSL]"

definition named_pipe_exists :: "bool \<Rightarrow> string list option \<Rightarrow> string \<Rightarrow> bool" where
  "named_pipe_exists win32 listing pipe =
     (if \<not> win32 then True
      else if \<not> starts_with PIPE_PREFIX (py_lower pipe) then True
      else (case listing of
              None \<Rightarrow> True
            | Some names \<Rightarrow> py_lower (drop (length PIPE_PREFIX) pipe) \<in> set (map py_lower names)))"

definition drive_path :: "string \<Rightarrow> bool" where
  "drive_path part =
     (rx_match_at_start (RSeq RBegin (RSeq (RSet is_alpha) (RSeq (rlit '':'') (RSet (\<lambda>c. c = BSL \<or> c = CHR ''/''))))) part \<noteq> None)"

definition backslashes :: "string \<Rightarrow> string" where
  "backslashes s = map (\<lambda>c. if c = CHR ''/'' then BSL else c) s"

definition normalize_symbol_path :: "string \<Rightarrow> string" where
  "normalize_symbol_path sympath =
     (if sympath = [] then sympath
      else
        let low = py_lower sympath;
            full = (if contains ''http'' low \<and>
                       \<not> (starts_with ''srv*'' low \<or> starts_with ''cache*'' low \<or> starts_with ''symsrv*'' low)
                    then ''srv*'' @ sympath else sympath)
        in join_with ''*'' (map (\<lambda>part. if drive_path part then backslashes part else part) (split_char (CHR ''*'') full)))"

section \<open>Facts\<close>

lemma classify_break_kinds:
  "classify_break txt \<in> {''bugcheck'', ''breakpoint'', ''user_break'', ''module_load'', ''assertion'', ''unknown''}"
  by (simp add: classify_break_def Let_def)

lemma pad_left_length: "length (pad_left n c s) = max n (length s)"
  by (simp add: pad_left_def)

lemma parse_bugcheck_shape:
  "parse_bugcheck txt = Some b \<Longrightarrow>
   starts_with ''0x'' (bc_code b) \<and> 10 \<le> length (bc_code b) \<and> length (bc_arguments b) \<le> 4"
  by (auto simp: parse_bugcheck_def pad_left_length starts_with_def split: option.splits)

lemma hex_arg_prefix: "starts_with ''0x'' (hex_arg t)"
  by (simp add: hex_arg_def Let_def starts_with_def)

lemma bugcheck_args_prefix: "a \<in> set (bugcheck_args rest) \<Longrightarrow> starts_with ''0x'' a"
  by (auto simp: bugcheck_args_def hex_arg_prefix split: option.splits)

text \<open>The key's digits are those of its values.\<close>

definition base36_value :: "string \<Rightarrow> nat" where
  "base36_value s =
     foldl (\<lambda>acc c. 36 * acc + (if is_digit c then ord c - 48 else ord c - 87)) 0 s"

lemma base36_char_value:
  "n < 36 \<Longrightarrow> (if is_digit (BASE36 ! n) then ord (BASE36 ! n) - 48 else ord (BASE36 ! n) - 87) = n \<and>
    (is_digit (BASE36 ! n) \<or> is_lower (BASE36 ! n))"
proof -
  assume "n < 36"
  moreover have "\<forall>m \<in> set [0..<36]. (if is_digit (BASE36 ! m) then ord (BASE36 ! m) - 48 else ord (BASE36 ! m) - 87) = m \<and>
    (is_digit (BASE36 ! m) \<or> is_lower (BASE36 ! m))"
    by code_simp
  ultimately show ?thesis by simp
qed

lemma base36_foldl:
  "foldl (\<lambda>acc c. 36 * acc + (if is_digit c then ord c - 48 else ord c - 87)) (0::nat) (base36_digits v ds) =
   foldl (\<lambda>acc c. 36 * acc + (if is_digit c then ord c - 48 else ord c - 87)) v ds"
proof (induction v ds rule: base36_digits.induct)
  case (1 v ds)
  show ?case
  proof (cases "v = 0")
    case True
    then show ?thesis by (simp add: base36_digits.simps)
  next
    case False
    have "v mod 36 < 36" by simp
    note c = base36_char_value [OF this]
    show ?thesis
      using 1 [OF False] c
      by (simp add: base36_digits.simps [of v ds] False)
  qed
qed

lemma base36_word_value: "base36_value (base36_word v) = v"
  using base36_foldl [of v "[]"]
  by (auto simp: base36_word_def base36_value_def Let_def is_digit_def char_between_def ord_def)

end
