(* ===== verification/Kd_Session.thy ===== *)
theory Kd_Session
  imports Kd_Text Ring_Buffer
begin

text \<open>
  \<open>KdSession\<close> of \<open>kd/session.py\<close>: one kd.exe over pipes. The state is the session object; what
  kd.exe does while the session waits is an explicit list of timed inputs, and what the session does
  to kd.exe is the trace of its operations. Times are milliseconds.
\<close>

section \<open>State\<close>

record kd_proc =
  kp_pid :: nat
  kp_exit :: "int option"
  kp_pipe_ok :: bool

record kd_session =
  ks_vm :: string
  ks_kd_path :: string
  ks_port :: int
  ks_key :: string
  ks_transport :: string
  ks_serial_pipe :: string
  ks_symbol_path :: string
  ks_log_path :: string
  ks_capacity :: nat
  ks_proc :: "kd_proc option"
  ks_buf :: string
  ks_base :: int
  ks_state :: kd_state
  ks_target_info :: string
  ks_kernel_base :: string
  ks_target_confirmed :: bool
  ks_last_event :: "event option"
  ks_log_open :: bool
  ks_log :: string

definition new_kd_session ::
  "string \<Rightarrow> string \<Rightarrow> int \<Rightarrow> string \<Rightarrow> string \<Rightarrow> string \<Rightarrow> string \<Rightarrow> string \<Rightarrow> kd_session" where
  "new_kd_session vm kd_path port key symbol_path log_path transport serial_pipe =
     \<lparr>ks_vm = vm, ks_kd_path = kd_path, ks_port = port, ks_key = key, ks_transport = transport,
      ks_serial_pipe = serial_pipe, ks_symbol_path = symbol_path, ks_log_path = log_path,
      ks_capacity = 4194304, ks_proc = None, ks_buf = [], ks_base = 0, ks_state = K_Detached,
      ks_target_info = [], ks_kernel_base = [], ks_target_confirmed = False, ks_last_event = None,
      ks_log_open = False, ks_log = []\<rparr>"

definition kd_argv :: "kd_session \<Rightarrow> string list" where
  "kd_argv s =
     (let conn = (if ks_transport s = ''serial''
                  then ''com:pipe,port='' @ ks_serial_pipe s @ '',baud=115200,resets=0,reconnect''
                  else ''net:port='' @ int_text (ks_port s) @ '',key='' @ ks_key s);
          sympath = normalize_symbol_path (ks_symbol_path s)
      in [ks_kd_path s, ''-k'', conn] @ (if sympath \<noteq> [] then [''-y'', sympath] else []))"

section \<open>What kd.exe does\<close>

datatype kd_input =
    KI_Data string
  | KI_Exit nat
  | KI_Dead int
  | KI_Pipe_Broken
  | KI_Tick

type_synonym kd_inbox = "(int \<times> kd_input) list"

definition kd_append :: "string \<Rightarrow> kd_session \<Rightarrow> kd_session" where
  "kd_append bytes s =
     (let all_data = ks_buf s @ bytes; excess = length all_data - ks_capacity s
      in if 0 < excess then s\<lparr>ks_buf := drop excess all_data, ks_base := ks_base s + int excess\<rparr>
         else s\<lparr>ks_buf := all_data\<rparr>)"

definition kd_log_write :: "string \<Rightarrow> kd_session \<Rightarrow> kd_session" where
  "kd_log_write bytes s = (if ks_log_open s then s\<lparr>ks_log := ks_log s @ bytes\<rparr> else s)"

definition see_banner :: "string \<Rightarrow> kd_session \<Rightarrow> kd_session" where
  "see_banner bytes s =
     (case rx_search CONNECTED_RE bytes of
        None \<Rightarrow> s
      | Some m \<Rightarrow>
          s\<lparr>ks_target_info := py_strip (group m 1), ks_target_confirmed := True,
            ks_state := (if ks_state s = K_Waiting then K_Running else ks_state s)\<rparr>)"

definition see_kernel_base :: "string \<Rightarrow> kd_session \<Rightarrow> kd_session" where
  "see_kernel_base bytes s =
     (case rx_search KERNEL_BASE_RE bytes of
        None \<Rightarrow> s
      | Some m \<Rightarrow>
          let raw = py_lower (no_ticks (group m 1))
          in s\<lparr>ks_kernel_base := (if starts_with ''0x'' raw then raw else ''0x'' @ raw)\<rparr>)"

definition break_event :: "int \<Rightarrow> string \<Rightarrow> event" where
  "break_event now buf =
     (let tail = take_last 4096 buf;
          kind = classify_break tail;
          e0 = [(''event'', JStr kind), (''at'', JInt now), (''output'', JStr (take_last 2000 tail))];
          e1 = (case rx_search PROC_PROMPT_RE (take_last 64 buf) of
                  None \<Rightarrow> e0
                | Some m \<Rightarrow> dict_set ''processor'' (JInt (int (digits_value (group m 1)))) e0)
      in if kind = ''bugcheck''
         then (case parse_bugcheck tail of None \<Rightarrow> e1 | Some b \<Rightarrow> dict_set ''bugcheck'' (bugcheck_json b) e1)
         else e1)"

definition at_prompt :: "kd_session \<Rightarrow> bool" where
  "at_prompt s = rx_test PROMPT_RE (take_last 64 (ks_buf s))"

definition see_prompt :: "int \<Rightarrow> kd_session \<Rightarrow> kd_session" where
  "see_prompt now s =
     (if at_prompt s
      then s\<lparr>ks_target_confirmed := True,
             ks_last_event := (if ks_state s \<in> {K_Running, K_Waiting} then Some (break_event now (ks_buf s)) else ks_last_event s),
             ks_state := K_Broken\<rparr>
      else s)"

definition kd_feed :: "int \<Rightarrow> string \<Rightarrow> kd_session \<Rightarrow> kd_session" where
  "kd_feed now bytes s =
     see_prompt now (see_kernel_base bytes (see_banner bytes (kd_append bytes (kd_log_write bytes s))))"

text \<open>\<open>_process_exited\<close>: the exit of a process that was replaced is ignored.\<close>

definition kd_exited :: "nat option \<Rightarrow> kd_session \<Rightarrow> kd_session" where
  "kd_exited pid s =
     (if pid \<noteq> None \<and> pid \<noteq> map_option kp_pid (ks_proc s) then s
      else s\<lparr>ks_state := K_Detached, ks_log_open := False\<rparr>)"

definition kd_attached :: "kd_session \<Rightarrow> bool" where
  "kd_attached s = (case ks_proc s of None \<Rightarrow> False | Some p \<Rightarrow> kp_exit p = None)"

fun kd_apply :: "int \<Rightarrow> kd_input \<Rightarrow> kd_session \<Rightarrow> kd_session" where
  "kd_apply now (KI_Data bytes) s = kd_feed now bytes s"
| "kd_apply now (KI_Exit pid) s = kd_exited (Some pid) s"
| "kd_apply now (KI_Dead rc) s = s\<lparr>ks_proc := map_option (\<lambda>p. p\<lparr>kp_exit := Some rc\<rparr>) (ks_proc s)\<rparr>"
| "kd_apply now KI_Pipe_Broken s = s\<lparr>ks_proc := map_option (\<lambda>p. p\<lparr>kp_pipe_ok := False\<rparr>) (ks_proc s)\<rparr>"
| "kd_apply now KI_Tick s = s"

text \<open>The inputs that wake a wait: the ones that notify, and the wait's own ticks.\<close>

fun wakes :: "kd_input \<Rightarrow> bool" where
  "wakes (KI_Data _) = True"
| "wakes (KI_Exit _) = True"
| "wakes (KI_Dead _) = False"
| "wakes KI_Pipe_Broken = False"
| "wakes KI_Tick = True"

section \<open>The session in its world\<close>

datatype kd_op = Spawned "string list" | Wrote string | Break_Sent | Terminated | Killed

text \<open>The session, the clock, what kd.exe will do, the outcomes of the coming spawns and breaks (a
  list that runs out means success), the tokens of the sentinels, whether a write of the detach hangs,
  and the trace.\<close>

record kd_world =
  kw_s :: kd_session
  kw_now :: int
  kw_inbox :: kd_inbox
  kw_spawns :: "nat option list"
  kw_breaks :: "bool list"
  kw_tokens :: "string list"
  kw_write_hangs :: bool
  kw_trace :: "kd_op list"

type_synonym 'a kd = "(kd_world, 'a) app"

definition on_s :: "(kd_session \<Rightarrow> kd_session) \<Rightarrow> kd_world \<Rightarrow> kd_world" where
  "on_s f w = w\<lparr>kw_s := f (kw_s w)\<rparr>"

definition kd_do :: "kd_op \<Rightarrow> kd_world \<Rightarrow> kd_world" where
  "kd_do op w = w\<lparr>kw_trace := kw_trace w @ [op]\<rparr>"

text \<open>A wait for a condition on the session, up to a deadline: the condition is looked at when the
  wait begins, after every input that wakes it and at the deadline.\<close>

fun kd_wait :: "(kd_session \<Rightarrow> 'a option) \<Rightarrow> int \<Rightarrow> bool \<Rightarrow> kd_session \<Rightarrow> int \<Rightarrow> kd_inbox \<Rightarrow>
    'a option \<times> kd_session \<times> int \<times> kd_inbox" where
  "kd_wait f dl awake s now [] =
     (if awake \<and> f s \<noteq> None then (f s, s, now, []) else (f s, s, max now dl, []))"
| "kd_wait f dl awake s now ((t, ev) # rest) =
     (if awake \<and> f s \<noteq> None then (f s, s, now, (t, ev) # rest)
      else if dl \<le> now \<or> dl < t then (f s, s, max now dl, (t, ev) # rest)
      else kd_wait f dl (wakes ev) (kd_apply (max now t) ev s) (max now t) rest)"

definition wait_cond :: "(kd_session \<Rightarrow> 'a option) \<Rightarrow> int \<Rightarrow> kd_world \<Rightarrow> 'a option \<times> kd_world" where
  "wait_cond f timeout w =
     (case kd_wait f (kw_now w + timeout) True (kw_s w) (kw_now w) (kw_inbox w) of
        (r, s, t, inbox) \<Rightarrow> (r, w\<lparr>kw_s := s, kw_now := t, kw_inbox := inbox\<rparr>))"

definition in_states :: "kd_state set \<Rightarrow> kd_session \<Rightarrow> unit option" where
  "in_states states s = (if ks_state s \<in> states then Some () else None)"

text \<open>\<open>_wait_state(..., allow_timeout=True)\<close>; no caller in the sources waits without it.\<close>

definition wait_state :: "kd_state set \<Rightarrow> int \<Rightarrow> kd_world \<Rightarrow> bool \<times> kd_world" where
  "wait_state states timeout w =
     (case wait_cond (in_states states) timeout w of (r, w') \<Rightarrow> (r \<noteq> None, w'))"

text \<open>\<open>asyncio.sleep\<close>: the inputs that are due are handled meanwhile.\<close>

definition kd_sleep :: "int \<Rightarrow> kd_world \<Rightarrow> kd_world" where
  "kd_sleep d w = snd (wait_cond (\<lambda>s. None :: unit option) d w)"

definition require_attached :: "kd_proc kd" where
  "require_attached w =
     (case ks_proc (kw_s w) of
        None \<Rightarrow> throw KD_NOT_ATTACHED w
      | Some p \<Rightarrow> if kp_exit p = None then (Inr p, w) else throw KD_NOT_ATTACHED w)"

definition require_broken :: "unit kd" where
  "require_broken =
     bindE require_attached
       (\<lambda>_ w. if ks_state (kw_s w) = K_Broken then (Inr (), w) else throw KD_NOT_BROKEN w)"

definition kd_write :: "string \<Rightarrow> unit kd" where
  "kd_write text =
     bindE require_attached
       (\<lambda>p w. if kp_pipe_ok p then (Inr (), on_s (kd_log_write text) (kd_do (Wrote text) w))
              else (Inl (Exn ''OSError''), w))"

text \<open>\<open>self._break\<close> on kd.exe's console.\<close>

definition kd_break :: "unit kd" where
  "kd_break w =
     (case kw_breaks w of
        [] \<Rightarrow> (Inr (), kd_do Break_Sent w)
      | ok # later \<Rightarrow>
          if ok then (Inr (), kd_do Break_Sent (w\<lparr>kw_breaks := later\<rparr>))
          else throw BACKEND_ERROR (w\<lparr>kw_breaks := later\<rparr>))"

text \<open>\<open>contextlib.suppress(Exception)\<close> and \<open>suppress(OSError, NtDriveError)\<close>.\<close>

definition suppress_all :: "unit kd \<Rightarrow> unit kd" where
  "suppress_all m = tryE m (\<lambda>_. ret ()) ret"

definition suppress_io :: "unit kd \<Rightarrow> unit kd" where
  "suppress_io m =
     tryE m (\<lambda>x. case x of Nt _ \<Rightarrow> ret () | Exn t \<Rightarrow> if t = ''OSError'' then ret () else raise x | _ \<Rightarrow> raise x) ret"

section \<open>Status\<close>

definition kd_status :: "kd_session \<Rightarrow> (string, json) dict" where
  "kd_status s =
     (let att = kd_attached s;
          status =
            [(''attached'', JBool att),
             (''state'', JStr (kd_state_text (if att then ks_state s else K_Detached))),
             (''target_confirmed'', JBool (att \<and> ks_target_confirmed s)),
             (''kernel_base'', JStr (ks_kernel_base s)),
             (''transport'', JStr (ks_transport s)),
             (''port'', if ks_transport s = ''net'' then JInt (ks_port s) else JNull),
             (''serial_pipe'', if ks_transport s = ''serial'' then JStr (ks_serial_pipe s) else JNull),
             (''target_info'', JStr (ks_target_info s)),
             (''last_event'', jevent (summarize_kd_event (ks_last_event s))),
             (''log_path'', JStr (ks_log_path s)),
             (''pid'', case ks_proc s of None \<Rightarrow> JNull | Some p \<Rightarrow> JInt (int (kp_pid p)))]
      in if att \<and> \<not> ks_target_confirmed s then dict_set ''note'' (JStr ''target has not answered'') status else status)"

definition log_tail :: "nat \<Rightarrow> bool \<Rightarrow> kd_session \<Rightarrow> string" where
  "log_tail nbytes file_readable s =
     (if file_readable then take_last nbytes (ks_log s)
      else if nbytes = 0 then ks_buf s else take_last nbytes (ks_buf s))"

section \<open>Attaching\<close>

definition probe_target :: "int \<Rightarrow> kd_world \<Rightarrow> bool \<times> kd_world" where
  "probe_target timeout w =
     (if \<not> kd_attached (kw_s w) then (False, w)
      else
        let before_event = ks_last_event (kw_s w);
            (_, w1) = suppress_all kd_break w;
            (reached, w2) = wait_state {K_Broken} (min timeout 5000) w1
        in if \<not> reached then (False, w2)
           else
             (True, snd (suppress_io
                (thenE (kd_write (''g'' @ [NL]))
                  (\<lambda>w. (Inr (), on_s (\<lambda>s. s\<lparr>ks_state := K_Running, ks_last_event := before_event\<rparr>) w))) w2)))"

lemma kd_wait_time: "now \<le> fst (snd (snd (kd_wait f dl awake s now inbox)))"
proof (induction f dl awake s now inbox rule: kd_wait.induct)
  case (2 f dl awake s now t ev rest)
  have "now \<le> max now t" by simp
  then show ?case
    using 2 by (auto simp del: max.bounded_iff intro: order_trans)
qed simp

lemma kd_wait_none:
  "fst (kd_wait f dl awake s now inbox) = None \<Longrightarrow> dl \<le> fst (snd (snd (kd_wait f dl awake s now inbox)))"
  by (induction f dl awake s now inbox rule: kd_wait.induct) (auto split: if_splits)

lemma wait_cond_time: "kw_now w \<le> kw_now (snd (wait_cond f timeout w))"
  using kd_wait_time [of "kw_now w" f "kw_now w + timeout" True "kw_s w" "kw_inbox w"]
  by (auto simp: wait_cond_def split: prod.splits)

lemma wait_cond_none:
  "fst (wait_cond f timeout w) = None \<Longrightarrow> kw_now w + timeout \<le> kw_now (snd (wait_cond f timeout w))"
  using kd_wait_none [of f "kw_now w + timeout" True "kw_s w" "kw_now w" "kw_inbox w"]
  by (auto simp: wait_cond_def split: prod.splits)

lemma wait_state_time: "wait_state st timeout w = (b, w') \<Longrightarrow> kw_now w \<le> kw_now w'"
  using wait_cond_time [of w "in_states st" timeout] by (auto simp: wait_state_def split: prod.splits)

lemma wait_state_false: "wait_state st timeout w = (False, w') \<Longrightarrow> kw_now w + timeout \<le> kw_now w'"
  using wait_cond_none [of "in_states st" timeout w]
  by (cases "wait_cond (in_states st) timeout w"; cases "fst (wait_cond (in_states st) timeout w)")
    (auto simp: wait_state_def)

lemma kd_break_now: "kw_now (snd (kd_break w)) = kw_now w"
  by (simp add: kd_break_def kd_do_def throw_def raise_def split: list.splits)

lemma kd_write_now: "kw_now (snd (kd_write t w)) = kw_now w"
  by (simp add: kd_write_def bindE_def require_attached_def throw_def raise_def on_s_def kd_do_def
      split: option.splits prod.splits sum.splits)

lemma suppress_all_snd: "snd (suppress_all m w) = snd (m w)"
  by (simp add: suppress_all_def tryE_def ret_def split: prod.splits sum.splits)

lemma suppress_io_snd: "snd (suppress_io m w) = snd (m w)"
  by (simp add: suppress_io_def tryE_def ret_def raise_def split: prod.splits sum.splits exn.splits)

lemma probe_target_time: "probe_target timeout w = (b, w') \<Longrightarrow> kw_now w \<le> kw_now w'"
proof -
  assume p: "probe_target timeout w = (b, w')"
  show ?thesis
  proof (cases "kd_attached (kw_s w)")
    case True
    obtain r1 w1 where s1: "suppress_all kd_break w = (r1, w1)" by fastforce
    have n1: "kw_now w1 = kw_now w" using suppress_all_snd [of kd_break w] kd_break_now [of w] s1 by simp
    obtain reached w2 where s2: "wait_state {K_Broken} (min timeout 5000) w1 = (reached, w2)" by fastforce
    have n2: "kw_now w1 \<le> kw_now w2" by (rule wait_state_time [OF s2])
    have "kw_now w' = kw_now w2"
      using p True
      by (auto simp: probe_target_def s1 s2 Let_def suppress_io_snd thenE_def bindE_def on_s_def
          split: prod.splits sum.splits if_splits dest!: arg_cong [where f = snd])
        (metis kd_write_now snd_conv)+
    then show ?thesis using n1 n2 by simp
  qed (use p in \<open>simp add: probe_target_def\<close>)
qed

text \<open>\<open>_find_target\<close>: a banner, or a probe, until the deadline. Every round that finds nothing has
  spent its grace period.\<close>

function find_target :: "int \<Rightarrow> kd_world \<Rightarrow> bool \<times> kd_world" where
  "find_target deadline w =
     (let remaining = deadline - kw_now w
      in if remaining \<le> 0 then (False, w)
         else
           case wait_state {K_Running, K_Broken} (min remaining 5000) w of
             (seen, w1) \<Rightarrow>
               if seen then (True, w1)
               else if deadline - kw_now w1 \<le> 0 then (False, w1)
               else (case probe_target (deadline - kw_now w1) w1 of
                       (answered, w2) \<Rightarrow> if answered then (True, w2) else find_target deadline w2))"
  by pat_completeness auto
termination
proof (relation "measure (\<lambda>(deadline, w). nat (deadline - kw_now w))")
  fix deadline :: int and w :: kd_world and remaining seen w1 answered w2
  assume a: "remaining = deadline - kw_now w" "\<not> remaining \<le> 0"
    "(seen, w1) = wait_state {K_Running, K_Broken} (min remaining 5000) w" "\<not> seen"
    "\<not> deadline - kw_now w1 \<le> 0" "(answered, w2) = probe_target (deadline - kw_now w1) w1" "\<not> answered"
  have "wait_state {K_Running, K_Broken} (min remaining 5000) w = (False, w1)" using a by simp
  then have "kw_now w + min remaining 5000 \<le> kw_now w1" by (rule wait_state_false)
  moreover have "probe_target (deadline - kw_now w1) w1 = (False, w2)" using a by simp
  then have "kw_now w1 \<le> kw_now w2" by (rule probe_target_time)
  ultimately show "((deadline, w2), deadline, w) \<in> measure (\<lambda>(deadline, w). nat (deadline - kw_now w))"
    using a by auto
qed simp

declare find_target.simps [simp del]

text \<open>The session a spawn starts with: the old transcript and event are gone.\<close>

definition reset_session :: "kd_session \<Rightarrow> kd_session" where
  "reset_session s =
     s\<lparr>ks_log_open := True, ks_buf := [], ks_base := 0, ks_last_event := None, ks_target_info := [],
       ks_kernel_base := [], ks_target_confirmed := False\<rparr>"

definition kd_spawn :: "unit kd" where
  "kd_spawn w =
     (let w1 = kd_do (Spawned (kd_argv (kw_s w))) w;
          start = (\<lambda>pid s. s\<lparr>ks_proc := Some \<lparr>kp_pid = pid, kp_exit = None, kp_pipe_ok = True\<rparr>, ks_state := K_Waiting\<rparr>)
      in case kw_spawns w of
           [] \<Rightarrow> (Inr (), on_s (start 0) w1)
         | Some pid # later \<Rightarrow> (Inr (), on_s (start pid) (w1\<lparr>kw_spawns := later\<rparr>))
         | None # later \<Rightarrow> throw BACKEND_ERROR (w1\<lparr>kw_spawns := later\<rparr>))"

text \<open>Over a serial pipe: notice a kd.exe that dies at once, else take the target as running.\<close>

definition settle_serial :: "int \<Rightarrow> unit kd" where
  "settle_serial timeout w =
     (case wait_state {K_Detached} (min timeout 1000) w of
        (died, w1) \<Rightarrow>
          if died \<or> \<not> kd_attached (kw_s w1)
          then throw_with BACKEND_ERROR [(''output'', JStr (take_last 2000 (ks_buf (kw_s w1))))] w1
          else if ks_state (kw_s w1) = K_Waiting
          then (Inr (), on_s (\<lambda>s. s\<lparr>ks_state := K_Running\<rparr>) w1)
          else (Inr (), w1))"

definition kd_attach :: "(string \<Rightarrow> bool) \<Rightarrow> bool \<Rightarrow> int \<Rightarrow> (string, json) dict kd" where
  "kd_attach pipe_check wait_for_target timeout w =
     (let s = kw_s w
      in if kd_attached s then throw KD_ALREADY_ATTACHED w
         else if ks_transport s = ''serial'' \<and> \<not> pipe_check (ks_serial_pipe s) then throw BACKEND_ERROR w
         else
           bindE (\<lambda>w. kd_spawn (on_s reset_session w)) (\<lambda>_.
           bindE (if ks_transport s = ''serial'' then settle_serial timeout
                  else if wait_for_target then (\<lambda>w. (Inr (), snd (find_target (kw_now w + timeout) w)))
                  else ret ()) (\<lambda>_ w.
             let status = kd_status (kw_s w)
             in (Inr (if wait_for_target \<and> ks_state (kw_s w) = K_Waiting
                      then dict_set ''note'' (JStr ''no target'') status else status), w))) w)"

section \<open>Commands\<close>

text \<open>\<open>bytearray.find\<close> from a position.\<close>

fun find_from :: "string \<Rightarrow> nat \<Rightarrow> string \<Rightarrow> nat option" where
  "find_from needle i [] = (if needle = [] then Some i else None)"
| "find_from needle i (c # s) =
     (if starts_with needle (c # s) then Some i else find_from needle (Suc i) s)"

definition find_bytes :: "string \<Rightarrow> int \<Rightarrow> kd_session \<Rightarrow> int option" where
  "find_bytes needle start s =
     (let rel = nat (max (start - ks_base s) 0)
      in if length (ks_buf s) < rel then None
         else map_option (\<lambda>i. ks_base s + int i) (find_from needle rel (drop rel (ks_buf s))))"

definition wait_for_bytes :: "string \<Rightarrow> int \<Rightarrow> int \<Rightarrow> int kd" where
  "wait_for_bytes needle start timeout w =
     (case wait_cond (\<lambda>s. case find_bytes needle start s of
                          Some idx \<Rightarrow> Some (Inr idx)
                        | None \<Rightarrow> if \<not> kd_attached s then Some (Inl KD_NOT_ATTACHED) else None) timeout w of
        (Some (Inr idx), w1) \<Rightarrow> (Inr idx, w1)
      | (Some (Inl code), w1) \<Rightarrow> throw code w1
      | (None, w1) \<Rightarrow> throw TIMEOUT w1)"

record exec_entry =
  xe_cmd :: string
  xe_output :: string
  xe_printed_nothing :: bool
  xe_truncated :: bool
  xe_elapsed :: int
  xe_retried :: bool

definition PROMPT_LINE_RE :: rx where
  "PROMPT_LINE_RE =
     RSeq RBeginLine (RSeq (ropt (RSeq (rplus is_digit) (rlit '': ''))) (RSeq (rlit ''kd>'') (RSeq opt_space RDollarLine)))"

definition next_token :: "string kd" where
  "next_token w =
     (case kw_tokens w of
        [] \<Rightarrow> (Inr ''00000000'', w)
      | t # later \<Rightarrow> (Inr t, w\<lparr>kw_tokens := later\<rparr>))"

definition sentinel_of :: "string \<Rightarrow> string" where
  "sentinel_of token = ''__NTDRIVE_END_'' @ token @ ''__''"

definition framed :: "string \<Rightarrow> string \<Rightarrow> string" where
  "framed cmd sentinel = cmd @ [NL] @ ''.echo '' @ sentinel @ [NL]"

definition command_text :: "string \<Rightarrow> string" where
  "command_text raw =
     strip_chars [NL] (rx_sub PROMPT_LINE_RE [] (py_replace [CR, NL] [NL] raw))"

definition run_once :: "string \<Rightarrow> int \<Rightarrow> nat \<Rightarrow> exec_entry kd" where
  "run_once cmd timeout max_bytes =
     bindE next_token (\<lambda>token w.
       let sentinel = sentinel_of token;
           start = ks_base (kw_s w) + int (length (ks_buf (kw_s w)));
           started = kw_now w
       in bindE (kd_write (framed cmd sentinel)) (\<lambda>_.
          bindE (wait_for_bytes sentinel start timeout) (\<lambda>idx w.
            let s = kw_s w;
                raw = py_slice (start - ks_base s) (idx - ks_base s) (ks_buf s);
                text = command_text raw;
                truncated = max_bytes < length text;
                out = (if truncated then take max_bytes text else text)
            in (Inr \<lparr>xe_cmd = cmd, xe_output = out, xe_printed_nothing = (out = []), xe_truncated = truncated,
                     xe_elapsed = kw_now w - started, xe_retried = False\<rparr>, w))) w)"

text \<open>\<open>_interrupt_wedged_command\<close>: the error to raise.\<close>

definition interrupt_wedged :: "int \<Rightarrow> nt_error \<Rightarrow> bool \<Rightarrow> kd_world \<Rightarrow> nt_error \<times> kd_world" where
  "interrupt_wedged timeout original at_bugcheck w =
     (if ks_proc (kw_s w) = None then (original, w)
      else
        let (_, w1) = suppress_all kd_break w;
            (recovered, w2) = wait_state {K_Broken} (min timeout 15000) w1
        in (nt_err_with TIMEOUT
              [(''reason'', JStr (if recovered then ''kd_command_wedged'' else ''kd_wedged'')),
               (''interrupted'', JBool recovered), (''at_bugcheck'', JBool at_bugcheck)], w2))"

definition retry_safe :: "string \<Rightarrow> bool" where
  "retry_safe cmd = (rx_match_at_start RETRY_SAFE_RE cmd \<noteq> None)"

definition interrupted :: "nt_error \<Rightarrow> bool" where
  "interrupted e = truthy (opt_or (dict_get (err_extra e) ''interrupted'') JNull)"

definition at_bugcheck :: "kd_session \<Rightarrow> bool" where
  "at_bugcheck s =
     (case ks_last_event s of None \<Rightarrow> False | Some e \<Rightarrow> dict_get e ''event'' = Some (JStr ''bugcheck''))"

text \<open>One command of \<open>exec\<close>, with the one retry of a read that was interrupted.\<close>

definition exec_one :: "int \<Rightarrow> nat \<Rightarrow> bool \<Rightarrow> string \<Rightarrow> exec_entry kd" where
  "exec_one timeout max_bytes bug cmd =
     catch_nt (run_once cmd timeout max_bytes)
       (\<lambda>exc. if err_code exc \<noteq> TIMEOUT then raise (Nt exc)
         else (\<lambda>w. case interrupt_wedged timeout exc bug w of
                 (recovery, w1) \<Rightarrow>
                   if \<not> (interrupted recovery \<and> retry_safe cmd) then (Inl (Nt recovery), w1)
                   else catch_nt (run_once cmd timeout max_bytes)
                          (\<lambda>_. raise (Nt recovery))
                          (\<lambda>entry. ret (entry\<lparr>xe_retried := True\<rparr>)) w1))
       ret"

definition exec_step :: "int \<Rightarrow> nat \<Rightarrow> bool \<Rightarrow> string \<Rightarrow> exec_entry kd" where
  "exec_step timeout max_bytes bug cmd =
     bindE (exec_one timeout max_bytes bug cmd)
       (\<lambda>entry w. (Inr entry, snd (wait_state {K_Broken} timeout w)))"

definition kd_exec :: "string list \<Rightarrow> int \<Rightarrow> nat \<Rightarrow> exec_entry list kd" where
  "kd_exec cmds timeout max_bytes =
     bindE require_broken
       (\<lambda>_ w. mapE (exec_step timeout max_bytes (at_bugcheck (kw_s w))) cmds w)"

definition kd_go :: "(string, json) dict kd" where
  "kd_go =
     bindE require_broken (\<lambda>_.
     bindE (kd_write (''g'' @ [NL])) (\<lambda>_ w.
       let w1 = on_s (\<lambda>s. s\<lparr>ks_state := K_Running\<rparr>) w in (Inr (kd_status (kw_s w1)), w1)))"

definition kd_break_in :: "int \<Rightarrow> (string, json) dict kd" where
  "kd_break_in timeout =
     bindE require_attached (\<lambda>_ w.
       if ks_state (kw_s w) = K_Broken then (Inr (kd_status (kw_s w)), w)
       else
         let start = ks_base (kw_s w) + int (length (ks_buf (kw_s w)))
         in bindE kd_break (\<lambda>_ w1.
              case wait_state {K_Broken} timeout w1 of
                (reached, w2) \<Rightarrow>
                  if \<not> reached then throw TIMEOUT w2
                  else
                    let s = kw_s w2;
                        n = int (length (ks_buf s));
                        output = py_slice (start - ks_base s) n (ks_buf s);
                        w3 = on_s (\<lambda>s. s\<lparr>ks_last_event := Some
                               [(''event'', JStr ''user_break''), (''at'', JInt (kw_now w2)),
                                (''output'', JStr (take_last 2000 output))]\<rparr>) w2
                    in (Inr (dict_set ''truncated'' (JBool (65536 < length output))
                          (dict_set ''output'' (JStr (take_last 65536 output)) (kd_status (kw_s w3)))), w3)) w)"

definition event_with_state :: "kd_session \<Rightarrow> event" where
  "event_with_state s =
     dict_set ''state'' (JStr (kd_state_text (ks_state s)))
       (case ks_last_event s of
          Some e \<Rightarrow> if e \<noteq> [] then e else [(''event'', JStr ''unknown''), (''output'', JStr [])]
        | None \<Rightarrow> [(''event'', JStr ''unknown''), (''output'', JStr [])])"

definition kd_wait_event :: "int \<Rightarrow> event kd" where
  "kd_wait_event timeout =
     bindE require_attached (\<lambda>_ w.
       if ks_state (kw_s w) = K_Broken then (Inr (event_with_state (kw_s w)), w)
       else (case wait_state {K_Broken} timeout w of
               (reached, w1) \<Rightarrow>
                 (Inr (if reached then event_with_state (kw_s w1)
                       else [(''event'', JStr ''timeout''), (''output'', JStr []),
                             (''state'', JStr (kd_state_text (ks_state (kw_s w1))))]), w1)))"

section \<open>Detaching\<close>

definition release_target :: "unit kd" where
  "release_target =
     suppress_io (thenE (kd_write (''bc *'' @ [NL])) (kd_write (''g'' @ [NL])))"

text \<open>\<open>for _ in range(20)\<close>: poll the process every 100 ms.\<close>

primrec poll_exit :: "nat \<Rightarrow> kd_world \<Rightarrow> kd_world" where
  "poll_exit 0 w = w"
| "poll_exit (Suc n) w = (if \<not> kd_attached (kw_s w) then w else poll_exit n (kd_sleep 100 w))"

definition detach_release :: "kd_world \<Rightarrow> kd_world" where
  "detach_release w =
     (if ks_state (kw_s w) = K_Broken
      then kd_sleep 200 (if kw_write_hangs w then w else snd (release_target w))
      else w)"

definition detach_stop :: "kd_world \<Rightarrow> kd_world" where
  "detach_stop w =
     (let w1 = poll_exit 20 (snd (suppress_io (kd_write (''q'' @ [NL])) w));
          w2 = (if kd_attached (kw_s w1) then kd_sleep 200 (kd_do Terminated w1) else w1);
          w3 = (if kd_attached (kw_s w2) then kd_do Killed w2 else w2)
      in w3)"

text \<open>\<open>force\<close> only bounds the wait for a hanging write, so it is the environment's.\<close>

definition kd_detach :: "(string, json) dict kd" where
  "kd_detach w =
     (if \<not> kd_attached (kw_s w)
      then let w1 = on_s (\<lambda>s. s\<lparr>ks_state := K_Detached\<rparr>) w in (Inr (kd_status (kw_s w1)), w1)
      else let w1 = on_s (kd_exited None) (detach_stop (detach_release w)) in (Inr (kd_status (kw_s w1)), w1))"

end
