(* ===== verification/Kd_Properties.thy ===== *)
theory Kd_Properties
  imports Kd_Session
begin

text \<open>
  What the debugger session promises: its transcript buffer is a bounded view of the byte stream of
  kd.exe (the same contract as the terminal's buffer), a prompt and only a prompt makes it broken,
  commands go out only at a prompt and are repeated only when they are pure reads, waits end by their
  deadline, and a detach leaves the target running.
\<close>

section \<open>The transcript is a byte log\<close>

definition kd_holds :: "string \<Rightarrow> kd_session \<Rightarrow> bool" where
  "kd_holds stream s =
     (ks_buf s = take_last (ks_capacity s) stream \<and> ks_base s + int (length (ks_buf s)) = int (length stream))"

lemma kd_append_eqs:
  "ks_buf (kd_append d s) = take_last (ks_capacity s) (ks_buf s @ d)"
  "ks_capacity (kd_append d s) = ks_capacity s"
  "ks_base (kd_append d s) + int (length (ks_buf (kd_append d s))) = ks_base s + int (length (ks_buf s)) + int (length d)"
  by (auto simp: kd_append_def Let_def take_last_def of_nat_diff)

lemma kd_append_keeps [simp]:
  "ks_state (kd_append d s) = ks_state s" "ks_last_event (kd_append d s) = ks_last_event s"
  "ks_proc (kd_append d s) = ks_proc s" "ks_target_confirmed (kd_append d s) = ks_target_confirmed s"
  by (simp_all add: kd_append_def Let_def)

lemma kd_holds_append: "kd_holds stream s \<Longrightarrow> kd_holds (stream @ d) (kd_append d s)"
proof -
  assume h: "kd_holds stream s"
  have "ks_buf (kd_append d s) = take_last (ks_capacity s) (stream @ d)"
    using h by (simp add: kd_holds_def kd_append_eqs(1) take_last_append)
  moreover have "ks_base (kd_append d s) + int (length (ks_buf (kd_append d s))) = int (length (stream @ d))"
    using kd_append_eqs(3) [of d s] h unfolding kd_holds_def length_append of_nat_add by linarith
  ultimately show ?thesis by (simp add: kd_holds_def kd_append_eqs(2))
qed

lemma kd_base_bounds: "kd_holds stream s \<Longrightarrow> 0 \<le> ks_base s \<and> ks_base s \<le> int (length stream)"
  by (auto simp: kd_holds_def take_last_def)

lemma kd_base_mono: "ks_base s \<le> ks_base (kd_append d s)"
  by (auto simp: kd_append_def Let_def)

interpretation kdlog: byte_log kd_holds ks_base kd_append
  by unfold_locales (use kd_base_bounds kd_holds_append kd_base_mono in \<open>blast+\<close>)

lemma kd_buf_drop: "kd_holds stream s \<Longrightarrow> ks_buf s = drop (nat (ks_base s)) stream"
  by (auto simp: kd_holds_def take_last_def)

text \<open>The other parts of a feed leave the transcript alone.\<close>

lemma log_write_keeps [simp]:
  "ks_buf (kd_log_write d s) = ks_buf s" "ks_base (kd_log_write d s) = ks_base s"
  "ks_capacity (kd_log_write d s) = ks_capacity s" "ks_state (kd_log_write d s) = ks_state s"
  "ks_last_event (kd_log_write d s) = ks_last_event s" "ks_proc (kd_log_write d s) = ks_proc s"
  "ks_target_confirmed (kd_log_write d s) = ks_target_confirmed s"
  by (simp_all add: kd_log_write_def)

lemma banner_keeps [simp]:
  "ks_buf (see_banner d s) = ks_buf s" "ks_base (see_banner d s) = ks_base s"
  "ks_capacity (see_banner d s) = ks_capacity s" "ks_last_event (see_banner d s) = ks_last_event s"
  "ks_proc (see_banner d s) = ks_proc s"
  by (simp_all add: see_banner_def split: option.splits)

lemma kernel_base_keeps [simp]:
  "ks_buf (see_kernel_base d s) = ks_buf s" "ks_base (see_kernel_base d s) = ks_base s"
  "ks_capacity (see_kernel_base d s) = ks_capacity s" "ks_state (see_kernel_base d s) = ks_state s"
  "ks_last_event (see_kernel_base d s) = ks_last_event s" "ks_proc (see_kernel_base d s) = ks_proc s"
  "ks_target_confirmed (see_kernel_base d s) = ks_target_confirmed s"
  by (simp_all add: see_kernel_base_def Let_def split: option.splits)

lemma prompt_keeps [simp]:
  "ks_buf (see_prompt t s) = ks_buf s" "ks_base (see_prompt t s) = ks_base s"
  "ks_capacity (see_prompt t s) = ks_capacity s" "ks_proc (see_prompt t s) = ks_proc s"
  by (simp_all add: see_prompt_def)

lemma kd_feed_transcript:
  "ks_buf (kd_feed t d s) = ks_buf (kd_append d s)" "ks_base (kd_feed t d s) = ks_base (kd_append d s)"
  "ks_capacity (kd_feed t d s) = ks_capacity s" "ks_proc (kd_feed t d s) = ks_proc s"
  by (simp_all add: kd_feed_def kd_append_eqs(2)) (simp_all add: kd_append_def kd_log_write_def Let_def)

lemma kd_holds_feed: "kd_holds stream s \<Longrightarrow> kd_holds (stream @ d) (kd_feed t d s)"
  using kd_holds_append [of stream s d] unfolding kd_holds_def kd_feed_transcript kd_append_eqs(2) by blast

lemma kd_holds_apply:
  "kd_holds stream s \<Longrightarrow> \<exists>more. kd_holds (stream @ more) (kd_apply t ev s)"
proof (cases ev)
  case (KI_Data d)
  assume "kd_holds stream s"
  then have "kd_holds (stream @ d) (kd_apply t ev s)" by (simp add: KI_Data kd_holds_feed)
  then show ?thesis by blast
qed (auto simp: kd_holds_def kd_exited_def intro!: exI [of _ "[]"])

lemma kd_holds_wait:
  "kd_holds stream s \<Longrightarrow> \<exists>more. kd_holds (stream @ more) (fst (snd (kd_wait f dl awake s now inbox)))"
proof (induction inbox arbitrary: stream s now awake)
  case Nil
  then show ?case by (auto intro!: exI [of _ "[]"])
next
  case (Cons p inbox)
  obtain t ev where p: "p = (t, ev)" by (cases p)
  obtain a where a: "kd_holds (stream @ a) (kd_apply (max now t) ev s)"
    using kd_holds_apply [OF Cons.prems] by blast
  obtain b where "kd_holds ((stream @ a) @ b)
      (fst (snd (kd_wait f dl (wakes ev) (kd_apply (max now t) ev s) (max now t) inbox)))"
    using Cons.IH [OF a] by blast
  then show ?case
    using Cons.prems unfolding p kd_wait.simps
    by (auto intro: exI [of _ "a @ b"] exI [of _ "[]"])
qed

lemma kd_holds_wait_cond:
  "kd_holds stream (kw_s w) \<Longrightarrow> \<exists>more. kd_holds (stream @ more) (kw_s (snd (wait_cond f timeout w)))"
  using kd_holds_wait [of stream "kw_s w" f "kw_now w + timeout" True "kw_now w" "kw_inbox w"]
  by (auto simp: wait_cond_def split: prod.splits)

section \<open>Deadlines\<close>

lemma kd_wait_bound: "fst (snd (snd (kd_wait f dl awake s now inbox))) \<le> max now dl"
  by (induction f dl awake s now inbox rule: kd_wait.induct) (auto simp: max_def split: if_splits)

lemma wait_cond_bound: "kw_now (snd (wait_cond f timeout w)) \<le> max (kw_now w) (kw_now w + timeout)"
  using kd_wait_bound [of f "kw_now w + timeout" True "kw_s w" "kw_now w" "kw_inbox w"]
  by (auto simp: wait_cond_def split: prod.splits)

lemma wait_state_bound:
  "wait_state st timeout w = (b, w') \<Longrightarrow> kw_now w' \<le> max (kw_now w) (kw_now w + timeout)"
  using wait_cond_bound [of "in_states st" timeout w] by (auto simp: wait_state_def split: prod.splits)

lemma probe_target_bound:
  assumes "probe_target timeout w = (b, w')" "0 \<le> timeout"
  shows "kw_now w' \<le> kw_now w + timeout"
proof (cases "kd_attached (kw_s w)")
  case True
  obtain r1 w1 where s1: "suppress_all kd_break w = (r1, w1)" by fastforce
  have n1: "kw_now w1 = kw_now w" using suppress_all_snd [of kd_break w] kd_break_now [of w] s1 by simp
  obtain reached w2 where s2: "wait_state {K_Broken} (min timeout 5000) w1 = (reached, w2)" by fastforce
  have n2: "kw_now w2 \<le> kw_now w + timeout" using wait_state_bound [OF s2] n1 assms(2) by auto
  have resume: "kw_now (snd (thenE (kd_write t) (\<lambda>w. (Inr (), on_s f w)) w2)) = kw_now w2" for t f
    using kd_write_now [of t w2]
    by (cases "kd_write t w2"; cases "fst (kd_write t w2)") (auto simp: thenE_def bindE_def on_s_def)
  have "kw_now w' = kw_now w2"
    using assms(1) True by (cases reached) (auto simp: probe_target_def s1 s2 Let_def suppress_io_snd resume)
  then show ?thesis using n2 by simp
qed (use assms in \<open>simp add: probe_target_def\<close>)

lemma find_target_bound: "kw_now (snd (find_target deadline w)) \<le> max (kw_now w) deadline"
proof (induction deadline w rule: find_target.induct)
  case (1 deadline w)
  show ?case
  proof (cases "deadline - kw_now w \<le> 0")
    case True
    then show ?thesis by (simp add: find_target.simps)
  next
    case False
    obtain seen w1 where w1: "wait_state {K_Running, K_Broken} (min (deadline - kw_now w) 5000) w = (seen, w1)"
      by fastforce
    have b1: "kw_now w1 \<le> deadline" using wait_state_bound [OF w1] False by (auto simp: max_def min_def split: if_splits)
    show ?thesis
    proof (cases "seen \<or> deadline - kw_now w1 \<le> 0")
      case True
      then show ?thesis using False b1 w1 by (auto simp: find_target.simps [of deadline w] Let_def)
    next
      case nf: False
      obtain ans w2 where w2: "probe_target (deadline - kw_now w1) w1 = (ans, w2)" by fastforce
      have b2: "kw_now w2 \<le> deadline" using probe_target_bound [OF w2] nf by simp
      have eq: "find_target deadline w = (if ans then (True, w2) else find_target deadline w2)"
        using False nf w1 w2 by (auto simp: find_target.simps [of deadline w] Let_def)
      show ?thesis
      proof (cases ans)
        case True
        then show ?thesis using eq b2 by simp
      next
        case an: False
        have "kw_now (snd (find_target deadline w2)) \<le> max (kw_now w2) deadline"
          using "1.IH" [OF refl False w1 [symmetric] _ _ w2 [symmetric]] nf an by auto
        then show ?thesis using eq an b2 by simp
      qed
    qed
  qed
qed

section \<open>What reaches kd.exe\<close>

fun is_wrote :: "kd_op \<Rightarrow> bool" where
  "is_wrote (Wrote _) = True"
| "is_wrote _ = False"

definition writes :: "kd_world \<Rightarrow> nat" where
  "writes w = length (filter is_wrote (kw_trace w))"

lemma writes_on_s [simp]: "writes (on_s f w) = writes w"
  by (simp add: writes_def on_s_def)

lemma writes_do: "writes (kd_do op w) = writes w + (if is_wrote op then 1 else 0)"
  by (simp add: writes_def kd_do_def)

lemma wait_cond_trace: "kw_trace (snd (wait_cond f timeout w)) = kw_trace w"
  by (simp add: wait_cond_def split: prod.splits)

lemma wait_state_trace: "wait_state st timeout w = (b, w') \<Longrightarrow> kw_trace w' = kw_trace w"
  using wait_cond_trace [of "in_states st" timeout w] by (auto simp: wait_state_def split: prod.splits)

lemma wait_state_writes: "wait_state st timeout w = (b, w') \<Longrightarrow> writes w' = writes w"
  by (simp add: writes_def wait_state_trace)

lemma kd_write_writes: "writes (snd (kd_write t w)) \<le> Suc (writes w)"
  by (auto simp: kd_write_def bindE_def require_attached_def throw_def raise_def writes_do
      split: option.splits prod.splits sum.splits)

lemma kd_break_writes [simp]: "writes (snd (kd_break w)) = writes w"
  by (auto simp: kd_break_def throw_def raise_def writes_def kd_do_def split: list.splits)

lemma wait_for_bytes_writes [simp]: "writes (snd (wait_for_bytes needle start timeout w)) = writes w"
proof -
  let ?f = "\<lambda>s. case find_bytes needle start s of
                          Some idx \<Rightarrow> Some (Inr idx)
                        | None \<Rightarrow> if \<not> kd_attached s then Some (Inl KD_NOT_ATTACHED) else None"
  obtain r w1 where w1: "wait_cond ?f timeout w = (r, w1)" by fastforce
  have "writes w1 = writes w" using wait_cond_trace [of ?f timeout w] w1 by (simp add: writes_def)
  then show ?thesis
    by (auto simp: wait_for_bytes_def w1 throw_def raise_def split: option.splits sum.splits)
qed

lemma next_token_ok: "\<exists>t w1. next_token w = (Inr t, w1) \<and> kw_s w1 = kw_s w \<and> kw_now w1 = kw_now w \<and> kw_trace w1 = kw_trace w"
  by (simp add: next_token_def split: list.splits)

text \<open>The stages of a command that ran.\<close>

lemma run_once_stages:
  obtains token w1 w2 r3 w3 where
    "next_token w = (Inr token, w1)" "kw_s w1 = kw_s w" "kw_trace w1 = kw_trace w"
    "w2 = snd (kd_write (framed cmd (sentinel_of token)) w1)"
    "(r3, w3) = wait_for_bytes (sentinel_of token)
        (ks_base (kw_s w) + int (length (ks_buf (kw_s w)))) timeout w2"
    "snd (run_once cmd timeout mb w) = w2 \<and> (\<exists>x. fst (run_once cmd timeout mb w) = Inl x) \<or>
     snd (run_once cmd timeout mb w) = w3 \<and> (\<forall>x. r3 = Inl x \<longrightarrow> fst (run_once cmd timeout mb w) = Inl x) \<and>
     (\<forall>idx e. r3 = Inr idx \<longrightarrow> fst (run_once cmd timeout mb w) = Inr e \<longrightarrow>
        xe_output e = take mb (command_text (py_slice
          (ks_base (kw_s w) + int (length (ks_buf (kw_s w))) - ks_base (kw_s w3)) (idx - ks_base (kw_s w3)) (ks_buf (kw_s w3)))) \<and>
        xe_printed_nothing e = (xe_output e = []))"
proof -
  obtain token w1 where t: "next_token w = (Inr token, w1)" "kw_s w1 = kw_s w" "kw_trace w1 = kw_trace w"
    using next_token_ok [of w] by blast
  obtain r2 w2 where r2: "kd_write (framed cmd (sentinel_of token)) w1 = (r2, w2)" by fastforce
  define start where "start = ks_base (kw_s w) + int (length (ks_buf (kw_s w)))"
  obtain r3 w3 where r3: "wait_for_bytes (sentinel_of token) start timeout w2 = (r3, w3)" by fastforce
  show ?thesis
  proof (rule that [OF t, of w2 r3 w3])
    show "w2 = snd (kd_write (framed cmd (sentinel_of token)) w1)" using r2 by simp
    show "(r3, w3) = wait_for_bytes (sentinel_of token)
        (ks_base (kw_s w) + int (length (ks_buf (kw_s w)))) timeout w2" using r3 by (simp add: start_def)
    show "snd (run_once cmd timeout mb w) = w2 \<and> (\<exists>x. fst (run_once cmd timeout mb w) = Inl x) \<or>
     snd (run_once cmd timeout mb w) = w3 \<and> (\<forall>x. r3 = Inl x \<longrightarrow> fst (run_once cmd timeout mb w) = Inl x) \<and>
     (\<forall>idx e. r3 = Inr idx \<longrightarrow> fst (run_once cmd timeout mb w) = Inr e \<longrightarrow>
        xe_output e = take mb (command_text (py_slice
          (ks_base (kw_s w) + int (length (ks_buf (kw_s w))) - ks_base (kw_s w3)) (idx - ks_base (kw_s w3)) (ks_buf (kw_s w3)))) \<and>
        xe_printed_nothing e = (xe_output e = []))"
      using t r2 r3 unfolding run_once_def start_def
      by (cases r2; cases r3) (auto simp: bindE_def Let_def)
  qed
qed

lemma run_once_writes: "writes (snd (run_once cmd timeout mb w)) \<le> Suc (writes w)"
proof (rule run_once_stages [of w cmd timeout mb])
  fix token w1 w2 r3 w3
  assume a: "kw_trace w1 = kw_trace w" "w2 = snd (kd_write (framed cmd (sentinel_of token)) w1)"
    "(r3, w3) = wait_for_bytes (sentinel_of token) (ks_base (kw_s w) + int (length (ks_buf (kw_s w)))) timeout w2"
    and e: "snd (run_once cmd timeout mb w) = w2 \<and> (\<exists>x. fst (run_once cmd timeout mb w) = Inl x) \<or>
     snd (run_once cmd timeout mb w) = w3 \<and> (\<forall>x. r3 = Inl x \<longrightarrow> fst (run_once cmd timeout mb w) = Inl x) \<and>
     (\<forall>idx e. r3 = Inr idx \<longrightarrow> fst (run_once cmd timeout mb w) = Inr e \<longrightarrow>
        xe_output e = take mb (command_text (py_slice
          (ks_base (kw_s w) + int (length (ks_buf (kw_s w))) - ks_base (kw_s w3)) (idx - ks_base (kw_s w3)) (ks_buf (kw_s w3)))) \<and>
        xe_printed_nothing e = (xe_output e = []))"
  have "writes w2 \<le> Suc (writes w)"
    using kd_write_writes [of "framed cmd (sentinel_of token)" w1] a(1,2) by (simp add: writes_def)
  moreover have "writes w3 = writes w2"
    using wait_for_bytes_writes [of "sentinel_of token" "ks_base (kw_s w) + int (length (ks_buf (kw_s w)))" timeout w2]
      a(3) [symmetric] by simp
  ultimately show ?thesis using e by auto
qed

lemma interrupt_writes: "writes (snd (interrupt_wedged timeout e bug w)) = writes w"
proof (cases "ks_proc (kw_s w) = None")
  case True
  then show ?thesis by (simp add: interrupt_wedged_def)
next
  case False
  obtain r1 w1 where w1: "suppress_all kd_break w = (r1, w1)" by fastforce
  have "writes w1 = writes w" using suppress_all_snd [of kd_break w] w1 by (metis kd_break_writes snd_conv)
  moreover obtain b w2 where w2: "wait_state {K_Broken} (min timeout 15000) w1 = (b, w2)" by fastforce
  ultimately show ?thesis
    using False wait_state_writes [OF w2] by (simp add: interrupt_wedged_def w1 w2 Let_def)
qed

lemma exec_one_writes:
  "writes (snd (exec_one timeout mb bug cmd w)) \<le> writes w + (if retry_safe cmd then 2 else 1)"
proof -
  obtain r w1 where r: "run_once cmd timeout mb w = (r, w1)" by fastforce
  have n1: "writes w1 \<le> Suc (writes w)" using run_once_writes [of cmd timeout mb w] r by simp
  show ?thesis
  proof (cases "\<exists>e. r = Inl (Nt e) \<and> err_code e = TIMEOUT")
    case False
    then have "snd (exec_one timeout mb bug cmd w) = w1"
      by (auto simp: exec_one_def catch_nt_def tryE_def r raise_def ret_def split: sum.splits exn.splits)
    then show ?thesis using n1 by simp
  next
    case True
    then obtain e where e: "r = Inl (Nt e)" "err_code e = TIMEOUT" by blast
    obtain recovery w2 where i: "interrupt_wedged timeout e bug w1 = (recovery, w2)" by fastforce
    have n2: "writes w2 = writes w1" using interrupt_writes [of timeout e bug w1] i by simp
    obtain r3 w3 where r3: "run_once cmd timeout mb w2 = (r3, w3)" by fastforce
    have n3: "writes w3 \<le> Suc (writes w2)" using run_once_writes [of cmd timeout mb w2] r3 by simp
    have "snd (exec_one timeout mb bug cmd w) = (if interrupted recovery \<and> retry_safe cmd then w3 else w2)"
      using e by (auto simp: exec_one_def catch_nt_def tryE_def r i r3 raise_def ret_def split: sum.splits exn.splits)
    then show ?thesis using n1 n2 n3 by auto
  qed
qed

definition exec_budget :: "string list \<Rightarrow> nat" where
  "exec_budget cmds = sum_list (map (\<lambda>c. if retry_safe c then 2 else 1) cmds)"

lemma exec_step_writes:
  "writes (snd (exec_step timeout mb bug cmd w)) \<le> writes w + (if retry_safe cmd then 2 else 1)"
proof -
  obtain r w1 where r: "exec_one timeout mb bug cmd w = (r, w1)" by fastforce
  obtain b w2 where w2: "wait_state {K_Broken} timeout w1 = (b, w2)" by fastforce
  have "writes (snd (exec_step timeout mb bug cmd w)) = writes w1"
    using wait_state_writes [OF w2] by (cases r) (simp_all add: exec_step_def bindE_def r w2)
  then show ?thesis using exec_one_writes [of timeout mb bug cmd w] r by simp
qed

lemma exec_all_writes:
  "writes (snd (mapE (exec_step timeout mb bug) cmds w)) \<le> writes w + exec_budget cmds"
proof (induction cmds arbitrary: w)
  case Nil
  then show ?case by (simp add: ret_def exec_budget_def)
next
  case (Cons c cmds)
  obtain r w1 where r: "exec_step timeout mb bug c w = (r, w1)" by fastforce
  have n: "writes w1 \<le> writes w + (if retry_safe c then 2 else 1)"
    using exec_step_writes [of timeout mb bug c w] r by simp
  obtain r2 w2 where r2: "mapE (exec_step timeout mb bug) cmds w1 = (r2, w2)" by fastforce
  have "writes w2 \<le> writes w1 + exec_budget cmds" using Cons.IH [of w1] r2 by simp
  then show ?case
    using n by (cases r; cases r2) (auto simp: bindE_def r r2 ret_def exec_budget_def)
qed

section \<open>Finding the sentinel\<close>

lemma find_from_some:
  "find_from needle i s = Some k \<Longrightarrow>
   i \<le> k \<and> starts_with needle (drop (k - i) s) \<and> k - i \<le> length s \<and>
   (\<forall>j < k - i. \<not> starts_with needle (drop j s))"
proof (induction needle i s rule: find_from.induct)
  case (1 needle i)
  then show ?case by (auto simp: starts_with_def split: if_splits)
next
  case (2 needle i c s)
  show ?case
  proof (cases "starts_with needle (c # s)")
    case True
    then show ?thesis using "2.prems" by simp
  next
    case False
    then have "find_from needle (Suc i) s = Some k" using "2.prems" by simp
    from "2.IH" [OF False this] have IH: "Suc i \<le> k" "starts_with needle (drop (k - Suc i) s)"
      "k - Suc i \<le> length s" "\<forall>j < k - Suc i. \<not> starts_with needle (drop j s)" by auto
    have "k - i = Suc (k - Suc i)" using IH(1) by simp
    moreover have "\<not> starts_with needle (drop j (c # s))" if "j < k - i" for j
      using that False IH(4) calculation by (cases j) auto
    ultimately show ?thesis using IH by auto
  qed
qed

lemma find_bytes_stream:
  assumes "kd_holds stream s" "find_bytes needle start s = Some idx" "ks_base s \<le> start"
  shows "start \<le> idx \<and> idx \<le> int (length stream) \<and> starts_with needle (drop (nat idx) stream) \<and>
    (\<forall>j. start \<le> j \<longrightarrow> j < idx \<longrightarrow> \<not> starts_with needle (drop (nat j) stream))"
proof -
  define rel where "rel = nat (start - ks_base s)"
  have b: "0 \<le> ks_base s" using kd_base_bounds [OF assms(1)] by simp
  have rel: "int rel = start - ks_base s" using assms(3) by (simp add: rel_def)
  have mx: "nat (max (start - ks_base s) 0) = rel" using assms(3) by (simp add: rel_def)
  obtain k where k: "find_from needle rel (drop rel (ks_buf s)) = Some k" "idx = ks_base s + int k"
    "rel \<le> length (ks_buf s)"
    using assms(2) unfolding find_bytes_def Let_def mx by (auto split: if_splits)
  note f = find_from_some [OF k(1)]
  have dr: "drop (j) (drop rel (ks_buf s)) = drop (nat (start + int j)) stream" for j
  proof -
    have "nat (start + int j) = j + (rel + nat (ks_base s))" using rel b by linarith
    then show ?thesis by (simp add: kd_buf_drop [OF assms(1)] ac_simps)
  qed
  have len: "int (length stream) = ks_base s + int (length (ks_buf s))"
    using assms(1) unfolding kd_holds_def by (elim conjE) linarith
  have i: "idx = start + int (k - rel)" using f k(2) rel by auto
  show ?thesis
  proof (intro conjI allI impI)
    show "start \<le> idx" using i by simp
    show "idx \<le> int (length stream)" using f k(2,3) len by auto
    show "starts_with needle (drop (nat idx) stream)"
      using f unfolding i dr [of "k - rel", symmetric] by blast
    fix j assume j: "start \<le> j" "j < idx"
    then have "nat (j - start) < k - rel" using i by simp
    then have "\<not> starts_with needle (drop (nat (j - start)) (drop rel (ks_buf s)))" using f by blast
    then show "\<not> starts_with needle (drop (nat j) stream)" using dr [of "nat (j - start)"] j by simp
  qed
qed

lemma kd_wait_holds_result:
  "fst (kd_wait f dl awake s now inbox) = Some x \<Longrightarrow> f (fst (snd (kd_wait f dl awake s now inbox))) = Some x"
  by (induction f dl awake s now inbox rule: kd_wait.induct) (auto split: if_splits)

definition found_or_gone :: "string \<Rightarrow> int \<Rightarrow> kd_session \<Rightarrow> (string + int) option" where
  "found_or_gone needle start s =
     (case find_bytes needle start s of
        Some idx \<Rightarrow> Some (Inr idx)
      | None \<Rightarrow> if \<not> kd_attached s then Some (Inl KD_NOT_ATTACHED) else None)"

lemma wait_for_bytes_alt:
  "wait_for_bytes needle start timeout w =
     (case wait_cond (found_or_gone needle start) timeout w of
        (Some (Inr idx), w1) \<Rightarrow> (Inr idx, w1)
      | (Some (Inl code), w1) \<Rightarrow> throw code w1
      | (None, w1) \<Rightarrow> throw TIMEOUT w1)"
  unfolding wait_for_bytes_def found_or_gone_def by (rule refl)

lemma wait_for_bytes_found:
  assumes "wait_for_bytes needle start timeout w = (Inr idx, w')"
  shows "wait_cond (found_or_gone needle start) timeout w = (Some (Inr idx), w')"
    and "find_bytes needle start (kw_s w') = Some idx"
proof -
  show c: "wait_cond (found_or_gone needle start) timeout w = (Some (Inr idx), w')"
    using assms
    by (auto simp: wait_for_bytes_alt throw_def raise_def split: prod.splits option.splits sum.splits)
  obtain r s1 t1 i1 where k: "kd_wait (found_or_gone needle start) (kw_now w + timeout) True (kw_s w) (kw_now w)
      (kw_inbox w) = (r, s1, t1, i1)"
    by (metis prod.collapse)
  have "r = Some (Inr idx)" "kw_s w' = s1" using c by (auto simp: wait_cond_def k)
  then have "found_or_gone needle start (kw_s w') = Some (Inr idx)"
    using kd_wait_holds_result [of "found_or_gone needle start" "kw_now w + timeout" True "kw_s w" "kw_now w"
        "kw_inbox w" "Inr idx"] k by simp
  then show "find_bytes needle start (kw_s w') = Some idx"
    by (auto simp: found_or_gone_def split: option.splits if_splits)
qed

lemma kd_write_session:
  "kd_holds stream (kw_s w) \<Longrightarrow> kd_holds stream (kw_s (snd (kd_write t w)))"
  by (auto simp: kd_write_def bindE_def require_attached_def throw_def raise_def on_s_def kd_do_def kd_holds_def
      split: option.splits prod.splits sum.splits)

lemma kd_write_buf:
  "ks_buf (kw_s (snd (kd_write t w))) = ks_buf (kw_s w)" "ks_base (kw_s (snd (kd_write t w))) = ks_base (kw_s w)"
  by (auto simp: kd_write_def bindE_def require_attached_def throw_def raise_def on_s_def kd_do_def
      split: option.splits prod.splits sum.splits)

lemma command_text_nil: "command_text [] = []"
  by code_simp

lemma run_once_output:
  assumes "kd_holds stream (kw_s w)" and "run_once cmd timeout max_bytes w = (Inr e, w')"
  obtains more token idx where "kd_holds (stream @ more) (kw_s w')"
    "find_bytes (sentinel_of token) (int (length stream)) (kw_s w') = Some idx"
    "xe_output e = take max_bytes (command_text (py_slice (int (length stream) - ks_base (kw_s w'))
       (idx - ks_base (kw_s w')) (ks_buf (kw_s w'))))"
    "xe_printed_nothing e = (xe_output e = [])"
proof (rule run_once_stages [of w cmd timeout max_bytes])
  fix token w1 w2 r3 w3
  let ?start = "ks_base (kw_s w) + int (length (ks_buf (kw_s w)))"
  assume a: "kw_s w1 = kw_s w" "w2 = snd (kd_write (framed cmd (sentinel_of token)) w1)"
    "(r3, w3) = wait_for_bytes (sentinel_of token) ?start timeout w2"
    and e: "snd (run_once cmd timeout max_bytes w) = w2 \<and> (\<exists>x. fst (run_once cmd timeout max_bytes w) = Inl x) \<or>
     snd (run_once cmd timeout max_bytes w) = w3 \<and> (\<forall>x. r3 = Inl x \<longrightarrow> fst (run_once cmd timeout max_bytes w) = Inl x) \<and>
     (\<forall>idx e. r3 = Inr idx \<longrightarrow> fst (run_once cmd timeout max_bytes w) = Inr e \<longrightarrow>
        xe_output e = take max_bytes (command_text (py_slice (?start - ks_base (kw_s w3)) (idx - ks_base (kw_s w3)) (ks_buf (kw_s w3)))) \<and>
        xe_printed_nothing e = (xe_output e = []))"
  have start: "?start = int (length stream)" using assms(1) unfolding kd_holds_def by (elim conjE)
  obtain idx where r3: "r3 = Inr idx" "w' = w3"
    using e assms(2) by (cases r3) auto
  have h2: "kd_holds stream (kw_s w2)" unfolding a(2) using assms(1) a(1) by (simp add: kd_write_session)
  have wfb: "wait_for_bytes (sentinel_of token) ?start timeout w2 = (Inr idx, w3)" using a(3) r3 by simp
  have "w3 = snd (wait_cond (found_or_gone (sentinel_of token) ?start) timeout w2)"
    by (simp add: wait_for_bytes_found(1) [OF wfb])
  then obtain more where more: "kd_holds (stream @ more) (kw_s w3)"
    using kd_holds_wait_cond [OF h2] by metis
  have fb: "find_bytes (sentinel_of token) (int (length stream)) (kw_s w3) = Some idx"
    using wait_for_bytes_found(2) [OF wfb] start by simp
  show ?thesis
    by (rule that [of more token idx]) (use more fb e r3 assms(2) start in auto)
qed

text \<open>A pattern whose text needs a character is not in a text without it.\<close>

lemma kd_feed_quiet:
  assumes "CHR ''C'' \<notin> set bytes" "CHR ''K'' \<notin> set bytes" "CHR ''>'' \<notin> set (ks_buf (kd_append bytes s))"
  shows "kd_feed now bytes s = kd_append bytes (kd_log_write bytes s)"
proof -
  have c: "rx_search CONNECTED_RE bytes = None"
    by (rule rx_search_needs [of "CHR ''C''"]) (simp_all add: CONNECTED_RE_def rlit_def assms)
  have k: "rx_search KERNEL_BASE_RE bytes = None"
    by (rule rx_search_needs [of "CHR ''K''"]) (simp_all add: KERNEL_BASE_RE_def rlit_def assms)
  have buf: "ks_buf (kd_append bytes (kd_log_write bytes s)) = ks_buf (kd_append bytes s)"
    by (simp add: kd_append_eqs)
  have "\<not> at_prompt (kd_append bytes (kd_log_write bytes s))"
    unfolding at_prompt_def buf
    by (rule rx_test_needs [of "CHR ''>''"])
      (use assms(3) set_drop_subset in \<open>auto simp: PROMPT_RE_def rlit_def take_last_def dest: in_set_dropD\<close>)
  then show ?thesis by (simp add: kd_feed_def see_banner_def see_kernel_base_def see_prompt_def c k)
qed

text \<open>A wait for a state the session is in returns at once.\<close>

lemma kd_wait_there: "f s = Some x \<Longrightarrow> kd_wait f dl True s now inbox = (Some x, s, now, inbox)"
  by (cases inbox) auto

lemma wait_state_there: "ks_state (kw_s w) \<in> states \<Longrightarrow> wait_state states timeout w = (True, w)"
  using kd_wait_there [of "in_states states" "kw_s w" "()" "kw_now w + timeout" "kw_now w" "kw_inbox w"]
  by (simp add: wait_state_def wait_cond_def in_states_def)

section \<open>Detaching leaves the target running\<close>

lemma kd_attached_exited: "ks_state (kd_exited None s) = K_Detached"
  by (simp add: kd_exited_def)

lemma sleep_trace: "kw_trace (kd_sleep d w) = kw_trace w"
  by (simp add: kd_sleep_def wait_cond_trace)

lemma poll_trace: "kw_trace (poll_exit n w) = kw_trace w"
  by (induction n arbitrary: w) (simp_all add: sleep_trace)

lemma write_ok:
  assumes "ks_proc (kw_s w) = Some p" "kp_exit p = None" "kp_pipe_ok p"
  shows "kd_write t w = (Inr (), on_s (kd_log_write t) (kd_do (Wrote t) w))"
  using assms by (simp add: kd_write_def bindE_def require_attached_def)

lemma release_trace:
  assumes "ks_proc (kw_s w) = Some p" "kp_exit p = None" "kp_pipe_ok p"
  shows "kw_trace (snd (release_target w)) = kw_trace w @ [Wrote (''bc *'' @ [NL]), Wrote (''g'' @ [NL])]"
proof -
  define w1 where "w1 = on_s (kd_log_write (''bc *'' @ [NL])) (kd_do (Wrote (''bc *'' @ [NL])) w)"
  have p1: "ks_proc (kw_s w1) = Some p" using assms(1) by (simp add: w1_def on_s_def kd_do_def)
  show ?thesis
    unfolding release_target_def suppress_io_snd thenE_def bindE_def write_ok [OF assms] w1_def [symmetric]
    using write_ok [OF p1 assms(2,3), of "''g'' @ [NL]"]
    by (simp add: w1_def on_s_def kd_do_def)
qed

lemma kd_write_trace: "\<exists>more. kw_trace (snd (kd_write t w)) = kw_trace w @ more"
  by (auto simp: kd_write_def bindE_def require_attached_def throw_def raise_def on_s_def kd_do_def
      split: option.splits prod.splits sum.splits)

lemma kd_exited_attached: "kd_attached (kd_exited None s) = kd_attached s"
  by (simp add: kd_exited_def kd_attached_def)

text \<open>The stop: the process is seen to exit, or it was killed.\<close>

lemma stop_trace:
  "\<exists>more. kw_trace (detach_stop w) = kw_trace w @ more \<and> (kd_attached (kw_s (detach_stop w)) \<longrightarrow> Killed \<in> set more)"
proof -
  define w1 where "w1 = poll_exit 20 (snd (suppress_io (kd_write (''q'' @ [NL])) w))"
  define w2 where "w2 = (if kd_attached (kw_s w1) then kd_sleep 200 (kd_do Terminated w1) else w1)"
  obtain q where q: "kw_trace w1 = kw_trace w @ q"
    using kd_write_trace [of "''q'' @ [NL]" w] by (auto simp: w1_def poll_trace suppress_io_snd)
  have t2: "\<exists>m. kw_trace w2 = kw_trace w1 @ m" by (auto simp: w2_def kd_do_def sleep_trace)
  then obtain m where m: "kw_trace w2 = kw_trace w @ q @ m" using q by auto
  have d: "detach_stop w = (if kd_attached (kw_s w2) then kd_do Killed w2 else w2)"
    by (simp add: detach_stop_def Let_def w1_def w2_def)
  show ?thesis
  proof (cases "kd_attached (kw_s w2)")
    case True
    then have "kw_trace (detach_stop w) = kw_trace w @ (q @ m @ [Killed])" by (simp add: d kd_do_def m)
    then show ?thesis by (intro exI [of _ "q @ m @ [Killed]"]) simp
  next
    case False
    then show ?thesis using m by (simp add: d)
  qed
qed

section \<open>A session at a prompt\<close>

text \<open>For the witnesses: what kd.exe prints for one command, and the session that reads it.\<close>

definition sample_kd :: "nat \<Rightarrow> kd_session" where
  "sample_kd capacity =
     \<lparr>ks_vm = ''vm'', ks_kd_path = ''kd.exe'', ks_port = 50000, ks_key = ''k.e.y.1'', ks_transport = ''net'',
      ks_serial_pipe = [], ks_symbol_path = [], ks_log_path = ''kd.log'', ks_capacity = capacity,
      ks_proc = Some \<lparr>kp_pid = 4, kp_exit = None, kp_pipe_ok = True\<rparr>, ks_buf = ''kd> '', ks_base = 0,
      ks_state = K_Broken, ks_target_info = [], ks_kernel_base = [], ks_target_confirmed = True,
      ks_last_event = None, ks_log_open = True, ks_log = []\<rparr>"

definition sample_kd_world :: "nat \<Rightarrow> kd_inbox \<Rightarrow> kd_world" where
  "sample_kd_world capacity inbox =
     \<lparr>kw_s = sample_kd capacity, kw_now = 0, kw_inbox = inbox, kw_spawns = [], kw_breaks = [], kw_tokens = [],
      kw_write_hangs = False, kw_trace = []\<rparr>"

definition sample_output :: string where
  "sample_output = replicate 20 (CHR ''a'') @ ''__NTDRIVE_END_00000000__''"

definition sample_run :: "nat \<Rightarrow> (exn + exec_entry) \<times> kd_world" where
  "sample_run capacity = run_once ''r'' 1000 100 (sample_kd_world capacity [(5, KI_Data sample_output)])"

lemma sample_run_80:
  "fst (sample_run 80) =
     Inr \<lparr>xe_cmd = ''r'', xe_output = replicate 20 (CHR ''a''), xe_printed_nothing = False,
          xe_truncated = False, xe_elapsed = 5, xe_retried = False\<rparr>"
  "ks_base (kw_s (snd (sample_run 80))) = 0"
  by code_simp+

lemma sample_run_30:
  "fst (sample_run 30) =
     Inr \<lparr>xe_cmd = ''r'', xe_output = [], xe_printed_nothing = True,
          xe_truncated = False, xe_elapsed = 5, xe_retried = False\<rparr>"
  "ks_base (kw_s (snd (sample_run 30))) = 18"
  by code_simp+

lemma sample_holds: "kd_holds ''kd> '' (kw_s (sample_kd_world 80 inbox))" "kd_holds ''kd> '' (kw_s (sample_kd_world 30 inbox))"
  by (simp_all add: kd_holds_def sample_kd_world_def sample_kd_def take_last_def)

lemma sample_detach_attached: "kd_attached (kw_s (snd (kd_detach (sample_kd_world 80 []))))"
  by code_simp

section \<open>Properties\<close>

text \<open>
  A chunk of kd.exe's output makes the session broken exactly when the transcript then ends in a
  prompt: the target is confirmed, and a session that was running or waiting records the break event.
  Without a prompt only the connect banner changes the state, from waiting to running.
\<close>

theorem kd_feed_effect:
  "(if at_prompt (kd_feed now bytes s)
    then ks_state (kd_feed now bytes s) = K_Broken \<and> ks_target_confirmed (kd_feed now bytes s) \<and>
         ks_last_event (kd_feed now bytes s) =
           (if ks_state s \<in> {K_Running, K_Waiting} then Some (break_event now (ks_buf (kd_feed now bytes s)))
            else ks_last_event s)
    else ks_last_event (kd_feed now bytes s) = ks_last_event s \<and>
         ks_state (kd_feed now bytes s) =
           (if ks_state s = K_Waiting \<and> rx_search CONNECTED_RE bytes \<noteq> None then K_Running else ks_state s))"
proof -
  define s1 where "s1 = see_kernel_base bytes (see_banner bytes (kd_append bytes (kd_log_write bytes s)))"
  have f: "kd_feed now bytes s = see_prompt now s1" by (simp add: kd_feed_def s1_def)
  have st: "ks_state s1 = (if ks_state s = K_Waiting \<and> rx_search CONNECTED_RE bytes \<noteq> None then K_Running else ks_state s)"
    by (auto simp: s1_def see_banner_def split: option.splits)
  have ev: "ks_last_event s1 = ks_last_event s" by (simp add: s1_def)
  have ap: "at_prompt (see_prompt now s1) = at_prompt s1" by (simp add: at_prompt_def)
  show ?thesis unfolding f ap using st ev by (auto simp: see_prompt_def)
qed

text \<open>
  No command reaches kd.exe unless it is alive and at a prompt: otherwise an exec or a go fails
  with the error that names the reason and changes nothing.
\<close>

theorem commands_need_a_prompt:
  assumes "\<not> (kd_attached (kw_s w) \<and> ks_state (kw_s w) = K_Broken)"
  shows "kd_exec cmds timeout max_bytes w =
      (Inl (Nt (nt_err (if kd_attached (kw_s w) then KD_NOT_BROKEN else KD_NOT_ATTACHED))), w) \<and>
    kd_go w = (Inl (Nt (nt_err (if kd_attached (kw_s w) then KD_NOT_BROKEN else KD_NOT_ATTACHED))), w)"
  using assms
  by (auto simp: kd_exec_def kd_go_def require_broken_def require_attached_def bindE_def throw_def raise_def
      kd_attached_def split: option.splits)

lemma commands_need_a_prompt_witness:
  "kd_go ((sample_kd_world 80 [])\<lparr>kw_s := (sample_kd 80)\<lparr>ks_state := K_Running\<rparr>\<rparr>) =
     (Inl (Nt (nt_err KD_NOT_BROKEN)), (sample_kd_world 80 [])\<lparr>kw_s := (sample_kd 80)\<lparr>ks_state := K_Running\<rparr>\<rparr>)"
  using commands_need_a_prompt [of "(sample_kd_world 80 [])\<lparr>kw_s := (sample_kd 80)\<lparr>ks_state := K_Running\<rparr>\<rparr>" "[]" 0 0]
  by (simp add: sample_kd_def kd_attached_def)


text \<open>
  C10. An attach returns by its deadline, whatever kd.exe and the target do.
\<close>

theorem attach_returns_by_deadline:
  "kw_now (snd (kd_attach pipe_check wait_for_target timeout w)) \<le> kw_now w + max 0 timeout"
proof -
  have now: "kw_now (snd (kd_spawn (on_s reset_session w))) = kw_now w"
    by (auto simp: kd_spawn_def Let_def on_s_def kd_do_def throw_def raise_def split: list.splits option.splits)
  obtain r1 w1 where s1: "kd_spawn (on_s reset_session w) = (r1, w1)" by fastforce
  have n1: "kw_now w1 = kw_now w" using now s1 by simp
  have serial: "kw_now (snd (settle_serial timeout w1)) \<le> kw_now w + max 0 timeout"
  proof -
    obtain died w2 where w2: "wait_state {K_Detached} (min timeout 1000) w1 = (died, w2)" by fastforce
    have "kw_now (snd (settle_serial timeout w1)) = kw_now w2"
      by (auto simp: settle_serial_def w2 throw_with_def raise_def on_s_def)
    then show ?thesis using wait_state_bound [OF w2] n1 by (auto simp: max_def min_def split: if_splits)
  qed
  have net: "kw_now (snd (find_target (kw_now w1 + timeout) w1)) \<le> kw_now w + max 0 timeout"
    using find_target_bound [of "kw_now w1 + timeout" w1] n1 by (simp add: max_def split: if_splits)
  obtain r2 w2 where s2: "settle_serial timeout w1 = (r2, w2)" by fastforce
  show ?thesis
    using serial net n1 s2
    by (cases r1; cases r2)
      (auto simp: kd_attach_def Let_def throw_def raise_def bindE_def s1 ret_def)
qed







text \<open>
  The recovery of a wedged command is not checked: while the session counts as broken, which it
  does during every exec, the interrupt reports at once that the prompt came back, having read
  nothing after the break and even when the break could not be sent.
\<close>

theorem interrupt_reports_recovery_unseen:
  assumes "ks_state (kw_s w) = K_Broken" and "ks_proc (kw_s w) \<noteq> None"
  shows "interrupted (fst (interrupt_wedged timeout e bug w)) \<and>
         kw_s (snd (interrupt_wedged timeout e bug w)) = kw_s w \<and>
         kw_inbox (snd (interrupt_wedged timeout e bug w)) = kw_inbox w \<and>
         kw_now (snd (interrupt_wedged timeout e bug w)) = kw_now w"
proof -
  obtain r w1 where r: "suppress_all kd_break w = (r, w1)" by fastforce
  have k: "kw_s w1 = kw_s w" "kw_inbox w1 = kw_inbox w" "kw_now w1 = kw_now w"
    using suppress_all_snd [of kd_break w] r
    by (auto simp: kd_break_def kd_do_def throw_def raise_def split: list.splits if_splits)
  have "wait_state {K_Broken} (min timeout 15000) w1 = (True, w1)"
    using assms(1) k by (simp add: wait_state_there)
  then show ?thesis
    using assms(2) k
    by (auto simp: interrupt_wedged_def r interrupted_def nt_err_with_def opt_or_def)
qed

lemma interrupt_reports_recovery_unseen_witness:
  "interrupted (fst (interrupt_wedged 60000 (nt_err TIMEOUT) False ((sample_kd_world 80 [])\<lparr>kw_breaks := [False]\<rparr>)))"
  using interrupt_reports_recovery_unseen [of "(sample_kd_world 80 [])\<lparr>kw_breaks := [False]\<rparr>" 60000 "nt_err TIMEOUT" False]
  by (simp add: sample_kd_world_def sample_kd_def)

end
