(* ===== verification/Vmx.thy ===== *)
theory Vmx
  imports Regex
begin

text \<open>
  \<open>hypervisor/vmx.py\<close>: the settings of a VMware vmx file. A file is its text; reading a path and the
  random bytes of the fresh identifiers are arguments. The lemmas show that a setting that was written
  reads back, that writing twice changes nothing the second time and that foreign lines are kept.
\<close>

section \<open>Numbers in text\<close>

section \<open>Reading\<close>

text \<open>\<open>_PAIR\<close> over the whole text, \<open>_LINE\<close> on one line.\<close>

definition key_char :: "char \<Rightarrow> bool" where
  "key_char c = (is_word c \<or> c = CHR ''.'' \<or> c = CHR '':'')"

definition quoted_value :: rx where
  "quoted_value =
     RSeq (RStar rx_space) (RSeq (RSet (\<lambda>c. c = CHR ''='')) (RSeq (RStar rx_space)
       (RSeq (RSet (\<lambda>c. c = DQ)) (RSeq (RGroup 2 (RStar not_nl)) (RSet (\<lambda>c. c = DQ))))))"

definition PAIR_RE :: rx where
  "PAIR_RE =
     RSeq RBeginLine (RSeq (RStar rx_space)
       (RSeq (RGroup 1 (rplus (\<lambda>c. c \<noteq> CHR ''#'' \<and> c \<noteq> CHR ''='' \<and> \<not> rx_space c)))
         (RSeq quoted_value (RSeq (RStar rx_space) RDollarLine))))"

definition LINE_RE :: rx where
  "LINE_RE =
     RSeq RBegin (RSeq (RStar rx_space)
       (RSeq (RGroup 1 (rplus key_char)) (RSeq quoted_value (RSeq (RStar rx_space) RDollar))))"

definition vmx_settings :: "string option \<Rightarrow> (string, string) dict" where
  "vmx_settings content =
     (case content of
        None \<Rightarrow> []
      | Some text \<Rightarrow> dict_update [] (map (\<lambda>m. (py_lower (group m 1), group m 2)) (rx_finditer PAIR_RE text)))"

definition line_pair :: "string \<Rightarrow> (string \<times> string) option" where
  "line_pair line = map_option (\<lambda>m. (group m 1, group m 2)) (rx_match_at_start LINE_RE line)"

definition SAVED_STATE_KEYS :: "string list" where
  "SAVED_STATE_KEYS = [''checkpoint.vmstate'', ''checkpoint.vmstate.readonly'']"

definition saved_state :: "(string, string) dict \<Rightarrow> string" where
  "saved_state settings = opt_or (dict_get settings ''checkpoint.vmstate'') []"

text \<open>\<open>Path(...).suffix\<close> of the last component.\<close>

definition path_name :: "string \<Rightarrow> string" where
  "path_name p =
     (let q = rstrip_by (\<lambda>c. c = CHR ''/'' \<or> c = BSL) p
      in rev (takeWhile (\<lambda>c. c \<noteq> CHR ''/'' \<and> c \<noteq> BSL) (rev q)))"

definition path_suffix :: "string \<Rightarrow> string" where
  "path_suffix p =
     (let name = path_name p; ext = rev (takeWhile (\<lambda>c. c \<noteq> CHR ''.'') (rev name));
          dot = length name - length ext
      in if CHR ''.'' \<in> set name \<and> 1 < dot \<and> ext \<noteq> [] then CHR ''.'' # ext else [])"

text \<open>\<open>beside\<close>: which names are files next to the vmx.\<close>

definition saved_state_is_stale :: "(string \<Rightarrow> bool) \<Rightarrow> (string, string) dict \<Rightarrow> bool" where
  "saved_state_is_stale beside settings =
     (let name = saved_state settings
      in if name = [] then False else py_lower (path_suffix name) \<noteq> ''.vmss'' \<or> \<not> beside name)"

section \<open>Writing\<close>

definition unlines :: "string list \<Rightarrow> string" where
  "unlines ls = join_with [NL] ls @ [NL]"

definition is_saved_line :: "string \<Rightarrow> bool" where
  "is_saved_line line = (case line_pair line of None \<Rightarrow> False | Some (k, v) \<Rightarrow> py_lower k \<in> set SAVED_STATE_KEYS)"

definition drop_saved_state :: "string \<Rightarrow> string \<times> string list" where
  "drop_saved_state text =
     (let ls = split_lines text
      in (unlines (filter (\<lambda>l. \<not> is_saved_line l) ls), map py_strip (filter is_saved_line ls)))"

definition setting_line :: "string \<Rightarrow> string \<Rightarrow> string" where
  "setting_line key value = key @ '' = '' @ [DQ] @ value @ [DQ]"

type_synonym wanted = "(string, string \<times> string) dict"

definition wanted_of :: "(string, string) dict \<Rightarrow> wanted" where
  "wanted_of values = dict_update [] (map (\<lambda>(key, value). (py_lower key, (key, value))) values)"

text \<open>What a line becomes, the wanted key it sets and the key it changed.\<close>

definition upsert_line :: "wanted \<Rightarrow> string \<Rightarrow> string \<times> string option \<times> string option" where
  "upsert_line wanted line =
     (case line_pair line of
        None \<Rightarrow> (line, None, None)
      | Some (k, v) \<Rightarrow>
          (case dict_get wanted (py_lower k) of
             None \<Rightarrow> (line, None, None)
           | Some (key, value) \<Rightarrow>
               if v \<noteq> value then (setting_line k value, Some (py_lower key), Some key)
               else (line, Some (py_lower key), None)))"

definition somes :: "'a option list \<Rightarrow> 'a list" where
  "somes xs = map the (filter (\<lambda>x. x \<noteq> None) xs)"

definition upsert_settings :: "string \<Rightarrow> (string, string) dict \<Rightarrow> string \<times> string list" where
  "upsert_settings text values =
     (let wanted = wanted_of values;
          done = map (upsert_line wanted) (split_lines text);
          seen = somes (map (\<lambda>(l, s, c). s) done);
          missing = filter (\<lambda>(lowered, kv). lowered \<notin> set seen) wanted
      in (unlines (map fst done @ map (\<lambda>(lowered, key, value). setting_line key value) missing),
          somes (map (\<lambda>(l, s, c). c) done) @ map (\<lambda>(lowered, key, value). key) missing))"

record hardware =
  hw_cpus :: "int option"
  hw_cores :: "int option"
  hw_memory :: "int option"
  hw_nic :: "string option"

definition setting_int :: "(string, string) dict \<Rightarrow> string \<Rightarrow> int option" where
  "setting_int settings key = py_int (opt_or (dict_get settings key) [])"

definition hardware_from_settings :: "(string, string) dict \<Rightarrow> hardware" where
  "hardware_from_settings settings =
     \<lparr>hw_cpus = setting_int settings ''numvcpus'',
      hw_cores = setting_int settings ''cpuid.corespersocket'',
      hw_memory = setting_int settings ''memsize'',
      hw_nic = (case dict_get settings ''ethernet0.virtualdev'' of
                  None \<Rightarrow> None | Some n \<Rightarrow> if n = [] then None else Some n)\<rparr>"

record hw_changes =
  hc_cpus :: "int option"
  hc_memory :: "int option"
  hc_nic :: "string option"

definition hardware_values :: "hw_changes \<Rightarrow> (string, string) dict" where
  "hardware_values ch =
     (case hc_cpus ch of None \<Rightarrow> []
      | Some n \<Rightarrow> [(''numvcpus'', int_text n), (''cpuid.coresPerSocket'', int_text n)]) @
     (case hc_memory ch of None \<Rightarrow> [] | Some n \<Rightarrow> [(''memsize'', int_text n)]) @
     (case hc_nic ch of None \<Rightarrow> [] | Some n \<Rightarrow> [(''ethernet0.virtualDev'', n)])"

definition apply_hardware :: "string \<Rightarrow> hw_changes \<Rightarrow> string \<times> string list" where
  "apply_hardware text changes = upsert_settings text (hardware_values changes)"

text \<open>Fresh identifiers from random bytes.\<close>

definition hex_pair :: "nat \<Rightarrow> string" where
  "hex_pair b = [''0123456789abcdef'' ! (b div 16), ''0123456789abcdef'' ! (b mod 16)]"

definition new_bios_uuid :: "nat list \<Rightarrow> string" where
  "new_bios_uuid bytes =
     (let pairs = map hex_pair bytes in join_with '' '' (take 8 pairs) @ ''-'' @ join_with '' '' (drop 8 pairs))"

definition new_generated_mac :: "nat list \<Rightarrow> string" where
  "new_generated_mac bytes = ''00:0c:29:'' @ join_with '':'' (map hex_pair bytes)"

section \<open>Lines\<close>

definition one_line :: "string \<Rightarrow> bool" where
  "one_line s = (\<forall>c \<in> set s. \<not> is_linebreak c)"

lemma linebreak_facts [simp]: "is_linebreak NL" "is_linebreak CR"
  by (simp_all add: is_linebreak_def ord_def)

lemma one_line_simps [simp]: "one_line []" "one_line (c # s) = (\<not> is_linebreak c \<and> one_line s)"
  "one_line (a @ b) = (one_line a \<and> one_line b)" "one_line (rev a) = one_line a"
  by (auto simp: one_line_def)

lemma split_lines_aux_clean:
  "one_line acc \<Longrightarrow> list_all one_line (split_lines_aux acc s)"
proof (induction acc s rule: split_lines_aux.induct)
  case (2 acc c s)
  show ?case
  proof (cases "c = CR")
    case True
    then show ?thesis using 2 by (cases s) simp_all
  next
    case False
    then show ?thesis using 2 by simp
  qed
qed simp

lemma split_lines_clean: "l \<in> set (split_lines s) \<Longrightarrow> one_line l"
  using split_lines_aux_clean [of "[]" s] by (simp add: split_lines_def list_all_iff)

lemma split_lines_aux_line:
  "one_line l \<Longrightarrow> split_lines_aux acc (l @ NL # s) = (rev acc @ l) # split_lines_aux [] s"
proof (induction l arbitrary: acc)
  case Nil
  then show ?case by simp
next
  case (Cons c l)
  then show ?case by auto
qed

lemma unlines_Cons: "ls \<noteq> [] \<Longrightarrow> unlines (l # ls) = l @ NL # unlines ls"
  by (cases ls) (simp_all add: unlines_def)

lemma split_unlines: "ls \<noteq> [] \<Longrightarrow> \<forall>l \<in> set ls. one_line l \<Longrightarrow> split_lines (unlines ls) = ls"
proof (induction ls)
  case (Cons l ls)
  show ?case
  proof (cases "ls = []")
    case True
    then show ?thesis
      using Cons.prems split_lines_aux_line [of l "[]" "[]"] by (simp add: split_lines_def unlines_def)
  next
    case False
    then show ?thesis
      using Cons split_lines_aux_line [of l "[]" "unlines ls"] by (simp add: split_lines_def unlines_Cons)
  qed
qed simp

section \<open>One setting\<close>

definition plain_key :: "string \<Rightarrow> bool" where
  "plain_key k = (k \<noteq> [] \<and> list_all key_char k)"

lemma key_char_facts [simp]: "\<not> key_char (CHR '' '')" "\<not> rx_space (CHR ''='')" "\<not> rx_space DQ"
  "rx_space (CHR '' '')" "not_nl DQ"
  by code_simp+

lemma key_char_no_space: "key_char c \<Longrightarrow> \<not> rx_space c"
  by (auto simp: key_char_def is_word_def rx_space_def is_space_def is_alnum_def is_alpha_def is_upper_def is_lower_def
      is_digit_def char_between_def ord_def Let_def)

lemma key_char_no_break: "key_char c \<Longrightarrow> \<not> is_linebreak c"
  by (auto simp: key_char_def is_word_def is_linebreak_def is_alnum_def is_alpha_def is_upper_def is_lower_def
      is_digit_def char_between_def ord_def Let_def)

lemma one_line_not_nl: "one_line v \<Longrightarrow> list_all not_nl v"
  by (induction v) (auto simp: not_nl_def)

lemma quoted_value_match:
  assumes "list_all not_nl v"
    and "K (Some DQ) [] (AList.update 2 v cs) = Some r"
  shows "rx_m quoted_value K prev ('' = '' @ [DQ] @ v @ [DQ]) cs = Some r"
proof -
  have group: "rx_m (RGroup 2 (RStar not_nl)) (rx_m (RSet (\<lambda>c. c = DQ)) K) pv (v @ [DQ]) cs = Some r" for pv
    using assms by (auto intro!: star_m_but_last)
  have space: "rx_m (RSeq (RStar rx_space) b) K' pv (CHR '' '' # c # ys) cs = Some r"
    if "\<not> rx_space c" "rx_m b K' (Some (CHR '' '')) (c # ys) cs = Some r" for b K' pv c ys
    using rx_seq_star [of rx_space "'' ''" "c # ys" b K' pv cs r] that by (simp add: after_text_def)
  have dq: "rx_m (RSeq (RSet (\<lambda>c. c = DQ)) (RSeq (RGroup 2 (RStar not_nl)) (RSet (\<lambda>c. c = DQ)))) K pv (DQ # v @ [DQ]) cs
      = Some r" for pv
    by (rule rx_seq_set, rule refl, subst rx_m.simps(3), rule group)
  have "rx_m quoted_value K prev (CHR '' '' # CHR ''='' # CHR '' '' # DQ # v @ [DQ]) cs = Some r"
    unfolding quoted_value_def by (rule space, simp, rule rx_seq_set, rule refl, rule space, simp, rule dq)
  then show ?thesis by simp
qed

lemma line_pair_written:
  assumes "plain_key k" "one_line v"
  shows "line_pair (setting_line k v) = Some (k, v)"
proof -
  let ?rest = "'' = '' @ [DQ] @ v @ [DQ]"
  let ?K = "\<lambda>prev' s' cs. Some (s', cs :: caps)"
  obtain c ks where k: "k = c # ks" "key_char c" "list_all key_char ks"
    using assms(1) by (cases k) (auto simp: plain_key_def)
  have q: "rx_m quoted_value (rx_m (RSeq (RStar rx_space) RDollar) ?K) pv ?rest [(1, k)] = Some ([], [(1, k), (2, v)])"
    for pv by (rule quoted_value_match) (use one_line_not_nl [OF assms(2)] in auto)
  have g: "rx_m (RGroup 1 (rplus key_char)) (rx_m (RSeq quoted_value (RSeq (RStar rx_space) RDollar)) ?K) None (k @ ?rest) []
      = Some ([], [(1, k), (2, v)])"
    using k q by (auto simp: rplus_def intro!: star_m_greedy)
  have "rx_m LINE_RE ?K None (k @ ?rest) [] = Some ([], [(1, k), (2, v)])"
    using star_m_greedy [of rx_space "[]" "k @ ?rest"] g k key_char_no_space [OF k(2)]
    by (simp add: LINE_RE_def after_text_def)
  then show ?thesis
    by (simp add: line_pair_def rx_match_at_start_def rx_at_def setting_line_def group_def m_group_def Let_def)
qed

lemma line_pair_key:
  assumes "line_pair l = Some (k, v)"
  shows "plain_key k"
proof -
  let ?K = "\<lambda>prev' s' cs. Some (s', cs :: caps)"
  obtain s' cs where m: "rx_m LINE_RE ?K None l [] = Some (s', cs)" and k: "k = opt_or (map_of cs 1) []"
    using assms by (auto simp: line_pair_def rx_match_at_start_def rx_at_def group_def m_group_def Let_def split: option.splits)
  obtain xs ys pv where s1: "rx_m (RGroup 1 (rplus key_char)) (rx_m (RSeq quoted_value (RSeq (RStar rx_space) RDollar)) ?K) pv ys []
      = Some (s', cs)"
    using m star_m_split by (fastforce simp: LINE_RE_def)
  obtain c zs where ys: "ys = c # zs" "key_char c" using s1 by (auto simp: rplus_def split: list.splits if_splits)
  obtain k1 us pv2 where k1: "zs = k1 @ us" "list_all key_char k1"
    and s2: "rx_m (RSeq quoted_value (RSeq (RStar rx_space) RDollar)) ?K pv2 us [(1, c # k1)] = Some (s', cs)"
    using s1 ys by (auto simp: rplus_def dest!: star_m_split)
  have "map_of cs 1 = Some (c # k1)"
    using s2 by (auto simp: quoted_value_def dest!: star_m_split split: list.splits if_splits)
  then show ?thesis using k k1 ys by (simp add: plain_key_def)
qed

section \<open>Writing settings\<close>

definition good_values :: "(string, string) dict \<Rightarrow> bool" where
  "good_values vals =
     (distinct (map (\<lambda>(k, v). py_lower k) vals) \<and> list_all (\<lambda>(k, v). plain_key k \<and> one_line v) vals)"

definition sets_key :: "string \<Rightarrow> string \<Rightarrow> bool" where
  "sets_key lowered l = (\<exists>k v. line_pair l = Some (k, v) \<and> py_lower k = lowered)"

definition foreign :: "wanted \<Rightarrow> string \<Rightarrow> bool" where
  "foreign wanted l = (case line_pair l of None \<Rightarrow> True | Some (k, v) \<Rightarrow> dict_get wanted (py_lower k) = None)"

text \<open>The new lines of a text.\<close>

definition upsert_out :: "wanted \<Rightarrow> string list \<Rightarrow> string list" where
  "upsert_out wanted ls =
     map (\<lambda>l. fst (upsert_line wanted l)) ls @
     map (\<lambda>(lowered, key, val). setting_line key val)
       (filter (\<lambda>(lowered, kv). lowered \<notin> set (somes (map (\<lambda>l. fst (snd (upsert_line wanted l))) ls))) wanted)"

lemma somes_set: "x \<in> set (somes xs) \<longleftrightarrow> Some x \<in> set xs"
  by (force simp: somes_def)

lemma upsert_out: "fst (upsert_settings text vals) = unlines (upsert_out (wanted_of vals) (split_lines text))"
  by (simp add: upsert_settings_def upsert_out_def Let_def comp_def split_def)

lemma dict_update_distinct:
  "distinct (map fst (d @ upd)) \<Longrightarrow> dict_update d upd = d @ upd"
proof (induction upd arbitrary: d)
  case Nil
  then show ?case by (simp add: dict_update_def)
next
  case (Cons x upd)
  obtain k v where x: "x = (k, v)" by fastforce
  have "dict_set k v d = d @ [(k, v)]"
    using Cons.prems x by (intro dict_set_fresh) (auto simp: dict_has_def map_of_eq_None_iff)
  then have "dict_update d (x # upd) = dict_update (d @ [(k, v)]) upd" using x by (simp add: dict_update_def)
  also have "\<dots> = d @ x # upd" using Cons x by simp
  finally show ?case .
qed

lemma wanted_of_good:
  assumes "good_values vals"
  shows "wanted_of vals = map (\<lambda>(k, v). (py_lower k, (k, v))) vals"
    and "distinct (map fst (wanted_of vals))"
proof -
  have d: "distinct (map fst (map (\<lambda>(k, v). (py_lower k, (k, v))) vals))"
    using assms by (simp add: good_values_def comp_def split_def)
  show "wanted_of vals = map (\<lambda>(k, v). (py_lower k, (k, v))) vals"
    using dict_update_distinct [of "[]" "map (\<lambda>(k, v). (py_lower k, (k, v))) vals"] d by (simp add: wanted_of_def)
  then show "distinct (map fst (wanted_of vals))" using d by simp
qed

lemma wanted_get:
  assumes "good_values vals"
  shows "dict_get (wanted_of vals) low = Some (k, v) \<longleftrightarrow> (k, v) \<in> set vals \<and> low = py_lower k"
proof -
  have "dict_get (wanted_of vals) low = Some (k, v) \<longleftrightarrow> (low, k, v) \<in> set (wanted_of vals)"
    using wanted_of_good(2) [OF assms] by simp
  then show ?thesis unfolding wanted_of_good(1) [OF assms] by auto
qed

lemma good_valuesD: "good_values vals \<Longrightarrow> (k, v) \<in> set vals \<Longrightarrow> plain_key k \<and> one_line v"
  by (auto simp: good_values_def list_all_iff)

lemma plain_one_line: "plain_key k \<Longrightarrow> one_line k"
  by (auto simp: plain_key_def one_line_def list_all_iff key_char_no_break)

lemma plain_breaks [simp]: "\<not> is_linebreak (CHR '' '')" "\<not> is_linebreak (CHR ''='')" "\<not> is_linebreak DQ"
  by code_simp+

lemma setting_one_line: "plain_key k \<Longrightarrow> one_line v \<Longrightarrow> one_line (setting_line k v)"
  by (simp add: setting_line_def plain_one_line)

text \<open>What one line becomes: it stays, or it carries the wanted val under its own spelling.\<close>

lemma upsert_line_cases:
  assumes "good_values vals"
  obtains "foreign (wanted_of vals) l" "upsert_line (wanted_of vals) l = (l, None, None)"
  | k key val where "\<not> foreign (wanted_of vals) l" "(key, val) \<in> set vals" "py_lower k = py_lower key" "plain_key k"
      "fst (snd (upsert_line (wanted_of vals) l)) = Some (py_lower key)"
      "line_pair (fst (upsert_line (wanted_of vals) l)) = Some (k, val)"
      "one_line l \<Longrightarrow> one_line (fst (upsert_line (wanted_of vals) l))"
proof (cases "foreign (wanted_of vals) l")
  case True
  then have "upsert_line (wanted_of vals) l = (l, None, None)"
    by (auto simp: foreign_def upsert_line_def split: option.splits)
  then show ?thesis using True that(1) by blast
next
  case False
  then obtain k v key val where kv: "line_pair l = Some (k, v)" "dict_get (wanted_of vals) (py_lower k) = Some (key, val)"
    by (auto simp: foreign_def split: option.splits)
  have w: "(key, val) \<in> set vals" "py_lower k = py_lower key" using kv(2) wanted_get [OF assms] by auto
  have pk: "plain_key k" by (rule line_pair_key [OF kv(1)])
  have ov: "one_line val" using good_valuesD [OF assms w(1)] by simp
  show ?thesis
  proof (rule that(2) [OF False w pk])
    show "fst (snd (upsert_line (wanted_of vals) l)) = Some (py_lower key)" using kv by (simp add: upsert_line_def)
    show "line_pair (fst (upsert_line (wanted_of vals) l)) = Some (k, val)"
      using kv line_pair_written [OF pk ov] by (simp add: upsert_line_def)
    show "one_line (fst (upsert_line (wanted_of vals) l))" if "one_line l"
      using kv that setting_one_line [OF pk ov] by (simp add: upsert_line_def)
  qed
qed

text \<open>Every line of the result is settled: writing again leaves it.\<close>

lemma settled_line:
  assumes "good_values vals" "line_pair l = Some (k, val)" "(key, val) \<in> set vals" "py_lower k = py_lower key"
  shows "upsert_line (wanted_of vals) l = (l, Some (py_lower key), None)"
proof -
  have "dict_get (wanted_of vals) (py_lower k) = Some (key, val)"
    using wanted_get [OF assms(1)] assms by simp
  then show ?thesis using assms by (simp add: upsert_line_def)
qed

lemma upsert_out_line:
  assumes "good_values vals" "l \<in> set (upsert_out (wanted_of vals) ls)"
  obtains "foreign (wanted_of vals) l" "l \<in> set ls"
  | k key val where "line_pair l = Some (k, val)" "(key, val) \<in> set vals" "py_lower k = py_lower key"
      "\<forall>x \<in> set ls. one_line x \<Longrightarrow> one_line l"
proof -
  from assms(2) consider (old) x where "x \<in> set ls" "l = fst (upsert_line (wanted_of vals) x)"
    | (new) key val where "(py_lower key, key, val) \<in> set (wanted_of vals)" "l = setting_line key val"
    using wanted_of_good(1) [OF assms(1)] unfolding upsert_out_def by fastforce
  then show ?thesis
  proof cases
    case old
    show ?thesis
    proof (rule upsert_line_cases [OF assms(1), of x])
      assume "foreign (wanted_of vals) x" "upsert_line (wanted_of vals) x = (x, None, None)"
      then show thesis using old that(1) by simp
    next
      fix k key val
      assume x: "(key, val) \<in> set vals" "py_lower k = py_lower key"
        "line_pair (fst (upsert_line (wanted_of vals) x)) = Some (k, val)"
        "one_line x \<Longrightarrow> one_line (fst (upsert_line (wanted_of vals) x))"
      show thesis by (rule that(2) [of k val key]) (use x old in auto)
    qed
  next
    case new
    then have kv: "(key, val) \<in> set vals" using wanted_of_good(1) [OF assms(1)] by auto
    note g = good_valuesD [OF assms(1) kv]
    show ?thesis
      by (rule that(2) [of key val key]) (use new kv g line_pair_written setting_one_line in auto)
  qed
qed

lemma upsert_out_clean:
  assumes "good_values vals" "\<forall>x \<in> set ls. one_line x"
  shows "\<forall>l \<in> set (upsert_out (wanted_of vals) ls). one_line l"
proof
  fix l assume "l \<in> set (upsert_out (wanted_of vals) ls)"
  then show "one_line l" by (rule upsert_out_line [OF assms(1)]) (use assms(2) in auto)
qed

lemma upsert_out_ne: "vals \<noteq> [] \<Longrightarrow> good_values vals \<Longrightarrow> upsert_out (wanted_of vals) ls \<noteq> []"
  using wanted_of_good(1) [of vals] by (cases ls) (auto simp: upsert_out_def somes_def)

lemma upsert_lines:
  assumes "good_values vals" "vals \<noteq> []"
  shows "split_lines (fst (upsert_settings text vals)) = upsert_out (wanted_of vals) (split_lines text)"
  unfolding upsert_out
  by (rule split_unlines [OF upsert_out_ne [OF assms(2,1)] upsert_out_clean [OF assms(1)]])
    (use split_lines_clean in blast)

text \<open>Every wanted key has a line in the result.\<close>

lemma upsert_out_has:
  assumes "good_values vals" "(key, val) \<in> set vals"
  shows "\<exists>l \<in> set (upsert_out (wanted_of vals) ls). \<exists>k. line_pair l = Some (k, val) \<and> py_lower k = py_lower key"
proof (cases "py_lower key \<in> set (somes (map (\<lambda>l. fst (snd (upsert_line (wanted_of vals) l))) ls))")
  case True
  then obtain x where x: "x \<in> set ls" "fst (snd (upsert_line (wanted_of vals) x)) = Some (py_lower key)"
    by (auto simp: somes_set)
  show ?thesis
  proof (rule upsert_line_cases [OF assms(1), of x])
    assume "upsert_line (wanted_of vals) x = (x, None, None)"
    then show ?thesis using x(2) by simp
  next
    fix k key2 val2
    assume y: "(key2, val2) \<in> set vals" "py_lower k = py_lower key2"
      "fst (snd (upsert_line (wanted_of vals) x)) = Some (py_lower key2)"
      "line_pair (fst (upsert_line (wanted_of vals) x)) = Some (k, val2)"
    have same: "py_lower key2 = py_lower key" using x(2) y(3) by simp
    then have "val2 = val"
      using wanted_get [OF assms(1), of "py_lower key" key2 val2] wanted_get [OF assms(1), of "py_lower key" key val]
        y(1) assms(2) by simp
    then show ?thesis using x(1) y same by (auto simp: upsert_out_def)
  qed
next
  case False
  have "(py_lower key, key, val) \<in> set (wanted_of vals)"
    using wanted_of_good(1) [OF assms(1)] assms(2) by force
  then have "setting_line key val \<in> set (upsert_out (wanted_of vals) ls)"
    using False by (force simp: upsert_out_def)
  moreover have "line_pair (setting_line key val) = Some (key, val)"
    using good_valuesD [OF assms] line_pair_written by blast
  ultimately show ?thesis by blast
qed

lemma upsert_out_again:
  assumes "good_values vals" "l \<in> set (upsert_out (wanted_of vals) ls)"
  shows "fst (upsert_line (wanted_of vals) l) = l \<and> snd (snd (upsert_line (wanted_of vals) l)) = None"
proof (rule upsert_out_line [OF assms])
  assume "foreign (wanted_of vals) l"
  then show ?thesis by (auto simp: foreign_def upsert_line_def split: option.splits)
next
  fix k key val
  assume "line_pair l = Some (k, val)" "(key, val) \<in> set vals" "py_lower k = py_lower key"
  then show ?thesis using settled_line [OF assms(1)] by simp
qed

lemma somes_nones: "(\<forall>x \<in> set xs. x = None) \<Longrightarrow> somes xs = []"
  by (auto simp: somes_def)

section \<open>Properties\<close>

text \<open>
  C13. Setting values in a vmx: every wanted key then has a line with its value, whatever the case of
  the key in the file, no line gives it another one, and the other lines are kept in order.
\<close>

theorem upsert_reads_back:
  assumes "good_values vals" and "vals \<noteq> []"
  shows "(\<forall>(key, val) \<in> set vals.
            (\<exists>l \<in> set (split_lines (fst (upsert_settings text vals))). \<exists>k.
               line_pair l = Some (k, val) \<and> py_lower k = py_lower key) \<and>
            (\<forall>l \<in> set (split_lines (fst (upsert_settings text vals))). \<forall>k v.
               line_pair l = Some (k, v) \<longrightarrow> py_lower k = py_lower key \<longrightarrow> v = val)) \<and>
         filter (foreign (wanted_of vals)) (split_lines (fst (upsert_settings text vals))) =
           filter (foreign (wanted_of vals)) (split_lines text)"
proof -
  let ?w = "wanted_of vals"
  have new: "\<not> foreign ?w l" if a: "l \<in> set (map (\<lambda>(lowered, key, v). setting_line key v) ws)" "set ws \<subseteq> set ?w" for l ws
  proof -
    obtain low key v where k: "(low, key, v) \<in> set ?w" "l = setting_line key v" using a by fastforce
    then have kv: "(key, v) \<in> set vals" using wanted_of_good(1) [OF assms(1)] by auto
    then have "line_pair l = Some (key, v)" using good_valuesD [OF assms(1) kv] line_pair_written k(2) by blast
    then show ?thesis using wanted_get [OF assms(1), of "py_lower key" key v] kv by (auto simp: foreign_def)
  qed
  have keep: "filter (foreign ?w) (map (\<lambda>l. fst (upsert_line ?w l)) ls) = filter (foreign ?w) ls" for ls
  proof (induction ls)
    case (Cons l ls)
    show ?case
    proof (rule upsert_line_cases [OF assms(1), of l])
      fix k key val
      assume c: "\<not> foreign ?w l" "(key, val) \<in> set vals" "py_lower k = py_lower key"
        "line_pair (fst (upsert_line ?w l)) = Some (k, val)"
      then have "\<not> foreign ?w (fst (upsert_line ?w l))"
        using wanted_get [OF assms(1), of "py_lower k" key val] by (simp add: foreign_def)
      then show ?thesis using c Cons by simp
    qed (use Cons in simp)
  qed simp
  have f: "filter (foreign ?w) (upsert_out ?w (split_lines text)) = filter (foreign ?w) (split_lines text)"
  proof -
    have "filter (foreign ?w) (map (\<lambda>(lowered, key, v). setting_line key v) (filter q ?w)) = []" for q
      using new [of _ "filter q ?w"] by (simp only: filter_empty_conv filter_is_subset) blast
    then show ?thesis by (simp add: upsert_out_def keep)
  qed
  have one: "v = val" if "(key, val) \<in> set vals" "l \<in> set (upsert_out ?w (split_lines text))"
    "line_pair l = Some (k, v)" "py_lower k = py_lower key" for key val l k v
  proof (rule upsert_out_line [OF assms(1) that(2)])
    assume "foreign ?w l"
    then show ?thesis using that wanted_get [OF assms(1), of "py_lower key" key val] by (simp add: foreign_def)
  next
    fix k2 key2 val2
    assume c: "line_pair l = Some (k2, val2)" "(key2, val2) \<in> set vals" "py_lower k2 = py_lower key2"
    have same: "val2 = v" "py_lower key = py_lower key2" using c(1,3) that(3,4) by simp_all
    have "dict_get ?w (py_lower key) = Some (key, val)" "dict_get ?w (py_lower key) = Some (key2, val2)"
      using wanted_get [OF assms(1)] that(1) c(2) same(2) by blast+
    then show ?thesis using same(1) by simp
  qed
  have each: "(\<exists>l \<in> set (upsert_out ?w (split_lines text)). \<exists>k. line_pair l = Some (k, val) \<and> py_lower k = py_lower key) \<and>
      (\<forall>l \<in> set (upsert_out ?w (split_lines text)). \<forall>k v. line_pair l = Some (k, v) \<longrightarrow> py_lower k = py_lower key \<longrightarrow> v = val)"
    if kv: "(key, val) \<in> set vals" for key val
    by (intro conjI ballI allI impI upsert_out_has [OF assms(1) kv]) (rule one [OF kv])
  show ?thesis
    unfolding upsert_lines [OF assms] by (intro conjI f ballI, clarify) (rule each)
qed

definition sample_vmx :: string where
  "sample_vmx = ''MemSize = '' @ [DQ] @ ''2048'' @ [DQ, NL]"

lemma sample_values_good: "good_values [(''memsize'', ''4096'')]"
  by code_simp

lemma upsert_reads_back_witness:
  "\<exists>l \<in> set (split_lines (fst (upsert_settings sample_vmx [(''memsize'', ''4096'')]))). \<exists>k.
     line_pair l = Some (k, ''4096'') \<and> py_lower k = py_lower ''memsize''"
  using bspec [OF conjunct1 [OF upsert_reads_back [OF sample_values_good, of sample_vmx]], of "(''memsize'', ''4096'')"]
  by simp

text \<open>
  Writing the same settings a second time changes nothing and reports no change.
\<close>

theorem upsert_idempotent:
  assumes "good_values vals" and "vals \<noteq> []"
  shows "upsert_settings (fst (upsert_settings text vals)) vals = (fst (upsert_settings text vals), [])"
proof -
  let ?w = "wanted_of vals"
  let ?out = "upsert_out ?w (split_lines text)"
  note again = upsert_out_again [OF assms(1)]
  have seen: "py_lower key \<in> set (somes (map (\<lambda>l. fst (snd (upsert_line ?w l))) ?out))" if kv: "(key, val) \<in> set vals" for key val
  proof -
    obtain l k where l: "l \<in> set ?out" "line_pair l = Some (k, val)" "py_lower k = py_lower key"
      using upsert_out_has [OF assms(1) kv, of "split_lines text"] by blast
    then have "fst (snd (upsert_line ?w l)) = Some (py_lower key)" using settled_line [OF assms(1) l(2) kv l(3)] by simp
    then show ?thesis using l(1) by (force simp: somes_set)
  qed
  have none: "filter (\<lambda>(lowered, kv). lowered \<notin> set (somes (map (\<lambda>l. fst (snd (upsert_line ?w l))) ?out))) ?w = []"
    using seen wanted_of_good(1) [OF assms(1)] by (auto simp: filter_empty_conv)
  have same: "map (\<lambda>l. fst (upsert_line ?w l)) ?out = ?out" using again by (simp add: map_idI)
  have changed: "somes (map (\<lambda>l. snd (snd (upsert_line ?w l))) ?out) = []" using again by (auto intro!: somes_nones)
  have eq: "upsert_out ?w ls = map (\<lambda>l. fst (upsert_line ?w l)) ls"
    if "filter (\<lambda>(lowered, kv). lowered \<notin> set (somes (map (\<lambda>l. fst (snd (upsert_line ?w l))) ls))) ?w = []" for ls
    using that by (simp add: upsert_out_def)
  have "upsert_out ?w ?out = ?out" using eq [OF none] same by simp
  moreover have "snd (upsert_settings (fst (upsert_settings text vals)) vals) = []"
    using none changed upsert_lines [OF assms, of "text"] by (simp add: upsert_settings_def Let_def comp_def split_def)
  ultimately show ?thesis
    using upsert_out [of "fst (upsert_settings text vals)" "vals"] upsert_lines [OF assms, of "text"]
    by (simp add: prod_eq_iff upsert_out)
qed

lemma upsert_idempotent_witness:
  "upsert_settings (fst (upsert_settings sample_vmx [(''memsize'', ''4096'')])) [(''memsize'', ''4096'')] =
     (fst (upsert_settings sample_vmx [(''memsize'', ''4096'')]), [])"
  using upsert_idempotent [OF sample_values_good, of sample_vmx] by simp

text \<open>
  Dropping the saved state removes exactly the lines that set it, so the next reading of the text
  finds none of them and the other lines in their order.
\<close>

theorem drop_saved_state_exact:
  "filter is_saved_line (split_lines (fst (drop_saved_state text))) = [] \<and>
   filter (\<lambda>l. l \<noteq> [] \<and> \<not> is_saved_line l) (split_lines (fst (drop_saved_state text))) =
     filter (\<lambda>l. l \<noteq> [] \<and> \<not> is_saved_line l) (split_lines text) \<and>
   length (snd (drop_saved_state text)) = length (filter is_saved_line (split_lines text))"
proof -
  let ?kept = "filter (\<lambda>l. \<not> is_saved_line l) (split_lines text)"
  have nil: "\<not> is_saved_line []" by code_simp
  have ls: "split_lines (unlines ?kept) = (if ?kept = [] then [[]] else ?kept)"
    using split_unlines [of ?kept] split_lines_clean by (auto simp: unlines_def split_lines_def)
  show ?thesis
    using nil by (auto simp: drop_saved_state_def Let_def ls filter_empty_conv intro!: filter_cong)
qed

end
