(* ===== verification/Hypervisor.thy ===== *)
theory Hypervisor
  imports Config State Vmx
begin

text \<open>
  \<open>hypervisor/base.py\<close>: the snapshot forest and the interface every backend implements, a record of
  operations over the environment. The locale states what the callers of a backend's power queries
  rely on; the VMware adapter interprets it.
\<close>

section \<open>Snapshots\<close>

datatype snapshot_node = Snapshot (sn_name: string) (sn_children: "snapshot_node list")

record snapshot_tree =
  st_roots :: "snapshot_node list"
  st_current :: "string option"

fun node_dict :: "snapshot_node \<Rightarrow> json" where
  "node_dict (Snapshot name children) =
     JDict [(''name'', JStr name), (''children'', JList (map node_dict children))]"

definition tree_dict :: "snapshot_tree \<Rightarrow> json" where
  "tree_dict t = JDict [(''tree'', JList (map node_dict (st_roots t))), (''current'', jopt (st_current t))]"

text \<open>\<open>SnapshotTree.names\<close>: the walk in tree order.\<close>

fun node_names :: "snapshot_node \<Rightarrow> string list" where
  "node_names (Snapshot name children) = name # concat (map node_names children)"

definition snapshot_names :: "snapshot_node list \<Rightarrow> string list" where
  "snapshot_names roots = concat (map node_names roots)"

lemma snapshot_names_simps [simp]:
  "snapshot_names [] = []" "snapshot_names (n # ns) = node_names n @ snapshot_names ns"
  "snapshot_names (a @ b) = snapshot_names a @ snapshot_names b"
  by (simp_all add: snapshot_names_def)

section \<open>The interface\<close>

record file_stat =
  fs_name :: string
  fs_size :: int
  fs_modified :: "string option"
  fs_is_dir :: bool

record 'e hypervisor =
  hv_power_state :: "vm_config \<Rightarrow> ('e, power_state) app"
  hv_power_states :: "vm_config list \<Rightarrow> ('e, (string, power_state) dict) app"
  hv_host_cpu :: "vm_config \<Rightarrow> ('e, int option) app"
  hv_start :: "vm_config \<Rightarrow> bool \<Rightarrow> ('e, unit) app"
  hv_stop :: "vm_config \<Rightarrow> bool \<Rightarrow> ('e, unit) app"
  hv_reset :: "vm_config \<Rightarrow> bool \<Rightarrow> ('e, unit) app"
  hv_suspend :: "vm_config \<Rightarrow> ('e, unit) app"
  hv_snapshot_take :: "vm_config \<Rightarrow> string \<Rightarrow> ('e, unit) app"
  hv_snapshot_list :: "vm_config \<Rightarrow> ('e, snapshot_tree) app"
  hv_snapshot_revert :: "vm_config \<Rightarrow> string \<Rightarrow> ('e, unit) app"
  hv_snapshot_delete :: "vm_config \<Rightarrow> string \<Rightarrow> bool \<Rightarrow> ('e, unit) app"
  hv_guest_ip :: "vm_config \<Rightarrow> int \<Rightarrow> ('e, string) app"
  hv_screenshot :: "vm_config \<Rightarrow> string \<Rightarrow> ('e, string) app"
  hv_copy_to_guest :: "vm_config \<Rightarrow> string \<Rightarrow> string \<Rightarrow> ('e, unit) app"
  hv_copy_from_guest :: "vm_config \<Rightarrow> string \<Rightarrow> string \<Rightarrow> ('e, unit) app"
  hv_run_in_guest :: "vm_config \<Rightarrow> string \<Rightarrow> string list \<Rightarrow> ('e, unit) app"
  hv_ensure_serial_pipe :: "vm_config \<Rightarrow> string \<Rightarrow> ('e, bool) app"
  hv_vnc_endpoint :: "vm_config \<Rightarrow> 'e \<Rightarrow> (string \<times> int) option"
  hv_ensure_vnc :: "vm_config \<Rightarrow> int \<Rightarrow> ('e, bool \<times> int) app"
  hv_guest_stat :: "vm_config \<Rightarrow> string \<Rightarrow> ('e, file_stat option) app"
  hv_guest_list :: "vm_config \<Rightarrow> string \<Rightarrow> ('e, file_stat list option) app"
  hv_guest_delete :: "vm_config \<Rightarrow> string \<Rightarrow> bool \<Rightarrow> ('e, bool) app"
  hv_guest_sha256 :: "vm_config \<Rightarrow> string list \<Rightarrow> ('e, (string, string) dict) app"
  hv_discard_saved_state :: "vm_config \<Rightarrow> ('e, string \<times> string list) app"
  hv_kill :: "vm_config \<Rightarrow> ('e, (string, json) dict) app"
  hv_hardware :: "vm_config \<Rightarrow> ('e, hardware) app"
  hv_set_hardware :: "vm_config \<Rightarrow> hw_changes \<Rightarrow> ('e, string list \<times> hardware) app"

text \<open>\<open>HypervisorAdapter.power_states\<close> of a backend that does not override it.\<close>

definition base_power_states ::
  "(vm_config \<Rightarrow> ('e, power_state) app) \<Rightarrow> vm_config list \<Rightarrow> ('e, (string, power_state) dict) app" where
  "base_power_states power_state vms =
     bindE (mapE power_state vms) (\<lambda>ps. ret (dict_update [] (zip (map vc_name vms) ps)))"

section \<open>What the callers of power queries rely on\<close>

text \<open>A query of several machines answers for each of them, by name, and a query of one machine is
  the same query.\<close>

locale power_source =
  fixes power_state :: "vm_config \<Rightarrow> ('e, power_state) app"
    and power_states :: "vm_config list \<Rightarrow> ('e, (string, power_state) dict) app"
  assumes answers_all: "power_states vms e = (Inr d, e') \<Longrightarrow> dom (dict_get d) = vc_name ` set vms"
    and one_is_all: "power_state vm e =
       (case power_states [vm] e of (Inl x, e') \<Rightarrow> (Inl x, e') | (Inr d, e') \<Rightarrow> (Inr (the (dict_get d (vc_name vm))), e'))"
begin

lemma each_answered: "power_states vms e = (Inr d, e') \<Longrightarrow> vm \<in> set vms \<Longrightarrow> \<exists>p. dict_get d (vc_name vm) = Some p"
  using answers_all by fastforce

lemma only_asked: "power_states vms e = (Inr d, e') \<Longrightarrow> dict_get d n = Some p \<Longrightarrow> n \<in> vc_name ` set vms"
  using answers_all by fastforce

lemma one_answer: "power_state vm e = (Inr p, e') \<longleftrightarrow> (\<exists>d. power_states [vm] e = (Inr d, e') \<and> dict_get d (vc_name vm) = Some p)"
  using each_answered [of "[vm]" e _ _ vm] by (fastforce simp: one_is_all split: prod.splits sum.splits)

end

end
