(* ===== verification/Vmware_Text.thy ===== *)
theory Vmware_Text
  imports Hypervisor "HOL-Library.Word"
begin

text \<open>
  The text side of \<open>hypervisor/vmware.py\<close>: masking of passwords in logged command lines, the
  classification of vmrun's errors, the snapshot tree and its current node, the lines the guest scripts
  print, and the VNC port of a machine.
\<close>

definition SECRET_FLAGS :: "string list" where
  "SECRET_FLAGS = [''-vp'', ''-gp'']"

fun mask_items :: "bool \<Rightarrow> string list \<Rightarrow> string list" where
  "mask_items hide [] = []"
| "mask_items hide (item # items) = (if hide then ''***'' else item) # mask_items (item \<in> set SECRET_FLAGS) items"

definition mask_argv :: "string list \<Rightarrow> string" where
  "mask_argv argv = join_with '' '' (mask_items False argv)"

text \<open>The reason tag of a failed call; the empty text is no reason.\<close>

definition classify_vmrun_error :: "string \<Rightarrow> string" where
  "classify_vmrun_error output =
     (let low = py_lower output
      in if contains ''encrypted virtual machine failed'' low then REASON_ENCRYPTED_LIVE
         else if contains ''a password is required'' low then REASON_PASSWORD_REQUIRED
         else if contains ''cannot read the virtual machine configuration file'' low then REASON_CONFIG_UNREADABLE
         else if contains ''the snapshot does not exist'' low then REASON_SNAPSHOT_MISSING
         else if contains ''name already exists'' low then REASON_SNAPSHOT_EXISTS
         else if list_ex (\<lambda>s. contains s low)
                   [''used by another'', ''being used'', ''in use'', ''access is denied'', ''access rights'']
         then REASON_GUEST_ACCESS
         else [])"

section \<open>The snapshot tree\<close>

text \<open>The lines that name a snapshot, with the width of their indentation.\<close>

definition blank_or_tab :: "char \<Rightarrow> bool" where
  "blank_or_tab c = (c = TAB \<or> c = CHR '' '')"

definition snapshot_entries :: "string \<Rightarrow> (nat \<times> string) list" where
  "snapshot_entries output =
     map (\<lambda>raw. let stripped = lstrip_by blank_or_tab raw
                in (length raw - length stripped, rstrip_by is_space stripped))
       (filter (\<lambda>raw. \<not> (py_strip raw = [] \<or> starts_with ''total snapshots'' (py_lower raw))) (split_lines output))"

text \<open>The stack holds the open nodes, innermost first, each with the children it has so far; a node
  joins its parent, or the roots, when it leaves the stack.\<close>

type_synonym frame = "nat \<times> string \<times> snapshot_node list"
type_synonym forest = "frame list \<times> snapshot_node list"

fun add_node :: "snapshot_node \<Rightarrow> forest \<Rightarrow> forest" where
  "add_node node ([], roots) = ([], roots @ [node])"
| "add_node node ((i, n, cs) # stack, roots) = ((i, n, cs @ [node]) # stack, roots)"

lemma add_node_length [simp]: "length (fst (add_node node f)) = length (fst f)"
  by (cases "(node, f)" rule: add_node.cases) simp_all

function pop_from :: "nat \<Rightarrow> forest \<Rightarrow> forest" where
  "pop_from indent ([], roots) = ([], roots)"
| "pop_from indent ((i, n, cs) # stack, roots) =
     (if indent \<le> i then pop_from indent (add_node (Snapshot n cs) (stack, roots))
      else ((i, n, cs) # stack, roots))"
  by pat_completeness auto
termination by (relation "measure (\<lambda>(indent, f). length (fst f))") auto

definition push_entry :: "forest \<Rightarrow> nat \<times> string \<Rightarrow> forest" where
  "push_entry f e = (case e of (indent, name) \<Rightarrow> case pop_from indent f of (stack, roots) \<Rightarrow> ((indent, name, []) # stack, roots))"

definition parse_snapshot_tree :: "string \<Rightarrow> snapshot_node list" where
  "parse_snapshot_tree output = snd (pop_from 0 (foldl push_entry ([], []) (snapshot_entries output)))"

text \<open>The current snapshot of a vmsd file.\<close>

definition VMSD_RE :: rx where
  "VMSD_RE =
     RSeq RBegin (RSeq (RStar rx_space)
       (RSeq (RGroup 1 (rplus (\<lambda>c. is_word c \<or> c = CHR ''.''))) (RSeq quoted_value (RSeq (RStar rx_space) RDollar))))"

definition vmsd_pairs :: "string \<Rightarrow> (string \<times> string) list" where
  "vmsd_pairs text =
     map (\<lambda>m. (group m 1, group m 2))
       (somes (map (rx_match_at_start VMSD_RE) (split_lines text)))"

definition numbered :: "string \<Rightarrow> string \<Rightarrow> bool" where
  "numbered ending key = (key \<noteq> ''snapshot.current'' \<and> ends_with ending key \<and> starts_with ''snapshot'' key)"

definition cut_end :: "string \<Rightarrow> string \<Rightarrow> string" where
  "cut_end ending key = take (length key - length ending) key"

definition parse_current_snapshot :: "string \<Rightarrow> string option" where
  "parse_current_snapshot text =
     (let pairs = vmsd_pairs text;
          current = dict_get (dict_update [] pairs) ''snapshot.current'';
          uids = dict_update [] (map (\<lambda>(k, v). (cut_end ''.uid'' k, v)) (filter (\<lambda>(k, v). numbered ''.uid'' k) pairs));
          names = dict_update [] (map (\<lambda>(k, v). (cut_end ''.displayName'' k, v))
            (filter (\<lambda>(k, v). numbered ''.displayName'' k \<and> \<not> numbered ''.uid'' k) pairs))
      in case current of
           None \<Rightarrow> None
         | Some cur \<Rightarrow>
             (case filter (\<lambda>(p, uid). uid = cur) uids of
                [] \<Rightarrow> None
              | (p, uid) # _ \<Rightarrow> dict_get names p))"

section \<open>Lines from the guest\<close>

definition cut_at :: "char \<Rightarrow> string \<Rightarrow> string \<times> string" where
  "cut_at c s = (case partition_at [c] s of (a, found, b) \<Rightarrow> (a, b))"

definition stat_fields :: "string \<Rightarrow> string \<Rightarrow> string \<Rightarrow> string \<Rightarrow> file_stat option" where
  "stat_fields name sz mtime is_dir =
     map_option (\<lambda>n. \<lparr>fs_name = name, fs_size = n, fs_modified = (if mtime = [] then None else Some mtime),
                      fs_is_dir = (py_lower (py_strip is_dir) = ''true'')\<rparr>) (py_int sz)"

definition parse_guest_stat :: "string \<Rightarrow> file_stat option" where
  "parse_guest_stat line =
     (if line = [] then None
      else case cut_at (CHR ''|'') line of (sz, rest) \<Rightarrow>
             (case cut_at (CHR ''|'') rest of (mtime, is_dir) \<Rightarrow> stat_fields [] sz mtime is_dir))"

definition parse_guest_entry :: "string \<Rightarrow> file_stat option" where
  "parse_guest_entry line =
     (case split_char (CHR ''|'') line of
        [name, sz, mtime, is_dir] \<Rightarrow> stat_fields name sz mtime is_dir
      | _ \<Rightarrow> None)"

definition norm_guest :: "string \<Rightarrow> string" where
  "norm_guest path =
     py_lower (rstrip_by (\<lambda>c. c = BSL) (map (\<lambda>c. if c = CHR ''/'' then BSL else c) path))"

text \<open>\<open>zlib.crc32\<close>: the reflected polynomial EDB88320, bit by bit.\<close>

definition crc_bit :: "32 word \<Rightarrow> 32 word" where
  "crc_bit c = (if odd (uint c) then xor (drop_bit 1 c) 0xEDB88320 else drop_bit 1 c)"

definition crc_byte :: "32 word \<Rightarrow> char \<Rightarrow> 32 word" where
  "crc_byte c b = (crc_bit ^^ 8) (xor c (of_nat (ord b)))"

definition crc32 :: "string \<Rightarrow> 32 word" where
  "crc32 s = not (foldl crc_byte (not 0) s)"

definition default_vnc_port :: "string \<Rightarrow> int" where
  "default_vnc_port name = 5900 + uint (crc32 name) mod 64"

section \<open>Facts\<close>

lemma mask_nth:
  "i < length argv \<Longrightarrow> mask_items h argv ! i =
     (if (case i of 0 \<Rightarrow> h | Suc j \<Rightarrow> argv ! j \<in> set SECRET_FLAGS) then ''***'' else argv ! i)"
  by (induction argv arbitrary: h i) (auto simp: nth_Cons split: nat.splits)

lemma mask_length [simp]: "length (mask_items h argv) = length argv"
  by (induction argv arbitrary: h) simp_all

text \<open>The names of a forest under construction, in tree order.\<close>

fun frames_names :: "frame list \<Rightarrow> string list" where
  "frames_names [] = []"
| "frames_names ((i, n, cs) # stack) = frames_names stack @ n # snapshot_names cs"

definition forest_names :: "forest \<Rightarrow> string list" where
  "forest_names f = snapshot_names (snd f) @ frames_names (fst f)"

lemma add_node_names: "forest_names (add_node node f) = forest_names f @ node_names node"
  by (cases "(node, f)" rule: add_node.cases) (simp_all add: forest_names_def)

lemma pop_from_names: "forest_names (pop_from indent f) = forest_names f"
proof (induction indent f rule: pop_from.induct)
  case (2 indent i n cs stack roots)
  then show ?case
    by (simp add: add_node_names) (simp add: forest_names_def snapshot_names_def)
qed simp

lemma push_entry_names: "forest_names (push_entry f e) = forest_names f @ [snd e]"
  using pop_from_names [of "fst e" f]
  by (cases e; cases "pop_from (fst e) f") (simp add: push_entry_def forest_names_def)

lemma fold_push_names: "forest_names (foldl push_entry f es) = forest_names f @ map snd es"
  by (induction es arbitrary: f) (simp_all add: push_entry_names)

lemma pop_all: "fst (pop_from 0 f) = []"
  by (induction "0 :: nat" f rule: pop_from.induct) simp_all

section \<open>Properties\<close>


text \<open>
  The console ports stay in the range 5900 to 5963 that is reserved for them.
\<close>

theorem vnc_port_range: "5900 \<le> default_vnc_port name \<and> default_vnc_port name \<le> 5963"
proof -
  have "0 \<le> uint (crc32 name) mod 64" "uint (crc32 name) mod 64 < 64" by simp_all
  then show ?thesis unfolding default_vnc_port_def by linarith
qed

end
