(* ===== verification/Vmware.thy ===== *)
theory Vmware
  imports Vmware_Text "HOL-Library.List_Lexorder" "HOL-Library.Char_ord"
begin

text \<open>
  \<open>VmwareAdapter\<close> of \<open>hypervisor/vmware.py\<close>: the vmrun calls with their retries and error reasons,
  the power states, the edits of the vmx and the end of a machine's processes. The environment is a record of
  what the adapter calls: the runner, the clock, files and host processes. Times are milliseconds.
\<close>

section \<open>Environment\<close>

record host_proc =
  hp_pid :: nat
  hp_name :: string
  hp_cmdline :: "string list"

datatype kill_outcome = Kill_Done | Kill_Denied | Kill_Gone

record 'e vmware_env =
  ve_vmrun :: string
  ve_retries :: nat
  ve_default_timeout :: int
  ve_vars :: env_vars
  ve_run :: "string list \<Rightarrow> int \<Rightarrow> ('e, int \<times> string) app"
  ve_sleep :: "int \<Rightarrow> 'e \<Rightarrow> 'e"
  ve_read :: "string \<Rightarrow> 'e \<Rightarrow> string option"
  ve_write :: "string \<Rightarrow> string \<Rightarrow> 'e \<Rightarrow> 'e"
  ve_exists :: "string \<Rightarrow> 'e \<Rightarrow> bool"
  ve_resolve :: "string \<Rightarrow> string option"
  ve_beside :: "string \<Rightarrow> string \<Rightarrow> 'e \<Rightarrow> bool"
  ve_procs :: "'e \<Rightarrow> host_proc list"
  ve_kill :: "nat \<Rightarrow> 'e \<Rightarrow> kill_outcome \<times> 'e"
  ve_cpu :: "nat \<Rightarrow> 'e \<Rightarrow> int option \<times> 'e"
  ve_wait_gone :: "nat \<Rightarrow> 'e \<Rightarrow> 'e"
  ve_locks :: "string \<Rightarrow> 'e \<Rightarrow> (string \<times> bool) list"
  ve_remove :: "string \<Rightarrow> 'e \<Rightarrow> 'e"
  ve_token :: "'e \<Rightarrow> string \<times> 'e"
  ve_temp :: "'e \<Rightarrow> string \<times> 'e"

definition sleep_env :: "('e, 'x) vmware_env_scheme \<Rightarrow> int \<Rightarrow> ('e, unit) app" where
  "sleep_env V d e = (Inr (), ve_sleep V d e)"

text \<open>\<open>Path.read_text\<close> and \<open>write_text\<close>; an unreadable file is an OSError.\<close>

definition read_env :: "('e, 'x) vmware_env_scheme \<Rightarrow> string \<Rightarrow> ('e, string) app" where
  "read_env V path e = (case ve_read V path e of Some t \<Rightarrow> (Inr t, e) | None \<Rightarrow> (Inl (Exn ''OSError''), e))"

definition write_env :: "('e, 'x) vmware_env_scheme \<Rightarrow> string \<Rightarrow> string \<Rightarrow> ('e, unit) app" where
  "write_env V path text e = (Inr (), ve_write V path text e)"

definition norm_path :: "('e, 'x) vmware_env_scheme \<Rightarrow> string \<Rightarrow> string" where
  "norm_path V path = py_lower (opt_or (ve_resolve V path) path)"

section \<open>Running vmrun\<close>

definition vmrun_argv ::
  "('e, 'x) vmware_env_scheme \<Rightarrow> string \<Rightarrow> vm_config option \<Rightarrow> string list \<Rightarrow> bool \<Rightarrow> string list" where
  "vmrun_argv V command vm args guest_auth =
     [ve_vmrun V, ''-T'', ''ws''] @
     (case vm of
        None \<Rightarrow> []
      | Some c \<Rightarrow> let enc = resolve_encryption_password (ve_vars V) c in if enc \<noteq> [] then [''-vp'', enc] else []) @
     (case vm of
        None \<Rightarrow> []
      | Some c \<Rightarrow>
          if guest_auth then [''-gu'', g_user (vc_guest c), ''-gp'', resolve_password (ve_vars V) (vc_guest c)] else []) @
     [command] @ (case vm of None \<Rightarrow> [] | Some c \<Rightarrow> [vc_vmx c]) @ args"

text \<open>The attempts: \<open>k\<close> counts the ones made. The result is the output, or the last failure.\<close>

primrec vmrun_attempts ::
  "('e, 'x) vmware_env_scheme \<Rightarrow> string list \<Rightarrow> int \<Rightarrow> nat \<Rightarrow> nat \<Rightarrow> int \<times> string \<Rightarrow> ('e, string + int \<times> string) app" where
  "vmrun_attempts V argv timeout k 0 final = ret (Inr final)"
| "vmrun_attempts V argv timeout k (Suc n) final =
     bindE (catch_nt (ve_run V argv timeout)
              (\<lambda>exc. if err_code exc \<noteq> TIMEOUT then raise (Nt exc) else throw TIMEOUT) ret)
       (\<lambda>(code, out).
          if code = 0 then ret (Inl out)
          else thenE (if 0 < n then sleep_env V (500 * 2 ^ k) else ret ())
                 (vmrun_attempts V argv timeout (Suc k) n (code, py_strip out)))"

definition vmrun_error :: "string \<Rightarrow> int \<times> string \<Rightarrow> nt_error" where
  "vmrun_error command failure =
     (case failure of
        (code, said) \<Rightarrow>
          let reason = classify_vmrun_error said
          in (nt_err_with BACKEND_ERROR (if reason \<noteq> [] then [(''reason'', JStr reason)] else []))
               \<lparr>err_message := ''vmrun '' @ command @ '' failed: '' @
                  (if said \<noteq> [] then said else ''exit code '' @ int_text code)\<rparr>)"

definition vmrun_exec ::
  "('e, 'x) vmware_env_scheme \<Rightarrow> string \<Rightarrow> vm_config option \<Rightarrow> string list \<Rightarrow> bool \<Rightarrow> int \<Rightarrow> bool \<Rightarrow> ('e, string) app" where
  "vmrun_exec V command vm args guest_auth timeout retry =
     bindE (vmrun_attempts V (vmrun_argv V command vm args guest_auth)
              (if timeout \<noteq> 0 then timeout else ve_default_timeout V) 0 (if retry then ve_retries V else 1) (0, []))
       (\<lambda>r. case r of Inl out \<Rightarrow> ret out | Inr failure \<Rightarrow> raise (Nt (vmrun_error command failure)))"

text \<open>A call whose output is not used.\<close>

definition vmrun_do ::
  "('e, 'x) vmware_env_scheme \<Rightarrow> string \<Rightarrow> vm_config \<Rightarrow> string list \<Rightarrow> bool \<Rightarrow> int \<Rightarrow> bool \<Rightarrow> ('e, unit) app" where
  "vmrun_do V command vm args guest_auth timeout retry =
     bindE (vmrun_exec V command (Some vm) args guest_auth timeout retry) (\<lambda>_. ret ())"

section \<open>Power\<close>

definition running_vmx_paths :: "('e, 'x) vmware_env_scheme \<Rightarrow> ('e, string list) app" where
  "running_vmx_paths V =
     bindE (vmrun_exec V ''list'' None [] False 30000 True)
       (\<lambda>out. ret (map (norm_path V)
          (filter (\<lambda>line. \<not> (line = [] \<or> starts_with ''total running vms'' (py_lower line)))
             (map py_strip (split_lines out)))))"

text \<open>\<open>Path.with_suffix\<close> on the vmx path.\<close>

definition with_suffix :: "string \<Rightarrow> string \<Rightarrow> string" where
  "with_suffix suffix p = take (length p - length (path_suffix p)) p @ suffix"

definition power_from :: "('e, 'x) vmware_env_scheme \<Rightarrow> vm_config \<Rightarrow> string list \<Rightarrow> 'e \<Rightarrow> power_state" where
  "power_from V vm running e =
     (if norm_path V (vc_vmx vm) \<in> set running then P_Running
      else if ve_exists V (with_suffix ''.vmss'' (vc_vmx vm)) e then P_Suspended
      else P_Off)"

definition vmware_power_states ::
  "('e, 'x) vmware_env_scheme \<Rightarrow> vm_config list \<Rightarrow> ('e, (string, power_state) dict) app" where
  "vmware_power_states V vms =
     bindE (running_vmx_paths V)
       (\<lambda>running e. (Inr (dict_update [] (map (\<lambda>vm. (vc_name vm, power_from V vm running e)) vms)), e))"

definition vmware_power_state :: "('e, 'x) vmware_env_scheme \<Rightarrow> vm_config \<Rightarrow> ('e, power_state) app" where
  "vmware_power_state V vm =
     bindE (vmware_power_states V [vm]) (\<lambda>d. ret (the (dict_get d (vc_name vm))))"

definition settings_of :: "('e, 'x) vmware_env_scheme \<Rightarrow> vm_config \<Rightarrow> 'e \<Rightarrow> (string, string) dict" where
  "settings_of V vm e = vmx_settings (ve_read V (vc_vmx vm) e)"

text \<open>A start that fails for no known reason while the vmx names a stale saved state says so.\<close>

definition vmware_start :: "('e, 'x) vmware_env_scheme \<Rightarrow> vm_config \<Rightarrow> bool \<Rightarrow> ('e, unit) app" where
  "vmware_start V vm gui =
     catch_nt (vmrun_do V ''start'' vm [if gui then ''gui'' else ''nogui''] False 120000 False)
       (\<lambda>exc e.
          if err_code exc \<noteq> BACKEND_ERROR \<or> reason exc \<noteq> [] then raise (Nt exc) e
          else if \<not> saved_state_is_stale (\<lambda>name. ve_beside V (vc_vmx vm) name e) (settings_of V vm e) then raise (Nt exc) e
          else raise (Nt ((nt_err_with BACKEND_ERROR
                 [(''reason'', JStr REASON_SAVED_STATE_STALE), (''saved_state'', JStr (saved_state (settings_of V vm e)))])
                   \<lparr>err_message := err_message exc\<rparr>)) e)
       ret"

definition vmware_discard_saved_state :: "('e, 'x) vmware_env_scheme \<Rightarrow> vm_config \<Rightarrow> ('e, string \<times> string list) app" where
  "vmware_discard_saved_state V vm e =
     (let before = saved_state (settings_of V vm e)
      in bindE (read_env V (vc_vmx vm))
           (\<lambda>content.
              case drop_saved_state content of
                (text, removed) \<Rightarrow>
                  thenE (if removed \<noteq> [] then write_env V (vc_vmx vm) text else ret ()) (ret (before, removed))) e)"

definition vmware_stop :: "('e, 'x) vmware_env_scheme \<Rightarrow> vm_config \<Rightarrow> bool \<Rightarrow> ('e, unit) app" where
  "vmware_stop V vm hard = vmrun_do V ''stop'' vm [if hard then ''hard'' else ''soft''] False 180000 False"

definition vmware_reset :: "('e, 'x) vmware_env_scheme \<Rightarrow> vm_config \<Rightarrow> bool \<Rightarrow> ('e, unit) app" where
  "vmware_reset V vm hard = vmrun_do V ''reset'' vm [if hard then ''hard'' else ''soft''] False 120000 False"

definition vmware_suspend :: "('e, 'x) vmware_env_scheme \<Rightarrow> vm_config \<Rightarrow> ('e, unit) app" where
  "vmware_suspend V vm = vmrun_do V ''suspend'' vm [''hard''] False 180000 False"

section \<open>Snapshots\<close>

definition vmware_snapshot_take :: "('e, 'x) vmware_env_scheme \<Rightarrow> vm_config \<Rightarrow> string \<Rightarrow> ('e, unit) app" where
  "vmware_snapshot_take V vm name = vmrun_do V ''snapshot'' vm [name] False 600000 False"

definition vmware_snapshot_list :: "('e, 'x) vmware_env_scheme \<Rightarrow> vm_config \<Rightarrow> ('e, snapshot_tree) app" where
  "vmware_snapshot_list V vm =
     bindE (vmrun_exec V ''listSnapshots'' (Some vm) [''showTree''] False 30000 True)
       (\<lambda>out e.
          let vmsd = with_suffix ''.vmsd'' (vc_vmx vm);
              current = (if ve_exists V vmsd e
                         then (case ve_read V vmsd e of None \<Rightarrow> None | Some t \<Rightarrow> parse_current_snapshot t)
                         else None)
          in (Inr \<lparr>st_roots = parse_snapshot_tree out, st_current = current\<rparr>, e))"

definition vmware_snapshot_revert :: "('e, 'x) vmware_env_scheme \<Rightarrow> vm_config \<Rightarrow> string \<Rightarrow> ('e, unit) app" where
  "vmware_snapshot_revert V vm name = vmrun_do V ''revertToSnapshot'' vm [name] False 600000 True"

definition vmware_snapshot_delete :: "('e, 'x) vmware_env_scheme \<Rightarrow> vm_config \<Rightarrow> string \<Rightarrow> bool \<Rightarrow> ('e, unit) app" where
  "vmware_snapshot_delete V vm name children =
     vmrun_do V ''deleteSnapshot'' vm ([name] @ (if children then [''andDeleteChildren''] else [])) False 600000 False"

section \<open>The guest through its tools\<close>

definition IPV4_RE :: rx where
  "IPV4_RE =
     RSeq RBegin (RSeq (rplus is_digit) (RSeq (rlit ''.'') (RSeq (rplus is_digit) (RSeq (rlit ''.'')
       (RSeq (rplus is_digit) (RSeq (rlit ''.'') (RSeq (rplus is_digit) RDollar)))))))"

definition last_line :: "string \<Rightarrow> string" where
  "last_line out = (if py_strip out = [] then [] else py_strip (last (split_lines (py_strip out))))"

definition vmware_guest_ip :: "('e, 'x) vmware_env_scheme \<Rightarrow> vm_config \<Rightarrow> int \<Rightarrow> ('e, string) app" where
  "vmware_guest_ip V vm timeout =
     catch_nt (vmrun_exec V ''getGuestIPAddress'' (Some vm) [''-wait''] False timeout True)
       (\<lambda>exc. if err_code exc \<noteq> TIMEOUT then raise (Nt exc) else throw TIMEOUT)
       (\<lambda>out. let ip = last_line out
              in if rx_match_at_start IPV4_RE ip = None then throw BACKEND_ERROR else ret ip)"

text \<open>The frame's own error only gets another hint, so its code, message and extras are the call's.\<close>

definition vmware_screenshot :: "('e, 'x) vmware_env_scheme \<Rightarrow> vm_config \<Rightarrow> string \<Rightarrow> ('e, string) app" where
  "vmware_screenshot V vm out_path =
     thenE (vmrun_do V ''captureScreen'' vm [out_path] True 60000 False) (ret out_path)"

definition vmware_copy_to_guest :: "('e, 'x) vmware_env_scheme \<Rightarrow> vm_config \<Rightarrow> string \<Rightarrow> string \<Rightarrow> ('e, unit) app" where
  "vmware_copy_to_guest V vm local remote = vmrun_do V ''copyFileFromHostToGuest'' vm [local, remote] True 600000 False"

definition vmware_copy_from_guest :: "('e, 'x) vmware_env_scheme \<Rightarrow> vm_config \<Rightarrow> string \<Rightarrow> string \<Rightarrow> ('e, unit) app" where
  "vmware_copy_from_guest V vm remote local = vmrun_do V ''copyFileFromGuestToHost'' vm [remote, local] True 600000 False"

definition vmware_run_in_guest :: "('e, 'x) vmware_env_scheme \<Rightarrow> vm_config \<Rightarrow> string \<Rightarrow> string list \<Rightarrow> ('e, unit) app" where
  "vmware_run_in_guest V vm program args = vmrun_do V ''runProgramInGuest'' vm (''-noWait'' # program # args) True 60000 False"

section \<open>Editing the vmx\<close>

definition require_off :: "('e, 'x) vmware_env_scheme \<Rightarrow> vm_config \<Rightarrow> ('e, unit) app" where
  "require_off V vm =
     bindE (vmware_power_state V vm) (\<lambda>power. if power \<noteq> P_Off then throw VM_NOT_RUNNING else ret ())"

definition SERIAL_RE :: rx where
  "SERIAL_RE =
     RSeq RBegin (RSeq (RStar rx_space)
       (RSeq (RGroup 1 (RSeq (rlit ''serial0.'') (rplus (\<lambda>c. is_word c \<or> c = CHR ''.''))))
         (RSeq quoted_value (RSeq (RStar rx_space) RDollar))))"

definition serial_wanted :: "string \<Rightarrow> (string, string) dict" where
  "serial_wanted pipe =
     [(''serial0.present'', ''TRUE''), (''serial0.fileType'', ''pipe''), (''serial0.fileName'', pipe),
      (''serial0.pipe.endPoint'', ''server''), (''serial0.tryNoRxLoss'', ''TRUE''),
      (''serial0.yieldOnMsrRead'', ''TRUE''), (''serial0.startConnected'', ''TRUE'')]"

text \<open>Python compares dictionaries by content, not by order.\<close>

definition same_dict :: "(string, string) dict \<Rightarrow> (string, string) dict \<Rightarrow> bool" where
  "same_dict a b =
     (list_all (\<lambda>(k, v). dict_get b k = dict_get a k) a \<and> list_all (\<lambda>(k, v). dict_get a k = dict_get b k) b)"

definition serial_pair :: "string \<Rightarrow> (string \<times> string) option" where
  "serial_pair line = map_option (\<lambda>m. (group m 1, group m 2)) (rx_match_at_start SERIAL_RE line)"

definition setting_block :: "(string, string) dict \<Rightarrow> string list" where
  "setting_block vals = map (\<lambda>(k, v). setting_line k v) vals"

text \<open>The text with the serial port of a pipe, None when it already has exactly that.\<close>

definition serial_text :: "string \<Rightarrow> string \<Rightarrow> string option" where
  "serial_text pipe text =
     (let ls = split_lines text;
          current = dict_update [] (somes (map serial_pair ls));
          kept = filter (\<lambda>l. serial_pair l = None \<and> \<not> starts_with ''serial0.'' l) ls
      in if same_dict current (serial_wanted pipe) then None
         else Some (unlines (kept @ setting_block (serial_wanted pipe))))"

definition is_ascii :: "string \<Rightarrow> bool" where
  "is_ascii s = list_all (\<lambda>c. ord c < 128) s"

definition vmware_ensure_serial_pipe :: "('e, 'x) vmware_env_scheme \<Rightarrow> vm_config \<Rightarrow> string \<Rightarrow> ('e, bool) app" where
  "vmware_ensure_serial_pipe V vm pipe =
     (if \<not> is_ascii pipe then throw INVALID_ARGS
      else
        thenE (require_off V vm)
          (bindE (read_env V (vc_vmx vm))
            (\<lambda>text. case serial_text pipe text of
                      None \<Rightarrow> ret False
                    | Some new \<Rightarrow> thenE (write_env V (vc_vmx vm) new) (ret True))))"

definition vmware_vnc_endpoint :: "('e, 'x) vmware_env_scheme \<Rightarrow> vm_config \<Rightarrow> 'e \<Rightarrow> (string \<times> int) option" where
  "vmware_vnc_endpoint V vm e =
     (let settings = settings_of V vm e
      in if py_lower (opt_or (dict_get settings ''remotedisplay.vnc.enabled'') []) \<noteq> ''true'' then None
         else map_option (\<lambda>p. (''127.0.0.1'', p)) (setting_int settings ''remotedisplay.vnc.port''))"

definition VNC_RE :: rx where
  "VNC_RE =
     RSeq RBegin (RSeq (RStar rx_space)
       (RSeq (RGroup 1 (RSeq (rlit_ci ''RemoteDisplay.vnc.'') (rplus (\<lambda>c. is_word c \<or> c = CHR ''.''))))
         (RSeq quoted_value (RSeq (RStar rx_space) RDollar))))"

definition vnc_wanted :: "int \<Rightarrow> (string, string) dict" where
  "vnc_wanted port = [(''RemoteDisplay.vnc.enabled'', ''TRUE''), (''RemoteDisplay.vnc.port'', int_text port)]"

definition lower_keys :: "(string, string) dict \<Rightarrow> (string, string) dict" where
  "lower_keys d = map (\<lambda>(k, v). (py_lower k, v)) d"

definition vnc_pair :: "string \<Rightarrow> (string \<times> string) option" where
  "vnc_pair line =
     (case rx_match_at_start VNC_RE line of
        None \<Rightarrow> None
      | Some m \<Rightarrow>
          if dict_has (lower_keys (vnc_wanted 0)) (py_lower (group m 1)) then Some (py_lower (group m 1), group m 2) else None)"

definition vnc_text :: "int \<Rightarrow> string \<Rightarrow> string option" where
  "vnc_text port text =
     (let ls = split_lines text;
          current = dict_update [] (somes (map vnc_pair ls));
          kept = filter (\<lambda>l. vnc_pair l = None) ls
      in if same_dict (lower_keys (vnc_wanted port)) current then None
         else Some (unlines (kept @ setting_block (vnc_wanted port))))"

definition vmware_ensure_vnc :: "('e, 'x) vmware_env_scheme \<Rightarrow> vm_config \<Rightarrow> int \<Rightarrow> ('e, bool \<times> int) app" where
  "vmware_ensure_vnc V vm port =
     thenE (require_off V vm)
       (bindE (read_env V (vc_vmx vm))
         (\<lambda>text. case vnc_text port text of
                   None \<Rightarrow> ret (False, port)
                 | Some new \<Rightarrow> thenE (write_env V (vc_vmx vm) new) (ret (True, port))))"

definition vmware_hardware :: "('e, 'x) vmware_env_scheme \<Rightarrow> vm_config \<Rightarrow> ('e, hardware) app" where
  "vmware_hardware V vm e = (Inr (hardware_from_settings (settings_of V vm e)), e)"

definition vmware_set_hardware :: "('e, 'x) vmware_env_scheme \<Rightarrow> vm_config \<Rightarrow> hw_changes \<Rightarrow> ('e, string list \<times> hardware) app" where
  "vmware_set_hardware V vm changes =
     thenE (require_off V vm)
       (bindE (read_env V (vc_vmx vm))
         (\<lambda>content. case apply_hardware content changes of
            (text, changed) \<Rightarrow>
              thenE (if changed \<noteq> [] then write_env V (vc_vmx vm) text else ret ())
                (bindE (vmware_hardware V vm) (\<lambda>hw. ret (changed, hw)))))"

section \<open>Ending a machine on the host\<close>

definition VMX_PROCESS_NAMES :: "string list" where
  "VMX_PROCESS_NAMES = [''vmware-vmx.exe'', ''vmware-vmx-debug.exe'', ''vmware-vmx-stats.exe'', ''vmrun.exe'']"

definition find_vmx_processes :: "('e, 'x) vmware_env_scheme \<Rightarrow> string \<Rightarrow> 'e \<Rightarrow> host_proc list" where
  "find_vmx_processes V vmx e =
     filter (\<lambda>p. py_lower (hp_name p) \<in> set VMX_PROCESS_NAMES \<and>
                 list_ex (\<lambda>arg. arg \<noteq> [] \<and> norm_path V arg = norm_path V vmx) (hp_cmdline p))
       (ve_procs V e)"

text \<open>The CPU of the machine's own processes in tenths of a percent; one that is gone or closed to us adds nothing.\<close>

definition vmx_own_processes :: "('e, 'x) vmware_env_scheme \<Rightarrow> vm_config \<Rightarrow> 'e \<Rightarrow> host_proc list" where
  "vmx_own_processes V vm e =
     filter (\<lambda>p. starts_with ''vmware-vmx'' (py_lower (hp_name p))) (find_vmx_processes V (vc_vmx vm) e)"

fun sample_cpu :: "('e, 'x) vmware_env_scheme \<Rightarrow> nat list \<Rightarrow> 'e \<Rightarrow> int \<times> 'e" where
  "sample_cpu V [] e = (0, e)"
| "sample_cpu V (pid # pids) e =
     (case ve_cpu V pid e of
        (c, e1) \<Rightarrow> (case sample_cpu V pids e1 of (busy, e2) \<Rightarrow> (opt_or c 0 + busy, e2)))"

definition vmware_host_cpu :: "('e, 'x) vmware_env_scheme \<Rightarrow> vm_config \<Rightarrow> ('e, int option) app" where
  "vmware_host_cpu V vm e =
     (let procs = vmx_own_processes V vm e
      in if procs = [] then (Inr None, e)
         else (case sample_cpu V (map hp_pid procs) e of (busy, e1) \<Rightarrow> (Inr (Some busy), e1)))"

text \<open>The lock entries next to the vmx, with whether they can be removed.\<close>

definition remove_vmx_locks :: "('e, 'x) vmware_env_scheme \<Rightarrow> string \<Rightarrow> ('e, string list) app" where
  "remove_vmx_locks V vmx e =
     (let removed = map fst (filter snd (ve_locks V vmx e))
      in (Inr (sort removed), fold (ve_remove V) removed e))"

primrec kill_with_retry :: "('e, 'x) vmware_env_scheme \<Rightarrow> nat \<Rightarrow> nat \<Rightarrow> 'e \<Rightarrow> kill_outcome \<times> 'e" where
  "kill_with_retry V pid 0 e = (Kill_Denied, e)"
| "kill_with_retry V pid (Suc n) e =
     (case ve_kill V pid e of
        (Kill_Denied, e1) \<Rightarrow> if n = 0 then (Kill_Denied, e1) else kill_with_retry V pid n (ve_sleep V 300 e1)
      | (r, e1) \<Rightarrow> (r, e1))"

fun kill_each :: "('e, 'x) vmware_env_scheme \<Rightarrow> nat list \<Rightarrow> 'e \<Rightarrow> (nat \<times> kill_outcome) list \<times> 'e" where
  "kill_each V [] e = ([], e)"
| "kill_each V (pid # pids) e =
     (case kill_with_retry V pid 4 e of
        (r, e1) \<Rightarrow> (case kill_each V pids e1 of (rs, e2) \<Rightarrow> ((pid, r) # rs, e2)))"

definition pids_with :: "kill_outcome \<Rightarrow> (nat \<times> kill_outcome) list \<Rightarrow> nat list" where
  "pids_with r outcomes = map fst (filter (\<lambda>(pid, x). x = r) outcomes)"

definition jpids :: "nat list \<Rightarrow> json" where
  "jpids pids = JList (map (\<lambda>p. JInt (int p)) pids)"

definition vmware_kill :: "('e, 'x) vmware_env_scheme \<Rightarrow> vm_config \<Rightarrow> ('e, (string, json) dict) app" where
  "vmware_kill V vm e =
     (let pids = map hp_pid (find_vmx_processes V (vc_vmx vm) e);
          (outcomes, e1) = kill_each V pids e;
          killed = pids_with Kill_Done outcomes;
          denied = pids_with Kill_Denied outcomes;
          e2 = fold (ve_wait_gone V) pids e1
      in if denied \<noteq> [] \<and> killed = []
         then catch_nt (vmware_stop V vm True)
                (\<lambda>_. throw_with BACKEND_ERROR [(''reason'', JStr ''kill_access_denied'')])
                (\<lambda>_. bindE (remove_vmx_locks V (vc_vmx vm)) (\<lambda>removed.
                   ret [(''killed'', JList []), (''access_denied'', jpids denied), (''locks_removed'', jstrs removed),
                        (''via'', JStr ''vmrun_stop_hard'')])) e2
         else bindE (remove_vmx_locks V (vc_vmx vm)) (\<lambda>removed.
                ret ([(''killed'', jpids killed), (''locks_removed'', jstrs removed)] @
                     (if denied \<noteq> [] then [(''access_denied'', jpids denied)] else []))) e2)"

section \<open>Scripts in the guest\<close>

definition GUEST_POWERSHELL :: string where
  "GUEST_POWERSHELL =
     ''C:'' @ [BSL] @ ''Windows'' @ [BSL] @ ''System32'' @ [BSL] @ ''WindowsPowerShell'' @ [BSL] @ ''v1.0'' @ [BSL] @ ''powershell.exe''"

definition guest_capture :: "('e, 'x) vmware_env_scheme \<Rightarrow> vm_config \<Rightarrow> string \<Rightarrow> int \<Rightarrow> ('e, string) app" where
  "guest_capture V vm produce timeout e =
     (let (token, e0) = ve_token V e;
          report = ''C:'' @ [BSL] @ ''Windows'' @ [BSL] @ ''Temp'' @ [BSL] @ ''ntdrive-'' @ token @ ''.txt'';
          script = produce @ '' | Set-Content -Encoding UTF8 -LiteralPath '' @ [SQ] @ report @ [SQ]
      in thenE (vmrun_do V ''runProgramInGuest'' vm
                  [GUEST_POWERSHELL, ''-NoProfile'', ''-NonInteractive'', ''-Command'', script] True timeout False)
         (\<lambda>e1. case ve_temp V e1 of
            (local, e2) \<Rightarrow>
              thenE (vmrun_do V ''copyFileFromGuestToHost'' vm [report, local] True 120000 False)
              (bindE (read_env V local) (\<lambda>text.
               thenE (suppress_nt (vmrun_do V ''deleteFileInGuest'' vm [report] True 60000 False))
               (ret text))) e2) e0)"

definition ps_quoted :: "string \<Rightarrow> string" where
  "ps_quoted s = [SQ] @ py_replace [SQ] [SQ, SQ] s @ [SQ]"

definition hash_script :: "string list \<Rightarrow> string" where
  "hash_script remotes =
     ''Get-FileHash -LiteralPath '' @ join_with '','' (map ps_quoted remotes) @
     '' -Algorithm SHA256 -ErrorAction SilentlyContinue | ForEach-Object { $_.Hash + '' @ [SQ] @ '' '' @ [SQ] @ '' + $_.Path }''"

definition digest_lines :: "string \<Rightarrow> (string, string) dict" where
  "digest_lines text =
     dict_update [] (map (\<lambda>(digest, path). (norm_guest path, py_lower digest))
       (filter (\<lambda>(digest, path). digest \<noteq> [] \<and> path \<noteq> [])
         (map (\<lambda>line. cut_at (CHR '' '') (py_strip line)) (split_lines text))))"

definition vmware_guest_sha256 :: "('e, 'x) vmware_env_scheme \<Rightarrow> vm_config \<Rightarrow> string list \<Rightarrow> ('e, (string, string) dict) app" where
  "vmware_guest_sha256 V vm remotes =
     (if remotes = [] then ret []
      else bindE (guest_capture V vm (hash_script remotes) 300000)
             (\<lambda>text. let by_path = digest_lines text
                     in ret (dict_update [] (somes (map (\<lambda>r. map_option (\<lambda>d. (r, d)) (dict_get by_path (norm_guest r))) remotes)))))"

definition stat_script :: "string \<Rightarrow> string" where
  "stat_script remote =
     ''$i = Get-Item -LiteralPath '' @ ps_quoted remote @ '' -Force -ErrorAction SilentlyContinue; if ($i) { '' @
     [SQ] @ ''{0}|{1}|{2}'' @ [SQ] @ '' -f [long]$i.Length, $i.LastWriteTimeUtc.ToString('' @ [SQ] @ ''o'' @ [SQ] @
     ''), [bool]$i.PSIsContainer }''"

definition vmware_guest_stat :: "('e, 'x) vmware_env_scheme \<Rightarrow> vm_config \<Rightarrow> string \<Rightarrow> ('e, file_stat option) app" where
  "vmware_guest_stat V vm remote =
     bindE (guest_capture V vm (stat_script remote) 120000) (\<lambda>text. ret (parse_guest_stat (py_strip text)))"

definition list_script :: "string \<Rightarrow> string" where
  "list_script remote =
     ''if (Test-Path -LiteralPath '' @ ps_quoted remote @ '') { Get-ChildItem -LiteralPath '' @ ps_quoted remote @
     '' -Force -ErrorAction SilentlyContinue | ForEach-Object { '' @ [SQ] @ ''{0}|{1}|{2}|{3}'' @ [SQ] @
     '' -f $_.Name, [long]$_.Length, $_.LastWriteTimeUtc.ToString('' @ [SQ] @ ''o'' @ [SQ] @
     ''), [bool]$_.PSIsContainer } } else { '' @ [SQ] @ ''ntdrive:absent'' @ [SQ] @ '' }''"

definition vmware_guest_list :: "('e, 'x) vmware_env_scheme \<Rightarrow> vm_config \<Rightarrow> string \<Rightarrow> ('e, file_stat list option) app" where
  "vmware_guest_list V vm remote =
     bindE (guest_capture V vm (list_script remote) 120000)
       (\<lambda>text. ret (if py_strip text = ''ntdrive:absent'' then None
                    else Some (somes (map parse_guest_entry (split_lines text)))))"

definition delete_script :: "string \<Rightarrow> bool \<Rightarrow> string" where
  "delete_script remote recurse =
     (let present = ''if (Test-Path -LiteralPath '' @ ps_quoted remote @ '') { ''
      in present @ ''Remove-Item -LiteralPath '' @ ps_quoted remote @ '' -Force'' @ (if recurse then '' -Recurse'' else []) @
         '' -ErrorAction SilentlyContinue; '' @ present @ [SQ] @ ''ntdrive:failed'' @ [SQ] @ '' } else { '' @
         [SQ] @ ''ntdrive:deleted'' @ [SQ] @ '' } } else { '' @ [SQ] @ ''ntdrive:absent'' @ [SQ] @ '' }'')"

definition vmware_guest_delete :: "('e, 'x) vmware_env_scheme \<Rightarrow> vm_config \<Rightarrow> string \<Rightarrow> bool \<Rightarrow> ('e, bool) app" where
  "vmware_guest_delete V vm remote recurse =
     bindE (guest_capture V vm (delete_script remote recurse) 120000)
       (\<lambda>text. if py_strip text = ''ntdrive:failed'' then throw BACKEND_ERROR
               else ret (py_strip text = ''ntdrive:deleted''))"

section \<open>The adapter\<close>

definition vmware_adapter :: "('e, 'x) vmware_env_scheme \<Rightarrow> 'e hypervisor" where
  "vmware_adapter V =
     \<lparr>hv_power_state = vmware_power_state V, hv_power_states = vmware_power_states V,
      hv_host_cpu = vmware_host_cpu V,
      hv_start = vmware_start V, hv_stop = vmware_stop V, hv_reset = vmware_reset V, hv_suspend = vmware_suspend V,
      hv_snapshot_take = vmware_snapshot_take V, hv_snapshot_list = vmware_snapshot_list V,
      hv_snapshot_revert = vmware_snapshot_revert V, hv_snapshot_delete = vmware_snapshot_delete V,
      hv_guest_ip = vmware_guest_ip V, hv_screenshot = vmware_screenshot V,
      hv_copy_to_guest = vmware_copy_to_guest V, hv_copy_from_guest = vmware_copy_from_guest V,
      hv_run_in_guest = vmware_run_in_guest V, hv_ensure_serial_pipe = vmware_ensure_serial_pipe V,
      hv_vnc_endpoint = vmware_vnc_endpoint V, hv_ensure_vnc = vmware_ensure_vnc V,
      hv_guest_stat = vmware_guest_stat V, hv_guest_list = vmware_guest_list V,
      hv_guest_delete = vmware_guest_delete V, hv_guest_sha256 = vmware_guest_sha256 V,
      hv_discard_saved_state = vmware_discard_saved_state V, hv_kill = vmware_kill V,
      hv_hardware = vmware_hardware V, hv_set_hardware = vmware_set_hardware V\<rparr>"

section \<open>The report for sys_health\<close>

definition VERSION_RE :: rx where
  "VERSION_RE = RSeq (rlit_ci ''vmrun version '') (RGroup 1 (rplus (\<lambda>c. is_word c \<or> c = CHR ''.'' \<or> c = CHR ''-'')))"

definition vmware_capabilities :: "string list" where
  "vmware_capabilities = [''power'', ''snapshot_tree'', ''guest_ip'', ''screenshot'', ''copy_file'', ''run_in_guest'']"

text \<open>The version in what vmrun prints, or else its first line: output of blanks only has no first line, an IndexError.\<close>

definition version_of :: "string \<Rightarrow> exn + string" where
  "version_of out =
     (case rx_search VERSION_RE out of
        Some m \<Rightarrow> Inr (group m 1)
      | None \<Rightarrow>
          if out = [] then Inr []
          else case split_lines (py_strip out) of [] \<Rightarrow> Inl (Exn ''IndexError'') | line # _ \<Rightarrow> Inr (take 80 line))"

text \<open>\<open>said\<close> is the text of an exception.\<close>

definition vmware_health ::
  "('e, 'x) vmware_env_scheme \<Rightarrow> (string \<Rightarrow> 'e \<Rightarrow> bool) \<Rightarrow> (exn \<Rightarrow> string) \<Rightarrow> ('e, (string, json) dict) app" where
  "vmware_health V is_file said e =
     (let exists = is_file (ve_vmrun V) e
      in bindE
           (if \<not> exists then ret []
            else tryE (bindE (ve_run V [ve_vmrun V] 15000) (\<lambda>(_, out). case version_of out of Inl x \<Rightarrow> raise x | Inr v \<Rightarrow> ret v))
                   (\<lambda>x. case x of
                      Nt _ \<Rightarrow> ret (''error: '' @ said x)
                    | Exn cls \<Rightarrow> if cls = ''OSError'' then ret (''error: '' @ said x) else raise x
                    | _ \<Rightarrow> raise x)
                   ret)
           (\<lambda>version. ret [(''backend'', JStr ''vmware''), (''path'', JStr (ve_vmrun V)), (''exists'', JBool exists),
                           (''version'', JStr version)]) e)"

lemma dict_update_dom: "dom (dict_get (dict_update d upd)) = dom (dict_get d) \<union> fst ` set upd"
proof (induction upd arbitrary: d)
  case (Cons x upd)
  have "dom (dict_get (dict_update d (x # upd))) = dom (dict_get (dict_update (dict_set (fst x) (snd x) d) upd))"
    by (simp add: dict_update_def split_def)
  also have "\<dots> = dom (dict_get (dict_set (fst x) (snd x) d)) \<union> fst ` set upd" by (rule Cons.IH)
  also have "dom (dict_get (dict_set (fst x) (snd x) d)) = insert (fst x) (dom (dict_get d))"
    by (auto simp: dom_def)
  finally show ?case by auto
qed (simp add: dict_update_def)

interpretation vmware_power: power_source "vmware_power_state V" "vmware_power_states V" for V
proof unfold_locales
  fix vms :: "vm_config list" and e d e'
  assume "vmware_power_states V vms e = (Inr d, e')"
  then obtain running where "d = dict_update [] (map (\<lambda>vm. (vc_name vm, power_from V vm running e')) vms)"
    by (auto simp: vmware_power_states_def bindE_def split: prod.splits sum.splits)
  then show "dom (dict_get d) = vc_name ` set vms" by (simp add: dict_update_dom image_image)
next
  fix vm :: vm_config and e
  show "vmware_power_state V vm e =
       (case vmware_power_states V [vm] e of (Inl x, e') \<Rightarrow> (Inl x, e')
        | (Inr d, e') \<Rightarrow> (Inr (the (dict_get d (vc_name vm))), e'))"
    by (simp add: vmware_power_state_def bindE_def ret_def split: prod.splits sum.splits)
qed

section \<open>Properties\<close>

text \<open>
  A vmrun command that changes the machine is sent to vmrun exactly once: its output is the result,
  a failure becomes the error of that one call, and a hang becomes a timeout.
\<close>

theorem vmrun_sent_once:
  "vmrun_exec V command vm args guest_auth timeout False e =
     (case ve_run V (vmrun_argv V command vm args guest_auth) (if timeout \<noteq> 0 then timeout else ve_default_timeout V) e of
        (Inr (code, out), e1) \<Rightarrow>
          if code = 0 then (Inr out, e1) else (Inl (Nt (vmrun_error command (code, py_strip out))), e1)
      | (Inl (Nt exc), e1) \<Rightarrow> (Inl (Nt (if err_code exc = TIMEOUT then nt_err TIMEOUT else exc)), e1)
      | (Inl x, e1) \<Rightarrow> (Inl x, e1))"
  by (auto simp: vmrun_exec_def catch_nt_def tryE_def bindE_def thenE_def ret_def raise_def throw_def
      split: prod.splits sum.splits exn.splits)

text \<open>
  C15. The command line written to the log does not depend on the passwords: two environments whose
  secrets differ log the same line.
\<close>

theorem logged_line_hides_passwords:
  assumes "resolve_encryption_password vars vm = [] \<longleftrightarrow> resolve_encryption_password (ve_vars V) vm = []"
    and "\<forall>vs \<in> {vars, ve_vars V}. resolve_encryption_password vs vm \<notin> set SECRET_FLAGS \<and>
           resolve_password vs (vc_guest vm) \<notin> set SECRET_FLAGS"
  shows "mask_argv (vmrun_argv (V\<lparr>ve_vars := vars\<rparr>) command (Some vm) args guest_auth) =
         mask_argv (vmrun_argv V command (Some vm) args guest_auth)"
  using assms by (auto simp: mask_argv_def vmrun_argv_def Let_def SECRET_FLAGS_def)

text \<open>A host whose vmrun lists one running machine, for the witnesses.\<close>

definition secret_vars :: "string \<Rightarrow> env_vars" where
  "secret_vars secret = \<lparr>ev_win32 = False, ev_registry = [], ev_process = [(''VMPW'', secret)]\<rparr>"

definition one_vm_host :: "string \<Rightarrow> unit vmware_env" where
  "one_vm_host secret =
     \<lparr>ve_vmrun = ''vmrun.exe'', ve_retries = 3, ve_default_timeout = 60000, ve_vars = secret_vars secret,
      ve_run = (\<lambda>argv timeout e. (Inr (0, ''Total running VMs: 1'' @ [NL] @ ''C:/vm/win.vmx''), e)),
      ve_sleep = (\<lambda>d e. e), ve_read = (\<lambda>p e. Some []), ve_write = (\<lambda>p t e. e), ve_exists = (\<lambda>p e. False),
      ve_resolve = Some, ve_beside = (\<lambda>v n e. False), ve_procs = (\<lambda>e. []), ve_kill = (\<lambda>p e. (Kill_Done, e)),
      ve_cpu = (\<lambda>p e. (Some 0, e)),
      ve_wait_gone = (\<lambda>p e. e), ve_locks = (\<lambda>v e. []), ve_remove = (\<lambda>p e. e), ve_token = (\<lambda>e. (''0'', e)),
      ve_temp = (\<lambda>e. (''out.txt'', e))\<rparr>"

definition locked_vm :: vm_config where
  "locked_vm = sample_vm\<lparr>vc_encryption_password_env := ''VMPW''\<rparr>"

lemma logged_line_hides_passwords_witness:
  "mask_argv (vmrun_argv ((one_vm_host ''hunter2'')\<lparr>ve_vars := secret_vars ''swordfish''\<rparr>) ''start'' (Some locked_vm) [''nogui''] True) =
   mask_argv (vmrun_argv (one_vm_host ''hunter2'') ''start'' (Some locked_vm) [''nogui''] True)"
  by (rule logged_line_hides_passwords)
    (simp_all add: one_vm_host_def secret_vars_def locked_vm_def sample_vm_def sample_guest_def SECRET_FLAGS_def
      resolve_encryption_password_def resolve_password_def resolve_secret_def secret_from_env_def)

text \<open>
  The vmx is edited only while the machine is off: otherwise each of the three edits fails with
  vm_not_running and has done nothing but ask for the power state.
\<close>

theorem vmx_edits_need_power_off:
  assumes "vmware_power_state V vm e = (Inr p, e1)" and "p \<noteq> P_Off"
  shows "vmware_ensure_vnc V vm port e = (Inl (Nt (nt_err VM_NOT_RUNNING)), e1) \<and>
         vmware_set_hardware V vm changes e = (Inl (Nt (nt_err VM_NOT_RUNNING)), e1) \<and>
         (is_ascii pipe \<longrightarrow> vmware_ensure_serial_pipe V vm pipe e = (Inl (Nt (nt_err VM_NOT_RUNNING)), e1))"
proof -
  have "require_off V vm e = (Inl (Nt (nt_err VM_NOT_RUNNING)), e1)"
    using assms by (simp add: require_off_def bindE_def throw_def raise_def)
  then show ?thesis
    by (simp add: vmware_ensure_vnc_def vmware_set_hardware_def vmware_ensure_serial_pipe_def thenE_Inl)
qed

lemma one_vm_running: "vmware_power_state (one_vm_host ''pw'') sample_vm () = (Inr P_Running, ())"
  by code_simp

lemma vmx_edits_need_power_off_witness:
  "vmware_ensure_vnc (one_vm_host ''pw'') sample_vm 5901 () = (Inl (Nt (nt_err VM_NOT_RUNNING)), ())"
  using vmx_edits_need_power_off [OF one_vm_running] by simp

end
