(* ===== verification/Service.thy ===== *)
theory Service
  imports Term_Manager Kd_Session Hypervisor
begin

text \<open>
  \<open>NtDriveService\<close> of \<open>core/service.py\<close>: the lookups and shared steps of the tools over the daemon's
  whole world, which extends the terminal manager's with the debugger sessions, the cached firewall answer and
  the snapshot notes. An operation of a debugger session runs on the session of its machine with what kd.exe will
  do, both taken from this world and put back; whenever the daemon waits for something else, the output of kd.exe
  that is due by then is fed to its session first.
\<close>

section \<open>The firewall answer\<close>

record firewall_status =
  fw_allow :: bool
  fw_block_rules :: "string list"
  fw_checked :: bool
  fw_error :: string

definition fw_ok :: "firewall_status \<Rightarrow> bool" where
  "fw_ok f = (fw_checked f \<and> fw_allow f \<and> fw_block_rules f = [])"

definition fw_dict :: "firewall_status \<Rightarrow> (string, json) dict" where
  "fw_dict f =
     [(''ok'', JBool (fw_ok f)), (''allow_rule'', JBool (fw_allow f)), (''block_rules'', jstrs (fw_block_rules f)),
      (''checked'', JBool (fw_checked f)), (''error'', if fw_error f = [] then JNull else JStr (fw_error f))]"

section \<open>The daemon's world\<close>

record 'e svc_world = "'e term_world" +
  w_kd :: "(string, kd_session) dict"
  w_fw_cache :: "(int \<times> firewall_status) option"
  w_snap_meta :: "(string, (string, (string, json) dict) dict) dict"

text \<open>What kd.exe of a machine will do: the part of \<open>kd_world\<close> that is not the session.\<close>

record kd_future =
  kf_inbox :: kd_inbox
  kf_spawns :: "nat option list"
  kf_breaks :: "bool list"
  kf_tokens :: "string list"
  kf_hangs :: bool

record 'e svc_outside = "'e term_outside" +
  x_config :: nt_config
  x_coview_base :: string
  x_log_dir :: string
  x_adapters :: "(string, 'e hypervisor) dict"
  x_kd_future :: "string \<Rightarrow> 'e \<Rightarrow> kd_future"
  x_kd_done :: "string \<Rightarrow> kd_future \<Rightarrow> kd_op list \<Rightarrow> 'e \<Rightarrow> 'e"
  x_ssh_probe :: "string \<Rightarrow> int \<Rightarrow> 'e \<Rightarrow> bool \<times> 'e"
  x_exec_once :: "transport \<Rightarrow> string \<Rightarrow> int \<Rightarrow> ('e, int \<times> string) app"
  x_pipe_check :: "'e \<Rightarrow> string \<Rightarrow> bool"
  x_firewall_check :: "string \<Rightarrow> 'e \<Rightarrow> firewall_status \<times> 'e"
  x_firewall_fix :: "string \<Rightarrow> int \<Rightarrow> ('e, firewall_status) app"

type_synonym ('e, 'z, 'a) sprog = "(('e, 'z) svc_world_scheme, 'a) app"

section \<open>Debugger sessions in the world\<close>

definition kd_view :: "('e, 'x) svc_outside_scheme \<Rightarrow> string \<Rightarrow> kd_session \<Rightarrow> ('e, 'z) svc_world_scheme \<Rightarrow> kd_world" where
  "kd_view X vm s w =
     (let f = x_kd_future X vm (w_env w)
      in \<lparr>kw_s = s, kw_now = now X w, kw_inbox = kf_inbox f, kw_spawns = kf_spawns f, kw_breaks = kf_breaks f,
          kw_tokens = kf_tokens f, kw_write_hangs = kf_hangs f, kw_trace = []\<rparr>)"

definition kd_put ::
  "('e, 'x) svc_outside_scheme \<Rightarrow> string \<Rightarrow> kd_world \<Rightarrow> ('e, 'z) svc_world_scheme \<Rightarrow> ('e, 'z) svc_world_scheme" where
  "kd_put X vm k w =
     w\<lparr>w_kd := dict_set vm (kw_s k) (w_kd w),
       w_env := x_kd_done X vm
         \<lparr>kf_inbox = kw_inbox k, kf_spawns = kw_spawns k, kf_breaks = kw_breaks k, kf_tokens = kw_tokens k,
          kf_hangs = kw_write_hangs k\<rparr> (kw_trace k) (x_sleep_until X (kw_now k) (w_env w))\<rparr>"

definition kd_on :: "('e, 'x) svc_outside_scheme \<Rightarrow> string \<Rightarrow> 'a kd \<Rightarrow> ('e, 'z, 'a) sprog" where
  "kd_on X vm m w =
     (case dict_get (w_kd w) vm of
        None \<Rightarrow> (Inl (Exn ''KeyError''), w)
      | Some s \<Rightarrow> (case m (kd_view X vm s w) of (r, k) \<Rightarrow> (r, kd_put X vm k w)))"

text \<open>While the daemon waits for something else: every session handles what is due by now.\<close>

fun kd_due :: "int \<Rightarrow> kd_session \<Rightarrow> kd_inbox \<Rightarrow> kd_session \<times> kd_inbox" where
  "kd_due t0 s [] = (s, [])"
| "kd_due t0 s ((t, ev) # rest) = (if t \<le> t0 then kd_due t0 (kd_apply t0 ev s) rest else (s, (t, ev) # rest))"

definition catch_up_one ::
  "('e, 'x) svc_outside_scheme \<Rightarrow> string \<Rightarrow> ('e, 'z) svc_world_scheme \<Rightarrow> ('e, 'z) svc_world_scheme" where
  "catch_up_one X vm w =
     (case dict_get (w_kd w) vm of
        None \<Rightarrow> w
      | Some s \<Rightarrow>
          let k = kd_view X vm s w; (s', inbox) = kd_due (kw_now k) s (kw_inbox k)
          in kd_put X vm (k\<lparr>kw_s := s', kw_inbox := inbox\<rparr>) w)"

definition catch_up :: "('e, 'x) svc_outside_scheme \<Rightarrow> ('e, 'z) svc_world_scheme \<Rightarrow> ('e, 'z) svc_world_scheme" where
  "catch_up X w = fold (catch_up_one X) (dict_keys (w_kd w)) w"

text \<open>Awaiting a call of the environment.\<close>

definition awaitE :: "('e, 'x) svc_outside_scheme \<Rightarrow> ('e, 'a) app \<Rightarrow> ('e, 'z, 'a) sprog" where
  "awaitE X f w = (case env_tryE f w of (r, w') \<Rightarrow> (r, catch_up X w'))"

section \<open>Lookups\<close>

definition config_lookup :: "('e, 'x) svc_outside_scheme \<Rightarrow> string \<Rightarrow> vm_config option" where
  "config_lookup X name = dict_get (c_vms (x_config X)) name"

definition vm_cfg :: "('e, 'x) svc_outside_scheme \<Rightarrow> string \<Rightarrow> ('w, vm_config) app" where
  "vm_cfg X name =
     bindE (liftE (config_vm (x_config X) name))
       (\<lambda>cfg. if dict_has (x_adapters X) (vc_backend cfg) then ret cfg else throw BACKEND_UNSUPPORTED)"

definition adapter_for :: "('e, 'x) svc_outside_scheme \<Rightarrow> vm_config \<Rightarrow> 'e hypervisor" where
  "adapter_for X vm = the (dict_get (x_adapters X) (vc_backend vm))"

definition sync_config :: "vm_config \<Rightarrow> vm_runtime \<Rightarrow> vm_runtime" where
  "sync_config cfg r =
     r\<lparr>rt_kd_transport := transport_text (vc_kd_transport cfg),
       rt_kd_serial_pipe := (if vc_kd_transport cfg = Serial then Some (resolved_serial_pipe cfg) else None),
       rt_kd_port := (if vc_kd_transport cfg = Net then Some (kn_port (vc_kdnet cfg)) else None)\<rparr>"

definition sync_session :: "kd_session \<Rightarrow> vm_runtime \<Rightarrow> vm_runtime" where
  "sync_session s r =
     r\<lparr>rt_kd_state := ks_state s,
       rt_kd_transport := ks_transport s,
       rt_kd_port := (if ks_transport s = ''net'' then Some (ks_port s) else None),
       rt_kd_serial_pipe := (if ks_transport s = ''serial'' then Some (ks_serial_pipe s) else None),
       rt_kd_target_info := ks_target_info s,
       rt_kd_last_event := ks_last_event s,
       rt_kd_log_path := ks_log_path s\<rparr>"

definition svc_runtime :: "('e, 'x) svc_outside_scheme \<Rightarrow> string \<Rightarrow> ('e, 'z, vm_runtime) sprog" where
  "svc_runtime X name w =
     (let sync = (\<lambda>r. case dict_get (w_kd w) name of None \<Rightarrow> r | Some s \<Rightarrow> sync_session s r)
                 \<circ> (\<lambda>r. case config_lookup X name of None \<Rightarrow> r | Some cfg \<Rightarrow> sync_config cfg r);
          w1 = w\<lparr>w_store := update_vm name sync (w_store w)\<rparr>
      in (Inr (vm_of (w_store w1) name), w1))"

definition set_power :: "string \<Rightarrow> power_state \<Rightarrow> ('e, 'z, unit) sprog" where
  "set_power name p = storeE (update_vm name (\<lambda>r. r\<lparr>rt_power := p\<rparr>))"

definition set_snapshot :: "string \<Rightarrow> string option \<Rightarrow> ('e, 'z, unit) sprog" where
  "set_snapshot name s = storeE (update_vm name (\<lambda>r. r\<lparr>rt_current_snapshot := s\<rparr>))"

definition refresh_power :: "('e, 'x) svc_outside_scheme \<Rightarrow> vm_config \<Rightarrow> ('e, 'z, power_state) sprog" where
  "refresh_power X vm =
     bindE (awaitE X (hv_power_state (adapter_for X vm) vm))
       (\<lambda>p. thenE (set_power (vc_name vm) p) (ret p))"

text \<open>\<open>refresh_powers\<close>: the answers by name, an error in place of a state.\<close>

type_synonym answers = "(string, nt_error + power_state) dict"

definition group_vm ::
  "('e, 'x) svc_outside_scheme \<Rightarrow> string \<Rightarrow> answers \<times> (string, vm_config list) dict \<Rightarrow> answers \<times> (string, vm_config list) dict" where
  "group_vm X name acc =
     (case acc of
        (out, groups) \<Rightarrow>
          (case fst (vm_cfg X name ()) of
             Inl (Nt e) \<Rightarrow> (dict_set name (Inl e) out, groups)
           | Inl _ \<Rightarrow> (out, groups)
           | Inr cfg \<Rightarrow>
               (out, dict_set (vc_backend cfg) (opt_or (dict_get groups (vc_backend cfg)) [] @ [cfg]) groups)))"

definition group_answers ::
  "('e, 'x) svc_outside_scheme \<Rightarrow> string \<times> vm_config list \<Rightarrow> answers \<Rightarrow> ('e, 'z, answers) sprog" where
  "group_answers X g out =
     (case g of
        (backend, vms) \<Rightarrow>
          catch_nt (awaitE X (hv_power_states (the (dict_get (x_adapters X) backend)) vms))
            (\<lambda>exc. thenE (forE vms (\<lambda>cfg. set_power (vc_name cfg) P_Unknown))
               (ret (dict_update out (map (\<lambda>cfg. (vc_name cfg, Inl exc)) vms))))
            (\<lambda>states. thenE (forE states (\<lambda>(n, p). set_power n p))
               (ret (dict_update out (map (\<lambda>(n, p). (n, Inr p)) states)))))"

fun groups_answers ::
  "('e, 'x) svc_outside_scheme \<Rightarrow> (string \<times> vm_config list) list \<Rightarrow> answers \<Rightarrow> ('e, 'z, answers) sprog" where
  "groups_answers X [] out = ret out"
| "groups_answers X (g # gs) out = bindE (group_answers X g out) (groups_answers X gs)"

definition refresh_powers :: "('e, 'x) svc_outside_scheme \<Rightarrow> string list \<Rightarrow> ('e, 'z, answers) sprog" where
  "refresh_powers X names =
     (case fold (group_vm X) names ([], []) of (out, groups) \<Rightarrow> groups_answers X groups out)"

definition ensure_running :: "('e, 'x) svc_outside_scheme \<Rightarrow> vm_config \<Rightarrow> ('e, 'z, unit) sprog" where
  "ensure_running X vm =
     bindE (refresh_power X vm) (\<lambda>p. if p \<noteq> P_Running then throw VM_NOT_RUNNING else ret ())"

definition ensure_not_frozen :: "('e, 'x) svc_outside_scheme \<Rightarrow> string \<Rightarrow> ('e, 'z, unit) sprog" where
  "ensure_not_frozen X name =
     bindE (svc_runtime X name)
       (\<lambda>r. if rt_kd_state r = K_Broken then throw GUEST_FROZEN else ret ())"

text \<open>\<open>kd_session\<close>: the session of a machine, created on first use. \<open>port or vm.kdnet.port\<close> treats
  port 0 and an empty key as absent.\<close>

definition kd_session_for ::
  "('e, 'x) svc_outside_scheme \<Rightarrow> vm_config \<Rightarrow> int option \<Rightarrow> string option \<Rightarrow> ('e, 'z, kd_session) sprog" where
  "kd_session_for X vm port key w =
     (let host = c_host (x_config X);
          base = (case dict_get (w_kd w) (vc_name vm) of
                    Some s \<Rightarrow> s
                  | None \<Rightarrow>
                      new_kd_session (vc_name vm) (h_kd host)
                        (if port = None \<or> port = Some 0 then kn_port (vc_kdnet vm) else the port)
                        (if key = None \<or> key = Some [] then kn_key (vc_kdnet vm) else the key)
                        (h_symbol_path host) (x_log_dir X @ ''/kd/'' @ vc_name vm @ ''.log'')
                        (transport_text (vc_kd_transport vm)) (resolved_serial_pipe vm));
          s1 = (case port of None \<Rightarrow> base | Some p \<Rightarrow> base\<lparr>ks_port := p\<rparr>);
          s2 = (case key of None \<Rightarrow> s1 | Some k \<Rightarrow> s1\<lparr>ks_key := k\<rparr>)
      in (Inr s2, w\<lparr>w_kd := dict_set (vc_name vm) s2 (w_kd w)\<rparr>))"

definition svc_guest_ip :: "('e, 'x) svc_outside_scheme \<Rightarrow> vm_config \<Rightarrow> int \<Rightarrow> ('e, 'z, string) sprog" where
  "svc_guest_ip X vm timeout = awaitE X (hv_guest_ip (adapter_for X vm) vm timeout)"

definition ssh_reachable :: "('e, 'x) svc_outside_scheme \<Rightarrow> vm_config \<Rightarrow> int \<Rightarrow> ('e, 'z, bool \<times> string) sprog" where
  "ssh_reachable X vm timeout =
     bindE (svc_guest_ip X vm timeout) (\<lambda>ip.
     bindE (awaitE X (\<lambda>e. case x_ssh_probe X ip (g_ssh_port (vc_guest vm)) e of (ok, e') \<Rightarrow> (Inr ok, e')))
       (\<lambda>ok. ret (ok, ip)))"

definition serial_pipe_open :: "('e, 'x) svc_outside_scheme \<Rightarrow> string \<Rightarrow> ('e, 'z) svc_world_scheme \<Rightarrow> bool" where
  "serial_pipe_open X pipe w = x_pipe_check X (w_env w) pipe"

definition FIREWALL_CACHE_TTL :: int where "FIREWALL_CACHE_TTL = 30000"

definition keep_answer :: "int \<Rightarrow> firewall_status \<Rightarrow> ('e, 'z, firewall_status) sprog" where
  "keep_answer t f w = (Inr f, if fw_checked f then w\<lparr>w_fw_cache := Some (t, f)\<rparr> else w)"

definition kdnet_firewall :: "('e, 'x) svc_outside_scheme \<Rightarrow> ('e, 'z, firewall_status) sprog" where
  "kdnet_firewall X w =
     (let t = now X w;
          ask = bindE (awaitE X (\<lambda>e. case x_firewall_check X (h_kd (c_host (x_config X))) e of (f, e') \<Rightarrow> (Inr f, e')))
                  (keep_answer t)
      in case w_fw_cache w of
           Some (at, cached) \<Rightarrow> if t - at < FIREWALL_CACHE_TTL then (Inr cached, w) else ask w
         | None \<Rightarrow> ask w)"

definition fix_kdnet_firewall :: "('e, 'x) svc_outside_scheme \<Rightarrow> int \<Rightarrow> ('e, 'z, firewall_status) sprog" where
  "fix_kdnet_firewall X timeout w =
     bindE (awaitE X (x_firewall_fix X (h_kd (c_host (x_config X))) timeout))
       (\<lambda>f w1. keep_answer (now X w1) f w1) (w\<lparr>w_fw_cache := None\<rparr>)"

section \<open>Transports and release\<close>

definition svc_transport :: "('e, 'x) svc_outside_scheme \<Rightarrow> vm_config \<Rightarrow> ('e, 'z, transport) sprog" where
  "svc_transport X vm w =
     (case transport_for (vc_name vm) Admin w of
        Some t \<Rightarrow> (Inr t, w)
      | None \<Rightarrow> bindE (svc_guest_ip X vm 60000) (\<lambda>ip. get_transport X vm ip Admin) w)"

definition file_transport :: "('e, 'x) svc_outside_scheme \<Rightarrow> vm_config \<Rightarrow> ('e, 'z, transport option) sprog" where
  "file_transport X vm w =
     (case transport_for (vc_name vm) Admin w of
        Some t \<Rightarrow> (Inr (Some t), w)
      | None \<Rightarrow>
          bindE (ssh_reachable X vm 60000)
            (\<lambda>(ok, ip). if \<not> ok then ret None
                        else bindE (get_transport X vm ip Admin) (\<lambda>t. ret (Some t))) w)"

record released =
  rl_kd_was_attached :: bool
  rl_terms_dropped :: "string list"

definition kd_alive :: "string \<Rightarrow> ('e, 'z) svc_world_scheme \<Rightarrow> bool" where
  "kd_alive vm w = (case dict_get (w_kd w) vm of None \<Rightarrow> False | Some s \<Rightarrow> kd_attached s)"

definition release_guest :: "('e, 'x) svc_outside_scheme \<Rightarrow> string \<Rightarrow> ('e, 'z, released) sprog" where
  "release_guest X vm =
     bindE (getS (kd_alive vm)) (\<lambda>was.
     thenE (if was then bindE (kd_on X vm kd_detach) (\<lambda>_. ret ()) else ret ())
     (bindE (mark_disconnected vm) (\<lambda>dropped.
      thenE (drop_transport X vm)
        (ret \<lparr>rl_kd_was_attached = was, rl_terms_dropped = dropped\<rparr>))))"

section \<open>Snapshot notes and shutdown\<close>

definition load_snapshot_meta :: "string \<Rightarrow> ('e, 'z) svc_world_scheme \<Rightarrow> (string, (string, json) dict) dict" where
  "load_snapshot_meta vm w = opt_or (dict_get (w_snap_meta w) vm) []"

definition save_snapshot_meta :: "string \<Rightarrow> (string, (string, json) dict) dict \<Rightarrow> ('e, 'z, unit) sprog" where
  "save_snapshot_meta vm meta w = (Inr (), w\<lparr>w_snap_meta := dict_set vm meta (w_snap_meta w)\<rparr>)"

definition svc_shutdown :: "('e, 'x) svc_outside_scheme \<Rightarrow> ('e, 'z, unit) sprog" where
  "svc_shutdown X =
     bindE (getS (\<lambda>w. dict_keys (w_kd w))) (\<lambda>vms.
     thenE (forE vms (\<lambda>vm. suppress_nt (bindE (kd_on X vm kd_detach) (\<lambda>_. ret ()))))
       (term_close_all X))"

end
