(* ===== verification/Orchestrator.thy ===== *)
theory Orchestrator
  imports Service
begin

text \<open>
  \<open>core/orchestrator.py\<close>: the snapshot revert and the reboot, whose order the daemon guarantees. The
  steps a flow has recorded are part of the world it runs in; a flow starts with none.
\<close>

section \<open>Steps\<close>

record 'e flow_world = "'e svc_world" +
  w_steps :: "(string, json) dict list"

type_synonym ('e, 'z, 'a) fprog = "(('e, 'z) flow_world_scheme, 'a) app"

definition jsteps :: "(string, json) dict list \<Rightarrow> json" where
  "jsteps steps = JList (map JDict steps)"

definition add_step ::
  "('e, 'x) svc_outside_scheme \<Rightarrow> string \<Rightarrow> bool \<Rightarrow> (string, json) dict \<Rightarrow> ('e, 'z, unit) fprog" where
  "add_step X name ok info w =
     (Inr (), w\<lparr>w_steps := w_steps w @
        [dict_update [(''step'', JStr name), (''ok'', JBool ok), (''at'', JInt (now X w))] info]\<rparr>)"

text \<open>\<open>Steps.run\<close>: the error of a failed step carries what ran before it.\<close>

definition fail_with_steps :: "nt_error \<Rightarrow> ('e, 'z, 'a) fprog" where
  "fail_with_steps exc w = (Inl (Nt (exc\<lparr>err_extra := dict_set ''steps'' (jsteps (w_steps w)) (err_extra exc)\<rparr>)), w)"

definition run_step ::
  "('e, 'x) svc_outside_scheme \<Rightarrow> string \<Rightarrow> ('e, 'z, 'a) fprog \<Rightarrow> (string, json) dict \<Rightarrow> ('e, 'z, 'a) fprog" where
  "run_step X name m info =
     catch_nt m
       (\<lambda>exc. thenE (add_step X name False (dict_update [(''error'', JDict (error_body exc))] info)) (fail_with_steps exc))
       (\<lambda>r. thenE (add_step X name True info) (ret r))"

definition kd_configured :: "vm_config \<Rightarrow> bool" where
  "kd_configured vm = (vc_kd_transport vm = Serial \<or> kn_key (vc_kdnet vm) \<noteq> [])"

definition KD_NOT_CONFIGURED :: string where
  "KD_NOT_CONFIGURED = ''no kd transport configured (set kdnet.key or kd_transport: serial)''"

text \<open>A call of the terminal manager that waits: the debugger sessions go on meanwhile.\<close>

definition termE :: "('e, 'x) svc_outside_scheme \<Rightarrow> ('e, 'z, 'a) sprog \<Rightarrow> ('e, 'z, 'a) sprog" where
  "termE X m w = (case m w of (r, w') \<Rightarrow> (r, catch_up X w'))"

definition svc_kd_attach ::
  "('e, 'x) svc_outside_scheme \<Rightarrow> string \<Rightarrow> bool \<Rightarrow> int \<Rightarrow> ('e, 'z, (string, json) dict) sprog" where
  "svc_kd_attach X vm wait timeout w = kd_on X vm (kd_attach (x_pipe_check X (w_env w)) wait timeout) w"

definition reattach_kd ::
  "('e, 'x) svc_outside_scheme \<Rightarrow> vm_config \<Rightarrow> int \<Rightarrow> ('e, 'z, (string, json) dict) fprog" where
  "reattach_kd X vm timeout =
     bindE (kd_session_for X vm None None)
       (\<lambda>_. run_step X ''kd_attach'' (svc_kd_attach X (vc_name vm) True timeout) [])"

text \<open>\<open>_ensure_kd_running\<close>: at the end of a flow, resume a target that is at a prompt.\<close>

definition ensure_kd_running ::
  "('e, 'x) svc_outside_scheme \<Rightarrow> vm_config \<Rightarrow> (string, json) dict option \<Rightarrow>
   ('e, 'z, (string, json) dict option) fprog" where
  "ensure_kd_running X vm st w =
     (case dict_get (w_kd w) (vc_name vm) of
        None \<Rightarrow> (Inr st, w)
      | Some s \<Rightarrow>
          if st = None \<or> \<not> kd_attached s \<or> ks_state s \<noteq> K_Broken then (Inr st, w)
          else catch_nt (kd_on X (vc_name vm) kd_go)
                 (\<lambda>_. ret st)
                 (\<lambda>resumed. thenE (bindE (svc_runtime X (vc_name vm)) (\<lambda>_. ret ()))
                    (ret (Some (dict_set ''resumed_after_attach'' (JBool True) resumed)))) w)"

definition reopen_terms ::
  "('e, 'x) svc_outside_scheme \<Rightarrow> vm_config \<Rightarrow> string list \<Rightarrow> int \<Rightarrow> ('e, 'z, (string \<times> string) list) fprog" where
  "reopen_terms X vm dropped timeout =
     (if dropped = [] then thenE (add_step X ''term_reopen'' True [(''sessions'', JList [])]) (ret [])
      else
        bindE (run_step X ''guest_ip'' (svc_guest_ip X vm timeout) []) (\<lambda>ip.
        bindE (run_step X ''term_reopen'' (termE X (term_reopen X (x_coview_base X) vm ip dropped timeout))
                 [(''dropped'', jstrs dropped)])
          (\<lambda>sessions. ret (zip dropped sessions))))"

text \<open>The terminals, at the end of both flows.\<close>

definition reopen_step ::
  "('e, 'x) svc_outside_scheme \<Rightarrow> vm_config \<Rightarrow> bool \<Rightarrow> string list \<Rightarrow> int \<Rightarrow> ('e, 'z, (string \<times> string) list) fprog" where
  "reopen_step X vm reopen dropped timeout =
     (if reopen then reopen_terms X vm dropped timeout
      else thenE (add_step X ''term_reopen'' True [(''skipped'', JStr ''not requested'')]) (ret []))"

section \<open>Revert\<close>

definition start_after_revert :: "('e, 'x) svc_outside_scheme \<Rightarrow> vm_config \<Rightarrow> bool \<Rightarrow> ('e, 'z, string) fprog" where
  "start_after_revert X vm discard_stale =
     (let start = awaitE X (hv_start (adapter_for X vm) vm False)
      in catch_nt (run_step X ''start'' start [])
           (\<lambda>exc.
              if reason exc \<noteq> REASON_SAVED_STATE_STALE \<or> \<not> discard_stale then raise (Nt exc)
              else
                bindE (run_step X ''discard_saved_state'' (awaitE X (hv_discard_saved_state (adapter_for X vm) vm))
                         [(''reason'', JStr ''saved_state_stale'')])
                  (\<lambda>(state, removed).
                     thenE (run_step X ''start'' start
                       [(''after'', JStr ''discard_saved_state''),
                        (''dropped'', JDict [(''saved_state'', JStr state), (''removed'', jstrs removed)])])
                       (ret ''cold_boot_after_discard'')))
           (\<lambda>_. ret ''resumed''))"

record flow_result =
  fr_steps :: "(string, json) dict list"
  fr_kd :: "(string, json) dict option"
  fr_term :: "(string \<times> string) list"
  fr_power :: power_state
  fr_started_via :: string

text \<open>The debugger part of a revert: released before it, attached again after it.\<close>

definition revert_detach :: "('e, 'x) svc_outside_scheme \<Rightarrow> vm_config \<Rightarrow> ('e, 'z, bool) fprog" where
  "revert_detach X vm =
     bindE (getS (kd_alive (vc_name vm))) (\<lambda>was.
     thenE (if was then bindE (run_step X ''kd_detach'' (kd_on X (vc_name vm) kd_detach) []) (\<lambda>_. ret ())
            else add_step X ''kd_detach'' True [(''skipped'', JStr ''not attached'')])
       (ret was))"

definition drop_terms :: "('e, 'x) svc_outside_scheme \<Rightarrow> vm_config \<Rightarrow> ('e, 'z, string list) fprog" where
  "drop_terms X vm =
     bindE (mark_disconnected (vc_name vm)) (\<lambda>dropped.
     thenE (termE X (drop_transport X (vc_name vm)))
     (thenE (add_step X ''term_drop'' True [(''sessions'', jstrs dropped)]) (ret dropped)))"

definition revert_attach ::
  "('e, 'x) svc_outside_scheme \<Rightarrow> vm_config \<Rightarrow> bool \<Rightarrow> bool \<Rightarrow> bool \<Rightarrow> int \<Rightarrow>
   ('e, 'z, (string, json) dict option) fprog" where
  "revert_attach X vm start reattach was timeout =
     (if start \<and> reattach \<and> (was \<or> kd_configured vm)
      then bindE (reattach_kd X vm timeout) (\<lambda>st. ret (Some st))
      else if start \<and> reattach
      then thenE (add_step X ''kd_attach'' True [(''skipped'', JStr KD_NOT_CONFIGURED)]) (ret None)
      else thenE (add_step X ''kd_attach'' True [(''skipped'', JStr ''not requested'')]) (ret None))"

definition revert_start ::
  "('e, 'x) svc_outside_scheme \<Rightarrow> vm_config \<Rightarrow> bool \<Rightarrow> bool \<Rightarrow> ('e, 'z, string) fprog" where
  "revert_start X vm start discard_stale =
     (if start
      then bindE (start_after_revert X vm discard_stale) (\<lambda>via. thenE (set_power (vc_name vm) P_Running) (ret via))
      else bindE (awaitE X (hv_power_state (adapter_for X vm) vm)) (\<lambda>p. thenE (set_power (vc_name vm) p) (ret [])))"

definition finish_flow ::
  "(string, json) dict option \<Rightarrow> (string \<times> string) list \<Rightarrow> power_state \<Rightarrow> string \<Rightarrow> ('e, 'z, flow_result) fprog" where
  "finish_flow kd terms p via w =
     (Inr \<lparr>fr_steps = w_steps w, fr_kd = kd, fr_term = terms, fr_power = p, fr_started_via = via\<rparr>, w)"

definition start_flow :: "('e, 'z, unit) fprog" where
  "start_flow w = (Inr (), w\<lparr>w_steps := []\<rparr>)"

text \<open>The flow after its empty list of steps.\<close>

definition revert_steps ::
  "('e, 'x) svc_outside_scheme \<Rightarrow> vm_config \<Rightarrow> string \<Rightarrow> bool \<Rightarrow> bool \<Rightarrow> bool \<Rightarrow> int \<Rightarrow> bool \<Rightarrow>
   ('e, 'z, flow_result) fprog" where
  "revert_steps X vm name start reattach reopen timeout discard_stale =
     bindE (revert_detach X vm) (\<lambda>was.
     bindE (drop_terms X vm) (\<lambda>dropped.
     thenE (run_step X ''snapshot_revert'' (awaitE X (hv_snapshot_revert (adapter_for X vm) vm name))
              [(''snapshot'', JStr name)])
     (thenE (set_snapshot (vc_name vm) (Some name))
     (bindE (revert_start X vm start discard_stale) (\<lambda>via.
      bindE (revert_attach X vm start reattach was timeout) (\<lambda>kd_status.
      bindE (reopen_step X vm (start \<and> reopen) dropped timeout) (\<lambda>terms.
      bindE (ensure_kd_running X vm kd_status) (\<lambda>kd_status2.
      thenE (eventE X (vc_name vm) ''snapshot_revert'' [(''snapshot'', JStr name)])
      (bindE (getS (\<lambda>w. rt_power (vm_of (w_store w) (vc_name vm)))) (\<lambda>p.
       finish_flow kd_status2 terms p via))))))))))"

definition revert_flow ::
  "('e, 'x) svc_outside_scheme \<Rightarrow> vm_config \<Rightarrow> string \<Rightarrow> bool \<Rightarrow> bool \<Rightarrow> bool \<Rightarrow> int \<Rightarrow> bool \<Rightarrow>
   ('e, 'z, flow_result) fprog" where
  "revert_flow X vm name start reattach reopen timeout discard_stale =
     thenE start_flow (revert_steps X vm name start reattach reopen timeout discard_stale)"

section \<open>Reboot\<close>

definition SHUTDOWN_COMMAND :: string where
  "SHUTDOWN_COMMAND = ''shutdown.exe /r /t 0''"

definition SHUTDOWN_EXE :: string where
  "SHUTDOWN_EXE = ''C:'' @ [BSL] @ ''Windows'' @ [BSL] @ ''System32'' @ [BSL] @ ''shutdown.exe''"

definition soft_shutdown :: "('e, 'x) svc_outside_scheme \<Rightarrow> vm_config \<Rightarrow> transport option \<Rightarrow> ('e, 'z, unit) fprog" where
  "soft_shutdown X vm tr =
     (let tools = run_step X ''guest_shutdown''
                    (awaitE X (hv_run_in_guest (adapter_for X vm) vm SHUTDOWN_EXE [''/r'', ''/t'', ''0'']))
                    [(''via'', JStr ''guest_tools'')]
      in case tr of
           None \<Rightarrow> tools
         | Some t \<Rightarrow>
             catch_nt (awaitE X (x_exec_once X t SHUTDOWN_COMMAND 30000))
               (\<lambda>exc. thenE (add_step X ''guest_shutdown'' False
                  [(''via'', JStr ''ssh''), (''error'', JDict (error_body exc))]) tools)
               (\<lambda>_. add_step X ''guest_shutdown'' True [(''via'', JStr ''ssh'')]))"

definition BOOT_TIME_COMMAND :: string where
  "BOOT_TIME_COMMAND = ''(Get-CimInstance Win32_OperatingSystem).LastBootUpTime.ToFileTimeUtc()''"

definition guest_boot_time :: "('e, 'x) svc_outside_scheme \<Rightarrow> transport option \<Rightarrow> ('e, 'z, int option) sprog" where
  "guest_boot_time X tr =
     (case tr of
        None \<Rightarrow> ret None
      | Some t \<Rightarrow>
          catch_nt (awaitE X (x_exec_once X t BOOT_TIME_COMMAND 20000))
            (\<lambda>_. ret None)
            (\<lambda>(code, out).
               let line = (if py_strip out = [] then [] else py_strip (last (split_lines (py_strip out))))
               in if \<not> all_digits (lstrip_by (\<lambda>c. c = CHR ''-'') line) then ret None
                  else (case py_int line of None \<Rightarrow> raise (Exn ''ValueError'') | Some n \<Rightarrow> ret (Some n))))"

definition REBOOT_VERIFY_GRACE :: int where "REBOOT_VERIFY_GRACE = 30000"
definition REBOOT_VERIFY_INTERVAL :: int where "REBOOT_VERIFY_INTERVAL = 3000"

text \<open>\<open>_soft_reboot_took\<close>: \<open>t\<close> is the time reached so far; a sleep ends no earlier than it asks.\<close>

function soft_reboot_took ::
  "('e, 'x) svc_outside_scheme \<Rightarrow> transport option \<Rightarrow> int \<Rightarrow> int \<Rightarrow> int \<Rightarrow> ('e, 'z) svc_world_scheme \<Rightarrow>
   (exn + bool) \<times> ('e, 'z) svc_world_scheme" where
  "soft_reboot_took X tr before deadline t w =
     (case guest_boot_time X tr w of
        (Inl x, w1) \<Rightarrow> (Inl x, w1)
      | (Inr None, w1) \<Rightarrow> (Inr True, w1)
      | (Inr (Some boot), w1) \<Rightarrow>
          if before < boot then (Inr True, w1)
          else if deadline \<le> max t (now X w1) then (Inr False, w1)
          else soft_reboot_took X tr before deadline (max t (now X w1) + REBOOT_VERIFY_INTERVAL)
                 (snd (termE X (sleepE X REBOOT_VERIFY_INTERVAL) w1)))"
  by pat_completeness auto
termination
  by (relation "measure (\<lambda>(X, tr, before, deadline, t, w). nat (deadline - t))")
    (auto simp: REBOOT_VERIFY_INTERVAL_def)

declare soft_reboot_took.simps [simp del]

definition kd_find_again :: "int \<Rightarrow> bool kd" where
  "kd_find_again timeout k =
     (case find_target (kw_now k + timeout) (on_s (\<lambda>s. s\<lparr>ks_state := K_Waiting\<rparr>) k) of (reached, k') \<Rightarrow> (Inr reached, k'))"

definition session_state_text :: "string \<Rightarrow> ('e, 'z) svc_world_scheme \<Rightarrow> string" where
  "session_state_text vm w =
     (case dict_get (w_kd w) vm of None \<Rightarrow> [] | Some s \<Rightarrow> kd_state_text (ks_state s))"

definition session_status :: "string \<Rightarrow> ('e, 'z) svc_world_scheme \<Rightarrow> (string, json) dict" where
  "session_status vm w = (case dict_get (w_kd w) vm of None \<Rightarrow> [] | Some s \<Rightarrow> kd_status s)"

definition kd_after_reboot ::
  "('e, 'x) svc_outside_scheme \<Rightarrow> vm_config \<Rightarrow> int \<Rightarrow> bool \<Rightarrow> ('e, 'z, (string, json) dict option) fprog" where
  "kd_after_reboot X vm timeout alive w =
     (if alive \<and> dict_has (w_kd w) (vc_name vm)
      then
        bindE (kd_on X (vc_name vm) (kd_find_again timeout)) (\<lambda>reached.
        bindE (getS (session_state_text (vc_name vm))) (\<lambda>st.
          if reached
          then thenE (add_step X ''kd_reconnect'' True [(''state'', JStr st)])
                 (bindE (getS (session_status (vc_name vm))) (\<lambda>status. ret (Some status)))
          else
            thenE (add_step X ''kd_reconnect'' False [(''state'', JStr st), (''retry'', JStr ''respawn'')])
            (thenE (run_step X ''kd_detach'' (kd_on X (vc_name vm) kd_detach) [])
            (bindE (reattach_kd X vm timeout) (\<lambda>status. ret (Some status)))))) w
      else if kd_configured vm then bindE (reattach_kd X vm timeout) (\<lambda>status. ret (Some status)) w
      else thenE (add_step X ''kd_attach'' True [(''skipped'', JStr KD_NOT_CONFIGURED)]) (ret None) w)"

datatype reboot_mode = Soft | Hard | By_Kd

definition mode_text :: "reboot_mode \<Rightarrow> string" where
  "mode_text m = (case m of Soft \<Rightarrow> ''soft'' | Hard \<Rightarrow> ''hard'' | By_Kd \<Rightarrow> ''kd'')"

definition kd_is_broken :: "string \<Rightarrow> ('e, 'z) svc_world_scheme \<Rightarrow> bool" where
  "kd_is_broken vm w = (case dict_get (w_kd w) vm of None \<Rightarrow> False | Some s \<Rightarrow> ks_state s = K_Broken)"

text \<open>A frozen guest is resumed for a soft or hard reboot; the debugger's own reboot needs the prompt.\<close>

definition reboot_prepare :: "('e, 'x) svc_outside_scheme \<Rightarrow> vm_config \<Rightarrow> reboot_mode \<Rightarrow> ('e, 'z, unit) fprog" where
  "reboot_prepare X vm mode =
     bindE (getS (kd_is_broken (vc_name vm))) (\<lambda>broken.
     thenE (if mode \<noteq> By_Kd \<and> broken
            then bindE (run_step X ''kd_go'' (kd_on X (vc_name vm) kd_go) [(''reason'', JStr ''the target was broken in'')]) (\<lambda>_. ret ())
            else ret ())
       (if mode = By_Kd \<and> \<not> broken then throw KD_NOT_BROKEN else ret ()))"

definition reboot_soft :: "('e, 'x) svc_outside_scheme \<Rightarrow> vm_config \<Rightarrow> transport option \<Rightarrow> ('e, 'z, unit) fprog" where
  "reboot_soft X vm tr =
     bindE (guest_boot_time X tr) (\<lambda>before_boot.
     thenE (soft_shutdown X vm tr)
       (case before_boot of
          None \<Rightarrow> ret ()
        | Some before \<Rightarrow>
            bindE (\<lambda>w. soft_reboot_took X tr before (now X w + REBOOT_VERIFY_GRACE) (now X w) w) (\<lambda>took.
              if took then ret ()
              else thenE (add_step X ''reboot_verify'' False
                            [(''reason'', JStr ''guest did not reboot within the grace''), (''fallback'', JStr ''hard'')])
                     (run_step X ''reset'' (awaitE X (hv_reset (adapter_for X vm) vm True)) [(''via'', JStr ''hard_fallback'')]))))"

definition reboot_hard :: "('e, 'x) svc_outside_scheme \<Rightarrow> vm_config \<Rightarrow> ('e, 'z, unit) fprog" where
  "reboot_hard X vm =
     thenE (run_step X ''reset'' (awaitE X (hv_reset (adapter_for X vm) vm True)) [])
       (bindE (refresh_power X vm) (\<lambda>p.
          if p = P_Running then ret ()
          else thenE (add_step X ''reset_verify'' False
                        [(''reason'', JStr ''the reset left the VM powered off instead of resetting it''),
                         (''fallback'', JStr ''start'')])
                 (run_step X ''start'' (awaitE X (hv_start (adapter_for X vm) vm False)) [(''via'', JStr ''reset_fallback'')])))"

definition kd_reboot :: "unit kd" where
  "kd_reboot =
     thenE (kd_write (''.reboot'' @ [NL])) (\<lambda>k. (Inr (), on_s (\<lambda>s. s\<lparr>ks_state := K_Waiting\<rparr>) k))"

definition reboot_kd :: "('e, 'x) svc_outside_scheme \<Rightarrow> vm_config \<Rightarrow> ('e, 'z, unit) fprog" where
  "reboot_kd X vm = thenE (kd_on X (vc_name vm) kd_reboot) (add_step X ''kd_reboot'' True [])"

definition reboot_flow ::
  "('e, 'x) svc_outside_scheme \<Rightarrow> vm_config \<Rightarrow> reboot_mode \<Rightarrow> bool \<Rightarrow> bool \<Rightarrow> int \<Rightarrow> ('e, 'z, flow_result) fprog" where
  "reboot_flow X vm mode reattach reopen timeout =
     thenE start_flow
     (bindE (getS (kd_alive (vc_name vm))) (\<lambda>alive.
      thenE (reboot_prepare X vm mode)
      (bindE (getS (transport_for (vc_name vm) Admin)) (\<lambda>tr.
       bindE (mark_disconnected (vc_name vm)) (\<lambda>dropped.
       thenE (add_step X ''term_drop'' True [(''sessions'', jstrs dropped)])
       (thenE (case mode of Soft \<Rightarrow> reboot_soft X vm tr | Hard \<Rightarrow> reboot_hard X vm | By_Kd \<Rightarrow> reboot_kd X vm)
       (thenE (termE X (drop_transport X (vc_name vm)))
       (bindE (if reattach then kd_after_reboot X vm timeout alive
               else thenE (add_step X ''kd_attach'' True [(''skipped'', JStr ''not requested'')]) (ret None)) (\<lambda>kd_status.
        bindE (reopen_step X vm reopen dropped timeout) (\<lambda>terms.
        bindE (refresh_power X vm) (\<lambda>p.
        bindE (ensure_kd_running X vm kd_status) (\<lambda>kd_status2.
        thenE (eventE X (vc_name vm) ''reboot'' [(''mode'', JStr (mode_text mode))])
          (finish_flow kd_status2 terms p [])))))))))))))"

end
