(* ===== verification/Demo_Host.thy ===== *)
theory Demo_Host
  imports Service
begin

text \<open>
  A small host for the witnesses of the theories above the service: one machine with a clock, a power
  state, its snapshots and whether the hypervisor refuses to snapshot it while it runs. Its debugger prints
  nothing and its terminals are silent.
\<close>

record demo_env =
  de_now :: int
  de_power :: power_state
  de_snaps :: "string list"
  de_encrypted :: bool
  de_starts :: bool

definition demo_nt :: "string \<Rightarrow> string \<Rightarrow> exn" where
  "demo_nt code why = Nt (nt_err_with code [(''reason'', JStr why)])"

definition demo_tree :: "string list \<Rightarrow> snapshot_tree" where
  "demo_tree names = \<lparr>st_roots = map (\<lambda>n. Snapshot n []) names, st_current = None\<rparr>"

definition demo_refuses :: "demo_env \<Rightarrow> bool" where
  "demo_refuses e = (de_encrypted e \<and> de_power e = P_Running)"

definition demo_adapter :: "demo_env hypervisor" where
  "demo_adapter =
     \<lparr>hv_power_state = (\<lambda>vm e. (Inr (de_power e), e)),
      hv_power_states = (\<lambda>vms e. (Inr (map (\<lambda>vm. (vc_name vm, de_power e)) vms), e)),
      hv_host_cpu = (\<lambda>vm e. (Inr (Some 0), e)),
      hv_start = (\<lambda>vm gui e. if de_starts e then (Inr (), e\<lparr>de_power := P_Running\<rparr>)
                             else (Inl (demo_nt BACKEND_ERROR ''saved_state_stale''), e)),
      hv_stop = (\<lambda>vm hard e. (Inr (), e\<lparr>de_power := P_Off\<rparr>)),
      hv_reset = (\<lambda>vm hard e. (Inr (), e)),
      hv_suspend = (\<lambda>vm e. (Inr (), e\<lparr>de_power := P_Suspended\<rparr>)),
      hv_snapshot_take = (\<lambda>vm n e. if demo_refuses e then (Inl (demo_nt BACKEND_ERROR ''encrypted_live_snapshot''), e)
                             else (Inr (), e\<lparr>de_snaps := de_snaps e @ [n]\<rparr>)),
      hv_snapshot_list = (\<lambda>vm e. (Inr (demo_tree (de_snaps e)), e)),
      hv_snapshot_revert = (\<lambda>vm n e. (Inr (), e\<lparr>de_power := P_Suspended\<rparr>)),
      hv_snapshot_delete = (\<lambda>vm n ch e. (Inr (), e\<lparr>de_snaps := removeAll n (de_snaps e)\<rparr>)),
      hv_guest_ip = (\<lambda>vm t e. (Inr ''10.0.0.5'', e)),
      hv_screenshot = (\<lambda>vm p e. (Inr p, e)),
      hv_copy_to_guest = (\<lambda>vm a b e. (Inr (), e)),
      hv_copy_from_guest = (\<lambda>vm a b e. (Inr (), e)),
      hv_run_in_guest = (\<lambda>vm p args e. (Inr (), e)),
      hv_ensure_serial_pipe = (\<lambda>vm p e. (Inr False, e)),
      hv_vnc_endpoint = (\<lambda>vm e. None),
      hv_ensure_vnc = (\<lambda>vm p e. (Inr (False, p), e)),
      hv_guest_stat = (\<lambda>vm p e. (Inr None, e)),
      hv_guest_list = (\<lambda>vm p e. (Inr None, e)),
      hv_guest_delete = (\<lambda>vm p r e. (Inr True, e)),
      hv_guest_sha256 = (\<lambda>vm ps e. (Inr [], e)),
      hv_discard_saved_state = (\<lambda>vm e. (Inr (''win.vmss'', []), e)),
      hv_kill = (\<lambda>vm e. (Inr [], e)),
      hv_hardware = (\<lambda>vm e. (Inl (demo_nt BACKEND_ERROR []), e)),
      hv_set_hardware = (\<lambda>vm ch e. (Inl (demo_nt BACKEND_ERROR []), e))\<rparr>"

definition demo_config :: nt_config where
  "demo_config = \<lparr>c_host = DEFAULT_HOST, c_vms = [(''win'', sample_vm)], c_path = []\<rparr>"

definition demo_outside :: "demo_env svc_outside" where
  "demo_outside =
     \<lparr>x_now = de_now, x_sleep_until = (\<lambda>t e. e\<lparr>de_now := max t (de_now e)\<rparr>), x_token = (\<lambda>e. (''ab'', e)),
      x_open_channel = (\<lambda>tr cmd c r e. (Inr (), e)), x_close_transport = (\<lambda>tr e. e),
      x_channel_write = (\<lambda>sid d e. (True, e)), x_session_inbox = (\<lambda>sid e. ([], e)),
      x_session_rest = (\<lambda>sid i e. e), x_wait_for_port = (\<lambda>ip p t e. (True, e)),
      x_config = demo_config, x_coview_base = [], x_log_dir = ''logs'', x_adapters = [(''vmware'', demo_adapter)],
      x_kd_future = (\<lambda>vm e. \<lparr>kf_inbox = [], kf_spawns = [], kf_breaks = [], kf_tokens = [], kf_hangs = False\<rparr>),
      x_kd_done = (\<lambda>vm f ops e. e), x_ssh_probe = (\<lambda>ip p e. (True, e)), x_exec_once = (\<lambda>t c ms e. (Inr (0, []), e)),
      x_pipe_check = (\<lambda>e p. False),
      x_firewall_check = (\<lambda>kd e. (\<lparr>fw_allow = True, fw_block_rules = [], fw_checked = True, fw_error = []\<rparr>, e)),
      x_firewall_fix = (\<lambda>kd t e. (Inr \<lparr>fw_allow = True, fw_block_rules = [], fw_checked = True, fw_error = []\<rparr>, e))\<rparr>"

definition demo_kd :: kd_session where
  "demo_kd =
     \<lparr>ks_vm = ''win'', ks_kd_path = ''kd.exe'', ks_port = 9, ks_key = ''k.e.y.1'', ks_transport = ''net'',
      ks_serial_pipe = [], ks_symbol_path = [], ks_log_path = ''kd.log'', ks_capacity = 64,
      ks_proc = Some \<lparr>kp_pid = 4, kp_exit = None, kp_pipe_ok = True\<rparr>, ks_buf = [], ks_base = 0,
      ks_state = K_Running, ks_target_info = [], ks_kernel_base = [], ks_target_confirmed = True,
      ks_last_event = None, ks_log_open = True, ks_log = []\<rparr>"

definition demo_world :: "demo_env \<Rightarrow> demo_env svc_world" where
  "demo_world e =
     \<lparr>w_store = empty_store 0, w_env = e, w_sessions = [], w_transports = [], w_ips = [],
      w_kd = [(''win'', demo_kd)], w_fw_cache = None, w_snap_meta = []\<rparr>"

definition demo_running :: demo_env where
  "demo_running = \<lparr>de_now = 0, de_power = P_Running, de_snaps = [''base''], de_encrypted = False, de_starts = True\<rparr>"

text \<open>Reading a field of the host, so that a witness does not carry the whole record about.\<close>

lemma demo_adapter_sel [simp]:
  "hv_power_state demo_adapter = (\<lambda>vm e. (Inr (de_power e), e))"
  "hv_power_states demo_adapter = (\<lambda>vms e. (Inr (map (\<lambda>vm. (vc_name vm, de_power e)) vms), e))"
  "hv_start demo_adapter = (\<lambda>vm gui e. if de_starts e then (Inr (), e\<lparr>de_power := P_Running\<rparr>) else (Inl (demo_nt BACKEND_ERROR ''saved_state_stale''), e))"
  "hv_stop demo_adapter = (\<lambda>vm hard e. (Inr (), e\<lparr>de_power := P_Off\<rparr>))"
  "hv_reset demo_adapter = (\<lambda>vm hard e. (Inr (), e))"
  "hv_suspend demo_adapter = (\<lambda>vm e. (Inr (), e\<lparr>de_power := P_Suspended\<rparr>))"
  "hv_snapshot_take demo_adapter = (\<lambda>vm n e. if demo_refuses e then (Inl (demo_nt BACKEND_ERROR ''encrypted_live_snapshot''), e) else (Inr (), e\<lparr>de_snaps := de_snaps e @ [n]\<rparr>))"
  "hv_snapshot_list demo_adapter = (\<lambda>vm e. (Inr (demo_tree (de_snaps e)), e))"
  "hv_snapshot_revert demo_adapter = (\<lambda>vm n e. (Inr (), e\<lparr>de_power := P_Suspended\<rparr>))"
  "hv_snapshot_delete demo_adapter = (\<lambda>vm n ch e. (Inr (), e\<lparr>de_snaps := removeAll n (de_snaps e)\<rparr>))"
  "hv_guest_ip demo_adapter = (\<lambda>vm t e. (Inr ''10.0.0.5'', e))"
  by (simp_all add: demo_adapter_def)

lemma demo_outside_sel [simp]:
  "x_now demo_outside = de_now"
  "x_sleep_until demo_outside = (\<lambda>t e. e\<lparr>de_now := max t (de_now e)\<rparr>)"
  "x_token demo_outside = (\<lambda>e. (''ab'', e))"
  "x_open_channel demo_outside = (\<lambda>tr cmd c r e. (Inr (), e))"
  "x_close_transport demo_outside = (\<lambda>tr e. e)"
  "x_channel_write demo_outside = (\<lambda>sid d e. (True, e))"
  "x_session_inbox demo_outside = (\<lambda>sid e. ([], e))"
  "x_session_rest demo_outside = (\<lambda>sid i e. e)"
  "x_wait_for_port demo_outside = (\<lambda>ip p t e. (True, e))"
  "x_config demo_outside = demo_config"
  "x_coview_base demo_outside = []"
  "x_log_dir demo_outside = ''logs''"
  "x_adapters demo_outside = [(''vmware'', demo_adapter)]"
  "x_kd_future demo_outside = (\<lambda>vm e. \<lparr>kf_inbox = [], kf_spawns = [], kf_breaks = [], kf_tokens = [], kf_hangs = False\<rparr>)"
  "x_kd_done demo_outside = (\<lambda>vm f ops e. e)"
  "x_ssh_probe demo_outside = (\<lambda>ip p e. (True, e))"
  "x_exec_once demo_outside = (\<lambda>t c ms e. (Inr (0, []), e))"
  "x_pipe_check demo_outside = (\<lambda>e p. False)"
  "x_firewall_check demo_outside = (\<lambda>kd e. (\<lparr>fw_allow = True, fw_block_rules = [], fw_checked = True, fw_error = []\<rparr>, e))"
  "x_firewall_fix demo_outside = (\<lambda>kd t e. (Inr \<lparr>fw_allow = True, fw_block_rules = [], fw_checked = True, fw_error = []\<rparr>, e))"
  by (simp_all add: demo_outside_def)

lemma demo_config_sel [simp]:
  "c_host demo_config = DEFAULT_HOST" "c_vms demo_config = [(''win'', sample_vm)]"
  by (simp_all add: demo_config_def)

lemma sample_vm_sel [simp]:
  "vc_name sample_vm = ''win''" "vc_backend sample_vm = ''vmware''" "vc_kd_transport sample_vm = Net"
  "vc_guest sample_vm = sample_guest" "vc_kdnet sample_vm = DEFAULT_KDNET"
  by (simp_all add: sample_vm_def)

lemma demo_kd_sel [simp]:
  "ks_proc demo_kd = Some \<lparr>kp_pid = 4, kp_exit = None, kp_pipe_ok = True\<rparr>" "ks_state demo_kd = K_Running"
  "ks_transport demo_kd = ''net''" "ks_vm demo_kd = ''win''"
  by (simp_all add: demo_kd_def)

lemma demo_world_sel [simp]:
  "w_store (demo_world e) = empty_store 0" "w_env (demo_world e) = e" "w_sessions (demo_world e) = []"
  "w_transports (demo_world e) = []" "w_ips (demo_world e) = []" "w_kd (demo_world e) = [(''win'', demo_kd)]"
  "w_fw_cache (demo_world e) = None" "w_snap_meta (demo_world e) = []"
  by (simp_all add: demo_world_def)

lemma demo_running_sel [simp]:
  "de_now demo_running = 0" "de_power demo_running = P_Running" "de_snaps demo_running = [''base'']"
  "de_encrypted demo_running = False" "de_starts demo_running = True"
  by (simp_all add: demo_running_def)

lemma demo_adapter_for [simp]: "adapter_for demo_outside sample_vm = demo_adapter"
  by (simp add: adapter_for_def)

lemma vm_of_empty: "vm_of (empty_store t) n = fresh_runtime n"
  by (simp add: vm_of_def store_vm_def empty_store_def)

text \<open>The machine with a debugger key of its own.\<close>

definition demo_vm :: vm_config where
  "demo_vm = sample_vm\<lparr>vc_kdnet := \<lparr>kn_port = 9, kn_key = ''k.e.y''\<rparr>\<rparr>"

lemma demo_vm_sel [simp]:
  "adapter_for demo_outside demo_vm = demo_adapter" "vc_name demo_vm = ''win''" "vc_backend demo_vm = ''vmware''"
  "kn_key (vc_kdnet demo_vm) = ''k.e.y''" "vc_kd_transport demo_vm = Net"
  by (simp_all add: adapter_for_def demo_vm_def)

end
