(* ===== verification/Flow_Properties.thy ===== *)
theory Flow_Properties
  imports Orchestrator Demo_Host
begin

text \<open>
  What the flows promise: the order of the steps of a revert, that an error of one carries the steps
  that ran before it, and that neither flow hands back a guest that stands at a debugger prompt.
\<close>

section \<open>Programs that leave the recorded steps alone\<close>

definition no_steps :: "('e, 'z, 'a) fprog \<Rightarrow> bool" where
  "no_steps m = (\<forall>w. w_steps (snd (m w)) = w_steps w)"

lemma no_stepsI: "(\<And>w. w_steps (snd (m w)) = w_steps w) \<Longrightarrow> no_steps m"
  by (simp add: no_steps_def)

lemma no_stepsD: "no_steps m \<Longrightarrow> w_steps (snd (m w)) = w_steps w"
  by (simp add: no_steps_def)

lemma no_steps_preserves: "(\<And>c. preserves (\<lambda>w. w_steps w = c) m) \<Longrightarrow> no_steps m"
  by (simp add: no_steps_def preserves_def hoare_def)

lemma no_steps_ret: "no_steps (ret x)"
  by (simp add: no_steps_def ret_def)

lemma no_steps_raise: "no_steps (raise x)" "no_steps (throw c)"
  by (simp_all add: no_steps_def raise_def throw_def)

lemma no_steps_bindE: "no_steps m \<Longrightarrow> (\<And>x. no_steps (f x)) \<Longrightarrow> no_steps (bindE m f)"
  unfolding no_steps_def bindE_def by (auto split: prod.splits sum.splits) (metis snd_conv)+

lemma no_steps_thenE: "no_steps m \<Longrightarrow> no_steps k \<Longrightarrow> no_steps (thenE m k)"
  by (simp add: thenE_def no_steps_bindE)

lemma no_steps_tryE: "no_steps m \<Longrightarrow> (\<And>x. no_steps (h x)) \<Longrightarrow> (\<And>x. no_steps (k x)) \<Longrightarrow> no_steps (tryE m h k)"
  unfolding no_steps_def tryE_def by (auto split: prod.splits sum.splits) (metis snd_conv)+

lemma no_steps_catch: "no_steps m \<Longrightarrow> (\<And>x. no_steps (h x)) \<Longrightarrow> (\<And>x. no_steps (k x)) \<Longrightarrow> no_steps (catch_nt m h k)"
  unfolding catch_nt_def by (intro no_steps_tryE) (auto split: exn.splits simp: no_steps_raise)

lemma no_steps_suppress: "no_steps m \<Longrightarrow> no_steps (suppress_nt m)"
  by (simp add: suppress_nt_def no_steps_catch no_steps_ret)

lemma no_steps_getS: "no_steps (getS f)"
  by (simp add: no_steps_def getS_def)

lemma no_steps_mapE: "(\<And>x. no_steps (f x)) \<Longrightarrow> no_steps (mapE f xs)"
  by (induction xs) (simp_all add: no_steps_bindE no_steps_ret)

lemmas no_steps_rules =
  no_steps_ret no_steps_raise no_steps_bindE no_steps_thenE no_steps_catch no_steps_suppress no_steps_getS
  no_steps_mapE

text \<open>The terminal manager.\<close>

lemma channel_closed_steps [simp]: "w_steps (on_channel_closed sid w) = w_steps w"
  by (simp add: on_channel_closed_def set_session_def split: option.splits)

lemma no_steps_wait_on: "no_steps (wait_on X sid f t c cl mb ab sk)"
  by (rule no_stepsI) (simp add: wait_on_def wait_held_def set_session_def Let_def split: option.splits prod.splits)

lemma no_steps_send_to: "no_steps (send_to X sid d src)"
  by (rule no_stepsI)
    (simp add: send_to_def set_session_def Let_def split: option.splits prod.splits sum.splits)

lemma no_steps_env: "no_steps (envE f)" "no_steps (env_tryE g)"
  by (simp_all add: no_steps_def envE_def env_tryE_def split: prod.splits)

lemma no_steps_term_small:
  "no_steps (set_cursor sid c)" "no_steps (set_shell_pid sid p)" "no_steps (set_successor a b)"
  "no_steps (register_session sid vm sh acct cols rows base t)" "no_steps (mark_disconnected v)"
  "no_steps (drop_transport X v)" "no_steps (get_transport X vm ip acct)"
  by (simp_all add: no_steps_def set_cursor_def set_shell_pid_def set_successor_def register_session_def
      mark_disconnected_def drop_transport_def get_transport_def close_transport_def set_session_def Let_def
      thenE_def bindE_def split: option.splits)

lemma no_steps_quiet: "no_steps (quiet_psreadline X sid)" "no_steps (probe_shell_pid X sid sh)"
  unfolding quiet_psreadline_def probe_shell_pid_def wait_for_def
  by (auto intro!: no_steps_rules no_steps_wait_on no_steps_send_to no_steps_term_small split: option.splits)

lemma no_steps_open: "no_steps (term_open X base vm ip sh cols rows kind acct)"
  unfolding term_open_def Let_def
  by (auto intro!: no_steps_rules no_steps_env no_steps_quiet no_steps_term_small)

lemma no_steps_successor: "no_steps (open_successor X base vm ip old)"
proof (rule no_stepsI)
  fix w :: "('a, 'b) flow_world_scheme"
  show "w_steps (snd (open_successor X base vm ip old w)) = w_steps w"
    unfolding open_successor_def Let_def
    by (rule no_stepsD, intro no_steps_rules no_steps_open no_steps_term_small)
qed

lemma no_steps_reopen: "no_steps (term_reopen X base vm ip olds t)"
  unfolding term_reopen_def
  by (auto intro!: no_steps_rules no_steps_env no_steps_term_small no_steps_successor)

text \<open>The debugger sessions and the waits of the daemon.\<close>

lemma kd_put_steps [simp]: "w_steps (kd_put X vm k w) = w_steps w"
  by (simp add: kd_put_def)

lemma no_steps_kd_on: "no_steps (kd_on X vm m)"
  by (rule no_stepsI) (simp add: kd_on_def split: option.splits prod.splits)

lemma catch_up_one_steps [simp]: "w_steps (catch_up_one X vm w) = w_steps w"
  by (simp add: catch_up_one_def Let_def split: option.splits prod.splits)

lemma fold_catch_up_steps: "w_steps (fold (catch_up_one X) vms w) = w_steps w"
  by (induction vms arbitrary: w) simp_all

lemma catch_up_steps [simp]: "w_steps (catch_up X w) = w_steps w"
  by (simp add: catch_up_def fold_catch_up_steps)

lemma no_steps_await: "no_steps (awaitE X f)"
  by (rule no_stepsI) (simp add: awaitE_def env_tryE_def split: prod.splits)

lemma no_steps_termE: "no_steps m \<Longrightarrow> no_steps (termE X m)"
  unfolding no_steps_def termE_def by (auto split: prod.splits) (metis snd_conv)

lemma no_steps_service:
  "no_steps (storeE f)" "no_steps (eventE X v k d)" "no_steps (svc_runtime X v)" "no_steps (kd_session_for X vm p key)"
  "no_steps (set_power v pw)" "no_steps (set_snapshot v s)"
  by (simp_all add: no_steps_def storeE_def eventE_def svc_runtime_def kd_session_for_def set_power_def
      set_snapshot_def Let_def)

section \<open>What a flow records\<close>

definition step_name :: "(string, json) dict \<Rightarrow> string" where
  "step_name s = (case dict_get s ''step'' of Some (JStr n) \<Rightarrow> n | _ \<Rightarrow> [])"

definition step_ok :: "(string, json) dict \<Rightarrow> bool" where
  "step_ok s = (dict_get s ''ok'' = Some (JBool True))"

text \<open>The steps a program adds: on success their names are as \<open>Q\<close> says, and an error carries every step
  recorded so far, the last of which failed.\<close>

definition logs :: "('e, 'z, 'a) fprog \<Rightarrow> ('a \<Rightarrow> string list \<Rightarrow> bool) \<Rightarrow> bool" where
  "logs m Q =
     (\<forall>w r w'. m w = (r, w') \<longrightarrow>
        (\<exists>new. w_steps w' = w_steps w @ new \<and>
           (case r of
              Inr x \<Rightarrow> Q x (map step_name new)
            | Inl (Nt e) \<Rightarrow> new \<noteq> [] \<and> \<not> step_ok (last new) \<and> dict_get (err_extra e) ''steps'' = Some (jsteps (w_steps w'))
            | Inl _ \<Rightarrow> True)))"

lemma logsI:
  assumes "\<And>w x w'. m w = (Inr x, w') \<Longrightarrow> \<exists>new. w_steps w' = w_steps w @ new \<and> Q x (map step_name new)"
    and "\<And>w e w'. m w = (Inl (Nt e), w') \<Longrightarrow>
      \<exists>new. w_steps w' = w_steps w @ new \<and> new \<noteq> [] \<and> \<not> step_ok (last new) \<and>
        dict_get (err_extra e) ''steps'' = Some (jsteps (w_steps w'))"
    and "\<And>w. \<exists>new. w_steps (snd (m w)) = w_steps w @ new"
  shows "logs m Q"
  unfolding logs_def
proof (intro allI impI)
  fix w r w' assume m: "m w = (r, w')"
  have "\<exists>new. w_steps w' = w_steps w @ new" using assms(3) [of w] m by simp
  then show "\<exists>new. w_steps w' = w_steps w @ new \<and>
      (case r of Inr x \<Rightarrow> Q x (map step_name new)
       | Inl (Nt e) \<Rightarrow> new \<noteq> [] \<and> \<not> step_ok (last new) \<and> dict_get (err_extra e) ''steps'' = Some (jsteps (w_steps w'))
       | Inl _ \<Rightarrow> True)"
    using assms(1,2) m by (cases r rule: sum.exhaust; cases "projl r") auto
qed

lemma logs_Inr: "logs m Q \<Longrightarrow> m w = (Inr x, w') \<Longrightarrow> \<exists>new. w_steps w' = w_steps w @ new \<and> Q x (map step_name new)"
  unfolding logs_def by fastforce

lemma logs_Inl:
  "logs m Q \<Longrightarrow> m w = (Inl (Nt e), w') \<Longrightarrow>
   \<exists>new. w_steps w' = w_steps w @ new \<and> new \<noteq> [] \<and> \<not> step_ok (last new) \<and>
     dict_get (err_extra e) ''steps'' = Some (jsteps (w_steps w'))"
  unfolding logs_def by fastforce

lemma logs_grows: "logs m Q \<Longrightarrow> \<exists>new. w_steps (snd (m w)) = w_steps w @ new"
  unfolding logs_def by (metis prod.collapse)

lemma logs_mono: "logs m Q \<Longrightarrow> (\<And>x names. Q x names \<Longrightarrow> R x names) \<Longrightarrow> logs m R"
  by (rule logsI) (auto dest: logs_Inr logs_Inl logs_grows)

lemma logs_bindE:
  assumes m: "logs m Q" and f: "\<And>x. logs (f x) (R x)"
  shows "logs (bindE m f) (\<lambda>y names. \<exists>x a b. Q x a \<and> R x y b \<and> names = a @ b)"
proof (rule logsI)
  fix w y w' assume "bindE m f w = (Inr y, w')"
  then obtain x w1 where x: "m w = (Inr x, w1)" "f x w1 = (Inr y, w')"
    by (auto simp: bindE_def split: prod.splits sum.splits)
  obtain a b where "w_steps w1 = w_steps w @ a" "Q x (map step_name a)"
      "w_steps w' = w_steps w1 @ b" "R x y (map step_name b)"
    using logs_Inr [OF m x(1)] logs_Inr [OF f x(2)] by blast
  then show "\<exists>new. w_steps w' = w_steps w @ new \<and> (\<exists>x a b. Q x a \<and> R x y b \<and> map step_name new = a @ b)"
    by (intro exI [of _ "a @ b"]) auto
next
  fix w e w' assume e: "bindE m f w = (Inl (Nt e), w')"
  show "\<exists>new. w_steps w' = w_steps w @ new \<and> new \<noteq> [] \<and> \<not> step_ok (last new) \<and>
      dict_get (err_extra e) ''steps'' = Some (jsteps (w_steps w'))"
  proof (cases "fst (m w)")
    case (Inl x)
    then show ?thesis using e logs_Inl [OF m, of w e w'] by (auto simp: bindE_def split: prod.splits)
  next
    case (Inr x)
    then obtain w1 where x: "m w = (Inr x, w1)" "f x w1 = (Inl (Nt e), w')"
      using e by (auto simp: bindE_def split: prod.splits)
    obtain a b where "w_steps w1 = w_steps w @ a" "w_steps w' = w_steps w1 @ b" "b \<noteq> []" "\<not> step_ok (last b)"
        "dict_get (err_extra e) ''steps'' = Some (jsteps (w_steps w'))"
      using logs_Inr [OF m x(1)] logs_Inl [OF f x(2)] by blast
    then show ?thesis by (intro exI [of _ "a @ b"]) auto
  qed
next
  fix w
  obtain a where "w_steps (snd (m w)) = w_steps w @ a" using logs_grows [OF m] by blast
  then show "\<exists>new. w_steps (snd (bindE m f w)) = w_steps w @ new"
    using logs_grows [OF f] by (auto simp: bindE_def split: prod.splits sum.splits) (metis append.assoc snd_conv)
qed

text \<open>A program without steps that raises no error of its own.\<close>

definition no_nt :: "('w, 'a) app \<Rightarrow> bool" where
  "no_nt m = (\<forall>w e w'. m w \<noteq> (Inl (Nt e), w'))"

lemma logs_silent: "no_steps m \<Longrightarrow> no_nt m \<Longrightarrow> logs m (\<lambda>x names. names = [])"
proof (rule logsI)
  assume m: "no_steps m" "no_nt m"
  show "\<exists>new. w_steps w' = w_steps w @ new \<and> map step_name new = []" if "m w = (Inr x, w')" for w x w'
    using no_stepsD [OF m(1), of w] that by simp
  show "\<exists>new. w_steps w' = w_steps w @ new \<and> new \<noteq> [] \<and> \<not> step_ok (last new) \<and>
      dict_get (err_extra e) ''steps'' = Some (jsteps (w_steps w'))" if "m w = (Inl (Nt e), w')" for w e w'
    using m(2) that by (simp add: no_nt_def)
  show "\<exists>new. w_steps (snd (m w)) = w_steps w @ new" for w
    using no_stepsD [OF m(1), of w] by simp
qed

lemma logs_ret: "logs (ret x) (\<lambda>y names. y = x \<and> names = [])"
  by (rule logsI) (auto simp: ret_def)

lemma logs_getS: "logs (getS f) (\<lambda>y names. names = [])"
  by (rule logs_silent) (auto simp: no_steps_getS no_nt_def getS_def)

lemma logs_return: "logs m Q \<Longrightarrow> logs (bindE m (\<lambda>x. ret (g x))) (\<lambda>y names. \<exists>x. y = g x \<and> Q x names)"
  by (rule logs_mono [OF logs_bindE [OF _ logs_ret]]) auto

lemma logs_thenE:
  "logs m Q \<Longrightarrow> logs k R \<Longrightarrow> logs (thenE m k) (\<lambda>y names. \<exists>x a b. Q x a \<and> R y b \<and> names = a @ b)"
  unfolding thenE_def by (rule logs_bindE)

text \<open>Recording a step, and running one.\<close>

lemma dict_update_other: "k \<notin> fst ` set upd \<Longrightarrow> dict_get (dict_update d upd) k = dict_get d k"
  by (induction upd arbitrary: d) (auto simp: dict_update_def)

lemma added_step:
  assumes "{''step'', ''ok''} \<inter> fst ` set info = {}"
  obtains s where "w_steps (snd (add_step X n b info w)) = w_steps w @ [s]" "step_name s = n" "step_ok s = b"
  using assms by (auto simp: add_step_def step_name_def step_ok_def dict_update_other)

lemma logs_add_step:
  assumes "{''step'', ''ok''} \<inter> fst ` set info = {}"
  shows "logs (add_step X n b info) (\<lambda>x names. names = [n])"
proof -
  have new: "\<exists>new. w_steps (snd (add_step X n b info w)) = w_steps w @ new \<and> map step_name new = [n]" for w
    by (rule added_step [OF assms, of X n b w]) (rule exI [of _ "[_]"], auto)
  show ?thesis
    by (rule logsI) (use new in \<open>metis snd_conv\<close>, simp add: add_step_def, use new in blast)
qed

lemma dict_update_keys: "fst ` set (dict_update d upd) \<subseteq> fst ` set d \<union> fst ` set upd"
proof
  fix k assume "k \<in> fst ` set (dict_update d upd)"
  then have "dict_get (dict_update d upd) k \<noteq> None" by (simp add: map_of_eq_None_iff)
  then show "k \<in> fst ` set d \<union> fst ` set upd"
    using dict_update_other [of k upd d] by (metis Un_iff map_of_eq_None_iff)
qed

lemma run_step_eq:
  "run_step X n m info w =
     (case m w of
        (Inr r, w1) \<Rightarrow> (Inr r, snd (add_step X n True info w1))
      | (Inl (Nt exc), w1) \<Rightarrow>
          fail_with_steps exc (snd (add_step X n False (dict_update [(''error'', JDict (error_body exc))] info) w1))
      | (Inl x, w1) \<Rightarrow> (Inl x, w1))"
  by (auto simp: run_step_def catch_nt_def tryE_def thenE_def bindE_def ret_def raise_def add_step_def
      split: prod.splits sum.splits exn.splits)

lemma kept: "no_steps m \<Longrightarrow> m w = (r, w1) \<Longrightarrow> w_steps w1 = w_steps w"
  using no_stepsD [of m w] by simp

lemma run_step_done:
  assumes m: "no_steps m" and info: "{''step'', ''ok''} \<inter> fst ` set info = {}"
    and run: "run_step X n m info w = (Inr x, w')"
  obtains s where "w_steps w' = w_steps w @ [s]" "step_name s = n"
proof -
  obtain w1 where w1: "m w = (Inr x, w1)" "w' = snd (add_step X n True info w1)"
    using run by (auto simp: run_step_eq fail_with_steps_def split: prod.splits sum.splits exn.splits)
  obtain s where "w_steps w' = w_steps w1 @ [s]" "step_name s = n"
    unfolding w1(2) by (rule added_step [OF info])
  then show ?thesis using that kept [OF m w1(1)] by metis
qed

lemma run_step_failed:
  assumes m: "no_steps m" and info: "{''step'', ''ok''} \<inter> fst ` set info = {}"
    and run: "run_step X n m info w = (Inl (Nt e), w')"
  obtains s where "w_steps w' = w_steps w @ [s]" "step_name s = n" "\<not> step_ok s"
    "dict_get (err_extra e) ''steps'' = Some (jsteps (w_steps w'))"
proof -
  let ?info = "\<lambda>exc. dict_update [(''error'', JDict (error_body exc))] info"
  have bad: "{''step'', ''ok''} \<inter> fst ` set (?info exc) = {}" for exc
    using dict_update_keys [of "[(''error'', JDict (error_body exc))]" info] info by auto
  obtain exc w1 w2 where w1: "m w = (Inl (Nt exc), w1)" "w2 = snd (add_step X n False (?info exc) w1)"
      "fail_with_steps exc w2 = (Inl (Nt e), w')"
    using run by (auto simp: run_step_eq fail_with_steps_def split: prod.splits sum.splits exn.splits)
  obtain s where "w_steps w2 = w_steps w1 @ [s]" "step_name s = n" "step_ok s = False"
    unfolding w1(2) by (rule added_step [OF bad])
  then show ?thesis using that w1(3) kept [OF m w1(1)] by (auto simp: fail_with_steps_def)
qed

lemma logs_run_step:
  assumes m: "no_steps m" and info: "{''step'', ''ok''} \<inter> fst ` set info = {}"
  shows "logs (run_step X n m info) (\<lambda>x names. names = [n])"
proof (rule logsI)
  show "\<exists>new. w_steps w' = w_steps w @ new \<and> map step_name new = [n]"
    if "run_step X n m info w = (Inr x, w')" for w x w'
    by (rule run_step_done [OF m info that]) (rule exI [of _ "[_]"], simp)
  show "\<exists>new. w_steps w' = w_steps w @ new \<and> new \<noteq> [] \<and> \<not> step_ok (last new) \<and>
      dict_get (err_extra e) ''steps'' = Some (jsteps (w_steps w'))"
    if "run_step X n m info w = (Inl (Nt e), w')" for w e w'
    by (rule run_step_failed [OF m info that]) (rule exI [of _ "[_]"], simp)
  fix w
  obtain r w1 where w1: "m w = (r, w1)" by (cases "m w")
  show "\<exists>new. w_steps (snd (run_step X n m info w)) = w_steps w @ new"
    using kept [OF m w1]
    by (simp add: run_step_eq w1 fail_with_steps_def add_step_def split: sum.splits exn.splits)
qed

section \<open>The steps of a revert\<close>

text \<open>The common case: the names do not depend on the result.\<close>

definition adds :: "string list \<Rightarrow> ('e, 'z, 'a) fprog \<Rightarrow> bool" where
  "adds ns m = logs m (\<lambda>x names. names = ns)"

lemma adds_bindE: "adds a m \<Longrightarrow> (\<And>x. adds b (f x)) \<Longrightarrow> adds (a @ b) (bindE m f)"
  unfolding adds_def by (rule logs_mono [OF logs_bindE]) auto

lemma adds_thenE: "adds a m \<Longrightarrow> adds b k \<Longrightarrow> adds (a @ b) (thenE m k)"
  by (simp add: thenE_def adds_bindE)

lemma adds_return: "adds a m \<Longrightarrow> adds a (bindE m (\<lambda>x. ret (g x)))"
  unfolding adds_def by (rule logs_mono [OF logs_return]) auto

lemma adds_leave: "adds a m \<Longrightarrow> adds a (thenE m (ret x))"
  by (simp add: thenE_def adds_return)

lemma adds_first: "adds [] m \<Longrightarrow> (\<And>x. adds a (f x)) \<Longrightarrow> adds a (bindE m f)"
  using adds_bindE [of "[]" m a f] by simp

lemma adds_silent: "no_steps m \<Longrightarrow> no_nt m \<Longrightarrow> adds [] m"
  by (simp add: adds_def logs_silent)

lemma adds_add_step: "{''step'', ''ok''} \<inter> fst ` set info = {} \<Longrightarrow> adds [n] (add_step X n b info)"
  by (simp add: adds_def logs_add_step)

lemma adds_run_step: "no_steps m \<Longrightarrow> {''step'', ''ok''} \<inter> fst ` set info = {} \<Longrightarrow> adds [n] (run_step X n m info)"
  by (simp add: adds_def logs_run_step)

lemma adds_if: "(b \<Longrightarrow> adds a m) \<Longrightarrow> (\<not> b \<Longrightarrow> adds a k) \<Longrightarrow> adds a (if b then m else k)"
  by simp

lemma no_nt_small:
  "no_nt (getS f)" "no_nt (mark_disconnected v)" "no_nt (drop_transport X v)" "no_nt (set_snapshot v s)"
  "no_nt (set_power v p)" "no_nt (eventE X v k d)" "no_nt (kd_session_for X vm port key)" "no_nt (svc_runtime X v)"
  by (simp_all add: no_nt_def getS_def mark_disconnected_def drop_transport_def set_snapshot_def set_power_def
      storeE_def eventE_def kd_session_for_def svc_runtime_def Let_def)

lemma no_nt_termE: "no_nt m \<Longrightarrow> no_nt (termE X m)"
  unfolding no_nt_def termE_def by (auto split: prod.splits)

lemmas adds_small =
  adds_silent [OF no_steps_getS no_nt_small(1)] adds_silent [OF no_steps_term_small(5) no_nt_small(2)]
  adds_silent [OF no_steps_termE [OF no_steps_term_small(6)] no_nt_termE [OF no_nt_small(3)]]
  adds_silent [OF no_steps_service(6) no_nt_small(4)] adds_silent [OF no_steps_service(5) no_nt_small(5)]
  adds_silent [OF no_steps_service(2) no_nt_small(6)] adds_silent [OF no_steps_service(4) no_nt_small(7)]

section \<open>The steps of a revert\<close>

lemma adds_detach: "adds [''kd_detach''] (revert_detach X vm)"
  unfolding revert_detach_def
  by (intro adds_first adds_small adds_leave adds_if adds_return adds_run_step adds_add_step no_steps_kd_on) simp_all

lemma adds_drop_terms: "adds [''term_drop''] (drop_terms X vm)"
  unfolding drop_terms_def thenE_def
  by (intro adds_first adds_small adds_return adds_add_step) simp

lemma adds_attach: "adds [''kd_attach''] (revert_attach X vm start reattach was timeout)"
  unfolding revert_attach_def reattach_kd_def svc_kd_attach_def
  by (intro adds_if adds_return adds_first adds_small adds_run_step adds_leave adds_add_step no_stepsI)
    (simp_all add: no_stepsD [OF no_steps_kd_on])

text \<open>The address of the guest is a step of its own.\<close>

lemma logs_reopen:
  "logs (reopen_terms X vm dropped timeout)
     (\<lambda>x names. names = (if dropped = [] then [] else [''guest_ip'']) @ [''term_reopen''])"
proof (cases "dropped = []")
  case True
  have "adds [''term_reopen''] (reopen_terms X vm dropped timeout)"
    unfolding reopen_terms_def using True by (simp, intro adds_leave adds_add_step) simp
  then show ?thesis by (simp add: adds_def True)
next
  case False
  have "adds ([''guest_ip''] @ [''term_reopen'']) (reopen_terms X vm dropped timeout)"
    unfolding reopen_terms_def svc_guest_ip_def using False
    by (simp only: if_False, intro adds_bindE adds_return adds_run_step no_steps_termE no_steps_reopen no_steps_await)
      simp_all
  then show ?thesis by (simp add: adds_def False)
qed

text \<open>A failed step that is retried another way, or given up.\<close>

lemma logs_catch:
  assumes m: "no_steps m" and info: "{''step'', ''ok''} \<inter> fst ` set info = {}"
    and h: "\<And>e. h e = raise (Nt e) \<or> logs (h e) R" and k: "\<And>x. logs (k x) R"
  shows "logs (catch_nt (run_step X n m info) h k) (\<lambda>y names. \<exists>b. R y b \<and> names = n # b)"
proof -
  let ?c = "catch_nt (run_step X n m info) h k"
  have c: "?c w = (case run_step X n m info w of
      (Inr x, w1) \<Rightarrow> k x w1 | (Inl (Nt e), w1) \<Rightarrow> h e w1 | (Inl x, w1) \<Rightarrow> (Inl x, w1))" for w
    by (auto simp: catch_nt_def tryE_def raise_def split: prod.splits sum.splits exn.splits)
  have go: "\<exists>new. w_steps w' = w_steps w @ new \<and>
      (case r of Inr y \<Rightarrow> \<exists>b. R y b \<and> map step_name new = n # b
       | Inl (Nt e) \<Rightarrow> new \<noteq> [] \<and> \<not> step_ok (last new) \<and> dict_get (err_extra e) ''steps'' = Some (jsteps (w_steps w'))
       | Inl _ \<Rightarrow> True)"
    if f: "logs f R" "f w1 = (r, w')" and s: "w_steps w1 = w_steps w @ [s]" "step_name s = n"
    for f w w1 r w' s
  proof -
    obtain new where "w_steps w' = w_steps w1 @ new"
        "case r of Inr y \<Rightarrow> R y (map step_name new)
         | Inl (Nt e) \<Rightarrow> new \<noteq> [] \<and> \<not> step_ok (last new) \<and> dict_get (err_extra e) ''steps'' = Some (jsteps (w_steps w'))
         | Inl _ \<Rightarrow> True"
      using f unfolding logs_def by blast
    then show ?thesis
      using s by (intro exI [of _ "s # new"]) (auto split: sum.splits exn.splits)
  qed
  show ?thesis
    unfolding logs_def
  proof (intro allI impI)
    fix w r w' assume r: "?c w = (r, w')"
    obtain q w1 where q: "run_step X n m info w = (q, w1)" by (cases "run_step X n m info w")
    show "\<exists>new. w_steps w' = w_steps w @ new \<and>
      (case r of Inr y \<Rightarrow> \<exists>b. R y b \<and> map step_name new = n # b
       | Inl (Nt e) \<Rightarrow> new \<noteq> [] \<and> \<not> step_ok (last new) \<and> dict_get (err_extra e) ''steps'' = Some (jsteps (w_steps w'))
       | Inl _ \<Rightarrow> True)"
    proof (cases q)
      case (Inr x)
      obtain s where s: "w_steps w1 = w_steps w @ [s]" "step_name s = n"
        by (rule run_step_done [OF m info q [unfolded Inr]])
      have "k x w1 = (r, w')" using r by (simp add: c q Inr)
      then show ?thesis by (rule go [of "k x", OF k _ s])
    next
      case (Inl x)
      show ?thesis
      proof (cases x)
        case (Nt e)
        obtain s where s: "w_steps w1 = w_steps w @ [s]" "step_name s = n" "\<not> step_ok s"
            "dict_get (err_extra e) ''steps'' = Some (jsteps (w_steps w1))"
          by (rule run_step_failed [OF m info q [unfolded Inl Nt]])
        have hw: "h e w1 = (r, w')" using r by (simp add: c q Inl Nt)
        show ?thesis
          using h [of e]
        proof
          assume "h e = raise (Nt e)"
          then have "r = Inl (Nt e)" "w' = w1" using hw by (simp_all add: raise_def)
          then show ?thesis using s by (intro exI [of _ "[s]"]) simp
        next
          assume "logs (h e) R"
          then show ?thesis by (rule go [of "h e", OF _ hw s(1,2)])
        qed
      qed (use r logs_grows [OF logs_run_step [OF m info], of X n w] in \<open>auto simp: c q Inl\<close>)
    qed
  qed
qed

definition start_steps :: "string \<Rightarrow> string list" where
  "start_steps via = (if via = ''resumed'' then [''start''] else [''start'', ''discard_saved_state'', ''start''])"

lemma logs_start: "logs (start_after_revert X vm discard) (\<lambda>via names. names = start_steps via)"
proof -
  let ?start = "awaitE X (hv_start (adapter_for X vm) vm False)"
  let ?R = "\<lambda>via names. names = (if via = ''resumed'' then [] else [''discard_saved_state'', ''start''])"
  have again: "logs (bindE (run_step X ''discard_saved_state'' (awaitE X (hv_discard_saved_state (adapter_for X vm) vm))
        [(''reason'', JStr ''saved_state_stale'')])
      (\<lambda>(state, removed).
         thenE (run_step X ''start'' ?start
           [(''after'', JStr ''discard_saved_state''),
            (''dropped'', JDict [(''saved_state'', JStr state), (''removed'', jstrs removed)])])
           (ret ''cold_boot_after_discard''))) ?R"
  proof -
    have "logs (thenE (run_step X ''start'' ?start
           [(''after'', JStr ''discard_saved_state''),
            (''dropped'', JDict [(''saved_state'', JStr (fst p)), (''removed'', jstrs (snd p))])])
           (ret ''cold_boot_after_discard'')) (\<lambda>via names. via = ''cold_boot_after_discard'' \<and> names = [''start''])" for p
      by (rule logs_mono [OF logs_thenE [OF logs_run_step [OF no_steps_await] logs_ret]]) auto
    then have second: "logs (case p of (state, removed) \<Rightarrow>
         thenE (run_step X ''start'' ?start
           [(''after'', JStr ''discard_saved_state''),
            (''dropped'', JDict [(''saved_state'', JStr state), (''removed'', jstrs removed)])])
           (ret ''cold_boot_after_discard'')) (\<lambda>via names. via = ''cold_boot_after_discard'' \<and> names = [''start''])" for p
      by (simp add: case_prod_beta)
    show ?thesis
      by (rule logs_mono [OF logs_bindE [OF logs_run_step [OF no_steps_await] second]]) auto
  qed
  have "logs (start_after_revert X vm discard) (\<lambda>via names. \<exists>b. ?R via b \<and> names = ''start'' # b)"
    unfolding start_after_revert_def Let_def
  proof (rule logs_catch [OF no_steps_await])
    show "logs (ret ''resumed'') ?R" for x :: unit
      by (rule logs_mono [OF logs_ret]) simp
  qed (use again in auto)
  then show ?thesis by (rule logs_mono) (simp add: start_steps_def)
qed

lemma no_steps_ensure: "no_steps (ensure_kd_running X vm st)"
proof (rule no_stepsI)
  fix w
  have c: "no_steps (catch_nt (kd_on X (vc_name vm) kd_go) (\<lambda>_. ret st)
      (\<lambda>resumed. thenE (bindE (svc_runtime X (vc_name vm)) (\<lambda>_. ret ()))
         (ret (Some (dict_set ''resumed_after_attach'' (JBool True) resumed)))))"
    by (intro no_steps_rules no_steps_kd_on no_steps_service)
  show "w_steps (snd (ensure_kd_running X vm st w)) = w_steps w"
    by (simp add: ensure_kd_running_def no_stepsD [OF c] split: option.splits)
qed

lemma no_nt_ensure: "no_nt (ensure_kd_running X vm st)"
  by (auto simp: no_nt_def ensure_kd_running_def catch_nt_def tryE_def thenE_def bindE_def ret_def raise_def
      svc_runtime_def Let_def split: option.splits prod.splits sum.splits exn.splits if_splits)

lemma logs_finish:
  "logs (finish_flow kd terms p via) (\<lambda>r names. fr_started_via r = via \<and> names = [])"
  by (rule logsI) (auto simp: finish_flow_def)

lemma adds_to_logs: "adds a m \<Longrightarrow> logs m (\<lambda>x names. names = a)"
  by (simp add: adds_def)

lemma logs_after:
  "adds a m \<Longrightarrow> (\<And>x. logs (f x) (\<lambda>y names. R y (a @ names))) \<Longrightarrow> logs (bindE m f) R"
  by (rule logs_mono [OF logs_bindE [OF adds_to_logs]]) auto

text \<open>The steps of a revert that starts the machine, in order.\<close>

definition revert_names :: "string \<Rightarrow> bool \<Rightarrow> string list" where
  "revert_names via asked_ip =
     [''kd_detach'', ''term_drop'', ''snapshot_revert''] @ start_steps via @ [''kd_attach''] @
     (if asked_ip then [''guest_ip''] else []) @ [''term_reopen'']"

lemma logs_seq:
  "logs m Q \<Longrightarrow> (\<And>x. logs (f x) (\<lambda>y b. \<forall>a. Q x a \<longrightarrow> R y (a @ b))) \<Longrightarrow> logs (bindE m f) R"
  by (rule logs_mono [OF logs_bindE]) auto

lemma logs_reopen_step:
  "logs (reopen_step X vm reopen dropped timeout)
     (\<lambda>x names. \<exists>ip. names = (if ip then [''guest_ip''] else []) @ [''term_reopen''])"
proof (cases reopen)
  case True
  show ?thesis
    unfolding reopen_step_def if_P [OF True]
    by (rule logs_mono [OF logs_reopen], rule exI [of _ "dropped \<noteq> []"]) simp
next
  case False
  have "adds [''term_reopen''] (reopen_step X vm reopen dropped timeout)"
    unfolding reopen_step_def if_not_P [OF False] by (intro adds_leave adds_add_step) simp
  then show ?thesis unfolding adds_def by (rule logs_mono) (rule exI [of _ False], simp)
qed

lemma logs_revert_start: "logs (revert_start X vm True discard) (\<lambda>via names. names = start_steps via)"
proof -
  have "adds [] (thenE (set_power (vc_name vm) P_Running) (ret via))" for via
    by (intro adds_leave adds_small)
  then have "logs (thenE (set_power (vc_name vm) P_Running) (ret via)) (\<lambda>y b. y = via \<and> b = [])" for via
    unfolding thenE_def by (intro logs_mono [OF logs_bindE [OF adds_to_logs [OF adds_small(5)] logs_ret]]) auto
  then show ?thesis
    unfolding revert_start_def if_True by (intro logs_seq [OF logs_start]) (rule logs_mono, assumption, simp)
qed

lemma logs_revert_steps:
  "logs (revert_steps X vm name True reattach reopen timeout discard)
     (\<lambda>r names. \<exists>ip. names = revert_names (fr_started_via r) ip)"
  unfolding revert_steps_def thenE_def
  apply (rule logs_after [OF adds_detach])
  apply (rule logs_after [OF adds_drop_terms])
  apply (rule logs_after [OF adds_run_step [OF no_steps_await]])
   apply simp
  apply (rule logs_after [OF adds_small(4)])
  apply (rule logs_seq [OF logs_revert_start])
  apply (rule logs_after [OF adds_attach])
  apply (rule logs_seq [OF logs_reopen_step])
  apply (rule logs_after [OF adds_silent [OF no_steps_ensure no_nt_ensure]])
  apply (rule logs_after [OF adds_small(6)])
  apply (rule logs_after [OF adds_small(1)])
  apply (rule logs_mono [OF logs_finish])
  apply (auto simp: revert_names_def)
  done

lemma revert_flow_eq:
  "revert_flow X vm name start reattach reopen timeout discard w =
     revert_steps X vm name start reattach reopen timeout discard (w\<lparr>w_steps := []\<rparr>)"
  by (simp add: revert_flow_def thenE_def bindE_def start_flow_def)

section \<open>Properties of a revert\<close>


text \<open>The result of a flow lists what it recorded.\<close>

lemma revert_lists_steps:
  "revert_steps X vm name start reattach reopen timeout discard w = (Inr r, w') \<Longrightarrow> fr_steps r = w_steps w'"
  by (auto simp: revert_steps_def thenE_def bindE_def finish_flow_def split: prod.splits sum.splits)

text \<open>
  A revert that starts the machine and succeeds did, in this order and nothing in between: release the debugger, drop
  the terminals, revert, start (and only after a start that failed, drop the stale saved state and start again,
  which the result then says), attach the debugger, reopen the terminals.
\<close>

theorem revert_order:
  assumes "revert_flow X vm name True reattach reopen timeout discard w = (Inr r, w')"
  shows "\<exists>asked_ip. map step_name (fr_steps r) = revert_names (fr_started_via r) asked_ip"
  using logs_Inr [OF logs_revert_steps assms [unfolded revert_flow_eq]]
    revert_lists_steps [OF assms [unfolded revert_flow_eq]] by auto

section \<open>A flow does not hand back a frozen guest\<close>

definition frozen :: "string \<Rightarrow> ('e, 'z) svc_world_scheme \<Rightarrow> bool" where
  "frozen vm w = (kd_alive vm w \<and> kd_is_broken vm w)"

lemma frozen_keeps: "w_kd w' = w_kd w \<Longrightarrow> frozen vm w' = frozen vm w"
  by (simp add: frozen_def kd_alive_def kd_is_broken_def)

lemma kd_go_done: "kd_go k = (Inr x, k') \<Longrightarrow> ks_state (kw_s k') = K_Running"
  by (auto simp: kd_go_def bindE_def on_s_def Let_def split: prod.splits sum.splits)

lemma kd_go_at_prompt:
  "kd_attached (kw_s k) \<Longrightarrow> ks_state (kw_s k) = K_Broken \<Longrightarrow> kd_go k \<noteq> (Inl (Nt e), k')"
  by (auto simp: kd_go_def bindE_def require_broken_def require_attached_def kd_write_def kd_attached_def Let_def
      on_s_def split: prod.splits sum.splits option.splits if_splits)

lemma svc_runtime_kd: "w_kd (snd (svc_runtime X v w)) = w_kd w"
  by (simp add: svc_runtime_def Let_def)

lemma svc_runtime_total: "\<exists>r. svc_runtime X v w = (Inr r, snd (svc_runtime X v w))"
  by (simp add: svc_runtime_def Let_def)
lemma ensure_resumes:
  assumes "dict_get (w_kd w) (vc_name vm) = Some s" "st \<noteq> None" "kd_attached s" "ks_state s = K_Broken"
    "kd_go (kd_view X (vc_name vm) s w) = (Inr y, k)"
  shows "w_kd (snd (ensure_kd_running X vm st w)) = w_kd (kd_put X (vc_name vm) k w)"
proof -
  let ?w = "kd_put X (vc_name vm) k w"
  have on: "kd_on X (vc_name vm) kd_go w = (Inr y, ?w)" using assms(1,5) by (simp add: kd_on_def)
  obtain r w2 where r: "svc_runtime X (vc_name vm) ?w = (Inr r, w2)"
    using svc_runtime_total by blast
  have "snd (ensure_kd_running X vm st w) = w2"
    using assms(1-4) by (auto simp: ensure_kd_running_def catch_nt_def tryE_def on thenE_def bindE_def ret_def r)
  then show ?thesis using svc_runtime_kd [of X "vc_name vm" ?w] r by simp
qed

lemma ensure_running_kd:
  assumes "ensure_kd_running X vm st w = (Inr st', w')" "st' \<noteq> None"
  shows "\<not> frozen (vc_name vm) w'"
proof (cases "dict_get (w_kd w) (vc_name vm)")
  case None
  then show ?thesis using assms by (simp add: ensure_kd_running_def frozen_def kd_alive_def)
next
  case (Some s)
  show ?thesis
  proof (cases "st = None \<or> \<not> kd_attached s \<or> ks_state s \<noteq> K_Broken")
    case True
    then have "st' = st" "w' = w" using assms(1) by (auto simp: ensure_kd_running_def Some)
    then show ?thesis using True assms(2) Some by (auto simp: frozen_def kd_alive_def kd_is_broken_def)
  next
    case False
    let ?v = "kd_view X (vc_name vm) s w"
    have s: "kw_s ?v = s" by (simp add: kd_view_def Let_def)
    obtain r k where go: "kd_go ?v = (r, k)" by (cases "kd_go ?v")
    show ?thesis
    proof (cases r)
      case (Inl x)
      have "\<nexists>e. x = Nt e" using kd_go_at_prompt [of ?v] go s False Inl by auto
      then show ?thesis
        using assms(1) False go Inl
        by (cases x) (auto simp: ensure_kd_running_def Some kd_on_def catch_nt_def tryE_def raise_def)
    next
      case (Inr y)
      have "ks_state (kw_s k) = K_Running" using kd_go_done go Inr by blast
      moreover have "w_kd w' = w_kd (kd_put X (vc_name vm) k w)"
        using ensure_resumes [OF Some, of st X y k] False go Inr assms(1) by simp
      ultimately show ?thesis by (simp add: frozen_def kd_is_broken_def kd_put_def)
    qed
  qed
qed

definition ends :: "('w, 'a) app \<Rightarrow> ('a \<Rightarrow> 'w \<Rightarrow> bool) \<Rightarrow> bool" where
  "ends m Q = (\<forall>w x w'. m w = (Inr x, w') \<longrightarrow> Q x w')"

lemma ends_bindE: "(\<And>x. ends (f x) Q) \<Longrightarrow> ends (bindE m f) Q"
  unfolding ends_def bindE_def by (auto split: prod.splits sum.splits)

lemma ends_later: "(\<And>x. ends (f x) Q) \<Longrightarrow> ends (bindE m f) Q" "ends k Q \<Longrightarrow> ends (thenE m k) Q"
  by (simp_all add: thenE_def ends_bindE)

lemma ends_finish:
  assumes "\<And>st w y w'. f st w = (Inr y, w') \<Longrightarrow> fr_kd y = st \<and> w_kd w' = w_kd w"
  shows "ends (bindE (ensure_kd_running X vm st) f) (\<lambda>r w. fr_kd r \<noteq> None \<longrightarrow> \<not> frozen (vc_name vm) w)"
  unfolding ends_def
proof (intro allI impI)
  fix w r w' assume m: "bindE (ensure_kd_running X vm st) f w = (Inr r, w')" and r: "fr_kd r \<noteq> None"
  obtain st' w1 where e: "ensure_kd_running X vm st w = (Inr st', w1)" "f st' w1 = (Inr r, w')"
    using m by (auto simp: bindE_def split: prod.splits sum.splits)
  have "\<not> frozen (vc_name vm) w1" using ensure_running_kd [OF e(1)] assms [OF e(2)] r by simp
  then show "\<not> frozen (vc_name vm) w'" using assms [OF e(2)] frozen_keeps by metis
qed

lemma eventE_kd: "w_kd (snd (eventE X v k d w)) = w_kd w" "fst (eventE X v k d w) = Inr ()"
  by (simp_all add: eventE_def)
lemma finish_keeps:
  fixes w :: "('e, 'z) flow_world_scheme"
  shows
  "thenE (eventE X v k d) (bindE (getS g) (\<lambda>p. finish_flow st terms p via)) w = (Inr y, w') \<Longrightarrow> fr_kd y = st \<and> w_kd w' = w_kd w"
  "thenE (eventE X v k d) (finish_flow st terms p via) w = (Inr y, w') \<Longrightarrow> fr_kd y = st \<and> w_kd w' = w_kd w"
  using eventE_kd [of X v k d w]
  by (cases "eventE X v k d w", simp add: thenE_def bindE_def getS_def finish_flow_def, fastforce)+

text \<open>
  C16. Neither flow hands back a guest frozen at a debugger prompt: when a revert or a reboot returns with a debugger
  status, the session of the machine is not both alive and at a prompt.
\<close>

theorem flow_leaves_guest_running:
  assumes "revert_flow X vm name start reattach reopen timeout discard w = (Inr r, w') \<or>
           reboot_flow X vm mode reattach reopen timeout w = (Inr r, w')"
    and "fr_kd r \<noteq> None"
  shows "\<not> (kd_alive (vc_name vm) w' \<and> kd_is_broken (vc_name vm) w')"
proof -
  let ?Q = "\<lambda>r w. fr_kd r \<noteq> None \<longrightarrow> \<not> frozen (vc_name vm) w"
  have "ends (revert_steps X vm name start reattach reopen timeout discard) ?Q"
    unfolding revert_steps_def by (rule ends_finish ends_later | erule finish_keeps)+
  moreover have "ends (reboot_flow X vm mode reattach reopen timeout) ?Q"
    unfolding reboot_flow_def by (rule ends_finish ends_later | erule finish_keeps)+
  ultimately show ?thesis
    using assms unfolding frozen_def [symmetric] ends_def revert_flow_eq by blast
qed

section \<open>Witnesses\<close>

text \<open>A revert on the demonstration host, which has no debugger session yet.\<close>

definition demo_flow :: "demo_env \<Rightarrow> demo_env flow_world" where
  "demo_flow e = svc_world.extend ((demo_world e)\<lparr>w_kd := []\<rparr>) (flow_world.fields [])"

definition demo_revert :: "demo_env \<Rightarrow> (exn + flow_result) \<times> demo_env flow_world" where
  "demo_revert e = revert_flow demo_outside demo_vm ''base'' True True False 0 False (demo_flow e)"

lemma demo_flow_sel [simp]:
  "w_store (demo_flow e) = empty_store 0" "w_env (demo_flow e) = e" "w_sessions (demo_flow e) = []"
  "w_transports (demo_flow e) = []" "w_ips (demo_flow e) = []" "w_kd (demo_flow e) = []"
  by (simp_all add: demo_flow_def demo_world_def svc_world.defs flow_world.defs)

lemmas flow_unfold =
  revert_flow_eq revert_steps_def revert_detach_def drop_terms_def revert_start_def revert_attach_def
  start_after_revert_def reattach_kd_def reopen_step_def ensure_kd_running_def finish_flow_def run_step_eq
  add_step_def fail_with_steps_def catch_nt_def tryE_def thenE_def bindE_def getS_def ret_def raise_def Let_def
  mark_disconnected_def live_sessions_def termE_def drop_transport_def catch_up_def catch_up_one_def awaitE_def
  env_tryE_def set_snapshot_def storeE_def set_power_def eventE_def now_def kd_alive_def kd_session_for_def
  svc_kd_attach_def kd_on_def kd_put_def kd_view_def dict_keys_def kd_configured_def new_kd_session_def
  transport_text_def kd_attach_def kd_attached_def kd_spawn_def on_s_def reset_session_def kd_do_def

lemma find_target_over: "deadline \<le> kw_now w \<Longrightarrow> find_target deadline w = (False, w)"
  by (subst find_target.simps) simp

lemma demo_revert_works: "case demo_revert demo_running of (Inr r, w) \<Rightarrow> fr_kd r \<noteq> None | _ \<Rightarrow> False"
  by (simp add: demo_revert_def flow_unfold find_target_over)

lemma demo_revert_fails:
  "case demo_revert (demo_running\<lparr>de_starts := False\<rparr>) of (Inl (Nt e), w) \<Rightarrow> True | _ \<Rightarrow> False"
  by (simp add: demo_revert_def flow_unfold demo_nt_def)


lemma revert_order_witness:
  "\<exists>r w. demo_revert demo_running = (Inr r, w) \<and> (\<exists>ip. map step_name (fr_steps r) = revert_names (fr_started_via r) ip)"
proof -
  obtain r w where d: "demo_revert demo_running = (Inr r, w)"
    using demo_revert_works by (auto split: prod.splits sum.splits)
  then show ?thesis using revert_order [OF d [unfolded demo_revert_def]] by blast
qed

lemma flow_leaves_guest_running_witness:
  "\<exists>r w. demo_revert demo_running = (Inr r, w) \<and> \<not> (kd_alive ''win'' w \<and> kd_is_broken ''win'' w)"
proof -
  obtain r w where d: "demo_revert demo_running = (Inr r, w)" "fr_kd r \<noteq> None"
    using demo_revert_works by (auto split: prod.splits sum.splits)
  then show ?thesis
    using flow_leaves_guest_running [OF disjI1, OF d(1) [unfolded demo_revert_def] d(2)] by simp
qed

end
