(* ===== verification/Tools_Vm.thy ===== *)
theory Tools_Vm
  imports Orchestrator
begin

text \<open>
  The \<open>vm_*\<close> tools of \<open>core/tools/vm.py\<close>: each is a program of the daemon's world over its
  validated parameters. Results are the JSON objects the tools return, without the free-text notes; the waited time of
  \<open>vm_wait_ready\<close> is in milliseconds.
\<close>

type_synonym result = "(string, json) dict"

definition hardware_dict :: "hardware \<Rightarrow> json" where
  "hardware_dict hw =
     JDict [(''cpus'', jopt_int (hw_cpus hw)), (''cores_per_socket'', jopt_int (hw_cores hw)),
            (''memory_mb'', jopt_int (hw_memory hw)), (''nic'', jopt (hw_nic hw))]"

section \<open>Reading\<close>

definition vm_summary ::
  "('e, 'x) svc_outside_scheme \<Rightarrow> string \<Rightarrow> nt_error + power_state \<Rightarrow> ('e, 'z, result) sprog" where
  "vm_summary X name p =
     bindE (svc_runtime X name) (\<lambda>r.
       case config_lookup X name of
         None \<Rightarrow> raise (Exn ''KeyError'')
       | Some cfg \<Rightarrow>
           let data = dict_set ''backend'' (JStr (vc_backend cfg)) (runtime_dict r)
           in ret (case p of Inl e \<Rightarrow> dict_set ''power_error'' (JDict (error_body e)) data | Inr _ \<Rightarrow> data))"

definition answer_of :: "answers \<Rightarrow> string \<Rightarrow> ('w, nt_error + power_state) app" where
  "answer_of powers name =
     (case dict_get powers name of None \<Rightarrow> raise (Exn ''KeyError'') | Some p \<Rightarrow> ret p)"

definition vm_list :: "('e, 'x) svc_outside_scheme \<Rightarrow> ('e, 'z, result) sprog" where
  "vm_list X =
     (let names = dict_keys (c_vms (x_config X))
      in bindE (refresh_powers X names) (\<lambda>powers.
         bindE (mapE (\<lambda>name. bindE (answer_of powers name) (vm_summary X name)) names) (\<lambda>vms.
           ret [(''vms'', JList (map JDict vms))])))"

definition vm_probe ::
  "('e, 'x) svc_outside_scheme \<Rightarrow> vm_config \<Rightarrow> nt_error + power_state \<Rightarrow> result \<Rightarrow> ('e, 'z, result) sprog" where
  "vm_probe X cfg p summary =
     (if p = Inr P_Running then
        bindE (catch_nt (ssh_reachable X cfg 10000) (\<lambda>_. ret False) (\<lambda>(ok, ip). ret ok)) (\<lambda>reachable.
        bindE (awaitE X (hv_host_cpu (adapter_for X cfg) cfg)) (\<lambda>cpu.
          let s = dict_set ''guest_reachable'' (JBool reachable) summary
          in ret (case cpu of None \<Rightarrow> s | Some c \<Rightarrow> dict_set ''host_cpu_percent'' (JInt c) s)))
      else ret (dict_set ''guest_reachable'' (JBool False) summary))"

definition vm_state :: "('e, 'x) svc_outside_scheme \<Rightarrow> string \<Rightarrow> bool \<Rightarrow> ('e, 'z, result) sprog" where
  "vm_state X vm probe =
     bindE (vm_cfg X vm) (\<lambda>cfg.
     bindE (refresh_powers X [vm]) (\<lambda>powers.
     bindE (answer_of powers vm) (\<lambda>p.
     bindE (vm_summary X vm p) (\<lambda>summary.
       if probe then vm_probe X cfg p summary else ret summary))))"

section \<open>Waiting\<close>

record ready_result =
  rr_ready :: bool
  rr_ip :: string
  rr_waited :: int

text \<open>One look at the guest: not powered on is an error, no address yet is not reachable and keeps the old one.\<close>

definition ready_look ::
  "('e, 'x) svc_outside_scheme \<Rightarrow> vm_config \<Rightarrow> int \<Rightarrow> string \<Rightarrow> ('e, 'z, bool \<times> string) sprog" where
  "ready_look X cfg remaining ip =
     bindE (refresh_power X cfg) (\<lambda>p.
       if p \<noteq> P_Running then throw_with VM_NOT_RUNNING [(''reason'', JStr ''powered_off'')]
       else catch_nt (ssh_reachable X cfg (min remaining 15000)) (\<lambda>_. ret (False, ip)) ret)"

text \<open>\<open>t\<close> is the time the loop has reached: a sleep ends no earlier than it asks.\<close>

function ready_loop ::
  "('e, 'x) svc_outside_scheme \<Rightarrow> vm_config \<Rightarrow> int \<Rightarrow> int \<Rightarrow> string \<Rightarrow> int \<Rightarrow> ('e, 'z) svc_world_scheme \<Rightarrow>
   (exn + ready_result) \<times> ('e, 'z) svc_world_scheme" where
  "ready_loop X cfg timeout deadline ip t w =
     (let t0 = max t (now X w); remaining = deadline - t0
      in if remaining \<le> 0 then (Inr \<lparr>rr_ready = False, rr_ip = ip, rr_waited = timeout\<rparr>, w)
         else
           case ready_look X cfg remaining ip w of
             (Inl x, w1) \<Rightarrow> (Inl x, w1)
           | (Inr (True, ip1), w1) \<Rightarrow>
               (Inr \<lparr>rr_ready = True, rr_ip = ip1, rr_waited = timeout - remaining\<rparr>,
                snd (eventE X (vc_name cfg) ''wait_ready'' [(''ready'', JBool True)] w1))
           | (Inr (False, ip1), w1) \<Rightarrow>
               let t1 = max t0 (now X w1); d = min 2000 (max 100 (deadline - t1))
               in ready_loop X cfg timeout deadline ip1 (t1 + d) (snd (termE X (sleepE X d) w1)))"
  by pat_completeness auto
termination
  by (relation "measure (\<lambda>(X, cfg, timeout, deadline, ip, t, w). nat (deadline - t))") auto

declare ready_loop.simps [simp del]

definition vm_wait_ready :: "('e, 'x) svc_outside_scheme \<Rightarrow> string \<Rightarrow> int \<Rightarrow> ('e, 'z, ready_result) sprog" where
  "vm_wait_ready X vm timeout =
     bindE (vm_cfg X vm) (\<lambda>cfg w. ready_loop X cfg timeout (now X w + timeout) [] (now X w) w)"

section \<open>Changing the power state\<close>

definition vm_start :: "('e, 'x) svc_outside_scheme \<Rightarrow> string \<Rightarrow> bool \<Rightarrow> bool \<Rightarrow> ('e, 'z, result) sprog" where
  "vm_start X vm gui discard =
     bindE (vm_cfg X vm) (\<lambda>cfg.
     bindE (if discard then
              bindE (refresh_power X cfg) (\<lambda>p.
                if p = P_Running then throw INVALID_ARGS
                else bindE (awaitE X (hv_discard_saved_state (adapter_for X cfg) cfg)) (\<lambda>(state, removed).
                       ret [(''saved_state_dropped'',
                             JDict [(''saved_state'', JStr state), (''removed'', jstrs removed)])]))
            else ret []) (\<lambda>dropped.
     thenE (awaitE X (hv_start (adapter_for X cfg) cfg gui))
     (bindE (refresh_power X cfg) (\<lambda>p.
      thenE (eventE X vm ''start'' [(''discard_saved_state'', JBool discard)])
        (ret ([(''vm'', JStr vm)] @ dropped @ [(''power'', JStr (power_text p))]))))))"

datatype stop_mode = Stop_Soft | Stop_Hard | Stop_Kill

definition stop_text :: "stop_mode \<Rightarrow> string" where
  "stop_text m = (case m of Stop_Soft \<Rightarrow> ''soft'' | Stop_Hard \<Rightarrow> ''hard'' | Stop_Kill \<Rightarrow> ''kill'')"

text \<open>After a kill vmrun may still be recovering, so its answer is reported, not required.\<close>

definition vm_stop :: "('e, 'x) svc_outside_scheme \<Rightarrow> string \<Rightarrow> stop_mode \<Rightarrow> ('e, 'z, result) sprog" where
  "vm_stop X vm mode =
     bindE (vm_cfg X vm) (\<lambda>cfg.
     bindE (release_guest X vm) (\<lambda>released.
     let base = [(''vm'', JStr vm), (''terms_dropped'', jstrs (rl_terms_dropped released))] in
     bindE (if mode = Stop_Kill then
              bindE (awaitE X (hv_kill (adapter_for X cfg) cfg)) (\<lambda>killed.
              let result = dict_update base killed in
              catch_nt (refresh_power X cfg)
                (\<lambda>exc. ret (dict_set ''power_error'' (JDict (error_body exc)) result, P_Unknown))
                (\<lambda>p. ret (result, p)))
            else
              thenE (awaitE X (hv_stop (adapter_for X cfg) cfg (mode = Stop_Hard)))
                (bindE (refresh_power X cfg) (\<lambda>p. ret (base, p)))) (\<lambda>(result, p).
     thenE (eventE X vm ''stop'' [(''mode'', JStr (stop_text mode))])
       (ret (dict_set ''power'' (JStr (power_text p)) result)))))"

definition vm_reboot ::
  "('e, 'x) svc_outside_scheme \<Rightarrow> string \<Rightarrow> reboot_mode \<Rightarrow> bool \<Rightarrow> bool \<Rightarrow> int \<Rightarrow> ('e, 'z, flow_result) fprog" where
  "vm_reboot X vm mode reattach reopen timeout =
     bindE (vm_cfg X vm) (\<lambda>cfg.
     thenE (ensure_running X cfg) (reboot_flow X cfg mode reattach reopen timeout))"

definition vm_suspend :: "('e, 'x) svc_outside_scheme \<Rightarrow> string \<Rightarrow> ('e, 'z, result) sprog" where
  "vm_suspend X vm =
     bindE (vm_cfg X vm) (\<lambda>cfg.
     bindE (release_guest X vm) (\<lambda>released.
     thenE (awaitE X (hv_suspend (adapter_for X cfg) cfg))
     (bindE (refresh_power X cfg) (\<lambda>p.
      thenE (eventE X vm ''suspend'' [])
        (ret [(''vm'', JStr vm), (''power'', JStr (power_text p)),
              (''terms_dropped'', jstrs (rl_terms_dropped released))])))))"

definition vm_resume :: "('e, 'x) svc_outside_scheme \<Rightarrow> string \<Rightarrow> ('e, 'z, result) sprog" where
  "vm_resume X vm =
     bindE (vm_cfg X vm) (\<lambda>cfg.
     thenE (awaitE X (hv_start (adapter_for X cfg) cfg False))
     (bindE (refresh_power X cfg) (\<lambda>p.
      thenE (eventE X vm ''resume'' [])
        (ret [(''vm'', JStr vm), (''power'', JStr (power_text p))]))))"

section \<open>Hardware\<close>

text \<open>The bounds of \<open>ConfigParams\<close>.\<close>

definition config_params_ok :: "hw_changes \<Rightarrow> bool" where
  "config_params_ok ch =
     ((case hc_cpus ch of None \<Rightarrow> True | Some n \<Rightarrow> 1 \<le> n \<and> n \<le> 64) \<and>
      (case hc_memory ch of None \<Rightarrow> True | Some m \<Rightarrow> 512 \<le> m \<and> m \<le> 1048576 \<and> m mod 4 = 0) \<and>
      (case hc_nic ch of None \<Rightarrow> True | Some n \<Rightarrow> n \<in> {''e1000e'', ''e1000'', ''vmxnet3''}))"

definition no_changes :: "hw_changes \<Rightarrow> bool" where
  "no_changes ch = (hc_cpus ch = None \<and> hc_memory ch = None \<and> hc_nic ch = None)"

definition vm_config_tool :: "('e, 'x) svc_outside_scheme \<Rightarrow> string \<Rightarrow> hw_changes \<Rightarrow> ('e, 'z, result) sprog" where
  "vm_config_tool X vm changes =
     bindE (vm_cfg X vm) (\<lambda>cfg.
     bindE (awaitE X (hv_hardware (adapter_for X cfg) cfg)) (\<lambda>before.
       if no_changes changes
       then ret [(''vm'', JStr vm), (''hardware'', hardware_dict before), (''changed'', JList [])]
       else
         bindE (awaitE X (hv_set_hardware (adapter_for X cfg) cfg changes)) (\<lambda>(changed, after).
         thenE (eventE X vm ''config'' [(''changed'', jstrs changed)])
           (ret [(''vm'', JStr vm), (''hardware'', hardware_dict after), (''before'', hardware_dict before),
                 (''changed'', jstrs changed)]))))"

end
