(* ===== verification/Tools_Snap.thy ===== *)
theory Tools_Snap
  imports Tools_Vm "HOL-Library.List_Lexorder" "HOL-Library.Char_ord"
begin

text \<open>
  The \<open>snap_*\<close> tools of \<open>core/tools/snap.py\<close>. An encrypted machine refuses a live snapshot, so
  the work can be done suspended: the machine is resumed afterwards whatever the work did.
\<close>

section \<open>Suspend, work, resume\<close>

definition TRANSIENT_REASONS :: "string set" where
  "TRANSIENT_REASONS = {REASON_CONFIG_UNREADABLE, REASON_SNAPSHOT_MISSING}"

definition needs_suspend :: "nt_error \<Rightarrow> bool \<Rightarrow> power_state \<Rightarrow> bool" where
  "needs_suspend exc allow p = (reason exc = REASON_ENCRYPTED_LIVE \<and> allow \<and> p = P_Running)"

text \<open>\<open>except NtDriveError: if exc.reason not in _TRANSIENT_REASONS: raise\<close>, with the value then.\<close>

definition unless_transient :: "('w, 'a) app \<Rightarrow> 'a \<Rightarrow> ('w, 'a) app" where
  "unless_transient m x = catch_nt m (\<lambda>exc. if reason exc \<in> TRANSIENT_REASONS then ret x else raise (Nt exc)) ret"

text \<open>Six attempts: \<open>n\<close> are left, after \<open>attempt\<close> of them.\<close>

primrec snap_attempts ::
  "('e, 'x) svc_outside_scheme \<Rightarrow> ('e, 'z, unit) sprog \<Rightarrow> ('e, 'z, bool) sprog \<Rightarrow> nat \<Rightarrow> int \<Rightarrow> ('e, 'z, unit) sprog" where
  "snap_attempts X work finished 0 attempt = throw BACKEND_ERROR"
| "snap_attempts X work finished (Suc n) attempt =
     thenE (unless_transient work ())
       (bindE (unless_transient finished False) (\<lambda>ok.
          if ok then ret ()
          else thenE (termE X (sleepE X (1000 + 1000 * attempt))) (snap_attempts X work finished n (attempt + 1))))"

definition RESUME_RETRY_PAUSE :: int where "RESUME_RETRY_PAUSE = 3000"

text \<open>\<open>_resume\<close>: the error of the last of two attempts, as a value.\<close>

definition resume_vm :: "('e, 'x) svc_outside_scheme \<Rightarrow> vm_config \<Rightarrow> ('e, 'z, nt_error option) sprog" where
  "resume_vm X cfg =
     (let start = awaitE X (hv_start (adapter_for X cfg) cfg False)
      in catch_nt start
           (\<lambda>_. thenE (termE X (sleepE X RESUME_RETRY_PAUSE)) (catch_nt start (\<lambda>exc. ret (Some exc)) (\<lambda>_. ret None)))
           (\<lambda>_. ret None))"

text \<open>The work between the suspend and the resume, and \<open>finally\<close> the resume, with its error.\<close>

definition work_then_resume ::
  "('e, 'x) svc_outside_scheme \<Rightarrow> vm_config \<Rightarrow> ('e, 'z, unit) sprog \<Rightarrow> ('e, 'z, bool) sprog \<Rightarrow> ('e, 'z, nt_error option) sprog" where
  "work_then_resume X cfg work finished =
     tryE (snap_attempts X work finished 6 0)
       (\<lambda>failure. bindE (resume_vm X cfg) (\<lambda>_. raise failure))
       (\<lambda>_. resume_vm X cfg)"

definition password_check :: "('e, 'x) svc_outside_scheme \<Rightarrow> vm_config \<Rightarrow> ('e, 'z, unit) sprog" where
  "password_check X cfg =
     catch_nt (awaitE X (hv_snapshot_list (adapter_for X cfg) cfg))
       (\<lambda>exc. throw_with (err_code exc) (if reason exc \<noteq> [] then [(''reason'', JStr (reason exc))] else []))
       (\<lambda>_. ret ())"

definition suspended_detail :: "released \<Rightarrow> result" where
  "suspended_detail r =
     [(''via'', JStr ''suspend-resume''), (''terms_dropped'', jstrs (rl_terms_dropped r)), (''kd'', JNull)]"

definition kd_back ::
  "('e, 'x) svc_outside_scheme \<Rightarrow> vm_config \<Rightarrow> ('e, 'z, json) sprog" where
  "kd_back X cfg =
     catch_nt (bindE (kd_session_for X cfg None None) (\<lambda>_. svc_kd_attach X (vc_name cfg) True 120000))
       (\<lambda>exc. ret (JDict [(''state'', JStr ''detached''), (''error'', JDict (error_body exc))]))
       (\<lambda>st. ret (JDict st))"

definition after_resume ::
  "('e, 'x) svc_outside_scheme \<Rightarrow> vm_config \<Rightarrow> released \<Rightarrow> nt_error option \<Rightarrow> ('e, 'z, result) sprog" where
  "after_resume X cfg released resume_error =
     (let detail = suspended_detail released in
      case resume_error of
        Some err \<Rightarrow>
          bindE (catch_nt (refresh_power X cfg) (\<lambda>_. ret P_Unknown) ret) (\<lambda>p.
            ret (dict_set ''power'' (JStr (power_text p)) (dict_set ''resume_error'' (JDict (error_body err)) detail)))
      | None \<Rightarrow>
          thenE (set_power (vc_name cfg) P_Running)
            (if rl_kd_was_attached released
             then bindE (kd_back X cfg) (\<lambda>kd. ret (dict_set ''kd'' kd detail))
             else ret detail))"

definition suspend_run_resume ::
  "('e, 'x) svc_outside_scheme \<Rightarrow> vm_config \<Rightarrow> ('e, 'z, unit) sprog \<Rightarrow> ('e, 'z, bool) sprog \<Rightarrow> ('e, 'z, result) sprog" where
  "suspend_run_resume X cfg work finished =
     thenE (ensure_not_frozen X (vc_name cfg))
     (thenE (password_check X cfg)
     (bindE (release_guest X (vc_name cfg)) (\<lambda>released.
      thenE (awaitE X (hv_suspend (adapter_for X cfg) cfg))
      (bindE (work_then_resume X cfg work finished) (after_resume X cfg released)))))"

text \<open>\<open>_raise_if_resume_failed\<close>: \<open>if not err\<close> treats an empty error as none.\<close>

definition raise_if_resume_failed :: "result \<Rightarrow> result \<Rightarrow> ('w, unit) app" where
  "raise_if_resume_failed detail res =
     (case dict_get detail ''resume_error'' of
        None \<Rightarrow> ret ()
      | Some err \<Rightarrow>
          if \<not> truthy err then ret ()
          else
            let extra = [(''power'', opt_or (dict_get detail ''power'') JNull), (''resume_error'', err), (''completed'', JDict res)];
                why = opt_or (jget err ''reason'') JNull
            in throw_with BACKEND_ERROR (if truthy why then extra @ [(''reason'', why)] else extra))"

definition snap_extra :: "result \<Rightarrow> result" where
  "snap_extra detail = filter (\<lambda>(k, v). k \<in> {''terms_dropped'', ''kd''}) detail"

section \<open>Listing\<close>

definition list_tree :: "('e, 'x) svc_outside_scheme \<Rightarrow> vm_config \<Rightarrow> ('e, 'z, snapshot_tree) sprog" where
  "list_tree X cfg = awaitE X (hv_snapshot_list (adapter_for X cfg) cfg)"

definition tree_names :: "snapshot_tree \<Rightarrow> string list" where
  "tree_names tree = snapshot_names (st_roots tree)"

definition meta_json :: "(string, (string, json) dict) dict \<Rightarrow> json" where
  "meta_json meta = JDict (map (\<lambda>(n, e). (n, JDict e)) meta)"

definition snap_list :: "('e, 'x) svc_outside_scheme \<Rightarrow> string \<Rightarrow> ('e, 'z, json) sprog" where
  "snap_list X vm =
     bindE (vm_cfg X vm) (\<lambda>cfg.
     bindE (list_tree X cfg) (\<lambda>tree.
     thenE (set_snapshot vm (st_current tree))
     (bindE (getS (load_snapshot_meta vm)) (\<lambda>meta.
      ret (jset ''metadata'' (meta_json meta) (tree_dict tree))))))"

definition snap_present :: "('e, 'x) svc_outside_scheme \<Rightarrow> vm_config \<Rightarrow> string \<Rightarrow> ('e, 'z, bool) sprog" where
  "snap_present X cfg name = bindE (list_tree X cfg) (\<lambda>tree. ret (name \<in> set (tree_names tree)))"

section \<open>Taking\<close>

record take_params =
  tk_vm :: string
  tk_name :: string
  tk_description :: string
  tk_replace :: bool
  tk_allow_suspend :: bool

definition take_existing ::
  "('e, 'x) svc_outside_scheme \<Rightarrow> take_params \<Rightarrow> snapshot_tree \<Rightarrow> ('e, 'z, result) sprog" where
  "take_existing X p tree =
     bindE (getS (load_snapshot_meta (tk_vm p))) (\<lambda>meta.
       let base = [(''vm'', JStr (tk_vm p)), (''name'', JStr (tk_name p)), (''created'', JBool False),
                   (''snapshots'', jstrs (tree_names tree)), (''current'', jopt (st_current tree))]
       in thenE (eventE X (tk_vm p) ''snapshot_take'' [(''snapshot'', JStr (tk_name p)), (''via'', JStr ''existing'')])
            (ret (case dict_get meta (tk_name p) of
                    None \<Rightarrow> base | Some recorded \<Rightarrow> dict_update base recorded)))"

definition delete_again :: "('e, 'x) svc_outside_scheme \<Rightarrow> vm_config \<Rightarrow> string \<Rightarrow> ('e, 'z, unit) sprog" where
  "delete_again X cfg name =
     catch_nt (awaitE X (hv_snapshot_delete (adapter_for X cfg) cfg name False))
       (\<lambda>exc. if reason exc = REASON_SNAPSHOT_MISSING then ret () else raise (Nt exc)) ret"

definition take_suspended :: "('e, 'x) svc_outside_scheme \<Rightarrow> vm_config \<Rightarrow> string \<Rightarrow> bool \<Rightarrow> ('e, 'z, unit) sprog" where
  "take_suspended X cfg name existing =
     thenE (if existing then delete_again X cfg name else ret ())
       (catch_nt (awaitE X (hv_snapshot_take (adapter_for X cfg) cfg name))
          (\<lambda>exc. if reason exc = REASON_SNAPSHOT_EXISTS then ret () else raise (Nt exc)) ret)"

text \<open>The live attempt, and what its refusal leads to.\<close>

definition take_work ::
  "('e, 'x) svc_outside_scheme \<Rightarrow> vm_config \<Rightarrow> take_params \<Rightarrow> bool \<Rightarrow> power_state \<Rightarrow> ('e, 'z, result) sprog" where
  "take_work X cfg p existing power_before =
     catch_nt
       (thenE (if existing then awaitE X (hv_snapshot_delete (adapter_for X cfg) cfg (tk_name p) False) else ret ())
         (awaitE X (hv_snapshot_take (adapter_for X cfg) cfg (tk_name p))))
       (\<lambda>exc.
          if reason exc \<noteq> REASON_ENCRYPTED_LIVE then raise (Nt exc)
          else
            bindE (if existing then ret False
                   else catch_nt (snap_present X cfg (tk_name p)) (\<lambda>_. ret False) ret) (\<lambda>leftover.
              if leftover then throw BACKEND_ERROR
              else if \<not> needs_suspend exc (tk_allow_suspend p) power_before then raise (Nt exc)
              else suspend_run_resume X cfg (take_suspended X cfg (tk_name p) existing) (snap_present X cfg (tk_name p))))
       (\<lambda>_. ret [(''via'', JStr ''direct'')])"

definition take_entry :: "take_params \<Rightarrow> int \<Rightarrow> kd_state \<Rightarrow> power_state \<Rightarrow> json \<Rightarrow> result" where
  "take_entry p t kd_before power_before via =
     [(''description'', JStr (tk_description p)), (''taken_at'', JInt t),
      (''kd_state_at_snapshot'', JStr (kd_state_text kd_before)), (''power_at_snapshot'', JStr (power_text power_before)),
      (''via'', via), (''memory_included'', JBool (power_before = P_Running))]"

definition take_record ::
  "('e, 'x) svc_outside_scheme \<Rightarrow> vm_config \<Rightarrow> take_params \<Rightarrow> bool \<Rightarrow> power_state \<Rightarrow> kd_state \<Rightarrow> result \<Rightarrow> ('e, 'z, result) sprog" where
  "take_record X cfg p existing power_before kd_before detail =
     (let via = opt_or (dict_get detail ''via'') JNull in
      bindE (getS (now X)) (\<lambda>t.
      let entry = take_entry p t kd_before power_before via in
      bindE (getS (load_snapshot_meta (tk_vm p))) (\<lambda>meta.
      thenE (save_snapshot_meta (tk_vm p) (dict_set (tk_name p) entry meta))
      (thenE (set_snapshot (tk_vm p) (Some (tk_name p)))
      (thenE (eventE X (tk_vm p) ''snapshot_take'' [(''snapshot'', JStr (tk_name p)), (''via'', via)])
      (let r0 = dict_update (dict_update [(''vm'', JStr (tk_vm p)), (''name'', JStr (tk_name p)), (''created'', JBool True)] entry)
                  (snap_extra detail);
           r1 = (if existing then dict_set ''replaced'' (JBool True) r0 else r0)
       in bindE (catch_nt (list_tree X cfg) (\<lambda>_. ret r1)
                  (\<lambda>tree. ret (dict_set ''current'' (jopt (st_current tree))
                                 (dict_set ''snapshots'' (jstrs (tree_names tree)) r1)))) (\<lambda>res.
          thenE (raise_if_resume_failed detail res) (ret res))))))))"

definition snap_take :: "('e, 'x) svc_outside_scheme \<Rightarrow> take_params \<Rightarrow> ('e, 'z, result) sprog" where
  "snap_take X p =
     bindE (vm_cfg X (tk_vm p)) (\<lambda>cfg.
     bindE (refresh_power X cfg) (\<lambda>power_before.
     bindE (catch_nt (list_tree X cfg) (\<lambda>_. ret None) (\<lambda>tree. ret (Some tree))) (\<lambda>found.
     let existing = (case found of None \<Rightarrow> False | Some tree \<Rightarrow> tk_name p \<in> set (tree_names tree)) in
     if existing \<and> \<not> tk_replace p then take_existing X p (the found)
     else
       bindE (svc_runtime X (tk_vm p)) (\<lambda>r.
       bindE (take_work X cfg p existing power_before)
         (take_record X cfg p existing power_before (rt_kd_state r))))))"

section \<open>Reverting\<close>

record snap_revert_params =
  rv_vm :: string
  rv_name :: string
  rv_start :: bool
  rv_reattach :: bool
  rv_reopen :: bool
  rv_discard :: bool
  rv_timeout :: int

text \<open>With whether the warning about a debugger that is missing now applies.\<close>

definition snap_revert :: "('e, 'x) svc_outside_scheme \<Rightarrow> snap_revert_params \<Rightarrow> ('e, 'z, flow_result \<times> bool) fprog" where
  "snap_revert X p =
     bindE (vm_cfg X (rv_vm p)) (\<lambda>cfg.
     bindE (list_tree X cfg) (\<lambda>tree.
     if rv_name p \<notin> set (tree_names tree) then throw SNAPSHOT_NOT_FOUND
     else
       bindE (getS (load_snapshot_meta (rv_vm p))) (\<lambda>meta.
       let kd_then = dict_get (opt_or (dict_get meta (rv_name p)) []) ''kd_state_at_snapshot'' in
       bindE (revert_flow X cfg (rv_name p) (rv_start p) (rv_reattach p) (rv_reopen p) (rv_timeout p) (rv_discard p)) (\<lambda>r.
         ret (r, rv_start p \<and> \<not> rv_reattach p \<and>
                 kd_then \<in> {Some (JStr ''running''), Some (JStr ''broken''), Some (JStr ''waiting'')})))))"

section \<open>Deleting\<close>

record snap_delete_params =
  sd_vm :: string
  sd_name :: string
  sd_children :: bool
  sd_allow_suspend :: bool

definition delete_work ::
  "('e, 'x) svc_outside_scheme \<Rightarrow> vm_config \<Rightarrow> snap_delete_params \<Rightarrow> power_state \<Rightarrow> ('e, 'z, result) sprog" where
  "delete_work X cfg p power_before =
     (let del = awaitE X (hv_snapshot_delete (adapter_for X cfg) cfg (sd_name p) (sd_children p))
      in catch_nt del
           (\<lambda>exc. if \<not> needs_suspend exc (sd_allow_suspend p) power_before then raise (Nt exc)
             else suspend_run_resume X cfg del (bindE (snap_present X cfg (sd_name p)) (\<lambda>b. ret (\<not> b))))
           (\<lambda>_. ret [(''via'', JStr ''direct'')]))"

definition forget_snapshots :: "string list \<Rightarrow> (string, (string, json) dict) dict \<Rightarrow> (string, (string, json) dict) dict" where
  "forget_snapshots deleted meta = fold dict_pop deleted meta"

definition snap_delete :: "('e, 'x) svc_outside_scheme \<Rightarrow> snap_delete_params \<Rightarrow> ('e, 'z, result) sprog" where
  "snap_delete X p =
     bindE (vm_cfg X (sd_vm p)) (\<lambda>cfg.
     bindE (list_tree X cfg) (\<lambda>before.
     if sd_name p \<notin> set (tree_names before) then throw SNAPSHOT_NOT_FOUND
     else
       bindE (refresh_power X cfg) (\<lambda>power_before.
       bindE (delete_work X cfg p power_before) (\<lambda>detail.
       bindE (list_tree X cfg) (\<lambda>after.
       let deleted = sort (remdups (filter (\<lambda>n. n \<notin> set (tree_names after)) (tree_names before)));
           via = opt_or (dict_get detail ''via'') JNull in
       bindE (getS (load_snapshot_meta (sd_vm p))) (\<lambda>meta.
       thenE (save_snapshot_meta (sd_vm p) (forget_snapshots deleted meta))
       (thenE (eventE X (sd_vm p) ''snapshot_delete'' [(''deleted'', jstrs deleted), (''via'', via)])
       (let res = dict_update [(''vm'', JStr (sd_vm p)), (''deleted'', jstrs deleted), (''current'', jopt (st_current after)),
                               (''via'', via)] (snap_extra detail)
        in thenE (raise_if_resume_failed detail res) (ret res)))))))))"

end
