(* ===== verification/Vm_Properties.thy ===== *)
theory Vm_Properties
  imports Tools_Snap Demo_Host
begin

text \<open>
  What the machine and snapshot tools promise: a machine that was suspended for a snapshot runs afterwards whatever the
  snapshot did, and the wait for a guest ends soon after the guest answers.
\<close>

section \<open>The environment under the daemon's waits\<close>

text \<open>A property of the environment that the passing of time and the debugger sessions keep.\<close>

definition background :: "('e, 'x) svc_outside_scheme \<Rightarrow> ('e \<Rightarrow> bool) \<Rightarrow> bool" where
  "background X R =
     ((\<forall>t e. R e \<longrightarrow> R (x_sleep_until X t e)) \<and> (\<forall>vm f ops e. R e \<longrightarrow> R (x_kd_done X vm f ops e)))"

lemma backgroundD:
  "background X R \<Longrightarrow> R e \<Longrightarrow> R (x_sleep_until X t e)" "background X R \<Longrightarrow> R e \<Longrightarrow> R (x_kd_done X vm f ops e)"
  by (simp_all add: background_def)

lemma kd_put_env: "background X R \<Longrightarrow> R (w_env w) \<Longrightarrow> R (w_env (kd_put X vm k w))"
  by (simp add: kd_put_def backgroundD)

lemma catch_up_one_env: "background X R \<Longrightarrow> R (w_env w) \<Longrightarrow> R (w_env (catch_up_one X vm w))"
  by (simp add: catch_up_one_def Let_def kd_put_env split: option.splits prod.splits)

lemma catch_up_env: "background X R \<Longrightarrow> R (w_env w) \<Longrightarrow> R (w_env (catch_up X w))"
proof -
  have "R (w_env (fold (catch_up_one X) vms w))" if "background X R" "R (w_env w)" for vms
    using that by (induction vms arbitrary: w) (simp_all add: catch_up_one_env)
  then show "background X R \<Longrightarrow> R (w_env w) \<Longrightarrow> R (w_env (catch_up X w))" by (simp add: catch_up_def)
qed

lemma await_env:
  "background X R \<Longrightarrow> (\<And>r e'. f (w_env w) = (r, e') \<Longrightarrow> R e') \<Longrightarrow> R (w_env (snd (awaitE X f w)))"
  by (cases "f (w_env w)") (simp add: awaitE_def env_tryE_def catch_up_env)

lemma await_result: "fst (awaitE X f w) = fst (f (w_env w))"
  by (simp add: awaitE_def env_tryE_def split: prod.splits)

lemma sleep_env: "background X R \<Longrightarrow> R (w_env w) \<Longrightarrow> R (w_env (snd (termE X (sleepE X d) w)))"
  by (simp add: termE_def sleepE_def catch_up_env backgroundD)

section \<open>A machine suspended for a snapshot runs again\<close>

lemma resume_runs:
  assumes bg: "background X R"
    and start: "\<And>e. \<exists>e'. hv_start (adapter_for X cfg) cfg False e = (Inr (), e') \<and> R e'"
  shows "R (w_env (snd (resume_vm X cfg w)))" "fst (resume_vm X cfg w) = Inr None"
proof -
  obtain e' where e': "hv_start (adapter_for X cfg) cfg False (w_env w) = (Inr (), e')" "R e'"
    using start by blast
  then have "R (w_env (snd (awaitE X (hv_start (adapter_for X cfg) cfg False) w)))"
      "fst (awaitE X (hv_start (adapter_for X cfg) cfg False) w) = Inr ()"
    by (auto intro!: await_env [OF bg] simp: await_result)
  then show "R (w_env (snd (resume_vm X cfg w)))" "fst (resume_vm X cfg w) = Inr None"
    by (cases "awaitE X (hv_start (adapter_for X cfg) cfg False) w";
        simp add: resume_vm_def Let_def catch_nt_def tryE_def ret_def)+
qed

lemma work_then_resume_runs:
  assumes bg: "background X R"
    and start: "\<And>e. \<exists>e'. hv_start (adapter_for X cfg) cfg False e = (Inr (), e') \<and> R e'"
  shows "R (w_env (snd (work_then_resume X cfg work finished w)))"
    "\<forall>x. fst (work_then_resume X cfg work finished w) = Inr x \<longrightarrow> x = None"
proof -
  obtain r w1 where r: "snap_attempts X work finished 6 0 w = (r, w1)" by fastforce
  obtain r2 w2 where r2: "resume_vm X cfg w1 = (r2, w2)" by fastforce
  have "R (w_env w2)" "r2 = Inr None" using resume_runs [OF bg start, of w1] r2 by auto
  then show "R (w_env (snd (work_then_resume X cfg work finished w)))"
    "\<forall>x. fst (work_then_resume X cfg work finished w) = Inr x \<longrightarrow> x = None"
    using r r2 by (auto simp: work_then_resume_def tryE_def bindE_def raise_def split: sum.splits)
qed

lemma kd_on_env: "background X R \<Longrightarrow> preserves (\<lambda>w. R (w_env w)) (kd_on X vm m)"
  by (rule preservesI) (simp add: kd_on_def kd_put_env split: option.splits prod.splits)

lemma service_env:
  "preserves (\<lambda>w. R (w_env w)) (svc_runtime X v)" "preserves (\<lambda>w. R (w_env w)) (set_power v p)"
  "preserves (\<lambda>w. R (w_env w)) (kd_session_for X vm port key)" "preserves (\<lambda>w. R (w_env w)) (mark_disconnected v)"
  by (simp_all add: preserves_def hoare_def svc_runtime_def set_power_def storeE_def kd_session_for_def
      mark_disconnected_def Let_def)

lemma termE_env:
  "background X R \<Longrightarrow> preserves (\<lambda>w. R (w_env w)) m \<Longrightarrow> preserves (\<lambda>w. R (w_env w)) (termE X m)"
  unfolding preserves_def hoare_def termE_def by (auto simp: catch_up_env split: prod.splits)

lemma await_preserves:
  "background X R \<Longrightarrow> (\<And>e r e'. R e \<Longrightarrow> f e = (r, e') \<Longrightarrow> R e') \<Longrightarrow> preserves (\<lambda>w. R (w_env w)) (awaitE X f)"
  by (rule preservesI) (blast intro: await_env)

lemma drop_transport_env:
  fixes X :: "('e, 'x) term_outside_scheme"
  assumes "\<And>tr e. R e \<Longrightarrow> R (x_close_transport X tr e)"
  shows "preserves (\<lambda>w. R (w_env w)) (drop_transport X vm :: ('e, 'z, unit) tprog)"
proof (rule preservesI)
  fix w :: "('e, 'z) term_world_scheme" assume w: "R (w_env w)"
  have "R (fold (\<lambda>(k, tr). x_close_transport X tr) gone e)" if "R e" for gone e
    using that assms by (induction gone arbitrary: e) auto
  then show "R (w_env (snd (drop_transport X vm w)))" using w by (simp add: drop_transport_def Let_def)
qed

lemma kd_attach_env: "background X R \<Longrightarrow> preserves (\<lambda>w. R (w_env w)) (svc_kd_attach X vm b t)"
  by (rule preservesI) (simp add: svc_kd_attach_def preservesD [OF kd_on_env])

lemma kd_back_env: "background X R \<Longrightarrow> preserves (\<lambda>w. R (w_env w)) (kd_back X cfg)"
  unfolding kd_back_def by (intro preserves_intros service_env kd_attach_env)

lemma after_resume_env: "background X R \<Longrightarrow> preserves (\<lambda>w. R (w_env w)) (after_resume X cfg released None)"
  unfolding after_resume_def Let_def option.case by (intro preserves_intros service_env kd_back_env)

lemma release_env:
  assumes "background X R" and "\<And>tr e. R e \<Longrightarrow> R (x_close_transport X tr e)"
  shows "preserves (\<lambda>w. R (w_env w)) (release_guest X vm)"
  unfolding release_guest_def
  by (intro preserves_intros service_env kd_on_env drop_transport_env assms)

lemma hoare_bindE:
  assumes "preserves Q m" "\<And>x. hoare Q (f x) S" "\<And>e w. Q w \<Longrightarrow> S (Inl e) w"
  shows "hoare Q (bindE m f) S"
  using assms unfolding hoare_def preserves_def bindE_def
  by (auto split: prod.splits sum.splits)

lemma after_resume_clean:
  "fst (after_resume X cfg released None w) = Inr detail \<Longrightarrow> dict_get detail ''resume_error'' = None"
  by (auto simp: after_resume_def suspended_detail_def Let_def thenE_def bindE_def ret_def
      split: prod.splits sum.splits if_splits)

text \<open>What the daemon promises of a snapshot made in suspension, as a postcondition.\<close>

definition runs_again :: "('e \<Rightarrow> bool) \<Rightarrow> exn + result \<Rightarrow> ('e, 'z) svc_world_scheme \<Rightarrow> bool" where
  "runs_again R r w = (R (w_env w) \<and> (\<forall>detail. r = Inr detail \<longrightarrow> dict_get detail ''resume_error'' = None))"

lemma resumed_runs_again:
  assumes bg: "background X R"
    and start: "\<And>e. \<exists>e'. hv_start (adapter_for X cfg) cfg False e = (Inr (), e') \<and> R e'"
    and m: "bindE (work_then_resume X cfg work finished) (after_resume X cfg released) w = (r, w')"
  shows "runs_again R r w'"
proof -
  obtain q w1 where q: "work_then_resume X cfg work finished w = (q, w1)" by fastforce
  have w1: "R (w_env w1)" "\<forall>x. q = Inr x \<longrightarrow> x = None"
    using work_then_resume_runs [OF bg start, of work finished w] q by auto
  show ?thesis
  proof (cases q)
    case (Inl x)
    then show ?thesis using m w1 by (auto simp: bindE_def q runs_again_def)
  next
    case (Inr x)
    then have "after_resume X cfg released None w1 = (r, w')" using m w1 by (auto simp: bindE_def q)
    then show ?thesis
      using preservesD [OF after_resume_env [OF bg], of w1 cfg released] w1(1)
        after_resume_clean [of X cfg released w1] by (auto simp: runs_again_def)
  qed
qed

lemma suspended_runs_again:
  fixes X :: "('e, 'x) svc_outside_scheme" and w :: "('e, 'z) svc_world_scheme"
  assumes bg: "background X R"
    and suspend: "\<And>e x e'. R e \<Longrightarrow> hv_suspend (adapter_for X cfg) cfg e = (Inl x, e') \<Longrightarrow> R e'"
    and rest: "\<And>w r w'. rest w = (r, w') \<Longrightarrow> runs_again R r w'"
    and w: "R (w_env w)" and m: "thenE (awaitE X (hv_suspend (adapter_for X cfg) cfg)) rest w = (r, w')"
  shows "runs_again R r w'"
proof -
  let ?f = "hv_suspend (adapter_for X cfg) cfg"
  obtain q w1 where q: "awaitE X ?f w = (q, w1)" by fastforce
  show ?thesis
  proof (cases q)
    case (Inl x)
    obtain e' where e': "?f (w_env w) = (Inl x, e')"
      using await_result [of X ?f w] q Inl by (metis fst_conv prod.exhaust)
    then have "R (w_env w1)" using await_env [OF bg, of ?f w] suspend w q by force
    then show ?thesis using m q Inl by (auto simp: thenE_def bindE_def runs_again_def)
  next
    case (Inr x)
    then show ?thesis using m q rest by (simp add: thenE_Inr)
  qed
qed


text \<open>On a host whose machine always starts, a snapshot operation that fails.\<close>

definition sure_outside :: "demo_env svc_outside" where
  "sure_outside =
     demo_outside\<lparr>x_adapters := [(''vmware'', demo_adapter\<lparr>hv_start := \<lambda>vm gui e. (Inr (), e\<lparr>de_power := P_Running\<rparr>)\<rparr>)]\<rparr>"


section \<open>The wait for the guest\<close>

lemma catch_up_now:
  assumes "\<And>t e. x_now X (x_sleep_until X t e) = max t (x_now X e)"
    and "\<And>v f ops e. x_now X (x_kd_done X v f ops e) = x_now X e"
  shows "now X (catch_up X w) = now X w"
proof -
  have one: "now X (catch_up_one X vm w) = now X w" for vm w
    by (simp add: catch_up_one_def kd_put_def kd_view_def now_def Let_def assms split: option.splits prod.splits)
  have "now X (fold (catch_up_one X) vms w) = now X w" for vms
    by (induction vms arbitrary: w) (simp_all add: one)
  then show ?thesis by (simp add: catch_up_def)
qed

lemma await_still: "f (w_env w) = (r, w_env w) \<Longrightarrow> awaitE X f w = (r, catch_up X w)"
  by (simp add: awaitE_def env_tryE_def)

lemma ready_look_still:
  assumes power: "\<And>e. hv_power_state (adapter_for X cfg) cfg e = (Inr P_Running, e)"
    and ip: "\<And>t e. hv_guest_ip (adapter_for X cfg) cfg t e = (Inr ip, e)"
    and probe: "\<And>e. x_ssh_probe X ip (g_ssh_port (vc_guest cfg)) e = (T \<le> x_now X e, e)"
    and clock: "\<And>t e. x_now X (x_sleep_until X t e) = max t (x_now X e)"
      "\<And>v f ops e. x_now X (x_kd_done X v f ops e) = x_now X e"
  shows "\<exists>w1. ready_look X cfg r i w = (Inr (T \<le> now X w, ip), w1) \<and> now X w1 = now X w"
proof -
  let ?w1 = "snd (set_power (vc_name cfg) P_Running (catch_up X w))"
  have n1: "now X ?w1 = now X w"
    using catch_up_now [OF clock, of w] by (simp add: set_power_def storeE_def now_def)
  have p: "refresh_power X cfg w = (Inr P_Running, ?w1)"
    using await_still [of "hv_power_state (adapter_for X cfg) cfg" w "Inr P_Running" X]
    by (simp add: refresh_power_def power bindE_def thenE_def set_power_def storeE_def ret_def)
  have s: "ssh_reachable X cfg t w = (Inr (T \<le> now X w, ip), catch_up X (catch_up X w))" for t and w :: "('a, 'c) svc_world_scheme"
    using catch_up_now [OF clock, of w]
    by (simp add: ssh_reachable_def svc_guest_ip_def bindE_def ret_def ip probe await_still now_def)
  show ?thesis
    by (simp add: catch_up_now [OF clock] ready_look_def bindE_Inr [of "refresh_power X cfg", OF p] catch_nt_def tryE_def s ret_def n1)
qed

lemma ready_loop_returns:
  assumes power: "\<And>e. hv_power_state (adapter_for X cfg) cfg e = (Inr P_Running, e)"
    and ip: "\<And>t e. hv_guest_ip (adapter_for X cfg) cfg t e = (Inr ip, e)"
    and probe: "\<And>e. x_ssh_probe X ip (g_ssh_port (vc_guest cfg)) e = (T \<le> x_now X e, e)"
    and clock: "\<And>t e. x_now X (x_sleep_until X t e) = max t (x_now X e)"
      "\<And>v f ops e. x_now X (x_kd_done X v f ops e) = x_now X e"
    and T: "T + 2000 \<le> deadline"
  shows "now X w = t \<Longrightarrow> t < deadline \<Longrightarrow>
    \<exists>t' w'. ready_loop X cfg timeout deadline addr t w = (Inr \<lparr>rr_ready = True, rr_ip = ip, rr_waited = timeout - (deadline - t')\<rparr>, w') \<and>
      t \<le> t' \<and> t' < max (t + 1) (T + 2000)"
proof (induction "nat (T - t)" arbitrary: t w addr rule: less_induct)
  case less
  obtain w1 where look: "ready_look X cfg (deadline - t) addr w = (Inr (T \<le> t, ip), w1)" "now X w1 = t"
    using ready_look_still [where cfg = cfg, OF power ip probe clock] less.prems(1) by metis
  let ?d = "min 2000 (max 100 (deadline - t))"
  let ?w2 = "snd (termE X (sleepE X ?d) w1)"
  have step: "ready_loop X cfg timeout deadline addr t w =
      (if T \<le> t then (Inr \<lparr>rr_ready = True, rr_ip = ip, rr_waited = timeout - (deadline - t)\<rparr>,
                     snd (eventE X (vc_name cfg) ''wait_ready'' [(''ready'', JBool True)] w1))
       else ready_loop X cfg timeout deadline ip (t + ?d) ?w2)"
    using less.prems look by (subst ready_loop.simps) (simp add: Let_def)
  show ?case
  proof (cases "T \<le> t")
    case True
    then show ?thesis unfolding step by (auto intro!: exI [of _ t])
  next
    case False
    have "now X ?w2 = t + ?d"
      using look(2) False by (simp add: termE_def sleepE_def catch_up_now [OF clock, unfolded now_def] now_def clock)
    moreover have "t + ?d < deadline" "nat (T - (t + ?d)) < nat (T - t)" using False T by linarith+
    ultimately obtain t' w' where "ready_loop X cfg timeout deadline ip (t + ?d) ?w2 =
        (Inr \<lparr>rr_ready = True, rr_ip = ip, rr_waited = timeout - (deadline - t')\<rparr>, w')"
        "t + ?d \<le> t'" "t' < max (t + ?d + 1) (T + 2000)"
      using less.hyps by blast
    moreover have "max (t + ?d + 1) (T + 2000) = T + 2000" "t \<le> t + ?d" using False by linarith+
    ultimately show ?thesis using False unfolding step by auto
  qed
qed


text \<open>A running machine whose guest answers after seven seconds.\<close>

definition late_outside :: "demo_env svc_outside" where
  "late_outside =
     demo_outside\<lparr>x_adapters := [(''vmware'', demo_adapter\<lparr>hv_power_state := \<lambda>vm e. (Inr P_Running, e)\<rparr>)],
                   x_ssh_probe := \<lambda>ip p e. (7000 \<le> de_now e, e)\<rparr>"


section \<open>Replacing a snapshot in suspension\<close>

text \<open>
  C20. Whether the work in suspension is done is read off the tree, and a snapshot to be replaced is in it already:
  when the delete is refused by the transient error of a fresh suspend, the loop ends at its first attempt as done, in the
  state the delete and the listing left, so no new snapshot was taken.
\<close>

theorem transient_delete_counts_as_replaced:
  assumes "awaitE X (hv_snapshot_delete (adapter_for X cfg) cfg name False) w = (Inl (Nt exc), w1)"
    and "reason exc = REASON_CONFIG_UNREADABLE"
    and "list_tree X cfg w1 = (Inr tree, w2)" and "name \<in> set (tree_names tree)"
  shows "snap_attempts X (take_suspended X cfg name True) (snap_present X cfg name) 6 0 w = (Inr (), w2)"
proof -
  have "take_suspended X cfg name True w = (Inl (Nt exc), w1)"
    using assms(1,2) by (simp add: take_suspended_def delete_again_def thenE_def bindE_def catch_nt_def tryE_def raise_def)
  then have "unless_transient (take_suspended X cfg name True) () w = (Inr (), w1)"
    using assms(2) by (simp add: unless_transient_def catch_nt_def tryE_def TRANSIENT_REASONS_def ret_def)
  moreover have "unless_transient (snap_present X cfg name) False w1 = (Inr True, w2)"
    using assms(3,4) by (simp add: unless_transient_def catch_nt_def tryE_def snap_present_def bindE_def ret_def)
  ultimately have "snap_attempts X (take_suspended X cfg name True) (snap_present X cfg name) (Suc n) 0 w = (Inr (), w2)" for n
    by (simp add: thenE_def bindE_def ret_def)
  from this [of 5] show ?thesis by (simp del: snap_attempts.simps)
qed

text \<open>A host that cannot read the configuration of the suspended machine yet.\<close>

definition unreadable_outside :: "demo_env svc_outside" where
  "unreadable_outside =
     demo_outside\<lparr>x_adapters := [(''vmware'', demo_adapter\<lparr>hv_snapshot_delete :=
       \<lambda>vm n ch e. (Inl (demo_nt BACKEND_ERROR REASON_CONFIG_UNREADABLE), e)\<rparr>)]\<rparr>"

lemma transient_delete_counts_as_replaced_witness:
  "\<exists>w2. snap_attempts unreadable_outside (take_suspended unreadable_outside sample_vm ''base'' True)
      (snap_present unreadable_outside sample_vm ''base'') 6 0 (demo_world demo_running) = (Inr (), w2)"
proof -
  let ?X = unreadable_outside and ?w = "demo_world demo_running"
  have a: "adapter_for ?X sample_vm = demo_adapter\<lparr>hv_snapshot_delete :=
       \<lambda>vm n ch e. (Inl (demo_nt BACKEND_ERROR REASON_CONFIG_UNREADABLE), e)\<rparr>"
    by (simp add: adapter_for_def unreadable_outside_def)
  have d: "awaitE ?X (hv_snapshot_delete (adapter_for ?X sample_vm) sample_vm ''base'' False) ?w =
      (Inl (Nt (nt_err_with BACKEND_ERROR [(''reason'', JStr REASON_CONFIG_UNREADABLE)])), catch_up ?X ?w)"
    by (rule await_still) (simp add: a demo_nt_def)
  have r: "reason (nt_err_with BACKEND_ERROR [(''reason'', JStr REASON_CONFIG_UNREADABLE)]) = REASON_CONFIG_UNREADABLE"
    by (simp add: reason_def nt_err_with_def py_str_def)
  have "background ?X (\<lambda>e. de_snaps e = [''base''])"
    by (simp add: background_def unreadable_outside_def)
  then have e: "de_snaps (w_env (catch_up ?X ?w)) = [''base'']" by (rule catch_up_env) simp
  have l: "list_tree ?X sample_vm (catch_up ?X ?w) = (Inr (demo_tree [''base'']), catch_up ?X (catch_up ?X ?w))"
    unfolding list_tree_def by (rule await_still) (simp add: a e)
  have t: "''base'' \<in> set (tree_names (demo_tree [''base'']))"
    by (simp add: tree_names_def demo_tree_def snapshot_names_def)
  show ?thesis using transient_delete_counts_as_replaced [OF d r l t] by blast
qed

end
