(* ===== verification/Encodings.thy ===== *)
theory Encodings
  imports Prelude
begin

text \<open>
  The encodings of a PowerShell command: base64 of UTF-16LE, and that a reader that decodes both gets the text back.
\<close>

section \<open>Encoders\<close>

text \<open>\<open>base64.b64encode\<close> of bytes, and the UTF-16LE bytes of ASCII text.\<close>

definition B64 :: string where
  "B64 = ''ABCDEFGHIJKLMNOPQRSTUVWXYZabcdefghijklmnopqrstuvwxyz0123456789+/''"

fun base64 :: "nat list \<Rightarrow> string" where
  "base64 [] = []"
| "base64 [a] = [B64 ! (a div 4), B64 ! (a mod 4 * 16), CHR ''='', CHR ''='']"
| "base64 [a, b] = [B64 ! (a div 4), B64 ! (a mod 4 * 16 + b div 16), B64 ! (b mod 16 * 4), CHR ''='']"
| "base64 (a # b # c # rest) =
     [B64 ! (a div 4), B64 ! (a mod 4 * 16 + b div 16), B64 ! (b mod 16 * 4 + c div 64), B64 ! (c mod 64)] @ base64 rest"

definition utf16le :: "string \<Rightarrow> nat list" where
  "utf16le s = concat (map (\<lambda>c. [ord c, 0]) s)"

section \<open>Decoders\<close>

definition digit64 :: "char \<Rightarrow> nat" where
  "digit64 c = length (takeWhile (\<lambda>d. d \<noteq> c) B64)"

fun unbase64 :: "string \<Rightarrow> nat list" where
  "unbase64 (p # q # r # s # t) =
     (let x = digit64 p * 4 + digit64 q div 16; y = digit64 q mod 16 * 16 + digit64 r div 4; z = digit64 r mod 4 * 64 + digit64 s
      in (if r = CHR ''='' then [x] else if s = CHR ''='' then [x, y] else [x, y, z]) @ unbase64 t)"
| "unbase64 s = []"

fun unutf16le :: "nat list \<Rightarrow> string" where
  "unutf16le (n # m # s) = cc (n + 256 * m) # unutf16le s"
| "unutf16le s = []"

section \<open>Round trips\<close>

lemma B64_digit: "n < 64 \<Longrightarrow> digit64 (B64 ! n) = n \<and> B64 ! n \<noteq> CHR ''='' \<and> B64 ! n \<noteq> SQ"
proof -
  assume n: "n < 64"
  have "\<forall>n \<in> set [0..<64]. digit64 (B64 ! n) = n \<and> B64 ! n \<noteq> CHR ''='' \<and> B64 ! n \<noteq> SQ" by code_simp
  then show ?thesis using n by simp
qed

lemma packed:
  fixes x y k :: nat
  assumes y: "y < k"
  shows "(x * k + y) div k = x" "(x * k + y) mod k = y" "x < m \<Longrightarrow> x * k + y < m * k"
proof -
  show "(x * k + y) div k = x" "(x * k + y) mod k = y" using y by simp_all
  show "x * k + y < m * k" if "x < m"
  proof -
    have "x * k + y < Suc x * k" using y by simp
    also have "\<dots> \<le> m * k" using that by (intro mult_le_mono1) simp
    finally show ?thesis .
  qed
qed

lemma byte_div: "(b::nat) < 256 \<Longrightarrow> b div 16 < 16" "(b::nat) < 256 \<Longrightarrow> b div 64 < 4"
  by (simp_all add: less_mult_imp_div_less)

lemma sixes:
  fixes a b c :: nat
  shows "a < 256 \<Longrightarrow> a div 4 < 64" "a mod 4 * 16 < 64" "b < 256 \<Longrightarrow> a mod 4 * 16 + b div 16 < 64" "b mod 16 * 4 < 64"
    "c < 256 \<Longrightarrow> b mod 16 * 4 + c div 64 < 64" "c mod 64 < 64"
  using packed(3) [of "b div 16" 16 "a mod 4" 4] packed(3) [of "c div 64" 4 "b mod 16" 16]
    packed(3) [of 0 16 "a mod 4" 4] packed(3) [of 0 4 "b mod 16" 16] byte_div
  by (simp_all add: less_mult_imp_div_less)

lemma eights:
  fixes a b c :: nat
  shows "a div 4 * 4 + a mod 4 * 16 div 16 = a" "b < 256 \<Longrightarrow> a div 4 * 4 + (a mod 4 * 16 + b div 16) div 16 = a"
    "b < 256 \<Longrightarrow> (a mod 4 * 16 + b div 16) mod 16 * 16 + b mod 16 * 4 div 4 = b"
    "b < 256 \<Longrightarrow> c < 256 \<Longrightarrow> (a mod 4 * 16 + b div 16) mod 16 * 16 + (b mod 16 * 4 + c div 64) div 4 = b"
    "c < 256 \<Longrightarrow> (b mod 16 * 4 + c div 64) mod 4 * 64 + c mod 64 = c"
  by (simp_all only: packed byte_div nonzero_mult_div_cancel_right div_mult_mod_eq)

lemma unbase64_base64: "list_all (\<lambda>n. n < 256) bs \<Longrightarrow> unbase64 (base64 bs) = bs"
proof (induction bs rule: base64.induct)
  case (2 a)
  have d: "digit64 (B64 ! (a div 4)) = a div 4" "digit64 (B64 ! (a mod 4 * 16)) = a mod 4 * 16"
    using B64_digit sixes 2 by simp_all
  show ?case by (simp only: base64.simps unbase64.simps Let_def d eights append.simps if_P [OF refl])
next
  case (3 a b)
  then have lt: "a < 256" "b < 256" by simp_all
  have d: "digit64 (B64 ! (a div 4)) = a div 4" "digit64 (B64 ! (a mod 4 * 16 + b div 16)) = a mod 4 * 16 + b div 16"
    "digit64 (B64 ! (b mod 16 * 4)) = b mod 16 * 4" "B64 ! (b mod 16 * 4) \<noteq> CHR ''=''"
    using B64_digit sixes lt by auto
  show ?case by (simp only: base64.simps unbase64.simps Let_def d if_False if_P [OF refl] append.simps eights lt)
next
  case (4 a b c rest)
  then have lt: "a < 256" "b < 256" "c < 256" by simp_all
  have d: "digit64 (B64 ! (a div 4)) = a div 4" "digit64 (B64 ! (a mod 4 * 16 + b div 16)) = a mod 4 * 16 + b div 16"
    "digit64 (B64 ! (b mod 16 * 4 + c div 64)) = b mod 16 * 4 + c div 64" "B64 ! (b mod 16 * 4 + c div 64) \<noteq> CHR ''=''"
    "digit64 (B64 ! (c mod 64)) = c mod 64" "B64 ! (c mod 64) \<noteq> CHR ''=''"
    using B64_digit sixes lt by auto
  have r: "unbase64 (base64 rest) = rest" using 4 by simp
  show ?case by (simp only: base64.simps append.simps unbase64.simps Let_def d if_False r eights lt)
qed simp

lemma base64_no_quote: "list_all (\<lambda>n. n < 256) bs \<Longrightarrow> SQ \<notin> set (base64 bs)"
proof (induction bs rule: base64.induct)
  case (2 a)
  then show ?case using B64_digit [OF sixes(1)] B64_digit [OF sixes(2)] by (auto dest: sym)
next
  case (3 a b)
  then show ?case using B64_digit [OF sixes(1)] B64_digit [OF sixes(3)] B64_digit [OF sixes(4)] by (auto dest: sym)
next
  case (4 a b c rest)
  then show ?case using B64_digit [OF sixes(1)] B64_digit [OF sixes(3)] B64_digit [OF sixes(5)] B64_digit [OF sixes(6)]
    by (auto dest: sym)
qed simp

lemma utf16le_bytes: "list_all (\<lambda>n. n < 256) (utf16le s)"
  by (induction s) (simp_all add: utf16le_def ord_def)

lemma unutf16le_utf16le: "unutf16le (utf16le s) = s"
  by (induction s) (simp_all add: utf16le_def cc_def ord_def)

end
