(* ===== verification/Tools_File.thy ===== *)
theory Tools_File
  imports Tools_Vm Encodings
begin

text \<open>
  The \<open>file_*\<close> tools of \<open>core/tools/file.py\<close>: copies between host and guest over SFTP, through the
  guest tools when SFTP fails, flushed and compared by digest. The files of the host, their digests and the SFTP
  operations are the environment's.
\<close>

section \<open>Environment\<close>

record 'e file_outside = "'e svc_outside" +
  x_isabs :: "string \<Rightarrow> bool"
  x_abspath :: "string \<Rightarrow> string"
  x_is_dir :: "string \<Rightarrow> 'e \<Rightarrow> bool"
  x_is_file :: "string \<Rightarrow> 'e \<Rightarrow> bool"
  x_rglob :: "string \<Rightarrow> 'e \<Rightarrow> (string \<times> string) list"
  x_glob :: "string \<Rightarrow> 'e \<Rightarrow> (string \<times> string) list"
  x_base_name :: "string \<Rightarrow> string"
  x_join :: "string \<Rightarrow> string \<Rightarrow> string"
  x_makedirs :: "string \<Rightarrow> 'e \<Rightarrow> 'e"
  x_getsize :: "string \<Rightarrow> ('e, int) app"
  x_sha256 :: "string \<Rightarrow> ('e, string) app"
  x_stat :: "transport \<Rightarrow> string \<Rightarrow> ('e, file_stat option) app"
  x_put :: "transport \<Rightarrow> string \<Rightarrow> string \<Rightarrow> ('e, int) app"
  x_get :: "transport \<Rightarrow> string \<Rightarrow> string \<Rightarrow> ('e, int) app"
  x_remote_sha256 :: "transport \<Rightarrow> string \<Rightarrow> ('e, string) app"
  x_list :: "transport \<Rightarrow> string \<Rightarrow> ('e, file_stat list) app"
  x_delete :: "transport \<Rightarrow> string \<Rightarrow> bool \<Rightarrow> ('e, unit) app"

text \<open>\<open>_SFTP_FAILURES\<close>; a timeout is an OSError of Python's too.\<close>

definition sftp_failure :: "exn \<Rightarrow> bool" where
  "sftp_failure x =
     (case x of
        Nt _ \<Rightarrow> True
      | Timeout_Exn \<Rightarrow> True
      | Exn t \<Rightarrow> t \<in> {''NotImplementedError'', ''OSError'', ''FileNotFoundError''})"

definition catch_sftp :: "('w, 'a) app \<Rightarrow> ('w, 'b) app \<Rightarrow> ('a \<Rightarrow> ('w, 'b) app) \<Rightarrow> ('w, 'b) app" where
  "catch_sftp m h k = tryE m (\<lambda>x. if sftp_failure x then h else raise x) k"

section \<open>Paths\<close>

definition expand_local :: "('e, 'x) file_outside_scheme \<Rightarrow> string \<Rightarrow> 'e \<Rightarrow> (string \<times> string) list" where
  "expand_local X pattern e =
     (if x_is_dir X pattern e then filter (\<lambda>(p, rel). x_is_file X p e) (x_rglob X pattern e)
      else if x_is_file X pattern e then [(pattern, x_base_name X pattern)]
      else filter (\<lambda>(p, name). x_is_file X p e) (x_glob X pattern e))"

definition join_remote :: "string \<Rightarrow> string \<Rightarrow> string" where
  "join_remote base rel =
     (let sep = (if BSL \<in> set base \<or> CHR '':'' \<in> set base then BSL else CHR ''/'')
      in rstrip_by (\<lambda>c. c = BSL \<or> c = CHR ''/'') base @ [sep] @ map (\<lambda>c. if c = CHR ''/'' then sep else c) rel)"

definition require_absolute :: "('e, 'x) file_outside_scheme \<Rightarrow> string \<Rightarrow> ('w, unit) app" where
  "require_absolute X local = (if is_absolute_local (x_isabs X) local then ret () else throw INVALID_ARGS)"

section \<open>Flushing to the guest's disk\<close>

definition FLUSH_BATCH :: nat where "FLUSH_BATCH = 40"

definition ps_quote :: "string \<Rightarrow> string" where
  "ps_quote s = [SQ] @ py_replace [SQ] [SQ, SQ] s @ [SQ]"

definition flush_script :: "string list \<Rightarrow> string" where
  "flush_script remotes =
     ''foreach ($p in @('' @ join_with '','' (map ps_quote remotes) @ '')) { try { '' @
     ''$f = [IO.File]::Open($p, '' @ [SQ] @ ''Open'' @ [SQ] @ '', '' @ [SQ] @ ''Write'' @ [SQ] @ '', '' @ [SQ] @ ''ReadWrite'' @ [SQ] @
     ''); $f.Flush($true); $f.Dispose() '' @
     ''} catch { Write-Output ('' @ [SQ] @ ''fail '' @ [SQ] @ '' + $p + '' @ [SQ] @ '': '' @ [SQ] @ '' + $_.Exception.Message) } }''"

definition flush_command :: "string list \<Rightarrow> string" where
  "flush_command batch =
     ''powershell.exe -NoProfile -NonInteractive -EncodedCommand '' @ base64 (utf16le (flush_script batch))"

function batches :: "string list \<Rightarrow> string list list" where
  "batches xs = (if xs = [] then [] else take FLUSH_BATCH xs # batches (drop FLUSH_BATCH xs))"
  by pat_completeness auto
termination
  by (relation "measure length") (auto simp: FLUSH_BATCH_def)

declare batches.simps [simp del]

definition fail_lines :: "string \<Rightarrow> string list" where
  "fail_lines out = map (\<lambda>l. py_strip (drop 5 l)) (filter (starts_with ''fail '') (split_lines out))"

definition flush_problems :: "string list \<Rightarrow> int \<Rightarrow> string \<Rightarrow> string list" where
  "flush_problems problems code out =
     (let p = problems @ fail_lines out
      in if code \<noteq> 0 \<and> p = []
         then p @ [''flush exited '' @ int_text code @ '': '' @ take 120 (py_strip out)] else p)"

primrec flush_batches ::
  "('e, 'x) svc_outside_scheme \<Rightarrow> transport \<Rightarrow> string list list \<Rightarrow> string list \<Rightarrow> ('e, 'z, string list) sprog" where
  "flush_batches X tr [] problems = ret problems"
| "flush_batches X tr (batch # more_batches) problems =
     bindE (catch_nt (awaitE X (x_exec_once X tr (flush_command batch) 60000))
              (\<lambda>exc. ret (problems @ [err_message exc]))
              (\<lambda>(code, out). ret (flush_problems problems code out)))
       (flush_batches X tr more_batches)"

definition flush_to_disk :: "('e, 'x) svc_outside_scheme \<Rightarrow> transport \<Rightarrow> string list \<Rightarrow> ('e, 'z, string list) sprog" where
  "flush_to_disk X tr remotes = flush_batches X tr (batches remotes) []"

section \<open>Pushing: the copies\<close>

record push_params =
  pp_vm :: string
  pp_local :: string
  pp_remote :: string
  pp_verify :: bool
  pp_require_verified :: bool
  pp_flush :: bool
  pp_grant :: bool

text \<open>One \<open>copied[]\<close> entry; a field that is not in the dict is \<open>None\<close> (for \<open>verified\<close>: null).\<close>

record copy_entry =
  pe_local :: string
  pe_remote :: string
  pe_replaced :: "bool option"
  pe_replaced_bytes :: "int option"
  pe_bytes :: int
  pe_verified :: "bool option"
  pe_sha_local :: "string option"
  pe_sha :: "string option"
  pe_sha_remote :: "string option"
  pe_error :: bool
  pe_by_tools :: bool

definition entry_json :: "copy_entry \<Rightarrow> json" where
  "entry_json e =
     JDict ([(''local'', JStr (pe_local e)), (''remote'', JStr (pe_remote e))] @
       (case pe_replaced e of None \<Rightarrow> [] | Some b \<Rightarrow> [(''replaced'', JBool b)]) @
       (case pe_replaced_bytes e of None \<Rightarrow> [] | Some n \<Rightarrow> [(''replaced_bytes'', JInt n)]) @
       [(''bytes'', JInt (pe_bytes e)), (''verified'', case pe_verified e of None \<Rightarrow> JNull | Some b \<Rightarrow> JBool b)] @
       (case pe_sha_local e of None \<Rightarrow> [] | Some h \<Rightarrow> [(''sha256_local'', JStr h)]) @
       (case pe_sha e of None \<Rightarrow> [] | Some h \<Rightarrow> [(''sha256'', JStr h)]) @
       (case pe_sha_remote e of None \<Rightarrow> [] | Some h \<Rightarrow> [(''sha256_remote'', JStr h)]))"

definition stat_before ::
  "('e, 'x) file_outside_scheme \<Rightarrow> bool \<Rightarrow> transport option \<Rightarrow> string \<Rightarrow> ('e, 'z, bool option \<times> int option) sprog" where
  "stat_before X verify tr remote =
     (case tr of
        Some t \<Rightarrow>
          if verify
          then catch_sftp (awaitE X (x_stat X t remote)) (ret (None, None))
                 (\<lambda>before. ret (Some (before \<noteq> None), map_option fs_size before))
          else ret (None, None)
      | None \<Rightarrow> ret (None, None))"

text \<open>The size SFTP copied and the transport for the next file: a failure ends its use.\<close>

definition put_over_sftp ::
  "('e, 'x) file_outside_scheme \<Rightarrow> transport option \<Rightarrow> string \<Rightarrow> string \<Rightarrow> ('e, 'z, int option \<times> transport option) sprog" where
  "put_over_sftp X tr local remote =
     (case tr of
        None \<Rightarrow> ret (None, None)
      | Some t \<Rightarrow> catch_sftp (awaitE X (x_put X t local remote)) (ret (None, None)) (\<lambda>n. ret (Some n, tr)))"

definition push_one ::
  "('e, 'x) file_outside_scheme \<Rightarrow> vm_config \<Rightarrow> bool \<Rightarrow> transport option \<Rightarrow> string \<Rightarrow> string \<Rightarrow>
   ('e, 'z, copy_entry \<times> transport option) sprog" where
  "push_one X cfg verify tr local remote =
     bindE (stat_before X verify tr remote) (\<lambda>(replaced, replaced_bytes).
     bindE (put_over_sftp X tr local remote) (\<lambda>(sent, tr2).
     bindE (case sent of
              Some n \<Rightarrow> ret n
            | None \<Rightarrow> thenE (awaitE X (hv_copy_to_guest (adapter_for X cfg) cfg local remote)) (awaitE X (x_getsize X local))) (\<lambda>sz.
     bindE (awaitE X (x_sha256 X local)) (\<lambda>digest.
       ret (\<lparr>pe_local = local, pe_remote = remote, pe_replaced = replaced, pe_replaced_bytes = replaced_bytes,
             pe_bytes = sz, pe_verified = None, pe_sha_local = Some digest, pe_sha = None, pe_sha_remote = None,
             pe_error = False, pe_by_tools = (sent = None)\<rparr>, tr2)))))"

primrec push_files ::
  "('e, 'x) file_outside_scheme \<Rightarrow> vm_config \<Rightarrow> bool \<Rightarrow> transport option \<Rightarrow> (string \<times> string) list \<Rightarrow>
   ('e, 'z, copy_entry list \<times> transport option) sprog" where
  "push_files X cfg verify tr [] = ret ([], tr)"
| "push_files X cfg verify tr (f # fs) =
     bindE (push_one X cfg verify tr (fst f) (snd f)) (\<lambda>(entry, tr2).
     bindE (push_files X cfg verify tr2 fs) (\<lambda>(entries, tr3). ret (entry # entries, tr3)))"

section \<open>Pushing: flush, verify, grant\<close>

text \<open>Whether the copies are on the guest's disk; unknown without a shell.\<close>

definition push_flush ::
  "('e, 'x) svc_outside_scheme \<Rightarrow> vm_config \<Rightarrow> bool \<Rightarrow> copy_entry list \<Rightarrow> ('e, 'z, bool option) sprog" where
  "push_flush X cfg flush copied =
     (if flush \<and> copied \<noteq> []
      then catch_nt (bindE (svc_transport X cfg) (\<lambda>shell. flush_to_disk X shell (map pe_remote copied)))
             (\<lambda>_. ret None) (\<lambda>problems. ret (Some (problems = [])))
      else ret None)"

definition record_hashes :: "string \<Rightarrow> copy_entry \<Rightarrow> copy_entry" where
  "record_hashes remote_hash e =
     (case pe_sha_local e of
        None \<Rightarrow> e
      | Some local_hash \<Rightarrow>
          if local_hash = remote_hash
          then e\<lparr>pe_verified := Some True, pe_sha_local := None, pe_sha := Some local_hash\<rparr>
          else e\<lparr>pe_verified := Some False, pe_sha_remote := Some remote_hash\<rparr>)"

text \<open>A digest over SFTP for a file SFTP carried; whatever has none is left for the guest tools.\<close>

definition hash_over_sftp ::
  "('e, 'x) file_outside_scheme \<Rightarrow> transport option \<Rightarrow> copy_entry \<Rightarrow> ('e, 'z, copy_entry) sprog" where
  "hash_over_sftp X tr e =
     (case tr of
        Some t \<Rightarrow>
          if pe_by_tools e then ret e
          else catch_sftp (awaitE X (x_remote_sha256 X t (pe_remote e))) (ret e) (\<lambda>h. ret (record_hashes h e))
      | None \<Rightarrow> ret e)"

definition unhashed :: "copy_entry \<Rightarrow> bool" where
  "unhashed e = (pe_verified e = None)"

text \<open>The order of the batch: what the tools copied, then what SFTP carried.\<close>

definition tools_batch :: "copy_entry list \<Rightarrow> string list" where
  "tools_batch entries =
     map pe_remote (filter pe_by_tools entries) @ map pe_remote (filter (\<lambda>e. \<not> pe_by_tools e \<and> unhashed e) entries)"

definition from_tools :: "(string, string) dict \<Rightarrow> copy_entry \<Rightarrow> copy_entry" where
  "from_tools hashes e =
     (if \<not> unhashed e then e
      else case dict_get hashes (pe_remote e) of
             None \<Rightarrow> e\<lparr>pe_error := True\<rparr>
           | Some h \<Rightarrow> record_hashes h e)"

definition push_verify ::
  "('e, 'x) file_outside_scheme \<Rightarrow> vm_config \<Rightarrow> transport option \<Rightarrow> copy_entry list \<Rightarrow> ('e, 'z, copy_entry list) sprog" where
  "push_verify X cfg tr copied =
     bindE (mapE (hash_over_sftp X tr) copied) (\<lambda>entries.
       if tools_batch entries = [] then ret entries
       else catch_nt (awaitE X (hv_guest_sha256 (adapter_for X cfg) cfg (tools_batch entries)))
              (\<lambda>_. ret (map (from_tools []) entries))
              (\<lambda>hashes. ret (map (from_tools hashes) entries)))"

definition grant_command :: "string \<Rightarrow> string" where
  "grant_command target = ''icacls '' @ [DQ] @ target @ [DQ] @ '' /grant '' @ [DQ] @ ''*S-1-5-32-545:(RX)'' @ [DQ]"

text \<open>The files granted before the shell fails, if it does.\<close>

primrec grant_each ::
  "('e, 'x) svc_outside_scheme \<Rightarrow> transport \<Rightarrow> string list \<Rightarrow> ('e, 'z, string list) sprog" where
  "grant_each X shell [] = ret []"
| "grant_each X shell (target # targets) =
     catch_nt (awaitE X (x_exec_once X shell (grant_command target) 30000))
       (\<lambda>_. ret [])
       (\<lambda>(code, out). bindE (grant_each X shell targets) (\<lambda>done. ret ((if code = 0 then [target] else []) @ done)))"

definition push_grant ::
  "('e, 'x) svc_outside_scheme \<Rightarrow> vm_config \<Rightarrow> bool \<Rightarrow> copy_entry list \<Rightarrow> ('e, 'z, string list) sprog" where
  "push_grant X cfg grant copied =
     (if grant \<and> copied \<noteq> []
      then catch_nt (svc_transport X cfg) (\<lambda>_. ret []) (\<lambda>shell. grant_each X shell (map pe_remote copied))
      else ret [])"

section \<open>Pushing: the verdict\<close>

definition overall_verdict :: "bool \<Rightarrow> copy_entry list \<Rightarrow> bool option" where
  "overall_verdict verify copied =
     (if \<not> verify then None
      else if list_ex (\<lambda>e. pe_verified e = Some False) copied then Some False
      else if copied \<noteq> [] \<and> list_all (\<lambda>e. pe_verified e = Some True) copied then Some True
      else None)"

record push_result =
  pr_files :: nat
  pr_bytes :: int
  pr_verified :: "bool option"
  pr_verified_count :: nat
  pr_via :: string
  pr_copied :: "copy_entry list"
  pr_flushed :: "bool option"
  pr_users_rx :: "string list"

definition push_json :: "string \<Rightarrow> bool \<Rightarrow> push_result \<Rightarrow> json" where
  "push_json vm grant r =
     JDict ([(''vm'', JStr vm), (''files'', JInt (int (pr_files r))), (''bytes'', JInt (pr_bytes r)),
             (''verified'', case pr_verified r of None \<Rightarrow> JNull | Some b \<Rightarrow> JBool b),
             (''verified_count'', JInt (int (pr_verified_count r))), (''via'', JStr (pr_via r)),
             (''copied'', JList (map entry_json (pr_copied r)))] @
            (case pr_flushed r of None \<Rightarrow> [] | Some b \<Rightarrow> [(''flushed'', JBool b)]) @
            (if grant then [(''users_rx'', jstrs (pr_users_rx r))] else []))"

definition push_verdict :: "push_params \<Rightarrow> push_result \<Rightarrow> ('w, push_result) app" where
  "push_verdict p r =
     (if pr_verified r = Some False \<or> (pp_require_verified p \<and> pr_verified r = None)
      then throw_with VERIFY_FAILED [(''result'', push_json (pp_vm p) (pp_grant p) r)]
      else ret r)"

text \<open>Which guest path each host file goes to.\<close>

definition push_targets ::
  "('e, 'x) file_outside_scheme \<Rightarrow> push_params \<Rightarrow> (string \<times> string) list \<Rightarrow> 'e \<Rightarrow> (string \<times> string) list" where
  "push_targets X p files e =
     (let many = 1 < length files \<or> x_is_dir X (pp_local p) e;
          into_dir = many \<or> ends_sep (pp_remote p)
      in map (\<lambda>(local, rel). (x_abspath X local, if into_dir then join_remote (pp_remote p) rel else pp_remote p)) files)"

text \<open>Copy first, then flush, then hash: a hash before the flush would only see the guest's cache.\<close>

definition push_run ::
  "('e, 'x) file_outside_scheme \<Rightarrow> push_params \<Rightarrow> vm_config \<Rightarrow> (string \<times> string) list \<Rightarrow> ('e, 'z, push_result) sprog" where
  "push_run X p cfg targets =
     bindE (file_transport X cfg) (\<lambda>tr.
     bindE (push_files X cfg (pp_verify p) tr targets) (\<lambda>(copied, tr2).
     bindE (push_flush X cfg (pp_flush p) copied) (\<lambda>flushed.
     bindE (if pp_verify p then push_verify X cfg tr2 copied else ret copied) (\<lambda>checked.
     bindE (push_grant X cfg (pp_grant p) checked) (\<lambda>users_rx.
       push_verdict p
         \<lparr>pr_files = length targets, pr_bytes = sum_list (map pe_bytes checked),
          pr_verified = overall_verdict (pp_verify p) checked,
          pr_verified_count = length (filter (\<lambda>e. pe_verified e = Some True) checked),
          pr_via = (if tr2 = None then ''guest_tools'' else ''ssh''), pr_copied = checked,
          pr_flushed = flushed, pr_users_rx = users_rx\<rparr>)))))"

definition file_push :: "('e, 'x) file_outside_scheme \<Rightarrow> push_params \<Rightarrow> ('e, 'z, push_result) sprog" where
  "file_push X p =
     bindE (vm_cfg X (pp_vm p)) (\<lambda>cfg.
     thenE (ensure_not_frozen X (pp_vm p))
     (thenE (require_absolute X (pp_local p))
     (thenE (if pp_require_verified p \<and> \<not> pp_verify p then throw INVALID_ARGS else ret ())
     (thenE (ensure_running X cfg)
     (bindE (getS (\<lambda>w. (expand_local X (pp_local p) (w_env w), w_env w))) (\<lambda>(files, e).
      if files = [] then throw INVALID_ARGS else push_run X p cfg (push_targets X p files e)))))))"

section \<open>Pulling\<close>

definition last_part :: "string \<Rightarrow> string" where
  "last_part remote = last (split_char (CHR ''/'') (map (\<lambda>c. if c = BSL then CHR ''/'' else c) remote))"

definition pull_target ::
  "('e, 'x) file_outside_scheme \<Rightarrow> string \<Rightarrow> string \<Rightarrow> ('e, 'z, string) sprog" where
  "pull_target X local remote w =
     (let abs_local = x_abspath X local
      in if x_is_dir X abs_local (w_env w) \<or> ends_sep local
         then (Inr (x_join X abs_local (last_part remote)), w\<lparr>w_env := x_makedirs X abs_local (w_env w)\<rparr>)
         else (Inr abs_local, w))"

record pull_result =
  pl_local :: string
  pl_remote :: string
  pl_bytes :: int
  pl_via :: string
  pl_remote_bytes :: "int option"
  pl_verified :: "bool option"

definition pull_json :: "string \<Rightarrow> bool \<Rightarrow> pull_result \<Rightarrow> json" where
  "pull_json vm checked r =
     JDict ([(''vm'', JStr vm), (''local'', JStr (pl_local r)), (''remote'', JStr (pl_remote r)),
             (''bytes'', JInt (pl_bytes r)), (''via'', JStr (pl_via r))] @
            (if \<not> checked then []
             else case pl_remote_bytes r of
                    None \<Rightarrow> [(''verified'', JNull)]
                  | Some n \<Rightarrow> [(''remote_bytes'', JInt n), (''verified'', JBool (n = pl_bytes r)), (''verified_by'', JStr ''size'')]))"

definition get_over_sftp ::
  "('e, 'x) file_outside_scheme \<Rightarrow> transport option \<Rightarrow> string \<Rightarrow> string \<Rightarrow> ('e, 'z, int option) sprog" where
  "get_over_sftp X tr remote local =
     (case tr of
        None \<Rightarrow> ret None
      | Some t \<Rightarrow> catch_sftp (awaitE X (x_get X t remote local)) (ret None) (\<lambda>n. ret (Some n)))"

text \<open>Through the guest tools: with no SSH either, the error keeps its code and extras.\<close>

definition pull_by_tools ::
  "('e, 'x) file_outside_scheme \<Rightarrow> vm_config \<Rightarrow> string \<Rightarrow> string \<Rightarrow> ('e, 'z, int) sprog" where
  "pull_by_tools X cfg remote local =
     thenE (awaitE X (hv_copy_from_guest (adapter_for X cfg) cfg remote local)) (awaitE X (x_getsize X local))"

definition pull_check ::
  "('e, 'x) file_outside_scheme \<Rightarrow> transport \<Rightarrow> string \<Rightarrow> pull_result \<Rightarrow> ('e, 'z, pull_result) sprog" where
  "pull_check X t vm r =
     bindE (catch_sftp (awaitE X (x_stat X t (pl_remote r))) (ret None) ret) (\<lambda>info.
       let r2 = r\<lparr>pl_remote_bytes := map_option fs_size info,
                  pl_verified := map_option (\<lambda>i. fs_size i = pl_bytes r) info\<rparr>
       in if pl_verified r2 = Some False then throw_with VERIFY_FAILED [(''result'', pull_json vm True r2)] else ret r2)"

definition file_pull ::
  "('e, 'x) file_outside_scheme \<Rightarrow> string \<Rightarrow> string \<Rightarrow> string \<Rightarrow> bool \<Rightarrow> ('e, 'z, pull_result) sprog" where
  "file_pull X vm remote local verify =
     bindE (vm_cfg X vm) (\<lambda>cfg.
     thenE (ensure_not_frozen X vm)
     (thenE (require_absolute X local)
     (thenE (ensure_running X cfg)
     (bindE (pull_target X local remote) (\<lambda>target.
      bindE (file_transport X cfg) (\<lambda>tr.
      bindE (get_over_sftp X tr remote target) (\<lambda>sent.
      bindE (case sent of Some n \<Rightarrow> ret n | None \<Rightarrow> pull_by_tools X cfg remote target) (\<lambda>n.
        let r = \<lparr>pl_local = target, pl_remote = remote, pl_bytes = n,
                 pl_via = (if sent = None then ''guest_tools'' else ''ssh''), pl_remote_bytes = None, pl_verified = None\<rparr>
        in case tr of
             Some t \<Rightarrow> if verify \<and> sent \<noteq> None then pull_check X t vm r else ret r
           | None \<Rightarrow> ret r))))))))"

section \<open>Looking and deleting\<close>

definition stat_info :: "file_stat \<Rightarrow> result" where
  "stat_info s = [(''size'', JInt (fs_size s)), (''modified'', jopt (fs_modified s)), (''is_dir'', JBool (fs_is_dir s))]"

text \<open>The shared start of the three, and SFTP with the guest tools behind it: with what carried it.\<close>

definition file_start :: "('e, 'x) svc_outside_scheme \<Rightarrow> string \<Rightarrow> ('e, 'z, vm_config \<times> transport option) sprog" where
  "file_start X vm =
     bindE (vm_cfg X vm) (\<lambda>cfg.
     thenE (ensure_not_frozen X vm)
     (thenE (ensure_running X cfg)
     (bindE (file_transport X cfg) (\<lambda>tr. ret (cfg, tr)))))"

definition sftp_or_tools ::
  "('e, 'x) svc_outside_scheme \<Rightarrow> transport option \<Rightarrow> (transport \<Rightarrow> ('e, 'z, 'a) sprog) \<Rightarrow> ('e, 'z, 'a) sprog \<Rightarrow>
   ('e, 'z, 'a \<times> string) sprog" where
  "sftp_or_tools X tr sftp tools =
     (let by_tools = bindE tools (\<lambda>r. ret (r, ''guest_tools''))
      in case tr of
           None \<Rightarrow> by_tools
         | Some t \<Rightarrow> catch_sftp (sftp t) by_tools (\<lambda>r. ret (r, ''ssh'')))"

definition file_stat_tool :: "('e, 'x) file_outside_scheme \<Rightarrow> string \<Rightarrow> string \<Rightarrow> ('e, 'z, result) sprog" where
  "file_stat_tool X vm remote =
     bindE (file_start X vm) (\<lambda>(cfg, tr).
     bindE (sftp_or_tools X tr (\<lambda>t. awaitE X (x_stat X t remote)) (awaitE X (hv_guest_stat (adapter_for X cfg) cfg remote)))
       (\<lambda>(info, via).
         let base = [(''vm'', JStr vm), (''remote'', JStr remote), (''exists'', JBool (info \<noteq> None)), (''via'', JStr via)]
         in ret (case info of None \<Rightarrow> base | Some s \<Rightarrow> base @ stat_info s)))"

definition file_ls :: "('e, 'x) file_outside_scheme \<Rightarrow> string \<Rightarrow> string \<Rightarrow> ('e, 'z, result) sprog" where
  "file_ls X vm remote =
     bindE (file_start X vm) (\<lambda>(cfg, tr).
     bindE (sftp_or_tools X tr (\<lambda>t. bindE (awaitE X (x_list X t remote)) (\<lambda>es. ret (Some es)))
              (awaitE X (hv_guest_list (adapter_for X cfg) cfg remote)))
       (\<lambda>(entries, via).
         ret [(''vm'', JStr vm), (''remote'', JStr remote), (''exists'', JBool (entries \<noteq> None)),
              (''entries'', JList (map (\<lambda>s. JDict ((''name'', JStr (fs_name s)) # stat_info s)) (opt_or entries []))),
              (''via'', JStr via)]))"

text \<open>\<open>except FileNotFoundError\<close> comes before the other failures of SFTP.\<close>

definition delete_over_sftp ::
  "('e, 'x) file_outside_scheme \<Rightarrow> string \<Rightarrow> bool \<Rightarrow> transport \<Rightarrow> ('e, 'z, bool) sprog" where
  "delete_over_sftp X remote recurse t =
     tryE (awaitE X (x_delete X t remote recurse))
       (\<lambda>x. if x = Exn ''FileNotFoundError'' then ret False else raise x) (\<lambda>_. ret True)"

definition file_delete :: "('e, 'x) file_outside_scheme \<Rightarrow> string \<Rightarrow> string \<Rightarrow> bool \<Rightarrow> ('e, 'z, result) sprog" where
  "file_delete X vm remote recurse =
     bindE (file_start X vm) (\<lambda>(cfg, tr).
     bindE (sftp_or_tools X tr (delete_over_sftp X remote recurse)
              (awaitE X (hv_guest_delete (adapter_for X cfg) cfg remote recurse)))
       (\<lambda>(deleted, via).
         thenE (if deleted then eventE X vm ''file_delete'' [(''remote'', JStr remote)] else ret ())
           (ret [(''vm'', JStr vm), (''remote'', JStr remote), (''deleted'', JBool deleted), (''via'', JStr via)])))"

end
