(* ===== verification/File_Properties.thy ===== *)
theory File_Properties
  imports Tools_File Demo_Host
begin

text \<open>
  What a push promises: it never returns while a digest it read differs from the file that was sent.
\<close>

section \<open>The entries of a push\<close>

lemma yields_await:
  assumes "\<And>e x. fst (f e) = Inr x \<Longrightarrow> Q x"
  shows "yields (awaitE X f) Q"
proof (rule yieldsI)
  fix w x w' assume "awaitE X f w = (Inr x, w')"
  then have "fst (f (w_env w)) = Inr x" by (auto simp: awaitE_def env_tryE_def split: prod.splits)
  then show "Q x" by (rule assms)
qed

lemma yields_catch_sftp:
  assumes "yields m P" "yields h Q" "\<And>x. P x \<Longrightarrow> yields (k x) Q"
  shows "yields (catch_sftp m h k) Q"
  unfolding catch_sftp_def by (rule yields_tryE [OF assms(1)]) (auto simp: yields_raise assms)

text \<open>An entry that is not hashed yet holds the digest of its file; a hashed one the verdict.\<close>

definition entry_fresh :: "(string \<Rightarrow> string) \<Rightarrow> copy_entry \<Rightarrow> bool" where
  "entry_fresh L e = (pe_verified e = None \<and> pe_sha_local e = Some (L (pe_local e)))"

definition entry_judged :: "(string \<Rightarrow> string) \<Rightarrow> (string \<Rightarrow> string) \<Rightarrow> copy_entry \<Rightarrow> bool" where
  "entry_judged L G e = (entry_fresh L e \<or> pe_verified e = Some (L (pe_local e) = G (pe_remote e)))"

lemma record_judged: "entry_fresh L e \<Longrightarrow> entry_judged L G (record_hashes (G (pe_remote e)) e)"
  by (simp add: entry_fresh_def entry_judged_def record_hashes_def)

lemma record_keeps [simp]: "pe_local (record_hashes h e) = pe_local e" "pe_remote (record_hashes h e) = pe_remote e"
  by (simp_all add: record_hashes_def split: option.splits)

lemma push_one_fresh:
  assumes "\<And>e h. fst (x_sha256 X local e) = Inr h \<Longrightarrow> h = L local"
  shows "yields (push_one X cfg verify tr local remote) (\<lambda>(e, tr2). entry_fresh L e \<and> pe_local e = local)"
proof -
  have digest: "yields (awaitE X (x_sha256 X local)) (\<lambda>h. h = L local)"
    by (rule yields_await) (rule assms)
  show ?thesis
    unfolding push_one_def case_prod_beta
    by (intro yields_bindE [OF yields_any] yields_bindE [OF digest] yields_ret) (simp add: entry_fresh_def)
qed

lemma push_files_fresh:
  assumes "\<And>l e h. fst (x_sha256 X l e) = Inr h \<Longrightarrow> h = L l"
  shows "yields (push_files X cfg verify tr fs) (\<lambda>(es, tr2). list_all (entry_fresh L) es \<and> map pe_local es = map fst fs)"
proof (induction fs arbitrary: tr)
  case Nil
  show ?case by (simp add: yields_ret)
next
  case (Cons f fs)
  have one: "yields (push_one X cfg verify tr (fst f) (snd f)) (\<lambda>(e, tr2). entry_fresh L e \<and> pe_local e = fst f)"
    by (rule push_one_fresh) (rule assms)
  show ?case
    unfolding push_files.simps by (rule yields_bindE [OF one]) (auto intro!: yields_bindE [OF Cons] yields_ret)
qed

lemma hash_over_sftp_judged:
  assumes "\<And>t r e h. fst (x_remote_sha256 X t r e) = Inr h \<Longrightarrow> h = G r" and "entry_fresh L e"
  shows "yields (hash_over_sftp X tr e) (\<lambda>e2. entry_judged L G e2 \<and> pe_local e2 = pe_local e)"
proof -
  have h: "yields (awaitE X (x_remote_sha256 X t (pe_remote e))) (\<lambda>h. h = G (pe_remote e))" for t
    by (rule yields_await) (rule assms(1))
  have keep: "entry_judged L G e" using assms(2) by (simp add: entry_judged_def)
  have "yields (catch_sftp (awaitE X (x_remote_sha256 X t (pe_remote e))) (ret e) (\<lambda>h. ret (record_hashes h e)))
      (\<lambda>e2. entry_judged L G e2 \<and> pe_local e2 = pe_local e)" for t
    by (rule yields_catch_sftp [OF h]) (auto intro!: yields_ret simp: keep record_judged [OF assms(2)])
  then show ?thesis
    by (auto simp: hash_over_sftp_def keep intro!: yields_ret split: option.splits)
qed

lemma from_tools_judged:
  assumes "entry_judged L G e" "\<And>h. dict_get hashes (pe_remote e) = Some h \<Longrightarrow> h = G (pe_remote e)"
  shows "entry_judged L G (from_tools hashes e) \<and> pe_local (from_tools hashes e) = pe_local e"
proof (cases "unhashed e")
  case True
  then have "entry_fresh L e" using assms(1) by (auto simp: entry_judged_def unhashed_def)
  then show ?thesis
    using assms record_judged [of L e G]
    by (auto simp: from_tools_def True entry_judged_def entry_fresh_def split: option.splits)
next
  case False
  then show ?thesis using assms(1) by (simp add: from_tools_def)
qed

lemma push_verify_judged:
  assumes remote: "\<And>t r e h. fst (x_remote_sha256 X t r e) = Inr h \<Longrightarrow> h = G r"
    and tools: "\<And>rs e d r h. fst (hv_guest_sha256 (adapter_for X cfg) cfg rs e) = Inr d \<Longrightarrow> dict_get d r = Some h \<Longrightarrow> h = G r"
    and fresh: "list_all (entry_fresh L) copied"
  shows "yields (push_verify X cfg tr copied) (\<lambda>es. list_all (entry_judged L G) es \<and> map pe_local es = map pe_local copied)"
proof -
  let ?good = "\<lambda>es. list_all (entry_judged L G) es \<and> map pe_local es = map pe_local copied"
  have sftp: "yields (mapE (hash_over_sftp X tr) copied) ?good"
  proof -
    have "yields (mapE (hash_over_sftp X tr) copied) (list_all2 (\<lambda>e e2. entry_judged L G e2 \<and> pe_local e2 = pe_local e) copied)"
      by (rule yields_mapE, rule hash_over_sftp_judged [OF remote]) (use fresh in \<open>auto simp: list_all_iff\<close>)
    moreover have "?good es" if "list_all2 (\<lambda>e e2. entry_judged L G e2 \<and> pe_local e2 = pe_local e) copied es" for es
      using that by (induction rule: list_all2_induct) auto
    ultimately show ?thesis unfolding yields_def by blast
  qed
  have d: "yields (awaitE X (hv_guest_sha256 (adapter_for X cfg) cfg rs)) (\<lambda>d. \<forall>r h. dict_get d r = Some h \<longrightarrow> h = G r)" for rs
    by (rule yields_await) (use tools in blast)
  have map_ok: "?good (map (from_tools hashes) es)"
    if "?good es" "\<forall>r h. dict_get hashes r = Some h \<longrightarrow> h = G r" for hashes es
    using that from_tools_judged [of L G _ hashes] by (auto simp: list_all_iff intro: map_cong [THEN trans])
  show ?thesis
    unfolding push_verify_def
  proof (rule yields_bindE [OF sftp])
    fix es assume es: "?good es"
    show "yields (if tools_batch es = [] then ret es
       else catch_nt (awaitE X (hv_guest_sha256 (adapter_for X cfg) cfg (tools_batch es)))
              (\<lambda>_. ret (map (from_tools []) es)) (\<lambda>hashes. ret (map (from_tools hashes) es))) ?good"
    proof (cases "tools_batch es = []")
      case True
      then show ?thesis using es by (simp add: yields_ret)
    next
      case False
      have "yields (catch_nt (awaitE X (hv_guest_sha256 (adapter_for X cfg) cfg (tools_batch es)))
              (\<lambda>_. ret (map (from_tools []) es)) (\<lambda>hashes. ret (map (from_tools hashes) es))) ?good"
        by (rule yields_catch_nt [OF d]) (use map_ok [OF es] in \<open>auto intro!: yields_ret\<close>)
      then show ?thesis using False by simp
    qed
  qed
qed

section \<open>The verdict\<close>

lemma verdict_passed:
  "yields (push_verdict p r) (\<lambda>r2. r2 = r \<and> pr_verified r \<noteq> Some False)"
  by (auto simp: push_verdict_def throw_with_def intro!: yields_ret yields_raise)

lemma push_run_judged:
  assumes digest: "\<And>l e h. fst (x_sha256 X l e) = Inr h \<Longrightarrow> h = L l"
    and remote: "\<And>t r e h. fst (x_remote_sha256 X t r e) = Inr h \<Longrightarrow> h = G r"
    and tools: "\<And>rs e d r h. fst (hv_guest_sha256 (adapter_for X cfg) cfg rs e) = Inr d \<Longrightarrow> dict_get d r = Some h \<Longrightarrow> h = G r"
    and verify: "pp_verify p"
  shows "yields (push_run X p cfg targets)
    (\<lambda>r. list_all (entry_judged L G) (pr_copied r) \<and> map pe_local (pr_copied r) = map fst targets \<and>
         pr_verified r = overall_verdict True (pr_copied r) \<and> pr_verified r \<noteq> Some False)"
  unfolding push_run_def
proof (rule yields_bindE [OF yields_any], rule yields_bindE [OF push_files_fresh [where L = L]])
  fix tr and ct :: "copy_entry list \<times> transport option"
  assume "case ct of (es, tr2) \<Rightarrow> list_all (entry_fresh L) es \<and> map pe_local es = map fst targets"
  then obtain copied tr2 where ct: "ct = (copied, tr2)" "list_all (entry_fresh L) copied" "map pe_local copied = map fst targets"
    by (cases ct) auto
  have checked: "yields (if pp_verify p then push_verify X cfg tr2 copied else ret copied)
      (\<lambda>es. list_all (entry_judged L G) es \<and> map pe_local es = map fst targets)"
    using push_verify_judged [where tr = tr2, OF remote tools ct(2)] verify ct(3) by simp
  show "yields (case ct of (copied, tr2) \<Rightarrow>
      bindE (push_flush X cfg (pp_flush p) copied) (\<lambda>flushed.
      bindE (if pp_verify p then push_verify X cfg tr2 copied else ret copied) (\<lambda>checked.
      bindE (push_grant X cfg (pp_grant p) checked) (\<lambda>users_rx.
        push_verdict p
          \<lparr>pr_files = length targets, pr_bytes = sum_list (map pe_bytes checked),
           pr_verified = overall_verdict (pp_verify p) checked,
           pr_verified_count = length (filter (\<lambda>e. pe_verified e = Some True) checked),
           pr_via = (if tr2 = None then ''guest_tools'' else ''ssh''), pr_copied = checked,
           pr_flushed = flushed, pr_users_rx = users_rx\<rparr>))))
     (\<lambda>r. list_all (entry_judged L G) (pr_copied r) \<and> map pe_local (pr_copied r) = map fst targets \<and>
         pr_verified r = overall_verdict True (pr_copied r) \<and> pr_verified r \<noteq> Some False)"
    unfolding ct(1) prod.case
    by (rule yields_bindE [OF yields_any], rule yields_bindE [OF checked], rule yields_bindE [OF yields_any])
      (use verify in \<open>auto simp: yields_def dest!: yieldsD [OF verdict_passed]\<close>)
qed (rule digest)

lemma verdict_true:
  "overall_verdict True es = Some True \<Longrightarrow> es \<noteq> [] \<and> (\<forall>e \<in> set es. pe_verified e = Some True)"
  by (auto simp: overall_verdict_def list_all_iff split: if_splits)

lemma verdict_not_false:
  "overall_verdict True es \<noteq> Some False \<Longrightarrow> e \<in> set es \<Longrightarrow> pe_verified e \<noteq> Some False"
  by (auto simp: overall_verdict_def list_ex_iff split: if_splits)


section \<open>Witness\<close>

text \<open>The demonstration host with one file, whose copy has the digest of the original.\<close>

definition demo_files :: "demo_env file_outside" where
  "demo_files =
     svc_outside.extend demo_outside
       (file_outside.fields (\<lambda>p. True) (\<lambda>p. p) (\<lambda>p e. False) (\<lambda>p e. True) (\<lambda>p e. []) (\<lambda>p e. []) (\<lambda>p. ''a.exe'')
         (\<lambda>a b. a @ b) (\<lambda>p e. e) (\<lambda>p e. (Inr 3, e)) (\<lambda>p e. (Inr ''d1'', e)) (\<lambda>t p e. (Inr None, e))
         (\<lambda>t a b e. (Inr 3, e)) (\<lambda>t a b e. (Inr 3, e)) (\<lambda>t p e. (Inr ''d1'', e)) (\<lambda>t p e. (Inr [], e))
         (\<lambda>t p r e. (Inr (), e)))"

lemma demo_files_sel [simp]:
  "x_config demo_files = demo_config" "x_adapters demo_files = [(''vmware'', demo_adapter)]"
  "x_isabs demo_files p = True" "x_abspath demo_files p = p" "x_is_dir demo_files p e = False" "x_is_file demo_files p e = True"
  "x_base_name demo_files p = ''a.exe''" "x_sha256 demo_files p e = (Inr ''d1'', e)" "x_stat demo_files t p e = (Inr None, e)"
  "x_put demo_files t a b e = (Inr 3, e)" "x_remote_sha256 demo_files t p e = (Inr ''d1'', e)"
  "x_ssh_probe demo_files ip pt e = (True, e)"
  by (simp_all add: demo_files_def demo_outside_def svc_outside.defs file_outside.defs)

definition demo_push :: push_params where
  "demo_push =
     \<lparr>pp_vm = ''win'', pp_local = ''C:/a.exe'', pp_remote = ''C:/t/'', pp_verify = True, pp_require_verified = True,
      pp_flush = False, pp_grant = False\<rparr>"

lemma demo_files_adapter [simp]: "adapter_for demo_files sample_vm = demo_adapter"
  by (simp add: adapter_for_def)

lemmas push_unfold =
  file_push_def push_run_def push_targets_def bindE_def thenE_def ret_def getS_def tryE_def Let_def
  vm_cfg_def liftE_def config_vm_def dict_has_def ensure_not_frozen_def svc_runtime_def config_lookup_def sync_config_def
  require_absolute_def is_absolute_local_def ensure_running_def refresh_power_def awaitE_def env_tryE_def
  catch_up_def dict_keys_def set_power_def storeE_def expand_local_def file_transport_def transport_for_def
  ssh_reachable_def svc_guest_ip_def get_transport_def push_one_def stat_before_def put_over_sftp_def catch_sftp_def
  push_flush_def push_verify_def hash_over_sftp_def record_hashes_def tools_batch_def unhashed_def push_grant_def
  push_verdict_def overall_verdict_def

lemma demo_file_push:
  "case file_push demo_files demo_push ((demo_world demo_running)\<lparr>w_kd := []\<rparr>) of (Inr r, w) \<Rightarrow> pr_verified r = Some True | _ \<Rightarrow> False"
  by (simp add: push_unfold demo_push_def vm_of_update vm_of_empty fresh_runtime_def)


end
