(* ===== verification/Tools_Term.thy ===== *)
theory Tools_Term
  imports Tools_Vm Keys
begin

text \<open>
  The \<open>term_*\<close> tools of \<open>core/tools/term.py\<close>. A wait of a tool ends when the debugger stops the guest: what kd.exe will
  print during the wait, from the debugger session of the machine, is merged into what the terminal will receive. The
  rendering of a screen, the compilation of the caller's pattern and the resize of the channel are the environment's.
\<close>

section \<open>Environment\<close>

record 'e term_tools_outside = "'e svc_outside" +
  x_display :: "int \<Rightarrow> int \<Rightarrow> string \<Rightarrow> string list"
  x_compile :: "string \<Rightarrow> (string \<Rightarrow> nat \<Rightarrow> string option) option"
  x_resize :: "string \<Rightarrow> int \<Rightarrow> int \<Rightarrow> 'e \<Rightarrow> 'e"

section \<open>Shared steps\<close>

definition tool_session ::
  "('e, 'x) svc_outside_scheme \<Rightarrow> string \<Rightarrow> string option \<Rightarrow> ('e, 'z, term_session) sprog" where
  "tool_session X sid vm =
     bindE (term_get sid) (\<lambda>s.
       if vm \<noteq> None \<and> vm \<noteq> Some (ts_vm s) then throw INVALID_ARGS
       else thenE (ensure_not_frozen X (ts_vm s)) (ret s))"

definition touch_session :: "string \<Rightarrow> ('e, 'z, unit) sprog" where
  "touch_session sid w =
     (Inr (),
      case dict_get (w_sessions w) sid of
        None \<Rightarrow> w
      | Some s \<Rightarrow> w\<lparr>w_store := update_term sid (\<lambda>info. info\<lparr>ti_last_activity := ts_last_activity s\<rparr>) (w_store w)\<rparr>)"

text \<open>\<open>_frozen\<close>: what the predicate will answer, input by input of kd.exe.\<close>

fun holds_of :: "kd_session \<Rightarrow> kd_inbox \<Rightarrow> term_inbox" where
  "holds_of s [] = []"
| "holds_of s ((t, ev) # rest) =
     (let s2 = kd_apply t ev s in (t, TI_Freeze (ks_state s2 = K_Broken)) # holds_of s2 rest)"

definition guest_holds :: "('e, 'x) svc_outside_scheme \<Rightarrow> string \<Rightarrow> ('e, 'z) svc_world_scheme \<Rightarrow> term_inbox" where
  "guest_holds X vm w =
     (case dict_get (w_kd w) vm of None \<Rightarrow> [] | Some s \<Rightarrow> holds_of s (kf_inbox (x_kd_future X vm (w_env w))))"

definition tool_wait ::
  "('e, 'x) svc_outside_scheme \<Rightarrow> string \<Rightarrow> string \<Rightarrow> (string \<Rightarrow> nat \<Rightarrow> string option) \<Rightarrow> int \<Rightarrow> int option \<Rightarrow> bool \<Rightarrow>
   int option \<Rightarrow> bool \<Rightarrow> ('e, 'z, wait_result) sprog" where
  "tool_wait X sid vm search timeout cursor clean max_bytes skip =
     bindE (svc_runtime X vm) (\<lambda>r.
     bindE (getS (guest_holds X vm)) (\<lambda>holds.
       termE X (wait_held X sid (guest_frozen r) holds search timeout cursor clean max_bytes True skip)))"

definition delta_dict :: "delta \<Rightarrow> result" where
  "delta_dict d =
     [(''text'', JStr (d_text d)), (''cursor'', JInt (d_cursor d)), (''truncated'', JBool (d_truncated d)),
      (''lost_before_cursor'', JBool (d_lost_before_cursor d)), (''state'', JStr (d_state d)),
      (''successor'', jopt (d_successor d))]"

definition wait_dict :: "wait_result \<Rightarrow> result" where
  "wait_dict r =
     delta_dict (w_delta r) @ [(''matched'', jopt (w_matched r))] @
     (if w_matched r = None then [(''error'', JDict [(''code'', JStr TIMEOUT)])] else [])"

definition account_of :: "string \<Rightarrow> account" where
  "account_of s = (if s = ''standard'' then Standard else Admin)"

section \<open>Opening\<close>

record open_params =
  op_vm :: string
  op_shell :: "string option"
  op_transport :: string
  op_account :: account
  op_cols :: int
  op_rows :: int
  op_boot_timeout :: int

definition open_params_ok :: "open_params \<Rightarrow> bool" where
  "open_params_ok p =
     ((case op_shell p of None \<Rightarrow> True | Some s \<Rightarrow> s \<in> {''powershell'', ''cmd'', ''pwsh''}) \<and>
      op_transport p \<in> {''auto'', ''ssh''} \<and> 20 \<le> op_cols p \<and> op_cols p \<le> 500 \<and>
      5 \<le> op_rows p \<and> op_rows p \<le> 200 \<and> 1000 \<le> op_boot_timeout p)"

definition term_open_tool :: "('e, 'x) svc_outside_scheme \<Rightarrow> open_params \<Rightarrow> ('e, 'z, result) sprog" where
  "term_open_tool X p =
     bindE (vm_cfg X (op_vm p)) (\<lambda>cfg.
     if op_account p = Standard \<and> g_standard_user (vc_guest cfg) = [] then throw INVALID_ARGS
     else
       thenE (ensure_not_frozen X (op_vm p))
       (thenE (ensure_running X cfg)
       (bindE (svc_guest_ip X cfg (op_boot_timeout p)) (\<lambda>ip.
        let shell = opt_or (op_shell p) (g_shell (vc_guest cfg)) in
        bindE (termE X (term_open X (x_coview_base X) cfg ip shell (op_cols p) (op_rows p) (op_transport p) (op_account p)))
          (\<lambda>sid.
        bindE (getS (\<lambda>w. store_term sid (w_store w))) (\<lambda>info.
        bindE (getS (\<lambda>w. dict_get (w_sessions w) sid)) (\<lambda>s.
        thenE (eventE X (op_vm p) ''term_open''
                 [(''session_id'', JStr sid), (''account'', JStr (account_text (op_account p)))])
          (ret [(''session_id'', JStr sid), (''vm'', JStr (op_vm p)), (''shell'', JStr shell), (''transport'', JStr ''ssh''),
                (''account'', JStr (account_text (op_account p))),
                (''coview_url'', JStr (case info of None \<Rightarrow> [] | Some i \<Rightarrow> ti_coview_url i)),
                (''cols'', JInt (op_cols p)), (''rows'', JInt (op_rows p)),
                (''shell_pid'', jopt_int (case s of None \<Rightarrow> None | Some t \<Rightarrow> ts_shell_pid t))])))))))) "

section \<open>Sending and reading\<close>

definition send_bytes :: "string \<Rightarrow> string list \<Rightarrow> bool \<Rightarrow> string" where
  "send_bytes txt keys enter =
     (if txt = [] then [] else encode_keys txt) @ (if keys = [] then [] else encode_key_list keys) @
     (if enter \<and> (txt \<noteq> [] \<or> keys = []) then [CR] else [])"

text \<open>The note about \<open>{ctrl+c}\<close> is a flag.\<close>

definition mentions_ctrl_c :: "string \<Rightarrow> string list \<Rightarrow> bool" where
  "mentions_ctrl_c txt keys =
     (contains ''{ctrl+c}'' (py_lower txt) \<or> list_ex (\<lambda>k. contains ''ctrl+c'' (py_lower k)) keys)"

definition term_send_tool ::
  "('e, 'x) svc_outside_scheme \<Rightarrow> string \<Rightarrow> string option \<Rightarrow> string \<Rightarrow> string list \<Rightarrow> bool \<Rightarrow> ('e, 'z, result \<times> bool) sprog" where
  "term_send_tool X sid vm txt keys enter =
     bindE (tool_session X sid vm) (\<lambda>s.
     let bytes = send_bytes txt keys enter in
     if bytes = [] then throw INVALID_ARGS
     else
       bindE (send_to X sid bytes ''agent'') (\<lambda>sent.
       thenE (touch_session sid)
       (bindE (getS (\<lambda>w. dict_get (w_sessions w) sid)) (\<lambda>now_s.
        ret ([(''session_id'', JStr sid), (''bytes_sent'', JInt (int sent)), (''shell'', JStr (ts_shell s)),
              (''state'', JStr (session_state (opt_or now_s s)))], mentions_ctrl_c txt keys)))))"

record read_params =
  rp_session :: string
  rp_vm :: "string option"
  rp_screen :: bool
  rp_until :: string
  rp_skip_echo :: bool
  rp_timeout :: int
  rp_max_bytes :: int
  rp_cursor :: "int option"
  rp_clean :: bool

definition read_params_ok :: "read_params \<Rightarrow> bool" where
  "read_params_ok p = (0 \<le> rp_timeout p \<and> 256 \<le> rp_max_bytes p \<and> rp_max_bytes p \<le> 1048576)"

definition read_now :: "string \<Rightarrow> read_params \<Rightarrow> ('e, 'z, delta) sprog" where
  "read_now sid p w =
     (case dict_get (w_sessions w) sid of
        None \<Rightarrow> (Inl (Exn ''KeyError''), w)
      | Some s \<Rightarrow>
          (case read_delta (rp_cursor p) (rp_max_bytes p) (rp_clean p) s of (d, s2) \<Rightarrow> (Inr d, set_session sid s2 w)))"

definition screen_result :: "('e, 'x) term_tools_outside_scheme \<Rightarrow> term_session \<Rightarrow> result" where
  "screen_result X s =
     [(''session_id'', JStr (ts_session_id s)),
      (''text'', JStr (screen_text (x_display X (ts_cols s) (ts_rows s) (ts_screen_fed s)))),
      (''cols'', JInt (ts_cols s)), (''rows'', JInt (ts_rows s)), (''cursor'', JInt (ring_end (ts_ring s))),
      (''state'', JStr (session_state s)), (''successor'', jopt (ts_successor s))]"

text \<open>An empty \<open>until\<close> is no pattern; one that does not compile raises the error of \<open>re\<close>.\<close>

definition term_read_tool :: "('e, 'x) term_tools_outside_scheme \<Rightarrow> read_params \<Rightarrow> ('e, 'z, result) sprog" where
  "term_read_tool X p =
     bindE (tool_session X (rp_session p) (rp_vm p)) (\<lambda>s.
     if rp_screen p then ret (screen_result X s)
     else
       bindE (if rp_until p \<noteq> [] then
                (case x_compile X (rp_until p) of
                   None \<Rightarrow> raise (Exn ''re.error'')
                 | Some search \<Rightarrow>
                     bindE (tool_wait X (rp_session p) (ts_vm s) search (rp_timeout p) (rp_cursor p) (rp_clean p)
                              (Some (rp_max_bytes p)) (rp_skip_echo p)) (\<lambda>r. ret (wait_dict r)))
              else bindE (read_now (rp_session p) p) (\<lambda>d. ret (delta_dict d)))
         (\<lambda>r. ret (dict_set ''session_id'' (JStr (rp_session p)) r)))"

section \<open>Running one command\<close>

text \<open>The marker, and its spelling on the typed line, which the shell assembles when it runs the line.\<close>

definition exec_marker :: "string \<Rightarrow> string" where
  "exec_marker token = ''__NTDRIVE_'' @ token @ ''__''"

definition typed_marker :: "string \<Rightarrow> string \<Rightarrow> string" where
  "typed_marker shell marker =
     (if shell = ''cmd'' then ''__NT^'' @ drop 4 marker
      else [DQ] @ ''__NT'' @ [DQ] @ '' + '' @ [DQ] @ drop 4 marker)"

definition exec_line :: "string \<Rightarrow> string \<Rightarrow> string \<Rightarrow> string" where
  "exec_line shell cmd marker =
     (if shell = ''cmd'' then cmd @ '' & echo '' @ typed_marker shell marker @ '' %ERRORLEVEL%'' @ [CR]
      else ''$global:LASTEXITCODE = $null; '' @ cmd @ ''; Write-Output ('' @ typed_marker shell marker @
           '' $LASTEXITCODE'' @ [DQ] @ '')'' @ [CR])"

definition opt_minus :: rx where
  "opt_minus = ropt (RSet (\<lambda>c. c = CHR ''-''))"

definition end_pattern :: "string \<Rightarrow> rx" where
  "end_pattern marker =
     RSeq (rlit marker) (RSeq (RSet (\<lambda>c. c = CHR '' '')) (RSeq (RGroup 1 (RSeq opt_minus (RStar is_digit)))
       (RSeq (RStar (\<lambda>c. c = CHR '' '' \<or> c = TAB)) (RSeq (ropt (RSet (\<lambda>c. c = CR)))
         (RAlt (RSet (\<lambda>c. c = NL)) RDollarLine)))))"

definition code_pattern :: "string \<Rightarrow> rx" where
  "code_pattern marker =
     RSeq (rlit marker) (RSeq (RSet (\<lambda>c. c = CHR '' '')) (RGroup 1 (RSeq opt_minus (rplus is_digit))))"

definition int_of_text :: "string \<Rightarrow> int" where
  "int_of_text s = (case s of [] \<Rightarrow> 0 | c # r \<Rightarrow> if c = CHR ''-'' then - int (digits_value r) else int (digits_value s))"

definition exit_and_body :: "string \<Rightarrow> string \<Rightarrow> int option \<times> string" where
  "exit_and_body marker txt =
     (let matches = rx_finditer (code_pattern marker) txt
      in if matches \<noteq> []
         then (let m = last matches in (Some (int_of_text (group m 1)), take (m_start m) txt))
         else case rx_search (RSeq (rlit marker) RBoundary) txt of
                Some m \<Rightarrow> (None, take (m_start m) txt)
              | None \<Rightarrow> (None, txt))"

text \<open>Everything up to the last line that has the typed marker is the echo; without one, at most a first line.\<close>

definition after_echo :: "string \<Rightarrow> string \<Rightarrow> string list \<Rightarrow> string list" where
  "after_echo typed cmd ls =
     (if list_ex (contains typed) ls then rev (takeWhile (\<lambda>l. \<not> contains typed l) (rev ls))
      else if py_strip cmd \<noteq> [] \<and> ls \<noteq> [] \<and> contains (take 20 (py_strip cmd)) (hd ls) then tl ls
      else ls)"

definition command_output :: "string \<Rightarrow> string \<Rightarrow> string \<Rightarrow> string" where
  "command_output typed cmd body = strip_chars [NL] (join_with [NL] (after_echo typed cmd (split_char NL body)))"

record exec_params =
  ep_session :: string
  ep_vm :: "string option"
  ep_cmd :: string
  ep_timeout :: int
  ep_max_bytes :: nat

definition exec_params_ok :: "exec_params \<Rightarrow> bool" where
  "exec_params_ok p = (1000 \<le> ep_timeout p \<and> 256 \<le> ep_max_bytes p \<and> ep_max_bytes p \<le> 1048576)"

definition exec_in_flight :: "string \<Rightarrow> bool \<Rightarrow> ('e, 'z, unit) sprog" where
  "exec_in_flight sid b w =
     (Inr (), w\<lparr>w_sessions := map (\<lambda>(k, s). (k, if k = sid then s\<lparr>ts_exec_in_flight := b\<rparr> else s)) (w_sessions w)\<rparr>)"

text \<open>The send and the wait; the flag is cleared whatever happens.\<close>

definition exec_wait ::
  "('e, 'x) svc_outside_scheme \<Rightarrow> exec_params \<Rightarrow> term_session \<Rightarrow> string \<Rightarrow> ('e, 'z, wait_result) sprog" where
  "exec_wait X p s marker =
     thenE (exec_in_flight (ep_session p) True)
       (tryE (bindE (send_to X (ep_session p) (exec_line (ts_shell s) (ep_cmd p) marker) ''agent'') (\<lambda>_.
                tool_wait X (ep_session p) (ts_vm s) (search_at (end_pattern marker)) (ep_timeout p)
                  (Some (ring_end (ts_ring s))) True None False))
          (\<lambda>x. thenE (exec_in_flight (ep_session p) False) (raise x))
          (\<lambda>r. thenE (exec_in_flight (ep_session p) False) (ret r)))"

record exec_result =
  er_account :: string
  er_shell :: string
  er_output :: string
  er_exit :: "int option"
  er_state :: string
  er_truncated :: bool
  er_elapsed :: int

definition exec_answer :: "exec_params \<Rightarrow> term_session \<Rightarrow> term_session \<Rightarrow> string \<Rightarrow> string \<Rightarrow> int \<Rightarrow> exec_result" where
  "exec_answer p s s2 marker txt elapsed =
     (case exit_and_body marker txt of
        (code, body) \<Rightarrow>
          let out = command_output (typed_marker (ts_shell s) marker) (ep_cmd p) body
          in \<lparr>er_account = ts_account s, er_shell = ts_shell s, er_output = take (ep_max_bytes p) out, er_exit = code,
              er_state = session_state s2, er_truncated = ep_max_bytes p < length out, er_elapsed = elapsed\<rparr>)"

definition term_exec :: "('e, 'x) svc_outside_scheme \<Rightarrow> exec_params \<Rightarrow> ('e, 'z, exec_result) sprog" where
  "term_exec X p =
     bindE (tool_session X (ep_session p) (ep_vm p)) (\<lambda>s.
     if ts_exec_in_flight s then throw SESSION_BUSY
     else
       bindE (envE (x_token X)) (\<lambda>token.
       bindE (getS (now X)) (\<lambda>started.
       let marker = exec_marker token in
       bindE (exec_wait X p s marker) (\<lambda>r.
       if w_matched r = None
       then throw_with TIMEOUT [(''output'', JStr (take_last (ep_max_bytes p) (d_text (w_delta r)))),
                                (''shell'', JStr (ts_shell s))]
       else
         thenE (touch_session (ep_session p))
         (bindE (getS (\<lambda>w. dict_get (w_sessions w) (ep_session p))) (\<lambda>s2.
          bindE (getS (now X)) (\<lambda>ended.
            ret (exec_answer p s (opt_or s2 s) marker (d_text (w_delta r)) (ended - started)))))))))"

section \<open>Killing what the shell runs\<close>

definition kill_script :: "int \<Rightarrow> string" where
  "kill_script pid =
     ''$kids = @(Get-CimInstance Win32_Process -Filter '' @ [SQ] @ ''ParentProcessId='' @ int_text pid @ [SQ] @ '' | '' @
     ''Select-Object ProcessId,Name); '' @
     ''if ($kids.Count -eq 0) { '' @ [SQ] @ ''NTDRIVE_NONE'' @ [SQ] @ '' } else { foreach ($k in $kids) { '' @
     ''taskkill /F /T /PID $k.ProcessId > $null 2>&1; '' @
     [SQ] @ ''NTDRIVE_KILLED '' @ [SQ] @ '' + $k.ProcessId + '' @ [SQ] @ '' '' @ [SQ] @ '' + $k.Name } }''"

definition KILLED_RE :: rx where
  "KILLED_RE =
     RSeq (rlit ''NTDRIVE_KILLED '') (RSeq (RGroup 1 (rplus is_digit)) (RSeq (RSet (\<lambda>c. c = CHR '' ''))
       (RGroup 2 (rplus (\<lambda>c. \<not> is_space c)))))"

definition killed_of :: "string \<Rightarrow> (int \<times> string) list" where
  "killed_of out = map (\<lambda>m. (int (digits_value (group m 1)), group m 2)) (rx_finditer KILLED_RE out)"

definition term_kill ::
  "('e, 'x) svc_outside_scheme \<Rightarrow> string \<Rightarrow> string option \<Rightarrow> int \<Rightarrow> ('e, 'z, result) sprog" where
  "term_kill X sid vm timeout =
     bindE (tool_session X sid vm) (\<lambda>s.
     case ts_shell_pid s of
       None \<Rightarrow> throw BACKEND_ERROR
     | Some pid \<Rightarrow>
         bindE (vm_cfg X (ts_vm s)) (\<lambda>cfg.
         bindE (getS (transport_for (vc_name cfg) (account_of (ts_account s)))) (\<lambda>tr.
         case tr of
           None \<Rightarrow> throw BACKEND_ERROR
         | Some t \<Rightarrow>
             bindE (awaitE X (x_exec_once X t (kill_script pid) timeout)) (\<lambda>(code, out).
             let killed = killed_of out in
             thenE (eventE X (ts_vm s) ''term_kill'' [(''session_id'', JStr sid), (''killed'', JInt (int (length killed)))])
             (bindE (getS (\<lambda>w. dict_get (w_sessions w) sid)) (\<lambda>s2.
              ret [(''session_id'', JStr sid), (''vm'', JStr (ts_vm s)), (''account'', JStr (ts_account s)),
                   (''shell'', JStr (ts_shell s)), (''shell_pid'', JInt pid),
                   (''killed'', JList (map (\<lambda>(n, name). JDict [(''pid'', JInt n), (''name'', JStr name)]) killed)),
                   (''exit_code'', JInt code), (''state'', JStr (session_state (opt_or s2 s)))]))))))"

section \<open>Resizing, closing, listing\<close>

definition resize_ok :: "int \<Rightarrow> int \<Rightarrow> bool" where
  "resize_ok cols rows = (20 \<le> cols \<and> cols \<le> 500 \<and> 5 \<le> rows \<and> rows \<le> 200)"

definition term_resize ::
  "('e, 'x) term_tools_outside_scheme \<Rightarrow> string \<Rightarrow> string option \<Rightarrow> int \<Rightarrow> int \<Rightarrow> ('e, 'z, result) sprog" where
  "term_resize X sid vm cols rows =
     bindE (tool_session X sid vm) (\<lambda>s w.
       case session_resize cols rows s of
         (Inl x, _) \<Rightarrow> (Inl x, w)
       | (Inr _, s2) \<Rightarrow>
           (Inr [(''session_id'', JStr sid), (''cols'', JInt cols), (''rows'', JInt rows)],
            (set_session sid s2 w)\<lparr>w_env := x_resize X sid cols rows (w_env w)\<rparr>))"

text \<open>A frozen guest is no reason not to close.\<close>

definition term_close_tool :: "('e, 'x) svc_outside_scheme \<Rightarrow> string \<Rightarrow> string option \<Rightarrow> ('e, 'z, result) sprog" where
  "term_close_tool X sid vm =
     bindE (term_get sid) (\<lambda>s.
     if vm \<noteq> None \<and> vm \<noteq> Some (ts_vm s) then throw INVALID_ARGS
     else thenE (term_close sid)
            (ret [(''session_id'', JStr sid), (''vm'', JStr (ts_vm s)), (''state'', JStr ''closed'')]))"

definition info_open :: "result \<Rightarrow> bool" where
  "info_open info = (dict_get info ''state'' = Some (JStr ''open''))"

definition info_text :: "string \<Rightarrow> result \<Rightarrow> string" where
  "info_text k info = (case dict_get info k of Some (JStr s) \<Rightarrow> s | _ \<Rightarrow> [])"

definition count_states :: "result list \<Rightarrow> (string, int) dict" where
  "count_states infos =
     fold (\<lambda>info d. let s = info_text ''state'' info in dict_set s (opt_or (dict_get d s) 0 + 1) d) infos []"

record list_result =
  lr_sessions :: "result list"
  lr_open :: "string list"
  lr_shells :: "(string, string) dict"
  lr_counts :: "(string, int) dict"
  lr_total :: nat
  lr_listed :: nat
  lr_truncated :: bool
  lr_coview :: string
  lr_hidden :: nat

definition term_listing :: "string \<Rightarrow> bool \<Rightarrow> nat \<Rightarrow> result list \<Rightarrow> list_result" where
  "term_listing coview include_closed limit every =
     (let usable = filter info_open every;
          listed = (if include_closed then every else usable);
          shown = take limit listed
      in \<lparr>lr_sessions = shown, lr_open = map (info_text ''session_id'') usable,
          lr_shells = dict_update [] (map (\<lambda>i. (info_text ''session_id'' i, info_text ''shell'' i)) usable),
          lr_counts = count_states every, lr_total = length every, lr_listed = length shown,
          lr_truncated = length shown < length listed, lr_coview = coview,
          lr_hidden = length every - length listed\<rparr>)"

definition term_list :: "('e, 'x) svc_outside_scheme \<Rightarrow> string \<Rightarrow> bool \<Rightarrow> nat \<Rightarrow> ('e, 'z, list_result) sprog" where
  "term_list X vm include_closed limit =
     getS (\<lambda>w. term_listing (x_coview_base X) include_closed limit (term_sessions vm (w_store w)))"

definition term_prune_tool :: "string \<Rightarrow> ('e, 'z, result) sprog" where
  "term_prune_tool vm =
     bindE (term_prune vm) (\<lambda>pruned.
     bindE (getS (\<lambda>w. length (term_sessions vm (w_store w)))) (\<lambda>n.
       ret [(''pruned'', jstrs pruned), (''remaining'', JInt (int n))]))"

end
