(* ===== verification/Tools_Term_Properties.thy ===== *)
theory Tools_Term_Properties
  imports Tools_Term Demo_Host
begin

text \<open>
  What \<open>term_exec\<close> returns: the output and the exit code of the command between the echo of the typed line and the marker
  line, and why the echo itself cannot be taken for the end of the command.
\<close>

section \<open>Numbers\<close>

lemma int_of_text_int_text: "int_of_text (int_text i) = i"
proof (cases "i < 0")
  case True
  then show ?thesis by (simp add: int_text_def int_of_text_def digits_value_nat_text)
next
  case False
  obtain c r where t: "nat_text (nat i) = c # r" using nat_text_ne by (meson list.exhaust)
  have "is_digit c" using nat_text_digits [of "nat i"] t by simp
  then have "c \<noteq> CHR ''-''" by (auto simp: is_digit_def char_between_def ord_def)
  then show ?thesis using False t digits_value_nat_text [of "nat i"] by (simp add: int_text_def int_of_text_def)
qed

section \<open>The marker line\<close>

lemma marker_chars: "list_all is_hex token \<Longrightarrow> c \<in> set (exec_marker token) \<Longrightarrow> is_word c"
  by (auto simp: exec_marker_def list_all_iff is_word_def is_alnum_def is_alpha_def is_hex_def is_upper_def is_lower_def is_digit_def
      char_between_def ord_def)

lemma code_match:
  assumes "post = [] \<or> \<not> is_digit (hd post)"
  shows "rx_at (code_pattern m) pos prev (m @ '' '' @ int_text i @ post) =
    Some \<lparr>m_start = pos, m_end = pos + length (m @ '' '' @ int_text i), m_text = m @ '' '' @ int_text i, m_caps = [(1, int_text i)]\<rparr>"
proof -
  have digits: "rx_m (rplus is_digit) k pv (nat_text n @ post) cs = Some r"
    if "k (after_text pv (nat_text n)) post cs = Some r" for k :: "(string \<times> caps) cont" and pv n cs r
  proof -
    obtain c ds where t: "nat_text n = c # ds" using nat_text_ne by (meson list.exhaust)
    have all: "list_all is_digit (c # ds)" using nat_text_digits [of n] t by simp
    have "star_m is_digit k (Some c) (ds @ post) cs = Some r"
      by (rule star_m_greedy) (use that assms t all in \<open>auto simp: after_text_def split: if_splits\<close>)
    then show ?thesis using all by (simp add: rplus_def t)
  qed
  have number: "rx_m (RGroup 1 (RSeq opt_minus (rplus is_digit))) (\<lambda>prev' s' cs. Some (s', cs)) pv (int_text i @ post) [] =
      Some (post, [(1, int_text i)])" for pv
  proof (cases "i < 0")
    case True
    then show ?thesis
      using digits [of _ _ "nat (- i)" "[]" "(post, [(1, int_text i)])"]
      by (simp add: opt_minus_def ropt_def int_text_def)
  next
    case False
    obtain c ds where t: "nat_text (nat i) = c # ds" using nat_text_ne by (meson list.exhaust)
    have "c \<noteq> CHR ''-''" using nat_text_digits [of "nat i"] t by (auto simp: is_digit_def char_between_def ord_def)
    then show ?thesis
      using digits [of "\<lambda>prev' s' cs'. Some (s', AList.update 1 (take (length (int_text i @ post) - length s') (int_text i @ post)) cs')" pv "nat i" "[]" "(post, [(1, int_text i)])"] False t
      by (simp add: opt_minus_def ropt_def int_text_def)
  qed
  show ?thesis
    using number [of "Some (CHR '' '')"]
    by (simp add: rx_at_def code_pattern_def rx_m_rlit)
qed

lemma marker_head: "exec_marker token = CHR ''_'' # tl (exec_marker token)"
  by (simp add: exec_marker_def)

lemma exit_and_body_of:
  assumes hex: "list_all is_hex token" and m: "m = exec_marker token"
    and body: "\<not> contains m body" "body = [] \<or> last body = NL" and post: "\<not> contains m post"
  shows "exit_and_body m (body @ m @ '' '' @ int_text i @ NL # post) = (Some i, body)"
proof -
  let ?r = "RSeq (RSet (\<lambda>c. c = CHR '' '')) (RGroup 1 (RSeq opt_minus (rplus is_digit)))"
  let ?hit = "m @ '' '' @ int_text i"
  have nl: "NL \<notin> set m" using marker_chars [OF hex, of NL] by (auto simp: m is_word_def is_alnum_def is_alpha_def is_upper_def
      is_lower_def is_digit_def char_between_def ord_def)
  have ne: "m \<noteq> []" using marker_head [of token] m by auto
  have p: "code_pattern m = RSeq (rlit m) ?r" by (simp add: code_pattern_def)
  have none: "\<not> contains m (NL # post)" using contains_apart [of m "[]" NL post] nl ne post by (auto simp: m exec_marker_def)
  have "rx_finditer (code_pattern m) (body @ ?hit @ NL # post) =
      rx_scan (code_pattern m) (length body) 0 (after_text None body) (?hit @ NL # post)"
    unfolding rx_finditer_def p by (subst rx_scan_lit_skip) (use not_starts_before [OF body(1)] body(2) nl in auto)
  also have "\<dots> = [\<lparr>m_start = length body, m_end = length body + length ?hit, m_text = ?hit, m_caps = [(1, int_text i)]\<rparr>]"
  proof -
    have "rx_scan (code_pattern m) q 0 pv (NL # post) = []" for q pv unfolding p by (rule rx_scan_lit_none [OF none])
    moreover have "rx_at (code_pattern m) (length body) (after_text None body) (?hit @ NL # post) =
        Some \<lparr>m_start = length body, m_end = length body + length ?hit, m_text = ?hit, m_caps = [(1, int_text i)]\<rparr>"
      using code_match [of "NL # post" m "length body" "after_text None body" i]
      by (simp add: is_digit_def char_between_def ord_def)
    ultimately show ?thesis using ne by (subst rx_scan_hit) auto
  qed
  finally have f: "rx_finditer (code_pattern m) (body @ ?hit @ NL # post) =
      [\<lparr>m_start = length body, m_end = length body + length ?hit, m_text = ?hit, m_caps = [(1, int_text i)]\<rparr>]" .
  then show ?thesis by (simp add: exit_and_body_def Let_def group_def m_group_def int_of_text_int_text)
qed

section \<open>The echo\<close>

lemma command_output_of:
  assumes "NL \<notin> set echo" "contains typed echo" "\<not> contains typed out" "pre = [] \<or> last pre = NL" "typed \<noteq> []"
  shows "command_output typed cmd (pre @ echo @ NL # out @ [NL]) = strip_chars [NL] out"
proof -
  let ?outs = "split_char NL out"
  have "\<exists>ls. split_char NL (pre @ echo @ NL # out @ [NL]) = ls @ [echo] @ ?outs @ [[]]"
  proof (cases "pre = []")
    case True
    then show ?thesis
      using split_char_append [of NL echo "out @ [NL]"] split_char_append [of NL out "[]"] split_char_whole [OF assms(1)] by auto
  next
    case False
    then obtain q where q: "pre = q @ [NL]" using assms(4) by (metis append_butlast_last_id)
    show ?thesis
      using split_char_append [of NL q "echo @ NL # out @ [NL]"] split_char_append [of NL echo "out @ [NL]"]
        split_char_append [of NL out "[]"] split_char_whole [OF assms(1)] by (auto simp: q)
  qed
  then obtain ls where ls: "split_char NL (pre @ echo @ NL # out @ [NL]) = ls @ [echo] @ ?outs @ [[]]" by blast
  have quiet: "\<not> contains typed l" if "l \<in> set (?outs @ [[]])" for l
    using that assms(3,5) contains_trans [OF _ split_char_parts [of l NL out]] by auto
  have "takeWhile (\<lambda>l. \<not> contains typed l) (rev (?outs @ [[]]) @ echo # rev ls) = rev (?outs @ [[]])"
    by (subst takeWhile_append2) (use quiet assms(2) in auto)
  then have "after_echo typed cmd (ls @ [echo] @ ?outs @ [[]]) = ?outs @ [[]]"
    using assms(2) by (simp add: after_echo_def)
  moreover have "join_with [NL] (?outs @ [[]]) = out @ [NL]"
    using join_split_char [of NL "out @ [NL]"] split_char_append [of NL out "[]"] by simp
  ultimately show ?thesis
    by (simp add: command_output_def ls strip_chars_snoc)
qed

lemma typed_ne: "typed_marker shell m \<noteq> []"
  by (simp add: typed_marker_def)

lemma marker_stub: "contains (exec_marker token) s \<Longrightarrow> contains ''__NTDRIVE_'' s"
  by (rule contains_trans [of _ "exec_marker token"]) (simp add: exec_marker_def starts_with_def)

lemma marker_apart:
  assumes "list_all is_hex token" "\<not> is_word c"
  shows "contains (exec_marker token) (a @ c # b) \<longleftrightarrow> contains (exec_marker token) a \<or> contains (exec_marker token) b"
proof
  assume "contains (exec_marker token) (a @ c # b)"
  then show "contains (exec_marker token) a \<or> contains (exec_marker token) b"
    by (rule contains_apart) (use marker_chars [OF assms(1)] assms(2) in \<open>auto simp: exec_marker_def\<close>)
next
  have "contains a ([] @ a @ c # b)" "contains b ((a @ [c]) @ b @ [])" unfolding contains_iff by blast+
  then have "contains a (a @ c # b)" "contains b (a @ c # b)" by simp_all
  then show "contains (exec_marker token) a \<or> contains (exec_marker token) b \<Longrightarrow> contains (exec_marker token) (a @ c # b)"
    using contains_trans by blast
qed

lemma not_word: "\<not> is_word (CHR '' '')" "\<not> is_word (CHR ''^'')" "\<not> is_word DQ" "\<not> is_word (CHR '';'')" "\<not> is_word NL"
  "\<not> is_word (CHR ''$'')"
  by (simp_all add: is_word_def is_alnum_def is_alpha_def is_upper_def is_lower_def is_digit_def char_between_def ord_def)

lemma tail_without_marker: "\<not> contains (exec_marker token) (drop 4 (exec_marker token))"
  using contains_length [of "exec_marker token" "drop 4 (exec_marker token)"] marker_head [of token] by (auto simp: exec_marker_def)

text \<open>The echo of the typed line has the fragment and not the marker.\<close>

lemma echo_without_marker:
  assumes hex: "list_all is_hex token" and prompt: "prompt = [] \<or> \<not> is_word (last prompt)"
    and no: "\<not> contains (exec_marker token) prompt" "\<not> contains (exec_marker token) cmd"
  shows "\<not> contains (exec_marker token) (prompt @ butlast (exec_line shell cmd (exec_marker token)))"
proof -
  note apart = marker_apart [OF hex]
  have front: "contains (exec_marker token) (prompt @ x) \<longleftrightarrow> contains (exec_marker token) x" for x
  proof (cases "prompt = []")
    case False
    then obtain q c where q: "prompt = q @ [c]" by (metis append_butlast_last_id)
    then have "\<not> contains (exec_marker token) q" using no(1) apart [of c q "[]"] prompt by auto
    then show ?thesis using apart [of c q x] prompt q by auto
  qed simp
  have lit: "\<not> contains (exec_marker token) s" if "\<not> contains ''__NTDRIVE_'' s" for s using that marker_stub by blast
  show ?thesis
  proof (cases "shell = ''cmd''")
    case True
    then have "butlast (exec_line shell cmd (exec_marker token)) =
        cmd @ CHR '' '' # (''& echo __NT'' @ CHR ''^'' # (drop 4 (exec_marker token) @ CHR '' '' # ''%ERRORLEVEL%''))"
      by (simp add: exec_line_def typed_marker_def butlast_append)
    moreover have "\<not> contains (exec_marker token) ''& echo __NT''" "\<not> contains (exec_marker token) ''%ERRORLEVEL%''"
      by (rule lit, simp add: starts_with_def)+
    ultimately show ?thesis
      by (simp only: front apart [OF not_word(1)] apart [OF not_word(2)] no tail_without_marker simp_thms)
  next
    case False
    then have "butlast (exec_line shell cmd (exec_marker token)) =
        ''$global:LASTEXITCODE = $null;'' @ CHR '' '' # (cmd @ CHR '';'' # ('' Write-Output ('' @ DQ # (''__NT'' @ DQ #
          ('' +'' @ CHR '' '' # ([] @ DQ # (drop 4 (exec_marker token) @ CHR '' '' # (''$LASTEXITCODE'' @ DQ # '')'')))))))"
      by (simp add: exec_line_def typed_marker_def butlast_append)
    moreover have "\<not> contains (exec_marker token) ''$global:LASTEXITCODE = $null;''" "\<not> contains (exec_marker token) '' Write-Output (''"
      "\<not> contains (exec_marker token) ''__NT''" "\<not> contains (exec_marker token) '' +''" "\<not> contains (exec_marker token) []"
      "\<not> contains (exec_marker token) ''$LASTEXITCODE''" "\<not> contains (exec_marker token) '')''"
      by (rule lit, simp add: starts_with_def)+
    ultimately show ?thesis
      by (simp only: front apart [OF not_word(1)] apart [OF not_word(3)] apart [OF not_word(4)] no tail_without_marker simp_thms)
  qed
qed

lemma echo_has_fragment: "contains (typed_marker shell m) (prompt @ butlast (exec_line shell cmd m))"
proof -
  have "\<exists>a b. butlast (exec_line shell cmd m) = a @ typed_marker shell m @ b"
    by (cases "shell = ''cmd''") (auto simp: exec_line_def butlast_append intro: exI [of _ "cmd @ '' & echo ''"]
        exI [of _ "''$global:LASTEXITCODE = $null; '' @ cmd @ ''; Write-Output (''"])
  then show ?thesis by (metis append.assoc contains_iff)
qed

lemma echo_one_line:
  assumes "list_all is_hex token" "NL \<notin> set prompt" "NL \<notin> set cmd"
  shows "NL \<notin> set (prompt @ butlast (exec_line shell cmd (exec_marker token)))"
proof -
  have "NL \<notin> set (drop 4 (exec_marker token))" using marker_chars [OF assms(1), of NL] not_word(5) by (meson in_set_dropD)
  then show ?thesis using assms(2,3) by (auto simp: exec_line_def typed_marker_def butlast_append)
qed

section \<open>What a command answers\<close>

lemma search_at_start: "search_at r s 0 = map_option m_text (rx_search_from r 0 None s)"
  by (simp add: search_at_def)

text \<open>
  C22. A command run by term_exec ends the wait with the shell's marker line only, not with the echo of the line that was typed,
  and the answer is what the command printed between that echo and the marker line, with the exit code of the marker line.
  The transcript is an earlier part, the prompt with the echo, the output, the marker line and whatever follows; none of these but
  the marker line has the marker, and the output does not have the fragment the echo is found by.
\<close>

theorem exec_answers_output_and_code:
  assumes "list_all is_hex token" and m: "m = exec_marker token"
    and "NL \<notin> set prompt" "NL \<notin> set (ep_cmd p)" "prompt = [] \<or> \<not> is_word (last prompt)" "before = [] \<or> last before = NL"
    and "\<not> contains m before" "\<not> contains m prompt" "\<not> contains m (ep_cmd p)" "\<not> contains m out" "\<not> contains m after"
    and "\<not> contains (typed_marker (ts_shell s) m) out"
    and shown: "shown = before @ prompt @ butlast (exec_line (ts_shell s) (ep_cmd p) m) @ NL # out @ [NL]"
  shows "search_at (end_pattern m) shown 0 = None \<and>
    exec_answer p s s2 m (shown @ m @ '' '' @ int_text i @ NL # after) elapsed =
      \<lparr>er_account = ts_account s, er_shell = ts_shell s, er_output = take (ep_max_bytes p) (strip_chars [NL] out), er_exit = Some i,
       er_state = session_state s2, er_truncated = (ep_max_bytes p < length (strip_chars [NL] out)), er_elapsed = elapsed\<rparr>"
proof -
  let ?echo = "prompt @ butlast (exec_line (ts_shell s) (ep_cmd p) m)"
  note hex = assms(1)
  note apart = marker_apart [OF hex not_word(5), folded m]
  have echo: "\<not> contains m ?echo" using echo_without_marker [OF hex] assms unfolding m by blast
  have before: "\<not> contains m (before @ x)" if "\<not> contains m x" for x
  proof (cases "before = []")
    case False
    then obtain q where q: "before = q @ [NL]" using assms(6) by (metis append_butlast_last_id)
    then have "\<not> contains m q" using assms(7) apart [of q "[]"] by simp
    then show ?thesis using that apart [of q x] q by simp
  qed (use that in simp)
  have body: "\<not> contains m shown"
    using before [of "?echo @ NL # out @ NL # []"] echo assms(10) apart [of ?echo "out @ NL # []"] apart [of out "[]"]
    by (simp add: shown m exec_marker_def)
  then have quiet: "search_at (end_pattern m) shown 0 = None"
    by (simp add: search_at_start end_pattern_def rx_search_from_lit_none)
  have "exit_and_body m (shown @ m @ '' '' @ int_text i @ NL # after) = (Some i, shown)"
    by (rule exit_and_body_of [OF hex m body _ assms(11)]) (simp add: shown)
  moreover have "command_output (typed_marker (ts_shell s) m) (ep_cmd p) shown = strip_chars [NL] out"
    using command_output_of [of ?echo "typed_marker (ts_shell s) m" out before "ep_cmd p"] echo_one_line [OF hex assms(3,4)]
      echo_has_fragment [of "ts_shell s" m prompt "ep_cmd p"] assms(6,12) typed_ne
    by (simp add: shown m)
  ultimately show ?thesis
    using quiet by (simp add: exec_answer_def Let_def)
qed

definition demo_exec :: exec_params where
  "demo_exec = \<lparr>ep_session = ''t-1'', ep_vm = None, ep_cmd = ''dir'', ep_timeout = 60000, ep_max_bytes = 65536\<rparr>"

definition demo_session :: term_session where
  "demo_session = session_attach (new_session ''t-1'' ''win'' ''cmd'' ''ssh'' 120 40 False ''admin'' 0)"

lemma exec_answers_output_and_code_witness:
  "er_exit (exec_answer demo_exec demo_session demo_session (exec_marker ''0a1b2c3d'')
     (''C:>dir & echo __NT^DRIVE_0a1b2c3d__ %ERRORLEVEL%'' @ NL # ''a.txt'' @ [NL] @ exec_marker ''0a1b2c3d'' @ '' 1'' @ [NL]) 5) = Some 1"
proof -
  let ?m = "exec_marker ''0a1b2c3d''"
  have shown: "''C:>dir & echo __NT^DRIVE_0a1b2c3d__ %ERRORLEVEL%'' @ NL # ''a.txt'' @ [NL] =
      [] @ ''C:>'' @ butlast (exec_line (ts_shell demo_session) (ep_cmd demo_exec) ?m) @ NL # ''a.txt'' @ [NL]"
    by (simp add: demo_exec_def demo_session_def session_attach_def new_session_def exec_line_def typed_marker_def exec_marker_def)
  have "exec_answer demo_exec demo_session demo_session ?m
     ((''C:>dir & echo __NT^DRIVE_0a1b2c3d__ %ERRORLEVEL%'' @ NL # ''a.txt'' @ [NL]) @ ?m @ '' '' @ int_text 1 @ NL # []) 5 =
      \<lparr>er_account = ts_account demo_session, er_shell = ts_shell demo_session,
       er_output = take (ep_max_bytes demo_exec) (strip_chars [NL] ''a.txt''), er_exit = Some 1,
       er_state = session_state demo_session, er_truncated = (ep_max_bytes demo_exec < length (strip_chars [NL] ''a.txt'')), er_elapsed = 5\<rparr>"
    by (rule exec_answers_output_and_code [THEN conjunct2, OF _ refl _ _ _ _ _ _ _ _ _ _ shown])
      (simp_all add: demo_exec_def demo_session_def session_attach_def new_session_def exec_marker_def typed_marker_def starts_with_def
        is_hex_def is_word_def is_alnum_def is_alpha_def is_upper_def is_lower_def is_digit_def char_between_def ord_def)
  moreover have "int_text 1 = ''1''" by code_simp
  ultimately show ?thesis by simp
qed

end
