(* ===== verification/Kd_Tool_Text.thy ===== *)
theory Kd_Tool_Text
  imports Kd_Text
begin

text \<open>
  The text functions of \<open>core/tools/kd.py\<close>: the checks of what may reach the guest's command line, the reading of bcdedit's
  and kd.exe's answers and the tests on the commands of \<open>kd_exec\<close>.
\<close>

section \<open>Checks of the KDNET settings\<close>

definition is_base36 :: "char \<Rightarrow> bool" where
  "is_base36 c = (is_digit c \<or> is_lower c)"

definition key_word :: rx where
  "key_word = rrange 1 13 is_base36"

text \<open>\<open>{3}\<close> written out; \<open>$\<close> also matches before a newline that ends the text.\<close>

definition KDNET_KEY :: rx where
  "KDNET_KEY =
     RSeq RBegin (RSeq key_word
       (RSeq (RSeq (rlit ''.'') key_word) (RSeq (RSeq (rlit ''.'') key_word) (RSeq (RSeq (rlit ''.'') key_word) RDollar))))"

definition key_matches :: "string \<Rightarrow> bool" where
  "key_matches s = (rx_match_at_start KDNET_KEY s \<noteq> None)"

definition check_key :: "string \<Rightarrow> ('w, string) app" where
  "check_key s = (if key_matches s then ret s else throw INVALID_ARGS)"

text \<open>\<open>ipaddress.IPv4Address\<close>: four decimal octets of at most three digits, no leading zero, at most 255.\<close>

definition ipv4_octet :: "string \<Rightarrow> bool" where
  "ipv4_octet s =
     (all_digits s \<and> length s \<le> 3 \<and> (s = ''0'' \<or> hd s \<noteq> CHR ''0'') \<and> digits_value s \<le> 255)"

definition ipv4_address :: "string \<Rightarrow> bool" where
  "ipv4_address s = (let parts = split_char (CHR ''.'') s in length parts = 4 \<and> list_all ipv4_octet parts)"

definition check_hostip :: "string \<Rightarrow> ('w, string) app" where
  "check_hostip s = (if ipv4_address s then ret s else throw INVALID_ARGS)"

section \<open>bcdedit's answers\<close>

definition not_space :: "char \<Rightarrow> bool" where
  "not_space c = (\<not> is_space c)"

definition BCD_LINE :: rx where
  "BCD_LINE =
     RSeq RBegin (RSeq (RStar is_space) (RSeq (RGroup 1 (rplus is_alpha))
       (RSeq (RSet is_space) (RSeq (rplus is_space)
         (RSeq (RGroup 2 (RSeq (RSet not_space) (RLazy not_nl))) (RSeq (RStar is_space) RDollar))))))"

definition parse_bcd :: "string \<Rightarrow> (string, string) dict" where
  "parse_bcd txt =
     fold (\<lambda>line d. case rx_match_at_start BCD_LINE line of
                      None \<Rightarrow> d
                    | Some m \<Rightarrow> dict_set (py_lower (group m 1)) (group m 2) d)
       (split_lines txt) []"

definition redact :: "string list \<Rightarrow> string \<Rightarrow> string" where
  "redact secrets txt = fold (\<lambda>s t. py_replace s ''***'' t) secrets txt"

section \<open>Commands of the debugger\<close>

definition BP_SET_RE :: rx where
  "BP_SET_RE =
     RSeq RBegin (RSeq (RStar is_space) (RSeq (RSet (ci (\<lambda>c. c = CHR ''b''))) (RSeq (RSet (ci (\<lambda>c. c \<in> set ''pmua'')))
       (RSeq (RStar is_digit) (RSet is_space)))))"

definition quoted_g :: "char \<Rightarrow> rx" where
  "quoted_g q = RSeq (RSet (\<lambda>c. c = q)) (RSeq (RStar is_space) (RSeq (rlit_ci ''g'') (RSeq (RStar is_space) (RSet (\<lambda>c. c = q)))))"

definition AUTO_RESUME_RE :: rx where
  "AUTO_RESUME_RE = RAlt (RSeq RBoundary (RSeq (rlit_ci ''gc'') RBoundary)) (RAlt (quoted_g SQ) (quoted_g DQ))"

definition CONTINUE_ONLY_RE :: rx where
  "CONTINUE_ONLY_RE =
     RSeq RBegin (RSeq (RStar is_space) (RSeq (rlit_ci ''g'') (RSeq (ropt (RSet (ci (\<lambda>c. c \<in> set ''chn''))))
       (RSeq (ropt (RSeq (rplus is_space) (rplus (\<lambda>c. not_space c \<and> c \<noteq> CHR '';'')))) (RSeq (RStar is_space) RDollar)))))"

definition sets_breakpoint :: "string \<Rightarrow> bool" where
  "sets_breakpoint cmd = (rx_match_at_start BP_SET_RE cmd \<noteq> None)"

definition continue_only :: "string \<Rightarrow> bool" where
  "continue_only cmd = (rx_match_at_start CONTINUE_ONLY_RE cmd \<noteq> None)"

definition auto_resume_bps :: "string list \<Rightarrow> string list" where
  "auto_resume_bps cmds = filter (\<lambda>c. sets_breakpoint c \<and> rx_test AUTO_RESUME_RE c) cmds"

definition BL_ROW_RE :: rx where
  "BL_ROW_RE =
     RSeq RBegin (RSeq (RStar is_space) (RSeq (RGroup 1 (rplus is_digit)) (RSeq (rplus is_space)
       (RSeq (RGroup 2 (rplus (ci (\<lambda>c. c \<in> set ''edu'')))) (RSeq (rplus is_space) (RSeq (RGroup 3 (RStar not_nl)) RDollar))))))"

record bp_row =
  br_id :: string
  br_status :: string
  br_deferred :: bool
  br_location :: string

definition bp_row_of :: "rx_match \<Rightarrow> bp_row" where
  "bp_row_of m =
     (let st = py_lower (group m 2)
      in \<lparr>br_id = group m 1, br_status = st, br_deferred = (CHR ''u'' \<in> set st), br_location = py_strip (group m 3)\<rparr>)"

definition parse_breakpoints :: "string \<Rightarrow> bp_row list" where
  "parse_breakpoints listing = map bp_row_of (List.map_filter (rx_match_at_start BL_ROW_RE) (split_lines listing))"

definition SYMBOL_TROUBLE_RE :: rx where
  "SYMBOL_TROUBLE_RE =
     ralts (rlit_ci ''unqualified symbol'') [rlit_ci ''type information missing'', rlit_ci ''bad symbols'']"

text \<open>\<open>_batched\<close>: a semicolon outside quotes; the arguments are the two quote flags.\<close>

fun batched_from :: "bool \<Rightarrow> bool \<Rightarrow> string \<Rightarrow> bool" where
  "batched_from single dbl [] = False"
| "batched_from single dbl (c # s) =
     (if c = SQ \<and> \<not> dbl then batched_from (\<not> single) dbl s
      else if c = DQ \<and> \<not> single then batched_from single (\<not> dbl) s
      else if c = CHR '';'' \<and> \<not> single \<and> \<not> dbl then True
      else batched_from single dbl s)"

definition batched :: "string \<Rightarrow> bool" where
  "batched cmd = batched_from False False cmd"

definition local_symbol_cache :: "string \<Rightarrow> string" where
  "local_symbol_cache sympath =
     opt_or (List.find drive_path (split_char (CHR ''*'') sympath)) (''C:'' @ [BSL] @ ''symbols'')"

section \<open>Answers of the debugger\<close>

definition CONTEXT_GPRS :: "string list" where
  "CONTEXT_GPRS =
     [''rax'', ''rcx'', ''rdx'', ''rbx'', ''rsp'', ''rbp'', ''rsi'', ''rdi'',
      ''r8'', ''r9'', ''r10'', ''r11'', ''r12'', ''r13'', ''r14'', ''r15'', ''rip'']"

definition quad_value :: "string \<Rightarrow> string option" where
  "quad_value token =
     (let raw = no_ticks token
      in if length raw = 16 \<and> list_all is_hex raw then Some (''0x'' @ py_lower raw) else None)"

definition decode_context_gprs :: "string \<Rightarrow> (string, string) dict" where
  "decode_context_gprs dump =
     zip CONTEXT_GPRS (concat (map (\<lambda>line. List.map_filter quad_value (tl (split_words line))) (split_lines dump)))"

definition STACK_HIT_RE :: rx where
  "STACK_HIT_RE =
     RSeq (RStar is_space) (RSeq (RGroup 1 (rrange 8 19 (\<lambda>c. is_hex c \<or> c = CHR 0x60))) RBoundary)"

definition stack_hit :: "string \<Rightarrow> nat option" where
  "stack_hit line =
     (case rx_match_at_start STACK_HIT_RE line of
        None \<Rightarrow> None
      | Some m \<Rightarrow>
          let token = no_ticks (group m 1)
          in if 8 \<le> length token \<and> length token \<le> 16 \<and> list_all is_hex token then Some (hex_value token) else None)"

definition stack_search_hits :: "string \<Rightarrow> nat list" where
  "stack_search_hits txt = List.map_filter stack_hit (split_lines txt)"

definition BP_ID_RE :: rx where
  "BP_ID_RE = RSeq (RStar is_space) (RSeq (RGroup 1 (rplus is_digit)) (RSet is_space))"

definition breakpoint_ids :: "string \<Rightarrow> string list" where
  "breakpoint_ids listing =
     remdups (map (\<lambda>m. group m 1) (List.map_filter (rx_match_at_start BP_ID_RE) (split_lines listing)))"

definition EVALUATE_RE :: rx where
  "EVALUATE_RE =
     RSeq (rlit ''Evaluate expression:'') (RSeq (RStar is_space) (RGroup 1 (RSeq (ropt (RSet (\<lambda>c. c = CHR ''-''))) (rplus is_digit))))"

definition HEX_WORD_RE :: rx where
  "HEX_WORD_RE = RSeq RBoundary (RSeq (rplus (\<lambda>c. is_hex c \<or> c = CHR 0x60)) RBoundary)"

text \<open>A value of only minus and digits is zero when its digits are all zeros.\<close>

definition is_zero :: "string \<Rightarrow> bool" where
  "is_zero txt =
     (case rx_search EVALUATE_RE txt of
        Some m \<Rightarrow> py_int (group m 1) = Some 0
      | None \<Rightarrow>
          let hexes = map m_text (rx_finditer HEX_WORD_RE (no_ticks txt))
          in hexes \<noteq> [] \<and> list_all (\<lambda>h. hex_value h = 0) hexes)"

text \<open>\<open>f"{n:#x}"\<close> of a Python integer.\<close>

fun hex_digits :: "nat \<Rightarrow> string" where
  "hex_digits n = (if n < 16 then [hex_char n] else hex_digits (n div 16) @ [hex_char (n mod 16)])"

declare hex_digits.simps [simp del]

definition hex_text :: "int \<Rightarrow> string" where
  "hex_text i = (if i < 0 then ''-0x'' @ hex_digits (nat (- i)) else ''0x'' @ hex_digits (nat i))"

end
