(* ===== verification/Tools_Kd.thy ===== *)
theory Tools_Kd
  imports Tools_Vm Kd_Tool_Text
begin

text \<open>
  The \<open>kd_*\<close> tools of \<open>core/tools/kd.py\<close>. Setting up a guest changes the loaded configuration and vms.yaml, which are part of
  the world here; every tool runs with the configuration as it is then. Hints and notes are flags or left out.
\<close>

section \<open>World\<close>

record 'e kd_tool_world = "'e svc_world" +
  w_yaml :: yaml_file
  w_config :: nt_config

record 'e kd_tool_outside = "'e svc_outside" +
  x_key_values :: "'e \<Rightarrow> nat list \<times> 'e"

type_synonym ('e, 'z, 'a) ktprog = "(('e, 'z) kd_tool_world_scheme, 'a) app"

definition with_config ::
  "('e, 'x) kd_tool_outside_scheme \<Rightarrow> (('e, 'x) kd_tool_outside_scheme \<Rightarrow> ('e, 'z, 'a) ktprog) \<Rightarrow> ('e, 'z, 'a) ktprog" where
  "with_config X f w = f (X\<lparr>x_config := w_config w\<rparr>) w"

section \<open>Host and guest setup\<close>

record host_setup =
  hs_transport :: string
  hs_changed :: bool
  hs_pipe :: string
  hs_firewall :: "firewall_status option"

text \<open>Reading the rules is free, changing them asks the person at the desktop.\<close>

definition setup_firewall :: "('e, 'x) svc_outside_scheme \<Rightarrow> bool \<Rightarrow> int \<Rightarrow> ('e, 'z, firewall_status \<times> bool) sprog" where
  "setup_firewall X fix timeout =
     bindE (kdnet_firewall X) (\<lambda>st.
       if fw_ok st \<or> \<not> fix then ret (st, False)
       else if \<not> fw_checked st then throw BACKEND_ERROR
       else bindE (fix_kdnet_firewall X timeout) (\<lambda>st2. if \<not> fw_ok st2 then throw BACKEND_ERROR else ret (st2, True)))"

definition kd_setup_host ::
  "('e, 'x) kd_tool_outside_scheme \<Rightarrow> string \<Rightarrow> bool \<Rightarrow> int \<Rightarrow> ('e, 'z, host_setup) ktprog" where
  "kd_setup_host X0 vm fix timeout = with_config X0 (\<lambda>X.
     bindE (vm_cfg X vm) (\<lambda>cfg.
       if vc_kd_transport cfg = Serial then
         let pipe = resolved_serial_pipe cfg in
         bindE (awaitE X (hv_ensure_serial_pipe (adapter_for X cfg) cfg pipe)) (\<lambda>changed.
         thenE (eventE X vm ''kd_setup_host'' [(''transport'', JStr ''serial''), (''changed'', JBool changed)])
           (ret \<lparr>hs_transport = ''serial'', hs_changed = changed, hs_pipe = pipe, hs_firewall = None\<rparr>))
       else
         bindE (setup_firewall X fix timeout) (\<lambda>(st, changed).
         thenE (eventE X vm ''kd_setup_host'' [(''transport'', JStr ''net''), (''changed'', JBool changed)])
           (ret \<lparr>hs_transport = ''net'', hs_changed = changed, hs_pipe = [], hs_firewall = Some st\<rparr>))))"

text \<open>One command in the guest, with what is known to be secret by then left out of the record.\<close>

record setup_step =
  ss_cmd :: string
  ss_code :: int
  ss_output :: string

definition redact_step :: "string list \<Rightarrow> setup_step \<Rightarrow> setup_step" where
  "redact_step secrets s = s\<lparr>ss_output := redact secrets (ss_output s)\<rparr>"

definition step_dict :: "setup_step \<Rightarrow> json" where
  "step_dict s = JDict [(''cmd'', JStr (ss_cmd s)), (''exit_code'', JInt (ss_code s)), (''output'', JStr (ss_output s))]"

definition guest_run ::
  "('e, 'x) svc_outside_scheme \<Rightarrow> transport \<Rightarrow> string list \<Rightarrow> string \<Rightarrow> setup_step list \<Rightarrow>
   ('e, 'z, string \<times> setup_step list) sprog" where
  "guest_run X tr secrets cmd steps =
     bindE (awaitE X (x_exec_once X tr cmd 60000)) (\<lambda>(code, out).
     let steps2 = steps @ [\<lparr>ss_cmd = redact secrets cmd, ss_code = code, ss_output = take_last 2000 (py_strip out)\<rparr>]
     in if code \<noteq> 0
        then throw_with BACKEND_ERROR [(''outputs'', JList (map (step_dict \<circ> redact_step secrets) steps2))]
        else ret (out, steps2))"

primrec guest_run_all ::
  "('e, 'x) svc_outside_scheme \<Rightarrow> transport \<Rightarrow> string list \<Rightarrow> string list \<Rightarrow> setup_step list \<Rightarrow> ('e, 'z, setup_step list) sprog" where
  "guest_run_all X tr secrets [] steps = ret steps"
| "guest_run_all X tr secrets (c # cs) steps =
     bindE (guest_run X tr secrets c steps) (\<lambda>(out, steps2). guest_run_all X tr secrets cs steps2)"

text \<open>What the guest debugs to now.\<close>

record guest_kdnet =
  gk_debug_on :: bool
  gk_key :: string
  gk_port :: "int option"
  gk_here :: bool

definition read_guest_kdnet :: "string \<Rightarrow> (string, string) dict \<Rightarrow> (string, string) dict \<Rightarrow> guest_kdnet" where
  "read_guest_kdnet hostip settings current =
     (let raw = opt_or (dict_get settings ''key'') [];
          key = (if key_matches raw then raw else []);
          port = py_int (opt_or (dict_get settings ''port'') [])
      in \<lparr>gk_debug_on = (py_lower (opt_or (dict_get current ''debug'') []) \<in> {''yes'', ''true''}),
          gk_key = key, gk_port = port,
          gk_here = (py_upper (opt_or (dict_get settings ''debugtype'') []) = ''NET'' \<and>
                     opt_or (dict_get settings ''hostip'') [] = hostip \<and> key \<noteq> [] \<and> port \<noteq> None)\<rparr>)"

definition no_guest_kdnet :: guest_kdnet where
  "no_guest_kdnet = \<lparr>gk_debug_on = False, gk_key = [], gk_port = None, gk_here = False\<rparr>"

definition taken_ports :: "nt_config \<Rightarrow> string \<Rightarrow> int list" where
  "taken_ports c name =
     map (\<lambda>(n, vm). kn_port (vc_kdnet vm)) (filter (\<lambda>(n, vm). n \<noteq> name \<and> vc_kd_transport vm = Net) (c_vms c))"

function free_port :: "int list \<Rightarrow> int \<Rightarrow> int" where
  "free_port taken port = (if port \<in> set taken then free_port taken (port + 1) else port)"
  by pat_completeness auto
termination
proof (relation "measure (\<lambda>(taken, port). length (filter (\<lambda>p. port \<le> p) taken))")
  fix taken :: "int list" and port :: int
  assume "port \<in> set taken"
  then have "length (filter (\<lambda>p. port + 1 \<le> p) taken) < length (filter (\<lambda>p. port \<le> p) taken)"
  proof (induction taken)
    case (Cons a taken)
    have "length (filter (\<lambda>p. port + 1 \<le> p) taken) \<le> length (filter (\<lambda>p. port \<le> p) taken)"
      by (induction taken) auto
    then show ?case using Cons by (cases "a = port") auto
  qed simp
  then show "((taken, port + 1), taken, port) \<in> measure (\<lambda>(taken, port). length (filter (\<lambda>p. port \<le> p) taken))"
    by simp
qed simp

declare free_port.simps [simp del]

definition adopts :: "guest_kdnet \<Rightarrow> int list \<Rightarrow> int option \<Rightarrow> string option \<Rightarrow> bool" where
  "adopts g taken port_override key_override =
     (gk_here g \<and> (case gk_port g of None \<Rightarrow> False | Some p \<Rightarrow> p \<notin> set taken) \<and> key_override = None \<and> port_override = None)"

definition given :: "'a \<Rightarrow> 'a option \<Rightarrow> bool" where
  "given blank x = (x \<noteq> None \<and> x \<noteq> Some blank)"

text \<open>\<open>key_override or cfg.kdnet.key or guest_key or generate_kdnet_key()\<close>, checked.\<close>

definition choose_key ::
  "('e, 'x) kd_tool_outside_scheme \<Rightarrow> string option \<Rightarrow> vm_config \<Rightarrow> guest_kdnet \<Rightarrow> ('e, 'z, string) ktprog" where
  "choose_key X key_override cfg g =
     bindE (if given [] key_override then ret (the key_override)
            else if kn_key (vc_kdnet cfg) \<noteq> [] then ret (kn_key (vc_kdnet cfg))
            else if gk_key g \<noteq> [] then ret (gk_key g)
            else bindE (envE (x_key_values X)) (\<lambda>vs. ret (generate_kdnet_key vs))) check_key"

definition choose_port :: "int option \<Rightarrow> vm_config \<Rightarrow> int list \<Rightarrow> int" where
  "choose_port port_override cfg taken =
     (if port_override = None then free_port taken (kn_port (vc_kdnet cfg))
      else if given 0 port_override then the port_override else kn_port (vc_kdnet cfg))"

definition dbgsettings_net :: "vm_config \<Rightarrow> int \<Rightarrow> string \<Rightarrow> string" where
  "dbgsettings_net cfg port key =
     ''bcdedit /dbgsettings net hostip:'' @ vc_kdnet_hostip cfg @ '' port:'' @ int_text port @ '' key:'' @ key"

definition setup_commands :: "vm_config \<Rightarrow> guest_kdnet \<Rightarrow> bool \<Rightarrow> int \<Rightarrow> string \<Rightarrow> string list" where
  "setup_commands cfg g adopted port key =
     (if vc_kd_transport cfg = Serial
      then [''bcdedit /debug on'', ''bcdedit /dbgsettings serial debugport:1 baudrate:115200'', ''bcdedit /dbgsettings'']
      else if adopted then (if gk_debug_on g then [] else [''bcdedit /debug on''])
      else [''bcdedit /debug on'', dbgsettings_net cfg port key, ''bcdedit /dbgsettings''])"

definition CURRENT_COMMAND :: string where
  "CURRENT_COMMAND = ''bcdedit /enum '' @ [SQ] @ ''{current}'' @ [SQ]"

definition query_guest ::
  "('e, 'x) svc_outside_scheme \<Rightarrow> vm_config \<Rightarrow> transport \<Rightarrow> ('e, 'z, guest_kdnet \<times> setup_step list) sprog" where
  "query_guest X cfg tr =
     (if vc_kd_transport cfg = Serial then ret (no_guest_kdnet, [])
      else
        bindE (guest_run X tr [] ''bcdedit /dbgsettings'' []) (\<lambda>(settings, steps1).
        bindE (guest_run X tr [] CURRENT_COMMAND steps1) (\<lambda>(current, steps2).
          ret (read_guest_kdnet (vc_kdnet_hostip cfg) (parse_bcd settings) (parse_bcd current), steps2))))"

text \<open>The port and key that will hold, and the secrets known from here on.\<close>

definition decide_kdnet ::
  "('e, 'x) kd_tool_outside_scheme \<Rightarrow> vm_config \<Rightarrow> guest_kdnet \<Rightarrow> bool \<Rightarrow> int list \<Rightarrow> int option \<Rightarrow> string option \<Rightarrow>
   ('e, 'z, int \<times> string \<times> string list) ktprog" where
  "decide_kdnet X cfg g adopted taken port_override key_override =
     (let known = (if gk_key g = [] then [] else [gk_key g])
      in if vc_kd_transport cfg = Serial then ret (kn_port (vc_kdnet cfg), [], known)
         else case gk_port g of
                Some p \<Rightarrow>
                  if adopted then ret (p, gk_key g, known)
                  else bindE (choose_key X key_override cfg g) (\<lambda>k. ret (choose_port port_override cfg taken, k, known @ [k]))
              | None \<Rightarrow> bindE (choose_key X key_override cfg g) (\<lambda>k. ret (choose_port port_override cfg taken, k, known @ [k])))"

definition save_kdnet :: "string \<Rightarrow> int \<Rightarrow> string \<Rightarrow> ('e, 'z, unit) ktprog" where
  "save_kdnet name port key w =
     (case save_kdnet_settings name port key (w_yaml w, w_config w) of
        (r, (y, c)) \<Rightarrow> (r, w\<lparr>w_yaml := y, w_config := c\<rparr>))"

definition retarget_session :: "string \<Rightarrow> int \<Rightarrow> string \<Rightarrow> ('e, 'z, unit) ktprog" where
  "retarget_session name port key w =
     (Inr (),
      case dict_get (w_kd w) name of
        None \<Rightarrow> w
      | Some s \<Rightarrow> w\<lparr>w_kd := dict_set name (s\<lparr>ks_port := port, ks_key := key\<rparr>) (w_kd w)\<rparr>)"

record guest_setup =
  gs_transport :: string
  gs_port :: "int option"
  gs_key_saved :: bool
  gs_adopted :: bool
  gs_needs_reboot :: bool
  gs_port_moved :: bool
  gs_steps :: "setup_step list"

definition guest_setup_json :: "string \<Rightarrow> guest_setup \<Rightarrow> json" where
  "guest_setup_json vm g =
     JDict [(''vm'', JStr vm), (''transport'', JStr (gs_transport g)), (''port'', jopt_int (gs_port g)),
            (''key_saved'', JBool (gs_key_saved g)), (''adopted'', JBool (gs_adopted g)),
            (''needs_reboot'', JBool (gs_needs_reboot g)), (''steps'', JList (map step_dict (gs_steps g)))]"

definition apply_setup ::
  "('e, 'x) kd_tool_outside_scheme \<Rightarrow> vm_config \<Rightarrow> transport \<Rightarrow> guest_kdnet \<Rightarrow> setup_step list \<Rightarrow> int list \<Rightarrow> int option \<Rightarrow>
   string option \<Rightarrow> ('e, 'z, guest_setup) ktprog" where
  "apply_setup X cfg tr g steps taken port_override key_override =
     (let serial = (vc_kd_transport cfg = Serial); adopted = adopts g taken port_override key_override
      in bindE (decide_kdnet X cfg g adopted taken port_override key_override) (\<lambda>(port, key, secrets).
         bindE (guest_run_all X tr secrets (setup_commands cfg g adopted port key) steps) (\<lambda>steps2.
         thenE (if serial then ret () else thenE (save_kdnet (vc_name cfg) port key) (retarget_session (vc_name cfg) port key))
         (thenE (eventE X (vc_name cfg) ''kd_setup_guest''
                   [(''transport'', JStr (transport_text (vc_kd_transport cfg))), (''adopted'', JBool adopted)])
           (ret \<lparr>gs_transport = transport_text (vc_kd_transport cfg), gs_port = (if serial then None else Some port),
                 gs_key_saved = (\<not> serial), gs_adopted = adopted,
                 gs_needs_reboot = (serial \<or> \<not> adopted \<or> \<not> gk_debug_on g),
                 gs_port_moved = (gk_here g \<and> port_override = None \<and> (case gk_port g of None \<Rightarrow> False | Some p \<Rightarrow> p \<in> set taken)),
                 gs_steps = map (redact_step secrets) steps2\<rparr>)))))"

definition configure_guest ::
  "('e, 'x) kd_tool_outside_scheme \<Rightarrow> vm_config \<Rightarrow> int option \<Rightarrow> string option \<Rightarrow> ('e, 'z, guest_setup) ktprog" where
  "configure_guest X cfg port_override key_override =
     (let serial = (vc_kd_transport cfg = Serial)
      in if \<not> serial \<and> vc_kdnet_hostip cfg = [] then throw INVALID_ARGS
         else
           thenE (if serial then ret () else bindE (check_hostip (vc_kdnet_hostip cfg)) (\<lambda>_. ret ()))
           (thenE (ensure_not_frozen X (vc_name cfg))
           (thenE (ensure_running X cfg)
           (bindE (svc_transport X cfg) (\<lambda>tr.
            bindE (query_guest X cfg tr) (\<lambda>(g, steps).
              apply_setup X cfg tr g steps (taken_ports (x_config X) (vc_name cfg)) port_override key_override))))))"

definition kd_setup_guest ::
  "('e, 'x) kd_tool_outside_scheme \<Rightarrow> string \<Rightarrow> int option \<Rightarrow> string option \<Rightarrow> ('e, 'z, guest_setup) ktprog" where
  "kd_setup_guest X0 vm port key =
     with_config X0 (\<lambda>X. bindE (vm_cfg X vm) (\<lambda>cfg. configure_guest X cfg port key))"

section \<open>Attaching and detaching\<close>

record attach_params =
  ap_vm :: string
  ap_port :: "int option"
  ap_key :: "string option"
  ap_symbol_path :: string
  ap_wait :: bool
  ap_timeout :: int

definition set_symbol_path :: "string \<Rightarrow> string \<Rightarrow> ('e, 'z, unit) sprog" where
  "set_symbol_path vm path w =
     (Inr (),
      case dict_get (w_kd w) vm of
        None \<Rightarrow> w
      | Some s \<Rightarrow> if path = [] then w else w\<lparr>w_kd := dict_set vm (s\<lparr>ks_symbol_path := path\<rparr>) (w_kd w)\<rparr>)"

definition attach_session ::
  "('e, 'x) kd_tool_outside_scheme \<Rightarrow> attach_params \<Rightarrow> vm_config \<Rightarrow> string \<Rightarrow> ('e, 'z, result) ktprog" where
  "attach_session X p cfg key =
     bindE (kd_session_for X cfg (ap_port p) (Some key)) (\<lambda>_.
     thenE (set_symbol_path (vc_name cfg) (ap_symbol_path p))
     (bindE (svc_kd_attach X (vc_name cfg) (ap_wait p) (ap_timeout p)) (\<lambda>status.
      bindE (svc_runtime X (ap_vm p)) (\<lambda>_.
      thenE (eventE X (ap_vm p) ''kd_attach'' [(''state'', opt_or (dict_get status ''state'') JNull)])
        (ret (dict_set ''vm'' (JStr (ap_vm p)) status))))))"

text \<open>Without a key the guest is configured first; one that then has to boot again is an error.\<close>

definition kd_attach_tool :: "('e, 'x) kd_tool_outside_scheme \<Rightarrow> attach_params \<Rightarrow> ('e, 'z, result) ktprog" where
  "kd_attach_tool X0 p = with_config X0 (\<lambda>X.
     bindE (vm_cfg X (ap_vm p)) (\<lambda>cfg.
     let key = (if given [] (ap_key p) then the (ap_key p) else kn_key (vc_kdnet cfg)) in
     if vc_kd_transport cfg = Net \<and> key = [] then
       bindE (configure_guest X cfg None None) (\<lambda>configured.
         if gs_needs_reboot configured
         then throw_with BACKEND_ERROR [(''setup'', guest_setup_json (vc_name cfg) configured)]
         else with_config X0 (\<lambda>X2. bindE (vm_cfg X2 (ap_vm p)) (\<lambda>cfg2. attach_session X2 p cfg2 (kn_key (vc_kdnet cfg2)))))
     else attach_session X p cfg key))"

text \<open>Every other tool works on the session of the machine, made on first use.\<close>

definition on_session ::
  "('e, 'x) kd_tool_outside_scheme \<Rightarrow> string \<Rightarrow> (('e, 'x) kd_tool_outside_scheme \<Rightarrow> vm_config \<Rightarrow> kd_session \<Rightarrow> ('e, 'z, 'a) ktprog) \<Rightarrow>
   ('e, 'z, 'a) ktprog" where
  "on_session X0 vm f = with_config X0 (\<lambda>X.
     bindE (vm_cfg X vm) (\<lambda>cfg. bindE (kd_session_for X cfg None None) (f X cfg)))"

definition synced :: "('e, 'x) svc_outside_scheme \<Rightarrow> string \<Rightarrow> string \<Rightarrow> event \<Rightarrow> ('e, 'z, unit) sprog" where
  "synced X vm kind data = bindE (svc_runtime X vm) (\<lambda>_. eventE X vm kind data)"

text \<open>With the flag of the note about the dropped link.\<close>

definition kd_detach_tool :: "('e, 'x) kd_tool_outside_scheme \<Rightarrow> string \<Rightarrow> ('e, 'z, result \<times> bool) ktprog" where
  "kd_detach_tool X0 vm = on_session X0 vm (\<lambda>X cfg s.
     bindE (kd_on X vm kd_detach) (\<lambda>status.
     thenE (synced X vm ''kd_detach'' [])
       (ret (dict_set ''vm'' (JStr vm) status, ks_transport s = ''net'' \<and> ks_target_info s \<noteq> []))))"

definition kd_break_tool :: "('e, 'x) kd_tool_outside_scheme \<Rightarrow> string \<Rightarrow> int \<Rightarrow> ('e, 'z, result) ktprog" where
  "kd_break_tool X0 vm timeout = on_session X0 vm (\<lambda>X cfg s.
     bindE (kd_on X vm (kd_break_in timeout)) (\<lambda>r.
     thenE (synced X vm ''kd_break'' []) (ret (dict_set ''vm'' (JStr vm) r))))"

definition kd_go_tool :: "('e, 'x) kd_tool_outside_scheme \<Rightarrow> string \<Rightarrow> ('e, 'z, result) ktprog" where
  "kd_go_tool X0 vm = on_session X0 vm (\<lambda>X cfg s.
     bindE (kd_on X vm kd_go) (\<lambda>status.
     thenE (synced X vm ''kd_go'' []) (ret (dict_set ''vm'' (JStr vm) status))))"

end
