(* ===== verification/Tools_Kd_Exec.thy ===== *)
theory Tools_Kd_Exec
  imports Tools_Kd "HOL-Library.List_Lexorder" "HOL-Library.Char_ord"
begin

text \<open>
  The \<open>kd_*\<close> tools of \<open>core/tools/kd.py\<close> that run debugger commands: \<open>kd_exec\<close>, the classification of a bugcheck, the symbol
  check, the capture of a fault and the sampling of a breakpoint, then the waits and the reads of the state.
\<close>

section \<open>Running commands\<close>

record kd_exec_params =
  kx_vm :: string
  kx_cmd :: string
  kx_cmds :: "string list"
  kx_timeout :: int
  kx_max_bytes :: nat
  kx_processor :: "nat option"

definition kd_exec_params_ok :: "kd_exec_params \<Rightarrow> bool" where
  "kd_exec_params_ok p =
     (1000 \<le> kx_timeout p \<and> 256 \<le> kx_max_bytes p \<and> kx_max_bytes p \<le> 1048576 \<and>
      (case kx_processor p of None \<Rightarrow> True | Some n \<Rightarrow> n \<le> 1023))"

definition asked_cmds :: "kd_exec_params \<Rightarrow> string list" where
  "asked_cmds p = (if kx_cmd p = [] then [] else [kx_cmd p]) @ kx_cmds p"

definition switch_cmd :: "nat \<Rightarrow> string" where
  "switch_cmd n = ''~'' @ nat_text n @ ''s''"

definition exec_cmds :: "kd_exec_params \<Rightarrow> string list" where
  "exec_cmds p = (case kx_processor p of None \<Rightarrow> [] | Some n \<Rightarrow> [switch_cmd n]) @ asked_cmds p"

record kd_exec_result =
  kr_outputs :: "exec_entry list"
  kr_state :: kd_state
  kr_broke_in :: bool
  kr_breakpoints :: "bp_row list option"
  kr_risky :: "string list"
  kr_deferred :: "bp_row list"
  kr_batched :: "string list"
  kr_symbol_trouble :: bool

text \<open>A running target is broken into first; the guest's freeze is synced to the runtime.\<close>

definition break_if_running :: "('e, 'x) svc_outside_scheme \<Rightarrow> string \<Rightarrow> kd_session \<Rightarrow> int \<Rightarrow> ('e, 'z, bool) sprog" where
  "break_if_running X vm s timeout =
     (if kd_attached s \<and> ks_state s \<noteq> K_Broken
      then bindE (kd_on X vm (kd_break_in (min timeout 20000))) (\<lambda>_. bindE (svc_runtime X vm) (\<lambda>_. ret True))
      else ret False)"

text \<open>\<open>session.exec(...)[0]["output"]\<close> and the outputs by command.\<close>

definition exec_first :: "('e, 'x) svc_outside_scheme \<Rightarrow> string \<Rightarrow> string \<Rightarrow> int \<Rightarrow> nat \<Rightarrow> ('e, 'z, string) sprog" where
  "exec_first X vm cmd timeout max_bytes =
     bindE (kd_on X vm (kd_exec [cmd] timeout max_bytes)) (\<lambda>outs.
       case outs of [] \<Rightarrow> raise (Exn ''IndexError'') | e # _ \<Rightarrow> ret (xe_output e))"

definition outputs_by_cmd :: "exec_entry list \<Rightarrow> (string, string) dict" where
  "outputs_by_cmd outs = fold (\<lambda>e d. dict_set (xe_cmd e) (xe_output e) d) outs []"

definition output_of :: "exec_entry list \<Rightarrow> string \<Rightarrow> string" where
  "output_of outs cmd = opt_or (dict_get (outputs_by_cmd outs) cmd) []"

definition list_breakpoints :: "('e, 'x) svc_outside_scheme \<Rightarrow> string \<Rightarrow> int \<Rightarrow> ('e, 'z, bp_row list option) sprog" where
  "list_breakpoints X vm timeout =
     catch_nt (exec_first X vm ''bl'' timeout 8192) (\<lambda>_. ret None) (\<lambda>out. ret (Some (parse_breakpoints out)))"

definition session_of :: "string \<Rightarrow> ('e, 'z, kd_session) sprog" where
  "session_of vm w =
     (case dict_get (w_kd w) vm of None \<Rightarrow> (Inl (Exn ''KeyError''), w) | Some s \<Rightarrow> (Inr s, w))"

definition kd_exec_tool :: "('e, 'x) kd_tool_outside_scheme \<Rightarrow> kd_exec_params \<Rightarrow> ('e, 'z, kd_exec_result) ktprog" where
  "kd_exec_tool X0 p =
     (if asked_cmds p = [] \<or> list_ex continue_only (asked_cmds p) then throw INVALID_ARGS
      else on_session X0 (kx_vm p) (\<lambda>X cfg s.
        let cmds = exec_cmds p in
        bindE (break_if_running X (kx_vm p) s (kx_timeout p)) (\<lambda>broke_in.
        bindE (kd_on X (kx_vm p) (kd_exec cmds (kx_timeout p) (kx_max_bytes p))) (\<lambda>outs.
        bindE (session_of (kx_vm p)) (\<lambda>s2.
        bindE (if list_ex sets_breakpoint cmds then list_breakpoints X (kx_vm p) (kx_timeout p) else ret None) (\<lambda>rows.
          ret \<lparr>kr_outputs = outs, kr_state = ks_state s2, kr_broke_in = broke_in, kr_breakpoints = rows,
               kr_risky = auto_resume_bps cmds, kr_deferred = filter br_deferred (opt_or rows []),
               kr_batched = filter batched cmds,
               kr_symbol_trouble = list_ex (\<lambda>e. rx_test SYMBOL_TROUBLE_RE (xe_output e)) outs\<rparr>))))))"

section \<open>Bugchecks and symbols\<close>

record bugcheck_result =
  bk_bugcheck :: "bugcheck option"
  bk_raw :: string
  bk_rip :: string
  bk_instruction :: string
  bk_state :: kd_state

definition kd_bugcheck :: "('e, 'x) kd_tool_outside_scheme \<Rightarrow> string \<Rightarrow> ('e, 'z, bugcheck_result) ktprog" where
  "kd_bugcheck X0 vm = on_session X0 vm (\<lambda>X cfg s.
     bindE (kd_on X vm (kd_exec [''.bugcheck'', ''r rip'', ''u rip L1''] 30000 4096)) (\<lambda>outs.
     bindE (session_of vm) (\<lambda>s2.
       ret \<lparr>bk_bugcheck = parse_bugcheck (output_of outs ''.bugcheck''), bk_raw = py_strip (output_of outs ''.bugcheck''),
            bk_rip = py_strip (output_of outs ''r rip''), bk_instruction = py_strip (output_of outs ''u rip L1''),
            bk_state = ks_state s2\<rparr>)))"

record symcheck_result =
  sy_types_ok :: bool
  sy_names_ok :: bool
  sy_path :: string
  sy_type_output :: string
  sy_name_output :: string
  sy_state :: kd_state

definition ADDRESS_RE :: rx where
  "ADDRESS_RE = rrange 8 8 (ci hex_lower)"

definition kd_symcheck :: "('e, 'x) kd_tool_outside_scheme \<Rightarrow> string \<Rightarrow> string \<Rightarrow> int \<Rightarrow> ('e, 'z, symcheck_result) ktprog" where
  "kd_symcheck X0 vm probe timeout = on_session X0 vm (\<lambda>X cfg s.
     let dt = ''dt '' @ probe in
     bindE (kd_on X vm (kd_exec [''.sympath'', dt, ''x nt!KeBugCheckEx''] timeout 8192)) (\<lambda>outs.
     bindE (session_of vm) (\<lambda>s2.
       let types = py_strip (output_of outs dt); names = py_strip (output_of outs ''x nt!KeBugCheckEx'')
       in ret \<lparr>sy_types_ok = contains ''+0x'' types, sy_names_ok = rx_test ADDRESS_RE names,
               sy_path = py_strip (output_of outs ''.sympath''), sy_type_output = take 2000 types,
               sy_name_output = take 2000 names, sy_state = ks_state s2\<rparr>)))"

section \<open>Capturing a fault\<close>

record capture_params =
  cp_vm :: string
  cp_processor :: "nat option"
  cp_fault_rip :: string
  cp_context :: string
  cp_trap_offset :: int
  cp_match_index :: nat
  cp_search_quads :: nat
  cp_cache_symbols :: bool
  cp_timeout :: int

definition capture_params_ok :: "capture_params \<Rightarrow> bool" where
  "capture_params_ok p =
     ((case cp_processor p of None \<Rightarrow> True | Some n \<Rightarrow> n \<le> 1023) \<and> 0 \<le> cp_trap_offset p \<and> cp_trap_offset p \<le> 4096 \<and>
      16 \<le> cp_search_quads p \<and> cp_search_quads p \<le> 16384 \<and> 1000 \<le> cp_timeout p)"

text \<open>How the capture ended: the early answers of the tool, or the mode with what it read.\<close>

datatype capture_mode =
    Not_A_Bugcheck
  | No_Fault_Rip
  | No_Trap_Frame
  | Match_Out_Of_Range
  | Trap_Mode string
  | Context_Mode "(string, string) dict" string

record capture_result =
  ct_bugcheck :: "bugcheck option"
  ct_processor :: json
  ct_symbol_path :: string
  ct_mode :: capture_mode
  ct_fault_rip :: string
  ct_candidates :: "string list"
  ct_stack :: string
  ct_instruction :: string
  ct_modules :: string
  ct_state :: kd_state

definition event_processor :: "kd_session \<Rightarrow> json" where
  "event_processor s =
     (case ks_last_event s of
        None \<Rightarrow> JNull
      | Some e \<Rightarrow> if dict_get e ''event'' = Some (JStr ''bugcheck'') then opt_or (dict_get e ''processor'') JNull else JNull)"

definition capture_processor :: "capture_params \<Rightarrow> kd_session \<Rightarrow> json" where
  "capture_processor p s = (case cp_processor p of Some n \<Rightarrow> JInt (int n) | None \<Rightarrow> event_processor s)"

definition capture_prep :: "capture_params \<Rightarrow> kd_session \<Rightarrow> string list" where
  "capture_prep p s =
     (if cp_cache_symbols p then [''.sympath cache*'' @ local_symbol_cache (ks_symbol_path s)] else []) @
     (let proc = capture_processor p s in if proc = JNull then [] else [''~'' @ py_str proc @ ''s''])"

text \<open>The registers of a CONTEXT record and the words at its stack pointer.\<close>

definition capture_context ::
  "('e, 'x) svc_outside_scheme \<Rightarrow> capture_params \<Rightarrow> ('e, 'z, capture_mode \<times> string \<times> string list \<times> string option) sprog" where
  "capture_context X p =
     bindE (exec_first X (cp_vm p) (''dq '' @ cp_context p @ ''+0x78 L11'') (cp_timeout p) 4096) (\<lambda>dump.
     let regs = decode_context_gprs dump; rip = opt_or (dict_get regs ''rip'') []; rsp = opt_or (dict_get regs ''rsp'') [] in
     bindE (if rsp = [] then ret []
            else bindE (exec_first X (cp_vm p) (''dq '' @ rsp @ '' L10'') (cp_timeout p) 4096) (\<lambda>words. ret (py_strip words)))
       (\<lambda>words.
       ret (Context_Mode regs words, rip, [], Some (if rip = [] then ''u @rip L1'' else ''u '' @ rip @ '' L1''))))"

text \<open>The trap frame on the stack by the faulting address: \<open>None\<close> where the tool answers at once.\<close>

definition capture_trap ::
  "('e, 'x) svc_outside_scheme \<Rightarrow> capture_params \<Rightarrow> string list \<Rightarrow>
   ('e, 'z, capture_mode \<times> string \<times> string list \<times> string option) sprog" where
  "capture_trap X p args =
     (let rip = (if cp_fault_rip p \<noteq> [] then cp_fault_rip p else if 3 \<le> length args then args ! 2 else [])
      in if rip = [] then ret (No_Fault_Rip, [], [], None)
         else
           bindE (exec_first X (cp_vm p) (''s -q @rsp L'' @ hex_digits (cp_search_quads p) @ '' '' @ rip) (cp_timeout p) 8192)
             (\<lambda>found.
           let bases = map (\<lambda>h. int h - cp_trap_offset p) (stack_search_hits found); shown = map hex_text bases in
           if bases = [] then ret (No_Trap_Frame, rip, shown, None)
           else if length bases \<le> cp_match_index p then ret (Match_Out_Of_Range, rip, shown, None)
           else
             let base = hex_text (bases ! cp_match_index p) in
             bindE (exec_first X (cp_vm p) (''.trap '' @ base) (cp_timeout p) 2048) (\<lambda>_.
               ret (Trap_Mode base, rip, shown, Some (''u '' @ rip @ '' L1'')))))"

definition capture_rest ::
  "('e, 'x) svc_outside_scheme \<Rightarrow> capture_params \<Rightarrow> kd_session \<Rightarrow> bugcheck option \<Rightarrow>
   capture_mode \<times> string \<times> string list \<times> string option \<Rightarrow> ('e, 'z, capture_result) sprog" where
  "capture_rest X p s parsed c =
     (case c of (mode, rip, shown, rip_cmd) \<Rightarrow>
        let answer = \<lparr>ct_bugcheck = parsed, ct_processor = capture_processor p s,
                      ct_symbol_path = (if cp_cache_symbols p then ''cache*'' @ local_symbol_cache (ks_symbol_path s) else []),
                      ct_mode = mode, ct_fault_rip = rip, ct_candidates = shown, ct_stack = [], ct_instruction = [],
                      ct_modules = [], ct_state = K_Detached\<rparr>
        in case rip_cmd of
             None \<Rightarrow> bindE (session_of (cp_vm p)) (\<lambda>s2. ret (answer\<lparr>ct_state := ks_state s2\<rparr>))
           | Some cmd \<Rightarrow>
               bindE (kd_on X (cp_vm p) (kd_exec [''kb'', cmd, ''lm k''] (cp_timeout p) 16384)) (\<lambda>outs.
               bindE (session_of (cp_vm p)) (\<lambda>s2.
               thenE (eventE X (cp_vm p) ''kd_capture_fault''
                        [(''bugcheck'', case parsed of None \<Rightarrow> JNull | Some b \<Rightarrow> JStr (bc_code b))])
                 (ret (answer\<lparr>ct_stack := py_strip (output_of outs ''kb''), ct_instruction := py_strip (output_of outs cmd),
                              ct_modules := py_strip (output_of outs ''lm k''), ct_state := ks_state s2\<rparr>)))))"

definition kd_capture_fault ::
  "('e, 'x) kd_tool_outside_scheme \<Rightarrow> capture_params \<Rightarrow> ('e, 'z, capture_result) ktprog" where
  "kd_capture_fault X0 p = on_session X0 (cp_vm p) (\<lambda>X cfg s.
     if \<not> kd_attached s then throw KD_NOT_ATTACHED
     else if ks_state s \<noteq> K_Broken then throw KD_NOT_BROKEN
     else
       thenE (if capture_prep p s = [] then ret ()
              else bindE (kd_on X (cp_vm p) (kd_exec (capture_prep p s) (cp_timeout p) 4096)) (\<lambda>_. ret ()))
       (bindE (exec_first X (cp_vm p) ''.bugcheck'' (cp_timeout p) 4096) (\<lambda>txt.
        let parsed = parse_bugcheck txt in
        bindE (case parsed of
                 None \<Rightarrow> ret (Not_A_Bugcheck, [], [], None)
               | Some b \<Rightarrow> if cp_context p \<noteq> [] then capture_context X p else capture_trap X p (bc_arguments b))
          (capture_rest X p s parsed))))"

section \<open>Sampling a breakpoint\<close>

record sample_params =
  sp_vm :: string
  sp_symbol :: string
  sp_exprs :: "string list"
  sp_n :: nat
  sp_condition :: string
  sp_max :: int
  sp_timeout :: int

definition sample_params_ok :: "sample_params \<Rightarrow> bool" where
  "sample_params_ok p = (1 \<le> sp_n p \<and> sp_n p \<le> 200 \<and> 1000 \<le> sp_max p \<and> 1000 \<le> sp_timeout p)"

datatype sample_row = Hit nat "(string, string) dict" | Crashed nat json

record sample_state =
  sa_rows :: "sample_row list"
  sa_stopped :: string
  sa_skipped :: nat

definition SAMPLE_BYTES :: nat where "SAMPLE_BYTES = 65536"

definition kd_first :: "string \<Rightarrow> int \<Rightarrow> string kd" where
  "kd_first cmd timeout =
     bindE (kd_exec [cmd] timeout SAMPLE_BYTES) (\<lambda>outs.
       case outs of [] \<Rightarrow> raise (Exn ''IndexError'') | e # _ \<Rightarrow> ret (xe_output e))"

text \<open>The breakpoints this call set, sorted.\<close>

definition sample_start :: "sample_params \<Rightarrow> string list kd" where
  "sample_start p =
     bindE (kd_first ''bl'' (sp_timeout p)) (\<lambda>before.
     bindE (kd_first (''bp '' @ sp_symbol p) (sp_timeout p)) (\<lambda>_.
     bindE (kd_first ''bl'' (sp_timeout p)) (\<lambda>after.
       ret (sort (filter (\<lambda>i. i \<notin> set (breakpoint_ids before)) (breakpoint_ids after))))))"

definition hit_values :: "exec_entry list \<Rightarrow> (string, string) dict" where
  "hit_values outs = outputs_by_cmd outs"

text \<open>One round: resume and wait. What it yields says whether and how the loop goes on.\<close>

datatype round = Stop sample_state | Again sample_state

definition sample_hit :: "sample_params \<Rightarrow> sample_state \<Rightarrow> round kd" where
  "sample_hit p st =
     bindE (if sp_condition p = [] then ret False
            else bindE (kd_first (''? '' @ sp_condition p) (sp_timeout p)) (\<lambda>out. ret (is_zero out))) (\<lambda>skip.
       if skip then ret (Again (st\<lparr>sa_skipped := Suc (sa_skipped st)\<rparr>))
       else
         bindE (if sp_exprs p = [] then ret []
                else bindE (kd_exec (sp_exprs p) (sp_timeout p) SAMPLE_BYTES) (\<lambda>outs. ret (hit_values outs))) (\<lambda>vals.
           ret (Again (st\<lparr>sa_rows := sa_rows st @ [Hit (Suc (length (sa_rows st))) vals]\<rparr>))))"

definition sample_round :: "sample_params \<Rightarrow> int \<Rightarrow> sample_state \<Rightarrow> round kd" where
  "sample_round p deadline st =
     bindE kd_go (\<lambda>_ w.
       bindE (kd_wait_event (min (sp_timeout p) (max (deadline - kw_now w) 1000))) (\<lambda>ev.
         if dict_get ev ''event'' = Some (JStr ''timeout'') then ret (Stop (st\<lparr>sa_stopped := ''timeout''\<rparr>))
         else if dict_get ev ''event'' = Some (JStr ''bugcheck'')
         then ret (Stop (st\<lparr>sa_stopped := ''bugcheck'',
                            sa_rows := sa_rows st @ [Crashed (Suc (length (sa_rows st))) (opt_or (dict_get ev ''bugcheck'') JNull)]\<rparr>))
         else sample_hit p st) w)"

definition sample_cleanup :: "sample_params \<Rightarrow> string list \<Rightarrow> unit kd" where
  "sample_cleanup p mine =
     (if mine = [] then ret ()
      else suppress_nt (bindE (kd_exec [''bc '' @ join_with '' '' mine] (sp_timeout p) SAMPLE_BYTES) (\<lambda>_. ret ())))"

section \<open>What kd.exe has still to print only gets shorter\<close>

definition at_most :: "nat \<Rightarrow> kd_world \<Rightarrow> bool" where
  "at_most n w = (length (kw_inbox w) \<le> n)"

lemma at_mostD: "preserves (at_most (length (kw_inbox w))) m \<Longrightarrow> length (kw_inbox (snd (m w))) \<le> length (kw_inbox w)"
  using preservesD [of "at_most (length (kw_inbox w))" m w] by (simp add: at_most_def)

text \<open>A program that reads its state first.\<close>

lemma preserves_self: "(\<And>v. preserves I (f v)) \<Longrightarrow> preserves I (\<lambda>w. f w w)"
  by (simp add: preserves_def hoare_def)

lemma preserves_value: "preserves I (\<lambda>w. (r w, w))"
  by (simp add: preserves_def hoare_def)

lemma kd_wait_inbox: "length (snd (snd (snd (kd_wait f dl awake s t0 inbox)))) \<le> length inbox"
  by (induction f dl awake s t0 inbox rule: kd_wait.induct) auto

lemma at_most_wait_cond: "preserves (at_most n) (wait_cond f t)"
proof (rule preservesI)
  fix w assume "at_most n w"
  then show "at_most n (snd (wait_cond f t w))"
    using kd_wait_inbox [of f "kw_now w + t" True "kw_s w" "kw_now w" "kw_inbox w"]
    by (cases "kd_wait f (kw_now w + t) True (kw_s w) (kw_now w) (kw_inbox w)") (simp add: wait_cond_def at_most_def)
qed

lemma wait_state_snd: "snd (wait_state st t w) = snd (wait_cond (in_states st) t w)"
  by (simp add: wait_state_def split: prod.splits)

lemma at_most_wait_state: "preserves (at_most n) (wait_state st t)"
  using preservesD [OF at_most_wait_cond] by (auto simp: wait_state_snd intro!: preservesI)

lemma at_most_after_wait: "preserves (at_most n) (\<lambda>w. (r w, snd (wait_state st t w)))"
  using preservesD [OF at_most_wait_state] by (auto intro!: preservesI)

lemma at_most_require: "preserves (at_most n) require_attached" "preserves (at_most n) require_broken"
  by (auto simp: require_attached_def require_broken_def throw_def raise_def bindE_def intro!: preservesI split: option.splits)

lemma at_most_write: "preserves (at_most n) (kd_write t)"
  unfolding kd_write_def
  by (rule preserves_bindE [OF at_most_require(1)]) (auto intro!: preservesI simp: at_most_def on_s_def kd_do_def)

lemma at_most_break: "preserves (at_most n) kd_break"
  by (auto simp: kd_break_def at_most_def kd_do_def throw_def raise_def intro!: preservesI split: list.splits)

lemma at_most_wait_for_bytes: "preserves (at_most n) (wait_for_bytes needle start t)"
proof (rule preservesI)
  fix w assume w: "at_most n w"
  let ?f = "\<lambda>s. case find_bytes needle start s of Some idx \<Rightarrow> Some (Inr idx)
      | None \<Rightarrow> if \<not> kd_attached s then Some (Inl KD_NOT_ATTACHED) else None"
  have "snd (wait_for_bytes needle start t w) = snd (wait_cond ?f t w)"
    unfolding wait_for_bytes_def by (auto simp: throw_def raise_def split: prod.splits option.split sum.split)
  then show "at_most n (snd (wait_for_bytes needle start t w))" using preservesD [OF at_most_wait_cond w] by simp
qed

lemma at_most_run_once: "preserves (at_most n) (run_once cmd t mb)"
  unfolding run_once_def
proof (rule preserves_bindE)
  show "preserves (at_most n) next_token" by (auto simp: at_most_def next_token_def intro!: preservesI split: list.splits)
next
  fix token
  have "preserves (at_most n) (bindE (kd_write c) (\<lambda>_. bindE (wait_for_bytes a b t) (\<lambda>idx w. (Inr (g idx w) :: exn + exec_entry, w))))"
    for c a b g
    by (intro preserves_bindE at_most_write at_most_wait_for_bytes preserves_value)
  note D = preservesD [OF this]
  show "preserves (at_most n) (\<lambda>w. let sentinel = sentinel_of token; start = ks_base (kw_s w) + int (length (ks_buf (kw_s w))); started = kw_now w
       in bindE (kd_write (framed cmd sentinel)) (\<lambda>_. bindE (wait_for_bytes sentinel start t) (\<lambda>idx w.
            let s = kw_s w; raw = py_slice (start - ks_base s) (idx - ks_base s) (ks_buf s); text = command_text raw;
                truncated = mb < length text; out = (if truncated then take mb text else text)
            in (Inr \<lparr>xe_cmd = cmd, xe_output = out, xe_printed_nothing = (out = []), xe_truncated = truncated,
                     xe_elapsed = kw_now w - started, xe_retried = False\<rparr>, w))) w)"
    unfolding Let_def by (rule preservesI) (rule D)
qed

lemma at_most_interrupt: "preserves (at_most n) (interrupt_wedged t e b)"
proof (rule preservesI)
  fix w assume w: "at_most n w"
  then have "at_most n (snd (suppress_all kd_break w))"
    using preservesD [OF at_most_break] by (simp add: suppress_all_snd)
  from preservesD [OF at_most_wait_state this] show "at_most n (snd (interrupt_wedged t e b w))"
    using w by (auto simp: interrupt_wedged_def Let_def split: prod.splits) (metis snd_conv)+
qed

lemma at_most_exec_one: "preserves (at_most n) (exec_one t mb bug cmd)"
proof -
  have retry: "preserves (at_most n) (catch_nt (run_once cmd t mb) (\<lambda>_. raise y) (\<lambda>entry. ret (entry\<lparr>xe_retried := True\<rparr>)))" for y
    by (intro preserves_catch_nt at_most_run_once preserves_raise preserves_ret)
  have h: "preserves (at_most n) (\<lambda>w. case interrupt_wedged t exc bug w of (recovery, w1) \<Rightarrow>
      if \<not> (interrupted recovery \<and> retry_safe cmd) then (Inl (Nt recovery), w1)
      else catch_nt (run_once cmd t mb) (\<lambda>_. raise (Nt recovery)) (\<lambda>entry. ret (entry\<lparr>xe_retried := True\<rparr>)) w1)" for exc
  proof (rule preservesI)
    fix w assume w: "at_most n w"
    obtain recovery w1 where i: "interrupt_wedged t exc bug w = (recovery, w1)" by fastforce
    have "at_most n w1" using preservesD [OF at_most_interrupt w, of t exc bug] i by simp
    then show "at_most n (snd (case interrupt_wedged t exc bug w of (recovery, w1) \<Rightarrow>
      if \<not> (interrupted recovery \<and> retry_safe cmd) then (Inl (Nt recovery), w1)
      else catch_nt (run_once cmd t mb) (\<lambda>_. raise (Nt recovery)) (\<lambda>entry. ret (entry\<lparr>xe_retried := True\<rparr>)) w1))"
      using preservesD [OF retry] by (auto simp: i)
  qed
  show ?thesis
    unfolding exec_one_def
    by (rule preserves_catch_nt [OF at_most_run_once], rule preserves_if)
      (simp_all only: h preserves_raise preserves_ret)
qed

lemma at_most_exec: "preserves (at_most n) (kd_exec cmds t mb)"
proof -
  have step: "preserves (at_most n) (exec_step t mb bug cmd)" for bug cmd
    unfolding exec_step_def by (intro preserves_bindE at_most_exec_one at_most_after_wait)
  show ?thesis
    unfolding kd_exec_def
    by (rule preserves_bindE [OF at_most_require(2)], rule preserves_self) (intro preserves_mapE step)
qed

lemma at_most_go: "preserves (at_most n) kd_go"
  unfolding kd_go_def Let_def
  by (intro preserves_bindE at_most_require at_most_write) (auto intro!: preservesI simp: at_most_def on_s_def)

lemma at_most_sample_hit: "preserves (at_most n) (sample_hit p st)"
proof -
  have first: "preserves (at_most n) (kd_first c t)" for c t
    unfolding kd_first_def by (intro preserves_bindE at_most_exec) (auto split: list.splits)
  show ?thesis
    unfolding sample_hit_def by (intro preserves_bindE preserves_if preserves_ret first at_most_exec)
qed

text \<open>A wait that a running session ends before its time was woken by something kd.exe printed.\<close>

lemma kd_wait_consumes:
  assumes "f s = None" "fst (kd_wait f dl awake s t0 inbox) \<noteq> None"
  shows "length (snd (snd (snd (kd_wait f dl awake s t0 inbox)))) < length inbox"
proof (cases inbox)
  case (Cons p rest)
  obtain t ev where p: "p = (t, ev)" by (cases p)
  have "length (snd (snd (snd (kd_wait f dl (wakes ev) (kd_apply (max t0 t) ev s) (max t0 t) rest)))) \<le> length rest"
    by (rule kd_wait_inbox)
  then show ?thesis using assms by (auto simp: Cons p split: if_splits)
qed (use assms in auto)

lemma go_then_wait:
  assumes g: "kd_go w = (Inr st, w1)" and e: "kd_wait_event t w1 = (Inr ev, w2)"
    and "dict_get ev ''event'' \<noteq> Some (JStr ''timeout'')"
  shows "length (kw_inbox w2) < length (kw_inbox w)"
proof -
  have state: "ks_state (kw_s w1) = K_Running"
    using g by (auto simp: kd_go_def bindE_def on_s_def Let_def split: prod.splits sum.splits)
  have inbox: "length (kw_inbox w1) \<le> length (kw_inbox w)" using at_mostD [OF at_most_go, of w] g by simp
  obtain reached w3 where s: "wait_state {K_Broken} t w1 = (reached, w3)" by fastforce
  have att: "\<exists>pr. require_attached w1 = (Inr pr, w1)"
    using e by (auto simp: kd_wait_event_def bindE_def require_attached_def throw_def raise_def split: option.splits if_splits)
  have "reached \<and> w2 = w3"
    using e assms(3) state s att by (auto simp: kd_wait_event_def bindE_def split: if_splits)
  then have "fst (wait_cond (in_states {K_Broken}) t w1) \<noteq> None" "w2 = snd (wait_cond (in_states {K_Broken}) t w1)"
    using s by (auto simp: wait_state_def split: prod.splits)
  then have "length (kw_inbox w2) < length (kw_inbox w1)"
    using kd_wait_consumes [of "in_states {K_Broken}" "kw_s w1" "kw_now w1 + t" True "kw_now w1" "kw_inbox w1"] state
    by (auto simp: wait_cond_def in_states_def split: prod.splits)
  then show ?thesis using inbox by simp
qed

lemma sample_round_consumes:
  assumes "sample_round p dl st w = (Inr (Again st2), w2)"
  shows "length (kw_inbox w2) < length (kw_inbox w)"
proof -
  obtain s w1 where g: "kd_go w = (Inr s, w1)"
    using assms by (auto simp: sample_round_def bindE_def split: prod.splits sum.splits)
  let ?t = "min (sp_timeout p) (max (dl - kw_now w1) 1000)"
  obtain ev w3 where e: "kd_wait_event ?t w1 = (Inr ev, w3)"
    using assms g by (auto simp: sample_round_def bindE_def split: prod.splits sum.splits)
  have ne: "dict_get ev ''event'' \<noteq> Some (JStr ''timeout'')" and h: "sample_hit p st w3 = (Inr (Again st2), w2)"
    using assms g e by (auto simp: sample_round_def bindE_def ret_def split: if_splits)
  have "length (kw_inbox w2) \<le> length (kw_inbox w3)" using at_mostD [where w = w3, OF at_most_sample_hit [of _ p st]] h by simp
  then show ?thesis using go_then_wait [OF g e ne] by simp
qed

section \<open>The loop\<close>

function sample_loop :: "sample_params \<Rightarrow> int \<Rightarrow> sample_state \<Rightarrow> sample_state kd" where
  "sample_loop p deadline st w =
     (if sp_n p \<le> length (sa_rows st) then (Inr st, w)
      else if deadline - kw_now w \<le> 0 then (Inr (st\<lparr>sa_stopped := ''max_seconds''\<rparr>), w)
      else case sample_round p deadline st w of
             (Inl x, w1) \<Rightarrow> (Inl x, w1)
           | (Inr (Stop st1), w1) \<Rightarrow> (Inr st1, w1)
           | (Inr (Again st1), w1) \<Rightarrow> sample_loop p deadline st1 w1)"
  by pat_completeness auto
termination
  by (relation "measure (\<lambda>(p, deadline, st, w). length (kw_inbox w))") (auto dest: sample_round_consumes [OF sym])

declare sample_loop.simps [simp del]

text \<open>The breakpoint is cleared whatever ends the loop.\<close>

definition sample_run :: "sample_params \<Rightarrow> sample_state kd" where
  "sample_run p w0 =
     (let deadline = kw_now w0 + sp_max p; st = \<lparr>sa_rows = [], sa_stopped = ''n'', sa_skipped = 0\<rparr>
      in bindE (sample_start p) (\<lambda>mine.
           tryE (sample_loop p deadline st)
             (\<lambda>x. thenE (sample_cleanup p mine) (raise x))
             (\<lambda>r. thenE (sample_cleanup p mine) (ret r))) w0)"

record sample_result =
  so_hits :: nat
  so_rows :: "sample_row list"
  so_skipped :: nat
  so_stopped :: string
  so_elapsed :: int
  so_state :: kd_state

definition kd_sample :: "('e, 'x) kd_tool_outside_scheme \<Rightarrow> sample_params \<Rightarrow> ('e, 'z, sample_result) ktprog" where
  "kd_sample X0 p = on_session X0 (sp_vm p) (\<lambda>X cfg s.
     bindE (getS (now X)) (\<lambda>started.
     bindE (kd_on X (sp_vm p) (sample_run p)) (\<lambda>r.
     thenE (synced X (sp_vm p) ''kd_sample''
              [(''symbol'', JStr (sp_symbol p)), (''hits'', JInt (int (length (sa_rows r))))])
     (bindE (session_of (sp_vm p)) (\<lambda>s2.
      bindE (getS (now X)) (\<lambda>ended.
        ret \<lparr>so_hits = length (sa_rows r), so_rows = sa_rows r, so_skipped = sa_skipped r, so_stopped = sa_stopped r,
             so_elapsed = ended - started, so_state = ks_state s2\<rparr>))))))"

section \<open>Waiting for a break, the state, the transcript\<close>

definition kd_wait_event_tool :: "('e, 'x) kd_tool_outside_scheme \<Rightarrow> string \<Rightarrow> int \<Rightarrow> ('e, 'z, result) ktprog" where
  "kd_wait_event_tool X0 vm timeout = on_session X0 vm (\<lambda>X cfg s.
     bindE (kd_on X vm (kd_wait_event timeout)) (\<lambda>ev.
     bindE (svc_runtime X vm) (\<lambda>_.
     let kind = opt_or (dict_get ev ''event'') JNull in
     thenE (if kind = JStr ''timeout'' \<or> kind = JNull then ret () else eventE X vm ''kd_event'' [(''event'', kind)])
       (ret (dict_set ''vm'' (JStr vm) ev)))))"

definition blank_status :: "vm_runtime \<Rightarrow> result" where
  "blank_status r =
     [(''attached'', JBool False), (''state'', JStr ''detached''), (''transport'', JStr (rt_kd_transport r)),
      (''port'', jopt_int (rt_kd_port r)), (''serial_pipe'', jopt (rt_kd_serial_pipe r)), (''target_info'', JStr []),
      (''last_event'', JNull), (''log_path'', JStr []), (''pid'', JNull)]"

text \<open>What a dead session saw does not read as the present.\<close>

definition dead_status :: "result \<Rightarrow> result" where
  "dead_status st =
     dict_update st [(''target_info'', JStr []), (''last_event'', JNull), (''pid'', JNull), (''kernel_base'', JStr [])] @
     [(''previous_session'',
       JDict [(''target_info'', opt_or (dict_get st ''target_info'') JNull), (''last_event'', opt_or (dict_get st ''last_event'') JNull),
              (''kernel_base'', opt_or (dict_get st ''kernel_base'') (JStr []))])]"

definition kd_state_tool :: "('e, 'x) kd_tool_outside_scheme \<Rightarrow> string \<Rightarrow> ('e, 'z, result) ktprog" where
  "kd_state_tool X0 vm = with_config X0 (\<lambda>X.
     bindE (vm_cfg X vm) (\<lambda>_.
     bindE (getS (\<lambda>w. dict_get (w_kd w) vm)) (\<lambda>s.
       case s of
         None \<Rightarrow> bindE (svc_runtime X vm) (\<lambda>r. ret (dict_set ''vm'' (JStr vm) (blank_status r)))
       | Some k \<Rightarrow>
           let st = kd_status k
           in ret (dict_set ''vm'' (JStr vm) (if kd_attached k then st else dead_status st)))))"

definition kd_log_tail ::
  "('e, 'x) kd_tool_outside_scheme \<Rightarrow> string \<Rightarrow> nat \<Rightarrow> bool \<Rightarrow> ('e, 'z, result) ktprog" where
  "kd_log_tail X0 vm nbytes file_readable = on_session X0 vm (\<lambda>X cfg s.
     ret [(''vm'', JStr vm), (''text'', JStr (log_tail nbytes file_readable s)), (''log_path'', JStr (ks_log_path s))])"

end
