(* ===== verification/Kd_Key.thy ===== *)
theory Kd_Key
  imports Kd_Tool_Text
begin

text \<open>
  What the KDNET key check of \<open>core/tools/kd.py\<close> accepts, that every generated key passes it, and what the redaction of
  a key leaves of a text.
\<close>

section \<open>Which texts a bounded repetition matches\<close>

lemma after_text_cons: "after_text prev (c # xs) = after_text (Some c) xs"
  by (simp add: after_text_def)

lemma rx_m_rupto:
  "rx_m (rupto n p) k prev s cs \<noteq> None \<longleftrightarrow>
   (\<exists>xs t. s = xs @ t \<and> length xs \<le> n \<and> list_all p xs \<and> k (after_text prev xs) t cs \<noteq> None)"
proof (induction n arbitrary: prev s)
  case 0
  show ?case by (simp add: after_text_def)
next
  case (Suc n)
  have "rx_m (rupto (Suc n) p) k prev s cs \<noteq> None \<longleftrightarrow>
        k prev s cs \<noteq> None \<or> (\<exists>c s'. s = c # s' \<and> p c \<and> rx_m (rupto n p) k (Some c) s' cs \<noteq> None)"
    by (cases s) (auto split: option.splits)
  also have "\<dots> \<longleftrightarrow> k prev s cs \<noteq> None \<or>
        (\<exists>c xs t. s = (c # xs) @ t \<and> length (c # xs) \<le> Suc n \<and> list_all p (c # xs) \<and> k (after_text (Some c) xs) t cs \<noteq> None)"
    unfolding Suc.IH by auto
  also have "\<dots> \<longleftrightarrow> (\<exists>xs t. s = xs @ t \<and> length xs \<le> Suc n \<and> list_all p xs \<and> k (after_text prev xs) t cs \<noteq> None)"
    (is "?l \<longleftrightarrow> ?r")
  proof
    assume ?l
    then show ?r
    proof
      assume "k prev s cs \<noteq> None"
      then show ?r by (intro exI [of _ "[]"] exI [of _ s]) (simp add: after_text_def)
    qed (metis after_text_cons)
  next
    assume ?r
    then obtain xs t where r: "s = xs @ t" "length xs \<le> Suc n" "list_all p xs" "k (after_text prev xs) t cs \<noteq> None" by blast
    show ?l
    proof (cases xs)
      case Nil
      then show ?thesis using r by (simp add: after_text_def)
    next
      case (Cons c ys)
      then show ?thesis using r by (intro disjI2 exI [of _ c] exI [of _ ys] exI [of _ t]) (auto simp: after_text_cons)
    qed
  qed
  finally show ?case .
qed

definition word36 :: "string \<Rightarrow> bool" where
  "word36 w = (w \<noteq> [] \<and> length w \<le> 13 \<and> list_all is_base36 w)"

lemma rx_m_word: "rx_m key_word k prev s cs \<noteq> None \<longleftrightarrow> (\<exists>w t. s = w @ t \<and> word36 w \<and> k (after_text prev w) t cs \<noteq> None)"
proof -
  have "rx_m key_word k prev s cs \<noteq> None \<longleftrightarrow>
        (\<exists>c s'. s = c # s' \<and> is_base36 c \<and> rx_m (rupto 12 is_base36) k (Some c) s' cs \<noteq> None)"
    by (cases s) (simp_all add: key_word_def rrange_def rseq_def)
  also have "\<dots> \<longleftrightarrow> (\<exists>c xs t. s = (c # xs) @ t \<and> word36 (c # xs) \<and> k (after_text prev (c # xs)) t cs \<noteq> None)"
    unfolding rx_m_rupto after_text_cons word36_def by (simp del: not_None_eq) blast
  also have "\<dots> \<longleftrightarrow> (\<exists>w t. s = w @ t \<and> word36 w \<and> k (after_text prev w) t cs \<noteq> None)"
    by (metis neq_Nil_conv word36_def)
  finally show ?thesis .
qed

lemma rx_m_dot_word:
  "rx_m (RSeq (rlit ''.'') key_word) k prev s cs \<noteq> None \<longleftrightarrow>
   (\<exists>w t. s = ''.'' @ w @ t \<and> word36 w \<and> k (after_text (Some CHR ''.'') w) t cs \<noteq> None)"
  by (cases s) (simp_all add: rx_m_rlit starts_with_def rx_m_word after_text_def del: not_None_eq)

section \<open>The keys that pass\<close>

definition key_words :: "string list \<Rightarrow> bool" where
  "key_words ws = (length ws = 4 \<and> list_all word36 ws)"

lemma key_words_4: "key_words ws \<longleftrightarrow> (\<exists>a b c d. ws = [a, b, c, d] \<and> word36 a \<and> word36 b \<and> word36 c \<and> word36 d)"
  by (auto simp: key_words_def length_Suc_conv eval_nat_numeral)

text \<open>The check accepts the four-word keys, and those with a newline behind.\<close>

lemma key_matches_iff: "key_matches s \<longleftrightarrow> (\<exists>ws. key_words ws \<and> (s = join_with ''.'' ws \<or> s = join_with ''.'' ws @ [NL]))"
proof -
  have "key_matches s \<longleftrightarrow> rx_m KDNET_KEY (\<lambda>prev' s' cs. Some (s', cs)) None s [] \<noteq> None"
    by (auto simp: key_matches_def rx_match_at_start_def rx_at_def Let_def split: option.splits)
  also have "\<dots> \<longleftrightarrow> (\<exists>a s1. s = a @ s1 \<and> word36 a \<and> (\<exists>b s2. s1 = ''.'' @ b @ s2 \<and> word36 b \<and>
      (\<exists>c s3. s2 = ''.'' @ c @ s3 \<and> word36 c \<and> (\<exists>d t. s3 = ''.'' @ d @ t \<and> word36 d \<and> (t = [] \<or> t = [NL])))))"
    unfolding KDNET_KEY_def rx_m.simps(3) [of RBegin] rx_m.simps(8) simp_thms if_True
      rx_m.simps(3) [of key_word] rx_m_word rx_m.simps(3) [of "RSeq (rlit ''.'') key_word"] rx_m_dot_word rx_m.simps(10)
    by (simp only: if_split_eq1 option.simps(3) simp_thms)
  also have "\<dots> \<longleftrightarrow> (\<exists>ws. key_words ws \<and> (s = join_with ''.'' ws \<or> s = join_with ''.'' ws @ [NL]))" (is "?l \<longleftrightarrow> ?r")
  proof
    assume ?l
    then obtain a b c d t where l: "s = a @ ''.'' @ b @ ''.'' @ c @ ''.'' @ d @ t" "t = [] \<or> t = [NL]"
      "word36 a" "word36 b" "word36 c" "word36 d" by blast
    then show ?r by (intro exI [of _ "[a, b, c, d]"]) (auto simp: key_words_def)
  next
    assume ?r
    then obtain ws where ws: "key_words ws" "s = join_with ''.'' ws \<or> s = join_with ''.'' ws @ [NL]" by blast
    obtain a b c d where k: "ws = [a, b, c, d]" "word36 a" "word36 b" "word36 c" "word36 d" using ws(1) key_words_4 by blast
    have "\<exists>t. s = join_with ''.'' ws @ t \<and> (t = [] \<or> t = [NL])" using ws(2) by auto
    then obtain t where r: "s = a @ ''.'' @ b @ ''.'' @ c @ ''.'' @ d @ t" "t = [] \<or> t = [NL]" by (auto simp: k(1))
    show ?l unfolding r(1)
      by (rule exI [of _ a], rule exI, intro conjI, rule refl, rule k, rule exI [of _ b], rule exI, intro conjI, rule refl, rule k,
          rule exI [of _ c], rule exI, intro conjI, rule refl, rule k, rule exI [of _ d], rule exI, intro conjI, rule refl, rule k, rule r)
  qed
  finally show ?thesis .
qed

lemma word36_chars: "word36 w \<Longrightarrow> c \<in> set w \<Longrightarrow> is_base36 c"
  by (auto simp: word36_def list_all_iff)

lemma not_base36: "\<not> is_base36 CHR ''*''" "\<not> is_base36 CHR ''.''"
  by (simp_all add: is_base36_def is_digit_def is_lower_def char_between_def ord_def)

lemma key_chars:
  assumes "key_matches s"
  shows "CHR ''*'' \<notin> set s" "CHR ''.'' \<in> set s" "s \<noteq> []"
proof -
  obtain ws where ws: "key_words ws" "s = join_with ''.'' ws \<or> s = join_with ''.'' ws @ [NL]"
    using assms key_matches_iff by blast
  obtain a b c d where k: "ws = [a, b, c, d]" "word36 a" "word36 b" "word36 c" "word36 d" using ws(1) key_words_4 by blast
  have "CHR ''*'' \<notin> set w" if "word36 w" for w using word36_chars [OF that] not_base36 by blast
  then show "CHR ''*'' \<notin> set s" using ws(2) k by auto
  show "CHR ''.'' \<in> set s" "s \<noteq> []" using ws(2) k by auto
qed

section \<open>Generated keys\<close>

lemma base36_digits_chars: "list_all is_base36 ds \<Longrightarrow> list_all is_base36 (base36_digits v ds)"
proof (induction v ds rule: base36_digits.induct)
  case (1 v ds)
  have "is_base36 (BASE36 ! (v mod 36))" using base36_char_value [of "v mod 36"] by (simp add: is_base36_def)
  then show ?case using 1 by (simp add: base36_digits.simps [of v ds])
qed

lemma base36_digits_length: "v < 36 ^ n \<Longrightarrow> length (base36_digits v ds) \<le> length ds + n"
proof (induction n arbitrary: v ds)
  case 0
  then show ?case by (simp add: base36_digits.simps)
next
  case (Suc n)
  have "v div 36 < 36 ^ n" using Suc.prems by (simp add: div_less_iff_less_mult mult.commute)
  from Suc.IH [OF this, of "BASE36 ! (v mod 36) # ds"] show ?case by (simp add: base36_digits.simps [of v ds])
qed

lemma base36_word_word36: "v < 2 ^ 64 \<Longrightarrow> word36 (base36_word v)"
  using base36_digits_chars [of "[]" v] base36_digits_length [of v 13 "[]"]
  by (auto simp: base36_word_def word36_def Let_def is_base36_def is_digit_def char_between_def ord_def)

lemma generated_key_words:
  "length vs = 4 \<Longrightarrow> list_all (\<lambda>v. v < 2 ^ 64) vs \<Longrightarrow> key_matches (generate_kdnet_key vs)"
  unfolding key_matches_iff generate_kdnet_key_def
  by (rule exI [of _ "map base36_word vs"]) (auto simp: key_words_def list_all_iff base36_word_word36)

section \<open>Redaction\<close>

text \<open>A text without stars occurs in a redacted text only where it did before, and the redacted text itself nowhere.\<close>

lemma starts_with_cons: "starts_with (m # n) (c # s) \<longleftrightarrow> m = c \<and> starts_with n s"
  by (auto simp: starts_with_def)

lemma replaced_starts:
  "CHR ''*'' \<notin> set n \<Longrightarrow> starts_with n (replace_aux a ''***'' k s) \<Longrightarrow> starts_with n (drop k s)"
proof (induction a "''***''" k s arbitrary: n rule: replace_aux.induct)
  case (3 a c s)
  show ?case
  proof (cases n)
    case Nil
    then show ?thesis by (simp add: starts_with_def)
  next
    case (Cons m n')
    then have "\<not> starts_with a (c # s)" using 3(3,4) by (auto simp: starts_with_cons)
    then show ?thesis using 3 by (simp add: Cons starts_with_cons)
  qed
qed (simp_all add: starts_with_def)

lemma replaced_contains:
  "CHR ''*'' \<notin> set n \<Longrightarrow> n \<noteq> [] \<Longrightarrow> contains n (replace_aux a ''***'' k s) \<Longrightarrow> contains n (drop k s) \<and> n \<noteq> a"
proof (induction a "''***''" k s rule: replace_aux.induct)
  case (3 a c s)
  obtain m n' where n: "n = m # n'" "m \<noteq> CHR ''*''" using 3(3,4) by (cases n) auto
  show ?case
  proof (cases "starts_with a (c # s)")
    case True
    then have "contains n (replace_aux a ''***'' (length a - 1) s)" using 3(5) n by (simp add: starts_with_cons)
    from 3(1) [OF True 3(3,4) this] have "contains n (drop (length a - 1) s)" "n \<noteq> a" by auto
    then show ?thesis using contains_trans [of n "drop (length a - 1) s" "c # s"] contains_iff
      by (metis append_Cons append_Nil2 append_take_drop_id drop0)
  next
    case False
    have "starts_with n (c # s) \<or> contains n s \<and> n \<noteq> a"
      using 3(5) False replaced_starts [of n' a 0 s] 3(2) [OF False 3(3,4)] 3(3) by (auto simp: n starts_with_cons)
    then show ?thesis using False by auto
  qed
qed simp_all

lemma redact_contains: "CHR ''*'' \<notin> set n \<Longrightarrow> n \<noteq> [] \<Longrightarrow> contains n (redact secrets t) \<Longrightarrow> contains n t"
proof (induction secrets arbitrary: t)
  case (Cons s secrets)
  then have "contains n (py_replace s ''***'' t)" by (simp add: redact_def)
  then show ?case using replaced_contains [of n s 0 t] Cons.prems by (simp add: py_replace_def)
qed (simp add: redact_def)

lemma redacted_away: "CHR ''*'' \<notin> set n \<Longrightarrow> n \<noteq> [] \<Longrightarrow> n \<in> set secrets \<Longrightarrow> \<not> contains n (redact secrets t)"
proof (induction secrets arbitrary: t)
  case (Cons s secrets)
  show ?case
  proof (cases "n \<in> set secrets")
    case True
    then show ?thesis using Cons.IH [OF Cons.prems(1,2)] by (simp add: redact_def)
  next
    case False
    then have "\<not> contains n (py_replace s ''***'' t)" using Cons.prems replaced_contains [of n s 0 t]
      by (auto simp: py_replace_def)
    then show ?thesis using redact_contains [of n secrets] Cons.prems by (auto simp: redact_def)
  qed
qed simp

lemma contains_char: "contains n t \<Longrightarrow> c \<in> set n \<Longrightarrow> c \<in> set t"
  by (auto simp: contains_iff)

end
