(* ===== verification/Tools_Kd_Properties.thy ===== *)
theory Tools_Kd_Properties
  imports Tools_Kd_Exec Kd_Key Demo_Host
begin

text \<open>
  What setting up a guest for KDNET keeps: the key that is saved is well formed, the port is no other machine's, and no
  key reaches the result. Then the ways the debugger tools fall short of their documentation.
\<close>

section \<open>Successful runs, taken apart\<close>

lemma bindE_InrE:
  assumes "bindE m f w = (Inr y, w2)"
  obtains x w1 where "m w = (Inr x, w1)" "f x w1 = (Inr y, w2)"
  using assms by (auto simp: bindE_def split: prod.splits sum.splits)

lemma thenE_InrE:
  assumes "thenE m k w = (Inr y, w2)"
  obtains x w1 where "m w = (Inr x, w1)" "k w1 = (Inr y, w2)"
  using assms unfolding thenE_def by (rule bindE_InrE)

lemma retD: "ret x w = (Inr y, w2) \<Longrightarrow> y = x \<and> w2 = w"
  by (simp add: ret_def)

lemma check_key_Inr: "check_key s w = (Inr k, w2) \<Longrightarrow> k = s \<and> key_matches s"
  by (simp add: check_key_def throw_def prog_unfold split: if_splits)

section \<open>The steps of a setup\<close>

lemma guest_run_steps:
  "guest_run X tr secrets cmd steps w = (Inr (out, steps2), w2) \<Longrightarrow>
   \<exists>s. steps2 = steps @ [s] \<and> ss_cmd s = redact secrets cmd"
  by (auto simp: guest_run_def throw_with_def raise_def Let_def ret_def elim!: bindE_InrE split: prod.splits if_splits)

lemma guest_run_all_steps:
  "guest_run_all X tr secrets cs steps w = (Inr steps2, w2) \<Longrightarrow>
   \<forall>s \<in> set steps2. s \<in> set steps \<or> (\<exists>c. ss_cmd s = redact secrets c)"
proof (induction cs arbitrary: steps w)
  case (Cons c cs)
  from Cons.prems obtain out steps1 w1 where r: "guest_run X tr secrets c steps w = (Inr (out, steps1), w1)"
    and rest: "guest_run_all X tr secrets cs steps1 w1 = (Inr steps2, w2)"
    by (auto elim!: bindE_InrE)
  from guest_run_steps [OF r] obtain s1 where "steps1 = steps @ [s1]" "ss_cmd s1 = redact secrets c" by blast
  then show ?case using Cons.IH [OF rest] by fastforce
qed (simp add: ret_def)

lemma query_guest_steps:
  assumes "query_guest X cfg tr w = (Inr (g, steps), w2)"
  shows "\<forall>s \<in> set steps. CHR ''.'' \<notin> set (ss_cmd s)"
    "gk_key g \<noteq> [] \<longrightarrow> key_matches (gk_key g)" "gk_here g \<longrightarrow> gk_key g \<noteq> []"
proof -
  show "\<forall>s \<in> set steps. CHR ''.'' \<notin> set (ss_cmd s)"
  proof (cases "vc_kd_transport cfg = Serial")
    case True
    then show ?thesis using assms by (simp add: query_guest_def ret_def)
  next
    case False
    from assms False obtain a st1 w1 b st2 w3 where
      r: "guest_run X tr [] ''bcdedit /dbgsettings'' [] w = (Inr (a, st1), w1)"
         "guest_run X tr [] CURRENT_COMMAND st1 w1 = (Inr (b, st2), w3)" "steps = st2"
      by (auto simp: query_guest_def ret_def elim!: bindE_InrE)
    show ?thesis using guest_run_steps [OF r(1)] guest_run_steps [OF r(2)] r(3)
      by (auto simp: redact_def CURRENT_COMMAND_def)
  qed
  show "gk_key g \<noteq> [] \<longrightarrow> key_matches (gk_key g)" "gk_here g \<longrightarrow> gk_key g \<noteq> []"
    using assms by (auto simp: query_guest_def ret_def no_guest_kdnet_def read_guest_kdnet_def Let_def elim!: bindE_InrE
      split: if_splits)
qed

section \<open>The port and the key\<close>

lemma free_port_free: "free_port taken p \<notin> set taken"
  by (induction taken p rule: free_port.induct) (subst free_port.simps, auto simp: free_port.simps)

lemma choose_key_Inr: "choose_key X ko cfg g w = (Inr k, w2) \<Longrightarrow> key_matches k"
  by (auto simp: choose_key_def dest!: check_key_Inr elim!: bindE_InrE)

lemma decide_kdnet_Inr:
  assumes "decide_kdnet X cfg g (adopts g taken po ko) taken po ko w = (Inr (port, key, secrets), w2)"
    and "vc_kd_transport cfg = Net" "gk_key g \<noteq> [] \<longrightarrow> key_matches (gk_key g)" "gk_here g \<longrightarrow> gk_key g \<noteq> []"
  shows "key_matches key" "key \<in> set secrets" "gk_key g \<noteq> [] \<longrightarrow> gk_key g \<in> set secrets" "po = None \<longrightarrow> port \<notin> set taken"
proof -
  have "key_matches key \<and> key \<in> set secrets \<and> (gk_key g \<noteq> [] \<longrightarrow> gk_key g \<in> set secrets) \<and> (po = None \<longrightarrow> port \<notin> set taken)"
  proof (cases "adopts g taken po ko")
    case True
    then obtain p where p: "gk_port g = Some p" "p \<notin> set taken" "gk_here g" by (auto simp: adopts_def split: option.splits)
    then show ?thesis using assms True by (auto simp: decide_kdnet_def Let_def ret_def)
  next
    case False
    let ?known = "if gk_key g = [] then [] else [gk_key g]"
    have "decide_kdnet X cfg g False taken po ko w =
      bindE (choose_key X ko cfg g) (\<lambda>k. ret (choose_port po cfg taken, k, ?known @ [k])) w"
      using assms(2) by (auto simp: decide_kdnet_def Let_def split: option.splits)
    then have "bindE (choose_key X ko cfg g) (\<lambda>k. ret (choose_port po cfg taken, k, ?known @ [k])) w = (Inr (port, key, secrets), w2)"
      using assms(1) False by (simp only:)
    then have "key_matches key \<and> port = choose_port po cfg taken \<and> secrets = ?known @ [key]"
      by (rule bindE_InrE) (drule retD, drule choose_key_Inr, simp)
    then show ?thesis by (auto simp: choose_port_def free_port_free)
  qed
  then show "key_matches key" "key \<in> set secrets" "gk_key g \<noteq> [] \<longrightarrow> gk_key g \<in> set secrets" "po = None \<longrightarrow> port \<notin> set taken"
    by auto
qed

section \<open>The whole setup\<close>

lemma save_kdnet_Inr:
  assumes "save_kdnet name port key w = (Inr u, w2)"
  shows "\<exists>vm. dict_get (c_vms (w_config w2)) name = Some (vm\<lparr>vc_kdnet := \<lparr>kn_port = port, kn_key = key\<rparr>\<rparr>)"
  using assms by (auto simp: save_kdnet_def save_kdnet_settings_def throw_def raise_def split: prod.splits sum.splits option.splits if_splits)

lemma apply_setup_Inr:
  assumes "apply_setup X cfg tr g steps taken po ko w = (Inr r, w2)" "vc_kd_transport cfg = Net"
  obtains port key secrets steps2 w1 vm where
    "decide_kdnet X cfg g (adopts g taken po ko) taken po ko w = (Inr (port, key, secrets), w1)"
    "\<forall>s \<in> set steps2. s \<in> set steps \<or> (\<exists>c. ss_cmd s = redact secrets c)"
    "gs_steps r = map (redact_step secrets) steps2" "gs_port r = Some port"
    "dict_get (c_vms (w_config w2)) (vc_name cfg) = Some (vm\<lparr>vc_kdnet := \<lparr>kn_port = port, kn_key = key\<rparr>\<rparr>)"
proof -
  from assms obtain port key secrets w1 steps2 w3 u w4 where
    d: "decide_kdnet X cfg g (adopts g taken po ko) taken po ko w = (Inr (port, key, secrets), w1)" and
    s: "guest_run_all X tr secrets (setup_commands cfg g (adopts g taken po ko) port key) steps w1 = (Inr steps2, w3)" and
    k: "save_kdnet (vc_name cfg) port key w3 = (Inr u, w4)" and
    r: "gs_steps r = map (redact_step secrets) steps2" "gs_port r = Some port" and
    c: "w_config w2 = w_config w4"
    by (auto simp: apply_setup_def Let_def retarget_session_def eventE_def ret_def elim!: bindE_InrE thenE_InrE split: option.splits)
  from save_kdnet_Inr [OF k] obtain vm where
    "dict_get (c_vms (w_config w2)) (vc_name cfg) = Some (vm\<lparr>vc_kdnet := \<lparr>kn_port = port, kn_key = key\<rparr>\<rparr>)"
    using c by auto
  then show thesis using that d guest_run_all_steps [OF s] r by blast
qed

definition key_absent :: "string \<Rightarrow> guest_setup \<Rightarrow> bool" where
  "key_absent key r = list_all (\<lambda>s. \<not> contains key (ss_cmd s) \<and> \<not> contains key (ss_output s)) (gs_steps r)"

lemma key_absent_map:
  assumes "key_matches k" "k \<in> set secrets" "gs_steps r = map (redact_step secrets) steps2"
    and "\<forall>s \<in> set steps2. CHR ''.'' \<notin> set (ss_cmd s) \<or> (\<exists>c. ss_cmd s = redact secrets c)"
  shows "key_absent k r"
proof -
  have away: "\<not> contains k (redact secrets t)" for t using redacted_away assms(2) key_chars [OF assms(1)] by blast
  have "\<not> contains k (ss_cmd s)" if "s \<in> set steps2" for s
    using that assms(4) away contains_char [of k "ss_cmd s" "CHR ''.''"] key_chars [OF assms(1)] by auto
  then show ?thesis using away assms(3) by (auto simp: key_absent_def redact_step_def list_all_iff)
qed

lemma configure_guest_Inr:
  assumes "configure_guest X cfg po ko w = (Inr r, w2)" "vc_kd_transport cfg = Net"
  shows "\<exists>vm. dict_get (c_vms (w_config w2)) (vc_name cfg) = Some vm \<and> key_matches (kn_key (vc_kdnet vm)) \<and>
           key_absent (kn_key (vc_kdnet vm)) r \<and> gs_port r = Some (kn_port (vc_kdnet vm)) \<and>
           (po = None \<longrightarrow> kn_port (vc_kdnet vm) \<notin> set (taken_ports (x_config X) (vc_name cfg)))"
proof -
  from assms obtain tr g steps w1 w3 where q: "query_guest X cfg tr w1 = (Inr (g, steps), w3)"
    and a: "apply_setup X cfg tr g steps (taken_ports (x_config X) (vc_name cfg)) po ko w3 = (Inr r, w2)"
    by (auto simp: configure_guest_def Let_def throw_def raise_def elim!: bindE_InrE thenE_InrE split: if_splits)
  note g = query_guest_steps [OF q]
  obtain port key secrets steps2 w4 vm where
    d: "decide_kdnet X cfg g (adopts g (taken_ports (x_config X) (vc_name cfg)) po ko) (taken_ports (x_config X) (vc_name cfg)) po ko w3 =
          (Inr (port, key, secrets), w4)" and
    s: "\<forall>s \<in> set steps2. s \<in> set steps \<or> (\<exists>c. ss_cmd s = redact secrets c)" and
    r: "gs_steps r = map (redact_step secrets) steps2" "gs_port r = Some port" and
    v: "dict_get (c_vms (w_config w2)) (vc_name cfg) = Some (vm\<lparr>vc_kdnet := \<lparr>kn_port = port, kn_key = key\<rparr>\<rparr>)"
    by (rule apply_setup_Inr [OF a assms(2)])
  note k = decide_kdnet_Inr [OF d assms(2) g(2,3)]
  have "key_absent key r" by (rule key_absent_map [OF k(1,2) r(1)]) (use s g(1) in blast)
  then show ?thesis using v k r by simp
qed

lemma kd_setup_guest_Inr:
  assumes "kd_setup_guest X vm po ko w = (Inr r, w2)" "dict_get (c_vms (w_config w)) vm = Some cfg" "vc_kd_transport cfg = Net"
  shows "\<exists>vm2. dict_get (c_vms (w_config w2)) (vc_name cfg) = Some vm2 \<and> key_matches (kn_key (vc_kdnet vm2)) \<and>
           key_absent (kn_key (vc_kdnet vm2)) r \<and> gs_port r = Some (kn_port (vc_kdnet vm2)) \<and>
           (po = None \<longrightarrow> kn_port (vc_kdnet vm2) \<notin> set (taken_ports (w_config w) (vc_name cfg)))"
proof -
  let ?X = "X\<lparr>x_config := w_config w\<rparr>"
  from assms(1) have b: "bindE (vm_cfg ?X vm) (\<lambda>cfg. configure_guest ?X cfg po ko) w = (Inr r, w2)"
    by (simp add: kd_setup_guest_def with_config_def)
  then obtain cfg2 w1 where c: "vm_cfg ?X vm w = (Inr cfg2, w1)" "configure_guest ?X cfg2 po ko w1 = (Inr r, w2)"
    by (rule bindE_InrE)
  have "cfg2 = cfg" using c(1) assms(2)
    by (auto simp: vm_cfg_def config_vm_def liftE_def throw_def prog_unfold split: if_splits)
  then show ?thesis using configure_guest_Inr [OF c(2)] assms(3) by simp
qed

section \<open>A guest for the witnesses\<close>

definition demo_tools :: "demo_env kd_tool_outside" where
  "demo_tools =
     svc_outside.extend
       (demo_outside\<lparr>x_exec_once := (\<lambda>t c ms e. (Inr (0, '' key   a.b.c.d''), e))\<rparr>)
       (kd_tool_outside.fields (\<lambda>e. ([1, 2, 3, 40], e)))"

definition demo_setup_config :: nt_config where
  "demo_setup_config =
     demo_config\<lparr>c_vms := [(''win'', sample_vm\<lparr>vc_kdnet_hostip := ''10.0.0.1''\<rparr>), (''two'', sample_vm\<lparr>vc_name := ''two''\<rparr>)],
                 c_path := ''vms.yaml''\<rparr>"

definition demo_setup_world :: "demo_env kd_tool_world" where
  "demo_setup_world =
     svc_world.extend ((demo_world demo_running)\<lparr>w_kd := []\<rparr>) (kd_tool_world.fields Y_Missing demo_setup_config)"

lemma demo_tools_sel [simp]:
  "x_config demo_tools = demo_config" "x_adapters demo_tools = [(''vmware'', demo_adapter)]" "x_now demo_tools = de_now"
  "x_exec_once demo_tools t c ms e = (Inr (0, '' key   a.b.c.d''), e)"
  by (simp_all add: demo_tools_def demo_outside_def svc_outside.defs kd_tool_outside.defs)

lemma demo_setup_world_sel [simp]:
  "w_store demo_setup_world = empty_store 0" "w_env demo_setup_world = demo_running" "w_sessions demo_setup_world = []"
  "w_transports demo_setup_world = []" "w_ips demo_setup_world = []" "w_kd demo_setup_world = []"
  "w_yaml demo_setup_world = Y_Missing" "w_config demo_setup_world = demo_setup_config"
  by (simp_all add: demo_setup_world_def demo_world_def svc_world.defs kd_tool_world.defs)

lemma demo_answers:
  "parse_bcd '' key   a.b.c.d'' = [(''key'', ''a.b.c.d'')]" "key_matches ''a.b.c.d''" "ipv4_address ''10.0.0.1''"
  "read_guest_kdnet ''10.0.0.1'' [(''key'', ''a.b.c.d'')] [(''key'', ''a.b.c.d'')] =
     \<lparr>gk_debug_on = False, gk_key = ''a.b.c.d'', gk_port = None, gk_here = False\<rparr>"
  "kn_key DEFAULT_KDNET = []" "kn_port DEFAULT_KDNET = 50000"
  by code_simp+

lemmas setup_unfold =
  kd_setup_guest_def with_config_def configure_guest_def apply_setup_def query_guest_def guest_run_def decide_kdnet_def
  choose_key_def check_key_def check_hostip_def bindE_def thenE_def ret_def getS_def tryE_def Let_def envE_def vm_cfg_def
  liftE_def config_vm_def dict_has_def ensure_not_frozen_def svc_runtime_def config_lookup_def sync_config_def
  ensure_running_def refresh_power_def awaitE_def env_tryE_def catch_up_def dict_keys_def set_power_def storeE_def
  svc_transport_def transport_for_def svc_guest_ip_def get_transport_def eventE_def retarget_session_def save_kdnet_def
  save_kdnet_settings_def kdnet_raw_def kdnet_entry_def read_raw_config_def demo_setup_config_def setup_commands_def
  adapter_for_def adopts_def given_def choose_port_def taken_ports_def free_port.simps

text \<open>The guest answers with a key of another host; port 50000 is the other machine's.\<close>

lemma demo_setup:
  "case kd_setup_guest demo_tools ''win'' None None demo_setup_world of
     (Inr r, w) \<Rightarrow> gs_port r = Some 50001 \<and> length (gs_steps r) = 5 | _ \<Rightarrow> False"
  by (simp add: setup_unfold demo_answers vm_of_update vm_of_empty fresh_runtime_def)

lemma demo_setup_Inr:
  "\<exists>r w. kd_setup_guest demo_tools ''win'' None None demo_setup_world = (Inr r, w) \<and> gs_steps r \<noteq> []"
  using demo_setup by (auto split: prod.splits sum.splits)

lemma demo_setup_vm:
  "dict_get (c_vms (w_config demo_setup_world)) ''win'' = Some (sample_vm\<lparr>vc_kdnet_hostip := ''10.0.0.1''\<rparr>)"
  by (simp add: demo_setup_config_def)

section \<open>Where the tools fall short of what they say\<close>

text \<open>Until the guest's settings are read no key counts as secret: when the second query fails, the error carries the first answer,
  the key in clear included.\<close>

lemma failed_query_tells_key:
  assumes "x_exec_once X tr ''bcdedit /dbgsettings'' 60000 = (\<lambda>e. (Inr (0, answer), e))"
    and "x_exec_once X tr CURRENT_COMMAND 60000 = (\<lambda>e. (Inr (1, err), e))" and "vc_kd_transport cfg = Net"
  shows "fst (query_guest X cfg tr w) =
    Inl (Nt (nt_err_with BACKEND_ERROR [(''outputs'', JList (map step_dict
      [\<lparr>ss_cmd = ''bcdedit /dbgsettings'', ss_code = 0, ss_output = take_last 2000 (py_strip answer)\<rparr>,
       \<lparr>ss_cmd = CURRENT_COMMAND, ss_code = 1, ss_output = take_last 2000 (py_strip err)\<rparr>]))]))"
  using assms by (simp add: query_guest_def guest_run_def awaitE_def env_tryE_def bindE_def ret_def throw_with_def raise_def Let_def
    redact_step_def redact_def)

text \<open>\<open>$\<close> of the key pattern matches before a newline at the end.\<close>

lemma key_with_newline_passes: "key_matches (''a.b.c.d'' @ [NL])"
  unfolding key_matches_iff by (intro exI [of _ "[''a'', ''b'', ''c'', ''d'']"]) (simp add: key_words_def word36_def is_base36_def is_lower_def char_between_def ord_def)

text \<open>After a hit that did not come, \<open>kd_sample\<close> clears nothing and leaves the target running: the clean-up needs a prompt, and its
  refusal is passed over.\<close>

lemma sample_cleanup_needs_a_prompt:
  assumes "ks_state (kw_s w) \<noteq> K_Broken"
  shows "snd (sample_cleanup p mine w) = w"
  using assms by (auto simp: sample_cleanup_def suppress_nt_def catch_nt_def tryE_def kd_exec_def require_broken_def require_attached_def
    bindE_def ret_def throw_def raise_def split: option.splits sum.splits exn.splits)

section \<open>Properties\<close>



text \<open>
  C24. The KDNET key is a secret: no command and no output in the steps \<open>kd_setup_guest\<close> returns contains the key that was
  saved, although the guest prints it and a command carries it.
\<close>

theorem setup_result_hides_key:
  assumes "kd_setup_guest X vm po ko w = (Inr r, w2)"
    and "dict_get (c_vms (w_config w)) vm = Some cfg" and "vc_kd_transport cfg = Net"
  shows "\<exists>vm2. dict_get (c_vms (w_config w2)) (vc_name cfg) = Some vm2 \<and>
           (\<forall>s \<in> set (gs_steps r). \<not> contains (kn_key (vc_kdnet vm2)) (ss_cmd s) \<and> \<not> contains (kn_key (vc_kdnet vm2)) (ss_output s))"
  using kd_setup_guest_Inr [OF assms] by (auto simp: key_absent_def list_all_iff)

theorem setup_result_hides_key_witness:
  "\<exists>r w vm2 s. kd_setup_guest demo_tools ''win'' None None demo_setup_world = (Inr r, w) \<and>
     dict_get (c_vms (w_config w)) ''win'' = Some vm2 \<and> s \<in> set (gs_steps r) \<and> \<not> contains (kn_key (vc_kdnet vm2)) (ss_output s)"
proof -
  obtain r w where d: "kd_setup_guest demo_tools ''win'' None None demo_setup_world = (Inr r, w)" and s: "gs_steps r \<noteq> []"
    using demo_setup_Inr by blast
  from s have "hd (gs_steps r) \<in> set (gs_steps r)" by simp
  with setup_result_hides_key [OF d demo_setup_vm] d show ?thesis by auto
qed

end
