(* ===== verification/Des.thy ===== *)
theory Des
  imports Prelude
begin

text \<open>
  The one-block DES of \<open>screen/vnc.py\<close> with which the VNC client answers a challenge: its tables, the key schedule, the rounds
  on lists of bits, and the answer with the reversed key bytes of the protocol. The cipher is inverted by the same rounds with the
  keys in reverse order, and its tables are the permutations they are meant to be.
\<close>

section \<open>Tables\<close>

definition DES_PC1 :: "nat list" where
  "DES_PC1 =
     [57, 49, 41, 33, 25, 17, 9, 1, 58, 50, 42, 34, 26, 18, 10, 2, 59, 51, 43, 35, 27, 19, 11, 3, 60, 52, 44, 36,
      63, 55, 47, 39, 31, 23, 15, 7, 62, 54, 46, 38, 30, 22, 14, 6, 61, 53, 45, 37, 29, 21, 13, 5, 28, 20, 12, 4]"

definition DES_PC2 :: "nat list" where
  "DES_PC2 =
     [14, 17, 11, 24, 1, 5, 3, 28, 15, 6, 21, 10, 23, 19, 12, 4, 26, 8, 16, 7, 27, 20, 13, 2, 41, 52, 31, 37,
      47, 55, 30, 40, 51, 45, 33, 48, 44, 49, 39, 56, 34, 53, 46, 42, 50, 36, 29, 32]"

definition DES_IP :: "nat list" where
  "DES_IP =
     [58, 50, 42, 34, 26, 18, 10, 2, 60, 52, 44, 36, 28, 20, 12, 4, 62, 54, 46, 38, 30, 22, 14, 6, 64, 56, 48, 40,
      32, 24, 16, 8, 57, 49, 41, 33, 25, 17, 9, 1, 59, 51, 43, 35, 27, 19, 11, 3, 61, 53, 45, 37, 29, 21, 13, 5,
      63, 55, 47, 39, 31, 23, 15, 7]"

definition DES_FP :: "nat list" where
  "DES_FP =
     [40, 8, 48, 16, 56, 24, 64, 32, 39, 7, 47, 15, 55, 23, 63, 31, 38, 6, 46, 14, 54, 22, 62, 30, 37, 5, 45, 13,
      53, 21, 61, 29, 36, 4, 44, 12, 52, 20, 60, 28, 35, 3, 43, 11, 51, 19, 59, 27, 34, 2, 42, 10, 50, 18, 58, 26,
      33, 1, 41, 9, 49, 17, 57, 25]"

definition DES_E :: "nat list" where
  "DES_E =
     [32, 1, 2, 3, 4, 5, 4, 5, 6, 7, 8, 9, 8, 9, 10, 11, 12, 13, 12, 13, 14, 15, 16, 17, 16, 17, 18, 19,
      20, 21, 20, 21, 22, 23, 24, 25, 24, 25, 26, 27, 28, 29, 28, 29, 30, 31, 32, 1]"

definition DES_P :: "nat list" where
  "DES_P =
     [16, 7, 20, 21, 29, 12, 28, 17, 1, 15, 23, 26, 5, 18, 31, 10, 2, 8, 24, 14, 32, 27, 3, 9, 19, 13, 30, 6,
      22, 11, 4, 25]"

definition DES_SHIFTS :: "nat list" where
  "DES_SHIFTS =
     [1, 1, 2, 2, 2, 2, 2, 2, 1, 2, 2, 2, 2, 2, 2, 1]"

definition DES_SBOX :: "nat list list" where
  "DES_SBOX =
     [[14, 4, 13, 1, 2, 15, 11, 8, 3, 10, 6, 12, 5, 9, 0, 7, 0, 15, 7, 4, 14, 2, 13, 1, 10, 6, 12, 11, 9, 5, 3, 8,
       4, 1, 14, 8, 13, 6, 2, 11, 15, 12, 9, 7, 3, 10, 5, 0, 15, 12, 8, 2, 4, 9, 1, 7, 5, 11, 3, 14, 10, 0, 6, 13],
      [15, 1, 8, 14, 6, 11, 3, 4, 9, 7, 2, 13, 12, 0, 5, 10, 3, 13, 4, 7, 15, 2, 8, 14, 12, 0, 1, 10, 6, 9, 11, 5,
       0, 14, 7, 11, 10, 4, 13, 1, 5, 8, 12, 6, 9, 3, 2, 15, 13, 8, 10, 1, 3, 15, 4, 2, 11, 6, 7, 12, 0, 5, 14, 9],
      [10, 0, 9, 14, 6, 3, 15, 5, 1, 13, 12, 7, 11, 4, 2, 8, 13, 7, 0, 9, 3, 4, 6, 10, 2, 8, 5, 14, 12, 11, 15, 1,
       13, 6, 4, 9, 8, 15, 3, 0, 11, 1, 2, 12, 5, 10, 14, 7, 1, 10, 13, 0, 6, 9, 8, 7, 4, 15, 14, 3, 11, 5, 2, 12],
      [7, 13, 14, 3, 0, 6, 9, 10, 1, 2, 8, 5, 11, 12, 4, 15, 13, 8, 11, 5, 6, 15, 0, 3, 4, 7, 2, 12, 1, 10, 14, 9,
       10, 6, 9, 0, 12, 11, 7, 13, 15, 1, 3, 14, 5, 2, 8, 4, 3, 15, 0, 6, 10, 1, 13, 8, 9, 4, 5, 11, 12, 7, 2, 14],
      [2, 12, 4, 1, 7, 10, 11, 6, 8, 5, 3, 15, 13, 0, 14, 9, 14, 11, 2, 12, 4, 7, 13, 1, 5, 0, 15, 10, 3, 9, 8, 6,
       4, 2, 1, 11, 10, 13, 7, 8, 15, 9, 12, 5, 6, 3, 0, 14, 11, 8, 12, 7, 1, 14, 2, 13, 6, 15, 0, 9, 10, 4, 5, 3],
      [12, 1, 10, 15, 9, 2, 6, 8, 0, 13, 3, 4, 14, 7, 5, 11, 10, 15, 4, 2, 7, 12, 9, 5, 6, 1, 13, 14, 0, 11, 3, 8,
       9, 14, 15, 5, 2, 8, 12, 3, 7, 0, 4, 10, 1, 13, 11, 6, 4, 3, 2, 12, 9, 5, 15, 10, 11, 14, 1, 7, 6, 0, 8, 13],
      [4, 11, 2, 14, 15, 0, 8, 13, 3, 12, 9, 7, 5, 10, 6, 1, 13, 0, 11, 7, 4, 9, 1, 10, 14, 3, 5, 12, 2, 15, 8, 6,
       1, 4, 11, 13, 12, 3, 7, 14, 10, 15, 6, 8, 0, 5, 9, 2, 6, 11, 13, 8, 1, 4, 10, 7, 9, 5, 0, 15, 14, 2, 3, 12],
      [13, 2, 8, 4, 6, 15, 11, 1, 10, 9, 3, 14, 5, 0, 12, 7, 1, 15, 13, 8, 10, 3, 7, 4, 12, 5, 6, 11, 0, 14, 9, 2,
       7, 11, 4, 1, 9, 12, 14, 2, 0, 6, 10, 13, 15, 3, 5, 8, 2, 1, 14, 7, 4, 10, 8, 13, 15, 12, 9, 0, 3, 5, 6, 11]]"

section \<open>Bits and bytes\<close>

lemma cc_mod: "cc (n mod 256) = cc n"
  by (simp add: cc_def)

lemma cc_plus: "cc (256 * k + n) = cc n"
  using cc_mod [of "256 * k + n"] cc_mod [of n] by simp

lemma cc_ord [simp]: "cc (ord c) = c"
  by (simp add: cc_def ord_def)

lemma ord_cc_mod [simp]: "ord (cc n) = n mod 256"
  by (simp add: cc_def ord_def)

text \<open>\<open>_bits\<close> and \<open>_frombits\<close>: the most significant bit first. A bit is a truth value.\<close>

definition byte_bits :: "char \<Rightarrow> bool list" where
  "byte_bits c = map (\<lambda>i. odd (ord c div 2 ^ (7 - i))) [0..<8]"

definition to_bits :: "string \<Rightarrow> bool list" where
  "to_bits s = concat (map byte_bits s)"

definition bits_value :: "bool list \<Rightarrow> nat" where
  "bits_value bs = foldl (\<lambda>n b. 2 * n + of_bool b) 0 bs"

fun from_bits :: "bool list \<Rightarrow> string" where
  "from_bits [] = []"
| "from_bits (b # bs) = cc (bits_value (take 8 (b # bs))) # from_bits (drop 7 bs)"

text \<open>\<open>[bits[i - 1] for i in table]\<close>\<close>

definition permute :: "nat list \<Rightarrow> bool list \<Rightarrow> bool list" where
  "permute table bits = map (\<lambda>i. bits ! (i - 1)) table"

definition xor_bits :: "bool list \<Rightarrow> bool list \<Rightarrow> bool list" where
  "xor_bits a b = map2 (\<noteq>) a b"

section \<open>The cipher\<close>

definition rotate_left :: "nat \<Rightarrow> 'a list \<Rightarrow> 'a list" where
  "rotate_left n xs = drop n xs @ take n xs"

fun schedule :: "nat list \<Rightarrow> bool list \<Rightarrow> bool list \<Rightarrow> bool list list" where
  "schedule [] c d = []"
| "schedule (n # ns) c d =
     (let c' = rotate_left n c; d' = rotate_left n d in permute DES_PC2 (c' @ d') # schedule ns c' d')"

definition subkeys :: "string \<Rightarrow> bool list list" where
  "subkeys key =
     (let kb = to_bits key
      in schedule DES_SHIFTS (permute (take 28 DES_PC1) kb) (permute (drop 28 DES_PC1) kb))"

definition sbox_bits :: "nat list \<Rightarrow> bool list \<Rightarrow> bool list" where
  "sbox_bits box chunk =
     (let row = bits_value [chunk ! 0, chunk ! 5]; col = bits_value [chunk ! 1, chunk ! 2, chunk ! 3, chunk ! 4];
          v = box ! (row * 16 + col)
      in map (\<lambda>j. odd (v div 2 ^ (3 - j))) [0..<4])"

definition round_bits :: "bool list \<Rightarrow> bool list \<Rightarrow> bool list" where
  "round_bits right k =
     (let xored = xor_bits (permute DES_E right) k;
          out = concat (map (\<lambda>i. sbox_bits (DES_SBOX ! i) (take 6 (drop (i * 6) xored))) [0..<8])
      in permute DES_P out)"

fun rounds :: "bool list list \<Rightarrow> bool list \<times> bool list \<Rightarrow> bool list \<times> bool list" where
  "rounds [] lr = lr"
| "rounds (k # ks) (left, right) = rounds ks (right, xor_bits left (round_bits right k))"

definition crypt_bits :: "bool list list \<Rightarrow> bool list \<Rightarrow> bool list" where
  "crypt_bits ks bb =
     (let perm = permute DES_IP bb
      in case rounds ks (take 32 perm, drop 32 perm) of (left, right) \<Rightarrow> permute DES_FP (right @ left))"

definition crypt :: "bool list list \<Rightarrow> string \<Rightarrow> string" where
  "crypt ks block = from_bits (crypt_bits ks (to_bits block))"

definition des :: "string \<Rightarrow> string \<Rightarrow> string" where
  "des key block = crypt (subkeys key) block"

text \<open>The bits of every key byte are reversed; the password is cut or filled with zeros to 8 bytes.\<close>

definition reverse_byte :: "char \<Rightarrow> char" where
  "reverse_byte c = cc (bits_value (rev (byte_bits c)))"

definition vnc_key :: "string \<Rightarrow> string" where
  "vnc_key password = map reverse_byte (take 8 (password @ replicate 8 (CHR 0x00)))"

definition vnc_response :: "string \<Rightarrow> string \<Rightarrow> string" where
  "vnc_response challenge password =
     (let key = vnc_key password in des key (take 8 challenge) @ des key (take 8 (drop 8 challenge)))"

section \<open>Lengths and bytes\<close>

lemma permute_length [simp]: "length (permute t b) = length t"
  by (simp add: permute_def)

lemma xor_bits_length [simp]: "length (xor_bits a b) = min (length a) (length b)"
  by (simp add: xor_bits_def)

lemma byte_bits_length [simp]: "length (byte_bits c) = 8"
  by (simp add: byte_bits_def)

lemma bits_value_snoc: "bits_value (bs @ [b]) = 2 * bits_value bs + of_bool b"
  by (simp add: bits_value_def)

lemma bits_value_bound: "bits_value bs < 2 ^ length bs"
  by (induction bs rule: rev_induct) (auto simp: bits_value_snoc bits_value_def [of "[]"])

lemma bits_value_inj: "length a = length b \<Longrightarrow> bits_value a = bits_value b \<Longrightarrow> a = b"
proof (induction a arbitrary: b rule: rev_induct)
  case (snoc x xs)
  then obtain y ys where b: "b = ys @ [y]" by (cases b rule: rev_exhaust) auto
  have "2 * bits_value xs + of_bool x = 2 * bits_value ys + of_bool y" using snoc.prems(2) by (simp add: b bits_value_snoc)
  then have "x = y \<and> bits_value xs = bits_value ys" by (cases x; cases y) (simp_all, presburger+)
  then show ?case using snoc by (simp add: b)
qed simp

lemma byte_bits_ord: "bits_value (byte_bits c) = ord c"
proof -
  define n where "n = ord c"
  have step: "2 * (n div 2 ^ Suc k) + of_bool (odd (n div 2 ^ k)) = n div 2 ^ k" for k
    by (simp add: div_mult2_eq mult.commute [of 2] flip: mod_2_eq_odd)
  have "n < 256" by (simp add: n_def ord_def)
  then have "(n div 2 ^ 8) = 0" by simp
  moreover have "bits_value (map (\<lambda>i. odd (n div 2 ^ (7 - i))) [0..<k]) = n div 2 ^ (8 - k)" if "k \<le> 8" for k
    using that
  proof (induction k)
    case 0
    then show ?case using \<open>n div 2 ^ 8 = 0\<close> by (simp add: bits_value_def)
  next
    case (Suc k)
    define j where "j = 7 - k"
    have j: "8 - k = Suc j" "8 - Suc k = j" "7 - k = j" using Suc.prems by (simp_all add: j_def)
    have "bits_value (map (\<lambda>i. odd (n div 2 ^ (7 - i))) [0..<k]) = n div 2 ^ Suc j" using Suc j by simp
    then show ?case using step [of j] by (simp only: upt_Suc_append le0 map_append list.map bits_value_snoc j)
  qed
  from this [of 8] show ?thesis by (simp add: byte_bits_def n_def)
qed

lemma bits_byte [simp]: "cc (bits_value (byte_bits c)) = c"
  by (simp add: byte_bits_ord cc_def ord_def)

lemma byte_bits_value: "length bs = 8 \<Longrightarrow> byte_bits (cc (bits_value bs)) = bs"
  by (rule bits_value_inj) (use bits_value_bound [of bs] in \<open>simp_all add: byte_bits_ord\<close>)

lemma from_bits_byte: "length bs = 8 \<Longrightarrow> from_bits (bs @ t) = cc (bits_value bs) # from_bits t"
  by (cases bs) (simp_all add: drop_Cons')

lemma from_to_bits [simp]: "from_bits (to_bits s) = s"
  by (induction s) (simp_all add: to_bits_def from_bits_byte)

lemma to_from_bits: "length bs = 8 * n \<Longrightarrow> to_bits (from_bits bs) = bs"
proof (induction n arbitrary: bs)
  case (Suc n)
  have "from_bits bs = cc (bits_value (take 8 bs)) # from_bits (drop 8 bs)"
    using from_bits_byte [of "take 8 bs" "drop 8 bs"] Suc.prems by simp
  then show ?case using Suc.IH [of "drop 8 bs"] Suc.prems by (simp add: to_bits_def byte_bits_value)
qed (simp add: to_bits_def)

section \<open>The tables\<close>

lemma des_tables:
  "length DES_IP = 64" "length DES_FP = 64" "length DES_P = 32" "length DES_E = 48" "length DES_PC2 = 48" "length DES_SBOX = 8"
  by code_simp+

text \<open>Every row of every box is a permutation of the sixteen values.\<close>

lemma sbox_rows: "\<forall>box \<in> set DES_SBOX. length box = 64 \<and> (\<forall>r \<in> set [0..<4]. sort (take 16 (drop (16 * r) box)) = [0..<16])"
  by code_simp

lemma permute_permute: "list_all (\<lambda>i. i - 1 < length u) t \<Longrightarrow> permute t (permute u x) = permute (map (\<lambda>i. u ! (i - 1)) t) x"
  by (simp add: permute_def list_all_iff)

lemma permute_id: "length x = n \<Longrightarrow> permute [1..<Suc n] x = x"
  by (rule nth_equalityI) (simp_all add: permute_def nth_append del: upt_Suc)

lemma final_undoes_initial:
  assumes "length x = 64"
  shows "permute DES_IP (permute DES_FP x) = x" "permute DES_FP (permute DES_IP x) = x"
proof -
  have t: "list_all (\<lambda>i. i - 1 < length DES_FP) DES_IP" "list_all (\<lambda>i. i - 1 < length DES_IP) DES_FP"
    "map (\<lambda>i. DES_FP ! (i - 1)) DES_IP = [1..<Suc 64]" "map (\<lambda>i. DES_IP ! (i - 1)) DES_FP = [1..<Suc 64]"
    by code_simp+
  show "permute DES_IP (permute DES_FP x) = x" "permute DES_FP (permute DES_IP x) = x"
    unfolding permute_permute [OF t(1)] permute_permute [OF t(2)] t(3,4) by (rule permute_id [OF assms])+
qed

section \<open>The rounds backwards\<close>

lemma round_bits_length [simp]: "length (round_bits r k) = 32"
  by (simp add: round_bits_def Let_def des_tables)

lemma xor_bits_twice: "length a \<le> length b \<Longrightarrow> xor_bits (xor_bits a b) b = a"
  by (rule nth_equalityI) (auto simp: xor_bits_def)

lemma rounds_snoc: "rounds (ks @ [k]) lr = (case rounds ks lr of (l, r) \<Rightarrow> (r, xor_bits l (round_bits r k)))"
  by (induction ks lr rule: rounds.induct) (auto split: prod.splits)

lemma rounds_length:
  "length l0 = 32 \<Longrightarrow> length r0 = 32 \<Longrightarrow> length (fst (rounds ks (l0, r0))) = 32 \<and> length (snd (rounds ks (l0, r0))) = 32"
  by (induction ks arbitrary: l0 r0) simp_all

lemma rounds_back:
  assumes "length l = 32" "length r = 32" "rounds ks (l, r) = (l1, r1)"
  shows "rounds (rev ks) (r1, l1) = (r, l)"
  using assms
proof (induction ks arbitrary: l r)
  case (Cons k ks)
  let ?x = "xor_bits l (round_bits r k)"
  have x: "length ?x = 32" "xor_bits ?x (round_bits r k) = l" using Cons.prems by (simp_all add: xor_bits_twice)
  have "rounds (rev ks) (r1, l1) = (?x, r)" using Cons.IH [OF Cons.prems(2) x(1)] Cons.prems(3) by simp
  then show ?case using x by (simp add: rounds_snoc)
qed simp

lemma crypt_bits_length: "length (crypt_bits ks bb) = 64"
  by (simp add: crypt_bits_def des_tables Let_def split: prod.splits)

lemma crypt_bits_back:
  assumes "length bb = 64"
  shows "crypt_bits (rev ks) (crypt_bits ks bb) = bb"
proof -
  let ?p = "permute DES_IP bb"
  obtain l r where lr: "rounds ks (take 32 ?p, drop 32 ?p) = (l, r)" by fastforce
  have len: "length (take 32 ?p) = 32" "length (drop 32 ?p) = 32" by (simp_all add: des_tables)
  have "length l = 32" "length r = 32" using rounds_length [OF len, of ks] lr by simp_all
  then have c: "permute DES_IP (crypt_bits ks bb) = r @ l"
    using final_undoes_initial(1) [of "r @ l"] lr by (simp add: crypt_bits_def)
  have "rounds (rev ks) (r, l) = (drop 32 ?p, take 32 ?p)" by (rule rounds_back [OF len lr])
  then have "crypt_bits (rev ks) (crypt_bits ks bb) = permute DES_FP (take 32 ?p @ drop 32 ?p)"
    using c \<open>length r = 32\<close> by (simp add: crypt_bits_def)
  then show ?thesis using final_undoes_initial(2) [OF assms] by simp
qed

lemma to_bits_length: "length (to_bits s) = 8 * length s"
  by (induction s) (simp_all add: to_bits_def)

lemma crypt_back: "length block = 8 \<Longrightarrow> crypt (rev ks) (crypt ks block) = block"
  by (simp add: crypt_def to_from_bits [where n = 8] crypt_bits_length crypt_bits_back to_bits_length)

end
