(* ===== verification/Vnc.thy ===== *)
theory Vnc
  imports Des Errors Vmware_Text "HOL-Library.Char_ord" "HOL-Library.List_Lexorder"
begin

text \<open>
  The RFB client of \<open>screen/vnc.py\<close> on the bytes of one connection, the PNG it writes, and the blank test of \<open>screen/png.py\<close>.
  zlib's compressor and decompressor are parameters.
\<close>

section \<open>Numbers in messages\<close>

definition be_value :: "string \<Rightarrow> nat" where
  "be_value s = foldl (\<lambda>n c. 256 * n + ord c) 0 s"

definition be16 :: "nat \<Rightarrow> string" where
  "be16 n = [cc (n div 256), cc n]"

definition be32 :: "nat \<Rightarrow> string" where
  "be32 n = [cc (n div 16777216), cc (n div 65536), cc (n div 256), cc n]"

abbreviation NUL :: char where "NUL \<equiv> CHR 0x00"

section \<open>A connection\<close>

text \<open>What the server sends before the timeout, and what happens when more is read: it stalls or it has closed. The outcomes of
  the next flushes, all well once the list is empty.\<close>

record rfb =
  rb_in :: string
  rb_stalls :: bool
  rb_flushes :: "bool list"
  rb_out :: string

type_synonym 'a rfb_prog = "(rfb, 'a) app"

definition recv :: "nat \<Rightarrow> string rfb_prog" where
  "recv n w =
     (if n \<le> length (rb_in w) then (Inr (take n (rb_in w)), w\<lparr>rb_in := drop n (rb_in w)\<rparr>)
      else (Inl (if rb_stalls w then Timeout_Exn else Exn ''IncompleteReadError''), w\<lparr>rb_in := []\<rparr>))"

definition emit :: "string \<Rightarrow> unit rfb_prog" where
  "emit s w = (Inr (), w\<lparr>rb_out := rb_out w @ s\<rparr>)"

definition flush :: "unit rfb_prog" where
  "flush w =
     (case rb_flushes w of
        [] \<Rightarrow> (Inr (), w)
      | ok # oks \<Rightarrow> (if ok then Inr () else Inl (Exn ''OSError''), w\<lparr>rb_flushes := oks\<rparr>))"

section \<open>The handshake\<close>

definition reply_version :: "string \<Rightarrow> string" where
  "reply_version version = (if ''003.007'' \<le> version then ''RFB 003.008'' else ''RFB 003.003'') @ [NL]"

definition choose_security :: "string \<Rightarrow> string \<Rightarrow> nat" where
  "choose_security password types =
     (if password \<noteq> [] \<and> cc 2 \<in> set types then 2 else if cc 1 \<in> set types then 1 else ord (hd types))"

definition negotiate :: "string \<Rightarrow> string \<Rightarrow> nat rfb_prog" where
  "negotiate password version =
     (if ''003.007'' \<le> version then
        bindE (recv 1) (\<lambda>count.
          if count = [NUL] then throw BACKEND_ERROR
          else bindE (recv (be_value count)) (\<lambda>types.
            let chosen = choose_security password types
            in thenE (emit [cc chosen]) (thenE flush (ret chosen))))
      else bindE (recv 4) (\<lambda>b. ret (be_value b)))"

definition authenticate :: "string \<Rightarrow> string \<Rightarrow> nat \<Rightarrow> unit rfb_prog" where
  "authenticate password version chosen =
     thenE (if chosen = 2
            then bindE (recv 16) (\<lambda>challenge. thenE (emit (vnc_response challenge password)) flush)
            else ret ())
       (if chosen = 2 \<or> ''003.008'' \<le> version
        then bindE (recv 4) (\<lambda>b. if be_value b \<noteq> 0 then throw BACKEND_ERROR else ret ())
        else ret ())"

definition handshake :: "string \<Rightarrow> (nat \<times> nat) rfb_prog" where
  "handshake password =
     bindE (recv 12) (\<lambda>server_version.
     let version = take 7 (drop 4 server_version) in
     thenE (emit (reply_version version))
     (thenE flush
     (bindE (negotiate password version) (\<lambda>chosen.
      thenE (authenticate password version chosen)
      (thenE (emit [cc 1])
      (thenE flush
      (bindE (recv 24) (\<lambda>header.
       bindE (recv (be_value (take 4 (drop 20 header)))) (\<lambda>_.
         ret (be_value (take 2 header), be_value (take 2 (drop 2 header))))))))))))"

section \<open>Input events\<close>

definition key_event :: "int \<times> bool \<Rightarrow> string" where
  "key_event e = (case e of (keysym, down) \<Rightarrow> [cc 4, if down then cc 1 else NUL, NUL, NUL] @ be32 (nat keysym))"

definition pointer_event :: "nat \<times> nat \<times> nat \<Rightarrow> string" where
  "pointer_event e = (case e of (buttons, x, y) \<Rightarrow> [cc 5, cc buttons] @ be16 x @ be16 y)"

definition send_events :: "('a \<Rightarrow> string) \<Rightarrow> string \<Rightarrow> 'a list \<Rightarrow> nat rfb_prog" where
  "send_events encode password events =
     bindE (handshake password) (\<lambda>_.
     thenE (emit (concat (map encode events))) (thenE flush (ret (length events))))"

section \<open>Reading the framebuffer\<close>

text \<open>The pixels of a rectangle, in the order of the two loops. An index behind the canvas raises IndexError.\<close>

fun paint :: "nat \<Rightarrow> nat \<Rightarrow> nat \<Rightarrow> nat \<Rightarrow> string \<Rightarrow> (nat \<times> nat) list \<Rightarrow> string \<Rightarrow> string option" where
  "paint width x y w pixels [] canvas = Some canvas"
| "paint width x y w pixels ((row, col) # at) canvas =
     (let v = be_value (rev (take 4 (drop ((row * w + col) * 4) pixels)));
          dst = ((y + row) * width + (x + col)) * 3
      in if length canvas \<le> dst + 2 then None
         else paint width x y w pixels at
                (canvas[dst := cc (v div 65536), dst + 1 := cc (v div 256), dst + 2 := cc v]))"

definition cells :: "nat \<Rightarrow> nat \<Rightarrow> (nat \<times> nat) list" where
  "cells w h = concat (map (\<lambda>row. map (\<lambda>col. (row, col)) [0..<w]) [0..<h])"

definition read_rect :: "nat \<Rightarrow> string \<times> nat \<Rightarrow> (string \<times> nat) rfb_prog" where
  "read_rect width cp =
     (case cp of (canvas, painted) \<Rightarrow>
        bindE (recv 12) (\<lambda>b.
        let x = be_value (take 2 b); y = be_value (take 2 (drop 2 b)); w = be_value (take 2 (drop 4 b));
            h = be_value (take 2 (drop 6 b)); enc = be_value (drop 8 b)
        in if enc \<noteq> 0 then throw BACKEND_ERROR
           else bindE (recv (w * h * 4)) (\<lambda>pixels.
             case paint width x y w pixels (cells w h) canvas of
               None \<Rightarrow> raise (Exn ''IndexError'')
             | Some canvas2 \<Rightarrow> ret (canvas2, painted + w * h))))"

primrec read_rects :: "nat \<Rightarrow> nat \<Rightarrow> string \<times> nat \<Rightarrow> (string \<times> nat) rfb_prog" where
  "read_rects width 0 cp = ret cp"
| "read_rects width (Suc n) cp = bindE (read_rect width cp) (read_rects width n)"

definition read_update :: "nat \<Rightarrow> string \<times> nat \<Rightarrow> (string \<times> nat) rfb_prog" where
  "read_update width cp = bindE (recv 3) (\<lambda>b. read_rects width (be_value (drop 1 b)) cp)"

text \<open>One message: an update, or another one with the body the client takes it to have.\<close>

definition read_message :: "nat \<Rightarrow> string \<times> nat \<Rightarrow> (string \<times> nat) rfb_prog" where
  "read_message width cp =
     bindE (recv 1) (\<lambda>t.
       if t = [NUL] then read_update width cp
       else thenE (recv (if t = [cc 3] then 3 else 0)) (ret cp))"

subsection \<open>Every message takes bytes off the input\<close>

definition input_within :: "nat \<Rightarrow> rfb \<Rightarrow> bool" where
  "input_within n w = (length (rb_in w) \<le> n)"

lemma within_recv: "preserves (input_within n) (recv k)"
  by (rule preservesI) (auto simp: recv_def input_within_def)

lemma within_rects: "preserves (input_within n) (read_rects width k cp)"
proof (induction k arbitrary: cp)
  case (Suc k)
  have "preserves (input_within n) (read_rect width cp)"
    unfolding read_rect_def Let_def
    by (auto intro!: preserves_bindE within_recv preserves_if preserves_throw split: prod.split option.split)
  then show ?case using Suc.IH by (auto intro!: preserves_bindE)
qed simp

lemma within_update: "preserves (input_within n) (read_update width cp)"
  unfolding read_update_def by (intro preserves_bindE within_recv within_rects)

lemma read_message_consumes:
  assumes "read_message width cp w = (Inr cp2, w2)"
  shows "length (rb_in w2) < length (rb_in w)"
proof -
  obtain t w1 where r: "recv 1 w = (Inr t, w1)"
    using assms by (auto simp: read_message_def bindE_def split: prod.splits sum.splits)
  then have less: "length (rb_in w1) < length (rb_in w)" by (auto simp: recv_def split: if_splits)
  let ?m = "if t = [NUL] then read_update width cp else thenE (recv (if t = [cc 3] then 3 else 0)) (ret cp)"
  have m: "?m w1 = (Inr cp2, w2)" using assms r by (simp add: read_message_def bindE_def)
  have "preserves (input_within (length (rb_in w1))) ?m"
    by (intro preserves_if within_update preserves_thenE within_recv preserves_ret)
  then have "length (rb_in w2) \<le> length (rb_in w1)"
    using preservesD [of "input_within (length (rb_in w1))" ?m w1] unfolding m by (simp add: input_within_def)
  then show ?thesis using less by simp
qed

function read_loop :: "nat \<Rightarrow> nat \<Rightarrow> string \<times> nat \<Rightarrow> string rfb_prog" where
  "read_loop width height cp w =
     (if width * height \<le> snd cp then (Inr (fst cp), w)
      else case read_message width cp w of
             (Inl e, w1) \<Rightarrow> (Inl e, w1)
           | (Inr cp2, w1) \<Rightarrow> read_loop width height cp2 w1)"
  by pat_completeness auto
termination
  by (relation "measure (\<lambda>(width, height, cp, w). length (rb_in w))") (auto dest: read_message_consumes [OF sym])

declare read_loop.simps [simp del]

definition read_framebuffer :: "nat \<Rightarrow> nat \<Rightarrow> string rfb_prog" where
  "read_framebuffer width height = read_loop width height (replicate (width * height * 3) NUL, 0)"

section \<open>PNG\<close>

definition PNG_MAGIC :: string where
  "PNG_MAGIC = [cc 0x89] @ ''PNG'' @ [CR, NL, cc 0x1A, NL]"

definition png_chunk :: "string \<Rightarrow> string \<Rightarrow> string" where
  "png_chunk tag data = be32 (length data) @ tag @ data @ be32 (unat (crc32 (tag @ data)))"

definition png_rows :: "nat \<Rightarrow> nat \<Rightarrow> string \<Rightarrow> string" where
  "png_rows width height rgb =
     concat (map (\<lambda>y. NUL # take (width * 3) (drop (y * (width * 3)) rgb)) [0..<height])"

definition png :: "(string \<Rightarrow> string) \<Rightarrow> nat \<Rightarrow> nat \<Rightarrow> string \<Rightarrow> string" where
  "png compress width height rgb =
     PNG_MAGIC @ png_chunk ''IHDR'' (be32 width @ be32 height @ [cc 8, cc 2, NUL, NUL, NUL]) @
     png_chunk ''IDAT'' (compress (png_rows width height rgb)) @ png_chunk ''IEND'' []"

text \<open>\<open>is_blank_png\<close> on the bytes of the file, None for one that cannot be read.\<close>

function png_idat :: "nat \<Rightarrow> string \<Rightarrow> string" where
  "png_idat pos raw =
     (if pos + 8 \<le> length raw then
        let n = be_value (take 4 (drop pos raw)); kind = take 4 (drop (pos + 4) raw)
        in if kind = ''IEND'' then []
           else (if kind = ''IDAT'' then take n (drop (pos + 8) raw) else []) @ png_idat (pos + 12 + n) raw
      else [])"
  by pat_completeness auto
termination
  by (relation "measure (\<lambda>(pos, raw). length raw - pos)") auto

declare png_idat.simps [simp del]

definition is_blank_png :: "(string \<Rightarrow> string option) \<Rightarrow> string option \<Rightarrow> bool" where
  "is_blank_png decompress file =
     (case file of
        None \<Rightarrow> False
      | Some raw \<Rightarrow>
          if \<not> starts_with PNG_MAGIC raw then False
          else let idat = png_idat (length PNG_MAGIC) raw
               in if idat = [] then False
                  else (case decompress idat of None \<Rightarrow> False | Some data \<Rightarrow> list_all (\<lambda>c. c = NUL) data))"

section \<open>Capturing\<close>

definition pixel_format :: string where
  "pixel_format = [cc 32, cc 24, NUL, cc 1] @ be16 255 @ be16 255 @ be16 255 @ [cc 16, cc 8, NUL, NUL, NUL, NUL]"

definition update_request :: "nat \<Rightarrow> nat \<Rightarrow> string" where
  "update_request width height =
     [NUL, NUL, NUL, NUL] @ pixel_format @ [cc 2, NUL] @ be16 1 @ be32 0 @
     [cc 3, NUL] @ be16 0 @ be16 0 @ be16 width @ be16 height"

definition capture_screen :: "string \<Rightarrow> (nat \<times> nat \<times> string) rfb_prog" where
  "capture_screen password =
     bindE (handshake password) (\<lambda>(width, height).
       if width = 0 \<or> height = 0 then throw BACKEND_ERROR
       else thenE (emit (update_request width height))
              (thenE flush (bindE (read_framebuffer width height) (\<lambda>rgb. ret (width, height, rgb)))))"

text \<open>\<open>capture\<close> and \<open>_run_rfb\<close> turn the failures of a connection into errors of the daemon.\<close>

definition rfb_errors :: "exn \<Rightarrow> exn" where
  "rfb_errors x =
     (if x = Timeout_Exn then Nt (nt_err TIMEOUT)
      else if x = Exn ''OSError'' \<or> x = Exn ''IncompleteReadError'' then Nt (nt_err BACKEND_ERROR)
      else x)"

end
