(* ===== verification/Vnc_Properties.thy ===== *)
theory Vnc_Properties
  imports Vnc
begin

text \<open>
  What the VNC client shows is what the server drew: the canvas it reads refines the picture of the rectangles of the updates, drawn
  one over the other. Then the blank test of \<open>screen/png.py\<close> on the image the client writes, and the cipher of the password.
\<close>

section \<open>Numbers\<close>

lemma be_value_snoc: "be_value (s @ [c]) = 256 * be_value s + ord c"
  by (simp add: be_value_def)

lemma be_value_Nil [simp]: "be_value [] = 0"
  by (simp add: be_value_def)

lemma be_value_be16: "n < 65536 \<Longrightarrow> be_value (be16 n) = n"
proof -
  assume n: "n < 65536"
  then have "n div 256 < 256" by simp
  then show ?thesis by (simp add: be_value_def be16_def)
qed

lemma be_value_be32: "n < 4294967296 \<Longrightarrow> be_value (be32 n) = n"
proof -
  assume n: "n < 4294967296"
  have step: "256 * (n div (256 * m)) + n div m mod 256 = n div m" for m
    by (metis div_mult2_eq mult.commute mult_div_mod_eq)
  have "n div 16777216 mod 256 = n div 16777216" using n by simp
  then show ?thesis using step [of 65536] step [of 256] step [of 1] by (simp add: be_value_def be32_def)
qed

lemma be16_length [simp]: "length (be16 n) = 2" and be32_length [simp]: "length (be32 n) = 4"
  by (simp_all add: be16_def be32_def)

section \<open>What a server draws\<close>

type_synonym colour = "char \<times> char \<times> char"

text \<open>A raw rectangle: its place, and its pixels row by row, each with the byte that carries no colour.\<close>

record server_rect =
  sr_x :: nat
  sr_y :: nat
  sr_w :: nat
  sr_h :: nat
  sr_pixels :: "(colour \<times> char) list"

datatype server_msg = Bell | Update "server_rect list"

definition wire_pixel :: "colour \<times> char \<Rightarrow> string" where
  "wire_pixel p = (case p of ((r, g, b), pad) \<Rightarrow> [b, g, r, pad])"

definition wire_rect :: "server_rect \<Rightarrow> string" where
  "wire_rect q =
     be16 (sr_x q) @ be16 (sr_y q) @ be16 (sr_w q) @ be16 (sr_h q) @ be32 0 @ concat (map wire_pixel (sr_pixels q))"

primrec wire_msg :: "server_msg \<Rightarrow> string" where
  "wire_msg Bell = [cc 2]"
| "wire_msg (Update qs) = [NUL, NUL] @ be16 (length qs) @ concat (map wire_rect qs)"

definition rect_fits :: "nat \<Rightarrow> nat \<Rightarrow> server_rect \<Rightarrow> bool" where
  "rect_fits W H q =
     (sr_x q + sr_w q \<le> W \<and> sr_y q + sr_h q \<le> H \<and> length (sr_pixels q) = sr_w q * sr_h q)"

primrec msg_fits :: "nat \<Rightarrow> nat \<Rightarrow> server_msg \<Rightarrow> bool" where
  "msg_fits W H Bell = True"
| "msg_fits W H (Update qs) = (length qs < 65536 \<and> list_all (rect_fits W H) qs)"

primrec msg_area :: "server_msg \<Rightarrow> nat" where
  "msg_area Bell = 0"
| "msg_area (Update qs) = sum_list (map (\<lambda>q. sr_w q * sr_h q) qs)"

type_synonym picture = "nat \<times> nat \<Rightarrow> colour"

definition draw :: "server_rect \<Rightarrow> picture \<Rightarrow> picture" where
  "draw q pic =
     (\<lambda>(px, py). if sr_x q \<le> px \<and> px < sr_x q + sr_w q \<and> sr_y q \<le> py \<and> py < sr_y q + sr_h q
                 then fst (sr_pixels q ! ((py - sr_y q) * sr_w q + (px - sr_x q))) else pic (px, py))"

primrec draw_msg :: "server_msg \<Rightarrow> picture \<Rightarrow> picture" where
  "draw_msg Bell pic = pic"
| "draw_msg (Update qs) pic = fold draw qs pic"

definition black :: picture where
  "black = (\<lambda>p. (NUL, NUL, NUL))"

section \<open>The canvas shows a picture\<close>

definition pixel :: "nat \<Rightarrow> string \<Rightarrow> nat \<times> nat \<Rightarrow> colour" where
  "pixel W canvas p = (case p of (x, y) \<Rightarrow> let d = (y * W + x) * 3 in (canvas ! d, canvas ! (d + 1), canvas ! (d + 2)))"

definition shown :: "nat \<Rightarrow> nat \<Rightarrow> string \<Rightarrow> picture \<Rightarrow> bool" where
  "shown W H canvas pic = (length canvas = W * H * 3 \<and> (\<forall>x < W. \<forall>y < H. pixel W canvas (x, y) = pic (x, y)))"

lemma cell_inj: "x < W \<Longrightarrow> x' < W \<Longrightarrow> y * W + x = y' * W + x' \<Longrightarrow> x = x' \<and> y = (y' :: nat)"
  by (metis div_mult_self3 add.right_neutral div_less mod_less mod_mult_self3 mult.commute not_less0)

lemma cell_bound: "x < W \<Longrightarrow> y < H \<Longrightarrow> y * W + x < W * (H :: nat)"
proof -
  assume "x < W" "y < H"
  then have "y * W + x < Suc y * W" by simp
  also have "\<dots> \<le> H * W" using \<open>y < H\<close> by (intro mult_le_mono1) simp
  finally show ?thesis by (simp add: mult.commute)
qed

lemma put3_other: "k \<notin> {d, d + 1, d + 2} \<Longrightarrow> (xs[d := r, d + 1 := g, d + 2 := b]) ! k = xs ! k"
  by simp

lemma shown_put:
  assumes s: "shown W H canvas pic" and x: "x < W" "y < H" and d: "d = (y * W + x) * 3"
  shows "shown W H (canvas[d := r, d + 1 := g, d + 2 := b]) (pic((x, y) := (r, g, b)))"
proof -
  have len: "length canvas = W * H * 3" using s by (simp add: shown_def)
  have bound: "d + 2 < length canvas" using cell_bound [OF x] len d by simp
  have "pixel W (canvas[d := r, d + 1 := g, d + 2 := b]) (x', y') = (pic((x, y) := (r, g, b))) (x', y')"
    if "x' < W" "y' < H" for x' y'
  proof (cases "(x', y') = (x, y)")
    case True
    then show ?thesis using bound d by (simp add: pixel_def)
  next
    case False
    have ne: "y * W + x \<noteq> y' * W + x'" by (rule notI) (drule cell_inj [OF x(1) that(1)], use False in simp)
    define a where "a = y * W + x"
    define e where "e = y' * W + x'"
    have "e \<noteq> a" using ne by (simp add: a_def e_def)
    then have "e * 3 + i \<notin> {d, d + 1, d + 2}" if "i < 3" for i
      using that unfolding d a_def [symmetric] insert_iff empty_iff by presburger
    from this [of 0] this [of 1] this [of 2]
    have "pixel W (canvas[d := r, d + 1 := g, d + 2 := b]) (x', y') = pixel W canvas (x', y')"
      unfolding pixel_def prod.case Let_def e_def [symmetric] by (simp only: put3_other add_0_right) simp
    then show ?thesis using s that False by (auto simp: shown_def)
  qed
  then show ?thesis using len by (simp add: shown_def)
qed

section \<open>Painting a rectangle\<close>

definition stroke_at :: "nat \<Rightarrow> nat \<Rightarrow> nat \<Rightarrow> (colour \<times> char) list \<Rightarrow> nat \<times> nat \<Rightarrow> picture \<Rightarrow> picture" where
  "stroke_at x y w ps c pic = (case c of (row, col) \<Rightarrow> pic((x + col, y + row) := fst (ps ! (row * w + col))))"

lemma wire_pixels_nth:
  "i < length ps \<Longrightarrow> take 4 (drop (i * 4) (concat (map wire_pixel ps))) = wire_pixel (ps ! i)"
proof (induction ps arbitrary: i)
  case (Cons p ps)
  have l: "length (wire_pixel p) = 4" by (auto simp: wire_pixel_def split: prod.splits)
  show ?case using Cons l by (cases i) simp_all
qed simp

lemma wire_pixel_value:
  assumes "v = be_value (rev (wire_pixel ((r, g, b), pad)))"
  shows "cc (v div 65536) = r" "cc (v div 256) = g" "cc v = b"
proof -
  have lt: "ord r < 256" "ord g < 256" "ord b < 256" by (simp_all add: ord_def)
  have v: "v = 256 * (256 * (256 * ord pad + ord r) + ord g) + ord b"
    using assms by (simp add: wire_pixel_def be_value_def)
  have "v div 256 = 256 * (256 * ord pad + ord r) + ord g" using lt by (simp add: v)
  moreover from this have "v div 65536 = 256 * ord pad + ord r"
    using lt div_mult2_eq [of v 256 256] by simp
  ultimately show "cc (v div 65536) = r" "cc (v div 256) = g" "cc v = b" by (simp_all only: v cc_plus cc_ord)
qed

lemma paint_shown:
  assumes "shown W H canvas pic" "x + w \<le> W" "y + h \<le> H" "length ps = w * h"
    and "\<forall>(row, col) \<in> set at. row < h \<and> col < w"
  shows "\<exists>canvas2. paint W x y w (concat (map wire_pixel ps)) at canvas = Some canvas2 \<and>
           shown W H canvas2 (fold (stroke_at x y w ps) at pic)"
  using assms
proof (induction at arbitrary: canvas pic)
  case (Cons c at)
  obtain row col where c: "c = (row, col)" by fastforce
  have rc: "row < h" "col < w" using Cons.prems(5) c by auto
  have i: "row * w + col < length ps" using cell_bound [OF rc(2,1)] Cons.prems(4) by simp
  obtain r g b pad where p: "ps ! (row * w + col) = ((r, g, b), pad)" by (metis prod.exhaust)
  define d where "d = ((y + row) * W + (x + col)) * 3"
  have xy: "x + col < W" "y + row < H" using rc Cons.prems(2,3) by simp_all
  have bound: "d + 2 < length canvas" using cell_bound [OF xy] Cons.prems(1) by (simp add: shown_def d_def)
  let ?v = "be_value (rev (take 4 (drop ((row * w + col) * 4) (concat (map wire_pixel ps)))))"
  have v: "cc (?v div 65536) = r" "cc (?v div 256) = g" "cc ?v = b"
    by (rule wire_pixel_value; simp only: wire_pixels_nth [OF i] p)+
  let ?canvas = "canvas[d := r, d + 1 := g, d + 2 := b]"
  have sh: "shown W H ?canvas (stroke_at x y w ps c pic)"
    using shown_put [OF Cons.prems(1) xy d_def, of r g b] by (simp only: stroke_at_def c prod.case p fst_conv)
  have "paint W x y w (concat (map wire_pixel ps)) (c # at) canvas = paint W x y w (concat (map wire_pixel ps)) at ?canvas"
    unfolding c paint.simps Let_def v d_def [symmetric] using bound by (simp only: not_le [symmetric] if_False)
  then show ?case using Cons.IH [OF sh Cons.prems(2-4)] Cons.prems(5) by simp
qed simp

lemma fold_strokes:
  assumes "\<forall>c \<in> set at. snd c < w"
  shows "fold (stroke_at x y w ps) at pic (px, py) =
    (if (\<exists>(row, col) \<in> set at. px = x + col \<and> py = y + row) then fst (ps ! ((py - y) * w + (px - x))) else pic (px, py))"
  using assms
proof (induction at arbitrary: pic)
  case (Cons c at)
  obtain row col where c: "c = (row, col)" by fastforce
  have "fold (stroke_at x y w ps) (c # at) pic (px, py) = fold (stroke_at x y w ps) at (stroke_at x y w ps c pic) (px, py)" by simp
  also have "\<dots> = (if (\<exists>(row, col) \<in> set at. px = x + col \<and> py = y + row) then fst (ps ! ((py - y) * w + (px - x)))
      else stroke_at x y w ps c pic (px, py))" by (rule Cons.IH) (use Cons.prems in simp)
  also have "\<dots> = (if (\<exists>(row, col) \<in> set (c # at). px = x + col \<and> py = y + row) then fst (ps ! ((py - y) * w + (px - x)))
      else pic (px, py))" by (auto simp: stroke_at_def c)
  finally show ?case .
qed simp

lemma cells_set: "set (cells w h) = {(row, col). row < h \<and> col < w}"
  by (auto simp: cells_def)

lemma fold_cells: "fold (stroke_at (sr_x q) (sr_y q) (sr_w q) (sr_pixels q)) (cells (sr_w q) (sr_h q)) pic = draw q pic"
proof
  fix p :: "nat \<times> nat"
  obtain px py where p: "p = (px, py)" by fastforce
  have "(\<exists>(row, col) \<in> set (cells (sr_w q) (sr_h q)). px = sr_x q + col \<and> py = sr_y q + row) \<longleftrightarrow>
        sr_x q \<le> px \<and> px < sr_x q + sr_w q \<and> sr_y q \<le> py \<and> py < sr_y q + sr_h q"
    unfolding cells_set by (auto simp: nat_le_iff_add)
  then show "fold (stroke_at (sr_x q) (sr_y q) (sr_w q) (sr_pixels q)) (cells (sr_w q) (sr_h q)) pic p = draw q pic p"
    unfolding p by (subst fold_strokes) (auto simp: draw_def cells_set)
qed

section \<open>Reading messages\<close>

lemma recv_append: "length s = n \<Longrightarrow> recv n (w\<lparr>rb_in := s @ t\<rparr>) = (Inr s, w\<lparr>rb_in := t\<rparr>)"
  by (simp add: recv_def)

lemma read_rect_shown:
  assumes s: "shown W H canvas pic" and q: "rect_fits W H q" and small: "W < 65536" "H < 65536"
  shows "\<exists>canvas2. read_rect W (canvas, n) (w\<lparr>rb_in := wire_rect q @ t\<rparr>) =
             (Inr (canvas2, n + sr_w q * sr_h q), w\<lparr>rb_in := t\<rparr>) \<and> shown W H canvas2 (draw q pic)"
proof -
  let ?px = "concat (map wire_pixel (sr_pixels q))"
  let ?hd = "be16 (sr_x q) @ be16 (sr_y q) @ be16 (sr_w q) @ be16 (sr_h q) @ be32 0"
  have fit: "sr_x q + sr_w q \<le> W" "sr_y q + sr_h q \<le> H" "length (sr_pixels q) = sr_w q * sr_h q"
    using q by (simp_all add: rect_fits_def)
  have "sr_x q < 65536" "sr_y q < 65536" "sr_w q < 65536" "sr_h q < 65536" using fit small by simp_all
  then have head: "be_value (take 2 ?hd) = sr_x q" "be_value (take 2 (drop 2 ?hd)) = sr_y q"
    "be_value (take 2 (drop 4 ?hd)) = sr_w q" "be_value (take 2 (drop 6 ?hd)) = sr_h q" "be_value (drop 8 ?hd) = 0"
    by (simp_all add: be_value_be16 be_value_be32)
  have "length (wire_pixel p) = 4" for p by (auto simp: wire_pixel_def split: prod.splits)
  then have plen: "length ?px = sr_w q * sr_h q * 4" using fit(3) by (simp add: length_concat sum_list_triv comp_def)
  obtain canvas2 where c: "paint W (sr_x q) (sr_y q) (sr_w q) ?px (cells (sr_w q) (sr_h q)) canvas = Some canvas2"
      "shown W H canvas2 (draw q pic)"
    using paint_shown [OF s fit, of "cells (sr_w q) (sr_h q)"] by (auto simp: cells_set fold_cells)
  have "wire_rect q @ t = ?hd @ (?px @ t)" by (simp add: wire_rect_def)
  then have r1: "recv 12 (w\<lparr>rb_in := wire_rect q @ t\<rparr>) = (Inr ?hd, w\<lparr>rb_in := ?px @ t\<rparr>)"
    using recv_append [of ?hd 12 "?px @ t" w] by simp
  have r2: "recv (sr_w q * sr_h q * 4) (w\<lparr>rb_in := ?px @ t\<rparr>) = (Inr ?px, w\<lparr>rb_in := t\<rparr>)" by (rule recv_append [OF plen])
  have "read_rect W (canvas, n) (w\<lparr>rb_in := wire_rect q @ t\<rparr>) = (Inr (canvas2, n + sr_w q * sr_h q), w\<lparr>rb_in := t\<rparr>)"
    unfolding read_rect_def prod.case bindE_Inr [where m = "recv 12", OF r1] Let_def head simp_thms if_False
    unfolding not_True_eq_False if_False bindE_Inr [where m = "recv (sr_w q * sr_h q * 4)", OF r2] c(1) option.case ret_def by simp
  then show ?thesis using c(2) by blast
qed

lemma read_rects_shown:
  assumes "W < 65536" "H < 65536"
  shows "shown W H canvas pic \<Longrightarrow> list_all (rect_fits W H) qs \<Longrightarrow>
     \<exists>canvas2. read_rects W (length qs) (canvas, n) (w\<lparr>rb_in := concat (map wire_rect qs) @ t\<rparr>) =
       (Inr (canvas2, n + sum_list (map (\<lambda>q. sr_w q * sr_h q) qs)), w\<lparr>rb_in := t\<rparr>) \<and> shown W H canvas2 (fold draw qs pic)"
proof (induction qs arbitrary: canvas pic n)
  case Nil
  then show ?case by (simp add: ret_def)
next
  case (Cons q qs)
  obtain canvas1 where r: "read_rect W (canvas, n) (w\<lparr>rb_in := wire_rect q @ concat (map wire_rect qs) @ t\<rparr>) =
      (Inr (canvas1, n + sr_w q * sr_h q), w\<lparr>rb_in := concat (map wire_rect qs) @ t\<rparr>)" "shown W H canvas1 (draw q pic)"
    using read_rect_shown [where q = q and n = n and w = w and t = "concat (map wire_rect qs) @ t", OF Cons.prems(1) _ assms]
      Cons.prems(2) by auto
  show ?case
    using Cons.IH [OF r(2), of "n + sr_w q * sr_h q"] Cons.prems(2) by (simp add: bindE_Inr [where m = "read_rect W (canvas, n)", OF r(1)] add.assoc)
qed

lemma read_message_shown:
  assumes "W < 65536" "H < 65536" "shown W H canvas pic" "msg_fits W H m"
  shows "\<exists>canvas2. read_message W (canvas, n) (w\<lparr>rb_in := wire_msg m @ t\<rparr>) = (Inr (canvas2, n + msg_area m), w\<lparr>rb_in := t\<rparr>) \<and>
           shown W H canvas2 (draw_msg m pic)"
proof (cases m)
  case Bell
  have two: "cc 2 \<noteq> NUL" "cc 2 \<noteq> cc 3" by code_simp+
  have r: "recv 1 (w\<lparr>rb_in := cc 2 # t\<rparr>) = (Inr [cc 2], w\<lparr>rb_in := t\<rparr>)" using recv_append [of "[cc 2]" 1 t w] by simp
  have "read_message W (canvas, n) (w\<lparr>rb_in := wire_msg m @ t\<rparr>) = (Inr (canvas, n), w\<lparr>rb_in := t\<rparr>)"
    using two by (simp add: Bell read_message_def bindE_Inr [where m = "recv (Suc 0)", OF r [unfolded One_nat_def]] recv_def thenE_def bindE_def ret_def)
  then show ?thesis using assms(3) by (simp add: Bell)
next
  case (Update qs)
  have fits: "length qs < 65536" "list_all (rect_fits W H) qs" using assms(4) by (simp_all add: Update)
  let ?t = "concat (map wire_rect qs) @ t"
  have r: "recv 1 (w\<lparr>rb_in := wire_msg m @ t\<rparr>) = (Inr [NUL], w\<lparr>rb_in := (NUL # be16 (length qs)) @ ?t\<rparr>)"
    using recv_append [of "[NUL]" 1 "(NUL # be16 (length qs)) @ ?t" w] by (simp add: Update)
  have r2: "recv 3 (w\<lparr>rb_in := (NUL # be16 (length qs)) @ ?t\<rparr>) = (Inr (NUL # be16 (length qs)), w\<lparr>rb_in := ?t\<rparr>)"
    by (rule recv_append) simp
  show ?thesis
    unfolding read_message_def bindE_Inr [where m = "recv 1", OF r] if_P [OF refl] read_update_def
      bindE_Inr [where m = "recv 3", OF r2] using fits(1) read_rects_shown [where n = n and w = w and t = t, OF assms(1-3) fits(2)]
    by (simp add: be_value_be16) (simp add: Update)
qed

text \<open>The messages a screen takes: the client reads until the rectangles add up to it.\<close>

fun completes :: "nat \<Rightarrow> server_msg list \<Rightarrow> bool" where
  "completes n [] = (n = 0)"
| "completes n (m # ms) = (0 < n \<and> completes (n - msg_area m) ms)"

lemma read_loop_shown:
  assumes "W < 65536" "H < 65536"
  shows "shown W H canvas pic \<Longrightarrow> list_all (msg_fits W H) ms \<Longrightarrow> completes (W * H - n) ms \<Longrightarrow>
     \<exists>canvas2. read_loop W H (canvas, n) (w\<lparr>rb_in := concat (map wire_msg ms) @ t\<rparr>) = (Inr canvas2, w\<lparr>rb_in := t\<rparr>) \<and>
       shown W H canvas2 (fold draw_msg ms pic)"
proof (induction ms arbitrary: canvas pic n)
  case Nil
  then show ?case by (simp add: read_loop.simps)
next
  case (Cons m ms)
  obtain canvas1 where r: "read_message W (canvas, n) (w\<lparr>rb_in := wire_msg m @ concat (map wire_msg ms) @ t\<rparr>) =
      (Inr (canvas1, n + msg_area m), w\<lparr>rb_in := concat (map wire_msg ms) @ t\<rparr>)" "shown W H canvas1 (draw_msg m pic)"
    using read_message_shown [where m = m and n = n and w = w and t = "concat (map wire_msg ms) @ t", OF assms Cons.prems(1)]
      Cons.prems(2) by auto
  have "completes (W * H - (n + msg_area m)) ms" "\<not> W * H \<le> n" using Cons.prems(3) by simp_all
  then show ?case using Cons.IH [OF r(2)] Cons.prems(2) r(1) by (simp add: read_loop.simps [of W H "(canvas, n)"])
qed

lemma shown_black: "shown W H (replicate (W * H * 3) NUL) black"
proof -
  have "pixel W (replicate (W * H * 3) NUL) (x, y) = (NUL, NUL, NUL)" if "x < W" "y < H" for x y
    using cell_bound [OF that] by (simp add: pixel_def)
  then show ?thesis by (simp add: shown_def black_def)
qed

section \<open>The blank test\<close>

lemma png_idat_chunk:
  assumes "length tag = 4" "length data < 4294967296" "tag \<noteq> ''IEND''"
  shows "png_idat (length pre) (pre @ png_chunk tag data @ rest) =
           (if tag = ''IDAT'' then data else []) @ png_idat (length (pre @ png_chunk tag data)) ((pre @ png_chunk tag data) @ rest)"
proof -
  let ?raw = "pre @ png_chunk tag data @ rest"
  have d: "drop (length pre) ?raw = be32 (length data) @ tag @ data @ be32 (unat (crc32 (tag @ data))) @ rest"
    "drop (length pre + 4) ?raw = tag @ data @ be32 (unat (crc32 (tag @ data))) @ rest"
    "drop (length pre + 8) ?raw = data @ be32 (unat (crc32 (tag @ data))) @ rest"
    using assms(1) by (simp_all add: png_chunk_def)
  have n: "be_value (take 4 (drop (length pre) ?raw)) = length data" "take 4 (drop (length pre + 4) ?raw) = tag"
    "take (length data) (drop (length pre + 8) ?raw) = data"
    unfolding d using assms(1,2) by (simp_all add: be_value_be32)
  have l: "length pre + 8 \<le> length ?raw" "length pre + 12 + length data = length (pre @ png_chunk tag data)"
    using assms(1) by (simp_all add: png_chunk_def)
  show ?thesis unfolding png_idat.simps [of "length pre"] Let_def n if_P [OF l(1)] l(2) using assms(3) by simp
qed

lemma png_idat_end: "png_idat (length pre) (pre @ png_chunk ''IEND'' []) = []"
  by (subst png_idat.simps) (simp add: png_chunk_def be_value_be32)

lemma png_idat_png:
  assumes "length (compress (png_rows W H rgb)) < 4294967296"
  shows "png_idat (length PNG_MAGIC) (png compress W H rgb) = compress (png_rows W H rgb)"
proof -
  let ?head = "be32 W @ be32 H @ [cc 8, cc 2, NUL, NUL, NUL]" and ?data = "compress (png_rows W H rgb)"
  have "png_idat (length PNG_MAGIC) (png compress W H rgb) =
        png_idat (length (PNG_MAGIC @ png_chunk ''IHDR'' ?head))
          ((PNG_MAGIC @ png_chunk ''IHDR'' ?head) @ png_chunk ''IDAT'' ?data @ png_chunk ''IEND'' [])"
    using png_idat_chunk [of "''IHDR''" ?head PNG_MAGIC "png_chunk ''IDAT'' ?data @ png_chunk ''IEND'' []"] by (simp add: png_def)
  also have "\<dots> = ?data @ png_idat (length ((PNG_MAGIC @ png_chunk ''IHDR'' ?head) @ png_chunk ''IDAT'' ?data))
          (((PNG_MAGIC @ png_chunk ''IHDR'' ?head) @ png_chunk ''IDAT'' ?data) @ png_chunk ''IEND'' [])"
    using png_idat_chunk [of "''IDAT''" ?data "PNG_MAGIC @ png_chunk ''IHDR'' ?head" "png_chunk ''IEND'' []"] assms by simp
  also have "\<dots> = ?data" unfolding png_idat_end by simp
  finally show ?thesis .
qed

lemma rows_concat: "concat (map (\<lambda>y. take k (drop (y * k) s)) [0..<n]) = take (n * k) s"
proof (induction n)
  case (Suc n)
  have "take (Suc n * k) s = take (n * k) s @ take k (drop (n * k) s)" by (simp only: mult_Suc add.commute [of k] take_add)
  then show ?case using Suc by simp
qed simp

lemma png_rows_blank:
  assumes "length rgb = W * H * 3"
  shows "list_all (\<lambda>c. c = NUL) (png_rows W H rgb) \<longleftrightarrow> list_all (\<lambda>c. c = NUL) rgb"
proof -
  have "set rgb = set (concat (map (\<lambda>y. take (W * 3) (drop (y * (W * 3)) rgb)) [0..<H]))"
    unfolding rows_concat using assms by (simp add: mult.commute mult.left_commute)
  then show ?thesis by (auto simp: png_rows_def list_all_iff)
qed

lemma blank_black:
  assumes "\<forall>s. decompress (compress s) = Some s" "compress (png_rows W H rgb) \<noteq> []"
    and "length (compress (png_rows W H rgb)) < 4294967296" "length rgb = W * H * 3"
  shows "is_blank_png decompress (Some (png compress W H rgb)) \<longleftrightarrow> list_all (\<lambda>c. c = NUL) rgb"
proof -
  have "starts_with PNG_MAGIC (png compress W H rgb)" by (simp add: png_def)
  then show ?thesis
    using assms png_rows_blank [OF assms(4)] by (simp add: is_blank_png_def png_idat_png)
qed

lemma shown_all_black:
  assumes "shown W H canvas pic"
  shows "list_all (\<lambda>c. c = NUL) canvas \<longleftrightarrow> (\<forall>x < W. \<forall>y < H. pic (x, y) = (NUL, NUL, NUL))" (is "?l \<longleftrightarrow> ?r")
proof
  have len: "length canvas = W * H * 3" using assms by (simp add: shown_def)
  {
    assume l: ?l
    have "pixel W canvas (x, y) = (NUL, NUL, NUL)" if "x < W" "y < H" for x y
    proof -
      have "(y * W + x) * 3 + 2 < length canvas" using cell_bound [OF that] len by simp
      then show ?thesis using l by (simp add: pixel_def list_all_length)
    qed
    then show ?r using assms by (simp add: shown_def)
  next
    assume r: ?r
    have "canvas ! i = NUL" if i: "i < length canvas" for i
    proof -
      define e where "e = i div 3"
      have e: "e < W * H" using i len by (simp add: e_def div_less_iff_less_mult)
      then have W: "0 < W" by (cases W) simp_all
      have xy: "e mod W < W" "e div W < H" using e W by (simp_all add: div_less_iff_less_mult mult.commute)
      have "pixel W canvas (e mod W, e div W) = (NUL, NUL, NUL)" using r assms xy by (simp add: shown_def)
      then have "canvas ! (e * 3) = NUL" "canvas ! (e * 3 + 1) = NUL" "canvas ! (e * 3 + 2) = NUL"
        unfolding pixel_def prod.case div_mult_mod_eq Let_def by simp_all
      moreover have "i = e * 3 \<or> i = e * 3 + 1 \<or> i = e * 3 + 2" unfolding e_def by presburger
      ultimately show ?thesis by auto
    qed
    then show ?l by (simp add: list_all_length)
  }
qed

lemma read_screen:
  assumes "W < 65536" "H < 65536" "list_all (msg_fits W H) ms" "completes (W * H) ms" "rb_in w = concat (map wire_msg ms) @ t"
  shows "\<exists>canvas. read_framebuffer W H w = (Inr canvas, w\<lparr>rb_in := t\<rparr>) \<and> shown W H canvas (fold draw_msg ms black)"
proof -
  have "w = w\<lparr>rb_in := concat (map wire_msg ms) @ t\<rparr>" using assms(5) by simp
  then show ?thesis
    using read_loop_shown [where n = 0 and w = w and t = t, OF assms(1,2) shown_black assms(3)] assms(4)
    unfolding read_framebuffer_def by (metis diff_zero)
qed

section \<open>Properties\<close>

text \<open>
  C25. The screen the client reads is the picture the server drew: whatever messages it sends, bells and updates of raw rectangles that
  fit the screen, until their rectangles add up to it, the canvas shows at every pixel the colour of the last rectangle over it,
  and nothing behind the last of them is read.
\<close>

theorem screen_is_what_the_server_drew:
  assumes "W < 65536" "H < 65536" "list_all (msg_fits W H) ms" "completes (W * H) ms" "rb_in w = concat (map wire_msg ms) @ t"
  shows "\<exists>canvas. read_framebuffer W H w = (Inr canvas, w\<lparr>rb_in := t\<rparr>) \<and> length canvas = W * H * 3 \<and>
           (\<forall>x < W. \<forall>y < H. pixel W canvas (x, y) = fold draw_msg ms black (x, y))"
proof -
  obtain canvas where "read_framebuffer W H w = (Inr canvas, w\<lparr>rb_in := t\<rparr>)" "shown W H canvas (fold draw_msg ms black)"
    using read_screen [OF assms] by blast
  then show ?thesis by (auto simp: shown_def)
qed

text \<open>A screen of four by two, drawn as two halves with a bell between them, the second half over a corner of the first.\<close>

definition demo_half :: "nat \<Rightarrow> char \<Rightarrow> server_rect" where
  "demo_half x c = \<lparr>sr_x = x, sr_y = 0, sr_w = 2, sr_h = 2, sr_pixels = replicate 4 ((c, CHR ''g'', CHR ''b''), NUL)\<rparr>"

definition demo_screen :: "server_msg list" where
  "demo_screen = [Update [demo_half 0 (CHR ''r'')], Bell, Update [demo_half 2 (CHR ''s'')]]"

definition demo_rfb :: rfb where
  "demo_rfb = \<lparr>rb_in = concat (map wire_msg demo_screen) @ ''more'', rb_stalls = True, rb_flushes = [], rb_out = []\<rparr>"

lemma demo_screen_fits: "list_all (msg_fits 4 2) demo_screen" "completes (4 * 2) demo_screen"
  by (simp_all add: demo_screen_def demo_half_def rect_fits_def)

theorem screen_is_what_the_server_drew_witness:
  "\<exists>canvas. read_framebuffer 4 2 demo_rfb = (Inr canvas, demo_rfb\<lparr>rb_in := ''more''\<rparr>) \<and>
     pixel 4 canvas (3, 1) = (CHR ''s'', CHR ''g'', CHR ''b'')"
proof -
  have "rb_in demo_rfb = concat (map wire_msg demo_screen) @ ''more''" by (simp add: demo_rfb_def)
  from screen_is_what_the_server_drew [OF _ _ demo_screen_fits this] obtain canvas where
    "read_framebuffer 4 2 demo_rfb = (Inr canvas, demo_rfb\<lparr>rb_in := ''more''\<rparr>)"
    "\<forall>x < 4. \<forall>y < 2. pixel 4 canvas (x, y) = fold draw_msg demo_screen black (x, y)" by auto
  then show ?thesis by (auto simp: demo_screen_def draw_def demo_half_def)
qed

text \<open>
  The image the client writes is reported blank exactly when the screen was black: for every screen read from the server, every
  compressor the decompressor undoes and an image of less than 4 GB.
\<close>

theorem captured_blank_iff_black:
  assumes "W < 65536" "H < 65536" "list_all (msg_fits W H) ms" "completes (W * H) ms" "rb_in w = concat (map wire_msg ms) @ t"
    and "\<forall>s. decompress (compress s) = Some s" "\<forall>s. compress s \<noteq> []"
    and "\<forall>rgb. length rgb = W * H * 3 \<longrightarrow> length (compress (png_rows W H rgb)) < 4294967296"
  shows "\<exists>canvas w2. read_framebuffer W H w = (Inr canvas, w2) \<and>
           (is_blank_png decompress (Some (png compress W H canvas)) \<longleftrightarrow>
              (\<forall>x < W. \<forall>y < H. fold draw_msg ms black (x, y) = (NUL, NUL, NUL)))"
proof -
  obtain canvas where r: "read_framebuffer W H w = (Inr canvas, w\<lparr>rb_in := t\<rparr>)" "shown W H canvas (fold draw_msg ms black)"
    using read_screen [OF assms(1-5)] by blast
  then have "length canvas = W * H * 3" by (simp add: shown_def)
  from blank_black [where decompress = decompress and compress = compress and W = W and H = H, OF assms(6) _ _ this] show ?thesis
    using r shown_all_black [OF r(2)] assms(7,8) \<open>length canvas = W * H * 3\<close> by blast
qed

text \<open>A compressor for the witness: the text itself behind one byte.\<close>

definition stored :: "string \<Rightarrow> string" where
  "stored s = CHR ''x'' # s"

primrec unstored :: "string \<Rightarrow> string option" where
  "unstored [] = None"
| "unstored (c # s) = Some s"

theorem captured_blank_iff_black_witness:
  "\<exists>canvas. read_framebuffer 4 2 demo_rfb = (Inr canvas, demo_rfb\<lparr>rb_in := ''more''\<rparr>) \<and>
     \<not> is_blank_png unstored (Some (png stored 4 2 canvas))"
proof -
  have i: "rb_in demo_rfb = concat (map wire_msg demo_screen) @ ''more''" by (simp add: demo_rfb_def)
  have rows: "length (png_rows 4 2 rgb) = 26" if "length rgb = 4 * 2 * 3" for rgb
    using that by (simp add: png_rows_def numeral_2_eq_2)
  have "\<exists>canvas w2. read_framebuffer 4 2 demo_rfb = (Inr canvas, w2) \<and>
           (is_blank_png unstored (Some (png stored 4 2 canvas)) \<longleftrightarrow>
              (\<forall>x < 4. \<forall>y < 2. fold draw_msg demo_screen black (x, y) = (NUL, NUL, NUL)))"
    by (rule captured_blank_iff_black [OF _ _ demo_screen_fits i]) (use rows in \<open>auto simp: stored_def\<close>)
  moreover have "fold draw_msg demo_screen black (3, 1) \<noteq> (NUL, NUL, NUL)"
    by (simp add: demo_screen_def draw_def demo_half_def)
  moreover obtain canvas where "read_framebuffer 4 2 demo_rfb = (Inr canvas, demo_rfb\<lparr>rb_in := ''more''\<rparr>)"
    using read_screen [OF _ _ demo_screen_fits, of demo_rfb "''more''"] i by auto
  ultimately show ?thesis by force
qed

text \<open>
  The password cipher of the client is a permutation of the blocks: the rounds with the keys in reverse order undo it, whatever
  the key, so no two challenges have the same answer under one password.
\<close>

theorem des_is_undone_by_reversed_keys:
  assumes "length block = 8"
  shows "crypt (rev (subkeys key)) (des key block) = block"
  unfolding des_def by (rule crypt_back [OF assms])

theorem des_is_undone_by_reversed_keys_witness:
  "crypt (rev (subkeys (vnc_key ''secret''))) (des (vnc_key ''secret'') ''8 bytes!'') = ''8 bytes!''"
  by (rule des_is_undone_by_reversed_keys) simp

section \<open>Where the client loses the thread\<close>

text \<open>Of a message of the server's clipboard only the padding is taken: its length and text are read as the next messages.\<close>

lemma cut_text_desyncs:
  assumes "painted < width * height"
  shows "read_loop width height (canvas, painted) (w\<lparr>rb_in := [cc 3, a, b, c] @ body\<rparr>) =
         read_loop width height (canvas, painted) (w\<lparr>rb_in := body\<rparr>)"
proof -
  have "cc 3 \<noteq> NUL" by code_simp
  then have "read_message width (canvas, painted) (w\<lparr>rb_in := [cc 3, a, b, c] @ body\<rparr>) = (Inr (canvas, painted), w\<lparr>rb_in := body\<rparr>)"
    by (simp add: read_message_def recv_def bindE_def thenE_def ret_def)
  then show ?thesis using assms by (subst read_loop.simps) simp
qed

end
