(* ===== verification/Con_Text.thy ===== *)
theory Con_Text
  imports Config Regex Encodings
begin

text \<open>
  The texts of \<open>core/tools/console.py\<close>: the reading of quser's table, PowerShell literals and encoded commands, and the scripts
  with which \<open>con_run\<close> and \<open>con_autologon\<close> act in the guest.
\<close>

section \<open>The session probe\<close>

definition row_is_user :: "string \<Rightarrow> string \<Rightarrow> bool" where
  "row_is_user token name =
     (let low = py_lower token
      in low = name \<or> (ends_with ''..'' low \<and> starts_with (take (length low - 2) low) name))"

text \<open>None when the guest could not run the probe.\<close>

definition session_present :: "string \<Rightarrow> string \<Rightarrow> bool option" where
  "session_present out user =
     (if contains ''not recognized'' (py_lower out) then None
      else Some (list_ex (\<lambda>line. case split_words line of [] \<Rightarrow> False | t # _ \<Rightarrow> row_is_user t (py_lower user)) (split_lines out)))"

section \<open>PowerShell\<close>

definition ps_literal :: "string \<Rightarrow> string" where
  "ps_literal v = py_replace [SQ] [SQ, SQ] v"

definition quoted :: "string \<Rightarrow> string" where
  "quoted s = SQ # s @ [SQ]"

section \<open>The scheduled task\<close>

definition task_name :: "string \<Rightarrow> string" where
  "task_name token = ''ntdrive_run_'' @ token"

definition task_log :: "string \<Rightarrow> string" where
  "task_log task = ''C:'' @ [BSL] @ ''Users'' @ [BSL] @ ''Public'' @ [BSL] @ task @ ''.log''"

definition encoded_text :: "string \<Rightarrow> string \<Rightarrow> string" where
  "encoded_text cmd log = ''& { '' @ cmd @ '' } > '' @ [DQ] @ log @ [DQ] @ '' 2>&1; exit $LASTEXITCODE''"

definition cmd_argument :: "string \<Rightarrow> string \<Rightarrow> string" where
  "cmd_argument cmd log = ''/c ('' @ cmd @ '') > '' @ [DQ] @ log @ [DQ] @ '' 2>&1''"

definition task_action :: "string \<Rightarrow> string \<Rightarrow> string \<Rightarrow> string \<times> string" where
  "task_action cmd log shell =
     (if shell = ''cmd'' then (''cmd.exe'', ps_literal (cmd_argument cmd log))
      else (if shell = ''powershell'' then ''powershell.exe'' else ''pwsh.exe'',
            ''-NoProfile -ExecutionPolicy Bypass -EncodedCommand '' @ base64 (utf16le (encoded_text cmd log))))"

text \<open>The lines of the two scripts that set up the task.\<close>

definition action_line :: "string \<Rightarrow> string \<Rightarrow> string \<Rightarrow> string" where
  "action_line execute argument cwd =
     ''$a=New-ScheduledTaskAction -Execute '' @ quoted execute @ '' -Argument '' @ quoted argument @
     '' -WorkingDirectory '' @ quoted (ps_literal cwd)"

definition principal_line :: "string \<Rightarrow> string \<Rightarrow> string" where
  "principal_line user run_level =
     ''$pr=New-ScheduledTaskPrincipal -UserId '' @ quoted (ps_literal user) @ '' -LogonType Interactive -RunLevel '' @ run_level"

definition REGISTER_LINE :: string where
  "REGISTER_LINE = ''Register-ScheduledTask -TaskName $t -Action $a -Principal $pr -Settings $s -Force | Out-Null''"

definition run_script ::
  "string \<Rightarrow> string \<Rightarrow> string \<Rightarrow> string \<Rightarrow> string \<Rightarrow> string \<Rightarrow> int \<Rightarrow> string \<Rightarrow> int \<Rightarrow> string" where
  "run_script task log user run_level execute argument timeout cwd priority =
     join_with ''; ''
      [''$ErrorActionPreference='' @ quoted ''Stop'',
       ''$t='' @ quoted task,
       ''$log='' @ quoted log,
       ''if (Test-Path -LiteralPath $log) { Remove-Item -LiteralPath $log -Force }'',
       action_line execute argument cwd,
       principal_line user run_level,
       ''$s=New-ScheduledTaskSettingsSet -Priority '' @ int_text priority @ '' -AllowStartIfOnBatteries -DontStopIfGoingOnBatteries'',
       REGISTER_LINE,
       ''Start-ScheduledTask -TaskName $t'',
       ''$deadline=(Get-Date).AddSeconds('' @ int_text (timeout div 1000) @ '')'',
       ''do { Start-Sleep -Milliseconds 400; $st=(Get-ScheduledTask -TaskName $t).State } while ($st -eq '' @ quoted ''Running'' @
         '' -and (Get-Date) -lt $deadline)'',
       ''$rc=(Get-ScheduledTaskInfo -TaskName $t).LastTaskResult'',
       ''Unregister-ScheduledTask -TaskName $t -Confirm:$false'',
       ''Write-Output ('' @ quoted ''NTDRIVE_RC='' @ '' + $rc + '' @ quoted '' STATE='' @ '' + $st)'',
       ''Write-Output '' @ quoted ''NTDRIVE_OUT_BEGIN'',
       ''if (Test-Path -LiteralPath $log) { Get-Content -Raw -LiteralPath $log; Remove-Item -LiteralPath $log -Force }'']"

definition detach_script ::
  "string \<Rightarrow> string \<Rightarrow> string \<Rightarrow> string \<Rightarrow> string \<Rightarrow> string \<Rightarrow> string \<Rightarrow> int \<Rightarrow> string" where
  "detach_script task log user run_level execute argument cwd priority =
     join_with ''; ''
      [''$ErrorActionPreference='' @ quoted ''Stop'',
       ''$t='' @ quoted task,
       ''$log='' @ quoted log,
       ''New-Item -ItemType File -Path $log -Force | Out-Null'',
       action_line execute argument cwd,
       principal_line user run_level,
       ''$s=New-ScheduledTaskSettingsSet -Priority '' @ int_text priority @
         '' -ExecutionTimeLimit ([TimeSpan]::Zero) -AllowStartIfOnBatteries -DontStopIfGoingOnBatteries'',
       REGISTER_LINE,
       ''Start-ScheduledTask -TaskName $t'',
       ''Start-Sleep -Milliseconds 600'',
       ''$st=(Get-ScheduledTask -TaskName $t).State'',
       ''Write-Output ('' @ quoted ''NTDRIVE_RC=0 STATE='' @ '' + $st)'']"

definition TASK_PRIORITY :: "(string, int) dict" where
  "TASK_PRIORITY = [(''normal'', 5), (''below_normal'', 7), (''idle'', 10)]"

definition RESULT_RE :: rx where
  "RESULT_RE =
     RSeq (rlit ''NTDRIVE_RC='') (RSeq (RGroup 1 (RSeq (ropt (RSet (\<lambda>c. c = CHR ''-''))) (rplus is_digit)))
       (RSeq (rlit '' STATE='') (RGroup 2 (rplus is_word))))"

text \<open>What \<open>con_run\<close> printed, behind the marker; \<open>out.find\<close> is the first occurrence.\<close>

fun after_first :: "string \<Rightarrow> string \<Rightarrow> string option" where
  "after_first mark [] = (if mark = [] then Some [] else None)"
| "after_first mark (c # s) = (if starts_with mark (c # s) then Some (drop (length mark) (c # s)) else after_first mark s)"

definition captured_output :: "string \<Rightarrow> string" where
  "captured_output out =
     (case after_first ''NTDRIVE_OUT_BEGIN'' out of None \<Rightarrow> [] | Some s \<Rightarrow> lstrip_by (\<lambda>c. c = CR \<or> c = NL) s)"

section \<open>Automatic logon\<close>

definition WINLOGON :: string where
  "WINLOGON = ''HKLM:'' @ [BSL] @ ''SOFTWARE'' @ [BSL] @ ''Microsoft'' @ [BSL] @ ''Windows NT'' @ [BSL] @ ''CurrentVersion'' @ [BSL] @ ''Winlogon''"

definition LOGONUI :: string where
  "LOGONUI =
     ''HKLM:'' @ [BSL] @ ''SOFTWARE'' @ [BSL] @ ''Microsoft'' @ [BSL] @ ''Windows'' @ [BSL] @ ''CurrentVersion'' @ [BSL] @
     ''Authentication'' @ [BSL] @ ''LogonUI''"

definition logon_script :: "string \<Rightarrow> string \<Rightarrow> string" where
  "logon_script user password =
     join_with ''; ''
      [''$w = '' @ quoted WINLOGON,
       ''$l = '' @ quoted LOGONUI,
       ''Set-ItemProperty -Path $w -Name AutoAdminLogon -Value '' @ quoted ''1'',
       ''Set-ItemProperty -Path $w -Name DefaultUserName -Value '' @ quoted (ps_literal user),
       ''Set-ItemProperty -Path $w -Name DefaultDomainName -Value $env:COMPUTERNAME'',
       ''Remove-ItemProperty -Path $w -Name AutoLogonCount -ErrorAction SilentlyContinue'',
       ''Remove-ItemProperty -Path $w -Name AutoLogonSID -ErrorAction SilentlyContinue'',
       ''Remove-ItemProperty -Path $l -Name LastLoggedOnUserSID -ErrorAction SilentlyContinue'',
       ''Remove-ItemProperty -Path $l -Name SelectedUserSID -ErrorAction SilentlyContinue'',
       ''Set-ItemProperty -Path $w -Name DefaultPassword -Value '' @ quoted (ps_literal password)]"

definition LOGOFF_SCRIPT :: string where
  "LOGOFF_SCRIPT =
     join_with ''; ''
      [''$w = '' @ quoted WINLOGON,
       ''Set-ItemProperty -Path $w -Name AutoAdminLogon -Value '' @ quoted ''0'',
       ''Remove-ItemProperty -Path $w -Name DefaultPassword -ErrorAction SilentlyContinue'',
       ''Remove-ItemProperty -Path $w -Name AutoLogonSID -ErrorAction SilentlyContinue'']"

text \<open>What of a failed script's output goes into the error.\<close>

definition logon_detail :: "string \<Rightarrow> string \<Rightarrow> string" where
  "logon_detail password out =
     (let detail = take 300 (py_strip out) in if password = [] then detail else py_replace password ''***'' detail)"

end
