(* ===== verification/Tools_Con.thy ===== *)
theory Tools_Con
  imports Tools_Vm Keys Vnc Con_Text
begin

text \<open>
  The \<open>con_*\<close> tools of \<open>core/tools/console.py\<close>: screenshots through vmrun or the console's framebuffer, keys and clicks over VNC,
  automatic logon, and commands on the interactive desktop. The prose of notes and hints is left out or a flag.
\<close>

section \<open>Environment\<close>

text \<open>A connection to the console's server is what the server will send; the bytes sent to it are handed back at its end.\<close>

record 'e con_outside = "'e svc_outside" +
  x_secrets :: env_vars
  x_vnc_connect :: "string \<Rightarrow> int \<Rightarrow> 'e \<Rightarrow> (exn + rfb) \<times> 'e"
  x_vnc_done :: "rfb \<Rightarrow> 'e \<Rightarrow> 'e"
  x_screen_path :: "string \<Rightarrow> 'e \<Rightarrow> string \<times> 'e"
  x_save :: "string \<Rightarrow> string \<Rightarrow> 'e \<Rightarrow> (exn + unit) \<times> 'e"
  x_load :: "string \<Rightarrow> 'e \<Rightarrow> string option"
  x_compress :: "string \<Rightarrow> string"
  x_decompress :: "string \<Rightarrow> string option"
  x_task_token :: "'e \<Rightarrow> string \<times> 'e"

type_synonym ('e, 'z, 'a) cprog = "('e, 'z, 'a) sprog"

section \<open>The console's server\<close>

definition vnc_session :: "('e, 'x) con_outside_scheme \<Rightarrow> string \<times> int \<Rightarrow> 'a rfb_prog \<Rightarrow> ('e, 'a) app" where
  "vnc_session X endpoint m e =
     (case x_vnc_connect X (fst endpoint) (snd endpoint) e of
        (Inl x, e1) \<Rightarrow> (Inl (rfb_errors x), e1)
      | (Inr c, e1) \<Rightarrow>
          (case m c of (r, c2) \<Rightarrow> (case r of Inl x \<Rightarrow> Inl (rfb_errors x) | Inr a \<Rightarrow> Inr a, x_vnc_done X c2 e1)))"

definition vnc_capture :: "('e, 'x) con_outside_scheme \<Rightarrow> string \<times> int \<Rightarrow> string \<Rightarrow> ('e, string) app" where
  "vnc_capture X endpoint path =
     bindE (vnc_session X endpoint (capture_screen [])) (\<lambda>(width, height, rgb) e.
       case x_save X path (png (x_compress X) width height rgb) e of
         (Inl x, e1) \<Rightarrow> (Inl (rfb_errors x), e1)
       | (Inr _, e1) \<Rightarrow> (Inr path, e1))"

definition con_endpoint :: "('e, 'x) con_outside_scheme \<Rightarrow> vm_config \<Rightarrow> ('e, 'z, (string \<times> int) option) cprog" where
  "con_endpoint X cfg = getS (\<lambda>w. hv_vnc_endpoint (adapter_for X cfg) cfg (w_env w))"

definition need_endpoint :: "(string \<times> int) option \<Rightarrow> ('w, string \<times> int) app" where
  "need_endpoint e = (case e of None \<Rightarrow> throw BACKEND_ERROR | Some p \<Rightarrow> ret p)"

section \<open>Screenshots\<close>

datatype shot_method = Shot_Auto | Shot_Guest | Shot_Vnc

record screenshot =
  sh_path :: string
  sh_via :: string
  sh_blank :: bool
  sh_base64 :: "string option"

definition shot_by_vnc ::
  "('e, 'x) con_outside_scheme \<Rightarrow> string \<Rightarrow> vm_config \<Rightarrow> (string \<times> int) option \<Rightarrow> ('e, 'z, string \<times> string) cprog" where
  "shot_by_vnc X vm cfg endpoint =
     bindE (need_endpoint endpoint) (\<lambda>ep.
     thenE (ensure_running X cfg)
     (bindE (envE (x_screen_path X vm)) (\<lambda>path.
      bindE (awaitE X (vnc_capture X ep path)) (\<lambda>saved. ret (saved, ''vnc'')))))"

definition saved_blank :: "('e, 'x) con_outside_scheme \<Rightarrow> string \<Rightarrow> ('e, 'z, bool) cprog" where
  "saved_blank X path = getS (\<lambda>w. is_blank_png (x_decompress X) (x_load X path (w_env w)))"

text \<open>A capture that fails, or is all black, falls back to the framebuffer when that may be used.\<close>

definition shot_by_guest ::
  "('e, 'x) con_outside_scheme \<Rightarrow> string \<Rightarrow> vm_config \<Rightarrow> shot_method \<Rightarrow> (string \<times> int) option \<Rightarrow>
   ('e, 'z, string \<times> string) cprog" where
  "shot_by_guest X vm cfg method endpoint =
     thenE (ensure_not_frozen X vm)
     (thenE (ensure_running X cfg)
     (catch_nt (bindE (envE (x_screen_path X vm)) (\<lambda>path. awaitE X (hv_screenshot (adapter_for X cfg) cfg path)))
        (\<lambda>exc. if method = Shot_Guest \<or> endpoint = None then raise (Nt exc) else shot_by_vnc X vm cfg endpoint)
        (\<lambda>saved.
          if method = Shot_Auto \<and> endpoint \<noteq> None
          then bindE (saved_blank X saved) (\<lambda>blank. if blank then shot_by_vnc X vm cfg endpoint else ret (saved, ''guest''))
          else ret (saved, ''guest''))))"

definition con_screenshot :: "('e, 'x) con_outside_scheme \<Rightarrow> string \<Rightarrow> bool \<Rightarrow> shot_method \<Rightarrow> ('e, 'z, screenshot) cprog" where
  "con_screenshot X vm want_base64 method =
     bindE (vm_cfg X vm) (\<lambda>cfg.
     bindE (con_endpoint X cfg) (\<lambda>endpoint.
     bindE (if method = Shot_Vnc then shot_by_vnc X vm cfg endpoint else shot_by_guest X vm cfg method endpoint) (\<lambda>(saved, via).
     bindE (saved_blank X saved) (\<lambda>blank.
     bindE (if \<not> want_base64 then ret None
            else bindE (getS (\<lambda>w. x_load X saved (w_env w))) (\<lambda>file.
              case file of None \<Rightarrow> raise (Exn ''OSError'') | Some raw \<Rightarrow> ret (Some (base64 (map ord raw))))) (\<lambda>b64.
       ret \<lparr>sh_path = saved, sh_via = via, sh_blank = blank, sh_base64 = b64\<rparr>)))))"

section \<open>Keys and clicks\<close>

definition item_strokes :: "env_vars \<Rightarrow> guest_config \<Rightarrow> string \<Rightarrow> stroke list" where
  "item_strokes ev g item =
     (if item = ''{password}'' then literal_strokes (resolve_password ev g)
      else if item = ''{standard_password}'' then literal_strokes (resolve_standard_password ev g)
      else key_strokes [item])"

definition con_send_keys :: "('e, 'x) con_outside_scheme \<Rightarrow> string \<Rightarrow> string list \<Rightarrow> ('e, 'z, nat) cprog" where
  "con_send_keys X vm keys =
     bindE (vm_cfg X vm) (\<lambda>cfg.
       if keys = [] then throw INVALID_ARGS
       else
         bindE (con_endpoint X cfg) (\<lambda>endpoint.
         bindE (need_endpoint endpoint) (\<lambda>ep.
         thenE (ensure_running X cfg)
         (let strokes = concat (map (item_strokes (x_secrets X) (vc_guest cfg)) keys)
          in thenE (bindE (awaitE X (vnc_session X ep (send_events key_event [] (flatten strokes)))) (\<lambda>_. ret ()))
            (thenE (eventE X vm ''con_send_keys'' [(''keys'', JInt (int (length keys)))]) (ret (length keys)))))))"

datatype mouse_button = Left_Button | Right_Button | Middle_Button

definition button_mask :: "mouse_button \<Rightarrow> nat" where
  "button_mask b = (case b of Left_Button \<Rightarrow> 1 | Right_Button \<Rightarrow> 4 | Middle_Button \<Rightarrow> 2)"

definition button_text :: "mouse_button \<Rightarrow> string" where
  "button_text b = (case b of Left_Button \<Rightarrow> ''left'' | Right_Button \<Rightarrow> ''right'' | Middle_Button \<Rightarrow> ''middle'')"

definition click_events :: "nat \<Rightarrow> nat \<Rightarrow> mouse_button \<Rightarrow> bool \<Rightarrow> (nat \<times> nat \<times> nat) list" where
  "click_events x y button double =
     (let mask = button_mask button
      in [(0, x, y), (mask, x, y), (0, x, y)] @ (if double then [(mask, x, y), (0, x, y)] else []))"

definition con_click :: "('e, 'x) con_outside_scheme \<Rightarrow> string \<Rightarrow> nat \<Rightarrow> nat \<Rightarrow> mouse_button \<Rightarrow> bool \<Rightarrow> ('e, 'z, unit) cprog" where
  "con_click X vm x y button double =
     bindE (vm_cfg X vm) (\<lambda>cfg.
     bindE (con_endpoint X cfg) (\<lambda>endpoint.
     bindE (need_endpoint endpoint) (\<lambda>ep.
     thenE (ensure_running X cfg)
     (thenE (bindE (awaitE X (vnc_session X ep (send_events pointer_event [] (click_events x y button double)))) (\<lambda>_. ret ()))
       (eventE X vm ''con_click'' [(''x'', JInt (int x)), (''y'', JInt (int y)), (''button'', JStr (button_text button))])))))"

section \<open>Automatic logon\<close>

text \<open>The answer: the account's user, None when cleared.\<close>

definition con_autologon :: "('e, 'x) con_outside_scheme \<Rightarrow> string \<Rightarrow> bool \<Rightarrow> account \<Rightarrow> ('e, 'z, string option) cprog" where
  "con_autologon X vm enabled acc =
     bindE (vm_cfg X vm) (\<lambda>cfg.
     case credentials (x_secrets X) (vc_guest cfg) acc of (user, password) \<Rightarrow>
       if enabled \<and> user = [] then throw INVALID_ARGS
       else
         thenE (ensure_not_frozen X vm)
         (thenE (ensure_running X cfg)
         (bindE (svc_transport X cfg) (\<lambda>tr.
          bindE (awaitE X (x_exec_once X tr (if enabled then logon_script user password else LOGOFF_SCRIPT) 60000)) (\<lambda>(code, out).
            if code \<noteq> 0
            then raise (Nt ((nt_err BACKEND_ERROR)\<lparr>err_message :=
                   ''could not set autologon in '' @ vm @ '': '' @ logon_detail password out\<rparr>))
            else
              thenE (eventE X vm ''con_autologon'' [(''enabled'', JBool enabled), (''account'', JStr (account_text acc))])
                (ret (if enabled then Some user else None)))))))"

section \<open>Commands on the desktop\<close>

record run_params =
  rp_vm :: string
  rp_cmd :: string
  rp_shell :: string
  rp_cwd :: string
  rp_account :: account
  rp_timeout :: int
  rp_priority :: string
  rp_capture :: bool
  rp_max_bytes :: nat
  rp_detach :: bool

definition run_params_ok :: "run_params \<Rightarrow> bool" where
  "run_params_ok p =
     (rp_shell p \<in> {''cmd'', ''powershell'', ''pwsh''} \<and> dict_has TASK_PRIORITY (rp_priority p) \<and> 1000 \<le> rp_timeout p \<and>
      256 \<le> rp_max_bytes p \<and> rp_max_bytes p \<le> 1048576)"

text \<open>The probe is advisory: only a table without the user stops a run.\<close>

definition ensure_interactive :: "('e, 'x) con_outside_scheme \<Rightarrow> transport \<Rightarrow> string \<Rightarrow> ('e, 'z, unit) cprog" where
  "ensure_interactive X tr user =
     catch_nt (awaitE X (x_exec_once X tr ''quser'' 10000)) (\<lambda>_. ret ())
       (\<lambda>(code, out). if session_present out user = Some False then throw BACKEND_ERROR else ret ())"

datatype run_result =
    Detached string string string
  | Finished int string "(string \<times> bool) option" bool

text \<open>\<open>Detached task log state\<close>; \<open>Finished exit_code state output\<close> with the flag of the note that the task never ran.\<close>

definition run_level :: "account \<Rightarrow> string" where
  "run_level a = (case a of Admin \<Rightarrow> ''Highest'' | Standard \<Rightarrow> ''Limited'')"

definition run_detached ::
  "('e, 'x) con_outside_scheme \<Rightarrow> run_params \<Rightarrow> transport \<Rightarrow> string \<Rightarrow> string \<Rightarrow> string \<Rightarrow> ('e, 'z, run_result) cprog" where
  "run_detached X p tr task log user =
     (case task_action (rp_cmd p) log (rp_shell p) of (execute, argument) \<Rightarrow>
        let script = detach_script task log user (run_level (rp_account p)) execute argument (rp_cwd p)
                       (the (dict_get TASK_PRIORITY (rp_priority p)));
            record = eventE X (rp_vm p) ''con_run''
                       [(''account'', JStr (account_text (rp_account p))), (''detached'', JBool True)]
        in catch_nt (awaitE X (x_exec_once X tr script 60000))
             (\<lambda>_. thenE record (ret (Detached task log ''unconfirmed'')))
             (\<lambda>(code, out).
               case rx_search RESULT_RE out of
                 None \<Rightarrow> throw BACKEND_ERROR
               | Some m \<Rightarrow> thenE record (ret (Detached task log (group m 2)))))"

definition finished_result :: "run_params \<Rightarrow> rx_match \<Rightarrow> string \<Rightarrow> run_result" where
  "finished_result p m out =
     (let exit_code = the (py_int (group m 1)); st = group m 2; captured = captured_output out
      in Finished exit_code st
           (if rp_capture p then Some (take (rp_max_bytes p) captured, rp_max_bytes p < length captured) else None)
           (st \<noteq> ''Running'' \<and> 0x41300 \<le> exit_code))"

definition con_run :: "('e, 'x) con_outside_scheme \<Rightarrow> run_params \<Rightarrow> ('e, 'z, run_result) cprog" where
  "con_run X p =
     bindE (vm_cfg X (rp_vm p)) (\<lambda>cfg.
     let user = fst (credentials (x_secrets X) (vc_guest cfg) (rp_account p)) in
     if user = [] then throw INVALID_ARGS
     else
       thenE (ensure_not_frozen X (rp_vm p))
       (thenE (ensure_running X cfg)
       (bindE (svc_transport X cfg) (\<lambda>tr.
        thenE (ensure_interactive X tr user)
        (bindE (envE (x_task_token X)) (\<lambda>tok.
         let task = task_name tok; log = task_log task in
         if rp_detach p then run_detached X p tr task log user
         else case task_action (rp_cmd p) log (rp_shell p) of (execute, argument) \<Rightarrow>
           let script = run_script task log user (run_level (rp_account p)) execute argument (rp_timeout p) (rp_cwd p)
                          (the (dict_get TASK_PRIORITY (rp_priority p))) in
           bindE (awaitE X (x_exec_once X tr script (rp_timeout p + 30000))) (\<lambda>(code, out).
             case rx_search RESULT_RE out of
               None \<Rightarrow> throw BACKEND_ERROR
             | Some m \<Rightarrow>
                 thenE (eventE X (rp_vm p) ''con_run''
                          [(''account'', JStr (account_text (rp_account p))), (''exit_code'', JInt (the (py_int (group m 1))))])
                   (ret (finished_result p m out)))))))))"

section \<open>Enabling the server\<close>

definition con_enable_vnc :: "('e, 'x) con_outside_scheme \<Rightarrow> string \<Rightarrow> int option \<Rightarrow> ('e, 'z, bool \<times> int) cprog" where
  "con_enable_vnc X vm port =
     bindE (vm_cfg X vm) (\<lambda>cfg.
     let chosen = (case port of None \<Rightarrow> default_vnc_port vm | Some p \<Rightarrow> if p = 0 then default_vnc_port vm else p) in
     bindE (awaitE X (hv_ensure_vnc (adapter_for X cfg) cfg chosen)) (\<lambda>r.
     thenE (eventE X vm ''enable_vnc'' [(''port'', JInt chosen)]) (ret r)))"

end
