(* ===== verification/Ps_Text.thy ===== *)
theory Ps_Text
  imports Con_Text
begin

text \<open>
  A reader of PowerShell text that takes its single-quoted literals out, and what it makes of a literal built by doubling the quotes:
  whatever text went in comes out, and the code around it stays what it was.
\<close>

section \<open>Single-quoted literals\<close>

text \<open>A script with its literals taken out, and the literals: two quotes inside a literal stand for one.\<close>

fun ps_read :: "string option \<Rightarrow> string \<Rightarrow> string \<times> string list" where
  "ps_read None [] = ([], [])"
| "ps_read None (c # s) =
     (if c = SQ then ps_read (Some []) s else case ps_read None s of (code, lits) \<Rightarrow> (c # code, lits))"
| "ps_read (Some acc) [] = ([], [rev acc])"
| "ps_read (Some acc) [c] = (if c = SQ then ([], [rev acc]) else ([], [rev (c # acc)]))"
| "ps_read (Some acc) (c # d # s) =
     (if c = SQ \<and> d = SQ then ps_read (Some (SQ # acc)) s
      else if c = SQ then case ps_read None (d # s) of (code, lits) \<Rightarrow> (code, rev acc # lits)
      else ps_read (Some (c # acc)) (d # s))"

definition no_quote_first :: "string \<Rightarrow> bool" where
  "no_quote_first t = (t = [] \<or> hd t \<noteq> SQ)"

text \<open>A piece of a script that reads the same whatever follows, a quote apart.\<close>

definition reads :: "string \<Rightarrow> string \<Rightarrow> string list \<Rightarrow> bool" where
  "reads p code lits =
     (\<forall>t. no_quote_first t \<longrightarrow> ps_read None (p @ t) = (code @ fst (ps_read None t), lits @ snd (ps_read None t)))"

lemma reads_append:
  "reads p c l \<Longrightarrow> reads q c' l' \<Longrightarrow> no_quote_first q \<Longrightarrow> q \<noteq> [] \<Longrightarrow> reads (p @ q) (c @ c') (l @ l')"
  by (auto simp: reads_def no_quote_first_def)

lemma reads_plain: "SQ \<notin> set p \<Longrightarrow> reads p p []"
proof -
  assume "SQ \<notin> set p"
  then have "ps_read None (p @ t) = (p @ fst (ps_read None t), snd (ps_read None t))" for t
    by (induction p) (auto split: prod.splits)
  then show ?thesis by (simp add: reads_def)
qed

lemma replace_quote_Cons: "ps_literal (c # s) = (if c = SQ then [SQ, SQ] @ ps_literal s else c # ps_literal s)"
  by (simp add: ps_literal_def py_replace_def starts_with_def)

lemma ps_literal_Nil [simp]: "ps_literal [] = []"
  by (simp add: ps_literal_def py_replace_def)

lemma read_inside:
  "no_quote_first t \<Longrightarrow> ps_read (Some acc) (ps_literal s @ SQ # t) = (fst (ps_read None t), (rev acc @ s) # snd (ps_read None t))"
proof (induction s arbitrary: acc)
  case Nil
  then show ?case by (cases t) (auto simp: no_quote_first_def split: prod.splits)
next
  case (Cons c s)
  have step: "ps_read (Some acc) (c # ps_literal s @ SQ # t) = ps_read (Some (c # acc)) (ps_literal s @ SQ # t)" if "c \<noteq> SQ"
    using that by (cases "ps_literal s @ SQ # t") auto
  show ?case
    using Cons step by (simp add: replace_quote_Cons)
qed

lemma reads_quoted: "reads (quoted (ps_literal s)) [] [s]"
  by (simp add: reads_def quoted_def read_inside)

lemma ps_literal_plain: "SQ \<notin> set s \<Longrightarrow> ps_literal s = s"
  by (induction s) (auto simp: replace_quote_Cons)

lemma reads_quoted_plain: "SQ \<notin> set s \<Longrightarrow> reads (quoted s) [] [s]"
  using reads_quoted [of s] by (simp add: ps_literal_plain)

lemma reads_plain_app: "reads q c l \<Longrightarrow> SQ \<notin> set p \<Longrightarrow> reads (p @ q) (p @ c) l"
proof -
  assume p: "SQ \<notin> set p" and q: "reads q c l"
  have "ps_read None (p @ t) = (p @ fst (ps_read None t), snd (ps_read None t))" for t
    using p by (induction p) (auto split: prod.splits)
  then show ?thesis using q by (simp add: reads_def)
qed

lemma reads_lit_app: "reads q c l \<Longrightarrow> q \<noteq> [] \<Longrightarrow> hd q \<noteq> SQ \<Longrightarrow> reads (quoted (ps_literal s) @ q) c (s # l)"
  using reads_append [OF reads_quoted, of q c l s] by (simp add: no_quote_first_def)

lemma reads_plain_lit_app:
  "reads q c l \<Longrightarrow> SQ \<notin> set s \<Longrightarrow> q \<noteq> [] \<Longrightarrow> hd q \<noteq> SQ \<Longrightarrow> reads (quoted s @ q) c (s # l)"
  using reads_lit_app [of q c l s] by (simp add: ps_literal_plain)

lemma readsD: "reads p c l \<Longrightarrow> ps_read None p = (c, l)"
  unfolding reads_def by (drule spec [of _ "[]"]) (simp add: no_quote_first_def)

end
