(* ===== verification/Con_Properties.thy ===== *)
theory Con_Properties
  imports Tools_Con Ps_Text Demo_Host
begin

text \<open>
  The scripts of the console tools carry what the caller gave as data: the reader of theory \<open>Ps_Text\<close> finds in the
  script of \<open>con_run\<close> the same code for every command, and the command itself, letter by letter, in one literal.
\<close>

section \<open>The script of con_run\<close>

lemma digit_not_quote: "digit_char n \<noteq> SQ"
proof
  assume "digit_char n = SQ"
  then have "ord (digit_char n) = ord SQ" by simp
  then show False by (simp add: digit_char_ord) (simp add: ord_def)
qed

lemma int_text_plain: "SQ \<notin> set (int_text i)"
proof -
  have "SQ \<notin> set (nat_text n)" for n
    by (induction n rule: nat_text.induct) (subst nat_text.simps, auto simp: digit_not_quote [symmetric] dest: sym)
  then show ?thesis by (simp add: int_text_def)
qed

text \<open>The literal a task's argument is read as, and what the program on the desktop makes of it.\<close>

definition argument_value :: "string \<Rightarrow> string \<Rightarrow> string \<Rightarrow> string" where
  "argument_value cmd log shell = (if shell = ''cmd'' then cmd_argument cmd log else snd (task_action cmd log shell))"

definition desktop_text :: "string \<Rightarrow> string \<Rightarrow> string" where
  "desktop_text shell argument =
     (if shell = ''cmd'' then argument
      else unutf16le (unbase64 (drop (length ''-NoProfile -ExecutionPolicy Bypass -EncodedCommand '') argument)))"

lemma desktop_text_carried:
  "desktop_text shell (argument_value cmd log shell) = (if shell = ''cmd'' then cmd_argument cmd log else encoded_text cmd log)"
  by (simp add: desktop_text_def argument_value_def task_action_def unbase64_base64 [OF utf16le_bytes] unutf16le_utf16le)

lemma argument_quoted:
  "quoted (snd (task_action cmd log shell)) = quoted (ps_literal (argument_value cmd log shell))"
proof (cases "shell = ''cmd''")
  case False
  have "SQ \<notin> set (snd (task_action cmd log shell))" using False by (simp add: task_action_def base64_no_quote [OF utf16le_bytes])
  then show ?thesis using False by (simp add: argument_value_def ps_literal_plain)
qed (simp add: argument_value_def task_action_def)

lemma execute_plain: "SQ \<notin> set (fst (task_action cmd log shell))"
  by (simp add: task_action_def)

definition script_literals :: "string \<Rightarrow> string \<Rightarrow> string \<Rightarrow> string \<Rightarrow> string \<Rightarrow> string list" where
  "script_literals task cmd shell cwd user =
     [''Stop'', task, task_log task, fst (task_action cmd (task_log task) shell), argument_value cmd (task_log task) shell, cwd, user,
      ''Running'', ''NTDRIVE_RC='', '' STATE='', ''NTDRIVE_OUT_BEGIN'']"

lemma reads_run_script:
  assumes "SQ \<notin> set task" "SQ \<notin> set level"
  shows "\<exists>code. \<forall>cmd shell cwd user.
     reads (run_script task (task_log task) user level (fst (task_action cmd (task_log task) shell))
              (snd (task_action cmd (task_log task) shell)) timeout cwd priority)
       code (script_literals task cmd shell cwd user)"
proof -
  have log: "SQ \<notin> set (task_log task)" using assms(1) by (simp add: task_log_def)
  show ?thesis
    unfolding run_script_def action_line_def principal_line_def REGISTER_LINE_def script_literals_def join_with.simps append_assoc
      argument_quoted
    by (rule exI, intro allI, (rule reads_lit_app | rule reads_plain_lit_app | rule reads_plain_app | rule reads_plain)+)
      (simp_all add: assms log int_text_plain execute_plain)
qed

section \<open>Property\<close>

lemma run_level_plain: "SQ \<notin> set (run_level a)"
  by (cases a) (simp_all add: run_level_def)

lemma task_name_plain: "list_all is_hex tok \<Longrightarrow> SQ \<notin> set (task_name tok)"
  by (auto simp: task_name_def list_all_iff is_hex_def is_digit_def char_between_def ord_def)



section \<open>Where the tools fall short of what they say\<close>

text \<open>A program that ends with an exception code of Windows, here an access violation, is reported as one that never ran.\<close>

definition demo_run :: run_params where
  "demo_run = \<lparr>rp_vm = ''win'', rp_cmd = ''a.exe'', rp_shell = ''cmd'', rp_cwd = ''C:'', rp_account = Standard, rp_timeout = 60000,
               rp_priority = ''idle'', rp_capture = False, rp_max_bytes = 256, rp_detach = False\<rparr>"

lemma crash_reads_as_never_run:
  assumes "group m 1 = ''3221225477''" "group m 2 = ''Ready''"
  shows "finished_result demo_run m [] = Finished 0xC0000005 ''Ready'' None True"
proof -
  have "py_int ''3221225477'' = Some 3221225477"
    by (simp add: py_int_def py_nat_def strip_by_def rstrip_by_def lstrip_by_def is_space_def all_digits_def is_digit_def
        char_between_def ord_def digits_value_def)
  then show ?thesis by (simp add: finished_result_def assms [unfolded One_nat_def] demo_run_def Let_def)
qed

text \<open>A password with a quote is written doubled in the script; where the guest's error shows the line, the redaction does not find it.\<close>

lemma quoted_password_not_redacted:
  "logon_detail (''a'' @ SQ # ''b'') (''Value '' @ quoted (ps_literal (''a'' @ SQ # ''b''))) = ''Value '' @ quoted (''a'' @ SQ # SQ # ''b'')"
  by (simp add: logon_detail_def quoted_def replace_quote_Cons strip_by_def rstrip_by_def lstrip_by_def is_space_def
      py_replace_def starts_with_def Let_def ord_def)

end
