(* ===== verification/Lifecycle.thy ===== *)
theory Lifecycle
  imports Config
begin

text \<open>
  \<open>daemon/lifecycle.py\<close> and \<open>serve\<close> of \<open>daemon/app.py\<close>: daemon.json, how a client finds, starts and stops ntdrived, which
  stray daemons are ended, and how a daemon takes its port. The host the client runs on (clock, files, processes, HTTP) is the
  environment \<open>'e\<close>. Two loops wait for the clock; they get as many turns as their sleeps need to pass the deadline.
\<close>

section \<open>daemon.json\<close>

record daemon_info =
  di_host :: string
  di_port :: int
  di_pid :: int
  di_token :: string
  di_version :: string
  di_started_at :: int
  di_config_path :: string
  di_view_token :: string

definition netloc :: "daemon_info \<Rightarrow> string" where
  "netloc i = di_host i @ '':'' @ int_text (di_port i)"

definition base_url :: "daemon_info \<Rightarrow> string" where "base_url i = ''http://'' @ netloc i"
definition ws_base :: "daemon_info \<Rightarrow> string" where "ws_base i = ''ws://'' @ netloc i"

definition info_json :: "daemon_info \<Rightarrow> json" where
  "info_json i =
     JDict [(''host'', JStr (di_host i)), (''port'', JInt (di_port i)), (''pid'', JInt (di_pid i)), (''token'', JStr (di_token i)),
            (''version'', JStr (di_version i)), (''started_at'', JInt (di_started_at i)),
            (''config_path'', JStr (di_config_path i)), (''view_token'', JStr (di_view_token i))]"

text \<open>\<open>DaemonInfo(**data)\<close> with the types \<open>write_info\<close> writes: unknown and missing names are a TypeError.\<close>

definition INFO_FIELDS :: "string list" where
  "INFO_FIELDS = [''host'', ''port'', ''pid'', ''token'', ''version'', ''started_at'', ''config_path'', ''view_token'']"

definition str_field :: "(string, json) dict \<Rightarrow> string \<Rightarrow> string option \<Rightarrow> string option" where
  "str_field d k dflt = (case dict_get d k of Some (JStr s) \<Rightarrow> Some s | None \<Rightarrow> dflt | _ \<Rightarrow> None)"

definition int_field :: "(string, json) dict \<Rightarrow> string \<Rightarrow> int option" where
  "int_field d k = (case dict_get d k of Some (JInt n) \<Rightarrow> Some n | _ \<Rightarrow> None)"

definition info_of_json :: "json \<Rightarrow> daemon_info option" where
  "info_of_json j =
     (case j of
        JDict d \<Rightarrow>
          if \<not> set (dict_keys d) \<subseteq> set INFO_FIELDS then None
          else (case (str_field d ''host'' None, int_field d ''port'', int_field d ''pid'', str_field d ''token'' None,
                      str_field d ''version'' None, int_field d ''started_at'',
                      str_field d ''config_path'' (Some []), str_field d ''view_token'' (Some [])) of
                  (Some host, Some port, Some pid, Some token, Some ver, Some started, Some config, Some view) \<Rightarrow>
                    Some \<lparr>di_host = host, di_port = port, di_pid = pid, di_token = token, di_version = ver,
                          di_started_at = started, di_config_path = config, di_view_token = view\<rparr>
                | _ \<Rightarrow> None)
      | _ \<Rightarrow> None)"

datatype info_file = No_File | Corrupt_File | Info_File json

definition info_of_file :: "info_file \<Rightarrow> daemon_info option" where
  "info_of_file f = (case f of Info_File j \<Rightarrow> info_of_json j | _ \<Rightarrow> None)"

section \<open>The host a client runs on\<close>

record 'e client_host =
  y_now :: "'e \<Rightarrow> int"
  y_sleep :: "int \<Rightarrow> 'e \<Rightarrow> 'e"
  y_version :: string
  y_file :: "'e \<Rightarrow> info_file"
  y_write :: "info_file \<Rightarrow> 'e \<Rightarrow> 'e"
  y_process :: "int \<Rightarrow> 'e \<Rightarrow> (bool \<times> string) option"
  y_health :: "string \<Rightarrow> int \<Rightarrow> 'e \<Rightarrow> (int \<times> json option) option \<times> 'e"
  y_shutdown :: "string \<Rightarrow> string \<Rightarrow> 'e \<Rightarrow> 'e"
  y_spawn :: "string list \<Rightarrow> 'e \<Rightarrow> 'e"
  y_kill :: "int \<Rightarrow> 'e \<Rightarrow> 'e"
  y_wanted :: "string option \<Rightarrow> 'e \<Rightarrow> string option"
  y_same_path :: "string \<Rightarrow> string \<Rightarrow> bool"
  y_executable :: string
  y_pythonw :: "string option"

type_synonym ('e, 'a) cl = "('e, 'a) app"

definition read_info :: "('e, 'x) client_host_scheme \<Rightarrow> ('e, daemon_info option) cl" where
  "read_info Y = getS (\<lambda>e. info_of_file (y_file Y e))"

definition write_info :: "('e, 'x) client_host_scheme \<Rightarrow> daemon_info \<Rightarrow> ('e, unit) cl" where
  "write_info Y i = modifyS (y_write Y (Info_File (info_json i)))"

definition remove_info :: "('e, 'x) client_host_scheme \<Rightarrow> ('e, unit) cl" where
  "remove_info Y = modifyS (y_write Y No_File)"

definition pid_alive :: "('e, 'x) client_host_scheme \<Rightarrow> int \<Rightarrow> 'e \<Rightarrow> bool" where
  "pid_alive Y pid e =
     (case y_process Y pid e of None \<Rightarrow> False | Some (running, state) \<Rightarrow> running \<and> state \<noteq> ''zombie'')"

text \<open>A reply that is not 200 or not JSON counts as none, and so does a JSON null.\<close>

definition health_of :: "(int \<times> json option) option \<Rightarrow> json option" where
  "health_of a =
     (case a of
        Some (code, Some j) \<Rightarrow> if code = 200 \<and> j \<noteq> JNull then Some j else None
      | _ \<Rightarrow> None)"

definition probe_health :: "('e, 'x) client_host_scheme \<Rightarrow> daemon_info \<Rightarrow> ('e, json option) cl" where
  "probe_health Y i e = (case y_health Y (base_url i) 2000 e of (a, e') \<Rightarrow> (Inr (health_of a), e'))"

section \<open>Stray daemons\<close>

text \<open>A process as psutil lists it; None where asking for its connections raises.\<close>

record process_info =
  pi_pid :: int
  pi_cmdline :: "string list"
  pi_created :: int
  pi_listens :: "bool option"

definition ORPHAN_MIN_AGE :: int where "ORPHAN_MIN_AGE = 10000"

definition orphan :: "int \<Rightarrow> int option \<Rightarrow> process_info \<Rightarrow> bool" where
  "orphan t live p =
     (contains ''ntdrive.daemon.app'' (join_with '' '' (pi_cmdline p)) \<and> live \<noteq> Some (pi_pid p) \<and>
      ORPHAN_MIN_AGE \<le> t - pi_created p \<and> pi_listens p = Some False)"

definition orphaned_daemons :: "int \<Rightarrow> int option \<Rightarrow> process_info list \<Rightarrow> int list" where
  "orphaned_daemons t live procs = map pi_pid (filter (orphan t live) procs)"

datatype kill_result = Kill_Done | Kill_Gone | Kill_Failed

fun reap_pids :: "(int \<Rightarrow> 'e \<Rightarrow> kill_result \<times> 'e) \<Rightarrow> int list \<Rightarrow> int list \<times> int list \<Rightarrow> 'e \<Rightarrow> (int list \<times> int list) \<times> 'e" where
  "reap_pids kill [] acc e = (acc, e)"
| "reap_pids kill (pid # pids) (ended, failed) e =
     (case kill pid e of
        (Kill_Failed, e') \<Rightarrow> reap_pids kill pids (ended, failed @ [pid]) e'
      | (_, e') \<Rightarrow> reap_pids kill pids (ended @ [pid], failed) e')"

definition reap_orphaned_daemons ::
  "(int \<Rightarrow> 'e \<Rightarrow> kill_result \<times> 'e) \<Rightarrow> int \<Rightarrow> int option \<Rightarrow> process_info list \<Rightarrow> 'e \<Rightarrow> (int list \<times> int list) \<times> 'e" where
  "reap_orphaned_daemons kill t live procs = reap_pids kill (orphaned_daemons t live procs) ([], [])"

section \<open>Starting and stopping\<close>

definition daemon_executable :: "('e, 'x) client_host_scheme \<Rightarrow> string" where
  "daemon_executable Y = opt_or (y_pythonw Y) (y_executable Y)"

definition daemon_argv :: "('e, 'x) client_host_scheme \<Rightarrow> string option \<Rightarrow> string list" where
  "daemon_argv Y config =
     [daemon_executable Y, ''-m'', ''ntdrive.daemon.app''] @
     (case config of None \<Rightarrow> [] | Some c \<Rightarrow> if c = [] then [] else [''--config'', c])"

definition spawn_daemon :: "('e, 'x) client_host_scheme \<Rightarrow> string option \<Rightarrow> ('e, unit) cl" where
  "spawn_daemon Y config = modifyS (y_spawn Y (daemon_argv Y config))"

definition major :: "string \<Rightarrow> string" where "major v = takeWhile (\<lambda>c. c \<noteq> CHR ''.'') v"

definition check_version :: "('e, 'x) client_host_scheme \<Rightarrow> string \<Rightarrow> ('w, unit) app" where
  "check_version Y remote = (if remote \<noteq> [] \<and> major remote \<noteq> major (y_version Y) then throw VERSION_MISMATCH else ret ())"

definition turns :: "int \<Rightarrow> int \<Rightarrow> nat" where
  "turns timeout step = nat (max 0 timeout div step) + 2"

fun await_exit :: "('e, 'x) client_host_scheme \<Rightarrow> daemon_info \<Rightarrow> int \<Rightarrow> nat \<Rightarrow> 'e \<Rightarrow> bool \<times> 'e" where
  "await_exit Y i deadline 0 e = (False, e)"
| "await_exit Y i deadline (Suc n) e =
     (if deadline \<le> y_now Y e then (False, e)
      else if \<not> pid_alive Y (di_pid i) e then (True, y_write Y No_File e)
      else await_exit Y i deadline n (y_sleep Y 300 e))"

definition stop_daemon :: "('e, 'x) client_host_scheme \<Rightarrow> daemon_info \<Rightarrow> int \<Rightarrow> ('e, bool) cl" where
  "stop_daemon Y i timeout e =
     (let e1 = y_shutdown Y (base_url i) (di_token i) e
      in case await_exit Y i (y_now Y e1 + timeout) (turns timeout 300) e1 of
           (gone, e2) \<Rightarrow>
             if gone then (Inr True, e2)
             else let e3 = y_write Y No_File (y_kill Y (di_pid i) e2)
                  in (Inr (\<not> pid_alive Y (di_pid i) e3), e3))"

fun await_up :: "('e, 'x) client_host_scheme \<Rightarrow> int \<Rightarrow> nat \<Rightarrow> ('e, daemon_info) cl" where
  "await_up Y deadline 0 = raise (Exn ''Unfinished'')"
| "await_up Y deadline (Suc n) =
     bindE (read_info Y) (\<lambda>found.
     bindE (case found of None \<Rightarrow> ret None | Some i \<Rightarrow> bindE (probe_health Y i) (\<lambda>h. ret (case h of None \<Rightarrow> None | Some _ \<Rightarrow> Some i)))
       (\<lambda>up e. case up of
          Some i \<Rightarrow> (Inr i, e)
        | None \<Rightarrow>
            if deadline \<le> y_now Y e then throw DAEMON_UNAVAILABLE e
            else await_up Y deadline n (y_sleep Y 400 e)))"

text \<open>What \<open>ensure_daemon\<close> makes of the daemon daemon.json names: Some is the daemon to use, None that one has to be started.\<close>

definition health_version :: "json \<Rightarrow> ('w, string) app" where
  "health_version h =
     (case h of JDict d \<Rightarrow> ret (py_str (opt_or (dict_get d ''version'') (JStr []))) | _ \<Rightarrow> raise (Exn ''AttributeError''))"

definition use_running ::
  "('e, 'x) client_host_scheme \<Rightarrow> string option \<Rightarrow> bool \<Rightarrow> daemon_info \<Rightarrow> ('e, daemon_info option) cl" where
  "use_running Y wanted autostart i =
     bindE (getS (pid_alive Y (di_pid i))) (\<lambda>alive.
     if \<not> alive then ret None
     else bindE (probe_health Y i) (\<lambda>h.
       case h of
         None \<Rightarrow> ret None
       | Some j \<Rightarrow>
           bindE (health_version j) (\<lambda>remote.
           thenE (check_version Y remote)
             (let config = di_config_path i; want = opt_or wanted []
              in if config \<noteq> [] \<and> want \<noteq> [] \<and> \<not> y_same_path Y config want then throw INVALID_ARGS
                 else if config \<noteq> [] \<or> wanted = None \<or> \<not> autostart then ret (Some i)
                 else thenE (bindE (stop_daemon Y i 15000) (\<lambda>_. ret ())) (ret None)))))"

definition start_daemon :: "('e, 'x) client_host_scheme \<Rightarrow> string option \<Rightarrow> int \<Rightarrow> ('e, daemon_info) cl" where
  "start_daemon Y wanted timeout =
     thenE (remove_info Y) (thenE (spawn_daemon Y wanted)
       (\<lambda>e. await_up Y (y_now Y e + timeout) (turns timeout 400) e))"

definition ensure_daemon :: "('e, 'x) client_host_scheme \<Rightarrow> string option \<Rightarrow> bool \<Rightarrow> int \<Rightarrow> ('e, daemon_info) cl" where
  "ensure_daemon Y config autostart timeout =
     bindE (getS (y_wanted Y config)) (\<lambda>wanted.
     bindE (read_info Y) (\<lambda>found.
     bindE (case found of None \<Rightarrow> ret None | Some i \<Rightarrow> use_running Y wanted autostart i) (\<lambda>usable.
       case usable of
         Some i \<Rightarrow> ret i
       | None \<Rightarrow> if \<not> autostart then throw DAEMON_UNAVAILABLE else start_daemon Y wanted timeout)))"

definition restart_daemon :: "('e, 'x) client_host_scheme \<Rightarrow> string option \<Rightarrow> int \<Rightarrow> ('e, daemon_info) cl" where
  "restart_daemon Y config timeout =
     bindE (read_info Y) (\<lambda>found.
     thenE (case found of None \<Rightarrow> ret () | Some i \<Rightarrow> bindE (stop_daemon Y i 15000) (\<lambda>_. ret ()))
       (ensure_daemon Y config True timeout))"

section \<open>A daemon takes its port\<close>

record 'e serve_host = "'e client_host" +
  y_bind :: "string \<Rightarrow> int \<Rightarrow> 'e \<Rightarrow> bool \<times> 'e"

datatype serving = Serves_On int | Already_Served | Bind_Failed

definition serve_bind :: "('e, 'x) serve_host_scheme \<Rightarrow> string \<Rightarrow> int \<Rightarrow> 'e \<Rightarrow> serving \<times> 'e" where
  "serve_bind Y host port e =
     (case y_bind Y host port e of
        (True, e1) \<Rightarrow> (Serves_On port, e1)
      | (False, e1) \<Rightarrow>
          (case (case info_of_file (y_file Y e1) of
                   None \<Rightarrow> (None, e1)
                 | Some i \<Rightarrow> if di_port i \<noteq> port then (None, e1)
                             else (case y_health Y (base_url i) 2000 e1 of (a, e2) \<Rightarrow> (health_of a, e2))) of
             (Some _, e2) \<Rightarrow> (Already_Served, e2)
           | (None, e2) \<Rightarrow>
               (case y_bind Y host (port + 1) e2 of
                  (True, e3) \<Rightarrow> (Serves_On (port + 1), e3)
                | (False, e3) \<Rightarrow> (Bind_Failed, e3))))"

definition coview_base :: "string \<Rightarrow> int \<Rightarrow> string \<Rightarrow> string" where
  "coview_base host port view = ''http://'' @ host @ '':'' @ int_text port @ ''/coview?token='' @ view"

definition serve_publish :: "('e, 'x) serve_host_scheme \<Rightarrow> daemon_info \<Rightarrow> serving \<Rightarrow> 'e \<Rightarrow> 'e" where
  "serve_publish Y i s e =
     (case s of Serves_On p \<Rightarrow> snd (write_info Y (i\<lparr>di_port := p\<rparr>) e) | _ \<Rightarrow> e)"

section \<open>Facts\<close>

lemma info_round_trip: "info_of_json (info_json i) = Some i"
  by (simp add: info_json_def info_of_json_def INFO_FIELDS_def dict_keys_def str_field_def int_field_def)

lemma orphans_spare_the_live:
  "pid \<in> set (orphaned_daemons t live procs) \<Longrightarrow>
   live \<noteq> Some pid \<and> (\<exists>p \<in> set procs. pi_pid p = pid \<and> pi_listens p = Some False \<and> ORPHAN_MIN_AGE \<le> t - pi_created p)"
  by (auto simp: orphaned_daemons_def orphan_def)

lemma reap_pids_all:
  "reap_pids kill pids (ended, failed) e = ((ended', failed'), e') \<Longrightarrow>
   set ended' \<union> set failed' = set ended \<union> set failed \<union> set pids"
  by (induction pids arbitrary: ended failed e) (fastforce split: prod.splits kill_result.splits)+

end
