(* ===== verification/Daemon_App.thy ===== *)
theory Daemon_App
  imports Dispatch Term_Manager
begin

text \<open>
  \<open>daemon/app.py\<close>: the HTTP routes of ntdrived and the token check in front of them. A request is what
  aiohttp made of it; the body of a reply is a JSON value, the page, or the opened stream of a terminal
  (theory \<open>Term_Stream\<close> models what happens on it).
\<close>

section \<open>Requests and replies\<close>

datatype http_method = GET | HEAD | POST | OTHER string

text \<open>\<open>request.json() if request.can_read_body\<close>: no body, one that is not JSON, a value.\<close>

datatype http_body = No_Body | Bad_Body | Json_Body json

record http_request =
  rq_method :: http_method
  rq_path :: string
  rq_token :: string
  rq_query :: "(string, string) dict"
  rq_caller :: "string option"
  rq_body :: http_body

datatype reply_body = RB_Json json | RB_Text string | RB_Page | RB_Stream string string

record http_reply =
  rp_status :: int
  rp_headers :: "(string, string) dict"
  rp_body :: reply_body

definition json_reply :: "int \<Rightarrow> json \<Rightarrow> http_reply" where
  "json_reply n j = \<lparr>rp_status = n, rp_headers = [(''Content-Type'', ''application/json'')], rp_body = RB_Json j\<rparr>"

definition error_response :: "nt_error \<Rightarrow> http_reply" where
  "error_response e = json_reply (status e) (JDict (to_dict e))"

section \<open>Tokens\<close>

definition OPEN_PATHS :: "string list" where "OPEN_PATHS = [''/health'', ''/coview'', ''/coview/'']"
definition VIEW_PATHS :: "string list" where "VIEW_PATHS = [''/coview/sessions'']"
definition VIEW_PREFIX :: string where "VIEW_PREFIX = ''/ws/term/''"
definition INPUT_SOURCES :: "string list" where "INPUT_SOURCES = [''human'', ''agent'']"

definition SAFE_HEADERS :: "(string, string) dict" where
  "SAFE_HEADERS =
     [(''Referrer-Policy'', ''no-referrer''), (''Cache-Control'', ''no-store''), (''X-Content-Type-Options'', ''nosniff'')]"

record ('e, 'z) daemon_app =
  da_dispatcher :: "('e, 'z) term_world_scheme dispatcher"
  da_token :: string
  da_view_token :: string
  da_version :: string
  da_pid :: int

record ('e, 'z) daemon =
  dm_service :: "('e, 'z) term_world_scheme service_state"
  dm_stop :: bool

definition presented_token :: "http_request \<Rightarrow> string" where
  "presented_token rq =
     (if rq_token rq \<noteq> [] then rq_token rq
      else if starts_with ''/ws/'' (rq_path rq) then opt_or (dict_get (rq_query rq) ''token'') []
      else [])"

definition view_path :: "string \<Rightarrow> bool" where
  "view_path path = (path \<in> set VIEW_PATHS \<or> starts_with VIEW_PREFIX path)"

definition accepted_tokens :: "('e, 'z) daemon_app \<Rightarrow> http_request \<Rightarrow> string list" where
  "accepted_tokens A rq =
     da_token A # (if da_view_token A \<noteq> [] \<and> view_path (rq_path rq) then [da_view_token A] else [])"

definition token_matches :: "string \<Rightarrow> string list \<Rightarrow> bool" where
  "token_matches presented accepted = list_ex (\<lambda>token. presented = token) accepted"

definition with_safe_headers :: "http_reply \<Rightarrow> http_reply" where
  "with_safe_headers r =
     r\<lparr>rp_headers := fold (\<lambda>(k, v) d. if dict_has d k then d else dict_set k v d) SAFE_HEADERS (rp_headers r)\<rparr>"

text \<open>A handler's reply, or the HTTP exception it leaves with, which passes the middleware as it is.\<close>

definition auth_middleware ::
  "('e, 'z) daemon_app \<Rightarrow> (http_request \<Rightarrow> ('e, 'z) daemon \<Rightarrow> (http_reply + http_reply) \<times> ('e, 'z) daemon) \<Rightarrow>
   http_request \<Rightarrow> ('e, 'z) daemon \<Rightarrow> http_reply \<times> ('e, 'z) daemon" where
  "auth_middleware A handler rq d =
     (if rq_path rq \<notin> set OPEN_PATHS \<and> \<not> token_matches (presented_token rq) (accepted_tokens A rq)
      then (with_safe_headers (error_response (nt_err UNAUTHORIZED)), d)
      else (case handler rq d of
              (Inl raised, d') \<Rightarrow> (raised, d')
            | (Inr reply, d') \<Rightarrow> (with_safe_headers reply, d')))"

section \<open>Handlers\<close>

definition health :: "('e, 'z) daemon_app \<Rightarrow> ('e, 'z) daemon \<Rightarrow> http_reply" where
  "health A d =
     (let D = da_dispatcher A; w = sv_inner (dm_service d); st = w_store w
      in json_reply 200 (JDict
           [(''ok'', JBool True), (''version'', JStr (da_version A)), (''pid'', JInt (da_pid A)),
            (''started_at'', JInt (st_started_at st)), (''t_plus'', JStr (t_plus (dp_now D w) st)),
            (''uptime_s'', JInt (dp_now D w - st_started_at st)), (''tools'', JInt (int (length (dp_registry D))))]))"

definition list_tools :: "('e, 'z) daemon_app \<Rightarrow> http_reply" where
  "list_tools A =
     json_reply 200 (JDict [(''tools'', JList (map (\<lambda>s. JDict (spec_summary s)) (dict_values (dp_registry (da_dispatcher A)))))])"

definition body_args :: "http_body \<Rightarrow> (string, json) dict option" where
  "body_args b =
     (case b of
        No_Body \<Rightarrow> Some []
      | Bad_Body \<Rightarrow> None
      | Json_Body JNull \<Rightarrow> Some []
      | Json_Body (JDict args) \<Rightarrow> Some args
      | Json_Body _ \<Rightarrow> None)"

text \<open>An exception no handler catches is aiohttp's reply 500.\<close>

definition SERVER_ERROR :: http_reply where
  "SERVER_ERROR = \<lparr>rp_status = 500, rp_headers = [], rp_body = RB_Text ''500 Internal Server Error''\<rparr>"

definition call_tool :: "('e, 'z) daemon_app \<Rightarrow> string \<Rightarrow> http_request \<Rightarrow> ('e, 'z) daemon \<Rightarrow> (http_reply + http_reply) \<times> ('e, 'z) daemon" where
  "call_tool A name rq d =
     (case body_args (rq_body rq) of
        None \<Rightarrow> (Inr (error_response (nt_err INVALID_ARGS)), d)
      | Some args \<Rightarrow>
          (case call (da_dispatcher A) name (JDict args) (opt_or (rq_caller rq) ''http'') (dm_service d) of
             (r, sv) \<Rightarrow>
               (case r of
                  Inr result \<Rightarrow> Inr (json_reply 200 result)
                | Inl (Nt e) \<Rightarrow> Inr (error_response e)
                | Inl _ \<Rightarrow> Inl SERVER_ERROR,
                d\<lparr>dm_service := sv\<rparr>)))"

definition shutdown_route :: "('e, 'z) daemon \<Rightarrow> http_reply \<times> ('e, 'z) daemon" where
  "shutdown_route d = (json_reply 200 (JDict [(''ok'', JBool True), (''stopping'', JBool True)]), d\<lparr>dm_stop := True\<rparr>)"

definition coview_sessions :: "('e, 'z) daemon \<Rightarrow> http_reply" where
  "coview_sessions d =
     json_reply 200 (JDict [(''sessions'', JList (map JDict (term_sessions [] (w_store (sv_inner (dm_service d))))))])"

text \<open>\<open>term_ws\<close> up to the upgrade of the connection.\<close>

definition term_ws :: "string \<Rightarrow> http_request \<Rightarrow> ('e, 'z) daemon \<Rightarrow> http_reply" where
  "term_ws sid rq d =
     (let source = opt_or (dict_get (rq_query rq) ''source'') ''human''
      in if source \<notin> set INPUT_SOURCES then error_response (nt_err INVALID_ARGS)
         else (case term_get sid (sv_inner (dm_service d)) of
                 (Inl (Nt e), _) \<Rightarrow> error_response e
               | (Inl _, _) \<Rightarrow> SERVER_ERROR
               | (Inr _, _) \<Rightarrow> \<lparr>rp_status = 101, rp_headers = [], rp_body = RB_Stream sid source\<rparr>))"

section \<open>Routes\<close>

datatype route =
  Rt_Health | Rt_Tools | Rt_Call string | Rt_Shutdown | Rt_Term string | Rt_Page | Rt_Sessions | Rt_Missing | Rt_Bad_Method

text \<open>The table of \<open>create_app\<close>. aiohttp matches a placeholder with one path segment, answers HEAD where GET
  is routed, and tells a path it does not know from a method it does not take there.\<close>

definition segment_after :: "string \<Rightarrow> string \<Rightarrow> string option" where
  "segment_after prefix path =
     (let s = drop (length prefix) path
      in if starts_with prefix path \<and> s \<noteq> [] \<and> CHR ''/'' \<notin> set s then Some s else None)"

definition get_route :: "http_method \<Rightarrow> route \<Rightarrow> route" where
  "get_route m r = (if m = GET \<or> m = HEAD then r else Rt_Bad_Method)"

definition post_route :: "http_method \<Rightarrow> route \<Rightarrow> route" where
  "post_route m r = (if m = POST then r else Rt_Bad_Method)"

definition route_of :: "http_method \<Rightarrow> string \<Rightarrow> route" where
  "route_of m path =
     (if path = ''/health'' then get_route m Rt_Health
      else if path = ''/api/tools'' then get_route m Rt_Tools
      else if path = ''/api/shutdown'' then post_route m Rt_Shutdown
      else if path = ''/coview'' \<or> path = ''/coview/'' then get_route m Rt_Page
      else if path = ''/coview/sessions'' then get_route m Rt_Sessions
      else (case segment_after ''/api/tools/'' path of
              Some name \<Rightarrow> post_route m (Rt_Call name)
            | None \<Rightarrow>
                (case segment_after VIEW_PREFIX path of
                   Some sid \<Rightarrow> get_route m (Rt_Term sid)
                 | None \<Rightarrow> Rt_Missing)))"

definition http_exception :: "int \<Rightarrow> string \<Rightarrow> http_reply" where
  "http_exception n t = \<lparr>rp_status = n, rp_headers = [], rp_body = RB_Text t\<rparr>"

definition dispatch_route :: "('e, 'z) daemon_app \<Rightarrow> http_request \<Rightarrow> ('e, 'z) daemon \<Rightarrow> (http_reply + http_reply) \<times> ('e, 'z) daemon" where
  "dispatch_route A rq d =
     (case route_of (rq_method rq) (rq_path rq) of
        Rt_Health \<Rightarrow> (Inr (health A d), d)
      | Rt_Tools \<Rightarrow> (Inr (list_tools A), d)
      | Rt_Call name \<Rightarrow> call_tool A name rq d
      | Rt_Shutdown \<Rightarrow> (case shutdown_route d of (r, d') \<Rightarrow> (Inr r, d'))
      | Rt_Term sid \<Rightarrow> (Inr (term_ws sid rq d), d)
      | Rt_Page \<Rightarrow> (Inr \<lparr>rp_status = 200, rp_headers = [], rp_body = RB_Page\<rparr>, d)
      | Rt_Sessions \<Rightarrow> (Inr (coview_sessions d), d)
      | Rt_Missing \<Rightarrow> (Inl (http_exception 404 ''404: Not Found''), d)
      | Rt_Bad_Method \<Rightarrow> (Inl (http_exception 405 ''405: Method Not Allowed''), d))"

definition serve_request :: "('e, 'z) daemon_app \<Rightarrow> http_request \<Rightarrow> ('e, 'z) daemon \<Rightarrow> http_reply \<times> ('e, 'z) daemon" where
  "serve_request A = auth_middleware A (dispatch_route A)"

section \<open>Facts\<close>

lemma token_matches_set [simp]: "token_matches t ts \<longleftrightarrow> t \<in> set ts"
  by (auto simp: token_matches_def list_ex_iff)

lemma accepted_view_path:
  "presented_token rq \<in> set (accepted_tokens A rq) \<Longrightarrow> presented_token rq \<noteq> da_token A \<Longrightarrow> view_path (rq_path rq)"
  by (auto simp: accepted_tokens_def split: if_splits)

lemma segment_after_starts: "segment_after p path = Some s \<Longrightarrow> starts_with p path \<and> path = p @ s"
  by (auto simp: segment_after_def Let_def starts_with_iff split: if_splits)

text \<open>Behind the view paths and the open paths no route changes anything.\<close>

lemma stream_route:
  "route_of m (VIEW_PREFIX @ s) =
     (if s \<noteq> [] \<and> CHR ''/'' \<notin> set s then get_route m (Rt_Term s) else Rt_Missing)"
  by (simp add: route_of_def VIEW_PREFIX_def segment_after_def starts_with_def)

lemma open_route:
  "path \<in> set OPEN_PATHS \<Longrightarrow> route_of m path \<in> {Rt_Health, Rt_Page, Rt_Bad_Method}"
  by (auto simp: OPEN_PATHS_def route_of_def get_route_def)

lemma sessions_route: "route_of m ''/coview/sessions'' \<in> {Rt_Sessions, Rt_Bad_Method}"
  by (simp add: route_of_def get_route_def)

lemma view_path_route:
  assumes "view_path path"
  shows "route_of m path \<in> {Rt_Sessions, Rt_Missing, Rt_Bad_Method} \<or>
    (\<exists>sid. route_of m path = Rt_Term sid \<and> path = VIEW_PREFIX @ sid)"
proof (cases "starts_with VIEW_PREFIX path")
  case True
  then obtain s where "path = VIEW_PREFIX @ s" by (auto simp: starts_with_iff)
  then show ?thesis by (auto simp: stream_route get_route_def)
next
  case False
  then have "path = ''/coview/sessions''" using assms by (simp add: view_path_def VIEW_PATHS_def)
  then show ?thesis using sessions_route [of m] by auto
qed

lemma quiet_route:
  "route_of (rq_method rq) (rq_path rq) \<in> {Rt_Health, Rt_Tools, Rt_Term sid, Rt_Page, Rt_Sessions, Rt_Missing, Rt_Bad_Method} \<Longrightarrow>
   snd (dispatch_route A rq d) = d"
  by (auto simp: dispatch_route_def)

lemma middleware_refuses:
  "rq_path rq \<notin> set OPEN_PATHS \<Longrightarrow> presented_token rq \<notin> set (accepted_tokens A rq) \<Longrightarrow>
   auth_middleware A h rq d = (with_safe_headers (error_response (nt_err UNAUTHORIZED)), d)"
  by (simp add: auth_middleware_def)

lemma middleware_passes:
  "rq_path rq \<in> set OPEN_PATHS \<or> presented_token rq \<in> set (accepted_tokens A rq) \<Longrightarrow>
   auth_middleware A h rq d = (case h rq d of (Inl raised, d') \<Rightarrow> (raised, d') | (Inr reply, d') \<Rightarrow> (with_safe_headers reply, d'))"
  by (auto simp: auth_middleware_def)

lemma safe_headers_kept: "dict_has h k \<Longrightarrow> dict_has (fold (\<lambda>(k, v) d. if dict_has d k then d else dict_set k v d) hs h) k"
  by (induction hs arbitrary: h) (auto simp: dict_has_def)

lemma safe_headers_set:
  "(k, v) \<in> set hs \<Longrightarrow> dict_has (fold (\<lambda>(k, v) d. if dict_has d k then d else dict_set k v d) hs h) k"
proof (induction hs arbitrary: h)
  case (Cons p hs)
  then show ?case using safe_headers_kept by (cases p) (force simp: dict_has_def)
qed simp

lemma status_is_error: "400 \<le> status e"
proof -
  have all: "list_all (\<lambda>(k, n). 400 \<le> n) HTTP_STATUS" by code_simp
  show ?thesis
  proof (cases "dict_get HTTP_STATUS (err_code e)")
    case None
    then show ?thesis by (simp add: status_def)
  next
    case (Some n)
    then have "(err_code e, n) \<in> set HTTP_STATUS" by (rule map_of_SomeD)
    then show ?thesis using all Some by (auto simp: status_def list_all_iff)
  qed
qed

end
