(* ===== verification/Daemon_Client.thy ===== *)
theory Daemon_Client
  imports Lifecycle Daemon_App
begin

text \<open>
  \<open>daemon/client.py\<close>: the HTTP client of the command line, the SDK and the MCP server. It keeps one connection, re-reads
  daemon.json once when the daemon it knew is gone, and turns a reply back into a result or an error. \<open>cw_posts\<close> is the
  history of what the posts of tool calls came back with.
\<close>

section \<open>State\<close>

record daemon_client =
  cl_info :: daemon_info
  cl_caller :: string
  cl_config :: "string option"
  cl_kept :: "string option"

definition new_client :: "daemon_info \<Rightarrow> string \<Rightarrow> string option \<Rightarrow> daemon_client" where
  "new_client i caller config = \<lparr>cl_info = i, cl_caller = caller, cl_config = config, cl_kept = None\<rparr>"

text \<open>A connection that is refused or not answered in time to connect, a reply that does not come in time, any other
  failure of HTTP, or a reply with its JSON body if it has one.\<close>

datatype post_outcome = Post_Refused | Post_Timed_Out | Post_Broken | Post_Reply int "json option"

record 'e post_host = "'e client_host" +
  y_post :: "string \<Rightarrow> string \<Rightarrow> string \<Rightarrow> string \<Rightarrow> json \<Rightarrow> 'e \<Rightarrow> post_outcome \<times> 'e"
  y_get :: "string \<Rightarrow> string \<Rightarrow> string \<Rightarrow> 'e \<Rightarrow> post_outcome \<times> 'e"

record 'e client_world =
  cw_client :: daemon_client
  cw_env :: 'e
  cw_posts :: "post_outcome list"

type_synonym ('e, 'a) cc = "('e client_world, 'a) app"

definition on_host :: "('e, 'a) app \<Rightarrow> ('e, 'a) cc" where
  "on_host = zoom cw_env (\<lambda>e w. w\<lparr>cw_env := e\<rparr>)"

section \<open>Keeping the connection\<close>

text \<open>\<open>_sync_client\<close> and \<open>_async_client\<close>: the address of the kept connection.\<close>

definition kept_base :: "daemon_client \<Rightarrow> string" where
  "kept_base c = opt_or (cl_kept c) (base_url (cl_info c))"

definition client_close :: "daemon_client \<Rightarrow> daemon_client" where
  "client_close c = c\<lparr>cl_kept := None\<rparr>"

definition refresh_with :: "daemon_info \<Rightarrow> daemon_client \<Rightarrow> bool \<times> daemon_client" where
  "refresh_with i c =
     (let changed = di_token i \<noteq> di_token (cl_info c) \<or> base_url i \<noteq> base_url (cl_info c);
          c1 = c\<lparr>cl_info := i\<rparr>
      in (changed, if changed then client_close c1 else c1))"

definition refresh :: "('e, 'x) client_host_scheme \<Rightarrow> ('e, bool) cc" where
  "refresh Y =
     bindE (getS (\<lambda>w. cl_config (cw_client w))) (\<lambda>config.
     catch_nt (on_host (ensure_daemon Y config False 25000))
       (\<lambda>_. ret False)
       (\<lambda>i w. case refresh_with i (cw_client w) of (changed, c) \<Rightarrow> (Inr changed, w\<lparr>cw_client := c\<rparr>)))"

section \<open>Calls\<close>

text \<open>\<open>_raise\<close>: a body that is not JSON stands for an internal error with its text.\<close>

definition reply_json :: "json option \<Rightarrow> json" where
  "reply_json body =
     opt_or body (JDict [(''error'', JDict [(''code'', JStr INTERNAL), (''message'', JStr [])])])"

definition client_raise :: "int \<Rightarrow> json option \<Rightarrow> exn + (string, json) dict" where
  "client_raise code body =
     (case reply_json body of
        JDict d \<Rightarrow>
          if 400 \<le> code then (case from_dict d of Inl x \<Rightarrow> Inl x | Inr e \<Rightarrow> Inl (Nt e)) else Inr d
      | j \<Rightarrow> if 400 \<le> code then Inl (Exn ''AttributeError'') else Inr [(''result'', j)])"

definition tool_path :: "string \<Rightarrow> string" where "tool_path name = ''/api/tools/'' @ name"

definition post_tool :: "('e, 'x) post_host_scheme \<Rightarrow> string \<Rightarrow> (string, json) dict \<Rightarrow> ('e, post_outcome) cc" where
  "post_tool Y name args w =
     (let c = cw_client w; base = kept_base c
      in case y_post Y base (tool_path name) (di_token (cl_info c)) (cl_caller c) (JDict args) (cw_env w) of
           (out, e) \<Rightarrow> (Inr out, w\<lparr>cw_client := c\<lparr>cl_kept := Some base\<rparr>, cw_env := e, cw_posts := cw_posts w @ [out]\<rparr>))"

text \<open>One turn of the loop of \<open>call\<close> and \<open>acall\<close>: None is \<open>continue\<close>.\<close>

definition client_turn ::
  "('e, 'x) post_host_scheme \<Rightarrow> string \<Rightarrow> (string, json) dict \<Rightarrow> bool \<Rightarrow> ('e, (string, json) dict option) cc" where
  "client_turn Y name args retried =
     bindE (post_tool Y name args) (\<lambda>out.
       case out of
         Post_Refused \<Rightarrow>
           bindE (if retried then ret False else refresh Y) (\<lambda>again.
             if again then ret None else throw DAEMON_UNAVAILABLE)
       | Post_Timed_Out \<Rightarrow> throw TIMEOUT
       | Post_Broken \<Rightarrow> throw DAEMON_UNAVAILABLE
       | Post_Reply code body \<Rightarrow>
           bindE (if code = 401 \<and> \<not> retried then refresh Y else ret False) (\<lambda>again w.
             if again then (Inr None, w)
             else (case client_raise code body of Inl x \<Rightarrow> (Inl x, w) | Inr d \<Rightarrow> (Inr (Some d), w))))"

definition client_call :: "('e, 'x) post_host_scheme \<Rightarrow> string \<Rightarrow> (string, json) dict \<Rightarrow> ('e, (string, json) dict) cc" where
  "client_call Y name args =
     bindE (client_turn Y name args False) (\<lambda>r.
       case r of
         Some d \<Rightarrow> ret d
       | None \<Rightarrow>
           bindE (client_turn Y name args True) (\<lambda>r. case r of Some d \<Rightarrow> ret d | None \<Rightarrow> raise (Exn ''Unfinished'')))"

text \<open>\<open>tools\<close> and \<open>health\<close> are single requests.\<close>

definition get_json :: "('e, 'x) post_host_scheme \<Rightarrow> string \<Rightarrow> string \<Rightarrow> ('e, (string, json) dict) cc" where
  "get_json Y path token w =
     (let c = cw_client w; base = kept_base c
      in case y_get Y base path token (cw_env w) of
           (out, e) \<Rightarrow>
             (case out of Post_Reply code body \<Rightarrow> client_raise code body | _ \<Rightarrow> Inl (Exn ''HTTPError''),
              w\<lparr>cw_client := c\<lparr>cl_kept := Some base\<rparr>, cw_env := e\<rparr>))"

definition client_tools :: "('e, 'x) post_host_scheme \<Rightarrow> ('e, json) cc" where
  "client_tools Y =
     bindE (getS (\<lambda>w. di_token (cl_info (cw_client w)))) (\<lambda>token.
     bindE (get_json Y ''/api/tools'' token) (\<lambda>d. ret (opt_or (dict_get d ''tools'') (JList []))))"

definition client_health :: "('e, 'x) post_host_scheme \<Rightarrow> ('e, (string, json) dict) cc" where
  "client_health Y = get_json Y ''/health'' []"

definition ws_url :: "daemon_client \<Rightarrow> string \<Rightarrow> string \<Rightarrow> string" where
  "ws_url c sid source = ws_base (cl_info c) @ VIEW_PREFIX @ sid @ ''?token='' @ di_token (cl_info c) @ ''&source='' @ source"

definition connect :: "('e, 'x) client_host_scheme \<Rightarrow> string option \<Rightarrow> bool \<Rightarrow> string \<Rightarrow> ('e, daemon_client) app" where
  "connect Y config autostart caller =
     bindE (ensure_daemon Y config autostart 25000) (\<lambda>i. ret (new_client i caller config))"

section \<open>Facts\<close>

lemma refresh_keeps_posts: "cw_posts (snd (refresh Y w)) = cw_posts w"
  by (simp add: refresh_def catch_nt_def on_host_def prog_unfold refresh_with_def Let_def split: prod.splits sum.splits exn.splits)

lemma last_turn: "client_turn Y name args True w = (r, w') \<Longrightarrow> r \<noteq> Inr None"
  by (auto simp: client_turn_def post_tool_def Let_def bindE_def throw_def raise_def ret_def
      split: prod.splits post_outcome.splits sum.splits)

text \<open>What a turn makes of its post.\<close>

lemma turn_posts:
  assumes "client_turn Y name args retried w = (r, w')"
  obtains out where "cw_posts w' = cw_posts w @ [out]"
    "r = Inr None \<Longrightarrow> \<not> retried \<and> (out = Post_Refused \<or> (\<exists>body. out = Post_Reply 401 body))"
    "\<And>d. r = Inr (Some d) \<Longrightarrow> \<exists>code body. out = Post_Reply code body \<and> client_raise code body = Inr d"
proof -
  obtain out w1 where p: "post_tool Y name args w = (Inr out, w1)" and w1: "cw_posts w1 = cw_posts w @ [out]"
    by (cases "y_post Y (kept_base (cw_client w)) (tool_path name) (di_token (cl_info (cw_client w))) (cl_caller (cw_client w))
          (JDict args) (cw_env w)") (auto simp: post_tool_def Let_def intro: that)
  have turn: "client_turn Y name args retried w = (r, w')" by fact
  have "cw_posts w' = cw_posts w1"
    using turn refresh_keeps_posts [of Y w1]
    by (auto simp: client_turn_def p bindE_def throw_def raise_def ret_def
        split: post_outcome.splits prod.splits sum.splits if_splits)
  then show ?thesis
    using turn w1
    by (intro that [of out])
      (auto simp: client_turn_def p bindE_def throw_def raise_def ret_def
        split: post_outcome.splits prod.splits sum.splits if_splits)
qed

end
