(* ===== verification/Daemon_Properties.thy ===== *)
theory Daemon_Properties
  imports Daemon_Client Demo_Host
begin

text \<open>
  What the tokens guard, what a client gets to see of a call, how often it posts, and that starting a daemon comes to an end.
\<close>

section \<open>Tokens\<close>

lemma refused_reply:
  "rp_status (with_safe_headers (error_response (nt_err UNAUTHORIZED))) = 401"
  "rp_body (with_safe_headers (error_response (nt_err UNAUTHORIZED))) \<noteq> RB_Stream sid src"
  by (simp_all add: with_safe_headers_def error_response_def json_reply_def status_def HTTP_STATUS_def)

lemma routes_quiet:
  assumes "view_path (rq_path rq) \<or> rq_path rq \<in> set OPEN_PATHS"
  shows "snd (dispatch_route A rq d) = d"
proof -
  have "\<exists>sid. route_of (rq_method rq) (rq_path rq) \<in> {Rt_Health, Rt_Tools, Rt_Term sid, Rt_Page, Rt_Sessions, Rt_Missing, Rt_Bad_Method}"
    using assms view_path_route [of "rq_path rq" "rq_method rq"] open_route [of "rq_path rq" "rq_method rq"] by blast
  then show ?thesis using quiet_route by blast
qed

lemma with_safe_body [simp]: "rp_body (with_safe_headers r) = rp_body r" "rp_status (with_safe_headers r) = rp_status r"
  by (simp_all add: with_safe_headers_def)

lemma stream_needs_route:
  assumes "rp_body (case dispatch_route A rq d of (Inl raised, d') \<Rightarrow> raised | (Inr reply, d') \<Rightarrow> reply) = RB_Stream sid src"
  shows "route_of (rq_method rq) (rq_path rq) = Rt_Term sid"
  using assms
  by (auto simp: dispatch_route_def call_tool_def shutdown_route_def health_def list_tools_def coview_sessions_def http_exception_def
      json_reply_def error_response_def SERVER_ERROR_def term_ws_def Let_def
      split: route.splits option.splits prod.splits sum.splits exn.splits if_splits)


text \<open>A daemon with one tool, which fails without arguments and leaves a note with some.\<close>

definition demo_tool :: "(demo_env, 'z) term_world_scheme tool_spec" where
  "demo_tool =
     \<lparr>ts_name = ''vm_note'', ts_description = [], ts_validate = (\<lambda>j. case j of JDict d \<Rightarrow> Inr d | _ \<Rightarrow> Inl []), ts_schema = [],
      ts_handler = (\<lambda>d. if d = [] then throw VM_NOT_FOUND
                         else (\<lambda>w. (Inr (JDict d), w\<lparr>w_store := record_event 5 ''win'' ''note'' [] (w_store w)\<rparr>))),
      ts_effect = Eff_Additive, ts_positional = [], ts_destructive = False, ts_idempotent = False, ts_long_poll = False,
      ts_touches_guest = False\<rparr>"

definition demo_app :: "(demo_env, 'z) daemon_app" where
  "demo_app =
     \<lparr>da_dispatcher =
        \<lparr>dp_registry = [(''vm_note'', demo_tool)], dp_policy = DEFAULT_POLICY, dp_timeout_max = 600,
         dp_now = (\<lambda>w. 7), dp_mono = (\<lambda>w. 7), dp_t_plus = (\<lambda>w. [])\<rparr>,
      da_token = ''secret'', da_view_token = ''view'', da_version = ''0.9.0'', da_pid = 4\<rparr>"

definition demo_daemon where
  "demo_daemon = \<lparr>dm_service = \<lparr>sv_inner = demo_world demo_running, sv_audit = []\<rparr>, dm_stop = False\<rparr>"

definition demo_request :: "string \<Rightarrow> http_request" where
  "demo_request token =
     \<lparr>rq_method = POST, rq_path = ''/api/tools/vm_note'', rq_token = token, rq_query = [], rq_caller = Some ''mcp'',
      rq_body = Json_Body (JDict [(''text'', JStr ''hi'')])\<rparr>"


section \<open>A call over HTTP\<close>

text \<open>The daemon as the host a client posts to.\<close>

definition daemon_post ::
  "('e, 'z) daemon_app \<Rightarrow> string \<Rightarrow> string \<Rightarrow> string \<Rightarrow> string \<Rightarrow> json \<Rightarrow> ('e, 'z) daemon \<Rightarrow> post_outcome \<times> ('e, 'z) daemon" where
  "daemon_post A base path token caller body d =
     (case serve_request A \<lparr>rq_method = POST, rq_path = path, rq_token = token, rq_query = [], rq_caller = Some caller,
                            rq_body = Json_Body body\<rparr> d of
        (rp, d') \<Rightarrow> (Post_Reply (rp_status rp) (case rp_body rp of RB_Json j \<Rightarrow> Some j | _ \<Rightarrow> None), d'))"

definition over_the_wire :: "exn + json \<Rightarrow> exn + (string, json) dict" where
  "over_the_wire r =
     (case r of Inl x \<Rightarrow> Inl x | Inr (JDict d) \<Rightarrow> Inr d | Inr j \<Rightarrow> Inr [(''result'', j)])"

lemma unauthorized_only: "status e = 401 \<Longrightarrow> err_code e = UNAUTHORIZED"
proof -
  assume s: "status e = 401"
  have all: "list_all (\<lambda>(k, n). n = 401 \<longrightarrow> k = UNAUTHORIZED) HTTP_STATUS" by code_simp
  show ?thesis
  proof (cases "dict_get HTTP_STATUS (err_code e)")
    case None
    then show ?thesis using s by (simp add: status_def)
  next
    case (Some n)
    then have "(err_code e, n) \<in> set HTTP_STATUS" by (rule map_of_SomeD)
    then show ?thesis using all s Some by (auto simp: status_def list_all_iff)
  qed
qed

lemma call_raises_nt: "fst (call D name args caller sv) = Inl x \<Longrightarrow> \<exists>e. x = Nt e"
  by (auto simp: call_def Let_def throw_def raise_def split: option.splits prod.splits sum.splits exn.splits)

lemma word_no_slash: "list_all is_word name \<Longrightarrow> CHR ''/'' \<notin> set name"
proof -
  assume w: "list_all is_word name"
  have "\<not> is_word (CHR ''/'')" by code_simp
  then show ?thesis using w by (auto simp: list_all_iff)
qed

lemma tool_route: "name \<noteq> [] \<Longrightarrow> CHR ''/'' \<notin> set name \<Longrightarrow> route_of POST (tool_path name) = Rt_Call name"
  by (simp add: route_of_def tool_path_def segment_after_def post_route_def starts_with_def)

lemma daemon_post_call:
  assumes "name \<noteq> []" "CHR ''/'' \<notin> set name" "da_token A \<noteq> []"
    and c: "call (da_dispatcher A) name (JDict args) caller (dm_service d) = (r, sv)"
  shows "daemon_post A base (tool_path name) (da_token A) caller (JDict args) d =
    (case r of Inr j \<Rightarrow> Post_Reply 200 (Some j) | Inl (Nt e) \<Rightarrow> Post_Reply (status e) (Some (JDict (to_dict e)))
             | Inl _ \<Rightarrow> Post_Reply 500 None, d\<lparr>dm_service := sv\<rparr>)"
proof -
  let ?rq = "\<lparr>rq_method = POST, rq_path = tool_path name, rq_token = da_token A, rq_query = [], rq_caller = Some caller,
              rq_body = Json_Body (JDict args)\<rparr>"
  have acc: "rq_path ?rq \<in> set OPEN_PATHS \<or> presented_token ?rq \<in> set (accepted_tokens A ?rq)"
    using assms by (simp add: presented_token_def accepted_tokens_def)
  have "serve_request A ?rq d =
    (case r of Inr j \<Rightarrow> with_safe_headers (json_reply 200 j) | Inl (Nt e) \<Rightarrow> with_safe_headers (error_response e)
             | Inl _ \<Rightarrow> SERVER_ERROR, d\<lparr>dm_service := sv\<rparr>)"
    unfolding serve_request_def middleware_passes [OF acc]
    by (simp add: dispatch_route_def tool_route [OF assms(1,2)] call_tool_def body_args_def c split: sum.splits exn.splits)
  then show ?thesis
    by (simp add: daemon_post_def with_safe_headers_def json_reply_def error_response_def SERVER_ERROR_def
        split: sum.splits exn.splits)
qed

text \<open>
  A tool called through the client and the daemon gives the caller what the dispatcher's call gave: the same result, or the same
  error with its code, message, hint and details, and the dispatcher is called once.
\<close>

lemma client_over_http:
  assumes post: "y_post Y = daemon_post A"
    and token: "di_token (cl_info (cw_client w)) = da_token A" "da_token A \<noteq> []"
    and name: "name \<noteq> []" "list_all is_word name"
    and inner: "call (da_dispatcher A) name (JDict args) (cl_caller (cw_client w)) (dm_service (cw_env w)) = (r, sv)"
    and wire: "\<And>e. r = Inl (Nt e) \<Longrightarrow> extra_ok (err_extra e) \<and> err_code e \<noteq> UNAUTHORIZED"
  shows "fst (client_call Y name args w) = over_the_wire r \<and>
    cw_env (snd (client_call Y name args w)) = (cw_env w)\<lparr>dm_service := sv\<rparr>"
proof -
  have slash: "CHR ''/'' \<notin> set name" using name by (rule_tac word_no_slash)
  define out where "out = (case r of Inr j \<Rightarrow> Post_Reply 200 (Some j) | Inl (Nt e) \<Rightarrow> Post_Reply (status e) (Some (JDict (to_dict e)))
             | Inl _ \<Rightarrow> Post_Reply 500 None)"
  obtain w1 where p: "post_tool Y name args w = (Inr out, w1)" and env: "cw_env w1 = (cw_env w)\<lparr>dm_service := sv\<rparr>"
    by (simp add: post_tool_def Let_def post token daemon_post_call [OF name(1) slash token(2) inner] out_def)
  have "client_turn Y name args False w = (map_sum id Some (over_the_wire r), w1)"
  proof (cases r)
    case (Inr j)
    then show ?thesis
      by (cases j) (simp_all add: client_turn_def bindE_def p out_def ret_def client_raise_def reply_json_def over_the_wire_def)
  next
    case (Inl x)
    then obtain e where e: "x = Nt e" using call_raises_nt [of "da_dispatcher A"] inner by (metis fst_conv)
    then have w: "extra_ok (err_extra e)" "status e \<noteq> 401" using wire Inl unauthorized_only by blast+
    then show ?thesis using status_is_error [of e]
      by (simp add: client_turn_def bindE_def p out_def Inl e ret_def client_raise_def reply_json_def over_the_wire_def from_to_dict)
  qed
  then show ?thesis using env by (cases "over_the_wire r") (simp_all add: client_call_def bindE_def ret_def)
qed

definition demo_host :: "(demo_env, 'z) daemon post_host" where
  "demo_host =
     \<lparr>y_now = (\<lambda>d. 0), y_sleep = (\<lambda>t d. d), y_version = ''0.9.0'', y_file = (\<lambda>d. No_File), y_write = (\<lambda>f d. d),
      y_process = (\<lambda>p d. None), y_health = (\<lambda>u t d. (None, d)), y_shutdown = (\<lambda>u t d. d), y_spawn = (\<lambda>a d. d), y_kill = (\<lambda>p d. d),
      y_wanted = (\<lambda>c d. None), y_same_path = (\<lambda>a b. a = b), y_executable = ''python'', y_pythonw = None,
      y_post = daemon_post demo_app, y_get = (\<lambda>b p t d. (Post_Broken, d))\<rparr>"

definition demo_info :: daemon_info where
  "demo_info =
     \<lparr>di_host = ''127.0.0.1'', di_port = 8765, di_pid = 4, di_token = ''secret'', di_version = ''0.9.0'', di_started_at = 0,
      di_config_path = ''vms.yaml'', di_view_token = ''view''\<rparr>"

definition demo_client where
  "demo_client = \<lparr>cw_client = new_client demo_info ''mcp'' None, cw_env = demo_daemon, cw_posts = []\<rparr>"

lemma demo_fails:
  "fst (call (da_dispatcher demo_app) ''vm_note'' (JDict []) ''mcp'' (dm_service demo_daemon)) = Inl (Nt (nt_err VM_NOT_FOUND))"
  by (simp add: call_def demo_app_def registry_get_def run_tool_def demo_tool_def policy_check_def policy_level_def DEFAULT_POLICY_def
      dict_has_def cap_timeout_def throw_def raise_def Let_def)

lemma demo_call_over_http:
  "fst (client_call demo_host ''vm_note'' [] demo_client) = Inl (Nt (nt_err VM_NOT_FOUND))"
proof -
  obtain sv where c: "call (da_dispatcher demo_app) ''vm_note'' (JDict []) (cl_caller (cw_client demo_client)) (dm_service (cw_env demo_client)) =
      (Inl (Nt (nt_err VM_NOT_FOUND)), sv)"
    using demo_fails by (simp add: demo_client_def new_client_def) (metis prod.collapse)
  have "list_all is_word ''vm_note''" by code_simp
  then have "fst (client_call demo_host ''vm_note'' [] demo_client) = over_the_wire (Inl (Nt (nt_err VM_NOT_FOUND)))"
    using client_over_http [OF _ _ _ _ _ c, of demo_host]
    by (simp add: demo_host_def demo_client_def new_client_def demo_info_def demo_app_def extra_ok_def)
  then show ?thesis by (simp add: over_the_wire_def)
qed

section \<open>How often a client posts\<close>

text \<open>
  C28. A call posts its tool once, and a second time only when the first post reached no daemon or was turned away with 401; a
  result is what the last reply says.
\<close>

theorem client_posts_again_only_unserved:
  assumes "client_call Y name args w = (r, w')"
  shows "\<exists>again out. cw_posts w' = cw_posts w @ again @ [out] \<and>
    (again = [] \<or> again = [Post_Refused] \<or> (\<exists>body. again = [Post_Reply 401 body])) \<and>
    (\<forall>d. r = Inr d \<longrightarrow> (\<exists>code body. out = Post_Reply code body \<and> client_raise code body = Inr d))"
proof -
  obtain r1 w1 where t1: "client_turn Y name args False w = (r1, w1)" by (cases "client_turn Y name args False w")
  obtain out1 where o1: "cw_posts w1 = cw_posts w @ [out1]"
    "r1 = Inr None \<Longrightarrow> out1 = Post_Refused \<or> (\<exists>body. out1 = Post_Reply 401 body)"
    "\<And>d. r1 = Inr (Some d) \<Longrightarrow> \<exists>code body. out1 = Post_Reply code body \<and> client_raise code body = Inr d"
    using turn_posts [OF t1] by metis
  show ?thesis
  proof (cases "r1 = Inr None")
    case False
    then have "w' = w1" "\<And>d. r = Inr d \<Longrightarrow> r1 = Inr (Some d)"
      using assms t1 by (auto simp: client_call_def bindE_def ret_def split: sum.splits option.splits)
    then show ?thesis using o1 by (intro exI [of _ "[]"] exI [of _ out1]) auto
  next
    case True
    obtain r2 w2 where t2: "client_turn Y name args True w1 = (r2, w2)" by (cases "client_turn Y name args True w1")
    obtain out2 where o2: "cw_posts w2 = cw_posts w1 @ [out2]"
      "\<And>d. r2 = Inr (Some d) \<Longrightarrow> \<exists>code body. out2 = Post_Reply code body \<and> client_raise code body = Inr d"
      using turn_posts [OF t2] by metis
    have "w' = w2" "\<And>d. r = Inr d \<Longrightarrow> r2 = Inr (Some d)"
      using assms t1 t2 True by (auto simp: client_call_def bindE_def ret_def raise_def split: sum.splits option.splits)
    then show ?thesis using o1 o2 True by (intro exI [of _ "[out1]"] exI [of _ out2]) auto
  qed
qed

text \<open>A host where the posts come back as scripted and one daemon may be found.\<close>

record script_env =
  sc_now :: int
  sc_posts :: "post_outcome list"
  sc_file :: info_file
  sc_health :: "(int \<times> json option) option list"
  sc_ports :: "int list"

definition script_host :: "script_env post_host" where
  "script_host =
     \<lparr>y_now = sc_now, y_sleep = (\<lambda>t e. e\<lparr>sc_now := sc_now e + max 0 t\<rparr>), y_version = ''0.9.0'', y_file = sc_file,
      y_write = (\<lambda>f e. e\<lparr>sc_file := f\<rparr>), y_process = (\<lambda>p e. Some (True, ''running'')),
      y_health = (\<lambda>u t e. (case sc_health e of [] \<Rightarrow> (None, e) | a # as \<Rightarrow> (a, e\<lparr>sc_health := as\<rparr>))),
      y_shutdown = (\<lambda>u t e. e), y_spawn = (\<lambda>a e. e), y_kill = (\<lambda>p e. e),
      y_wanted = (\<lambda>c e. c), y_same_path = (\<lambda>a b. a = b), y_executable = ''python'', y_pythonw = None,
      y_post = (\<lambda>b p t c j e. (case sc_posts e of [] \<Rightarrow> (Post_Broken, e) | p # ps \<Rightarrow> (p, e\<lparr>sc_posts := ps\<rparr>))),
      y_get = (\<lambda>b p t e. (Post_Broken, e))\<rparr>"

definition alive_answer :: "(int \<times> json option) option" where
  "alive_answer = Some (200, Some (JDict [(''version'', JStr ''0.9.1'')]))"

definition restarted :: script_env where
  "restarted =
     \<lparr>sc_now = 0, sc_posts = [Post_Reply 401 None, Post_Reply 200 (Some (JDict []))],
      sc_file = Info_File (info_json (demo_info\<lparr>di_token := ''fresh''\<rparr>)), sc_health = [alive_answer], sc_ports = [8765]\<rparr>"

definition restarted_client where
  "restarted_client = \<lparr>cw_client = new_client demo_info ''mcp'' None, cw_env = restarted, cw_posts = []\<rparr>"

lemma restarted_found:
  "ensure_daemon script_host None False 25000 (restarted\<lparr>sc_posts := ps\<rparr>) =
      (Inr (demo_info\<lparr>di_token := ''fresh''\<rparr>), restarted\<lparr>sc_posts := ps, sc_health := []\<rparr>)"
proof -
  have f: "info_of_file (sc_file restarted) = Some (demo_info\<lparr>di_token := ''fresh''\<rparr>)"
    by (simp add: restarted_def info_of_file_def info_round_trip)
  have v: "major ''0.9.1'' = ''0''" "major ''0.9.0'' = ''0''" by code_simp+
  show ?thesis
    using f by (simp add: ensure_daemon_def prog_unfold read_info_def use_running_def probe_health_def script_host_def pid_alive_def
      health_of_def alive_answer_def health_version_def check_version_def v py_str_def restarted_def demo_info_def)
qed

lemma restarted_call: "fst (client_call script_host ''vm_list'' [] restarted_client) = Inr [] \<and>
    cw_posts (snd (client_call script_host ''vm_list'' [] restarted_client)) = [Post_Reply 401 None, Post_Reply 200 (Some (JDict []))]"
proof -
  note e = restarted_found
  define ok where "ok = Post_Reply 200 (Some (JDict []))"
  have posts: "sc_posts restarted = [Post_Reply 401 None, ok]" by (simp add: restarted_def ok_def)
  have same: "restarted\<lparr>sc_posts := sc_posts restarted\<rparr> = restarted" by simp
  define c1 where "c1 = \<lparr>cw_client = (new_client demo_info ''mcp'' None)\<lparr>cl_kept := Some (base_url demo_info)\<rparr>,
    cw_env = restarted\<lparr>sc_posts := [ok]\<rparr>, cw_posts = [Post_Reply 401 None]\<rparr>"
  have p1: "post_tool script_host ''vm_list'' [] restarted_client = (Inr (Post_Reply 401 None), c1)"
    by (simp add: post_tool_def restarted_client_def kept_base_def new_client_def script_host_def posts c1_def)
  define c2 where "c2 = c1\<lparr>cw_client := \<lparr>cl_info = demo_info\<lparr>di_token := ''fresh''\<rparr>, cl_caller = ''mcp'', cl_config = None, cl_kept = None\<rparr>,
    cw_env := restarted\<lparr>sc_posts := [ok], sc_health := []\<rparr>\<rparr>"
  have rf: "refresh script_host c1 = (Inr True, c2)"
    by (simp add: refresh_def prog_unfold catch_nt_def on_host_def c1_def e new_client_def refresh_with_def c2_def client_close_def
        base_url_def netloc_def) (simp add: demo_info_def client_close_def)
  obtain c3 where p2: "post_tool script_host ''vm_list'' [] c2 = (Inr ok, c3)" and c3: "cw_posts c3 = [Post_Reply 401 None, ok]"
    by (simp add: post_tool_def c2_def c1_def script_host_def)
  have t1: "client_turn script_host ''vm_list'' [] False restarted_client = (Inr None, c2)"
    by (simp add: client_turn_def bindE_def p1 rf)
  have t2: "client_turn script_host ''vm_list'' [] True c2 = (Inr (Some []), c3)"
    by (simp add: client_turn_def bindE_def p2 ok_def ret_def client_raise_def reply_json_def)
  show ?thesis by (simp add: client_call_def bindE_def t1 t2 ret_def c3 ok_def)
qed

theorem client_posts_again_only_unserved_witness:
  "\<exists>again out. [Post_Reply 401 None, Post_Reply 200 (Some (JDict []))] = again @ [out] \<and>
    (again = [] \<or> again = [Post_Refused] \<or> (\<exists>body. again = [Post_Reply 401 body])) \<and>
    (\<exists>code body. out = Post_Reply code body \<and> client_raise code body = Inr [])"
proof -
  have c: "client_call script_host ''vm_list'' [] restarted_client =
      (Inr [], snd (client_call script_host ''vm_list'' [] restarted_client))"
    using restarted_call by (metis prod.collapse)
  have p: "cw_posts restarted_client = []" by (simp add: restarted_client_def)
  show ?thesis using client_posts_again_only_unserved [OF c] by (simp add: p conjunct2 [OF restarted_call])
qed

section \<open>Starting a daemon\<close>

text \<open>A clock that the sleeps move on and that a health request does not turn back.\<close>

definition clock_ok :: "('e, 'x) client_host_scheme \<Rightarrow> bool" where
  "clock_ok Y =
     ((\<forall>d e. 0 \<le> d \<longrightarrow> y_now Y e + d \<le> y_now Y (y_sleep Y d e)) \<and>
      (\<forall>u t e. y_now Y e \<le> y_now Y (snd (y_health Y u t e))))"

definition answered :: "('e, 'x) client_host_scheme \<Rightarrow> daemon_info \<Rightarrow> bool" where
  "answered Y i = (\<exists>e. info_of_file (y_file Y e) = Some i \<and> health_of (fst (y_health Y (base_url i) 2000 e)) \<noteq> None)"

lemma await_up_turn:
  obtains e1 where "y_now Y e \<le> y_now Y e1 \<or> \<not> clock_ok Y"
    "(\<exists>i. await_up Y deadline (Suc n) e = (Inr i, e1) \<and> answered Y i) \<or>
     (deadline \<le> y_now Y e1 \<and> await_up Y deadline (Suc n) e = (Inl (Nt (nt_err DAEMON_UNAVAILABLE)), e1)) \<or>
     (y_now Y e1 < deadline \<and> await_up Y deadline (Suc n) e = await_up Y deadline n (y_sleep Y 400 e1))"
proof (cases "info_of_file (y_file Y e)")
  case None
  then show ?thesis
    by (intro that [of e]) (auto simp: read_info_def bindE_def getS_def ret_def throw_def raise_def)
next
  case (Some i)
  obtain a e1 where h: "y_health Y (base_url i) 2000 e = (a, e1)" by (cases "y_health Y (base_url i) 2000 e")
  have mono: "y_now Y e \<le> y_now Y e1 \<or> \<not> clock_ok Y" using h by (metis clock_ok_def snd_conv)
  have "health_of a \<noteq> None \<Longrightarrow> answered Y i" using Some h by (auto simp: answered_def)
  then show ?thesis using mono
    by (intro that [of e1])
      (auto simp: Some h read_info_def probe_health_def bindE_def getS_def ret_def throw_def raise_def split: option.splits)
qed

lemma await_up_returns:
  assumes "clock_ok Y" "deadline - y_now Y e \<le> 400 * int n"
  shows "\<exists>r e'. await_up Y deadline (Suc n) e = (r, e') \<and>
    ((\<exists>i. r = Inr i \<and> answered Y i) \<or> r = Inl (Nt (nt_err DAEMON_UNAVAILABLE)))"
  using assms(2)
proof (induction n arbitrary: e)
  case 0
  show ?case
    by (rule await_up_turn [where e = e and Y = Y and deadline = deadline and n = 0]) (use 0 assms(1) in auto)
next
  case (Suc n)
  obtain e1 where e1: "y_now Y e \<le> y_now Y e1" and turn:
    "(\<exists>i. await_up Y deadline (Suc (Suc n)) e = (Inr i, e1) \<and> answered Y i) \<or>
     (deadline \<le> y_now Y e1 \<and> await_up Y deadline (Suc (Suc n)) e = (Inl (Nt (nt_err DAEMON_UNAVAILABLE)), e1)) \<or>
     (y_now Y e1 < deadline \<and> await_up Y deadline (Suc (Suc n)) e = await_up Y deadline (Suc n) (y_sleep Y 400 e1))"
    using await_up_turn [of Y e deadline "Suc n"] assms(1) by metis
  have "y_now Y e1 + 400 \<le> y_now Y (y_sleep Y 400 e1)" using assms(1) by (simp add: clock_ok_def)
  then have "deadline - y_now Y (y_sleep Y 400 e1) \<le> 400 * int n" using Suc.prems e1 by simp
  from Suc.IH [OF this] turn show ?case by metis
qed

lemma turns_enough: "0 < step \<Longrightarrow> timeout \<le> step * int (turns timeout step - 1)"
proof -
  assume s: "0 < step"
  have "timeout \<le> max 0 timeout" by simp
  also have "\<dots> \<le> step * (max 0 timeout div step + 1)"
    using s by (metis add.commute distrib_left mult.right_neutral mult_div_mod_eq pos_mod_bound add_le_cancel_left less_imp_le)
  also have "\<dots> = step * int (turns timeout step - 1)"
    using s by (simp add: turns_def pos_imp_zdiv_nonneg_iff)
  finally show ?thesis .
qed

lemma start_daemon_returns:
  assumes "clock_ok Y" "start_daemon Y wanted timeout e = (r, e')"
  shows "(\<exists>i. r = Inr i \<and> answered Y i) \<or> r = Inl (Nt (nt_err DAEMON_UNAVAILABLE))"
proof -
  let ?e = "y_spawn Y (daemon_argv Y wanted) (y_write Y No_File e)"
  have n: "turns timeout 400 = Suc (turns timeout 400 - 1)" by (simp add: turns_def)
  have "await_up Y (y_now Y ?e + timeout) (turns timeout 400) ?e = (r, e')"
    using assms(2) by (simp add: start_daemon_def remove_info_def spawn_daemon_def modifyS_def thenE_def bindE_def)
  moreover have "y_now Y ?e + timeout - y_now Y ?e \<le> 400 * int (turns timeout 400 - 1)"
    using turns_enough [of 400 timeout] by simp
  ultimately show ?thesis using await_up_returns [OF assms(1), of "y_now Y ?e + timeout" ?e "turns timeout 400 - 1"] n by auto
qed

lemma use_running_outcome:
  assumes "info_of_file (y_file Y e) = Some i" "use_running Y wanted autostart i e = (r, e')"
  shows "(\<forall>j. r = Inr (Some j) \<longrightarrow> j = i \<and> answered Y i) \<and> r \<noteq> Inl (Exn ''Unfinished'')"
proof -
  obtain a e1 where h: "y_health Y (base_url i) 2000 e = (a, e1)" by (cases "y_health Y (base_url i) 2000 e")
  have "health_of a \<noteq> None \<Longrightarrow> answered Y i" using assms(1) h by (auto simp: answered_def)
  then show ?thesis using assms(2)
    by (auto simp: use_running_def probe_health_def h health_version_def check_version_def stop_daemon_def prog_unfold throw_def Let_def
        split: if_splits option.splits sum.splits prod.splits json.splits)
qed


lemma script_clock: "clock_ok script_host"
  by (simp add: clock_ok_def script_host_def split: list.splits)


section \<open>A second daemon beside a living one\<close>

text \<open>
  A daemon that finds its port taken leaves only if daemon.json leads it to the one that holds the port. The client that starts
  it has removed that file, so beside a daemon that was too slow for the two seconds of a health request, or one that has
  not written the file yet, it takes the next port.
\<close>

lemma published_daemon_is_found:
  assumes "info_of_file (y_file Y e1) = Some i" "di_port i = port" "y_bind Y host port e = (False, e1)"
    "health_of (fst (y_health Y (base_url i) 2000 e1)) \<noteq> None"
  shows "fst (serve_bind Y host port e) = Already_Served"
  using assms by (auto simp: serve_bind_def split: prod.splits)

lemma unpublished_daemon_gets_a_twin:
  assumes "y_file Y e1 = No_File" "y_bind Y host port e = (False, e1)" "y_bind Y host (port + 1) e1 = (True, e2)"
  shows "fst (serve_bind Y host port e) = Serves_On (port + 1)"
  using assms by (simp add: serve_bind_def info_of_file_def)

end
