(* ===== verification/Term_Stream.thy ===== *)
theory Term_Stream
  imports Daemon_App
begin

text \<open>
  The stream of \<open>term_ws\<close> of \<open>daemon/app.py\<close>, after the upgrade: the pump that forwards the session's output to the viewer runs beside the
  loop that reads the viewer's messages, while the shell goes on. A run is a list of what happens, in order; a step that cannot
  happen in a state gives None.
\<close>

section \<open>State\<close>

datatype ws_sent = WS_Bytes string | WS_Disconnected | WS_Error "(string, json) dict"

text \<open>A binary frame with whether the channel accepts its bytes, a text frame with the JSON it holds, the end of the connection.\<close>

datatype ws_frame = WF_Binary string bool | WF_Text "json option" bool | WF_Close

datatype ws_event = WE_Output string | WE_Gone | WE_Start | WE_Pump | WE_Frame ws_frame

datatype ws_phase = Ph_Opening | Ph_Streaming | Ph_Closed

record ws_world =
  wv_session :: term_session
  wv_queue :: nat
  wv_phase :: ws_phase
  wv_pumping :: bool
  wv_sent :: "ws_sent list"

definition ws_send :: "ws_sent \<Rightarrow> ws_world \<Rightarrow> ws_world" where
  "ws_send m v = v\<lparr>wv_sent := wv_sent v @ [m]\<rparr>"

definition SNAPSHOT_BYTES :: int where "SNAPSHOT_BYTES = 65536"

text \<open>Subscribing and taking the snapshot happen in one go; sending it lets the loop run other things before the rest.\<close>

definition ws_begin :: "term_session \<Rightarrow> ws_world" where
  "ws_begin s =
     (case subscribe s of
        (q, s1) \<Rightarrow>
          let shot = snapshot_bytes SNAPSHOT_BYTES s1
          in \<lparr>wv_session = s1, wv_queue = q, wv_phase = Ph_Opening, wv_pumping = False,
              wv_sent = (if shot \<noteq> [] then [WS_Bytes shot] else [])\<rparr>)"

definition ws_start :: "ws_world \<Rightarrow> ws_world" where
  "ws_start v =
     (if ts_connected (wv_session v) then v else ws_send WS_Disconnected v)\<lparr>wv_phase := Ph_Streaming, wv_pumping := True\<rparr>"

section \<open>The pump\<close>

definition queue_of :: "nat \<Rightarrow> term_session \<Rightarrow> string option list" where
  "queue_of q s = opt_or (dict_get (ts_subscribers s) q) []"

definition drop_first :: "nat \<Rightarrow> term_session \<Rightarrow> term_session" where
  "drop_first q s = s\<lparr>ts_subscribers := map (\<lambda>(k, items). (k, if k = q then tl items else items)) (ts_subscribers s)\<rparr>"

definition ws_pump :: "ws_world \<Rightarrow> ws_world option" where
  "ws_pump v =
     (if \<not> wv_pumping v then None
      else (case queue_of (wv_queue v) (wv_session v) of
              [] \<Rightarrow> None
            | item # _ \<Rightarrow>
                let v1 = v\<lparr>wv_session := drop_first (wv_queue v) (wv_session v)\<rparr>
                in Some (case item of
                     None \<Rightarrow> (ws_send WS_Disconnected v1)\<lparr>wv_pumping := False\<rparr>
                   | Some chunk \<Rightarrow> ws_send (WS_Bytes chunk) v1)))"

section \<open>The viewer's messages\<close>

definition ws_finish :: "ws_world \<Rightarrow> ws_world" where
  "ws_finish v = v\<lparr>wv_phase := Ph_Closed, wv_pumping := False, wv_session := unsubscribe (wv_queue v) (wv_session v)\<rparr>"

definition ws_binary :: "int \<Rightarrow> bool \<Rightarrow> string \<Rightarrow> string \<Rightarrow> ws_world \<Rightarrow> ws_world" where
  "ws_binary t ok bytes source v =
     (case session_send t ok bytes source (wv_session v) of
        (r, s) \<Rightarrow>
          let v1 = v\<lparr>wv_session := s\<rparr>
          in case r of
               Inr _ \<Rightarrow> v1
             | Inl (Nt e) \<Rightarrow>
                 let v2 = ws_send (WS_Error (dict_update [(''type'', JStr ''error'')] (error_body e))) v1
                 in if err_code e = SESSION_DISCONNECTED then ws_finish v2 else v2
             | Inl _ \<Rightarrow> ws_finish v1)"

text \<open>\<open>int(data[k])\<close>: \<open>Inl True\<close> is an error the handler suppresses (KeyError, ValueError), \<open>Inl False\<close> one that ends the
  connection (TypeError).\<close>

definition int_item :: "(string, json) dict \<Rightarrow> string \<Rightarrow> bool + int" where
  "int_item d k =
     (case dict_get d k of
        None \<Rightarrow> Inl True
      | Some (JInt n) \<Rightarrow> Inr n
      | Some (JBool b) \<Rightarrow> Inr (if b then 1 else 0)
      | Some (JStr s) \<Rightarrow> (case py_int s of None \<Rightarrow> Inl True | Some n \<Rightarrow> Inr n)
      | Some _ \<Rightarrow> Inl False)"

definition ws_resize :: "(string, json) dict \<Rightarrow> ws_world \<Rightarrow> ws_world" where
  "ws_resize d v =
     (case int_item d ''cols'' of
        Inl quiet \<Rightarrow> if quiet then v else ws_finish v
      | Inr cols \<Rightarrow>
          (case int_item d ''rows'' of
             Inl quiet \<Rightarrow> if quiet then v else ws_finish v
           | Inr rows \<Rightarrow>
               (case session_resize cols rows (wv_session v) of
                  (Inl (Nt _), _) \<Rightarrow> v
                | (Inl _, _) \<Rightarrow> ws_finish v
                | (Inr _, s) \<Rightarrow> v\<lparr>wv_session := s\<rparr>)))"

definition ws_input :: "int \<Rightarrow> bool \<Rightarrow> string \<Rightarrow> string \<Rightarrow> ws_world \<Rightarrow> ws_world" where
  "ws_input t ok bytes source v =
     (case session_send t ok bytes source (wv_session v) of
        (r, s) \<Rightarrow>
          let v1 = v\<lparr>wv_session := s\<rparr>
          in case r of Inr _ \<Rightarrow> v1 | Inl (Nt _) \<Rightarrow> v1 | Inl _ \<Rightarrow> ws_finish v1)"

definition ws_text :: "int \<Rightarrow> bool \<Rightarrow> json option \<Rightarrow> string \<Rightarrow> ws_world \<Rightarrow> ws_world" where
  "ws_text t ok msg source v =
     (case msg of
        None \<Rightarrow> v
      | Some (JDict d) \<Rightarrow>
          if dict_get d ''type'' = Some (JStr ''resize'') then ws_resize d v
          else if dict_get d ''type'' = Some (JStr ''input'')
          then ws_input t ok (py_str (opt_or (dict_get d ''data'') (JStr []))) source v
          else v
      | Some _ \<Rightarrow> ws_finish v)"

section \<open>Steps\<close>

definition ws_step :: "string \<Rightarrow> int \<times> ws_event \<Rightarrow> ws_world \<Rightarrow> ws_world option" where
  "ws_step source ev v =
     (case ev of
        (t, WE_Output bytes) \<Rightarrow> Some (v\<lparr>wv_session := session_feed t bytes (wv_session v)\<rparr>)
      | (t, WE_Gone) \<Rightarrow> Some (v\<lparr>wv_session := session_disconnected (wv_session v)\<rparr>)
      | (t, WE_Start) \<Rightarrow> if wv_phase v = Ph_Opening then Some (ws_start v) else None
      | (t, WE_Pump) \<Rightarrow> ws_pump v
      | (t, WE_Frame f) \<Rightarrow>
          if wv_phase v \<noteq> Ph_Streaming then None
          else Some (case f of
                 WF_Binary bytes ok \<Rightarrow> ws_binary t ok bytes source v
               | WF_Text msg ok \<Rightarrow> ws_text t ok msg source v
               | WF_Close \<Rightarrow> ws_finish v))"

fun ws_run :: "string \<Rightarrow> (int \<times> ws_event) list \<Rightarrow> ws_world \<Rightarrow> ws_world option" where
  "ws_run source [] v = Some v"
| "ws_run source (ev # evs) v = (case ws_step source ev v of None \<Rightarrow> None | Some v' \<Rightarrow> ws_run source evs v')"

section \<open>What the viewer has got and will get\<close>

definition sent_bytes :: "ws_sent list \<Rightarrow> string" where
  "sent_bytes ms = concat (map (\<lambda>m. case m of WS_Bytes b \<Rightarrow> b | _ \<Rightarrow> []) ms)"

definition queued_bytes :: "string option list \<Rightarrow> string" where
  "queued_bytes items = concat (map (\<lambda>i. opt_or i []) items)"

definition output_of :: "(int \<times> ws_event) list \<Rightarrow> string" where
  "output_of evs = concat (map (\<lambda>(t, ev). case ev of WE_Output b \<Rightarrow> b | _ \<Rightarrow> []) evs)"

definition viewer_stream :: "ws_world \<Rightarrow> string" where
  "viewer_stream v = sent_bytes (wv_sent v) @ queued_bytes (queue_of (wv_queue v) (wv_session v))"

lemma sent_bytes_append [simp]: "sent_bytes (a @ b) = sent_bytes a @ sent_bytes b"
  by (simp add: sent_bytes_def)

lemma queued_bytes_append [simp]: "queued_bytes (a @ b) = queued_bytes a @ queued_bytes b"
  by (simp add: queued_bytes_def)

lemma queue_of_push:
  "dict_get (ts_subscribers s) q \<noteq> None \<Longrightarrow> queue_of q (push_all item s) = queue_of q s @ [item]"
  by (auto simp: queue_of_def push_all_def map_of_map)

lemma subscribed_push:
  "dict_get (ts_subscribers (push_all item s)) q = None \<longleftrightarrow> dict_get (ts_subscribers s) q = None"
  by (simp add: push_all_def map_of_map)

lemma dict_get_map_keyed: "dict_get (map (\<lambda>(k, v). (k, f k v)) d) k = map_option (f k) (dict_get d k)"
  by (induction d) auto

lemma queue_of_drop:
  "queue_of q s = item # rest \<Longrightarrow> queue_of q (drop_first q s) = rest \<and> dict_get (ts_subscribers (drop_first q s)) q \<noteq> None"
  by (auto simp: queue_of_def drop_first_def dict_get_map_keyed opt_or_def split: option.splits)

text \<open>The frames and everything but output leave the subscribers' queues as they are.\<close>

lemma send_subscribers: "session_send t ok bytes src s = (r, s') \<Longrightarrow> ts_subscribers s' = ts_subscribers s"
  by (auto simp: session_send_def require_connected_def session_log_def prog_unfold throw_def throw_with_def Let_def split: if_splits)

lemma resize_subscribers: "session_resize c r s = (x, s') \<Longrightarrow> ts_subscribers s' = ts_subscribers s"
  by (auto simp: session_resize_def require_connected_def prog_unfold throw_with_def split: if_splits)

lemma feed_queue:
  assumes "dict_get (ts_subscribers s) q \<noteq> None"
  shows "queue_of q (session_feed t b s) = queue_of q s @ [Some b]"
    and "dict_get (ts_subscribers (session_feed t b s)) q \<noteq> None"
proof -
  define s1 where "s1 = session_log t ''o'' b None
         (s\<lparr>ts_ring := ring_append b (ts_ring s), ts_screen_fed := ts_screen_fed s @ b, ts_last_activity := t\<rparr>)"
  have same: "ts_subscribers s1 = ts_subscribers s" by (simp add: s1_def session_log_def Let_def)
  have f: "session_feed t b s = push_all (Some b) s1" by (simp add: session_feed_def s1_def)
  show "queue_of q (session_feed t b s) = queue_of q s @ [Some b]"
    unfolding f using queue_of_push [of s1 q "Some b"] assms by (simp add: same queue_of_def)
  show "dict_get (ts_subscribers (session_feed t b s)) q \<noteq> None"
    unfolding f by (simp add: subscribed_push same assms)
qed

lemma gone_queue:
  assumes "dict_get (ts_subscribers s) q \<noteq> None"
  shows "queued_bytes (queue_of q (session_disconnected s)) = queued_bytes (queue_of q s)"
    and "dict_get (ts_subscribers (session_disconnected s)) q \<noteq> None"
proof -
  have same: "ts_subscribers (s\<lparr>ts_connected := False\<rparr>) = ts_subscribers s" by simp
  show "queued_bytes (queue_of q (session_disconnected s)) = queued_bytes (queue_of q s)"
    using queue_of_push [of "s\<lparr>ts_connected := False\<rparr>" q None] assms
    by (simp add: session_disconnected_def queued_bytes_def queue_of_def)
  show "dict_get (ts_subscribers (session_disconnected s)) q \<noteq> None"
    using assms subscribed_push [of None "s\<lparr>ts_connected := False\<rparr>" q] by (cases "ts_connected s") (simp_all add: session_disconnected_def)
qed

text \<open>While the connection is open the viewer's queue is there, and a viewer of a disconnected session has been told or will be.\<close>

definition ws_ok :: "ws_world \<Rightarrow> bool" where
  "ws_ok v =
     (wv_phase v \<noteq> Ph_Closed \<longrightarrow>
        dict_get (ts_subscribers (wv_session v)) (wv_queue v) \<noteq> None \<and>
        (wv_pumping v \<or> wv_phase v = Ph_Opening \<or> WS_Disconnected \<in> set (wv_sent v)) \<and>
        (\<not> ts_connected (wv_session v) \<longrightarrow> wv_phase v = Ph_Streaming \<longrightarrow>
           WS_Disconnected \<in> set (wv_sent v) \<or> None \<in> set (queue_of (wv_queue v) (wv_session v))))"

lemma fresh_queue:
  "Suc (Max (set (0 # map fst xs))) \<notin> fst ` set xs" for xs :: "(nat \<times> 'a) list"
proof
  assume "Suc (Max (set (0 # map fst xs))) \<in> fst ` set xs"
  then have "Suc (Max (set (0 # map fst xs))) \<in> set (0 # map fst xs)" by simp
  then have "Suc (Max (set (0 # map fst xs))) \<le> Max (set (0 # map fst xs))" by (rule Max_ge [OF finite_set])
  then show False by simp
qed

lemma begin_queue:
  "queue_of (wv_queue (ws_begin s)) (wv_session (ws_begin s)) = []"
  "dict_get (ts_subscribers (wv_session (ws_begin s))) (wv_queue (ws_begin s)) \<noteq> None"
proof -
  let ?q = "Suc (Max (set (0 # map fst (ts_subscribers s))))"
  have "dict_get (ts_subscribers s) ?q = None" using fresh_queue [of "ts_subscribers s"] by (simp add: map_of_eq_None_iff)
  then have "map_of (ts_subscribers s @ [(?q, [])]) ?q = Some []" by (simp add: map_add_def)
  then show "queue_of (wv_queue (ws_begin s)) (wv_session (ws_begin s)) = []"
    "dict_get (ts_subscribers (wv_session (ws_begin s))) (wv_queue (ws_begin s)) \<noteq> None"
    by (simp_all add: ws_begin_def subscribe_def Let_def queue_of_def)
qed

lemma ws_ok_begin: "ws_ok (ws_begin s)"
  using begin_queue (2) [of s] by (simp add: ws_ok_def ws_begin_def split: prod.splits) (simp add: Let_def)

text \<open>A frame of the viewer ends the connection or leaves what it is sent alone.\<close>

definition keeps_stream :: "ws_world \<Rightarrow> ws_world \<Rightarrow> bool" where
  "keeps_stream v v' =
     (wv_phase v' = Ph_Closed \<or>
      (wv_phase v' = wv_phase v \<and> wv_queue v' = wv_queue v \<and> wv_pumping v' = wv_pumping v \<and>
       ts_subscribers (wv_session v') = ts_subscribers (wv_session v) \<and>
       sent_bytes (wv_sent v') = sent_bytes (wv_sent v) \<and> set (wv_sent v) \<subseteq> set (wv_sent v') \<and>
       ts_connected (wv_session v') = ts_connected (wv_session v)))"

lemma send_connected: "session_send t ok bytes src s = (r, s') \<Longrightarrow> ts_connected s' = ts_connected s"
  by (auto simp: session_send_def require_connected_def session_log_def prog_unfold throw_def throw_with_def Let_def split: if_splits)

lemma resize_connected: "session_resize c r s = (x, s') \<Longrightarrow> ts_connected s' = ts_connected s"
  by (auto simp: session_resize_def require_connected_def prog_unfold throw_with_def split: if_splits)

lemma closed_finish [simp]: "wv_phase (ws_finish v) = Ph_Closed"
  by (simp add: ws_finish_def)

lemma ws_binary_keeps: "keeps_stream v (ws_binary t ok bytes src v)"
  by (auto simp: ws_binary_def keeps_stream_def ws_send_def Let_def sent_bytes_def
      dest: send_subscribers send_connected split: prod.splits sum.splits exn.splits)

lemma ws_input_keeps: "keeps_stream v (ws_input t ok bytes src v)"
  by (auto simp: ws_input_def keeps_stream_def Let_def dest: send_subscribers send_connected split: prod.splits sum.splits exn.splits)

lemma ws_resize_keeps: "keeps_stream v (ws_resize d v)"
  by (auto simp: ws_resize_def keeps_stream_def Let_def dest: resize_subscribers resize_connected
      split: prod.splits sum.splits exn.splits)

lemma keeps_stream_refl: "keeps_stream v v"
  by (simp add: keeps_stream_def)

lemma keeps_stream_finish: "keeps_stream v (ws_finish v)"
  by (simp add: keeps_stream_def)

lemma ws_text_keeps: "keeps_stream v (ws_text t ok msg src v)"
  using ws_input_keeps ws_resize_keeps keeps_stream_refl keeps_stream_finish
  by (auto simp: ws_text_def split: option.splits json.splits)

lemma keeps_stream_ok:
  "keeps_stream v v' \<Longrightarrow> ws_ok v \<Longrightarrow> wv_phase v' \<noteq> Ph_Closed \<Longrightarrow> ws_ok v' \<and> viewer_stream v' = viewer_stream v"
  by (auto simp: keeps_stream_def ws_ok_def viewer_stream_def queue_of_def)

lemma pump_phase: "ws_pump v = Some v' \<Longrightarrow> wv_phase v' = wv_phase v"
  by (auto simp: ws_pump_def Let_def ws_send_def split: if_splits list.splits option.splits)

lemma pump_step:
  assumes "ws_pump v = Some v'" "ws_ok v" "wv_phase v \<noteq> Ph_Closed"
  shows "ws_ok v' \<and> viewer_stream v' = viewer_stream v"
proof -
  obtain item rest where q: "queue_of (wv_queue v) (wv_session v) = item # rest"
    using assms(1) by (auto simp: ws_pump_def split: if_splits list.splits)
  show ?thesis using assms queue_of_drop [OF q]
    by (cases item) (auto simp: ws_pump_def q Let_def ws_send_def ws_ok_def viewer_stream_def sent_bytes_def queued_bytes_def
        drop_first_def split: if_splits)
qed

lemma ws_step_stream:
  assumes "ws_step src (t, ev) v = Some v'" "ws_ok v" "wv_phase v' \<noteq> Ph_Closed"
  shows "ws_ok v' \<and> viewer_stream v' = viewer_stream v @ output_of [(t, ev)]"
proof (cases ev)
  case (WE_Output b)
  then show ?thesis using assms feed_queue [of "wv_session v" "wv_queue v" t b]
    by (auto simp: ws_step_def ws_ok_def viewer_stream_def output_of_def queued_bytes_def session_feed_def push_all_def session_log_def Let_def
        split: if_splits)
next
  case WE_Gone
  have none: "\<not> ts_connected s \<or> None \<in> set (queue_of q (session_disconnected s))"
    if "dict_get (ts_subscribers s) q \<noteq> None" for s q
    using queue_of_push [of "s\<lparr>ts_connected := False\<rparr>" q None] that by (simp add: session_disconnected_def)
  have v': "v' = v\<lparr>wv_session := session_disconnected (wv_session v)\<rparr>" using assms(1) WE_Gone by (simp add: ws_step_def)
  have "session_disconnected (wv_session v) = wv_session v" if "\<not> ts_connected (wv_session v)"
    using that by (simp add: session_disconnected_def)
  then show ?thesis using assms(2,3) WE_Gone gone_queue [of "wv_session v" "wv_queue v"] none [of "wv_session v" "wv_queue v"]
    by (cases "ts_connected (wv_session v)") (auto simp: v' ws_ok_def viewer_stream_def output_of_def)
next
  case WE_Start
  then show ?thesis using assms
    by (auto simp: ws_step_def ws_start_def ws_send_def ws_ok_def viewer_stream_def output_of_def sent_bytes_def split: if_splits)
next
  case WE_Pump
  then have p: "ws_pump v = Some v'" using assms(1) by (simp add: ws_step_def)
  then have "wv_phase v \<noteq> Ph_Closed" using pump_phase [OF p] assms(3) by simp
  then show ?thesis using pump_step [OF p assms(2)] WE_Pump by (simp add: output_of_def)
next
  case (WE_Frame f)
  then have "keeps_stream v v'" using assms(1) ws_binary_keeps ws_text_keeps keeps_stream_finish
    by (auto simp: ws_step_def split: if_splits ws_frame.splits)
  then show ?thesis using keeps_stream_ok assms WE_Frame by (auto simp: output_of_def)
qed

text \<open>A connection that has ended does not open again.\<close>

lemma ws_step_closed:
  assumes "ws_step src ev v = Some v'" "wv_phase v = Ph_Closed"
  shows "wv_phase v' = Ph_Closed"
proof (cases ev)
  case (Pair t e)
  then show ?thesis using assms by (cases e) (auto simp: ws_step_def dest: pump_phase split: if_splits)
qed

lemma ws_run_closed: "ws_run src evs v = Some v' \<Longrightarrow> wv_phase v = Ph_Closed \<Longrightarrow> wv_phase v' = Ph_Closed"
  by (induction evs arbitrary: v) (auto dest: ws_step_closed split: option.splits)

lemma ws_run_stream:
  "ws_run src evs v = Some v' \<Longrightarrow> wv_phase v' \<noteq> Ph_Closed \<Longrightarrow> ws_ok v \<Longrightarrow>
   ws_ok v' \<and> viewer_stream v' = viewer_stream v @ output_of evs"
proof (induction evs arbitrary: v)
  case Nil
  then show ?case by (simp add: output_of_def)
next
  case (Cons ev evs)
  obtain t e where ev: "ev = (t, e)" by (cases ev)
  obtain v1 where s: "ws_step src (t, e) v = Some v1" and r: "ws_run src evs v1 = Some v'"
    using Cons.prems(1) by (auto simp: ev split: option.splits)
  have "wv_phase v1 \<noteq> Ph_Closed" using ws_run_closed [OF r] Cons.prems(2) by blast
  from ws_step_stream [OF s Cons.prems(3) this] Cons.IH [OF r Cons.prems(2)]
  show ?case by (simp add: ev output_of_def)
qed

lemma snapshot_is_the_tail:
  assumes h: "ring_holds pre (ts_ring s)"
  shows "\<exists>skipped. pre = skipped @ snapshot_bytes SNAPSHOT_BYTES s \<and>
    int (length skipped) = max (rb_base (ts_ring s)) (int (length pre) - SNAPSHOT_BYTES)"
proof -
  define base where "base = rb_base (ts_ring s)"
  define first where "first = max base (int (length pre) - SNAPSHOT_BYTES)"
  have b: "0 \<le> base" "base \<le> int (length pre)" using ring_base_bounds [OF h] by (auto simp: base_def)
  have e: "ring_end (ts_ring s) = int (length pre)" using h by (simp add: ring_holds_def)
  obtain chunk c' lost trunc where r: "ring_read first SNAPSHOT_BYTES (ts_ring s) = (chunk, c', lost, trunc)"
    by (cases "ring_read first SNAPSHOT_BYTES (ts_ring s)")
  have f: "0 \<le> first" "first \<le> int (length pre)" "base \<le> first" "int (length pre) - first \<le> SNAPSHOT_BYTES"
    using b by (auto simp: first_def SNAPSHOT_BYTES_def)
  have "chunk = segment pre first c'" "trunc \<longleftrightarrow> c' < int (length pre)" "trunc \<longrightarrow> c' - first = SNAPSHOT_BYTES" "c' \<le> int (length pre)"
    using ring_read_segment [OF h f(1,2) _ r] f(3) by (auto simp: SNAPSHOT_BYTES_def base_def max_def)
  then have "chunk = drop (nat first) pre" using f(4) by (auto simp: segment_def)
  moreover have "snapshot_bytes SNAPSHOT_BYTES s = chunk" by (simp add: snapshot_bytes_def e r flip: base_def first_def)
  moreover have "int (length (take (nat first) pre)) = first" using f(1,2) by simp
  ultimately show ?thesis
    by (intro exI [of _ "take (nat first) pre"]) (simp flip: base_def first_def)
qed

lemma viewer_stream_tail:
  assumes "ws_run src evs (ws_begin s) = Some v" "wv_phase v \<noteq> Ph_Closed" "ring_holds pre (ts_ring s)"
  shows "\<exists>skipped. pre @ output_of evs = skipped @ viewer_stream v \<and>
      int (length skipped) = max (rb_base (ts_ring s)) (int (length pre) - SNAPSHOT_BYTES)"
    and "ws_ok v"
proof -
  have shot: "snapshot_bytes n (snd (subscribe s)) = snapshot_bytes n s" for n
    by (simp add: subscribe_def Let_def snapshot_bytes_def)
  have start: "viewer_stream (ws_begin s) = snapshot_bytes SNAPSHOT_BYTES s"
    using begin_queue(1) [of s] shot [of SNAPSHOT_BYTES]
    by (cases "subscribe s") (simp add: viewer_stream_def queued_bytes_def ws_begin_def sent_bytes_def Let_def)
  from ws_run_stream [OF assms(1,2) ws_ok_begin] snapshot_is_the_tail [OF assms(3)]
  show "\<exists>skipped. pre @ output_of evs = skipped @ viewer_stream v \<and>
      int (length skipped) = max (rb_base (ts_ring s)) (int (length pre) - SNAPSHOT_BYTES)" and "ws_ok v"
    by (auto simp: start)
qed

text \<open>
  C30. Whatever happens while a viewer is connected, in whatever order: what it has been sent and what waits in its queue is the shell's
  output from the last 64 KiB that were buffered on, without a gap or a repeat, and a viewer whose queue is empty knows that its
  session is disconnected when it is.
\<close>

theorem viewer_sees_every_byte:
  assumes "ws_run src evs (ws_begin s) = Some v" "wv_phase v \<noteq> Ph_Closed" "ring_holds pre (ts_ring s)"
  shows "(\<exists>skipped. pre @ output_of evs = skipped @ viewer_stream v \<and>
      int (length skipped) = max (rb_base (ts_ring s)) (int (length pre) - SNAPSHOT_BYTES)) \<and>
    (wv_phase v = Ph_Streaming \<and> queue_of (wv_queue v) (wv_session v) = [] \<and> \<not> ts_connected (wv_session v) \<longrightarrow>
      WS_Disconnected \<in> set (wv_sent v))"
  using viewer_stream_tail [OF assms] assms(2) by (auto simp: ws_ok_def)

definition demo_shell :: term_session where
  "demo_shell = session_feed 1 ''PS> '' ((session_attach (new_session ''t-1'' ''win'' ''powershell'' ''ssh'' 80 24 False ''admin'' 0))\<lparr>ts_ring := new_ring 6\<rparr>)"

lemma demo_shell_ring: "ring_holds (''PS> '') (ts_ring demo_shell)"
  using ring_holds_append [OF ring_holds_new, of "''PS> ''" 6]
  by (simp add: demo_shell_def session_feed_def push_all_def session_log_def session_attach_def new_session_def)

definition demo_events :: "(int \<times> ws_event) list" where
  "demo_events =
     [(2, WE_Output ''a''), (3, WE_Start), (4, WE_Output ''bc''), (5, WE_Pump), (6, WE_Frame (WF_Binary ''ls'' True)), (7, WE_Pump),
      (8, WE_Gone), (9, WE_Pump)]"

lemmas demo_run_simps =
  demo_events_def demo_shell_def session_feed_def push_all_def session_log_def session_attach_def new_session_def new_ring_def ring_append_def
  ws_begin_def subscribe_def snapshot_bytes_def ring_read_def ring_end_def py_slice_def slice_bound_def SNAPSHOT_BYTES_def ws_step_def
  ws_start_def ws_send_def ws_pump_def queue_of_def drop_first_def ws_binary_def session_send_def require_connected_def prog_unfold
  session_disconnected_def Let_def

theorem viewer_sees_every_byte_witness:
  "\<exists>v. ws_run ''human'' demo_events (ws_begin demo_shell) = Some v \<and>
     wv_sent v = [WS_Bytes ''PS> '', WS_Bytes ''a'', WS_Bytes ''bc'', WS_Disconnected] \<and> viewer_stream v = ''PS> abc''"
proof -
  have run: "map_option (\<lambda>v. (wv_sent v, wv_phase v)) (ws_run ''human'' demo_events (ws_begin demo_shell)) =
      Some ([WS_Bytes ''PS> '', WS_Bytes ''a'', WS_Bytes ''bc'', WS_Disconnected], Ph_Streaming)"
    by (simp add: demo_run_simps)
  then obtain v where v: "ws_run ''human'' demo_events (ws_begin demo_shell) = Some v" "wv_phase v \<noteq> Ph_Closed"
    "wv_sent v = [WS_Bytes ''PS> '', WS_Bytes ''a'', WS_Bytes ''bc'', WS_Disconnected]" by auto
  from viewer_sees_every_byte [OF v(1,2) demo_shell_ring]
  obtain skipped where "''PS> '' @ output_of demo_events = skipped @ viewer_stream v" "length skipped = 0"
    by (auto simp: SNAPSHOT_BYTES_def demo_shell_def session_feed_def push_all_def session_log_def session_attach_def new_session_def
        ring_append_def new_ring_def)
  then show ?thesis using v by (auto simp: output_of_def demo_events_def)
qed

end
