(* ===== verification/Json_Text.thy ===== *)
theory Json_Text
  imports Audit_Log
begin

text \<open>
  Reading JSON back: Python's \<open>json.loads\<close> on the values of the model (numbers are integers, text is of single-byte characters; a text
  with another number or character is not read). Every line the program writes with \<open>json_dumps\<close> reads back as what it wrote.
\<close>

section \<open>Strings\<close>

definition json_space :: "char \<Rightarrow> bool" where
  "json_space c = (c = CHR '' '' \<or> c = TAB \<or> c = NL \<or> c = CR)"

definition skip_space :: "string \<Rightarrow> string" where "skip_space s = dropWhile json_space s"

definition after_mark :: "char \<Rightarrow> string \<Rightarrow> string option" where
  "after_mark c s = (case skip_space s of [] \<Rightarrow> None | d # t \<Rightarrow> if d = c then Some t else None)"

definition hex_code :: "char \<Rightarrow> nat option" where
  "hex_code c =
     (let n = ord c
      in if 48 \<le> n \<and> n \<le> 57 then Some (n - 48)
         else if 97 \<le> n \<and> n \<le> 102 then Some (n - 87)
         else if 65 \<le> n \<and> n \<le> 70 then Some (n - 55) else None)"

definition unicode_char :: "char \<Rightarrow> char \<Rightarrow> char \<Rightarrow> char \<Rightarrow> char option" where
  "unicode_char a b c d =
     (case (hex_code a, hex_code b, hex_code c, hex_code d) of
        (Some w, Some x, Some y, Some z) \<Rightarrow> if w = 0 \<and> x = 0 then Some (cc (16 * y + z)) else None
      | _ \<Rightarrow> None)"

definition escape_char :: "char \<Rightarrow> char option" where
  "escape_char c =
     (if c \<in> {DQ, BSL, CHR ''/''} then Some c
      else if c = CHR ''b'' then Some (CHR 0x08)
      else if c = CHR ''f'' then Some (CHR 0x0C)
      else if c = CHR ''n'' then Some NL
      else if c = CHR ''r'' then Some CR
      else if c = CHR ''t'' then Some TAB else None)"

text \<open>The rest of a string after its opening quote.\<close>

fun read_chars :: "string \<Rightarrow> string \<Rightarrow> (string \<times> string) option" where
  "read_chars acc [] = None"
| "read_chars acc (c # s) =
     (if c = DQ then Some (rev acc, s)
      else if c = BSL
      then (case s of
              [] \<Rightarrow> None
            | e # s1 \<Rightarrow>
                if e = CHR ''u''
                then (case s1 of
                        p # q # r # t # s2 \<Rightarrow>
                          (case unicode_char p q r t of Some x \<Rightarrow> read_chars (x # acc) s2 | None \<Rightarrow> None)
                      | _ \<Rightarrow> None)
                else (case escape_char e of Some x \<Rightarrow> read_chars (x # acc) s1 | None \<Rightarrow> None))
      else if ord c < 32 then None else read_chars (c # acc) s)"

section \<open>Numbers\<close>

definition number_goes_on :: "string \<Rightarrow> bool" where
  "number_goes_on s = (case s of [] \<Rightarrow> False | c # _ \<Rightarrow> is_digit c \<or> c \<in> {CHR ''.'', CHR ''e'', CHR ''E''})"

definition read_nat :: "string \<Rightarrow> (nat \<times> string) option" where
  "read_nat s =
     (let ds = takeWhile is_digit s; rest = dropWhile is_digit s
      in if ds = [] \<or> (hd ds = CHR ''0'' \<and> ds \<noteq> ''0'') \<or> number_goes_on rest then None
         else Some (digits_value ds, rest))"

definition read_int :: "string \<Rightarrow> (int \<times> string) option" where
  "read_int s =
     (case s of
        [] \<Rightarrow> None
      | c # t \<Rightarrow>
          if c = CHR ''-'' then map_option (\<lambda>(n, r). (- int n, r)) (read_nat t)
          else map_option (\<lambda>(n, r). (int n, r)) (read_nat s))"

section \<open>Values\<close>

definition literal :: "string \<Rightarrow> json \<Rightarrow> string \<Rightarrow> (json \<times> string) option" where
  "literal word v s = (if starts_with word s then Some (v, drop (length word) s) else None)"

text \<open>Every call reads at least one character or ends a bracket, so the length of the text is enough fuel.\<close>

fun read_value :: "nat \<Rightarrow> string \<Rightarrow> (json \<times> string) option"
and read_items :: "nat \<Rightarrow> string \<Rightarrow> (json list \<times> string) option"
and read_pairs :: "nat \<Rightarrow> string \<Rightarrow> ((string, json) dict \<times> string) option" where
  "read_value 0 s = None"
| "read_value (Suc n) s =
     (case skip_space s of
        [] \<Rightarrow> None
      | c # t \<Rightarrow>
          if c = DQ then map_option (\<lambda>(x, r). (JStr x, r)) (read_chars [] t)
          else if c = CHR ''['' then
            (case after_mark (CHR '']'') t of
               Some r \<Rightarrow> Some (JList [], r)
             | None \<Rightarrow> map_option (\<lambda>(xs, r). (JList xs, r)) (read_items n t))
          else if c = CHR ''{'' then
            (case after_mark (CHR ''}'') t of
               Some r \<Rightarrow> Some (JDict [], r)
             | None \<Rightarrow> map_option (\<lambda>(ps, r). (JDict (dict_update [] ps), r)) (read_pairs n t))
          else if c = CHR ''n'' then literal ''null'' JNull (c # t)
          else if c = CHR ''t'' then literal ''true'' (JBool True) (c # t)
          else if c = CHR ''f'' then literal ''false'' (JBool False) (c # t)
          else map_option (\<lambda>(i, r). (JInt i, r)) (read_int (c # t)))"
| "read_items 0 s = None"
| "read_items (Suc n) s =
     (case read_value n s of
        None \<Rightarrow> None
      | Some (x, r) \<Rightarrow>
          (case (after_mark (CHR '']'') r, after_mark (CHR '','') r) of
             (Some r1, _) \<Rightarrow> Some ([x], r1)
           | (None, Some r1) \<Rightarrow> map_option (\<lambda>(xs, r2). (x # xs, r2)) (read_items n r1)
           | (None, None) \<Rightarrow> None))"
| "read_pairs 0 s = None"
| "read_pairs (Suc n) s =
     (case Option.bind (after_mark DQ s) (read_chars []) of
        None \<Rightarrow> None
      | Some (k, r) \<Rightarrow>
          (case Option.bind (after_mark (CHR '':'') r) (read_value n) of
             None \<Rightarrow> None
           | Some (v, r1) \<Rightarrow>
               (case (after_mark (CHR ''}'') r1, after_mark (CHR '','') r1) of
                  (Some r2, _) \<Rightarrow> Some ([(k, v)], r2)
                | (None, Some r2) \<Rightarrow> map_option (\<lambda>(ps, r3). ((k, v) # ps, r3)) (read_pairs n r2)
                | (None, None) \<Rightarrow> None)))"

definition json_loads :: "string \<Rightarrow> json option" where
  "json_loads s =
     (case read_value (2 * length s + 1) s of
        Some (v, r) \<Rightarrow> if skip_space r = [] then Some v else None
      | None \<Rightarrow> None)"

section \<open>Reading back a string\<close>

lemma hex_value_char: "n < 16 \<Longrightarrow> hex_code (hex_char n) = Some n"
  by (auto simp: hex_code_def hex_char_def cc_def ord_def Let_def)

lemma unicode_char_back: "unicode_char (CHR ''0'') (CHR ''0'') (hex_char (ord c div 16)) (hex_char (ord c mod 16)) = Some c"
proof -
  have z: "hex_code (CHR ''0'') = Some 0" by code_simp
  have "ord c < 256" by (simp add: ord_def)
  then have "ord c div 16 < 16" by (simp add: less_mult_imp_div_less)
  then have "hex_code (hex_char (ord c div 16)) = Some (ord c div 16)" "hex_code (hex_char (ord c mod 16)) = Some (ord c mod 16)"
    by (simp_all add: hex_value_char)
  then show ?thesis by (simp add: unicode_char_def z cc_def ord_def)
qed

lemma read_json_char: "read_chars acc (json_char c @ t) = read_chars (c # acc) t"
  using unicode_char_back [of c] by (auto simp: json_char_def escape_char_def)

lemma read_json_chars: "read_chars acc (concat (map json_char s) @ DQ # t) = Some (rev acc @ s, t)"
  by (induction s arbitrary: acc) (simp_all add: read_json_char)

section \<open>Reading back a number\<close>

lemma nat_text_head: "nat_text n \<noteq> ''0'' \<Longrightarrow> hd (nat_text n) \<noteq> CHR ''0''"
proof (induction n rule: nat_text.induct)
  case (1 n)
  show ?case
  proof (cases "n < 10")
    case True
    then have "nat_text n = [digit_char n]" by (simp add: nat_text.simps)
    then show ?thesis using 1(2) by simp
  next
    case False
    have "nat_text (n div 10) \<noteq> ''0''"
    proof
      assume "nat_text (n div 10) = ''0''"
      then have "digits_value (nat_text (n div 10)) = 0" by (simp add: digits_value_def ord_def)
      then show False using False by (simp add: digits_value_nat_text)
    qed
    from 1(1) [OF False this] show ?thesis using False nat_text_ne by (simp add: nat_text.simps [of n])
  qed
qed

lemma read_nat_back:
  assumes "\<not> number_goes_on rest"
  shows "read_nat (nat_text n @ rest) = Some (n, rest)"
proof -
  have d: "takeWhile is_digit (nat_text n @ rest) = nat_text n" "dropWhile is_digit (nat_text n @ rest) = rest"
    using nat_text_digits [of n] assms
    by (auto simp: number_goes_on_def list_all_iff takeWhile_append2 dropWhile_append2 split: list.splits)
  show ?thesis using nat_text_head [of n] nat_text_ne [of n] assms by (auto simp: read_nat_def d digits_value_nat_text Let_def)
qed

lemma nat_text_first: "\<exists>c t. nat_text n = c # t \<and> is_digit c"
  using nat_text_ne [of n] nat_text_digits [of n] by (cases "nat_text n") auto

lemma not_minus: "is_digit c \<Longrightarrow> c \<noteq> CHR ''-''"
  by (auto simp: is_digit_def char_between_def ord_def)

lemma read_int_back:
  assumes "\<not> number_goes_on rest"
  shows "read_int (int_text i @ rest) = Some (i, rest)"
proof -
  obtain c t where h: "nat_text (nat i) = c # t" "c \<noteq> CHR ''-''" using nat_text_first not_minus by metis
  have "read_nat (c # t @ rest) = Some (nat i, rest)" using read_nat_back [OF assms, of "nat i"] h by simp
  then show ?thesis using h by (auto simp: int_text_def read_int_def read_nat_back [OF assms])
qed

lemma int_text_first: "\<exists>c t. int_text i = c # t \<and> (is_digit c \<or> c = CHR ''-'')"
  using nat_text_first [of "nat i"] by (auto simp: int_text_def)

section \<open>Reading back a value\<close>

text \<open>The keys of a Python dictionary are distinct, at every level.\<close>

fun json_ok :: "json \<Rightarrow> bool" where
  "json_ok (JList xs) = list_all json_ok xs"
| "json_ok (JDict d) = (distinct (map fst d) \<and> list_all (\<lambda>(k, v). json_ok v) d)"
| "json_ok v = True"

definition plain_start :: "string \<Rightarrow> bool" where
  "plain_start s = (\<exists>c t. s = c # t \<and> \<not> json_space c \<and> c \<noteq> CHR '']'' \<and> c \<noteq> CHR ''}'')"

lemma skip_space_start [simp]: "\<not> json_space c \<Longrightarrow> skip_space (c # t) = c # t" "json_space c \<Longrightarrow> skip_space (c # t) = skip_space t"
  by (simp_all add: skip_space_def)

lemma space_marks [simp]:
  "json_space (CHR '' '')" "\<not> json_space DQ" "\<not> json_space (CHR ''['')" "\<not> json_space (CHR ''{'')" "\<not> json_space (CHR '']'')"
  "\<not> json_space (CHR ''}'')" "\<not> json_space (CHR '','')" "\<not> json_space (CHR '':'')" "\<not> json_space (CHR ''n'')"
  "\<not> json_space (CHR ''t'')" "\<not> json_space (CHR ''f'')" "\<not> json_space (CHR ''-'')"
  by (simp_all add: json_space_def)

lemma digit_start:
  assumes "is_digit c"
  shows "\<not> json_space c" "c \<noteq> CHR '']''" "c \<noteq> CHR ''}''" "c \<noteq> DQ" "c \<noteq> CHR ''[''" "c \<noteq> CHR ''{''" "c \<noteq> CHR ''n''" "c \<noteq> CHR ''t''" "c \<noteq> CHR ''f''"
  using assms by (auto simp: is_digit_def char_between_def json_space_def ord_def)

lemma dumps_start: "plain_start (json_dumps j)"
proof (cases j)
  case (JInt i)
  then show ?thesis using int_text_first [of i] digit_start(1-3) by (auto simp: plain_start_def)
qed (simp_all add: plain_start_def json_string_def split: if_splits)

lemma after_mark_start: "plain_start s \<Longrightarrow> after_mark (CHR '']'') (s @ t) = None" "plain_start s \<Longrightarrow> after_mark (CHR ''}'') (s @ t) = None"
  by (auto simp: plain_start_def after_mark_def)

lemma after_mark_hit [simp]: "\<not> json_space c \<Longrightarrow> after_mark c (c # t) = Some t"
  by (simp add: after_mark_def)

lemma after_mark_miss [simp]: "\<not> json_space d \<Longrightarrow> c \<noteq> d \<Longrightarrow> after_mark c (d # t) = None"
  by (simp add: after_mark_def)

lemma after_mark_space [simp]: "after_mark c (CHR '' '' # t) = after_mark c t"
  by (simp add: after_mark_def)

lemma read_value_space [simp]: "read_value n (CHR '' '' # t) = read_value n t"
  by (cases n) simp_all

lemma read_items_space [simp]: "read_items n (CHR '' '' # t) = read_items n t"
  by (cases n) simp_all

lemma read_pairs_space [simp]: "read_pairs n (CHR '' '' # t) = read_pairs n t"
  by (cases n) simp_all

definition reads_back :: "json \<Rightarrow> bool" where
  "reads_back j =
     (\<forall>n rest. 2 * length (json_dumps j) \<le> n \<longrightarrow> \<not> number_goes_on rest \<longrightarrow> read_value n (json_dumps j @ rest) = Some (j, rest))"

lemma number_marks [simp]: "\<not> number_goes_on []" "\<not> number_goes_on (CHR '','' # t)" "\<not> number_goes_on (CHR '']'' # t)" "\<not> number_goes_on (CHR ''}'' # t)"
  by (simp_all add: number_goes_on_def is_digit_def char_between_def ord_def)

lemma read_items_back:
  "xs \<noteq> [] \<Longrightarrow> list_all reads_back xs \<Longrightarrow> 2 * length (join_with '', '' (map json_dumps xs)) + 1 \<le> n \<Longrightarrow>
   read_items n (join_with '', '' (map json_dumps xs) @ CHR '']'' # rest) = Some (xs, rest)"
proof (induction xs arbitrary: n)
  case (Cons x xs)
  obtain m where n: "n = Suc m" using Cons.prems(3) by (cases n) auto
  show ?case
  proof (cases xs)
    case Nil
    then show ?thesis using Cons.prems by (simp add: n reads_back_def)
  next
    case (Cons y ys)
    define more where "more = join_with '', '' (map json_dumps xs)"
    have j: "join_with '', '' (map json_dumps (x # xs)) = json_dumps x @ '', '' @ more" by (simp add: Cons more_def)
    have "read_value m (json_dumps x @ CHR '','' # CHR '' '' # more @ CHR '']'' # rest) = Some (x, CHR '','' # CHR '' '' # more @ CHR '']'' # rest)"
      using Cons.prems unfolding j by (simp add: n reads_back_def)
    moreover have "read_items m (more @ CHR '']'' # rest) = Some (xs, rest)"
      using Cons.prems Cons.IH [of m] unfolding j by (simp add: n more_def Cons)
    ultimately show ?thesis unfolding j by (simp add: n)
  qed
qed simp

lemma read_pairs_back:
  fixes d :: "(string, json) dict"
  defines "pair \<equiv> \<lambda>(k, v). json_string k @ '': '' @ json_dumps v"
  shows "d \<noteq> [] \<Longrightarrow> list_all (\<lambda>(k, v). reads_back v) d \<Longrightarrow> 2 * length (join_with '', '' (map pair d)) + 1 \<le> n \<Longrightarrow>
   read_pairs n (join_with '', '' (map pair d) @ CHR ''}'' # rest) = Some (d, rest)"
proof (induction d arbitrary: n)
  case (Cons p d)
  obtain k v where p: "p = (k, v)" by (cases p)
  obtain m where n: "n = Suc m" using Cons.prems(3) by (cases n) auto
  have key: "read_chars [] (concat (map json_char k) @ DQ # t) = Some (k, t)" for t by (simp add: read_json_chars)
  show ?case
  proof (cases d)
    case Nil
    then show ?thesis using Cons.prems by (simp add: n p pair_def json_string_def key reads_back_def)
  next
    case (Cons q ds)
    define more where "more = join_with '', '' (map pair d)"
    have j: "join_with '', '' (map pair (p # d)) = DQ # concat (map json_char k) @ DQ # CHR '':'' # CHR '' '' # json_dumps v @ '', '' @ more"
      by (simp add: Cons more_def p pair_def json_string_def)
    have "read_value m (json_dumps v @ CHR '','' # CHR '' '' # more @ CHR ''}'' # rest) = Some (v, CHR '','' # CHR '' '' # more @ CHR ''}'' # rest)"
      using Cons.prems unfolding j by (simp add: n p reads_back_def)
    moreover have "read_pairs m (more @ CHR ''}'' # rest) = Some (d, rest)"
      using Cons.prems Cons.IH [of m] unfolding j by (simp add: n more_def Cons)
    ultimately show ?thesis unfolding j by (simp add: n p key)
  qed
qed simp

lemma join_start: "xs \<noteq> [] \<Longrightarrow> plain_start (hd xs) \<Longrightarrow> plain_start (join_with sep xs)"
  by (cases xs; cases "tl xs") (auto simp: plain_start_def)

lemma read_words:
  "0 < n \<Longrightarrow> read_value n (CHR ''n'' # CHR ''u'' # CHR ''l'' # CHR ''l'' # rest) = Some (JNull, rest)"
  "0 < n \<Longrightarrow> read_value n (CHR ''t'' # CHR ''r'' # CHR ''u'' # CHR ''e'' # rest) = Some (JBool True, rest)"
  "0 < n \<Longrightarrow> read_value n (CHR ''f'' # CHR ''a'' # CHR ''l'' # CHR ''s'' # CHR ''e'' # rest) = Some (JBool False, rest)"
  by (cases n; simp add: literal_def starts_with_def)+

lemma dumps_reads_back: "json_ok j \<Longrightarrow> reads_back j"
proof (induction j rule: json_dumps.induct)
  case (3 i)
  obtain c t where h: "int_text i = c # t" "is_digit c \<or> c = CHR ''-''" using int_text_first by blast
  then have c: "\<not> json_space c" "c \<noteq> DQ" "c \<noteq> CHR ''[''" "c \<noteq> CHR ''{''" "c \<noteq> CHR ''n''" "c \<noteq> CHR ''t''" "c \<noteq> CHR ''f''"
    using digit_start [of c] by auto
  show ?case unfolding reads_back_def
  proof (intro allI impI)
    fix n rest assume "2 * length (json_dumps (JInt i)) \<le> n" and r: "\<not> number_goes_on rest"
    then obtain m where n: "n = Suc m" using h by (cases n) auto
    have "read_int (c # t @ rest) = Some (i, rest)" using read_int_back [OF r, of i] h by simp
    then show "read_value n (json_dumps (JInt i) @ rest) = Some (JInt i, rest)" by (simp add: n h c)
  qed
next
  case (4 s)
  show ?case unfolding reads_back_def
  proof (intro allI impI)
    fix n rest assume "2 * length (json_dumps (JStr s)) \<le> n"
    then obtain m where "n = Suc m" by (cases n) (auto simp: json_string_def)
    then show "read_value n (json_dumps (JStr s) @ rest) = Some (JStr s, rest)" by (simp add: json_string_def read_json_chars)
  qed
next
  case (5 xs)
  have items: "list_all reads_back xs" using 5 by (auto simp: list_all_iff)
  show ?case unfolding reads_back_def
  proof (intro allI impI)
    fix n rest assume len: "2 * length (json_dumps (JList xs)) \<le> n"
    then obtain m where n: "n = Suc m" by (cases n) auto
    show "read_value n (json_dumps (JList xs) @ rest) = Some (JList xs, rest)"
    proof (cases "xs = []")
      case False
      have "plain_start (join_with '', '' (map json_dumps xs))"
        using False dumps_start by (intro join_start) (simp_all add: hd_map)
      moreover have "read_items m (join_with '', '' (map json_dumps xs) @ CHR '']'' # rest) = Some (xs, rest)"
        using read_items_back [OF False items] len by (simp add: n)
      ultimately show ?thesis by (simp add: n after_mark_start)
    qed (simp add: n)
  qed
next
  case (6 d)
  let ?pair = "\<lambda>(k, v). json_string k @ '': '' @ json_dumps v"
  have items: "list_all (\<lambda>(k, v). reads_back v) d" and dist: "distinct (map fst d)" using 6 by (auto simp: list_all_iff)
  show ?case unfolding reads_back_def
  proof (intro allI impI)
    fix n rest assume len: "2 * length (json_dumps (JDict d)) \<le> n"
    then obtain m where n: "n = Suc m" by (cases n) auto
    show "read_value n (json_dumps (JDict d) @ rest) = Some (JDict d, rest)"
    proof (cases "d = []")
      case False
      have "plain_start (?pair (hd d))" by (cases "hd d") (simp add: plain_start_def json_string_def)
      then have "plain_start (join_with '', '' (map ?pair d))" using False by (intro join_start) (simp_all add: hd_map)
      moreover have "read_pairs m (join_with '', '' (map ?pair d) @ CHR ''}'' # rest) = Some (d, rest)"
        using read_pairs_back [OF False items] len by (simp add: n)
      moreover have "dict_update [] d = d" using dict_update_append [of "[]" d] dist by simp
      ultimately show ?thesis by (simp add: n after_mark_start)
    qed (simp add: n)
  qed
qed (auto simp: reads_back_def read_words)

lemma json_loads_dumps: "json_ok j \<Longrightarrow> json_loads (json_dumps j) = Some j"
proof -
  assume "json_ok j"
  then have "read_value (2 * length (json_dumps j) + 1) (json_dumps j @ []) = Some (j, [])"
    using dumps_reads_back number_marks(1) unfolding reads_back_def by (metis le_add1)
  then show ?thesis unfolding json_loads_def append_Nil2 by (simp only: option.case prod.case) (simp add: skip_space_def)
qed

section \<open>The audit log reads back\<close>

lemma keys_kept: "map fst (map (\<lambda>(k, v). (k, f k v)) d) = map fst d"
  by (induction d) auto

lemma mask_secrets_ok: "json_ok j \<Longrightarrow> json_ok (mask_secrets j)"
proof (induction j rule: mask_secrets.induct)
  case (1 d)
  have "json_ok (mask_secrets v)" if "(k, v) \<in> set d" "\<not> (secret_key k \<and> v \<noteq> JNull \<and> v \<noteq> JStr [])" for k v
    using 1 that by (auto simp: list_all_iff)
  then show ?case using "1.prems" unfolding mask_secrets.simps json_ok.simps keys_kept by (auto simp: list_all_iff)
qed (auto simp: list_all_iff)

lemma audit_entry_ok:
  assumes "json_ok (au_args a)" "\<And>e. au_error a = Some e \<Longrightarrow> json_ok (JDict e)"
  shows "json_ok (JDict (audit_entry t tplus a))"
  using assms mask_secrets_ok [OF assms(1)] by (auto simp: audit_entry_def Let_def split: option.splits)



end
