(* ===== verification/Firewall.thy ===== *)
theory Firewall
  imports Service Json_Text Con_Text
begin

text \<open>
  \<open>kd/firewall.py\<close> and \<open>run_hidden\<close> of \<open>hostproc.py\<close>: the scripts that read and repair the host's firewall rules for kd.exe, how they are run and
  what is made of their output. The platform's path resolution and the running of a program are parameters.
\<close>

section \<open>Status\<close>

text \<open>\<open>FirewallStatus\<close> is \<open>firewall_status\<close> of theory \<open>Service\<close>; hints and fixes are flags of its texts.\<close>

definition UNREAD :: "string \<Rightarrow> firewall_status" where
  "UNREAD why = \<lparr>fw_allow = False, fw_block_rules = [], fw_checked = False, fw_error = why\<rparr>"

definition TOOL_FIREWALL_HINT :: string where "TOOL_FIREWALL_HINT = ''run kd_setup_host, one UAC prompt''"
definition MANUAL_FIREWALL_HINT :: string where
  "MANUAL_FIREWALL_HINT = ''run scripts/setup-host.cmd -FirewallOnly as Administrator once''"

definition fw_hint :: "firewall_status \<Rightarrow> string" where
  "fw_hint f = (if fw_checked f then TOOL_FIREWALL_HINT else MANUAL_FIREWALL_HINT)"

definition fw_problem :: "firewall_status \<Rightarrow> string" where
  "fw_problem f =
     (if \<not> fw_checked f then ''host firewall rules could not be read: '' @ fw_error f
      else ''host firewall blocks KDNET ('' @
        join_with '', ''
          ((if fw_block_rules f \<noteq> [] then [''inbound Block rules for kd.exe: '' @ join_with '', '' (fw_block_rules f)] else []) @
           (if fw_allow f then [] else [''no inbound Allow rule for kd.exe UDP''])) @ '')'')"

definition fw_issue :: "firewall_status \<Rightarrow> string" where
  "fw_issue f = fw_problem f @ '' ('' @ fw_hint f @ '')''"

section \<open>Scripts\<close>

definition ALLOW_RULE :: string where "ALLOW_RULE = ''ntdrive kd.exe KDNET''"

definition FW_PRELUDE :: string where
  "FW_PRELUDE =
     join_with [NL]
      [[],
       ''$ErrorActionPreference = '' @ [SQ] @ ''Stop'' @ [SQ],
       ''[Console]::OutputEncoding = [Text.Encoding]::UTF8'',
       ''$kd = @KD@'',
       ''$kdl = $kd.ToLowerInvariant()'',
       ''function Get-KdRules {'',
       ''  foreach ($f in (Get-NetFirewallApplicationFilter -ErrorAction SilentlyContinue)) {'',
       ''    $prog = [Environment]::ExpandEnvironmentVariables([string]$f.Program)'',
       ''    if ($prog.Replace('' @ [SQ] @ ''/'' @ [SQ] @ '', '' @ [SQ] @ [BSL] @ [SQ] @ '').ToLowerInvariant() -ne $kdl) { continue }'',
       ''    $rule = $f | Get-NetFirewallRule -ErrorAction SilentlyContinue'',
       ''    if ($rule -and '' @ [DQ] @ ''$($rule.Direction)'' @ [DQ] @ '' -eq '' @ [SQ] @ ''Inbound'' @ [SQ] @ '') { $rule }'',
       ''  }'',
       ''}'',
       []]"

definition CHECK_BODY :: string where
  "CHECK_BODY =
     join_with [NL]
      [[],
       ''$allow = $false'',
       ''$block = @()'',
       ''foreach ($rule in @(Get-KdRules)) {'',
       ''  if ('' @ [DQ] @ ''$($rule.Enabled)'' @ [DQ] @ '' -ne '' @ [SQ] @ ''True'' @ [SQ] @ '') { continue }'',
       ''  if ('' @ [DQ] @ ''$($rule.Action)'' @ [DQ] @ '' -eq '' @ [SQ] @ ''Block'' @ [SQ] @ '') { $block += [string]$rule.DisplayName; continue }'',
       ''  $proto = '' @ [DQ] @ ''$(($rule | Get-NetFirewallPortFilter).Protocol)'' @ [DQ],
       ''  if ('' @ [DQ] @ ''$($rule.Action)'' @ [DQ] @ '' -eq '' @ [SQ] @ ''Allow'' @ [SQ] @ '' -and ($proto -eq '' @ [SQ] @ ''UDP'' @ [SQ] @ '' -or $proto -eq '' @ [SQ] @ ''Any'' @ [SQ] @ '')) { $allow = $true }'',
       ''}'',
       CHR ''@'' # ''{ allow = $allow; block = @($block) } | ConvertTo-Json -Compress'',
       []]"

definition FIX_BODY :: string where
  "FIX_BODY =
     join_with [NL]
      [[],
       ''foreach ($rule in @(Get-KdRules)) {'',
       ''  if ('' @ [DQ] @ ''$($rule.Action)'' @ [DQ] @ '' -eq '' @ [SQ] @ ''Block'' @ [SQ] @ '') { Remove-NetFirewallRule -Name $rule.Name }'',
       ''}'',
       ''Remove-NetFirewallRule -DisplayName @ALLOW@ -ErrorAction SilentlyContinue'',
       ''New-NetFirewallRule -DisplayName @ALLOW@ -Direction Inbound -Program $kd -Protocol UDP `'',
       ''  -Action Allow -Profile Any | Out-Null'',
       []]"

definition LAUNCHER :: string where
  "LAUNCHER =
     join_with [NL]
      [[],
       ''$ErrorActionPreference = '' @ [SQ] @ ''Stop'' @ [SQ],
       ''$list = '' @ [SQ] @ ''-NoProfile -NonInteractive -ExecutionPolicy Bypass -WindowStyle Hidden'' @ [SQ],
       ''$list = $list + '' @ [SQ] @ '' -EncodedCommand @ENCODED@'' @ [SQ],
       ''$p = Start-Process -FilePath '' @ [SQ] @ ''powershell.exe'' @ [SQ] @ '' -ArgumentList $list -Verb RunAs `'',
       ''  -WindowStyle Hidden -PassThru -Wait'',
       ''exit $p.ExitCode'',
       []]"

definition fw_literal :: "string \<Rightarrow> string" where
  "fw_literal v = [SQ] @ py_replace [SQ] [SQ, SQ] v @ [SQ]"

definition check_script :: "string \<Rightarrow> string" where
  "check_script path = py_replace ''@KD@'' (fw_literal path) FW_PRELUDE @ CHECK_BODY"

definition fix_script :: "string \<Rightarrow> string" where
  "fix_script path =
     py_replace ''@KD@'' (fw_literal path) FW_PRELUDE @ py_replace ''@ALLOW@'' (fw_literal ALLOW_RULE) FIX_BODY"

definition launch_script :: "string \<Rightarrow> string" where
  "launch_script path = py_replace ''@ENCODED@'' (base64 (utf16le (fix_script path))) LAUNCHER"

section \<open>Running a program\<close>

text \<open>\<open>run_hidden\<close>: what the program does by its timeout, None when it is still running then.\<close>

record 'e fw_host =
  z_win32 :: bool
  z_resolve :: "string \<Rightarrow> string"
  z_process :: "string list \<Rightarrow> int \<Rightarrow> 'e \<Rightarrow> (exn + (int \<times> string) option) \<times> 'e"

definition run_hidden :: "('e, 'x) fw_host_scheme \<Rightarrow> string list \<Rightarrow> int \<Rightarrow> ('e, int \<times> string) app" where
  "run_hidden Z args timeout e =
     (case z_process Z args timeout e of
        (Inl x, e') \<Rightarrow> (Inl x, e')
      | (Inr None, e') \<Rightarrow> throw TIMEOUT e'
      | (Inr (Some done), e') \<Rightarrow> (Inr done, e'))"

definition run_powershell :: "('e, 'x) fw_host_scheme \<Rightarrow> string \<Rightarrow> int \<Rightarrow> ('e, int \<times> string) app" where
  "run_powershell Z script timeout =
     run_hidden Z [''powershell.exe'', ''-NoProfile'', ''-NonInteractive'', ''-ExecutionPolicy'', ''Bypass'',
                   ''-EncodedCommand'', base64 (utf16le script)] timeout"

section \<open>Reading the rules\<close>

definition last_json_line :: "string \<Rightarrow> string" where
  "last_json_line out = opt_or (find (\<lambda>ln. starts_with ''{'' (py_strip ln)) (rev (split_lines out))) []"

text \<open>\<open>data.get('block') or []\<close>, a text standing for one rule; iterating a number raises.\<close>

definition block_names :: "json \<Rightarrow> exn + string list" where
  "block_names j =
     (if \<not> truthy j then Inr []
      else (case j of
              JStr s \<Rightarrow> Inr [s]
            | JList xs \<Rightarrow> Inr (map py_str xs)
            | JDict d \<Rightarrow> Inr (dict_keys d)
            | _ \<Rightarrow> Inl (Exn ''TypeError'')))"

definition parse_check_output :: "int \<Rightarrow> string \<Rightarrow> exn + firewall_status" where
  "parse_check_output code out =
     (let line = last_json_line out
      in if code \<noteq> 0 \<or> line = []
         then Inr (UNREAD (let tail = take_last 300 (py_strip out) in if tail \<noteq> [] then tail else ''powershell exit '' @ int_text code))
         else (case json_loads line of
                 None \<Rightarrow> Inr (UNREAD (''unexpected output: '' @ take 200 line))
               | Some (JDict d) \<Rightarrow>
                   (case block_names (opt_or (dict_get d ''block'') JNull) of
                      Inl x \<Rightarrow> Inl x
                    | Inr rules \<Rightarrow>
                        Inr \<lparr>fw_allow = truthy (opt_or (dict_get d ''allow'') JNull), fw_block_rules = rules, fw_checked = True, fw_error = []\<rparr>)
               | Some _ \<Rightarrow> Inl (Exn ''AttributeError'')))"

text \<open>An error of the host's (an OSError with its text) or of \<open>run_hidden\<close> is an unread firewall.\<close>

definition CHECK_TIMEOUT :: int where "CHECK_TIMEOUT = 30000"

definition firewall_check :: "('e, 'x) fw_host_scheme \<Rightarrow> string \<Rightarrow> ('e, firewall_status) app" where
  "firewall_check Z kd e =
     (if \<not> z_win32 Z then (Inr (UNREAD ''not a Windows host''), e)
      else (case run_powershell Z (check_script (z_resolve Z kd)) CHECK_TIMEOUT e of
              (Inl (Nt x), e') \<Rightarrow> (Inr (UNREAD (err_message x)), e')
            | (Inl (Exn t), e') \<Rightarrow> (Inr (UNREAD t), e')
            | (Inl x, e') \<Rightarrow> (Inl x, e')
            | (Inr (code, out), e') \<Rightarrow> (parse_check_output code out, e')))"

definition firewall_fix :: "('e, 'x) fw_host_scheme \<Rightarrow> string \<Rightarrow> int \<Rightarrow> ('e, firewall_status) app" where
  "firewall_fix Z kd timeout =
     (if \<not> z_win32 Z then throw BACKEND_ERROR
      else bindE (run_powershell Z (launch_script (z_resolve Z kd)) timeout)
             (\<lambda>(code, out). if code \<noteq> 0 then throw BACKEND_ERROR else firewall_check Z kd))"

end
