(* ===== verification/Firewall_Properties.thy ===== *)
theory Firewall_Properties
  imports Firewall Ps_Text
begin

text \<open>
  The scripts of the firewall, one of which runs elevated, have the same code whatever the path of kd.exe, and only a readable answer of the
  check counts as an open firewall.
\<close>

section \<open>Scripts\<close>

definition quotes :: "string \<Rightarrow> nat" where "quotes s = length (filter (\<lambda>c. c = SQ) s)"

lemma quotes_simps [simp]: "quotes [] = 0" "quotes (c # s) = (if c = SQ then Suc (quotes s) else quotes s)"
  by (simp_all add: quotes_def)

text \<open>A piece with an even number of quotes opens no literal it does not close.\<close>

lemma ps_read_balanced:
  "no_quote_first t \<Longrightarrow> (if st = None then even (quotes p) else odd (quotes p)) \<Longrightarrow>
   ps_read st (p @ t) = (fst (ps_read st p) @ fst (ps_read None t), snd (ps_read st p) @ snd (ps_read None t))"
proof (induction st p rule: ps_read.induct)
  case (4 acc c)
  then have "c = SQ" by (simp split: if_splits)
  then show ?case using 4 by (cases t) (auto simp: no_quote_first_def split: prod.splits)
qed (auto split: prod.splits if_splits)

lemma reads_balanced: "even (quotes p) \<Longrightarrow> reads p (fst (ps_read None p)) (snd (ps_read None p))"
  by (simp add: reads_def ps_read_balanced)

text \<open>One that does not end with a quote may be followed by anything.\<close>

lemma ps_read_before:
  assumes "even (quotes p)" "p \<noteq> []" "last p \<noteq> SQ"
  shows "ps_read None (p @ t) = (fst (ps_read None p) @ fst (ps_read None t), snd (ps_read None p) @ snd (ps_read None t))"
proof -
  obtain q c where p: "p = q @ [c]" "c \<noteq> SQ" using assms(2,3) by (metis append_butlast_last_id)
  have e: "even (quotes q)" using assms(1) p by (simp add: quotes_def)
  show ?thesis
    using ps_read_balanced [of "[c]" None q] ps_read_balanced [of "c # t" None q] e p by (simp add: no_quote_first_def split: prod.splits)
qed

lemma replace_aux_absent:
  "hd a \<notin> set s \<Longrightarrow> a \<noteq> [] \<Longrightarrow> replace_aux a b 0 (s @ t) = s @ replace_aux a b 0 t"
  by (induction s) (auto simp: starts_with_def neq_Nil_conv)

lemma replace_aux_skip: "replace_aux a b (length s) (s @ t) = replace_aux a b 0 t"
  by (induction s) simp_all

lemma py_replace_once:
  assumes "a = c # a'" "c \<notin> set s" "c \<notin> set t"
  shows "py_replace a b (s @ a @ t) = s @ b @ t"
proof -
  have "replace_aux a b 0 (a @ t) = b @ replace_aux a b (length a') (a' @ t)"
    using assms(1) by (simp add: starts_with_def)
  moreover have "replace_aux a b 0 t = t" using replace_aux_absent [of a t b "[]"] assms by simp
  ultimately show ?thesis using replace_aux_absent [of a s b "a @ t"] assms by (simp add: py_replace_def replace_aux_skip)
qed

definition before_path :: string where "before_path = takeWhile (\<lambda>c. c \<noteq> CHR ''@'') FW_PRELUDE"
definition after_path :: string where "after_path = drop (length before_path + 4) FW_PRELUDE"

lemma prelude_parts:
  "FW_PRELUDE = before_path @ ''@KD@'' @ after_path" "CHR ''@'' \<notin> set before_path" "CHR ''@'' \<notin> set after_path"
  "even (quotes before_path)" "before_path \<noteq> []" "last before_path \<noteq> SQ"
  by code_simp+

definition FIX_REST :: string where "FIX_REST = py_replace ''@ALLOW@'' (fw_literal ALLOW_RULE) FIX_BODY"

lemma rest_parts:
  "even (quotes (after_path @ FIX_REST))" "even (quotes (after_path @ CHECK_BODY))" "hd after_path \<noteq> SQ" "after_path \<noteq> []"
  by code_simp+

lemma scripts_split:
  "fix_script path = before_path @ quoted (ps_literal path) @ (after_path @ FIX_REST)"
  "check_script path = before_path @ quoted (ps_literal path) @ (after_path @ CHECK_BODY)"
  using py_replace_once [of "''@KD@''" "CHR ''@''" "''KD@''" before_path after_path "fw_literal path"] prelude_parts
  by (simp_all add: fix_script_def check_script_def FIX_REST_def fw_literal_def quoted_def ps_literal_def)

lemma script_reads:
  assumes "even (quotes r)" "r = after_path @ q"
  shows "ps_read None (before_path @ quoted (ps_literal path) @ r) =
    (fst (ps_read None before_path) @ fst (ps_read None r), snd (ps_read None before_path) @ path # snd (ps_read None r))"
proof -
  have r: "r \<noteq> []" "hd r \<noteq> SQ" using assms(2) rest_parts(3,4) by simp_all
  have "ps_read None (quoted (ps_literal path) @ r) = (fst (ps_read None r), path # snd (ps_read None r))"
    using reads_lit_app [OF reads_balanced [OF assms(1)] r] by (rule readsD)
  then show ?thesis using ps_read_before [OF prelude_parts(4-6), of "quoted (ps_literal path) @ r"] by simp
qed


section \<open>The answer of the check\<close>

text \<open>An open firewall is reported only on a JSON object that credits an Allow rule and names no Block rule.\<close>

lemma open_firewall_was_read:
  assumes "parse_check_output code out = Inr f" "fw_ok f"
  shows "code = 0 \<and> (\<exists>d. json_loads (last_json_line out) = Some (JDict d) \<and> truthy (opt_or (dict_get d ''allow'') JNull) \<and>
    fw_block_rules f = [])"
  using assms by (auto simp: parse_check_output_def Let_def fw_ok_def UNREAD_def split: if_splits option.splits json.splits sum.splits)

lemma fix_reports_what_it_reads:
  assumes "firewall_fix Z kd timeout e = (Inr f, e')"
  shows "\<exists>e1. firewall_check Z kd e1 = (Inr f, e')"
  using assms by (auto simp: firewall_fix_def bindE_def throw_def raise_def split: if_splits prod.splits sum.splits)

end
