(* ===== verification/Tools_Sys.thy ===== *)
theory Tools_Sys
  imports Tools_Vm Firewall
begin

text \<open>
  The \<open>sys_*\<close> tools of \<open>core/tools/sys.py\<close>: the state of every VM, and the health report with its issues. An issue is a value with the
  sentence the report prints, because \<open>ntdrive verify\<close> (theory \<open>Cli_Verify\<close>) reads the first words of those sentences. The VMs are
  probed one after the other, where the daemon gathers the probes.
\<close>

section \<open>Environment\<close>

record 'e sys_outside = "'e svc_outside" +
  x_vars :: env_vars
  x_is_file :: "string \<Rightarrow> bool"
  x_vmx_text :: "string \<Rightarrow> string option"
  x_file_beside :: "string \<Rightarrow> string \<Rightarrow> bool"
  x_udp_free :: "int \<Rightarrow> 'e \<Rightarrow> bool"
  x_backend_health :: "string \<Rightarrow> ('e, (string, json) dict) app"
  x_capabilities :: "string \<Rightarrow> string list"
  x_daemon_version :: string
  x_python :: string
  x_platform :: string
  x_tool_count :: nat

section \<open>sys_state\<close>

definition sys_state :: "('e, 'x) sys_outside_scheme \<Rightarrow> string option \<Rightarrow> ('e, 'z, result) sprog" where
  "sys_state X vm =
     (let names = (case vm of Some n \<Rightarrow> if n \<noteq> [] then [n] else dict_keys (c_vms (x_config X)) | None \<Rightarrow> dict_keys (c_vms (x_config X)))
      in thenE (forE names (\<lambda>n. bindE (vm_cfg X n) (\<lambda>_. ret ())))
         (bindE (refresh_powers X names) (\<lambda>_.
          bindE (mapE (svc_runtime X) names) (\<lambda>runtimes w.
            (Inr [(''daemon'', JDict
                    [(''version'', JStr (x_daemon_version X)), (''started_at'', JInt (st_started_at (w_store w))),
                     (''t_plus'', JStr (t_plus (now X w) (w_store w))), (''log_dir'', JStr (x_log_dir X))]),
                  (''vms'', JList (map (\<lambda>r. JDict (runtime_dict r)) runtimes))], w)))))"

section \<open>Issues\<close>

datatype health_issue =
    No_Backend string | No_Vmx | Vmx_Gone | Secure_Boot | No_Hostip | No_Key | Wrong_Nic string | No_Serial_Lines | No_User
  | Empty_Env string | No_Encryption_Password | Stale_Saved_State string
  | Power_Unknown string | Pipe_Unserved string | Port_Taken int | Firewall_Blocks firewall_status | Ip_Unknown string | Ssh_Silent int string

fun health_text :: "health_issue \<Rightarrow> string" where
  "health_text (No_Backend b) = ''backend '' @ b @ '' unsupported''"
| "health_text No_Vmx = ''vmx path missing (the .vmx file of the VM, see vms.example.yaml)''"
| "health_text Vmx_Gone =
     ''vmx path does not exist (the VM was moved or deleted, vm_delete confirm=true drops this stale entry)''"
| "health_text Secure_Boot =
     ''Secure Boot is on in the vmx, so bcdedit /debug on is refused in the guest (power off the VM, then VM settings > Options > Advanced > turn Secure Boot off)''"
| "health_text No_Hostip = ''kdnet_hostip missing (IPv4 of the host'' @ [SQ] @ ''s VMware Network Adapter VMnet8)''"
| "health_text No_Key =
     ''kdnet key not set (kd_attach reads it from a guest that ran setup-guest.cmd, or run kd_setup_guest)''"
| "health_text (Wrong_Nic nic) =
     ''guest NIC is '' @ nic @ '', KDNET needs e1000e on every Windows 10/11 build (vmxnet3 works only on Windows 11 23H2 and later). vm_config nic=e1000e with the VM off sets it''"
| "health_text No_Serial_Lines = ''serial pipe not in the vmx (run kd_setup_host with the VM off)''"
| "health_text No_User = ''guest.user missing (a local account in the guest with a password, for SSH)''"
| "health_text (Empty_Env env) =
     ''environment variable '' @ env @ '' is empty (set it at User scope: ntdrive reads it from the registry at once, no new terminal needed)''"
| "health_text No_Encryption_Password =
     ''the VM is encrypted (a Windows 11 vTPM does this) but vms.yaml names no encryption password: set encryption_password_env''"
| "health_text (Stale_Saved_State name) =
     ''vmx names a saved state ('' @ name @ '') that is not a .vmss next to it, a leftover of a suspend or of a snapshot taken while suspended, so vmrun start fails: vm_start discard_saved_state=true boots fresh from the disk''"
| "health_text (Power_Unknown why) = ''power state unknown: '' @ why"
| "health_text (Pipe_Unserved pipe) =
     ''serial pipe '' @ pipe @ '' has no server on the host (the running VM does not expose serial0, or another debugger took the pipe)''"
| "health_text (Port_Taken port) =
     ''UDP port '' @ int_text port @ '' is taken by another process, so kd.exe cannot listen on it (change kdnet.port or stop the other debugger)''"
| "health_text (Firewall_Blocks f) = fw_issue f"
| "health_text (Ip_Unknown why) = ''guest IP unknown, VMware Tools may not be running: '' @ why"
| "health_text (Ssh_Silent port ip) =
     ''SSH port '' @ int_text port @ '' on '' @ ip @ '' does not answer (install and start OpenSSH in the guest, or check the guest firewall)''"

definition issue_if :: "bool \<Rightarrow> health_issue \<Rightarrow> health_issue list" where
  "issue_if b i = (if b then [i] else [])"

text \<open>\<open>dict.fromkeys\<close>: the first of equal texts.\<close>

definition unique :: "'a list \<Rightarrow> 'a list" where "unique xs = rev (remdups (rev xs))"

definition vmx_has_serial_pipe :: "(string, string) dict \<Rightarrow> string \<Rightarrow> bool" where
  "vmx_has_serial_pipe settings pipe = (py_lower (opt_or (dict_get settings ''serial0.filename'') []) = py_lower pipe)"

definition setting :: "(string, string) dict \<Rightarrow> string \<Rightarrow> string" where
  "setting settings k = opt_or (dict_get settings k) []"

definition empty_envs :: "env_vars \<Rightarrow> vm_config \<Rightarrow> string list" where
  "empty_envs ev cfg =
     (let g = vc_guest cfg
      in (if g_password_env g \<noteq> [] \<and> resolve_password ev g = [] then [g_password_env g] else []) @
         (if g_standard_password_env g \<noteq> [] \<and> resolve_standard_password ev g = [] then [g_standard_password_env g] else []) @
         (if vc_encryption_password_env cfg \<noteq> [] \<and> resolve_encryption_password ev cfg = [] then [vc_encryption_password_env cfg] else []))"

definition config_issues :: "('e, 'x) sys_outside_scheme \<Rightarrow> vm_config \<Rightarrow> string list \<Rightarrow> health_issue list" where
  "config_issues X cfg backends =
     (let vmx = vc_vmx cfg;
          vmx_ok = (vmx \<noteq> [] \<and> x_is_file X vmx);
          settings = (if vmx_ok then vmx_settings (x_vmx_text X vmx) else []);
          nic = setting settings ''ethernet0.virtualdev''
      in issue_if (vc_backend cfg \<notin> set backends) (No_Backend (vc_backend cfg)) @
         (if vmx = [] then [No_Vmx] else if \<not> vmx_ok then [Vmx_Gone] else []) @
         issue_if (py_lower (setting settings ''uefi.secureboot.enabled'') = ''true'') Secure_Boot @
         (if vc_kd_transport cfg = Net then
            issue_if (vc_kdnet_hostip cfg = []) No_Hostip @
            issue_if (kn_key (vc_kdnet cfg) = []) No_Key @
            issue_if (nic \<noteq> [] \<and> py_lower nic \<noteq> ''e1000e'') (Wrong_Nic nic)
          else issue_if (vmx_ok \<and> \<not> vmx_has_serial_pipe settings (resolved_serial_pipe cfg)) No_Serial_Lines) @
         issue_if (g_user (vc_guest cfg) = []) No_User @
         map Empty_Env (unique (empty_envs (x_vars X) cfg)) @
         issue_if (dict_has settings ''encryption.keysafe'' \<and> vc_encryption_password_env cfg = [] \<and> vc_encryption_password cfg = [])
           No_Encryption_Password @
         issue_if (vmx_ok \<and> saved_state_is_stale (x_file_beside X vmx) settings) (Stale_Saved_State (saved_state settings)))"

section \<open>Probing one VM\<close>

definition GUEST_IP_TIMEOUT :: int where "GUEST_IP_TIMEOUT = 5000"

definition jbool_opt :: "bool option \<Rightarrow> json" where
  "jbool_opt b = (case b of None \<Rightarrow> JNull | Some x \<Rightarrow> JBool x)"

record vm_health =
  vh_name :: string
  vh_backend :: string
  vh_transport :: kd_transport
  vh_power :: power_state
  vh_kd_state :: kd_state
  vh_user :: string
  vh_standard_user :: string
  vh_ssh_port :: int
  vh_ip :: "string option"
  vh_ssh_open :: "bool option"
  vh_skipped :: "string option"
  vh_pipe :: "(string \<times> bool option) option"
  vh_port :: "(int \<times> bool \<times> bool) option"
  vh_firewall :: "bool option option"
  vh_issues :: "health_issue list"

text \<open>The host side of the debugger's transport: the issues it adds.\<close>

definition probe_pipe ::
  "('e, 'x) sys_outside_scheme \<Rightarrow> vm_config \<Rightarrow> bool \<Rightarrow> ('e, 'z) svc_world_scheme \<Rightarrow> (string \<times> bool option) \<times> health_issue list" where
  "probe_pipe X cfg running w =
     (let pipe = resolved_serial_pipe cfg;
          served = (if running then Some (serial_pipe_open X pipe w) else None)
      in ((pipe, served), issue_if (served = Some False) (Pipe_Unserved pipe)))"

definition probe_port ::
  "('e, 'x) sys_outside_scheme \<Rightarrow> vm_config \<Rightarrow> bool \<Rightarrow> firewall_status option \<Rightarrow> ('e, 'z) svc_world_scheme \<Rightarrow>
   (int \<times> bool \<times> bool) \<times> bool option option \<times> health_issue list" where
  "probe_port X cfg attached firewall w =
     (let port = kn_port (vc_kdnet cfg); free = x_udp_free X port (w_env w)
      in ((port, free, attached),
          (case firewall of None \<Rightarrow> None | Some f \<Rightarrow> Some (if fw_checked f then Some (fw_ok f) else None)),
          issue_if (\<not> free \<and> \<not> attached) (Port_Taken port) @
          (case firewall of None \<Rightarrow> [] | Some f \<Rightarrow> issue_if (\<not> fw_ok f) (Firewall_Blocks f))))"

definition probe_vm ::
  "('e, 'x) sys_outside_scheme \<Rightarrow> vm_config \<Rightarrow> health_issue list \<Rightarrow> firewall_status option \<Rightarrow> nt_error + power_state \<Rightarrow>
   ('e, 'z, vm_health) sprog" where
  "probe_vm X cfg issues firewall answer =
     bindE (svc_runtime X (vc_name cfg)) (\<lambda>runtime.
     bindE (getS (\<lambda>w. w)) (\<lambda>w.
       let power = (case answer of Inl _ \<Rightarrow> P_Unknown | Inr p \<Rightarrow> p);
           issues1 = issues @ (case answer of Inl e \<Rightarrow> [Power_Unknown (err_message e)] | Inr _ \<Rightarrow> []);
           running = (power = P_Running);
           attached = kd_alive (vc_name cfg) w;
           (pipe, pipe_issues) = (if vc_kd_transport cfg = Serial then case probe_pipe X cfg running w of (p, is) \<Rightarrow> (Some p, is) else (None, []));
           (port, fw, port_issues) =
             (if vc_kd_transport cfg = Serial then (None, None, [])
              else case probe_port X cfg attached firewall w of (p, f, is) \<Rightarrow> (Some p, f, is));
           g = vc_guest cfg;
           health = \<lparr>vh_name = vc_name cfg, vh_backend = vc_backend cfg, vh_transport = vc_kd_transport cfg, vh_power = power,
                     vh_kd_state = rt_kd_state runtime, vh_user = g_user g, vh_standard_user = g_standard_user g,
                     vh_ssh_port = g_ssh_port g, vh_ip = None, vh_ssh_open = None, vh_skipped = None, vh_pipe = pipe, vh_port = port,
                     vh_firewall = fw, vh_issues = issues1 @ pipe_issues @ port_issues\<rparr>
       in if \<not> running then ret (health\<lparr>vh_skipped := Some ''vm_not_running''\<rparr>)
          else if guest_frozen runtime then ret (health\<lparr>vh_skipped := Some ''guest_frozen_by_debugger''\<rparr>)
          else catch_nt (ssh_reachable X cfg GUEST_IP_TIMEOUT)
                 (\<lambda>e. ret (health\<lparr>vh_issues := vh_issues health @ [Ip_Unknown (err_message e)]\<rparr>))
                 (\<lambda>(ok, ip). ret (health\<lparr>vh_ip := Some ip, vh_ssh_open := Some ok,
                    vh_issues := vh_issues health @ issue_if (\<not> ok) (Ssh_Silent (g_ssh_port g) ip)\<rparr>))))"

definition vm_health_of ::
  "('e, 'x) sys_outside_scheme \<Rightarrow> string \<Rightarrow> vm_config \<Rightarrow> firewall_status option \<Rightarrow> nt_error + power_state \<Rightarrow>
   ('e, 'z, vm_health) sprog" where
  "vm_health_of X name cfg firewall answer =
     bindE (probe_vm X cfg (config_issues X cfg (dict_keys (x_adapters X))) firewall answer) (\<lambda>h. ret (h\<lparr>vh_name := name\<rparr>))"

definition health_dict :: "vm_health \<Rightarrow> (string, json) dict" where
  "health_dict h =
     [(''name'', JStr (vh_name h)), (''backend'', JStr (vh_backend h)), (''kd_transport'', JStr (transport_text (vh_transport h))),
      (''power'', JStr (power_text (vh_power h))), (''kd_state'', JStr (kd_state_text (vh_kd_state h))),
      (''guest'', JDict
         [(''ip'', jopt (vh_ip h)), (''user'', JStr (vh_user h)),
          (''standard_user'', if vh_standard_user h = [] then JNull else JStr (vh_standard_user h)),
          (''ssh_port'', JInt (vh_ssh_port h)), (''ssh_open'', jbool_opt (vh_ssh_open h)), (''skipped'', jopt (vh_skipped h))]),
      (''serial_pipe'', case vh_pipe h of None \<Rightarrow> JNull | Some (p, served) \<Rightarrow> JDict [(''path'', JStr p), (''open'', jbool_opt served)]),
      (''kdnet_port'', case vh_port h of None \<Rightarrow> JNull
          | Some (p, free, held) \<Rightarrow>
              JDict ([(''port'', JInt p), (''free'', JBool free), (''held_by_ntdrive'', JBool held)] @
                     (case vh_firewall h of None \<Rightarrow> [] | Some b \<Rightarrow> [(''firewall_ok'', jbool_opt b)]))),
      (''issues'', JList (map (\<lambda>i. JStr (health_text i)) (vh_issues h)))]"

section \<open>sys_health\<close>

datatype host_problem = No_Config | No_Kd string | No_Kdnet string | No_Binary string string

fun problem_text :: "host_problem \<Rightarrow> string" where
  "problem_text No_Config =
     ''vms.yaml not found: run `ntdrive setup` (it writes %LOCALAPPDATA%/ntdrive/vms.yaml), or point NTDRIVE_CONFIG or --config at a file. The next ntdrive command restarts the daemon on it''"
| "problem_text (No_Kd path) = ''kd.exe not found at '' @ path"
| "problem_text (No_Kdnet path) = ''kdnet.exe not found at '' @ path"
| "problem_text (No_Binary name path) = name @ '' binary not found at '' @ path"

definition backend_info :: "('e, 'x) sys_outside_scheme \<Rightarrow> string \<Rightarrow> ('e, 'z, string \<times> (string, json) dict) sprog" where
  "backend_info X name =
     bindE (catch_nt (awaitE X (x_backend_health X name))
              (\<lambda>e. ret [(''backend'', JStr name), (''error'', JDict (error_body e))]) ret)
       (\<lambda>info. ret (name, dict_set ''capabilities'' (jstrs (x_capabilities X name)) info))"

definition backend_problem :: "string \<times> (string, json) dict \<Rightarrow> host_problem list" where
  "backend_problem b =
     (case b of (name, info) \<Rightarrow>
        if truthy (opt_or (dict_get info ''exists'') (JBool False)) then []
        else [No_Binary name (py_str (opt_or (dict_get info ''path'') JNull))])"

record health_report =
  hr_problems :: "host_problem list"
  hr_backends :: "(string, (string, json) dict) dict"
  hr_firewall :: "firewall_status option"
  hr_vms :: "vm_health list"

definition report_ok :: "health_report \<Rightarrow> bool" where
  "report_ok r = (hr_problems r = [] \<and> sum_list (map (\<lambda>h. length (vh_issues h)) (hr_vms r)) = 0)"

definition sys_health :: "('e, 'x) sys_outside_scheme \<Rightarrow> ('e, 'z, health_report) sprog" where
  "sys_health X =
     (let c = x_config X; host = c_host c
      in bindE (mapE (backend_info X) (dict_keys (x_adapters X))) (\<lambda>backends.
         let problems =
               (if c_path c = [] then [No_Config] else []) @
               (if x_is_file X (h_kd host) then [] else [No_Kd (h_kd host)]) @
               (if x_is_file X (h_kdnet host) then [] else [No_Kdnet (h_kdnet host)]) @
               concat (map backend_problem backends)
         in bindE (if list_ex (\<lambda>cfg. vc_kd_transport cfg = Net) (dict_values (c_vms c))
                   then bindE (kdnet_firewall X) (\<lambda>f. ret (Some f)) else ret None) (\<lambda>firewall.
            bindE (refresh_powers X (dict_keys (c_vms c))) (\<lambda>powers.
            bindE (mapE (\<lambda>(name, cfg). bindE (answer_of powers name) (vm_health_of X name cfg firewall)) (c_vms c)) (\<lambda>vms.
              ret \<lparr>hr_problems = problems, hr_backends = backends, hr_firewall = firewall, hr_vms = vms\<rparr>)))))"

definition report_dict :: "('e, 'x) sys_outside_scheme \<Rightarrow> int \<Rightarrow> health_report \<Rightarrow> (string, json) dict" where
  "report_dict X t r =
     (let c = x_config X; host = c_host c
      in [(''ok'', JBool (report_ok r)), (''problems'', jstrs (map problem_text (hr_problems r))),
          (''vm_issues'', JInt (int (sum_list (map (\<lambda>h. length (vh_issues h)) (hr_vms r))))),
          (''version'', JStr (x_daemon_version X)), (''python'', JStr (x_python X)), (''platform'', JStr (x_platform X)),
          (''config_path'', JStr (c_path c)), (''log_dir'', JStr (x_log_dir X)),
          (''binaries'', JDict
             [(''kd'', JDict [(''path'', JStr (h_kd host)), (''exists'', JBool (x_is_file X (h_kd host)))]),
              (''kdnet'', JDict [(''path'', JStr (h_kdnet host)), (''exists'', JBool (x_is_file X (h_kdnet host)))])]),
          (''backends'', JDict (map (\<lambda>(n, info). (n, JDict info)) (hr_backends r))),
          (''kdnet_firewall'', case hr_firewall r of None \<Rightarrow> JNull | Some f \<Rightarrow> JDict (fw_dict f)),
          (''daemon_bind'', JStr (h_daemon_bind host)), (''tools'', JInt (int (x_tool_count X))),
          (''vms'', JList (map (\<lambda>h. JDict (health_dict h)) (hr_vms r))), (''checked_at'', JInt t)])"

end
