(* ===== verification/Sys_Properties.thy ===== *)
theory Sys_Properties
  imports Tools_Sys Demo_Host
begin

text \<open>
  What \<open>ok\<close> of \<open>sys_health\<close> stands on: each machine was configured for its transport, and probed where it could be.
\<close>

section \<open>Issues\<close>

lemma issue_if_empty [simp]: "issue_if b i = [] \<longleftrightarrow> \<not> b"
  by (simp add: issue_if_def)

lemma config_issues_empty:
  assumes "config_issues X cfg backends = []"
  shows "vc_vmx cfg \<noteq> [] \<and> x_is_file X (vc_vmx cfg) \<and> g_user (vc_guest cfg) \<noteq> [] \<and>
    (vc_kd_transport cfg = Net \<longrightarrow> vc_kdnet_hostip cfg \<noteq> [] \<and> kn_key (vc_kdnet cfg) \<noteq> [])"
  using assms by (auto simp: config_issues_def Let_def split: if_splits)

definition transport_ready :: "vm_config \<Rightarrow> vm_health \<Rightarrow> bool" where
  "transport_ready cfg h =
     (if vc_kd_transport cfg = Serial then vh_power h = P_Running \<longrightarrow> vh_pipe h = Some (resolved_serial_pipe cfg, Some True)
      else \<exists>free held. vh_port h = Some (kn_port (vc_kdnet cfg), free, held) \<and> (free \<or> held) \<and> vh_firewall h = Some (Some True))"

definition shell_ready :: "vm_health \<Rightarrow> bool" where
  "shell_ready h = (vh_power h = P_Running \<longrightarrow> vh_kd_state h = K_Broken \<or> vh_ssh_open h = Some True)"

text \<open>What the part before the shell promises of a record that lists no issue.\<close>

lemma probe_vm_ready:
  assumes "vc_kd_transport cfg = Net \<Longrightarrow> firewall \<noteq> None"
  shows "yields (probe_vm X cfg issues firewall answer)
    (\<lambda>h. vh_issues h = [] \<longrightarrow> issues = [] \<and> answer \<in> range Inr \<and> transport_ready cfg h \<and> shell_ready h)"
  unfolding probe_vm_def
  using assms
  by (intro yields_bindE [OF yields_any]; cases "vc_kd_transport cfg"; cases answer)
    (auto simp: Let_def probe_pipe_def probe_port_def transport_ready_def shell_ready_def guest_frozen_def fw_ok_def
      intro!: yields_ret yields_catch_nt [OF yields_any] split: option.splits)

definition vm_ready :: "('e, 'x) sys_outside_scheme \<Rightarrow> string \<times> vm_config \<Rightarrow> vm_health \<Rightarrow> bool" where
  "vm_ready X nc h =
     (case nc of (name, cfg) \<Rightarrow>
        vh_name h = name \<and> x_is_file X (vc_vmx cfg) \<and> g_user (vc_guest cfg) \<noteq> [] \<and>
        (vc_kd_transport cfg = Net \<longrightarrow> vc_kdnet_hostip cfg \<noteq> [] \<and> kn_key (vc_kdnet cfg) \<noteq> []) \<and>
        transport_ready cfg h \<and> shell_ready h)"

lemma vm_health_ready:
  assumes "vc_kd_transport cfg = Net \<Longrightarrow> firewall \<noteq> None"
  shows "yields (vm_health_of X name cfg firewall answer) (\<lambda>h. vh_issues h = [] \<longrightarrow> vm_ready X (name, cfg) h)"
  unfolding vm_health_of_def
proof (rule yields_bindE [OF probe_vm_ready [OF assms]])
  fix h
  assume "vh_issues h = [] \<longrightarrow> config_issues X cfg (dict_keys (x_adapters X)) = [] \<and> answer \<in> range Inr \<and> transport_ready cfg h \<and> shell_ready h"
  then show "yields (ret (h\<lparr>vh_name := name\<rparr>)) (\<lambda>h. vh_issues h = [] \<longrightarrow> vm_ready X (name, cfg) h)"
    using config_issues_empty [of X cfg "dict_keys (x_adapters X)"]
    by (intro yields_ret) (auto simp: vm_ready_def transport_ready_def shell_ready_def)
qed

lemma sys_health_ready:
  "yields (sys_health X) (\<lambda>r. report_ok r \<longrightarrow> x_is_file X (h_kd (c_host (x_config X))) \<and> list_all2 (vm_ready X) (c_vms (x_config X)) (hr_vms r))"
proof -
  have vms: "yields (mapE (\<lambda>(name, cfg). bindE (answer_of powers name) (vm_health_of X name cfg f)) (c_vms (x_config X)))
      (\<lambda>hs. list_all2 (\<lambda>nc h. vh_issues h = [] \<longrightarrow> vm_ready X nc h) (c_vms (x_config X)) hs)"
    if "list_ex (\<lambda>cfg. vc_kd_transport cfg = Net) (dict_values (c_vms (x_config X))) \<longrightarrow> f \<noteq> None" for powers f
    by (rule yields_mapE) (use that in \<open>force simp: dict_values_def list_ex_iff intro!: yields_bindE [OF yields_any] vm_health_ready\<close>)
  show ?thesis
    unfolding sys_health_def Let_def
    apply (rule yields_bindE [OF yields_any])
    apply (rule yields_bindE [where P = "\<lambda>f. list_ex (\<lambda>cfg. vc_kd_transport cfg = Net) (dict_values (c_vms (x_config X))) \<longrightarrow> f \<noteq> None"])
     apply (auto intro!: yields_ret yields_bindE [OF yields_any]) [1]
    apply (rule yields_bindE [OF yields_any])
    apply (rule yields_bindE [OF vms])
     apply blast
    apply (rule yields_ret)
    apply (auto simp: report_ok_def sum_list_eq_0_iff list_all2_conv_all_nth)
    done
qed


section \<open>A healthy host\<close>

definition ready_vm :: vm_config where
  "ready_vm = sample_vm\<lparr>vc_kdnet_hostip := ''10.0.0.1'', vc_kdnet := \<lparr>kn_port = 9, kn_key = ''k.e.y''\<rparr>\<rparr>"

definition ready_host :: "demo_env sys_outside" where
  "ready_host =
     svc_outside.extend (demo_outside\<lparr>x_config := \<lparr>c_host = DEFAULT_HOST, c_vms = [(''win'', ready_vm)], c_path = ''vms.yaml''\<rparr>\<rparr>)
       (sys_outside.fields \<lparr>ev_win32 = True, ev_registry = [], ev_process = []\<rparr> (\<lambda>p. True) (\<lambda>p. None) (\<lambda>p f. True) (\<lambda>port e. True)
          (\<lambda>b e. (Inr [(''exists'', JBool True)], e)) (\<lambda>b. []) ''1'' ''3.11'' ''Windows'' 80)"

lemma ready_host_sel [simp]:
  "x_config ready_host = \<lparr>c_host = DEFAULT_HOST, c_vms = [(''win'', ready_vm)], c_path = ''vms.yaml''\<rparr>"
  "x_adapters ready_host = [(''vmware'', demo_adapter)]" "x_is_file ready_host p" "x_vmx_text ready_host p = None"
  "x_udp_free ready_host n e" "x_backend_health ready_host b = (\<lambda>e. (Inr [(''exists'', JBool True)], e))" "x_capabilities ready_host b = []"
  "x_ssh_probe ready_host = (\<lambda>ip p e. (True, e))" "x_now ready_host = de_now"
  "x_firewall_check ready_host = (\<lambda>kd e. (\<lparr>fw_allow = True, fw_block_rules = [], fw_checked = True, fw_error = []\<rparr>, e))"
  by (simp_all add: ready_host_def svc_outside.defs sys_outside.defs demo_outside_def)

lemma ready_vm_sel [simp]:
  "vc_name ready_vm = ''win''" "vc_backend ready_vm = ''vmware''" "vc_kd_transport ready_vm = Net" "vc_vmx ready_vm = ''C:/vm/win.vmx''"
  "vc_kdnet_hostip ready_vm = ''10.0.0.1''" "vc_kdnet ready_vm = \<lparr>kn_port = 9, kn_key = ''k.e.y''\<rparr>" "vc_guest ready_vm = sample_guest"
  "vc_encryption_password_env ready_vm = []" "vc_encryption_password ready_vm = []" "adapter_for ready_host ready_vm = demo_adapter"
  by (simp_all add: ready_vm_def sample_vm_def adapter_for_def)

definition calm :: "demo_env svc_world \<Rightarrow> bool" where
  "calm w = (w_kd w = [] \<and> w_env w = demo_running \<and> rt_kd_state (vm_of (w_store w) ''win'') = K_Detached)"

lemma await_calm: "calm w \<Longrightarrow> f demo_running = (r, demo_running) \<Longrightarrow> awaitE X f w = (r, w)"
  by (cases w) (simp add: calm_def awaitE_def env_tryE_def catch_up_def dict_keys_def)

lemma await_pair: "calm w \<Longrightarrow> awaitE X (Pair r) w = (r, w)" "calm w \<Longrightarrow> awaitE X (\<lambda>e. (g e, e)) w = (g demo_running, w)"
  by (simp_all add: await_calm)

lemma calm_config: "config_issues ready_host ready_vm [''vmware''] = []"
  by (simp add: config_issues_def Let_def issue_if_def vmx_settings_def setting_def opt_or_def sample_guest_def empty_envs_def unique_def
      saved_state_is_stale_def saved_state_def dict_has_def py_lower_def)

lemma calm_runtime: "calm w \<Longrightarrow> \<exists>r w'. svc_runtime ready_host ''win'' w = (Inr r, w') \<and> rt_kd_state r = K_Detached \<and> calm w'"
  by (simp add: svc_runtime_def calm_def config_lookup_def sync_config_def Let_def)

lemma calm_powers:
  assumes "calm w"
  shows "\<exists>w'. refresh_powers ready_host [''win''] w = (Inr [(''win'', Inr P_Running)], w') \<and> calm w'"
proof -
  show ?thesis using assms
    by (simp add: refresh_powers_def group_vm_def vm_cfg_def bindE_def liftE_def config_vm_def dict_has_def ret_def opt_or_def
        group_answers_def catch_nt_def tryE_def await_pair [OF assms] thenE_def set_power_def storeE_def dict_update_def)
      (simp add: calm_def)
qed

lemma calm_health:
  assumes "calm w" "fw_ok f"
  shows "\<exists>h w'. vm_health_of ready_host ''win'' ready_vm (Some f) (Inr P_Running) w = (Inr h, w') \<and> vh_issues h = []"
proof -
  obtain r w1 where r: "svc_runtime ready_host ''win'' w = (Inr r, w1)" "rt_kd_state r = K_Detached" "calm w1"
    using calm_runtime [OF assms(1)] by blast
  have reach: "ssh_reachable ready_host ready_vm t w1 = (Inr (True, ''10.0.0.5''), w1)" for t
    by (simp add: ssh_reachable_def svc_guest_ip_def bindE_def ret_def await_pair [OF r(3)])
  show ?thesis
    using r(1,2) assms(2) calm_config
    by (simp add: vm_health_of_def probe_vm_def bindE_def getS_def probe_port_def guest_frozen_def catch_nt_def tryE_def reach ret_def dict_keys_def
        Let_def issue_if_def)
qed


end
