(* ===== verification/Cli_Verify.thy ===== *)
theory Cli_Verify
  imports Daemon_Client "HOL-Library.Sublist"
begin

text \<open>
  \<open>cli/verify.py\<close> with the output lines of \<open>cli/log.py\<close>: the checks of \<open>ntdrive verify\<close> over a client's calls, given as \<open>call\<close>. The history
  \<open>vw_calls\<close> says which tools were called and whether they answered.
\<close>

section \<open>Output lines\<close>

definition log_section :: "nat \<Rightarrow> nat \<Rightarrow> string \<Rightarrow> string" where
  "log_section index n title = ''== '' @ nat_text index @ ''/'' @ nat_text n @ '' '' @ title"

definition log_line :: "string \<Rightarrow> string \<Rightarrow> string \<Rightarrow> string" where
  "log_line tag subject detail = tag @ '' '' @ subject @ (if detail \<noteq> [] then '': '' @ detail else [])"

definition log_ok :: "string \<Rightarrow> string \<Rightarrow> string" where "log_ok = log_line ''[+]''"
definition log_fail :: "string \<Rightarrow> string \<Rightarrow> string" where "log_fail = log_line ''[-]''"
definition log_running :: "string \<Rightarrow> string \<Rightarrow> string" where "log_running = log_line ''[*]''"
definition log_fix :: "string \<Rightarrow> string" where "log_fix text = ''    [>] '' @ text"
definition log_verdict :: "string \<Rightarrow> string \<Rightarrow> string" where "log_verdict word text = word @ '': '' @ text"

definition log_next_steps :: "string list \<Rightarrow> string list" where
  "log_next_steps steps = ''  next:'' # map (\<lambda>(i, s). ''    '' @ nat_text (Suc i) @ ''. '' @ s) (enumerate 0 steps)"

section \<open>Checks\<close>

record check =
  ck_name :: string
  ck_ok :: bool
  ck_detail :: string
  ck_fix :: string

record 'w verify_world =
  vw_inner :: 'w
  vw_calls :: "(string \<times> bool) list"
  vw_out :: "string list"

type_synonym ('w, 'a) vp = "('w verify_world, 'a) app"
type_synonym 'w caller = "string \<Rightarrow> (string, json) dict \<Rightarrow> ('w, (string, json) dict) app"

definition vcall :: "'w caller \<Rightarrow> string \<Rightarrow> (string, json) dict \<Rightarrow> ('w, (string, json) dict) vp" where
  "vcall C name args v =
     (case C name args (vw_inner v) of
        (r, w) \<Rightarrow> (r, v\<lparr>vw_inner := w, vw_calls := vw_calls v @ [(name, case r of Inr _ \<Rightarrow> True | Inl _ \<Rightarrow> False)]\<rparr>))"

definition vprint :: "string list \<Rightarrow> ('w, unit) vp" where
  "vprint lines v = (Inr (), v\<lparr>vw_out := vw_out v @ lines\<rparr>)"

definition passed :: "string \<Rightarrow> string \<Rightarrow> check list \<Rightarrow> ('w, check list) vp" where
  "passed name detail report =
     thenE (vprint [log_ok name detail]) (ret (report @ [\<lparr>ck_name = name, ck_ok = True, ck_detail = detail, ck_fix = []\<rparr>]))"

definition failed :: "string \<Rightarrow> string \<Rightarrow> string \<Rightarrow> check list \<Rightarrow> ('w, check list) vp" where
  "failed name detail fix_text report =
     thenE (vprint [log_fail name detail, log_fix fix_text])
       (ret (report @ [\<lparr>ck_name = name, ck_ok = False, ck_detail = detail, ck_fix = fix_text\<rparr>]))"

definition ssh_fix :: "string \<Rightarrow> string \<Rightarrow> string \<Rightarrow> string" where
  "ssh_fix msg vm standard =
     (let low = py_lower msg
      in if contains ''authentication'' low \<and> standard \<noteq> [] then
           ''the password of '' @ standard @ '' is wrong: run ntdrive setup --name '' @ vm @
           '' and, at the standard account prompt, type the name and password that setup-guest.cmd set in the guest, or run that there first''
         else if contains ''authentication'' low then
           ''the account or password is wrong: run ntdrive setup --name '' @ vm @
           '' and type the account and password that setup-guest.cmd created in the guest (ntdrive by default), or run setup-guest.cmd there first''
         else if contains ''guest ip'' low \<or> contains ''vmware tools'' low then
           ''VMware Tools are not running in the guest: install them (VM > Install VMware Tools)''
         else ''OpenSSH does not answer: in the guest run setup-guest.cmd (installs OpenSSH, one UAC click), then verify again'')"

text \<open>Reading the answers: \<open>d.get(k)\<close> as text, a truth value or a dictionary.\<close>

definition get :: "(string, json) dict \<Rightarrow> string \<Rightarrow> json" where
  "get d k = opt_or (dict_get d k) JNull"

definition get_dict :: "(string, json) dict \<Rightarrow> string \<Rightarrow> (string, json) dict" where
  "get_dict d k = (case get d k of JDict x \<Rightarrow> x | _ \<Rightarrow> [])"

definition get_list :: "(string, json) dict \<Rightarrow> string \<Rightarrow> json list" where
  "get_list d k = (case get d k of JList xs \<Rightarrow> xs | _ \<Rightarrow> [])"

definition str_or :: "json \<Rightarrow> string \<Rightarrow> string" where
  "str_or j dflt = (if truthy j then py_str j else dflt)"

definition find_vm :: "string \<Rightarrow> json list \<Rightarrow> (string, json) dict option" where
  "find_vm name vms =
     map_option (\<lambda>j. case j of JDict d \<Rightarrow> d | _ \<Rightarrow> [])
       (find (\<lambda>j. case j of JDict d \<Rightarrow> get d ''name'' = JStr name | _ \<Rightarrow> False) vms)"

definition LATER :: "string list" where "LATER = [''kdnet key not set'', ''host firewall'', ''SSH port'']"

definition blocking_issues :: "(string, json) dict \<Rightarrow> string list" where
  "blocking_issues vm = filter (\<lambda>i. \<not> list_ex (\<lambda>p. starts_with p i) LATER) (map py_str (get_list vm ''issues''))"

definition hint_or :: "nt_error \<Rightarrow> string \<Rightarrow> string" where
  "hint_or e dflt = (if err_hint e \<noteq> [] then err_hint e else dflt)"

section \<open>The checks in order\<close>

text \<open>Each check goes on with the rest of the run or returns the report.\<close>

type_synonym 'w rest = "check list \<Rightarrow> ('w, check list) vp"

definition check_config ::
  "'w caller \<Rightarrow> string \<Rightarrow> ((string, json) dict \<Rightarrow> 'w rest) \<Rightarrow> ('w, check list) vp" where
  "check_config C name k =
     bindE (vcall C ''sys_health'' []) (\<lambda>health.
       if truthy (get health ''problems'') then
         failed ''host'' (case get_list health ''problems'' of p # _ \<Rightarrow> py_str p | [] \<Rightarrow> []) ''install the missing piece, then verify again'' []
       else (case find_vm name (get_list health ''vms'') of
               None \<Rightarrow> failed ''config'' (name @ '' is not in vms.yaml'') (''run scripts'' @ [BSL] @ ''setup-host.cmd or ntdrive setup'') []
             | Some vm \<Rightarrow>
                 (case blocking_issues vm of
                    b # _ \<Rightarrow> failed ''config'' ''vms.yaml or the VM settings'' b []
                  | [] \<Rightarrow> bindE (passed ''config'' (py_str (get vm ''kd_transport'') @ '' transport, '' @ py_str (get health ''config_path'')) []) (k vm))))"

definition check_power :: "'w caller \<Rightarrow> string \<Rightarrow> (string, json) dict \<Rightarrow> 'w rest \<Rightarrow> 'w rest" where
  "check_power C name vm k report =
     (if get vm ''power'' \<noteq> JStr ''running'' then
        catch_nt (vcall C ''vm_start'' [(''vm'', JStr name)])
          (\<lambda>e. failed ''power'' (err_message e) (hint_or e ''start the VM in VMware and look at its console'') report)
          (\<lambda>_. bindE (passed ''power'' ''was off, started it'' report) k)
      else bindE (passed ''power'' ''running'' report) k)"

text \<open>A shell over SSH as one account, opened and closed.\<close>

definition check_login ::
  "'w caller \<Rightarrow> string \<Rightarrow> string \<Rightarrow> string \<Rightarrow> string \<Rightarrow> (string, json) dict \<Rightarrow> 'w rest \<Rightarrow> 'w rest" where
  "check_login C name check standard detail args k report =
     catch_nt (vcall C ''term_open'' args)
       (\<lambda>e. failed check (err_message e) (ssh_fix (err_message e) name standard) report)
       (\<lambda>opened.
          thenE (case dict_get opened ''session_id'' of
                   None \<Rightarrow> raise (Exn ''KeyError'')
                 | Some sid \<Rightarrow> suppress_nt (bindE (vcall C ''term_close'' [(''session_id'', sid)]) (\<lambda>_. ret ())))
            (bindE (passed check detail report) k))"

definition check_ssh :: "'w caller \<Rightarrow> string \<Rightarrow> (string, json) dict \<Rightarrow> 'w rest \<Rightarrow> 'w rest" where
  "check_ssh C name vm k =
     (let guest = get_dict vm ''guest''; standard = str_or (get guest ''standard_user'') []
      in check_login C name ''ssh'' []
           (''logged in as '' @ str_or (get guest ''user'') ''the configured account'' @ '' and got a shell'') [(''vm'', JStr name)]
           (if standard = [] then k
            else check_login C name ''ssh standard'' standard (''logged in as '' @ standard @ '', a plain user, and got a shell'')
                   [(''vm'', JStr name), (''account'', JStr ''standard'')] k))"

definition check_transport :: "'w caller \<Rightarrow> string \<Rightarrow> (string, json) dict \<Rightarrow> 'w rest \<Rightarrow> 'w rest" where
  "check_transport C name vm k report =
     (if get vm ''kd_transport'' = JStr ''net'' then
        catch_nt (vcall C ''kd_setup_host'' [(''vm'', JStr name), (''fix_firewall'', JBool False)])
          (\<lambda>e. failed ''firewall'' (err_message e) (hint_or e (''run scripts'' @ [BSL] @ ''setup-host.cmd'')) report)
          (\<lambda>host_side.
             let firewall = get_dict host_side ''firewall''; rules = map py_str (get_list firewall ''block_rules'')
             in if truthy (get firewall ''ok'') then bindE (passed ''firewall'' ''kd.exe may receive KDNET'' report) k
                else failed ''firewall''
                  (if rules \<noteq> [] then ''inbound Block rules for kd.exe: '' @ join_with '', '' rules else ''no inbound Allow rule for kd.exe UDP'')
                  (''run scripts'' @ [BSL] @ ''setup-host.cmd (one UAC prompt), or scripts'' @ [BSL] @
                   ''setup-host.cmd -FirewallOnly from an Administrator shell'') report)
      else
        (let pipe = get_dict vm ''serial_pipe''
         in if get pipe ''open'' = JBool False
            then failed ''serial pipe'' (py_str (get pipe ''path'') @ '' has no server on the host'')
                   (''power the VM off, run ntdrive kd setup-host '' @ name @ '', then start it again'') report
            else bindE (passed ''serial pipe'' (py_str (get pipe ''path'')) report) k))"

section \<open>The debugger\<close>

definition finallyE :: "('w, 'a) app \<Rightarrow> ('w, unit) app \<Rightarrow> ('w, 'a) app" where
  "finallyE m k w = (case m w of (r, w1) \<Rightarrow> (case k w1 of (Inl x, w2) \<Rightarrow> (Inl x, w2) | (Inr _, w2) \<Rightarrow> (r, w2)))"

definition console_failed :: "nt_error \<Rightarrow> 'w rest" where
  "console_failed e = failed ''debugger'' (err_message e) (hint_or e ''look at the guest console'')"

definition attach_args :: "string \<Rightarrow> int \<Rightarrow> (string, json) dict" where
  "attach_args name timeout = [(''vm'', JStr name), (''timeout'', JInt timeout)]"

text \<open>Attaching, with the reboot of a guest that was only just configured: \<open>k\<close> is the rest when attached here.\<close>

definition attach_here :: "'w caller \<Rightarrow> string \<Rightarrow> ('w, check list) vp \<Rightarrow> 'w rest" where
  "attach_here C name k report =
     thenE (vprint [log_running ''debugger'' ''attaching, this waits for the target''])
       (catch_nt (vcall C ''kd_attach'' (attach_args name 120))
          (\<lambda>e. if \<not> contains ''needs a reboot'' (err_message e) then console_failed e report
               else thenE (vprint [log_running ''debugger'' ''KDNET was configured in the guest just now, rebooting it''])
                 (catch_nt (bindE (vcall C ''vm_reboot''
                              [(''vm'', JStr name), (''mode'', JStr ''soft''), (''confirm'', JBool True), (''reattach_kd'', JBool False),
                               (''reopen_term'', JBool False)])
                              (\<lambda>_. vcall C ''kd_attach'' (attach_args name 180)))
                    (\<lambda>again. console_failed again report)
                    (\<lambda>_. k)))
          (\<lambda>_. k))"

definition break_and_go :: "'w caller \<Rightarrow> string \<Rightarrow> ('w, (string, json) dict) vp" where
  "break_and_go C name =
     bindE (vcall C ''kd_break'' [(''vm'', JStr name), (''timeout'', JInt 30)]) (\<lambda>broke.
     bindE (vcall C ''kd_go'' [(''vm'', JStr name)]) (\<lambda>_. ret broke))"

text \<open>The round trip: a report when it fails, the answer of the break when it works; a session attached here is detached either way.\<close>

definition round_trip :: "'w caller \<Rightarrow> string \<Rightarrow> bool \<Rightarrow> 'w rest" where
  "round_trip C name attached report =
     bindE (finallyE
       (catch_nt (break_and_go C name)
          (\<lambda>e. bindE (failed ''debugger'' (err_message e)
                   (hint_or e ''reboot the guest so it boots with the debugger on, then verify again'') report) (\<lambda>r. ret (Inl r)))
          (\<lambda>broke. ret (Inr broke)))
       (if attached then suppress_nt (bindE (vcall C ''kd_detach'' [(''vm'', JStr name)]) (\<lambda>_. ret ())) else ret ()))
     (\<lambda>out. case out of
        Inl r \<Rightarrow> ret r
      | Inr broke \<Rightarrow>
          passed ''debugger'' (''attached, broke in and resumed ('' @ str_or (get broke ''target_info'') ''target connected'' @ '')'') report)"

definition check_debugger :: "'w caller \<Rightarrow> string \<Rightarrow> 'w rest" where
  "check_debugger C name report =
     bindE (vcall C ''kd_state'' [(''vm'', JStr name)]) (\<lambda>state.
       if get state ''state'' = JStr ''detached'' then attach_here C name (round_trip C name True report) report
       else if get state ''state'' = JStr ''broken''
       then bindE (vcall C ''kd_go'' [(''vm'', JStr name)]) (\<lambda>_. round_trip C name False report)
       else round_trip C name False report)"

definition verify_vm :: "'w caller \<Rightarrow> string \<Rightarrow> ('w, check list) vp" where
  "verify_vm C name =
     check_config C name (\<lambda>vm. check_power C name vm (check_ssh C name vm (check_transport C name vm (check_debugger C name))))"

section \<open>The command\<close>

definition all_ok :: "check list \<Rightarrow> bool" where "all_ok = list_all ck_ok"

definition verify_ready :: "(string, check list) dict \<Rightarrow> bool" where
  "verify_ready reports = (reports \<noteq> [] \<and> list_all (\<lambda>(n, r). all_ok r) reports)"

fun verify_all :: "'w caller \<Rightarrow> nat \<Rightarrow> nat \<Rightarrow> string list \<Rightarrow> ('w, (string \<times> check list) list) vp" where
  "verify_all C i n [] = ret []"
| "verify_all C i n (name # names) =
     thenE (vprint [log_section i n name])
     (bindE (verify_vm C name) (\<lambda>r. bindE (verify_all C (Suc i) n names) (\<lambda>rs. ret ((name, r) # rs))))"

definition verdict_lines :: "string list \<Rightarrow> (string, check list) dict \<Rightarrow> string list" where
  "verdict_lines names reports =
     (if names = [] then
        log_verdict ''NOT READY'' ''no VM is configured'' #
        log_next_steps [''run scripts'' @ [BSL] @ ''setup-host.cmd (or ntdrive setup) and pick the VM'']
      else if verify_ready reports then
        [log_verdict ''ALL SET'' (join_with '', '' names @ '' ready. SSH login, debugger attach, break in and resume all worked.'')]
      else
        (let bad = filter (\<lambda>(n, r). \<not> ck_ok (last r)) reports
         in log_verdict ''NOT READY'' (join_with '', '' (map fst bad)) #
            log_next_steps (map (\<lambda>(n, r). n @ '' ('' @ ck_name (last r) @ ''): '' @ ck_fix (last r)) bad @
              [''then run ntdrive verify again (or scripts'' @ [BSL] @ ''setup-host.cmd -Verify)''])))"

definition vm_names :: "(string, json) dict \<Rightarrow> string list" where
  "vm_names listed = map (\<lambda>j. case j of JDict d \<Rightarrow> py_str (get d ''name'') | _ \<Rightarrow> []) (get_list listed ''vms'')"

text \<open>The exit code and the reports; an error that leaves a check goes to \<open>fail\<close> of the command line.\<close>

definition verify_command :: "'w caller \<Rightarrow> string list \<Rightarrow> ('w, nat \<times> (string, check list) dict) vp" where
  "verify_command C vms =
     bindE (if vms \<noteq> [] then ret vms else bindE (vcall C ''vm_list'' []) (\<lambda>d. ret (vm_names d))) (\<lambda>names.
     bindE (verify_all C 1 (length names) names) (\<lambda>rs.
       let reports = dict_update [] rs
       in thenE (vprint (verdict_lines names reports)) (ret (if verify_ready reports then 0 else 1, reports))))"

section \<open>What the calls of a run say\<close>

lemma vprint_run: "vprint ls v = (Inr (), v\<lparr>vw_out := vw_out v @ ls\<rparr>)"
  by (simp add: vprint_def)

lemma passed_run: "passed n d report v = (Inr (report @ [\<lparr>ck_name = n, ck_ok = True, ck_detail = d, ck_fix = []\<rparr>]), v\<lparr>vw_out := vw_out v @ [log_ok n d]\<rparr>)"
  by (simp add: passed_def thenE_def bindE_def vprint_def ret_def)

lemma failed_run:
  "failed n d fx report v = (Inr (report @ [\<lparr>ck_name = n, ck_ok = False, ck_detail = d, ck_fix = fx\<rparr>]), v\<lparr>vw_out := vw_out v @ [log_fail n d, log_fix fx]\<rparr>)"
  by (simp add: failed_def thenE_def bindE_def vprint_def ret_def)

text \<open>\<open>makes m P\<close>: from any state the calls \<open>m\<close> adds to the history and its result satisfy \<open>P\<close>. One rule per construct, each read
  backwards from the postcondition.\<close>

definition makes :: "('w, 'a) vp \<Rightarrow> ((string \<times> bool) list \<Rightarrow> exn + 'a \<Rightarrow> bool) \<Rightarrow> bool" where
  "makes m P = (\<forall>v. \<exists>calls. vw_calls (snd (m v)) = vw_calls v @ calls \<and> P calls (fst (m v)))"

named_theorems makes_intros

lemma makes_ret [makes_intros]: "P [] (Inr a) \<Longrightarrow> makes (ret a) P"
  by (simp add: makes_def ret_def)

lemma makes_raise [makes_intros]: "P [] (Inl x) \<Longrightarrow> makes (raise x) P"
  by (simp add: makes_def raise_def)

lemma makes_vprint [makes_intros]: "P [] (Inr ()) \<Longrightarrow> makes (vprint ls) P"
  by (simp add: makes_def vprint_run)

lemma makes_passed [makes_intros]: "(\<And>rep. P [] (Inr rep)) \<Longrightarrow> makes (passed n d report) P"
  by (simp add: makes_def passed_run)

lemma makes_failed [makes_intros]: "(\<And>rep. \<not> all_ok rep \<Longrightarrow> P [] (Inr rep)) \<Longrightarrow> makes (failed n d fx report) P"
  by (simp add: makes_def failed_run all_ok_def)

lemma makes_vcall [makes_intros]:
  assumes "\<And>x. P [(n, False)] (Inl x)" "\<And>a. P [(n, True)] (Inr a)"
  shows "makes (vcall C n args) P"
  unfolding makes_def
proof
  fix v
  show "\<exists>calls. vw_calls (snd (vcall C n args v)) = vw_calls v @ calls \<and> P calls (fst (vcall C n args v))"
    using assms by (cases "C n args (vw_inner v)") (auto simp: vcall_def split: sum.splits)
qed

lemma makes_mono: "makes m P \<Longrightarrow> (\<And>c r. P c r \<Longrightarrow> Q c r) \<Longrightarrow> makes m Q"
  unfolding makes_def by blast

lemma makes_run: "makes m P \<Longrightarrow> m v = (r, v1) \<Longrightarrow> \<exists>c. vw_calls v1 = vw_calls v @ c \<and> P c r"
  unfolding makes_def by (drule spec [of _ v]) simp

lemma makes_tryE:
  assumes "makes m (\<lambda>c r. case r of Inl x \<Rightarrow> makes (h x) (\<lambda>d. P (c @ d)) | Inr a \<Rightarrow> makes (k a) (\<lambda>d. P (c @ d)))"
  shows "makes (tryE m h k) P"
  unfolding makes_def
proof
  fix v
  obtain r v1 where m: "m v = (r, v1)" by fastforce
  from assms obtain c where c: "vw_calls v1 = vw_calls v @ c"
    "case r of Inl x \<Rightarrow> makes (h x) (\<lambda>d. P (c @ d)) | Inr a \<Rightarrow> makes (k a) (\<lambda>d. P (c @ d))"
    using makes_run [OF assms m] by blast
  show "\<exists>calls. vw_calls (snd (tryE m h k v)) = vw_calls v @ calls \<and> P calls (fst (tryE m h k v))"
  proof (cases r)
    case (Inl x)
    then obtain d where "vw_calls (snd (h x v1)) = vw_calls v1 @ d" "P (c @ d) (fst (h x v1))" using c(2) by (auto simp: makes_def)
    then show ?thesis using m Inl c(1) by (auto simp: tryE_def intro!: exI [of _ "c @ d"])
  next
    case (Inr a)
    then obtain d where "vw_calls (snd (k a v1)) = vw_calls v1 @ d" "P (c @ d) (fst (k a v1))" using c(2) by (auto simp: makes_def)
    then show ?thesis using m Inr c(1) by (auto simp: tryE_def intro!: exI [of _ "c @ d"])
  qed
qed

lemma makes_catch [makes_intros]:
  assumes "makes m (\<lambda>c r. (\<forall>e. r = Inl (Nt e) \<longrightarrow> makes (h e) (\<lambda>d. P (c @ d))) \<and> (\<forall>x. r = Inl x \<and> (\<forall>e. x \<noteq> Nt e) \<longrightarrow> P c (Inl x)) \<and>
     (\<forall>a. r = Inr a \<longrightarrow> makes (k a) (\<lambda>d. P (c @ d))))"
  shows "makes (catch_nt m h k) P"
  unfolding catch_nt_def
  by (rule makes_tryE, rule makes_mono [OF assms])
     (auto intro!: makes_raise split: sum.splits exn.splits)

lemma makes_bind [makes_intros]:
  assumes "makes m (\<lambda>c r. (\<forall>x. r = Inl x \<longrightarrow> P c (Inl x)) \<and> (\<forall>a. r = Inr a \<longrightarrow> makes (k a) (\<lambda>d. P (c @ d))))"
  shows "makes (bindE m k) P"
proof -
  have "bindE m k = tryE m raise k" by (rule ext) (auto simp: bindE_def tryE_def raise_def split: prod.splits sum.splits)
  then show ?thesis
    by (simp only:) (rule makes_tryE, rule makes_mono [OF assms], auto intro!: makes_raise split: sum.splits)
qed

lemma makes_then [makes_intros]:
  "makes m (\<lambda>c r. (\<forall>x. r = Inl x \<longrightarrow> P c (Inl x)) \<and> (\<forall>a. r = Inr a \<longrightarrow> makes k (\<lambda>d. P (c @ d)))) \<Longrightarrow> makes (thenE m k) P"
  unfolding thenE_def by (rule makes_bind)

lemma makes_finally [makes_intros]:
  assumes "makes m (\<lambda>c r. makes k (\<lambda>d s. case s of Inl x \<Rightarrow> P (c @ d) (Inl x) | Inr _ \<Rightarrow> P (c @ d) r))"
  shows "makes (finallyE m k) P"
  unfolding makes_def
proof
  fix v
  obtain r v1 where m: "m v = (r, v1)" by fastforce
  from assms obtain c where c: "vw_calls v1 = vw_calls v @ c"
    "makes k (\<lambda>d s. case s of Inl x \<Rightarrow> P (c @ d) (Inl x) | Inr _ \<Rightarrow> P (c @ d) r)"
    using makes_run [OF assms m] by blast
  obtain s v2 where k: "k v1 = (s, v2)" by fastforce
  from c(2) obtain d where d: "vw_calls v2 = vw_calls v1 @ d" "case s of Inl x \<Rightarrow> P (c @ d) (Inl x) | Inr _ \<Rightarrow> P (c @ d) r"
    using makes_run [OF c(2) k] by blast
  show "\<exists>calls. vw_calls (snd (finallyE m k v)) = vw_calls v @ calls \<and> P calls (fst (finallyE m k v))"
    using m k c(1) d by (cases s) (auto simp: finallyE_def intro!: exI [of _ "c @ d"])
qed

text \<open>Closing a terminal or detaching may fail without a word: only the call itself is seen.\<close>

lemma makes_quiet [makes_intros]:
  "(\<And>ok r. P [(n, ok)] r) \<Longrightarrow> makes (suppress_nt (bindE (vcall C n args) (\<lambda>_. ret ()))) P"
  unfolding suppress_nt_def
  apply (rule makes_catch)
  apply (rule makes_bind)
  apply (rule makes_vcall)
   apply (simp add: makes_ret)
  apply (simp add: makes_ret)
  done

section \<open>What a run of the checks does\<close>

text \<open>A session that was attached ends with a detach, and a report without a failure has made every call of the round trip.\<close>

definition leaves_detached :: "(string \<times> bool) list \<Rightarrow> bool" where
  "leaves_detached calls = ((''kd_attach'', True) \<in> set calls \<longrightarrow> fst (last calls) = ''kd_detach'')"

definition proved_by :: "(string \<times> bool) list \<Rightarrow> (string \<times> bool) list \<Rightarrow> exn + check list \<Rightarrow> bool" where
  "proved_by needed calls r = (leaves_detached calls \<and> (\<forall>rep. r = Inr rep \<longrightarrow> all_ok rep \<longrightarrow> subseq needed calls))"

lemma proved_by_skip: "x \<noteq> (''kd_attach'', True) \<Longrightarrow> proved_by m d r \<Longrightarrow> proved_by m (x # d) r"
  by (cases d) (auto simp: proved_by_def leaves_detached_def)

lemma proved_by_take: "x \<noteq> (''kd_attach'', True) \<Longrightarrow> proved_by m d r \<Longrightarrow> proved_by (x # m) (x # d) r"
  by (cases d) (auto simp: proved_by_def leaves_detached_def)

lemma proved_by_exn: "(''kd_attach'', True) \<notin> set c \<Longrightarrow> proved_by n c (Inl x)"
  by (auto simp: proved_by_def leaves_detached_def)

lemma proved_by_failed: "(''kd_attach'', True) \<notin> set c \<Longrightarrow> \<not> all_ok rep \<Longrightarrow> proved_by n c (Inr rep)"
  by (auto simp: proved_by_def leaves_detached_def)

lemmas proved_by_ends = proved_by_exn proved_by_failed

definition ROUND_TRIP :: "(string \<times> bool) list" where "ROUND_TRIP = [(''kd_break'', True), (''kd_go'', True)]"

text \<open>The round trip never attaches, and with a session attached here it ends with the detach.\<close>

definition went_round :: "bool \<Rightarrow> (string \<times> bool) list \<Rightarrow> exn + check list \<Rightarrow> bool" where
  "went_round attached calls r =
     ((''kd_attach'', True) \<notin> set calls \<and> (attached \<longrightarrow> calls \<noteq> [] \<and> fst (last calls) = ''kd_detach'') \<and>
      (\<forall>rep. r = Inr rep \<longrightarrow> all_ok rep \<longrightarrow> subseq ROUND_TRIP calls))"

lemma makes_round_trip: "makes (round_trip C name attached report) (went_round attached)"
  unfolding round_trip_def break_and_go_def
  by (cases attached; simp only: if_True if_False)
     (intro makes_intros allI impI conjI; (auto simp: went_round_def ROUND_TRIP_def intro!: makes_intros split: sum.splits)?)+

lemma went_round_attached: "went_round True d r \<Longrightarrow> proved_by ROUND_TRIP ((''kd_attach'', True) # d) r"
  by (auto simp: went_round_def proved_by_def leaves_detached_def)

lemma went_round_joined: "went_round False d r \<Longrightarrow> proved_by ROUND_TRIP d r"
  by (auto simp: went_round_def proved_by_def leaves_detached_def)

lemma makes_attach_here:
  assumes "makes k (went_round True)"
  shows "makes (attach_here C name k report) (proved_by ROUND_TRIP)"
  unfolding attach_here_def console_failed_def
  by (auto intro!: makes_intros proved_by_ends makes_mono [OF assms] split: if_splits)
     (simp_all add: proved_by_skip went_round_attached)

lemma makes_check_debugger: "makes (check_debugger C name report) (proved_by ROUND_TRIP)"
proof -
  note trip = makes_mono [OF makes_round_trip [of C name False report] went_round_joined]
    and here = makes_attach_here [OF makes_round_trip, of C name _ _ report]
  show ?thesis unfolding check_debugger_def
    by (auto intro!: makes_intros proved_by_ends makes_mono [OF trip] makes_mono [OF here] intro!: proved_by_skip split: if_splits)
qed

text \<open>Each check adds the call it depends on to what the rest needs.\<close>

lemma makes_check_transport:
  assumes "\<And>rep. makes (k rep) (proved_by n)"
  shows "makes (check_transport C name vm k report) (proved_by n)"
  unfolding check_transport_def Let_def
  by (auto intro!: makes_intros proved_by_ends makes_mono [OF assms] intro!: proved_by_skip split: if_splits)

lemma makes_check_login:
  assumes "\<And>rep. makes (k rep) (proved_by n)"
  shows "makes (check_login C name ck standard detail args k report) (proved_by ((''term_open'', True) # n))"
  unfolding check_login_def
  by (auto intro!: makes_intros proved_by_ends proved_by_take makes_mono [OF assms] split: option.splits)
     (auto intro!: proved_by_skip)

lemma makes_check_power:
  assumes "\<And>rep. makes (k rep) (proved_by n)"
  shows "makes (check_power C name vm k report) (proved_by n)"
  unfolding check_power_def
  by (auto intro!: makes_intros proved_by_ends makes_mono [OF assms] intro!: proved_by_skip split: if_splits)

lemma makes_check_config:
  assumes "\<And>vm rep. makes (k vm rep) (proved_by n)"
  shows "makes (check_config C name k) (proved_by ((''sys_health'', True) # n))"
  unfolding check_config_def
  by (auto intro!: makes_intros proved_by_ends proved_by_take makes_mono [OF assms]
      split: option.splits list.splits if_splits)

definition PROOF :: "(string \<times> bool) list" where
  "PROOF = [(''sys_health'', True), (''term_open'', True), (''kd_break'', True), (''kd_go'', True)]"

lemma proved_by_weaker: "proved_by n d r \<Longrightarrow> subseq m n \<Longrightarrow> proved_by m d r"
  by (auto simp: proved_by_def)

lemma PROOF_parts: "PROOF = (''sys_health'', True) # (''term_open'', True) # ROUND_TRIP"
  by (simp add: PROOF_def ROUND_TRIP_def)

lemma makes_verify_vm: "makes (verify_vm C name) (proved_by PROOF)"
proof -
  note rest = makes_check_transport [OF makes_check_debugger]
  note one = makes_check_login [OF rest] and two = makes_check_login [OF makes_check_login [OF rest]]
  have "makes (check_ssh C name vm (check_transport C name vm (check_debugger C name)) rep) (proved_by ((''term_open'', True) # ROUND_TRIP))"
    for vm rep
    using one makes_mono [OF two proved_by_weaker]
    by (auto simp: check_ssh_def Let_def intro: makes_mono [OF two proved_by_weaker])
  then show ?thesis
    unfolding verify_vm_def PROOF_parts by (intro makes_check_config makes_check_power)
qed

text \<open>
  C34. A VM passes \<open>ntdrive verify\<close> only on evidence: a report in which every check passed comes from a run in which the health
  report, a shell over SSH, a break into the kernel and a resume were asked for in this order and every one of them answered.
\<close>

theorem ready_on_evidence:
  assumes "verify_vm C name v = (Inr report, v')" "all_ok report"
  shows "\<exists>calls. vw_calls v' = vw_calls v @ calls \<and>
    subseq [(''sys_health'', True), (''term_open'', True), (''kd_break'', True), (''kd_go'', True)] calls"
  using makes_run [OF makes_verify_vm assms(1)] assms(2) by (auto simp: proved_by_def PROOF_def)

text \<open>
  C35. \<open>ntdrive verify\<close> leaves no debugger session behind: when one of its attach calls succeeded, with or without the reboot in
  between, the last call of the run is the detach, whether the round trip worked, failed or was cut short by an exception.
\<close>

theorem verify_detaches_what_it_attached:
  assumes "verify_vm C name v = (r, v')" "vw_calls v' = vw_calls v @ calls" "(''kd_attach'', True) \<in> set calls"
  shows "fst (last calls) = ''kd_detach''"
  using makes_run [OF makes_verify_vm assms(1)] assms(2,3) by (auto simp: proved_by_def leaves_detached_def)

section \<open>A run\<close>

text \<open>A host with one VM that is off, with a serial pipe and no debugger attached.\<close>

definition one_vm_answer :: "string \<Rightarrow> (string, json) dict" where
  "one_vm_answer name =
     (if name = ''sys_health'' then
        [(''problems'', JList []),
         (''vms'', JList [JDict [(''name'', JStr ''w''), (''kd_transport'', JStr ''com''), (''power'', JStr ''off''), (''issues'', JList [])]])]
      else if name = ''term_open'' then [(''session_id'', JStr ''t1'')]
      else if name = ''kd_state'' then [(''state'', JStr ''detached'')]
      else [])"

definition one_vm :: "unit caller" where "one_vm name args = ret (one_vm_answer name)"

definition idle :: "unit verify_world" where "idle = \<lparr>vw_inner = (), vw_calls = [], vw_out = []\<rparr>"

definition one_vm_calls :: "(string \<times> bool) list" where
  "one_vm_calls = map (\<lambda>n. (n, True))
     [''sys_health'', ''vm_start'', ''term_open'', ''term_close'', ''kd_state'', ''kd_attach'', ''kd_break'', ''kd_go'', ''kd_detach'']"

lemma one_vm_call: "vcall one_vm n a v = (Inr (one_vm_answer n), v\<lparr>vw_inner := (), vw_calls := vw_calls v @ [(n, True)]\<rparr>)"
  by (simp add: vcall_def one_vm_def ret_def)

lemmas one_vm_simps = one_vm_call one_vm_answer_def bindE_def thenE_def catch_nt_def tryE_def suppress_nt_def finallyE_def ret_def
  vprint_run passed_run failed_run

lemma one_vm_trip:
  "\<exists>v'. round_trip one_vm ''w'' True rep v = (Inr (rep @ [\<lparr>ck_name = ''debugger'', ck_ok = True,
      ck_detail = ''attached, broke in and resumed (target connected)'', ck_fix = []\<rparr>]), v') \<and>
    vw_calls v' = vw_calls v @ map (\<lambda>n. (n, True)) [''kd_break'', ''kd_go'', ''kd_detach'']"
  by (simp add: round_trip_def break_and_go_def one_vm_simps str_or_def get_def opt_or_def)

lemma catch_one_vm: "catch_nt (vcall one_vm n a) h k v = k (one_vm_answer n) (v\<lparr>vw_inner := (), vw_calls := vw_calls v @ [(n, True)]\<rparr>)"
  by (simp add: catch_nt_def tryE_def one_vm_call)

lemma bind_one_vm: "bindE (vcall one_vm n a) k v = k (one_vm_answer n) (v\<lparr>vw_inner := (), vw_calls := vw_calls v @ [(n, True)]\<rparr>)"
  by (simp add: bindE_Inr [OF one_vm_call])

lemma quiet_one_vm:
  "suppress_nt (bindE (vcall one_vm n a) (\<lambda>_. ret ())) v = (Inr (), v\<lparr>vw_inner := (), vw_calls := vw_calls v @ [(n, True)]\<rparr>)"
  by (simp add: suppress_nt_def catch_nt_def tryE_def bind_one_vm ret_def)

lemmas one_vm_runs = catch_one_vm bind_one_vm quiet_one_vm bindE_Inr [OF passed_run] thenE_Inr [OF vprint_run] thenE_Inr [OF quiet_one_vm]
  get_def get_dict_def get_list_def opt_or_def

lemma one_vm_debugger:
  "\<exists>c v'. check_debugger one_vm ''w'' rep v = (Inr (rep @ [c]), v') \<and> ck_ok c \<and>
    vw_calls v' = vw_calls v @ map (\<lambda>n. (n, True)) [''kd_state'', ''kd_attach'', ''kd_break'', ''kd_go'', ''kd_detach'']"
proof -
  obtain w where w: "check_debugger one_vm ''w'' rep v = round_trip one_vm ''w'' True rep w"
    "vw_calls w = vw_calls v @ map (\<lambda>n. (n, True)) [''kd_state'', ''kd_attach'']"
    by (simp add: check_debugger_def attach_here_def one_vm_runs one_vm_answer_def)
  with one_vm_trip [of rep w] show ?thesis by auto
qed

lemma one_vm_run:
  "\<exists>report v'. verify_vm one_vm ''w'' idle = (Inr report, v') \<and> all_ok report \<and> vw_calls v' = one_vm_calls"
proof -
  obtain rep w where w: "verify_vm one_vm ''w'' idle = check_debugger one_vm ''w'' rep w" "all_ok rep"
    "vw_calls w = map (\<lambda>n. (n, True)) [''sys_health'', ''vm_start'', ''term_open'', ''term_close'']"
    by (simp add: verify_vm_def check_config_def check_power_def check_ssh_def check_login_def check_transport_def one_vm_runs
        one_vm_answer_def find_vm_def blocking_issues_def str_or_def all_ok_def idle_def)
  with one_vm_debugger [of rep w] show ?thesis by (auto simp: all_ok_def one_vm_calls_def)
qed

theorem ready_on_evidence_witness:
  "subseq [(''sys_health'', True), (''term_open'', True), (''kd_break'', True), (''kd_go'', True)]
     (vw_calls (snd (verify_vm one_vm ''w'' idle)))"
proof -
  obtain report v' where r: "verify_vm one_vm ''w'' idle = (Inr report, v')" "all_ok report" using one_vm_run by blast
  from ready_on_evidence [OF r] show ?thesis using r by (auto simp: idle_def)
qed

theorem verify_detaches_what_it_attached_witness:
  "fst (last (vw_calls (snd (verify_vm one_vm ''w'' idle)))) = ''kd_detach''"
proof -
  obtain report v' where r: "verify_vm one_vm ''w'' idle = (Inr report, v')" and c: "vw_calls v' = one_vm_calls" using one_vm_run by blast
  have "vw_calls v' = vw_calls idle @ one_vm_calls" "(''kd_attach'', True) \<in> set one_vm_calls"
    using c by (simp_all add: idle_def one_vm_calls_def)
  from verify_detaches_what_it_attached [OF r this] show ?thesis using r c by simp
qed

end
