(* ===== verification/Cli_Setup.thy ===== *)
theory Cli_Setup
  imports Cli_Verify Tools_Sys Tools_Kd
begin

text \<open>
  \<open>cli/setup.py\<close>: \<open>ntdrive setup\<close>, which asks for a VM and its accounts and writes the entry of vms.yaml. Prompts read what the person
  types or pipes: console keys for the masked passwords of a Windows terminal, lines for everything else. click's prompts are the documented
  loop: an empty answer takes the default or is asked for again.
\<close>

section \<open>Names\<close>

text \<open>\<open>re.sub('[^...]+', sep, s)\<close>: each run of other characters becomes one separator.\<close>

fun squeeze :: "(char \<Rightarrow> bool) \<Rightarrow> char \<Rightarrow> bool \<Rightarrow> string \<Rightarrow> string" where
  "squeeze keep sep inside [] = []"
| "squeeze keep sep inside (c # s) =
     (if keep c then c # squeeze keep sep False s
      else if inside then squeeze keep sep True s else sep # squeeze keep sep True s)"

definition slug :: "string \<Rightarrow> string" where
  "slug text =
     (let core = strip_chars ''-'' (squeeze (\<lambda>c. is_lower c \<or> is_digit c) (CHR ''-'') False (py_lower text))
      in if core \<noteq> [] then core else ''vm'')"

definition env_core :: "string \<Rightarrow> string" where
  "env_core vm = strip_chars ''_'' (squeeze (\<lambda>c. is_upper c \<or> is_digit c) (CHR ''_'') False (py_upper vm))"

definition env_name :: "string \<Rightarrow> string \<Rightarrow> string" where
  "env_name vm kind = ''NTDRIVE_'' @ env_core vm @ ''_'' @ kind"

text \<open>\<open>$\<close> also matches before a newline that ends the text.\<close>

definition name_char :: "char \<Rightarrow> bool" where "name_char c = (is_alnum c \<or> c = CHR ''_'' \<or> c = CHR ''-'')"

definition name_ok :: "string \<Rightarrow> bool" where
  "name_ok s =
     (let t = (if s \<noteq> [] \<and> last s = NL then butlast s else s)
      in t \<noteq> [] \<and> is_alnum (hd t) \<and> list_all name_char t)"

definition mask_secret :: "string \<Rightarrow> string" where
  "mask_secret s =
     (let n = length s; chars = '' ('' @ nat_text n @ '' chars)''
      in if n = 0 then ''(empty)''
         else if n \<le> 3 then take 1 s @ replicate (n - 1) (CHR ''*'') @ chars
         else take 2 s @ replicate (n - 3) (CHR ''*'') @ take_last 1 s @ chars)"

section \<open>The entries of vms.yaml\<close>

text \<open>\<open>dict(x or {})\<close>, where a text or a list of other things is a ValueError and a number a TypeError.\<close>

definition as_dict :: "json \<Rightarrow> exn + (string, json) dict" where
  "as_dict j =
     (if \<not> truthy j then Inr []
      else (case dict_of_json j of
              Some d \<Rightarrow> Inr d
            | None \<Rightarrow> Inl (Exn (case j of JStr _ \<Rightarrow> ''ValueError'' | JList _ \<Rightarrow> ''ValueError'' | _ \<Rightarrow> ''TypeError''))))"

definition same_file :: "(string \<Rightarrow> string) \<Rightarrow> string \<Rightarrow> string \<Rightarrow> bool" where
  "same_file real a b = (real a = real b)"

definition name_for_vmx :: "(string \<Rightarrow> string) \<Rightarrow> (string, json) dict \<Rightarrow> string \<Rightarrow> string option" where
  "name_for_vmx real vms vmx =
     map_option fst (find (\<lambda>(name, body). case body of
        JDict d \<Rightarrow> same_file real (py_str (opt_or (dict_get d ''vmx'') (JStr []))) vmx | _ \<Rightarrow> False) vms)"

definition other_vm_claiming :: "(string, json) dict \<Rightarrow> string \<Rightarrow> string \<Rightarrow> string option" where
  "other_vm_claiming vms name kind =
     map_option fst (find (\<lambda>(other, body). other \<noteq> name \<and> (case body of JDict _ \<Rightarrow> True | _ \<Rightarrow> False) \<and>
        env_name other kind = env_name name kind) vms)"

definition FIRST_KDNET_PORT :: int where "FIRST_KDNET_PORT = 50000"

text \<open>\<open>int(x)\<close> with its TypeError and ValueError suppressed.\<close>

definition int_value :: "json \<Rightarrow> int option" where
  "int_value j = (case j of JInt n \<Rightarrow> Some n | JBool b \<Rightarrow> Some (if b then 1 else 0) | JStr s \<Rightarrow> py_int s | _ \<Rightarrow> None)"

definition port_of :: "json \<Rightarrow> exn + int list" where
  "port_of body =
     (let kdnet = (case body of JDict d \<Rightarrow> get d ''kdnet'' | _ \<Rightarrow> JNull)
      in case (if truthy kdnet then kdnet else JDict []) of
           JDict k \<Rightarrow>
             Inr (case int_value (if truthy (get k ''port'') then get k ''port'' else JInt 0) of None \<Rightarrow> [] | Some n \<Rightarrow> [n])
         | _ \<Rightarrow> Inl (Exn ''AttributeError''))"

fun used_ports :: "json list \<Rightarrow> exn + int list" where
  "used_ports [] = Inr []"
| "used_ports (b # bs) =
     (case port_of b of
        Inl x \<Rightarrow> Inl x
      | Inr p \<Rightarrow> (case used_ports bs of Inl x \<Rightarrow> Inl x | Inr ps \<Rightarrow> Inr (p @ ps)))"

definition next_kdnet_port :: "(string, json) dict \<Rightarrow> exn + int" where
  "next_kdnet_port vms =
     (case used_ports (dict_values vms) of Inl x \<Rightarrow> Inl x | Inr used \<Rightarrow> Inr (free_port used FIRST_KDNET_PORT))"

section \<open>The entry of one VM\<close>

text \<open>What the person answered.\<close>

record answers_given =
  an_name :: string
  an_vmx :: string
  an_encrypted :: bool
  an_user :: string
  an_password :: string
  an_standard :: string
  an_standard_password :: string
  an_vm_password :: string
  an_transport :: string
  an_hostip :: string
  an_inline :: bool

text \<open>A typed password replaces the stored one; the variables that are set go to the second component, in order.\<close>

definition put_secret ::
  "bool \<Rightarrow> string \<Rightarrow> string \<Rightarrow> string \<Rightarrow> (string, json) dict \<Rightarrow> (string, json) dict \<times> (string \<times> string) list" where
  "put_secret inline key var value g =
     (if value = [] then (g, [])
      else if inline then (dict_pop (key @ ''_env'') (dict_set key (JStr value) g), [])
      else (dict_pop key (dict_set (key @ ''_env'') (JStr var) g), [(var, value)]))"

definition drop_standard :: "(string, json) dict \<Rightarrow> (string, json) dict" where
  "drop_standard g = dict_pop ''standard_password_env'' (dict_pop ''standard_password'' (dict_pop ''standard_user'' g))"

definition guest_section :: "answers_given \<Rightarrow> (string, json) dict \<Rightarrow> (string, json) dict \<times> (string \<times> string) list" where
  "guest_section A guest =
     (case put_secret (an_inline A) ''password'' (env_name (an_name A) ''PW'') (an_password A) (dict_set ''user'' (JStr (an_user A)) guest) of
        (g1, s1) \<Rightarrow>
          if an_standard A = [] then (drop_standard g1, s1)
          else (case put_secret (an_inline A) ''standard_password'' (env_name (an_name A) ''STDPW'') (an_standard_password A)
                      (dict_set ''standard_user'' (JStr (an_standard A)) g1) of
                  (g2, s2) \<Rightarrow> (g2, s1 @ s2)))"

definition share_guest_secret :: "(string, json) dict \<Rightarrow> (string, json) dict \<Rightarrow> (string, json) dict" where
  "share_guest_secret guest entry =
     (if truthy (get guest ''password_env'')
      then dict_pop ''encryption_password'' (dict_set ''encryption_password_env'' (get guest ''password_env'') entry)
      else if truthy (get guest ''password'')
      then dict_pop ''encryption_password_env'' (dict_set ''encryption_password'' (get guest ''password'') entry)
      else entry)"

definition had_vm_secret :: "(string, json) dict \<Rightarrow> bool" where
  "had_vm_secret entry = (truthy (get entry ''encryption_password'') \<or> truthy (get entry ''encryption_password_env''))"

definition encryption_section ::
  "answers_given \<Rightarrow> (string, json) dict \<Rightarrow> (string, json) dict \<Rightarrow> (string, json) dict \<times> (string \<times> string) list" where
  "encryption_section A guest entry =
     (let vmpw = an_vm_password A
      in if \<not> an_encrypted A then (entry, [])
         else if vmpw \<noteq> [] \<and> an_inline A \<or> vmpw \<noteq> [] \<and> vmpw \<noteq> an_password A
         then put_secret (an_inline A) ''encryption_password'' (env_name (an_name A) ''VMPW'') vmpw entry
         else if vmpw \<noteq> [] \<or> \<not> had_vm_secret entry then (share_guest_secret guest entry, [])
         else (entry, []))"

definition kdnet_section :: "(string, json) dict \<Rightarrow> (string, json) dict \<Rightarrow> exn + (string, json) dict" where
  "kdnet_section vms entry =
     (case as_dict (get entry ''kdnet'') of
        Inl x \<Rightarrow> Inl x
      | Inr k \<Rightarrow>
          if dict_has k ''port'' then Inr k
          else (case next_kdnet_port vms of Inl x \<Rightarrow> Inl x | Inr p \<Rightarrow> Inr (dict_set ''port'' (JInt p) k)))"

text \<open>The entry, or the exception of a kdnet section that is no mapping; the secrets are stored before that shows.\<close>

definition new_entry ::
  "answers_given \<Rightarrow> (string, json) dict \<Rightarrow> (string, json) dict \<Rightarrow> (string, json) dict \<Rightarrow>
   (string \<times> string) list \<times> (exn + (string, json) dict)" where
  "new_entry A vms guest entry =
     (case guest_section A guest of
        (g, s1) \<Rightarrow>
          (case encryption_section A g entry of
             (e, s2) \<Rightarrow>
               (s1 @ s2,
                case kdnet_section vms e of
                  Inl x \<Rightarrow> Inl x
                | Inr k \<Rightarrow>
                    Inr (dict_update e
                          [(''backend'', JStr ''vmware''), (''vmx'', JStr (an_vmx A)), (''kd_transport'', JStr (an_transport A)),
                           (''kdnet_hostip'', JStr (an_hostip A)),
                           (''guest'', JDict (set_default ''shell'' (JStr ''powershell'') (set_default ''ssh_port'' (JInt 22) g))),
                           (''kdnet'', JDict k)]))))"

section \<open>Prompts\<close>

record setup_host =
  sh_win32 :: bool
  sh_tty :: bool
  sh_appdata :: bool
  sh_inventory :: "string option"
  sh_is_file :: "string \<Rightarrow> bool"
  sh_exists :: "string \<Rightarrow> bool"
  sh_stem :: "string \<Rightarrow> string"
  sh_resolve :: "string \<Rightarrow> string"
  sh_real :: "string \<Rightarrow> string"
  sh_vmx :: "string \<Rightarrow> string option"
  sh_addrs :: "(string \<times> (bool \<times> string) list) list"
  sh_config :: "string \<Rightarrow> yaml_file"
  sh_state_dir :: string

text \<open>What is typed: console keys, and lines without their newline. \<open>sw_wrote\<close> is the history of the files written.\<close>

record 'e setup_world =
  sw_vars :: env_vars
  sw_keys :: string
  sw_lines :: "string list"
  sw_out :: "string list"
  sw_wrote :: "(string \<times> (string, json) dict) list"
  sw_env :: 'e

type_synonym ('e, 'a) sprompt = "('e setup_world, 'a) app"

definition say :: "string list \<Rightarrow> ('e, unit) sprompt" where
  "say ls w = (Inr (), w\<lparr>sw_out := sw_out w @ ls\<rparr>)"

definition log_info :: "string \<Rightarrow> string \<Rightarrow> string" where "log_info = log_line ''[*]''"
definition log_warn :: "string \<Rightarrow> string \<Rightarrow> string" where "log_warn = log_line ''[!]''"

text \<open>\<open>_read_masked\<close> on the keys to come; a console whose keys run out is still waiting.\<close>

fun read_masked :: "string \<Rightarrow> string \<Rightarrow> (exn + string) \<times> string" where
  "read_masked acc [] = (Inl (Exn ''Waiting''), [])"
| "read_masked acc (c # ks) =
     (if c = CR \<or> c = NL then (Inr acc, ks)
      else if c = CHR 0x03 then (Inl (Exn ''Abort''), ks)
      else if c = CHR 0x08 \<or> c = CHR 0x7F then read_masked (butlast acc) ks
      else if c = CHR 0x00 \<or> c = CHR 0xE0 then (case ks of [] \<Rightarrow> (Inl (Exn ''Waiting''), []) | _ # ks' \<Rightarrow> read_masked acc ks')
      else read_masked (acc @ [c]) ks)"

lemma read_masked_consumes: "read_masked acc ks = (Inr s, ks') \<Longrightarrow> length ks' < length ks"
proof (induction acc ks rule: read_masked.induct)
  case (2 acc c ks)
  from 2(4) show ?case
    unfolding read_masked.simps(2) [of acc c ks] using 2(1-3)
    by (cases ks) (auto simp del: read_masked.simps split: if_splits)
qed simp

text \<open>The loop of \<open>secret_prompt\<close> on a Windows console; the lines say what it answered.\<close>

definition entered :: "string \<Rightarrow> string" where "entered value = log_info ''entered'' (mask_secret value)"

function console_secret :: "bool \<Rightarrow> string \<Rightarrow> string list \<Rightarrow> (exn + string) \<times> string \<times> string list" where
  "console_secret confirm ks out =
     (case read_masked [] ks of
        (Inl x, ks1) \<Rightarrow> (Inl x, ks1, out)
      | (Inr v, ks1) \<Rightarrow>
          if \<not> confirm then (Inr v, ks1, out @ (if v \<noteq> [] then [entered v] else []))
          else if v = [] then console_secret confirm ks1 (out @ [log_warn ''password'' ''a password is needed, the guest refuses empty ones for SSH''])
          else (case read_masked [] ks1 of
                  (Inl x, ks2) \<Rightarrow> (Inl x, ks2, out)
                | (Inr v2, ks2) \<Rightarrow>
                    if v = v2 then (Inr v, ks2, out @ [entered v])
                    else console_secret confirm ks2 (out @ [log_warn ''password'' ''the two entries differ, try again''])))"
  by pat_completeness auto
termination
  by (relation "measure (\<lambda>(confirm, ks, out). length ks)") (auto dest!: read_masked_consumes [OF sym])

declare console_secret.simps [simp del]

text \<open>click's prompt: \<open>ok\<close> is the check of its type; end of input aborts.\<close>

fun click_line :: "(string \<Rightarrow> bool) \<Rightarrow> string option \<Rightarrow> string list \<Rightarrow> (exn + string) \<times> string list" where
  "click_line ok dflt [] = (Inl (Exn ''Abort''), [])"
| "click_line ok dflt (l # ls) =
     (case (if l = [] then dflt else Some l) of
        None \<Rightarrow> click_line ok dflt ls
      | Some v \<Rightarrow> if ok v then (Inr v, ls) else click_line ok dflt ls)"

text \<open>With a confirmation: asked for again until both are the same.\<close>

fun click_twice :: "string option \<Rightarrow> string list \<Rightarrow> (exn + string) \<times> string list" where
  "click_twice typed [] = (Inl (Exn ''Abort''), [])"
| "click_twice typed (l # ls) =
     (if l = [] then click_twice typed ls
      else (case typed of
              None \<Rightarrow> click_twice (Some l) ls
            | Some v \<Rightarrow> if v = l then (Inr v, ls) else click_twice None ls))"

definition from_lines :: "(string list \<Rightarrow> (exn + 'a) \<times> string list) \<Rightarrow> ('e, 'a) sprompt" where
  "from_lines f w = (case f (sw_lines w) of (r, ls) \<Rightarrow> (r, w\<lparr>sw_lines := ls\<rparr>))"

definition ask :: "string option \<Rightarrow> ('e, string) sprompt" where
  "ask dflt = from_lines (click_line (\<lambda>_. True) dflt)"

definition piped_secret :: "string list \<Rightarrow> (exn + string) \<times> string list" where
  "piped_secret lines =
     (case lines of
        [] \<Rightarrow> (Inl (Nt (nt_err INVALID_ARGS)), [])
      | l # ls \<Rightarrow> (Inr (rstrip_by (\<lambda>c. c = CR \<or> c = NL) l), ls))"

definition secret_prompt :: "setup_host \<Rightarrow> string \<Rightarrow> bool \<Rightarrow> ('e, string) sprompt" where
  "secret_prompt H label confirm =
     thenE (say [label @ '': ''])
     (if sh_win32 H \<and> sh_tty H then
        (\<lambda>w. case console_secret confirm (sw_keys w) [] of
               (r, ks, out) \<Rightarrow> (r, w\<lparr>sw_keys := ks, sw_out := sw_out w @ out\<rparr>))
      else bindE (from_lines (if \<not> sh_tty H then piped_secret else if confirm then click_twice None else click_line (\<lambda>_. True) (Some [])))
             (\<lambda>v. thenE (say (if v \<noteq> [] then [entered v] else [])) (ret v)))"

section \<open>Facts of the host\<close>

definition INVENTORY_RE :: rx where
  "INVENTORY_RE =
     rseq [RBeginLine, rlit ''vmlist'', rplus is_digit, rlit ''.config'', RStar rx_space, rlit ''='', RStar rx_space,
           RSet (\<lambda>c. c = DQ), RGroup 1 (rplus not_nl), RSet (\<lambda>c. c = DQ), RStar rx_space, RDollarLine]"

definition inventory_vmx_paths :: "setup_host \<Rightarrow> string list" where
  "inventory_vmx_paths H =
     (if \<not> sh_appdata H then []
      else (case sh_inventory H of
              None \<Rightarrow> []
            | Some text \<Rightarrow>
                fold (\<lambda>m paths. let raw = group m 1 in if sh_is_file H raw \<and> raw \<notin> set paths then paths @ [raw] else paths)
                  (rx_finditer INVENTORY_RE text) []))"

definition vmnet8_ip :: "(string \<times> (bool \<times> string) list) list \<Rightarrow> string" where
  "vmnet8_ip ifs =
     (case concat (map (\<lambda>(name, addrs). if contains ''vmnet8'' (py_lower name) then map snd (filter fst addrs) else []) ifs) of
        [] \<Rightarrow> [] | a # _ \<Rightarrow> a)"

text \<open>\<open>store_secret\<close>: this process, and on Windows the user's environment in the registry, whose note it returns.\<close>

definition set_var :: "string \<Rightarrow> string \<Rightarrow> env_vars \<Rightarrow> env_vars" where
  "set_var name v ev =
     (let e1 = ev\<lparr>ev_process := dict_set name v (ev_process ev)\<rparr>
      in if ev_win32 ev then e1\<lparr>ev_registry := dict_set name v (ev_registry e1)\<rparr> else e1)"

definition store_secret :: "string \<Rightarrow> string \<Rightarrow> ('e, string) sprompt" where
  "store_secret name v w =
     (Inr (if ev_win32 (sw_vars w) then name @ '' saved as a User environment variable''
           else name @ '' is set for this process only (persist it in your shell profile)''),
      w\<lparr>sw_vars := set_var name v (sw_vars w)\<rparr>)"

definition current_secret :: "env_vars \<Rightarrow> json \<Rightarrow> json \<Rightarrow> string" where
  "current_secret ev env inline =
     (if truthy env then secret_from_env ev (py_str env) else if truthy inline then py_str inline else [])"

section \<open>The questions\<close>

record setup_opts =
  so_config :: "string option"
  so_vmx :: "string option"
  so_name :: "string option"
  so_user :: "string option"
  so_standard :: "string option"
  so_transport :: "string option"
  so_inline :: bool
  so_restart :: bool

text \<open>\<open>option or default\<close>: an empty option counts as not given.\<close>

definition given_or :: "string option \<Rightarrow> ('e, string) sprompt \<Rightarrow> ('e, string) sprompt" where
  "given_or opt m = (case opt of Some s \<Rightarrow> if s \<noteq> [] then ret s else m | None \<Rightarrow> m)"

definition text_or :: "json \<Rightarrow> string \<Rightarrow> string" where
  "text_or j dflt = (if truthy j then py_str j else dflt)"

definition config_target :: "setup_host \<Rightarrow> env_vars \<Rightarrow> string option \<Rightarrow> string" where
  "config_target H ev explicit =
     (let opt = opt_or explicit []; env = opt_or (dict_get (ev_process ev) ''NTDRIVE_CONFIG'') []
      in if opt \<noteq> [] then opt
         else if env \<noteq> [] then env
         else opt_or (find_config_path (sh_is_file H) (sh_state_dir H) env []) (sh_state_dir H @ ''/vms.yaml''))"

definition display_name :: "setup_host \<Rightarrow> string \<Rightarrow> string" where
  "display_name H vmx = opt_or (dict_get (vmx_settings (sh_vmx H vmx)) ''displayname'') (sh_stem H vmx)"

definition library_line :: "setup_host \<Rightarrow> (string, json) dict \<Rightarrow> nat \<times> string \<Rightarrow> string list" where
  "library_line H vms ip =
     (case ip of
        (i, path) \<Rightarrow>
          [''    '' @ nat_text i @ ''. '' @ display_name H path @
             (case name_for_vmx (sh_real H) vms path of None \<Rightarrow> [] | Some n \<Rightarrow> if n = [] then [] else ''  (configured as '' @ n @ '')''),
           ''       '' @ path])"

definition picked :: "setup_host \<Rightarrow> string list \<Rightarrow> string \<Rightarrow> ('e, string) sprompt" where
  "picked H paths answer =
     (if all_digits answer \<and> 1 \<le> digits_value answer \<and> digits_value answer \<le> length paths
      then ret (paths ! (digits_value answer - 1))
      else if sh_is_file H answer then ret answer
      else throw INVALID_ARGS)"

definition pick_vmx :: "setup_host \<Rightarrow> (string, json) dict \<Rightarrow> ('e, string) sprompt" where
  "pick_vmx H vms =
     (let paths = inventory_vmx_paths H
      in if paths = [] then from_lines (click_line (sh_exists H) None)
         else thenE (say (log_info ''library'' ''VMs known to VMware Workstation, pick one'' #
                          concat (map (library_line H vms) (enumerate 1 paths))))
                (bindE (ask (Some ''1'')) (picked H paths)))"

text \<open>\<open>keep\<close>: a stored password may be kept by Enter, and its mask is shown when it can be read.\<close>

definition keep_label :: "string \<Rightarrow> string \<Rightarrow> string" where
  "keep_label who current =
     ''Password of '' @ who @ '' (Enter keeps the current one'' @ (if current \<noteq> [] then '', '' @ mask_secret current else []) @ '')''"

definition account_password :: "setup_host \<Rightarrow> string \<Rightarrow> bool \<Rightarrow> json \<Rightarrow> json \<Rightarrow> ('e, string) sprompt" where
  "account_password H who had env inline =
     (if had then (\<lambda>w. secret_prompt H (keep_label who (current_secret (sw_vars w) env inline)) False w)
      else secret_prompt H (''Password of '' @ who) True)"

definition standard_name :: "string \<Rightarrow> string" where
  "standard_name s = (if py_lower (py_strip s) \<in> {[], ''none'', ''-''} then [] else py_strip s)"

definition has_secret :: "(string, json) dict \<Rightarrow> string \<Rightarrow> bool" where
  "has_secret g key = (truthy (get g key) \<or> truthy (get g (key @ ''_env'')))"

definition standard_password_of :: "setup_host \<Rightarrow> (string, json) dict \<Rightarrow> string \<Rightarrow> ('e, string) sprompt" where
  "standard_password_of H guest standard =
     (if standard = [] then ret []
      else account_password H standard (has_secret guest ''standard_password'' \<and> get guest ''standard_user'' = JStr standard)
             (get guest ''standard_password_env'') (get guest ''standard_password''))"

definition vm_password_of :: "setup_host \<Rightarrow> bool \<Rightarrow> (string, json) dict \<Rightarrow> ('e, string) sprompt" where
  "vm_password_of H encrypted entry =
     (if \<not> encrypted then ret []
      else (\<lambda>w. secret_prompt H
             (''VM encryption password ('' @
              (if had_vm_secret entry
               then (let current = current_secret (sw_vars w) (get entry ''encryption_password_env'') (get entry ''encryption_password'')
                     in ''Enter keeps the current one'' @ (if current \<noteq> [] then '', '' @ mask_secret current else []))
               else ''Enter: same as the guest password'') @ '')'') False w))"

definition vm_entry :: "(string, json) dict \<Rightarrow> string \<Rightarrow> (string, json) dict" where
  "vm_entry vms name = get_dict vms name"

text \<open>The second half of the questions, for the VM that was picked; the paragraphs that explain them are left out.\<close>

definition ask_accounts ::
  "setup_host \<Rightarrow> setup_opts \<Rightarrow> string \<Rightarrow> string \<Rightarrow> bool \<Rightarrow> (string, json) dict \<Rightarrow> (string, json) dict \<Rightarrow> ('e, answers_given) sprompt" where
  "ask_accounts H opts name vmx encrypted entry guest =
     bindE (given_or (so_user opts) (ask (Some (text_or (get guest ''user'') ''ntdrive'')))) (\<lambda>user.
     bindE (account_password H user (has_secret guest ''password'') (get guest ''password_env'') (get guest ''password'')) (\<lambda>password.
     bindE (case so_standard opts of Some s \<Rightarrow> ret s | None \<Rightarrow> ask (Some (text_or (get guest ''standard_user'') ''ntdrive-user''))) (\<lambda>st.
     bindE (standard_password_of H guest (standard_name st)) (\<lambda>standard_password.
     bindE (vm_password_of H encrypted entry) (\<lambda>vm_password.
       let transport = (case so_transport opts of Some t \<Rightarrow> if t \<noteq> [] then t else text_or (get entry ''kd_transport'') ''net''
                        | None \<Rightarrow> text_or (get entry ''kd_transport'') ''net'');
           hostip = text_or (get entry ''kdnet_hostip'') (vmnet8_ip (sh_addrs H))
       in bindE (if transport = ''net'' \<and> hostip = [] then ask None else ret hostip) (\<lambda>hostip.
          ret \<lparr>an_name = name, an_vmx = vmx, an_encrypted = encrypted, an_user = user, an_password = password,
               an_standard = standard_name st, an_standard_password = standard_password, an_vm_password = vm_password,
               an_transport = transport, an_hostip = hostip, an_inline = so_inline opts\<rparr>))))))"

definition claimed :: "(string, json) dict \<Rightarrow> string \<Rightarrow> bool" where
  "claimed vms name = list_ex (\<lambda>kind. other_vm_claiming vms name kind \<notin> {None, Some []}) [''PW'', ''STDPW'', ''VMPW'']"

text \<open>The questions up to the entry they change: the name, the entry before, its guest section and the answers.\<close>

definition ask_all ::
  "setup_host \<Rightarrow> setup_opts \<Rightarrow> (string, json) dict \<Rightarrow> ('e, (string, json) dict \<times> (string, json) dict \<times> answers_given) sprompt" where
  "ask_all H opts vms =
     thenE (say [log_section 1 3 ''VM'']) (bindE (given_or (so_vmx opts) (pick_vmx H vms)) (\<lambda>typed.
     if \<not> sh_is_file H typed then throw INVALID_ARGS
     else let vmx = sh_resolve H typed;
              facts = vmx_settings (sh_vmx H vmx);
              display = display_name H vmx;
              encrypted = dict_has facts ''encryption.keysafe''
          in thenE (say [log_ok ''vm'' (display @ (if encrypted then ''  (encrypted, a vTPM does this)'' else []))])
             (bindE (given_or (so_name opts)
                (ask (Some (let known = opt_or (name_for_vmx (sh_real H) vms vmx) [] in if known \<noteq> [] then known else slug display)))) (\<lambda>name.
              if \<not> name_ok name then throw INVALID_ARGS
              else if \<not> so_inline opts \<and> claimed vms name then throw INVALID_ARGS
              else let entry = vm_entry vms name
                   in bindE (liftE (as_dict (get entry ''guest''))) (\<lambda>guest.
                      thenE (say (if entry \<noteq> [] \<and> \<not> same_file (sh_real H) (py_str (opt_or (dict_get entry ''vmx'') (JStr vmx))) vmx
                                  then [log_info ''vmx'' (name @ '' now points at this vmx instead of '' @ py_str (get entry ''vmx''))] else []))
                      (thenE (say [log_section 2 3 ''Guest account and passwords''])
                      (bindE (ask_accounts H opts name vmx encrypted entry guest) (\<lambda>A. ret (entry, guest, A)))))))))"

section \<open>The run\<close>

definition store_all_secrets :: "(string \<times> string) list \<Rightarrow> ('e, string list) sprompt" where
  "store_all_secrets = mapE (\<lambda>(var, v). store_secret var v)"

definition write_config :: "string \<Rightarrow> (string, json) dict \<Rightarrow> ('e, unit) sprompt" where
  "write_config path data w = (Inr (), w\<lparr>sw_wrote := sw_wrote w @ [(path, data)]\<rparr>)"

definition guest_command :: "string \<Rightarrow> string \<times> string" where
  "guest_command standard =
     (if standard = [] then (''setup-guest.cmd -NoStandard'', ''OpenSSH and KDNET'')
      else if standard = ''ntdrive-user'' then (''setup-guest.cmd'', ''OpenSSH, KDNET and the ntdrive-user account'')
      else (''setup-guest.cmd -StandardAccount '' @ standard, ''OpenSSH, KDNET and the '' @ standard @ '' account''))"

definition closing_lines :: "string \<Rightarrow> string \<Rightarrow> string \<Rightarrow> string list \<Rightarrow> string list" where
  "closing_lines name standard source issues =
     map (log_warn source) issues @ (if issues = [] then [log_ok source ''no issues for this VM''] else []) @
     [log_verdict ''DONE'' (name @ '' is configured on the host'')] @
     log_next_steps
       [''in the guest: copy setup-guest.cmd in and run '' @ fst (guest_command standard) @ '' ('' @ snd (guest_command standard) @ '', one UAC click)'',
        ''on the host: ntdrive kd setup-host '' @ name @ '' for the firewall (scripts'' @ [BSL] @ ''setup-host.cmd does it), then ntdrive verify'']"

text \<open>Restarting the daemon on the new file and asking it; without a restart the file is read back and checked here. \<open>check\<close> is one of both.\<close>

definition restart_and_check :: "('e, 'x) post_host_scheme \<Rightarrow> string \<Rightarrow> string \<Rightarrow> ('e, string list) app" where
  "restart_and_check Y path name =
     bindE (restart_daemon Y (Some path) 25000) (\<lambda>_.
     bindE (connect Y (Some path) True ''cli'') (\<lambda>c e.
       case client_call Y ''sys_health'' [] \<lparr>cw_client = c, cw_env = e, cw_posts = []\<rparr> of
         (Inl x, w) \<Rightarrow> (Inl x, cw_env w)
       | (Inr d, w) \<Rightarrow>
           (Inr (case find_vm name (get_list d ''vms'') of None \<Rightarrow> [] | Some vm \<Rightarrow> map py_str (get_list vm ''issues'')), cw_env w)))"

definition local_issues ::
  "('e, 'x) sys_outside_scheme \<Rightarrow> (json \<Rightarrow> json \<Rightarrow> exn + nt_config) \<Rightarrow> yaml_file \<Rightarrow> string \<Rightarrow> string \<Rightarrow> exn + string list" where
  "local_issues X validate file path name =
     (case load_config validate (\<lambda>_. file) (Some path) of
        Inl x \<Rightarrow> Inl x
      | Inr c \<Rightarrow> (case config_vm c name of Inl x \<Rightarrow> Inl x | Inr cfg \<Rightarrow> Inr (map health_text (config_issues X cfg [''vmware'']))))"

type_synonym 'e issue_check = "string \<Rightarrow> string \<Rightarrow> (string, json) dict \<Rightarrow> ('e, string list) app"

definition finish_setup ::
  "'e issue_check \<Rightarrow> setup_opts \<Rightarrow> string \<Rightarrow> (string, json) dict \<Rightarrow> (string, json) dict \<times> (string, json) dict \<times> answers_given \<Rightarrow>
   ('e, unit) sprompt" where
  "finish_setup check opts path raw asked =
     (case asked of
        (entry, guest, A) \<Rightarrow>
          (case new_entry A (get_dict raw ''vms'') guest entry of
             (secrets, made) \<Rightarrow>
               bindE (store_all_secrets secrets) (\<lambda>notes.
               bindE (liftE made) (\<lambda>body.
                 let data = dict_set ''vms'' (JDict (dict_set (an_name A) (JDict body) (get_dict raw ''vms''))) raw
                 in thenE (say [log_section 3 3 ''Write and check''])
                   (thenE (write_config path data)
                   (thenE (say (log_ok ''vms.yaml'' (an_name A @ '' written to '' @ path) # map (log_info ''secret'') notes @
                       (if an_inline A then [log_info ''secret'' ''passwords stored inline in vms.yaml (git-ignored, keep it private)''] else [])))
                   (bindE (zoom sw_env (\<lambda>e w. w\<lparr>sw_env := e\<rparr>) (check path (an_name A) data)) (\<lambda>issues.
                      say (closing_lines (an_name A) (an_standard A) (if so_restart opts then ''sys_health'' else ''config check'') issues)))))))))"

definition run_setup :: "setup_host \<Rightarrow> 'e issue_check \<Rightarrow> setup_opts \<Rightarrow> ('e, unit) sprompt" where
  "run_setup H check opts =
     bindE (getS (\<lambda>w. config_target H (sw_vars w) (so_config opts))) (\<lambda>path.
     bindE (liftE (read_raw_config (sh_config H path))) (\<lambda>raw.
     bindE (ask_all H opts (get_dict raw ''vms'')) (finish_setup check opts path raw)))"

end
