(* ===== verification/Setup_Properties.thy ===== *)
theory Setup_Properties
  imports Cli_Setup
begin

text \<open>
  What \<open>ntdrive setup\<close> keeps: passwords stay out of the file and of the output unless they were asked to be stored inline, every other
  entry of the file stays as it was, and no variable of another VM is overwritten.
\<close>

section \<open>Storing the secrets\<close>

definition note_of :: "env_vars \<Rightarrow> string \<Rightarrow> string" where
  "note_of ev name =
     (if ev_win32 ev then name @ '' saved as a User environment variable''
      else name @ '' is set for this process only (persist it in your shell profile)'')"

lemma set_var_win32 [simp]: "ev_win32 (set_var n v ev) = ev_win32 ev"
  by (simp add: set_var_def Let_def)

lemma store_all_run:
  "store_all_secrets ss w =
     (Inr (map (note_of (sw_vars w)) (map fst ss)), w\<lparr>sw_vars := fold (\<lambda>(n, v). set_var n v) ss (sw_vars w)\<rparr>)"
proof (induction ss arbitrary: w)
  case Nil
  then show ?case by (cases w) (simp add: store_all_secrets_def ret_def)
next
  case (Cons s ss)
  obtain n v where s: "s = (n, v)" by fastforce
  have nv: "note_of (set_var n v ev) = note_of ev" for ev by (rule ext) (simp add: note_of_def)
  have run: "store_secret n v w = (Inr (note_of (sw_vars w) n), w\<lparr>sw_vars := set_var n v (sw_vars w)\<rparr>)"
    by (simp add: store_secret_def note_of_def)
  show ?case
    using Cons.IH [of "w\<lparr>sw_vars := set_var n v (sw_vars w)\<rparr>"] by (simp add: store_all_secrets_def s bindE_def run ret_def nv)
qed

section \<open>The entry does not show a password\<close>

text \<open>Answers that differ in the passwords only, empty where the others are, the VM's the guest's where the other is.\<close>

definition same_but_secrets :: "answers_given \<Rightarrow> answers_given \<Rightarrow> bool" where
  "same_but_secrets A B =
     (B = A\<lparr>an_password := an_password B, an_standard_password := an_standard_password B, an_vm_password := an_vm_password B\<rparr> \<and>
      (an_password A = [] \<longleftrightarrow> an_password B = []) \<and> (an_standard_password A = [] \<longleftrightarrow> an_standard_password B = []) \<and>
      (an_vm_password A = [] \<longleftrightarrow> an_vm_password B = []) \<and> (an_vm_password A = an_password A \<longleftrightarrow> an_vm_password B = an_password B))"

lemma same_but_secrets_sel:
  assumes "same_but_secrets A B"
  shows "an_name B = an_name A" "an_vmx B = an_vmx A" "an_encrypted B = an_encrypted A" "an_user B = an_user A"
    "an_standard B = an_standard A" "an_transport B = an_transport A" "an_hostip B = an_hostip A" "an_inline B = an_inline A"
    "an_password A = [] \<longleftrightarrow> an_password B = []" "an_standard_password A = [] \<longleftrightarrow> an_standard_password B = []"
    "an_vm_password A = [] \<longleftrightarrow> an_vm_password B = []" "an_vm_password A = an_password A \<longleftrightarrow> an_vm_password B = an_password B"
proof -
  from assms have B: "B = A\<lparr>an_password := an_password B, an_standard_password := an_standard_password B, an_vm_password := an_vm_password B\<rparr>"
    by (simp add: same_but_secrets_def)
  show "an_name B = an_name A" "an_vmx B = an_vmx A" "an_encrypted B = an_encrypted A" "an_user B = an_user A"
    "an_standard B = an_standard A" "an_transport B = an_transport A" "an_hostip B = an_hostip A" "an_inline B = an_inline A"
    by (subst B, simp)+
qed (use assms in \<open>simp_all add: same_but_secrets_def\<close>)

lemma put_secret_same:
  assumes "v = [] \<longleftrightarrow> v' = []"
  shows "fst (put_secret False key var v g) = fst (put_secret False key var v' g)"
    "map fst (snd (put_secret False key var v g)) = map fst (snd (put_secret False key var v' g))"
  using assms by (auto simp: put_secret_def)

lemma guest_section_same:
  assumes "same_but_secrets A B" "\<not> an_inline A"
  shows "fst (guest_section A g) = fst (guest_section B g)"
    "map fst (snd (guest_section A g)) = map fst (snd (guest_section B g))"
  using assms(2) same_but_secrets_sel [OF assms(1)] by (auto simp: guest_section_def put_secret_def split: prod.splits)

lemma encryption_section_same:
  assumes "same_but_secrets A B" "\<not> an_inline A"
  shows "fst (encryption_section A g e) = fst (encryption_section B g e)"
    "map fst (snd (encryption_section A g e)) = map fst (snd (encryption_section B g e))"
  using assms(2) same_but_secrets_sel [OF assms(1)] by (auto simp: encryption_section_def put_secret_def Let_def)

lemma new_entry_same:
  assumes "same_but_secrets A B" "\<not> an_inline A"
  shows "snd (new_entry A vms g e) = snd (new_entry B vms g e)"
    "map fst (fst (new_entry A vms g e)) = map fst (fst (new_entry B vms g e))"
proof -
  obtain g1 s1 where A1: "guest_section A g = (g1, s1)" by fastforce
  then obtain t1 where B1: "guest_section B g = (g1, t1)" "map fst s1 = map fst t1"
    using guest_section_same [OF assms, of g] by (cases "guest_section B g") auto
  obtain e2 s2 where A2: "encryption_section A g1 e = (e2, s2)" by fastforce
  then obtain t2 where B2: "encryption_section B g1 e = (e2, t2)" "map fst s2 = map fst t2"
    using encryption_section_same [OF assms, of g1 e] by (cases "encryption_section B g1 e") auto
  show "snd (new_entry A vms g e) = snd (new_entry B vms g e)"
    "map fst (fst (new_entry A vms g e)) = map fst (fst (new_entry B vms g e))"
    using A1 B1 A2 B2 same_but_secrets_sel [OF assms(1)] by (simp_all add: new_entry_def split: sum.splits)
qed

text \<open>What the rest of the run does depends on the variables it stored only by their names.\<close>

lemma finish_run:
  "finish_setup check opts path raw (entry, guest, A) w =
     (case new_entry A (get_dict raw ''vms'') guest entry of
        (secrets, made) \<Rightarrow>
          let w1 = w\<lparr>sw_vars := fold (\<lambda>(n, v). set_var n v) secrets (sw_vars w)\<rparr>;
              notes = map (note_of (sw_vars w)) (map fst secrets)
          in case made of
               Inl x \<Rightarrow> (Inl x, w1)
             | Inr body \<Rightarrow>
                 let data = dict_set ''vms'' (JDict (dict_set (an_name A) (JDict body) (get_dict raw ''vms''))) raw;
                     w2 = w1\<lparr>sw_out := sw_out w @ [log_section 3 3 ''Write and check''] @
                              (log_ok ''vms.yaml'' (an_name A @ '' written to '' @ path) # map (log_info ''secret'') notes @
                               (if an_inline A then [log_info ''secret'' ''passwords stored inline in vms.yaml (git-ignored, keep it private)''] else [])),
                             sw_wrote := sw_wrote w @ [(path, data)]\<rparr>
                 in case check path (an_name A) data (sw_env w) of
                      (Inl x, e) \<Rightarrow> (Inl x, w2\<lparr>sw_env := e\<rparr>)
                    | (Inr issues, e) \<Rightarrow>
                        (Inr (), w2\<lparr>sw_env := e, sw_out := sw_out w2 @
                           closing_lines (an_name A) (an_standard A) (if so_restart opts then ''sys_health'' else ''config check'') issues\<rparr>))"
  by (simp add: finish_setup_def bindE_def store_all_run liftE_def thenE_def say_def write_config_def zoom_def Let_def split: prod.splits sum.splits)

text \<open>
  C37. Without \<open>--inline-secrets\<close> no password of \<open>ntdrive setup\<close> reaches vms.yaml or the lines it prints after the prompts: two runs whose
  answers differ in the passwords only write the same file, print the same lines and end the same way.
\<close>

theorem passwords_stay_out_of_vms_yaml:
  assumes "same_but_secrets A B" "\<not> an_inline A"
  shows "fst (finish_setup check opts path raw (entry, guest, A) w) = fst (finish_setup check opts path raw (entry, guest, B) w) \<and>
    (snd (finish_setup check opts path raw (entry, guest, A) w))\<lparr>sw_vars := v\<rparr> =
    (snd (finish_setup check opts path raw (entry, guest, B) w))\<lparr>sw_vars := v\<rparr>"
proof -
  let ?vms = "get_dict raw ''vms''"
  obtain sa made where A: "new_entry A ?vms guest entry = (sa, made)" by fastforce
  then obtain sb where B: "new_entry B ?vms guest entry = (sb, made)" "map fst sb = map fst sa"
    using new_entry_same [OF assms, of ?vms guest entry] by (cases "new_entry B ?vms guest entry") auto
  show ?thesis
    using A B same_but_secrets_sel [OF assms(1)] assms(2)
    by (simp add: finish_run Let_def del: map_map list.map_comp split: sum.splits prod.splits)
qed

section \<open>Questions change nothing but what was typed and printed\<close>

text \<open>\<open>calm\<close> programs keep the variables, the files written and the environment.\<close>

definition keeps :: "('e, 'a) sprompt \<Rightarrow> bool" where
  "keeps m = (\<forall>w. sw_vars (snd (m w)) = sw_vars w \<and> sw_wrote (snd (m w)) = sw_wrote w \<and> sw_env (snd (m w)) = sw_env w)"

named_theorems keeps_intros

lemma keeps_basic [keeps_intros]:
  "keeps (ret a)" "keeps (raise x)" "keeps (throw c)" "keeps (liftE r)" "keeps (say ls)" "keeps (from_lines f)"
  by (simp_all add: keeps_def ret_def raise_def throw_def liftE_def say_def from_lines_def split: prod.splits)

lemma keeps_bindE [keeps_intros]:
  assumes "keeps m" "\<And>a. keeps (f a)"
  shows "keeps (bindE m f)"
  unfolding keeps_def
proof
  fix w
  obtain r w1 where m: "m w = (r, w1)" by fastforce
  show "sw_vars (snd (bindE m f w)) = sw_vars w \<and> sw_wrote (snd (bindE m f w)) = sw_wrote w \<and> sw_env (snd (bindE m f w)) = sw_env w"
    using assms(1) [unfolded keeps_def, THEN spec, of w] assms(2) [unfolded keeps_def] m by (cases r) (simp_all add: bindE_def)
qed

lemma keeps_thenE [keeps_intros]: "keeps m \<Longrightarrow> keeps k \<Longrightarrow> keeps (thenE m k)"
  unfolding thenE_def by (intro keeps_intros)

lemma keeps_ask [keeps_intros]: "keeps (ask d)" unfolding ask_def by (rule keeps_basic)

lemma keeps_secret [keeps_intros]: "keeps (secret_prompt H label confirm)"
proof -
  have "keeps (\<lambda>w. case console_secret confirm (sw_keys w) [] of (r, ks, out) \<Rightarrow> (r, w\<lparr>sw_keys := ks, sw_out := sw_out w @ out\<rparr>))"
    by (simp add: keeps_def split: prod.splits)
  then show ?thesis unfolding secret_prompt_def by (auto intro!: keeps_intros)
qed

lemma keeps_with_vars: "(\<And>x. keeps (m x)) \<Longrightarrow> keeps (\<lambda>w. m (f w) w)"
  unfolding keeps_def by blast

lemma keeps_account [keeps_intros]: "keeps (account_password H who had env inl)"
  unfolding account_password_def by (auto intro!: keeps_intros keeps_with_vars [where f = sw_vars])

lemma keeps_vm_password [keeps_intros]: "keeps (vm_password_of H enc entry)"
  unfolding vm_password_of_def by (auto intro!: keeps_intros keeps_with_vars [where f = sw_vars])

lemma keeps_questions [keeps_intros]:
  "keeps (standard_password_of H guest st)" "keeps (picked H paths answer)" "keeps (pick_vmx H vms)" "keeps m \<Longrightarrow> keeps (given_or o1 m)"
  unfolding standard_password_of_def picked_def pick_vmx_def given_or_def Let_def by (auto intro!: keeps_intros split: option.splits)

lemma keeps_ask_accounts [keeps_intros]: "keeps (ask_accounts H opts name vmx enc entry guest)"
  unfolding ask_accounts_def Let_def by (intro keeps_intros) (auto intro!: keeps_intros split: option.splits)

lemma keeps_ask_all: "keeps (ask_all H opts vms)"
  unfolding ask_all_def Let_def by (auto intro!: keeps_intros)

lemma yields_ask_accounts:
  "yields (ask_accounts H opts name vmx enc entry guest) (\<lambda>A. an_name A = name \<and> an_inline A = so_inline opts)"
  unfolding ask_accounts_def Let_def by (intro yields_bindE [OF yields_any] yields_ret) simp

definition asked_well :: "setup_opts \<Rightarrow> (string, json) dict \<Rightarrow> (string, json) dict \<times> (string, json) dict \<times> answers_given \<Rightarrow> bool" where
  "asked_well opts vms asked =
     (case asked of (entry, guest, A) \<Rightarrow>
        name_ok (an_name A) \<and> entry = get_dict vms (an_name A) \<and> an_inline A = so_inline opts \<and>
        (\<not> so_inline opts \<longrightarrow> \<not> claimed vms (an_name A)))"

lemma yields_if: "(c \<Longrightarrow> yields m Q) \<Longrightarrow> (\<not> c \<Longrightarrow> yields k Q) \<Longrightarrow> yields (if c then m else k) Q"
  by simp

lemma yields_throw: "yields (throw c) Q"
  by (simp add: throw_def yields_raise)

lemma yields_ask_all: "yields (ask_all H opts vms) (asked_well opts vms)"
  unfolding ask_all_def Let_def vm_entry_def
  by (intro yields_thenE yields_bindE [OF yields_any] yields_if yields_throw yields_bindE [OF yields_ask_accounts] yields_ret)
    (auto simp: asked_well_def)

section \<open>One entry changes\<close>

definition OWNED :: "string list" where
  "OWNED = [''backend'', ''vmx'', ''kd_transport'', ''kdnet_hostip'', ''guest'', ''kdnet'', ''encryption_password'', ''encryption_password_env'']"

lemma new_entry_keeps:
  assumes "new_entry A vms guest entry = (secrets, Inr body)" "k \<notin> set OWNED"
  shows "dict_get body k = dict_get entry k"
proof -
  have e: "dict_get (fst (encryption_section A g entry)) k = dict_get entry k" for g
    using assms(2) by (auto simp: encryption_section_def put_secret_def share_guest_secret_def Let_def OWNED_def)
  obtain g s1 where g: "guest_section A guest = (g, s1)" by fastforce
  then show ?thesis
    using assms e [of g] by (auto simp: new_entry_def OWNED_def dict_update_def split: prod.splits sum.splits)
qed

lemma run_setup_parts:
  assumes "run_setup H check opts w = (Inr (), w')"
  obtains path raw w1 entry guest A where
    "path = config_target H (sw_vars w) (so_config opts)" "read_raw_config (sh_config H path) = Inr raw"
    "asked_well opts (get_dict raw ''vms'') (entry, guest, A)"
    "sw_vars w1 = sw_vars w" "sw_wrote w1 = sw_wrote w" "finish_setup check opts path raw (entry, guest, A) w1 = (Inr (), w')"
proof -
  let ?path = "config_target H (sw_vars w) (so_config opts)"
  obtain raw where raw: "read_raw_config (sh_config H ?path) = Inr raw"
    using assms by (cases "read_raw_config (sh_config H ?path)") (simp_all add: run_setup_def bindE_def getS_def liftE_def)
  obtain r w1 where q: "ask_all H opts (get_dict raw ''vms'') w = (r, w1)" by fastforce
  have run: "bindE (ask_all H opts (get_dict raw ''vms'')) (finish_setup check opts ?path raw) w = (Inr (), w')"
    using assms raw by (simp add: run_setup_def bindE_def getS_def liftE_def)
  then obtain entry guest A where r: "r = Inr (entry, guest, A)" using q by (cases r) (auto simp: bindE_def)
  show ?thesis
    using that [OF refl raw yieldsD [OF yields_ask_all, of H opts "get_dict raw ''vms''" w "(entry, guest, A)" w1]] q r run
      keeps_ask_all [of H opts "get_dict raw ''vms''"]
    by (auto simp: bindE_def keeps_def dest: spec [of _ w])
qed

text \<open>
  C38. A run of \<open>ntdrive setup\<close> that ends has written vms.yaml once, at the place it found it, and changed one entry: every other top-level key
  and every other VM stand as they were read, and within the entry every key setup does not own. The name is well formed.
\<close>

theorem setup_changes_one_entry:
  assumes "run_setup H check opts w = (Inr (), w')"
  shows "\<exists>path raw data name. path = config_target H (sw_vars w) (so_config opts) \<and> read_raw_config (sh_config H path) = Inr raw \<and>
    sw_wrote w' = sw_wrote w @ [(path, data)] \<and> name_ok name \<and>
    (\<forall>k. k \<noteq> ''vms'' \<longrightarrow> dict_get data k = dict_get raw k) \<and>
    (\<forall>n. n \<noteq> name \<longrightarrow> dict_get (get_dict data ''vms'') n = dict_get (get_dict raw ''vms'') n) \<and>
    (\<forall>k. k \<notin> set OWNED \<longrightarrow> dict_get (get_dict (get_dict data ''vms'') name) k = dict_get (get_dict (get_dict raw ''vms'') name) k)"
  using assms
proof (rule run_setup_parts)
  fix path raw w1 entry guest A
  let ?vms = "get_dict raw ''vms''"
  assume p: "path = config_target H (sw_vars w) (so_config opts)" "read_raw_config (sh_config H path) = Inr raw"
    and a: "asked_well opts ?vms (entry, guest, A)" and w1: "sw_wrote w1 = sw_wrote w"
    and f: "finish_setup check opts path raw (entry, guest, A) w1 = (Inr (), w')"
  obtain secrets made where made: "new_entry A ?vms guest entry = (secrets, made)" by fastforce
  then obtain body where body: "made = Inr body" using f by (cases made) (simp_all add: finish_run Let_def)
  let ?data = "dict_set ''vms'' (JDict (dict_set (an_name A) (JDict body) ?vms)) raw"
  have wrote: "sw_wrote w' = sw_wrote w @ [(path, ?data)]"
    using f made body w1 by (simp add: finish_run Let_def split: prod.splits sum.splits) (auto split: sum.splits)
  have vms: "get_dict ?data ''vms'' = dict_set (an_name A) (JDict body) ?vms" by (simp add: get_dict_def get_def)
  have entry: "entry = get_dict ?vms (an_name A)" "name_ok (an_name A)" using a by (simp_all add: asked_well_def)
  have "dict_get (get_dict (get_dict ?data ''vms'') (an_name A)) k = dict_get (get_dict ?vms (an_name A)) k" if "k \<notin> set OWNED" for k
    using new_entry_keeps [OF made [unfolded body] that] by (simp add: vms entry(1) [symmetric]) (simp add: get_dict_def get_def)
  then show ?thesis
    using p wrote entry(2) by (intro exI [of _ path] exI [of _ raw] exI [of _ ?data] exI [of _ "an_name A"]) (simp add: vms)
qed

section \<open>Variables of other machines\<close>

definition KINDS :: "string list" where "KINDS = [''PW'', ''STDPW'', ''VMPW'']"

lemma env_name_kind:
  assumes "env_name a k = env_name b l" "k \<in> set KINDS" "l \<in> set KINDS"
  shows "k = l"
proof -
  have "rev k @ ''_'' @ rev (''NTDRIVE_'' @ env_core a) = rev l @ ''_'' @ rev (''NTDRIVE_'' @ env_core b)"
    using arg_cong [OF assms(1), of rev] by (simp add: env_name_def)
  then show ?thesis using assms(2,3) by (auto simp: KINDS_def)
qed

lemma new_entry_vars: "fst ` set (fst (new_entry A vms guest entry)) \<subseteq> env_name (an_name A) ` set KINDS"
  by (auto simp: new_entry_def guest_section_def encryption_section_def put_secret_def KINDS_def Let_def split: prod.splits if_splits)

lemma set_vars_others:
  "x \<notin> fst ` set ss \<Longrightarrow> dict_get (ev_process (fold (\<lambda>(n, v). set_var n v) ss ev)) x = dict_get (ev_process ev) x \<and>
     dict_get (ev_registry (fold (\<lambda>(n, v). set_var n v) ss ev)) x = dict_get (ev_registry ev) x"
  by (induction ss arbitrary: ev) (auto simp: set_var_def Let_def)

lemma unclaimed:
  assumes "\<not> claimed vms name" "\<not> dict_has vms []" "(other, JDict b) \<in> set vms" "other \<noteq> name" "kind \<in> set KINDS"
  shows "env_name other kind \<noteq> env_name name kind"
proof
  assume same: "env_name other kind = env_name name kind"
  let ?P = "\<lambda>(other, body). other \<noteq> name \<and> (case body of JDict _ \<Rightarrow> True | _ \<Rightarrow> False) \<and> env_name other kind = env_name name kind"
  have "find ?P vms \<noteq> None" unfolding find_None_iff using assms(3,4) same by force
  then obtain o1 b1 where f: "find ?P vms = Some (o1, b1)" by fastforce
  then have "(o1, b1) \<in> set vms" by (force simp: find_Some_iff in_set_conv_nth)
  then have "o1 \<noteq> []" using assms(2) by (force simp: dict_has_keys dict_keys_def)
  then show False
    using assms(1,5) f by (auto simp: claimed_def other_vm_claiming_def KINDS_def)
qed

text \<open>
  C39. Without \<open>--inline-secrets\<close> a run of \<open>ntdrive setup\<close> changes only variables named after its own machine, in this process and in the
  registry: none of them is a variable that the name of another configured machine derives, whichever of its three secrets that is for.
\<close>

theorem setup_takes_no_variable_of_another:
  assumes "run_setup H check opts w = (Inr (), w')" "\<not> so_inline opts"
    and "read_raw_config (sh_config H (config_target H (sw_vars w) (so_config opts))) = Inr raw" "\<not> dict_has (get_dict raw ''vms'') []"
    and "dict_get (ev_process (sw_vars w')) x \<noteq> dict_get (ev_process (sw_vars w)) x \<or>
      dict_get (ev_registry (sw_vars w')) x \<noteq> dict_get (ev_registry (sw_vars w)) x"
  shows "\<exists>name. x \<in> env_name name ` set KINDS \<and>
    (\<forall>other b. (other, JDict b) \<in> set (get_dict raw ''vms'') \<and> other \<noteq> name \<longrightarrow> x \<notin> env_name other ` set KINDS)"
  using assms(1)
proof (rule run_setup_parts)
  fix path raw1 w1 entry guest A
  let ?vms = "get_dict raw ''vms''"
  assume p: "path = config_target H (sw_vars w) (so_config opts)" "read_raw_config (sh_config H path) = Inr raw1"
    and a: "asked_well opts (get_dict raw1 ''vms'') (entry, guest, A)" and w1: "sw_vars w1 = sw_vars w"
    and f: "finish_setup check opts path raw1 (entry, guest, A) w1 = (Inr (), w')"
  have raw: "raw1 = raw" using p assms(3) by simp
  obtain secrets made where made: "new_entry A ?vms guest entry = (secrets, made)" by fastforce
  have vars: "sw_vars w' = fold (\<lambda>(n, v). set_var n v) secrets (sw_vars w)"
    using f made w1 raw by (simp add: finish_run Let_def split: prod.splits sum.splits) (auto split: sum.splits)
  then have "x \<in> fst ` set secrets" using set_vars_others [of x secrets "sw_vars w"] assms(5) by auto
  then have x: "x \<in> env_name (an_name A) ` set KINDS" using new_entry_vars [of A ?vms guest entry] made by auto
  have "x \<notin> env_name other ` set KINDS" if "(other, JDict b) \<in> set ?vms" "other \<noteq> an_name A" for other b
    using x unclaimed [OF _ assms(4) that] a raw assms(2) env_name_kind by (force simp: asked_well_def)
  then show ?thesis using x by blast
qed

section \<open>A run\<close>

text \<open>A piped run: the VM, its name, account and password on the command line or on stdin, next to another machine.\<close>

definition piped_host :: setup_host where
  "piped_host =
     \<lparr>sh_win32 = True, sh_tty = False, sh_appdata = False, sh_inventory = None, sh_is_file = (\<lambda>p. True), sh_exists = (\<lambda>p. True),
      sh_stem = (\<lambda>p. ''win''), sh_resolve = (\<lambda>p. p), sh_real = (\<lambda>p. p), sh_vmx = (\<lambda>p. None), sh_addrs = [(''VMnet8'', [(True, ''10.0.0.1'')])],
      sh_config = (\<lambda>p. Y_Value (JDict [(''vms'', JDict [(''old'', JDict [(''vmx'', JStr ''o'')])])])), sh_state_dir = ''s''\<rparr>"

definition piped_opts :: setup_opts where
  "piped_opts =
     \<lparr>so_config = Some ''c'', so_vmx = Some ''v'', so_name = Some ''win'', so_user = Some ''u'', so_standard = Some ''none'', so_transport = Some ''net'',
      so_inline = False, so_restart = True\<rparr>"

definition piped_world :: "unit setup_world" where
  "piped_world =
     \<lparr>sw_vars = \<lparr>ev_win32 = True, ev_registry = [], ev_process = []\<rparr>, sw_keys = [], sw_lines = [''pw''], sw_out = [], sw_wrote = [], sw_env = ()\<rparr>"

definition no_issues :: "unit issue_check" where "no_issues path name data = ret []"

abbreviation old_vms :: "(string, json) dict" where "old_vms \<equiv> [(''old'', JDict [(''vmx'', JStr ''o'')])]"

lemma piped_facts:
  "env_name ''win'' ''PW'' = ''NTDRIVE_WIN_PW''" "name_ok ''win''" "\<not> claimed old_vms ''win''" "vmnet8_ip [(''VMnet8'', [(True, ''10.0.0.1'')])] = ''10.0.0.1''"
  "standard_name ''none'' = []" "next_kdnet_port old_vms = Inr 50000"
  by code_simp+

definition piped_answers :: answers_given where
  "piped_answers =
     \<lparr>an_name = ''win'', an_vmx = ''v'', an_encrypted = False, an_user = ''u'', an_password = ''pw'', an_standard = [], an_standard_password = [],
      an_vm_password = [], an_transport = ''net'', an_hostip = ''10.0.0.1'', an_inline = False\<rparr>"

lemma piped_asks:
  "\<exists>w1. ask_all piped_host piped_opts old_vms piped_world = (Inr ([], [], piped_answers), w1) \<and> sw_vars w1 = sw_vars piped_world"
  by (simp add: ask_all_def ask_accounts_def piped_host_def piped_opts_def piped_world_def given_or_def thenE_def bindE_def say_def ret_def Let_def
      vmx_settings_def display_name_def dict_has_def piped_facts vm_entry_def get_dict_def get_def opt_or_def as_dict_def liftE_def
      account_password_def has_secret_def secret_prompt_def from_lines_def piped_secret_def rstrip_by_def standard_password_of_def
      vm_password_of_def text_or_def piped_answers_def entered_def)

lemma piped_entry:
  "\<exists>body. new_entry piped_answers old_vms [] [] = ([(''NTDRIVE_WIN_PW'', ''pw'')], Inr body)"
  by (simp add: new_entry_def guest_section_def put_secret_def piped_answers_def piped_facts encryption_section_def Let_def kdnet_section_def
      as_dict_def get_def opt_or_def dict_has_def)

lemma piped_run:
  "\<exists>w'. run_setup piped_host no_issues piped_opts piped_world = (Inr (), w') \<and>
     dict_get (ev_process (sw_vars w')) ''NTDRIVE_WIN_PW'' = Some ''pw''"
proof -
  obtain w1 where q: "ask_all piped_host piped_opts old_vms piped_world = (Inr ([], [], piped_answers), w1)"
    "sw_vars w1 = sw_vars piped_world" using piped_asks by blast
  obtain body where n: "new_entry piped_answers old_vms [] [] = ([(''NTDRIVE_WIN_PW'', ''pw'')], Inr body)" using piped_entry by blast
  have raw: "read_raw_config (sh_config piped_host p) = Inr [(''vms'', JDict old_vms)]" for p
    by (simp add: read_raw_config_def piped_host_def)
  have vms: "get_dict [(''vms'', JDict old_vms)] ''vms'' = old_vms" by (simp add: get_dict_def get_def opt_or_def)
  show ?thesis
    using q by (simp add: run_setup_def bindE_def getS_def liftE_def raw vms finish_run n no_issues_def ret_def Let_def set_var_def piped_world_def)
qed

text \<open>The three theorems on it.\<close>

theorem passwords_stay_out_of_vms_yaml_witness:
  "(snd (finish_setup no_issues piped_opts ''c'' [] ([], [], piped_answers) piped_world))\<lparr>sw_vars := sw_vars piped_world\<rparr> =
   (snd (finish_setup no_issues piped_opts ''c'' [] ([], [], piped_answers\<lparr>an_password := ''other''\<rparr>) piped_world))\<lparr>sw_vars := sw_vars piped_world\<rparr>"
  by (rule passwords_stay_out_of_vms_yaml [THEN conjunct2]) (simp_all add: same_but_secrets_def piped_answers_def)

theorem setup_changes_one_entry_witness:
  "\<exists>data name. sw_wrote (snd (run_setup piped_host no_issues piped_opts piped_world)) = [(''c'', data)] \<and> name_ok name \<and>
     {n. dict_get (get_dict data ''vms'') n \<noteq> dict_get old_vms n} \<subseteq> {name}"
proof -
  obtain w' where run: "run_setup piped_host no_issues piped_opts piped_world = (Inr (), w')" using piped_run by blast
  have raw: "read_raw_config (sh_config piped_host p) = Inr raw \<longleftrightarrow> raw = [(''vms'', JDict old_vms)]" for p raw
    by (auto simp: read_raw_config_def piped_host_def)
  have path: "config_target piped_host (sw_vars piped_world) (so_config piped_opts) = ''c''"
    by (simp add: config_target_def piped_opts_def opt_or_def)
  have none: "sw_wrote piped_world = []" by (simp add: piped_world_def)
  have vms: "get_dict [(''vms'', JDict old_vms)] ''vms'' = old_vms" by (simp add: get_dict_def get_def opt_or_def)
  from setup_changes_one_entry [OF run] obtain data name where d: "sw_wrote w' = [(''c'', data)]" "name_ok name"
    "\<forall>n. n \<noteq> name \<longrightarrow> dict_get (get_dict data ''vms'') n = dict_get old_vms n"
    unfolding path none raw by (metis append_Nil vms)
  then have "{n. dict_get (get_dict data ''vms'') n \<noteq> dict_get old_vms n} \<subseteq> {name}" by blast
  with d(1,2) show ?thesis unfolding run snd_conv by blast
qed

theorem setup_takes_no_variable_of_another_witness:
  "\<exists>name. ''NTDRIVE_WIN_PW'' \<in> env_name name ` set KINDS \<and>
     {other. \<exists>b. (other, JDict b) \<in> set old_vms \<and> ''NTDRIVE_WIN_PW'' \<in> env_name other ` set KINDS} \<subseteq> {name}"
proof -
  obtain w' where run: "run_setup piped_host no_issues piped_opts piped_world = (Inr (), w')"
    and v: "dict_get (ev_process (sw_vars w')) ''NTDRIVE_WIN_PW'' = Some ''pw''" using piped_run by blast
  have vms: "get_dict [(''vms'', JDict old_vms)] ''vms'' = old_vms" by (simp add: get_dict_def get_def opt_or_def)
  have "read_raw_config (sh_config piped_host p) = Inr [(''vms'', JDict old_vms)]" for p
    by (simp add: read_raw_config_def piped_host_def)
  from setup_takes_no_variable_of_another [OF run _ this, of "''NTDRIVE_WIN_PW''"] v
  have "\<exists>name. ''NTDRIVE_WIN_PW'' \<in> env_name name ` set KINDS \<and>
     (\<forall>other b. (other, JDict b) \<in> set old_vms \<and> other \<noteq> name \<longrightarrow> ''NTDRIVE_WIN_PW'' \<notin> env_name other ` set KINDS)"
    by (simp add: piped_opts_def piped_world_def vms dict_has_def)
  then show ?thesis by blast
qed

end
