(* ===== verification/Cli_Main.thy ===== *)
theory Cli_Main
  imports Daemon_Client Cli_Verify
begin

text \<open>
  \<open>cli/main.py\<close>: the commands click builds from the registry, what they send, how results and errors are printed, and the
  \<open>ntdrive daemon\<close> commands. click parses the command line; the values it hands to a callback are an argument.
\<close>

section \<open>Output\<close>

definition EXIT_CODES :: "(string, nat) dict" where
  "EXIT_CODES = [(INVALID_ARGS, 2), (CONFIRM_REQUIRED, 3), (GUEST_FROZEN, 4), (TIMEOUT, 5), (VERIFY_FAILED, 6)]"

definition exit_code :: "nt_error \<Rightarrow> nat" where "exit_code e = opt_or (dict_get EXIT_CODES (err_code e)) 1"

definition nested :: "json \<Rightarrow> bool" where "nested j = (case j of JDict _ \<Rightarrow> True | JList _ \<Rightarrow> True | _ \<Rightarrow> False)"

definition pad :: "nat \<Rightarrow> string" where "pad n = replicate (2 * n) (CHR '' '')"

fun print_human :: "nat \<Rightarrow> json \<Rightarrow> string list" where
  "print_human n (JDict d) =
     concat (map (\<lambda>(k, v).
       if k \<in> {''text'', ''output''} \<and> (case v of JStr _ \<Rightarrow> True | _ \<Rightarrow> False) then [pad n @ k @ '':'', py_str v]
       else if nested v then (pad n @ k @ '':'') # print_human (Suc n) v
       else [pad n @ k @ '': '' @ py_str v]) d)"
| "print_human n (JList xs) =
     concat (map (\<lambda>v. if nested v then (pad n @ ''-'') # print_human (Suc n) v else [pad n @ ''- '' @ py_str v]) xs)"
| "print_human n j = [pad n @ py_str j]"

text \<open>What a command ends with: a result (as JSON with \<open>--json\<close>, else as text) or an error on stderr with its exit code.\<close>

datatype cli_out = Out_Json json | Out_Text "string list" | Err_Json json | Err_Text "string list"

record cli_end =
  ce_out :: cli_out
  ce_code :: nat

definition emit_result :: "bool \<Rightarrow> json \<Rightarrow> cli_end" where
  "emit_result as_json j = \<lparr>ce_out = (if as_json then Out_Json j else Out_Text (print_human 0 j)), ce_code = 0\<rparr>"

definition fail :: "bool \<Rightarrow> nt_error \<Rightarrow> cli_end" where
  "fail as_json e =
     \<lparr>ce_out = (if as_json then Err_Json (JDict (to_dict e))
                else Err_Text ((''error ['' @ err_code e @ '']: '' @ err_message e) # (if err_hint e \<noteq> [] then [''hint: '' @ err_hint e] else []))),
      ce_code = exit_code e\<rparr>"

section \<open>The commands of the registry\<close>

text \<open>The annotation of a field of a pydantic model.\<close>

datatype annot = A_Str | A_Int | A_Float | A_Bool | A_Literal "string list" | A_List annot | A_Optional annot | A_Other

definition unwrap_optional :: "annot \<Rightarrow> annot \<times> bool" where
  "unwrap_optional a = (case a of A_Optional b \<Rightarrow> (b, True) | _ \<Rightarrow> (a, False))"

datatype ctype = CT_String | CT_Int | CT_Float | CT_Bool | CT_Choice "string list"

fun click_type :: "annot \<Rightarrow> ctype \<times> bool" where
  "click_type (A_Literal xs) = (CT_Choice xs, False)"
| "click_type (A_List a) = (fst (click_type a), True)"
| "click_type A_Bool = (CT_Bool, False)"
| "click_type A_Int = (CT_Int, False)"
| "click_type A_Float = (CT_Float, False)"
| "click_type _ = (CT_String, False)"

record param_field =
  pf_name :: string
  pf_annot :: annot
  pf_required :: bool
  pf_default :: json
  pf_help :: string

definition FREE_TEXT_POSITIONALS :: "string list" where "FREE_TEXT_POSITIONALS = [''cmd'', ''text'']"

definition greedy_positional :: "param_field list \<Rightarrow> string list \<Rightarrow> string option" where
  "greedy_positional flds positional =
     (let ordered = filter (\<lambda>f. pf_name f \<in> set positional) flds
      in if length ordered < 2 then None
         else let f = last ordered
              in if pf_name f \<notin> set FREE_TEXT_POSITIONALS then None
                 else if fst (unwrap_optional (pf_annot f)) = A_Str then Some (pf_name f) else None)"

definition dashes :: "string \<Rightarrow> string" where "dashes s = map (\<lambda>c. if c = CHR ''_'' then CHR ''-'' else c) s"

datatype click_param =
    Argument string bool bool
  | Flag_Pair string string "string option"
  | Click_Option string ctype bool bool "string option"

definition shown_default :: "param_field \<Rightarrow> string option" where
  "shown_default f = (if pf_default f = JNull then None else Some (py_str (pf_default f)))"

definition param_for :: "string option \<Rightarrow> string list \<Rightarrow> param_field \<Rightarrow> click_param" where
  "param_for greedy positional f =
     (case unwrap_optional (pf_annot f) of
        (a, optional) \<Rightarrow>
          if pf_name f \<in> set positional then Argument (pf_name f) (pf_required f) (greedy = Some (pf_name f))
          else let flag = ''--'' @ dashes (pf_name f)
               in if a = A_Bool \<and> \<not> optional
                  then Flag_Pair (flag @ ''/--no-'' @ dashes (pf_name f)) (pf_help f)
                         (if pf_required f then None else Some (py_str (pf_default f)))
                  else case click_type a of
                         (t, multiple) \<Rightarrow> Click_Option flag t multiple (pf_required f) (shown_default f))"

definition params_for :: "param_field list \<Rightarrow> string list \<Rightarrow> click_param list" where
  "params_for flds positional = map (param_for (greedy_positional flds positional) positional) flds"

section \<open>What a command sends\<close>

text \<open>A value click parsed: not given, one, or the tuple of a repeated option or a greedy argument.\<close>

datatype click_value = CV_None | CV_One json | CV_Many "json list"

definition arg_value :: "(string \<Rightarrow> string) \<Rightarrow> string option \<Rightarrow> string \<Rightarrow> click_value \<Rightarrow> json option" where
  "arg_value absolute greedy k v =
     (if k \<in> {''file'', ''stdin''} then None
      else map_option (\<lambda>j. case j of JStr s \<Rightarrow> if k = ''local'' then JStr (absolute s) else j | _ \<Rightarrow> j)
        (case v of
           CV_None \<Rightarrow> None
         | CV_One j \<Rightarrow> if j = JNull then None else Some j
         | CV_Many xs \<Rightarrow> if xs = [] then None
                        else if greedy = Some k then Some (JStr (join_with '' '' (map py_str xs))) else Some (JList xs)))"

fun command_args :: "(string \<Rightarrow> string) \<Rightarrow> string option \<Rightarrow> (string, click_value) dict \<Rightarrow> (string, json) dict" where
  "command_args absolute greedy [] = []"
| "command_args absolute greedy ((k, v) # kwargs) =
     (case arg_value absolute greedy k v of None \<Rightarrow> [] | Some j \<Rightarrow> [(k, j)]) @ command_args absolute greedy kwargs"

text \<open>\<open>kd_exec --file\<close> and \<open>--stdin\<close>: the lines that hold something, after the commands of the line. \<open>text\<close> is what was read.\<close>

definition command_lines :: "string \<Rightarrow> string list" where
  "command_lines content = filter (\<lambda>l. l \<noteq> []) (map py_strip (split_lines content))"

definition with_lines :: "string list \<Rightarrow> (string, json) dict \<Rightarrow> (string, json) dict" where
  "with_lines lines args =
     (if lines = [] then args
      else dict_set ''cmds'' (JList ((case get args ''cmds'' of JList xs \<Rightarrow> xs | JStr s \<Rightarrow> map (\<lambda>c. JStr [c]) s | _ \<Rightarrow> []) @ map JStr lines)) args)"

text \<open>A client's call on its own connection.\<close>

definition calling :: "('e, 'x) post_host_scheme \<Rightarrow> daemon_client \<Rightarrow> string \<Rightarrow> (string, json) dict \<Rightarrow> ('e, (string, json) dict) app" where
  "calling Y c name args e =
     (case client_call Y name args \<lparr>cw_client = c, cw_env = e, cw_posts = []\<rparr> of (r, w) \<Rightarrow> (r, cw_env w))"

definition tool_command :: "'w caller \<Rightarrow> bool \<Rightarrow> string \<Rightarrow> (string, json) dict \<Rightarrow> ('w, cli_end) app" where
  "tool_command C as_json name args =
     catch_nt (C name args) (\<lambda>e. ret (fail as_json e)) (\<lambda>d. ret (emit_result as_json (JDict d)))"

definition run_tool_command ::
  "('e, 'x) post_host_scheme \<Rightarrow> bool \<Rightarrow> string option \<Rightarrow> string \<Rightarrow> (string, json) dict \<Rightarrow> ('e, cli_end) app" where
  "run_tool_command Y as_json config name args =
     catch_nt (connect Y config True ''cli'') (\<lambda>e. ret (fail as_json e)) (\<lambda>c. tool_command (calling Y c) as_json name args)"

section \<open>The daemon commands\<close>

record 'e cli_host = "'e post_host" +
  y_processes :: "'e \<Rightarrow> process_info list"
  y_reap :: "int \<Rightarrow> 'e \<Rightarrow> kill_result \<times> 'e"

definition cli_client :: "daemon_info \<Rightarrow> daemon_client" where "cli_client i = new_client i ''cli'' None"

definition kd_live :: "json \<Rightarrow> bool" where
  "kd_live vm =
     (case vm of
        JDict d \<Rightarrow> get (get_dict d ''kd'') ''state'' \<notin> {JNull, JStr ''detached''}
      | _ \<Rightarrow> False)"

definition vm_label :: "json \<Rightarrow> string" where
  "vm_label vm = (case vm of JDict d \<Rightarrow> py_str (opt_or (dict_get d ''name'') (JStr ''?'')) | _ \<Rightarrow> ''?'')"

definition attached_of :: "(string, json) dict \<Rightarrow> string list" where
  "attached_of state = map vm_label (filter kd_live (get_list state ''vms''))"

definition attached_kd_vms :: "('e, 'x) post_host_scheme \<Rightarrow> daemon_info \<Rightarrow> ('e, string list) app" where
  "attached_kd_vms Y i = catch_nt (calling Y (cli_client i) ''sys_state'' []) (\<lambda>_. ret []) (\<lambda>d. ret (attached_of d))"

definition refusal :: "string \<Rightarrow> string list \<Rightarrow> (string, json) dict" where
  "refusal action attached =
     [(''stopped'', JBool False), (''refused'', JBool True), (''kd_attached'', jstrs attached),
      (''error'', JStr (''not going to '' @ action @ '' the daemon: a debugger is attached to '' @ join_with '', '' attached @
         '', and stopping the daemon kills kd.exe with it'')),
      (''hint'', JStr (''over KDNET the target only handshakes at boot, so re-attaching costs a guest reboot. Run kd_detach on '' @
         join_with '', '' attached @ '' first, or pass --force to '' @ action @ '' anyway''))]"

text \<open>None: the command goes on; Some is the refusal it prints.\<close>

definition refuse_while_kd_attached ::
  "('e, 'x) post_host_scheme \<Rightarrow> daemon_info \<Rightarrow> string \<Rightarrow> bool \<Rightarrow> ('e, (string, json) dict option) app" where
  "refuse_while_kd_attached Y i action force =
     bindE (attached_kd_vms Y i) (\<lambda>attached. ret (if attached = [] \<or> force then None else Some (refusal action attached)))"

definition daemon_line :: "daemon_info \<Rightarrow> (string, json) dict" where
  "daemon_line i = [(''running'', JBool True), (''pid'', JInt (di_pid i)), (''url'', JStr (base_url i))]"

definition daemon_start :: "('e, 'x) post_host_scheme \<Rightarrow> bool \<Rightarrow> string option \<Rightarrow> ('e, cli_end) app" where
  "daemon_start Y as_json config =
     catch_nt (ensure_daemon Y config True 25000) (\<lambda>e. ret (fail as_json e))
       (\<lambda>i. ret (emit_result as_json (JDict (daemon_line i @ [(''version'', JStr (di_version i))]))))"

definition strays :: "('e, 'x) cli_host_scheme \<Rightarrow> int option \<Rightarrow> 'e \<Rightarrow> int list" where
  "strays Y live e = orphaned_daemons (y_now Y e) live (y_processes Y e)"

definition jints :: "int list \<Rightarrow> json" where "jints xs = JList (map JInt xs)"

definition daemon_status :: "('e, 'x) cli_host_scheme \<Rightarrow> bool \<Rightarrow> ('e, cli_end) app" where
  "daemon_status Y as_json =
     bindE (read_info Y) (\<lambda>found.
       case found of
         None \<Rightarrow> (\<lambda>e. (Inr (emit_result as_json (JDict [(''running'', JBool False), (''orphans'', jints (strays Y None e))])), e))
       | Some i \<Rightarrow>
           catch_nt (\<lambda>e. case client_health Y \<lparr>cw_client = cli_client i, cw_env = e, cw_posts = []\<rparr> of (r, w) \<Rightarrow> (r, cw_env w))
             (\<lambda>_ e. (Inr (emit_result as_json (JDict [(''running'', JBool False), (''stale_pid'', JInt (di_pid i)), (''orphans'', jints (strays Y None e))])), e))
             (\<lambda>d e. let others = strays Y (Some (di_pid i)) e
                    in (Inr (emit_result as_json (JDict (dict_update (dict_update (daemon_line i) d)
                              (if others = [] then []
                               else [(''orphans'', jints others),
                                     (''orphans_note'', JStr (nat_text (length others) @
                                       '' other ntdrived process(es) are alive with no port and serve nobody: `ntdrive daemon reap` ends them. The live daemon is not touched''))])))),
                        e)))"

definition daemon_reap :: "('e, 'x) cli_host_scheme \<Rightarrow> bool \<Rightarrow> ('e, cli_end) app" where
  "daemon_reap Y as_json =
     bindE (read_info Y) (\<lambda>found e.
       case reap_orphaned_daemons (y_reap Y) (y_now Y e) (map_option di_pid found) (y_processes Y e) e of
         ((ended, lost), e') \<Rightarrow> (Inr (emit_result as_json (JDict [(''reaped'', jints ended), (''failed'', jints lost)])), e'))"

definition daemon_stop :: "('e, 'x) post_host_scheme \<Rightarrow> bool \<Rightarrow> bool \<Rightarrow> ('e, cli_end) app" where
  "daemon_stop Y as_json force =
     bindE (read_info Y) (\<lambda>found.
       case found of
         None \<Rightarrow> ret (emit_result as_json (JDict [(''running'', JBool False)]))
       | Some i \<Rightarrow>
           bindE (refuse_while_kd_attached Y i ''stop'' force) (\<lambda>no.
             case no of
               Some d \<Rightarrow> ret (emit_result as_json (JDict d))
             | None \<Rightarrow> bindE (stop_daemon Y i 15000) (\<lambda>gone. ret (emit_result as_json (JDict [(''stopped'', JBool gone)])))))"

definition daemon_restart :: "('e, 'x) post_host_scheme \<Rightarrow> bool \<Rightarrow> string option \<Rightarrow> bool \<Rightarrow> ('e, cli_end) app" where
  "daemon_restart Y as_json config force =
     bindE (read_info Y) (\<lambda>found.
     bindE (case found of None \<Rightarrow> ret None | Some i \<Rightarrow> refuse_while_kd_attached Y i ''restart'' force) (\<lambda>no.
       case no of
         Some d \<Rightarrow> ret (emit_result as_json (JDict d))
       | None \<Rightarrow>
           catch_nt (restart_daemon Y config 25000) (\<lambda>e. ret (fail as_json e)) (\<lambda>i. ret (emit_result as_json (JDict (daemon_line i))))))"

text \<open>The lines \<open>ntdrive daemon logs\<close> shows before it follows the file; \<open>readlines()[-n:]\<close> for any \<open>n\<close>.\<close>

definition log_lines :: "string list \<Rightarrow> int \<Rightarrow> string list" where
  "log_lines lines n =
     map (rstrip_by (\<lambda>c. c = NL))
       (if n = 0 then lines else if 0 < n then take_last (nat n) lines else drop (nat (- n)) lines)"

section \<open>The command tree\<close>

datatype cli_command = Tool_Command string string | Own_Command string

definition make_command :: "'w tool_spec \<Rightarrow> string \<times> cli_command" where
  "make_command spec =
     (dashes (verb_of (ts_name spec)),
      Tool_Command (ts_name spec)
        (ts_description spec @ (if ts_effect spec = Eff_Destructive then '' (destructive, needs --confirm)'' else [])))"

definition daemon_group :: "(string, cli_command) dict" where
  "daemon_group = map (\<lambda>c. (c, Own_Command c)) [''start'', ''status'', ''reap'', ''stop'', ''restart'', ''logs'']"

text \<open>A group or a command of its own under each name; a later one of the same name replaces the earlier.\<close>

definition build_cli :: "'w registry \<Rightarrow> (string, (string, cli_command) dict + cli_command) dict" where
  "build_cli tools =
     dict_update []
       (map (\<lambda>(g, specs). (g, Inl (dict_update [] (map make_command specs @
                 (if g = ''term'' then [(''attach'', Own_Command ''attach'')] else []))))) (groups tools) @
        [(''daemon'', Inl daemon_group), (''setup'', Inr (Own_Command ''setup'')), (''verify'', Inr (Own_Command ''verify''))] @
        (case registry_get tools ''sys_state'' of None \<Rightarrow> [] | Some spec \<Rightarrow> [(''status'', Inr (snd (make_command spec)))]))"

section \<open>Facts\<close>

text \<open>A daemon that reports a debugger is neither stopped nor restarted unforced: the command ends with the world the question left.\<close>

lemma attached_is_refused:
  assumes "attached_kd_vms Y i e = (Inr (v # vs), e1)"
  shows "refuse_while_kd_attached Y i action False e = (Inr (Some (refusal action (v # vs))), e1)"
  using assms by (simp add: refuse_while_kd_attached_def bindE_def ret_def)

lemma unforced_stop_spares_the_debugger:
  assumes "info_of_file (y_file Y e) = Some i" "attached_kd_vms Y i e = (Inr (v # vs), e1)"
  shows "daemon_stop Y as_json False e = (Inr (emit_result as_json (JDict (refusal ''stop'' (v # vs)))), e1)"
    "daemon_restart Y as_json config False e = (Inr (emit_result as_json (JDict (refusal ''restart'' (v # vs)))), e1)"
  using assms(1) attached_is_refused [OF assms(2)]
  by (simp_all add: daemon_stop_def daemon_restart_def bindE_def read_info_def getS_def ret_def)

text \<open>Each key of the arguments was given, and a greedy argument arrives as the words joined by one space.\<close>

lemma command_args_given: "(k, j) \<in> set (command_args absolute greedy kwargs) \<Longrightarrow> \<exists>v. (k, v) \<in> set kwargs \<and> arg_value absolute greedy k v = Some j"
proof (induction kwargs)
  case (Cons kv kwargs)
  obtain k0 v0 where kv: "kv = (k0, v0)" by fastforce
  show ?case
  proof (cases "(k, j) \<in> set (command_args absolute greedy kwargs)")
    case True
    then show ?thesis using Cons.IH by auto
  next
    case False
    then have "k = k0" "arg_value absolute greedy k0 v0 = Some j" using Cons.prems kv by (auto split: option.splits)
    then show ?thesis using kv by auto
  qed
qed simp

lemma greedy_joins: "k \<notin> {''file'', ''stdin'', ''local''} \<Longrightarrow> xs \<noteq> [] \<Longrightarrow>
   arg_value absolute (Some k) k (CV_Many xs) = Some (JStr (join_with '' '' (map py_str xs)))"
  by (simp add: arg_value_def)

end
