(* ===== verification/Attach.thy ===== *)
theory Attach
  imports Cli_Main Term_Stream
begin

text \<open>
  \<open>ntdrive term attach\<close> (cli/attach.py): the keys of the local console become frames for the daemon's stream, what the stream sends is written to
  the console, and both end with Ctrl+] or the session's disconnect. The daemon's side is the theory \<open>Term_Stream\<close>.
\<close>

section \<open>The keys\<close>

definition DETACH_KEY :: char where "DETACH_KEY = CHR 0x1D"

definition utf8 :: "char \<Rightarrow> string" where
  "utf8 c = (if ord c < 128 then [c] else [cc (192 + ord c div 64), cc (128 + ord c mod 64)])"

definition arrow :: "char \<Rightarrow> string" where
  "arrow code =
     (if code = CHR ''H'' then [ESC] @ ''[A'' else if code = CHR ''P'' then [ESC] @ ''[B''
      else if code = CHR ''M'' then [ESC] @ ''[C'' else if code = CHR ''K'' then [ESC] @ ''[D'' else [])"

text \<open>What the reader thread queues for the characters of the Windows console, so far; None ends the session. A function key is
  a prefix and a code.\<close>

fun console_keys :: "string \<Rightarrow> string option list" where
  "console_keys [] = []"
| "console_keys [ch] =
     (if ch = DETACH_KEY then [None] else if ch = CHR 0x00 \<or> ch = CHR 0xE0 then [] else [Some (utf8 ch)])"
| "console_keys (ch # code # rest) =
     (if ch = DETACH_KEY then [None]
      else if ch = CHR 0x00 \<or> ch = CHR 0xE0 then Some (arrow code) # console_keys rest
      else Some (utf8 ch) # console_keys (code # rest))"

text \<open>Elsewhere every byte is sent as it is; the end of the input ends the session.\<close>

primrec raw_keys :: "string \<Rightarrow> string option list" where
  "raw_keys [] = [None]"
| "raw_keys (b # rest) = (if b = DETACH_KEY then [None] else Some [b] # raw_keys rest)"

text \<open>\<open>pump_in\<close>: the frames sent, and whether it closed the connection.\<close>

primrec pump_in :: "string option list \<Rightarrow> string list \<times> bool" where
  "pump_in [] = ([], False)"
| "pump_in (item # queue) =
     (case item of None \<Rightarrow> ([], True) | Some data \<Rightarrow> (case pump_in queue of (frames, closed) \<Rightarrow> (data # frames, closed)))"

section \<open>What the stream sends\<close>

text \<open>A text message with the JSON it holds.\<close>

datatype attach_msg = AM_Binary string | AM_Text "json option" | AM_Other

definition told_state :: "(string, json) dict \<Rightarrow> string" where
  "told_state d =
     (if get d ''type'' \<in> {JStr ''state'', JStr ''error''}
      then [NL] @ ''['' @ py_str (if truthy (get d ''state'') then get d ''state'' else get d ''code'') @ '']'' @ [NL]
      else [])"

definition told_disconnected :: "(string, json) dict \<Rightarrow> bool" where
  "told_disconnected d = (get d ''type'' \<in> {JStr ''state'', JStr ''error''} \<and> get d ''state'' = JStr ''disconnected'')"

text \<open>The bytes written to the console, the notes on its error stream, and how the loop ended.\<close>

fun attach_loop :: "attach_msg list \<Rightarrow> string \<times> string \<times> (exn + unit)" where
  "attach_loop [] = ([], [], Inr ())"
| "attach_loop (AM_Binary b # ms) = (case attach_loop ms of (out, err, r) \<Rightarrow> (b @ out, err, r))"
| "attach_loop (AM_Text None # ms) = attach_loop ms"
| "attach_loop (AM_Text (Some (JDict d)) # ms) =
     (if told_disconnected d then ([], told_state d, Inr ())
      else (case attach_loop ms of (out, err, r) \<Rightarrow> (out, told_state d @ err, r)))"
| "attach_loop (AM_Text (Some _) # ms) = ([], [], Inl (Exn ''AttributeError''))"
| "attach_loop (AM_Other # ms) = ([], [], Inr ())"

definition attach_run :: "string \<Rightarrow> attach_msg list \<Rightarrow> string \<times> string \<times> (exn + unit)" where
  "attach_run session_id ms =
     (case attach_loop ms of
        (out, err, r) \<Rightarrow>
          (out, ''attached to '' @ session_id @ ''; Ctrl+] to detach'' @ [NL] @ err @
             (case r of Inr _ \<Rightarrow> [NL] @ ''detached'' @ [NL] | Inl _ \<Rightarrow> []), r))"

text \<open>\<open>dial\<close> opens the stream at a URL and gives its messages; None is an error of aiohttp.\<close>

definition attach_console ::
  "(string \<Rightarrow> attach_msg list option) \<Rightarrow> daemon_client \<Rightarrow> string \<Rightarrow> string \<times> string \<times> (exn + unit)" where
  "attach_console dial client session_id =
     (case dial (ws_url client session_id ''human'') of
        None \<Rightarrow> ([], [], Inl (Nt (nt_err BACKEND_ERROR)))
      | Some ms \<Rightarrow> attach_run session_id ms)"

text \<open>The command: the console's output, and how it ends when it fails.\<close>

definition attach_command ::
  "('e, 'x) post_host_scheme \<Rightarrow> (string \<Rightarrow> attach_msg list option) \<Rightarrow> bool \<Rightarrow> string option \<Rightarrow> string \<Rightarrow>
   ('e, string \<times> string \<times> cli_end option) app" where
  "attach_command Y dial as_json config session_id =
     catch_nt (connect Y config True ''cli'') (\<lambda>e. ret ([], [], Some (fail as_json e)))
       (\<lambda>c. case attach_console dial c session_id of
              (out, err, Inr _) \<Rightarrow> ret (out, err, None)
            | (out, err, Inl (Nt e)) \<Rightarrow> ret (out, err, Some (fail as_json e))
            | (out, err, Inl x) \<Rightarrow> raise x)"

section \<open>Facts of the keys\<close>

text \<open>On a terminal that is not Windows' the shell gets what was typed up to Ctrl+], and the connection closes there.\<close>

lemma raw_keys_carry:
  "pump_in (raw_keys typed) = (map (\<lambda>b. [b]) (takeWhile (\<lambda>b. b \<noteq> DETACH_KEY) typed), True)"
  by (induction typed) simp_all

definition ascii_key :: "char \<Rightarrow> bool" where
  "ascii_key c = (ord c < 128 \<and> c \<noteq> CHR 0x00)"

lemma ascii_key_facts: "ascii_key c \<Longrightarrow> utf8 c = [c] \<and> c \<noteq> CHR 0x00 \<and> c \<noteq> CHR 0xE0"
  by (auto simp: ascii_key_def utf8_def ord_def)

text \<open>A console of ASCII keys gives the same, and closes when Ctrl+] was among them.\<close>

lemma console_keys_plain:
  "list_all ascii_key typed \<Longrightarrow>
   pump_in (console_keys typed) = (map (\<lambda>b. [b]) (takeWhile (\<lambda>b. b \<noteq> DETACH_KEY) typed), DETACH_KEY \<in> set typed)"
  by (induction typed rule: console_keys.induct) (auto dest!: ascii_key_facts)

section \<open>The console and the daemon's stream\<close>

definition on_wire :: "ws_sent \<Rightarrow> attach_msg" where
  "on_wire m =
     (case m of
        WS_Bytes b \<Rightarrow> AM_Binary b
      | WS_Disconnected \<Rightarrow> AM_Text (Some (JDict [(''type'', JStr ''state''), (''state'', JStr ''disconnected'')]))
      | WS_Error d \<Rightarrow> AM_Text (Some (JDict d)))"

definition stateless :: "ws_sent \<Rightarrow> bool" where
  "stateless m = (case m of WS_Error d \<Rightarrow> dict_get d ''state'' = None | _ \<Rightarrow> True)"

lemma attach_loop_wire:
  "list_all stateless ms \<Longrightarrow>
   fst (attach_loop (map on_wire ms)) = sent_bytes (takeWhile (\<lambda>m. m \<noteq> WS_Disconnected) ms) \<and>
   snd (snd (attach_loop (map on_wire ms))) = Inr ()"
proof (induction ms)
  case (Cons m ms)
  then show ?case
    by (cases m) (auto simp: on_wire_def stateless_def sent_bytes_def told_disconnected_def get_def split: prod.splits)
qed (simp add: sent_bytes_def)

text \<open>The daemon's error messages have no state of their own.\<close>

definition plain_world :: "ws_world \<Rightarrow> bool" where
  "plain_world v = list_all stateless (wv_sent v)"

lemma send_error_stateless:
  assumes "session_send t ok bytes src s = (Inl (Nt e), s')"
  shows "dict_get (dict_update [(''type'', JStr ''error'')] (error_body e)) ''state'' = None"
  using assms
  by (auto simp: session_send_def require_connected_def prog_unfold throw_def throw_with_def nt_err_with_def nt_err_def error_body_def dict_update_def
      split: if_splits)

lemma plain_steps [simp]:
  "plain_world (ws_finish v) = plain_world v" "plain_world (v\<lparr>wv_session := s\<rparr>) = plain_world v"
  "plain_world (ws_send m v) = (plain_world v \<and> stateless m)" "plain_world (v\<lparr>wv_pumping := b\<rparr>) = plain_world v"
  "plain_world (v\<lparr>wv_phase := p\<rparr>) = plain_world v"
  by (auto simp: plain_world_def ws_finish_def ws_send_def)

lemma plain_binary: "plain_world v \<Longrightarrow> plain_world (ws_binary t ok bytes src v)"
  by (auto simp: ws_binary_def Let_def stateless_def dest!: send_error_stateless split: prod.splits sum.splits exn.splits)

lemma plain_text: "plain_world v \<Longrightarrow> plain_world (ws_text t ok msg src v)"
  by (auto simp: ws_text_def ws_input_def ws_resize_def Let_def split: prod.splits sum.splits exn.splits option.splits json.splits)

lemma plain_step:
  assumes "ws_step src ev v = Some v'" "plain_world v"
  shows "plain_world v'"
proof (cases ev)
  case (Pair t e)
  then show ?thesis using assms plain_binary plain_text
    by (cases e) (auto simp: ws_step_def ws_start_def ws_pump_def Let_def stateless_def split: if_splits list.splits option.splits ws_frame.splits)
qed

lemma plain_run: "ws_run src evs v = Some v' \<Longrightarrow> plain_world v \<Longrightarrow> plain_world v'"
  by (induction evs arbitrary: v) (auto dest: plain_step split: option.splits)

text \<open>
  C40. Someone who sits in a session sees it: whatever happens and in whatever order, once the stream has sent what it has and as long as it has told of no
  disconnect, the console shows the shell's output from the last 64 KiB that were buffered on, without a gap or a repeat, and attaching has not failed.
\<close>

theorem attached_console_shows_the_shell:
  assumes "ws_run src evs (ws_begin s) = Some v" "wv_phase v \<noteq> Ph_Closed" "ring_holds pre (ts_ring s)"
    and "queue_of (wv_queue v) (wv_session v) = []" "WS_Disconnected \<notin> set (wv_sent v)"
  shows "\<exists>skipped shown told. attach_loop (map on_wire (wv_sent v)) = (shown, told, Inr ()) \<and> pre @ output_of evs = skipped @ shown \<and>
    int (length skipped) = max (rb_base (ts_ring s)) (int (length pre) - SNAPSHOT_BYTES)"
proof -
  have "plain_world (ws_begin s)" by (simp add: plain_world_def ws_begin_def stateless_def Let_def split: prod.splits)
  then have "list_all stateless (wv_sent v)" using plain_run [OF assms(1)] by (simp add: plain_world_def)
  moreover have "takeWhile (\<lambda>m. m \<noteq> WS_Disconnected) (wv_sent v) = wv_sent v" using assms(5) by (auto simp: takeWhile_eq_all_conv)
  ultimately obtain told where "attach_loop (map on_wire (wv_sent v)) = (sent_bytes (wv_sent v), told, Inr ())"
    using attach_loop_wire [of "wv_sent v"] by (metis prod.collapse)
  moreover have "viewer_stream v = sent_bytes (wv_sent v)" using assms(4) by (simp add: viewer_stream_def queued_bytes_def)
  ultimately show ?thesis using viewer_stream_tail [OF assms(1-3)] by auto
qed

lemma attached_console_shows_the_shell_witness:
  "\<exists>v told. ws_run ''human'' (take 6 demo_events) (ws_begin demo_shell) = Some v \<and>
     attach_loop (map on_wire (wv_sent v)) = (''PS> abc'', told, Inr ())"
proof -
  have run: "map_option (\<lambda>v. (wv_sent v, wv_phase v, queue_of (wv_queue v) (wv_session v)))
      (ws_run ''human'' (take 6 demo_events) (ws_begin demo_shell)) =
      Some ([WS_Bytes ''PS> '', WS_Bytes ''a'', WS_Bytes ''bc''], Ph_Streaming, [])"
    by (simp add: demo_run_simps)
  then obtain v where v: "ws_run ''human'' (take 6 demo_events) (ws_begin demo_shell) = Some v" "wv_phase v \<noteq> Ph_Closed"
    "queue_of (wv_queue v) (wv_session v) = []" "WS_Disconnected \<notin> set (wv_sent v)" by auto
  from attached_console_shows_the_shell [OF v(1,2) demo_shell_ring v(3,4)]
  obtain skipped shown told where "attach_loop (map on_wire (wv_sent v)) = (shown, told, Inr ())" "length skipped = 0"
    "''PS> '' @ output_of (take 6 demo_events) = skipped @ shown"
    by (auto simp: SNAPSHOT_BYTES_def demo_shell_def session_feed_def push_all_def session_log_def session_attach_def new_session_def
        ring_append_def new_ring_def)
  then show ?thesis using v(1) by (auto simp: output_of_def demo_events_def)
qed

end
