(* ===== verification/Front_Doors.thy ===== *)
theory Front_Doors
  imports Cli_Main Daemon_Properties Json_Text
begin

text \<open>
  The Python SDK (sdk/__init__.py) and the MCP server (mcp/server.py), which forward every call as the command line does, and what makes the three
  doors one: each turns the answer of a call into its own form, and nothing else. The contract of what they call is the locale \<open>front_door\<close>,
  met by a dispatcher in the same process and by a client over HTTP.
\<close>

section \<open>The SDK\<close>

text \<open>Positional arguments by the tool's names, then keywords; a host path becomes absolute.\<close>

definition sdk_args ::
  "(string \<Rightarrow> string) \<Rightarrow> string list \<Rightarrow> json list \<Rightarrow> (string, json) dict \<Rightarrow> exn + (string, json) dict" where
  "sdk_args absolute positional args kwargs =
     (if length positional < length args then Inl (Nt (nt_err INVALID_ARGS))
      else let merged = dict_update (dict_update [] (zip positional args)) kwargs
           in Inr (case dict_get merged ''local'' of Some (JStr s) \<Rightarrow> dict_set ''local'' (JStr (absolute s)) merged | _ \<Rightarrow> merged))"

definition sdk_call ::
  "'v caller \<Rightarrow> (string \<Rightarrow> string) \<Rightarrow> 'w registry \<Rightarrow> string \<Rightarrow> json list \<Rightarrow> (string, json) dict \<Rightarrow> ('v, (string, json) dict) app" where
  "sdk_call C absolute tools name args kwargs =
     (case registry_get tools name of
        None \<Rightarrow> throw TOOL_NOT_FOUND
      | Some spec \<Rightarrow>
          (case sdk_args absolute (ts_positional spec) args kwargs of Inl x \<Rightarrow> raise x | Inr payload \<Rightarrow> C name payload))"

text \<open>\<open>vt.group.verb\<close>: an unknown group or verb is an AttributeError, and so is a group that starts with an underscore.\<close>

definition sdk_attr :: "'w registry \<Rightarrow> string \<Rightarrow> string \<Rightarrow> exn + string" where
  "sdk_attr tools grp verb =
     (if starts_with ''_'' grp \<or> \<not> dict_has (groups tools) grp then Inl (Exn ''AttributeError'')
      else let name = grp @ ''_'' @ verb in if dict_has tools name then Inr name else Inl (Exn ''AttributeError''))"

definition sdk_dir :: "'w registry \<Rightarrow> string \<Rightarrow> string list" where
  "sdk_dir tools grp = map (\<lambda>s. verb_of (ts_name s)) (filter (\<lambda>s. group_of (ts_name s) = grp) (dict_values tools))"

definition sdk_tools :: "'w registry \<Rightarrow> json" where
  "sdk_tools tools = JList (map (\<lambda>s. JDict (spec_summary s)) (dict_values tools))"

text \<open>The mode without a daemon: the dispatcher in this process, whose tools answer dictionaries.\<close>

definition in_process :: "'w dispatcher \<Rightarrow> string \<Rightarrow> 'w service_state caller" where
  "in_process D who name args sv = (case call D name (JDict args) who sv of (r, sv') \<Rightarrow> (over_the_wire r, sv'))"

definition sdk_daemon_status :: "('e, 'x) post_host_scheme \<Rightarrow> daemon_client \<Rightarrow> ('e, (string, json) dict) app" where
  "sdk_daemon_status Y c =
     bindE (read_info Y) (\<lambda>found.
       case found of
         None \<Rightarrow> ret [(''running'', JBool False)]
       | Some i \<Rightarrow> (\<lambda>e. case client_health Y \<lparr>cw_client = c, cw_env = e, cw_posts = []\<rparr> of
                         (Inl x, w) \<Rightarrow> (Inl x, cw_env w)
                       | (Inr d, w) \<Rightarrow> (Inr (dict_update (daemon_line i) d), cw_env w)))"

section \<open>The MCP server\<close>

record mcp_tool =
  mt_name :: string
  mt_description :: string
  mt_schema :: "(string, json) dict"
  mt_read_only :: bool
  mt_destructive :: bool
  mt_idempotent :: bool
  mt_open_world :: bool

definition mcp_tools :: "'w registry \<Rightarrow> mcp_tool list" where
  "mcp_tools tools =
     map (\<lambda>s. \<lparr>mt_name = ts_name s, mt_description = ts_description s, mt_schema = input_schema s, mt_read_only = (ts_effect s = Eff_Read),
               mt_destructive = (ts_effect s = Eff_Destructive), mt_idempotent = ts_idempotent s, mt_open_world = False\<rparr>) (dict_values tools)"

definition mcp_call :: "'v caller \<Rightarrow> string \<Rightarrow> (string, json) dict option \<Rightarrow> ('v, string) app" where
  "mcp_call C name arguments =
     catch_nt (C name (opt_or arguments []))
       (\<lambda>e. ret (json_dumps (JDict (to_dict e))))
       (\<lambda>d. ret (json_dumps (JDict d)))"

section \<open>The contract of what a door calls\<close>

text \<open>What an answer is to each door.\<close>

definition printed :: "bool \<Rightarrow> exn + (string, json) dict \<Rightarrow> exn + cli_end" where
  "printed as_json r =
     (case r of Inr d \<Rightarrow> Inr (emit_result as_json (JDict d)) | Inl (Nt e) \<Rightarrow> Inr (fail as_json e) | Inl x \<Rightarrow> Inl x)"

definition told :: "exn + (string, json) dict \<Rightarrow> exn + string" where
  "told r =
     (case r of Inr d \<Rightarrow> Inr (json_dumps (JDict d)) | Inl (Nt e) \<Rightarrow> Inr (json_dumps (JDict (to_dict e))) | Inl x \<Rightarrow> Inl x)"

locale front_door =
  fixes C :: "'v caller"
    and reaches :: "string \<Rightarrow> (string, json) dict \<Rightarrow> 'v \<Rightarrow> bool"
    and answer :: "string \<Rightarrow> (string, json) dict \<Rightarrow> 'v \<Rightarrow> exn + (string, json) dict"
  assumes answers: "reaches name args v \<Longrightarrow> fst (C name args v) = answer name args v"
begin

lemma cli_prints: "reaches name args v \<Longrightarrow> fst (tool_command C as_json name args v) = printed as_json (answer name args v)"
  using answers [of name args v]
  by (auto simp: tool_command_def catch_nt_def tryE_def printed_def ret_def raise_def split: prod.splits sum.splits exn.splits)

lemma mcp_tells: "reaches name (opt_or arguments []) v \<Longrightarrow> fst (mcp_call C name arguments v) = told (answer name (opt_or arguments []) v)"
  using answers [of name "opt_or arguments []" v]
  by (auto simp: mcp_call_def catch_nt_def tryE_def told_def ret_def raise_def split: prod.splits sum.splits exn.splits)

lemma sdk_answers:
  "registry_get tools name = Some spec \<Longrightarrow> sdk_args absolute (ts_positional spec) pos kw = Inr args \<Longrightarrow> reaches name args v \<Longrightarrow>
   fst (sdk_call C absolute tools name pos kw v) = answer name args v"
  by (simp add: sdk_call_def answers)

end

section \<open>The doors on a dispatcher and on a daemon\<close>

text \<open>What a call gives does not depend on who calls; the caller only stands in the audit log.\<close>

lemma call_any_caller: "fst (call D name args c1 sv) = fst (call D name args c2 sv)"
  by (simp add: call_def Let_def throw_def raise_def split: option.splits prod.splits sum.splits exn.splits)

definition dispatched :: "'w dispatcher \<Rightarrow> string \<Rightarrow> (string, json) dict \<Rightarrow> 'w service_state \<Rightarrow> exn + (string, json) dict" where
  "dispatched D name args sv = over_the_wire (fst (call D name (JDict args) ''http'' sv))"

definition reachable ::
  "(('e, 'z) daemon, 'x) post_host_scheme \<Rightarrow> ('e, 'z) daemon_app \<Rightarrow> daemon_info \<Rightarrow> string \<Rightarrow> (string, json) dict \<Rightarrow> ('e, 'z) daemon \<Rightarrow> bool" where
  "reachable Y A i name args d =
     (y_post Y = daemon_post A \<and> di_token i = da_token A \<and> da_token A \<noteq> [] \<and> name \<noteq> [] \<and> list_all is_word name \<and>
      (case fst (call (da_dispatcher A) name (JDict args) ''http'' (dm_service d)) of
         Inl (Nt e) \<Rightarrow> extra_ok (err_extra e) \<and> err_code e \<noteq> UNAUTHORIZED
       | _ \<Rightarrow> True))"

definition served :: "('e, 'z) daemon_app \<Rightarrow> string \<Rightarrow> (string, json) dict \<Rightarrow> ('e, 'z) daemon \<Rightarrow> exn + (string, json) dict" where
  "served A name args d = dispatched (da_dispatcher A) name args (dm_service d)"

interpretation in_process: front_door "in_process D who" "\<lambda>name args sv. True" "dispatched D" for D who
  by unfold_locales (simp add: in_process_def dispatched_def call_any_caller [of D _ _ "''http''" _ who] split: prod.splits)

interpretation http: front_door "calling Y (new_client i who cfg)" "reachable Y A i" "served A" for Y i who cfg A
proof unfold_locales
  fix name args and d :: "('a, 'b) daemon"
  assume reach: "reachable Y A i name args d"
  let ?c = "new_client i who cfg"
  let ?w = "\<lparr>cw_client = ?c, cw_env = d, cw_posts = []\<rparr>"
  obtain r sv where c: "call (da_dispatcher A) name (JDict args) (cl_caller (cw_client ?w)) (dm_service (cw_env ?w)) = (r, sv)" by fastforce
  have same: "fst (call (da_dispatcher A) name (JDict args) ''http'' (dm_service d)) = r"
    using c call_any_caller by (metis fst_conv client_world.select_convs)
  have wire: "extra_ok (err_extra e) \<and> err_code e \<noteq> UNAUTHORIZED" if "r = Inl (Nt e)" for e
    using reach same that by (simp add: reachable_def)
  have "fst (client_call Y name args ?w) = over_the_wire r"
    using reach by (intro client_over_http [OF _ _ _ _ _ c wire, THEN conjunct1]) (simp_all add: reachable_def new_client_def)
  then show "fst (calling Y ?c name args d) = served A name args d"
    by (simp add: calling_def served_def dispatched_def same) (metis (no_types, lifting) case_prod_unfold fst_conv)
qed



end
