(* ===== verification/Ssh_Files.thy ===== *)
theory Ssh_Files
  imports Ssh
begin

text \<open>
  The rest of \<open>term/ssh.py\<close>: the PTY channel with its reader thread, and the file operations over SFTP, which run as the work of \<open>sftp_do\<close>. The
  server is a record of what paramiko's SFTP client answers. The channel is a state machine whose steps the reader, the writer and the
  closer take in any order.
\<close>

section \<open>The channel\<close>

datatype chan_recv = Recv_Data string | Recv_End

text \<open>What \<open>recv\<close> gave, a write with whether \<open>sendall\<close> takes it, a close.\<close>

datatype chan_event = Ch_Recv chan_recv | Ch_Write string bool | Ch_Resize | Ch_Close

record ssh_channel =
  sc_open :: bool
  sc_reading :: bool
  sc_closed_once :: bool
  sc_fed :: "string list"
  sc_closes :: nat
  sc_sent :: "string list"

definition new_channel :: ssh_channel where
  "new_channel = \<lparr>sc_open = True, sc_reading = True, sc_closed_once = False, sc_fed = [], sc_closes = 0, sc_sent = []\<rparr>"

text \<open>\<open>_reader\<close>: the loop's turn on what it received; empty data and any exception end it.\<close>

definition reader_ends :: "ssh_channel \<Rightarrow> ssh_channel" where
  "reader_ends c =
     (let c1 = c\<lparr>sc_open := False, sc_reading := False\<rparr>
      in if sc_closed_once c then c1 else c1\<lparr>sc_closed_once := True, sc_closes := Suc (sc_closes c)\<rparr>)"

definition chan_read :: "chan_recv \<Rightarrow> ssh_channel \<Rightarrow> ssh_channel" where
  "chan_read r c =
     (if \<not> sc_reading c then c
      else (case r of
              Recv_Data d \<Rightarrow> if d = [] then reader_ends c else c\<lparr>sc_fed := sc_fed c @ [d]\<rparr>
            | Recv_End \<Rightarrow> reader_ends c))"

definition chan_write :: "string \<Rightarrow> bool \<Rightarrow> (ssh_channel, unit) app" where
  "chan_write d ok c =
     (if \<not> sc_open c then throw BACKEND_ERROR c
      else if ok then (Inr (), c\<lparr>sc_sent := sc_sent c @ [d]\<rparr>)
      else throw BACKEND_ERROR (c\<lparr>sc_open := False\<rparr>))"

definition chan_close :: "ssh_channel \<Rightarrow> ssh_channel" where
  "chan_close c = c\<lparr>sc_open := False\<rparr>"

definition chan_step :: "chan_event \<Rightarrow> ssh_channel \<Rightarrow> ssh_channel" where
  "chan_step ev c =
     (case ev of
        Ch_Recv r \<Rightarrow> chan_read r c
      | Ch_Write d ok \<Rightarrow> snd (chan_write d ok c)
      | Ch_Resize \<Rightarrow> c
      | Ch_Close \<Rightarrow> chan_close c)"

inductive chan_reachable :: "ssh_channel \<Rightarrow> bool" where
  fresh: "chan_reachable new_channel"
| step: "chan_reachable c \<Longrightarrow> chan_reachable (chan_step ev c)"

text \<open>The close callback fires once, when the reader ends; an open channel is read.\<close>

lemma chan_invariant:
  "chan_reachable c \<Longrightarrow>
   (sc_closed_once c \<longleftrightarrow> \<not> sc_reading c) \<and> sc_closes c = (if sc_reading c then 0 else 1) \<and> (sc_open c \<longrightarrow> sc_reading c)"
proof (induction rule: chan_reachable.induct)
  case (step c ev)
  then show ?case
    by (cases ev) (auto simp: chan_step_def chan_read_def reader_ends_def chan_write_def chan_close_def throw_def raise_def Let_def
        split: chan_recv.splits)
qed (simp add: new_channel_def)

text \<open>Once it is not open a channel takes no bytes and does not open again.\<close>

lemma chan_stays_closed:
  "\<not> sc_open c \<Longrightarrow> \<not> sc_open (chan_step ev c) \<and> sc_sent (chan_step ev c) = sc_sent c"
  by (cases ev) (auto simp: chan_step_def chan_read_def reader_ends_def chan_write_def chan_close_def throw_def raise_def Let_def
      split: chan_recv.splits)

section \<open>Attributes\<close>

record sftp_attr =
  at_size :: "int option"
  at_mtime :: "nat option"
  at_mode :: "nat option"

text \<open>\<open>statmod.S_ISDIR\<close>: the file type in the mode.\<close>

definition s_isdir :: "nat \<Rightarrow> bool" where
  "s_isdir mode = (mode div 4096 mod 16 = 4)"

text \<open>\<open>datetime.fromtimestamp(t, tz=UTC).isoformat()\<close> for the whole seconds of SFTP: years of 146097 days in 400.\<close>

definition month_day :: "nat \<Rightarrow> nat \<Rightarrow> nat \<Rightarrow> nat \<times> nat \<times> nat" where
  "month_day y doy mp = (if mp < 10 then (y, mp + 3, doy - (153 * mp + 2) div 5 + 1) else (y + 1, mp - 9, doy - (153 * mp + 2) div 5 + 1))"

definition day_of_year :: "nat \<Rightarrow> nat \<Rightarrow> nat \<times> nat \<times> nat" where
  "day_of_year y doy = month_day y doy ((5 * doy + 2) div 153)"

definition year_of_era :: "nat \<Rightarrow> nat" where
  "year_of_era doe = (doe - doe div 1460 + doe div 36524 - doe div 146096) div 365"

definition in_year :: "nat \<Rightarrow> nat \<Rightarrow> nat \<Rightarrow> nat \<times> nat \<times> nat" where
  "in_year era doe yoe = day_of_year (yoe + era * 400) (doe - (365 * yoe + yoe div 4 - yoe div 100))"

definition in_era :: "nat \<Rightarrow> nat \<Rightarrow> nat \<times> nat \<times> nat" where
  "in_era era doe = in_year era doe (year_of_era doe)"

definition civil :: "nat \<Rightarrow> nat \<times> nat \<times> nat" where
  "civil days = in_era ((days + 719468) div 146097) ((days + 719468) mod 146097)"

definition two :: "nat \<Rightarrow> string" where "two n = pad_left 2 (CHR ''0'') (nat_text n)"

definition iso :: "nat \<Rightarrow> string" where
  "iso t =
     (case civil (t div 86400) of
        (y, m, d) \<Rightarrow>
          let s = t mod 86400
          in pad_left 4 (CHR ''0'') (nat_text y) @ ''-'' @ two m @ ''-'' @ two d @ ''T'' @
             two (s div 3600) @ '':'' @ two (s div 60 mod 60) @ '':'' @ two (s mod 60) @ ''+00:00'')"

definition attr_dict :: "string \<Rightarrow> sftp_attr \<Rightarrow> (string, json) dict" where
  "attr_dict name a =
     [(''name'', JStr name), (''size'', jopt_int (at_size a)),
      (''modified'', case at_mtime a of None \<Rightarrow> JNull | Some t \<Rightarrow> if t = 0 then JNull else JStr (iso t)),
      (''is_dir'', JBool (case at_mode a of None \<Rightarrow> False | Some m \<Rightarrow> s_isdir m))]"

section \<open>File operations\<close>

text \<open>\<open>sf_chunks\<close>: what the reads of an opened file give, one after the other. \<open>sf_lost\<close>: whether the link that dropped last did so with
  an OSError (a reset connection, not paramiko's own error).\<close>

record 'e sftp_server =
  sf_stat :: "string \<Rightarrow> 'e \<Rightarrow> sftp_attr link_outcome \<times> 'e"
  sf_mkdir :: "string \<Rightarrow> 'e \<Rightarrow> unit link_outcome \<times> 'e"
  sf_put :: "string \<Rightarrow> string \<Rightarrow> 'e \<Rightarrow> unit link_outcome \<times> 'e"
  sf_get :: "string \<Rightarrow> string \<Rightarrow> 'e \<Rightarrow> unit link_outcome \<times> 'e"
  sf_chunks :: "string \<Rightarrow> 'e \<Rightarrow> string list link_outcome \<times> 'e"
  sf_list :: "string \<Rightarrow> 'e \<Rightarrow> (string \<times> sftp_attr) list link_outcome \<times> 'e"
  sf_lost :: "'e \<Rightarrow> bool"
  sf_makedirs :: "string \<Rightarrow> 'e \<Rightarrow> unit link_outcome \<times> 'e"
  sf_size :: "string \<Rightarrow> 'e \<Rightarrow> int link_outcome \<times> 'e"
  sf_parent :: "string \<Rightarrow> string"
  sf_sha256 :: "string \<Rightarrow> string"

type_synonym ('e, 'a) sftp_work = "'e \<Rightarrow> 'a link_outcome \<times> 'e"

text \<open>One call after another: what is not done is what the whole ends with.\<close>

definition doneL :: "'a \<Rightarrow> ('e, 'a) sftp_work" where
  "doneL x e = (L_Done x, e)"

definition bindL :: "('e, 'a) sftp_work \<Rightarrow> ('a \<Rightarrow> ('e, 'b) sftp_work) \<Rightarrow> ('e, 'b) sftp_work" where
  "bindL m k e =
     (case m e of
        (L_Done x, e1) \<Rightarrow> k x e1
      | (L_Dropped, e1) \<Rightarrow> (L_Dropped, e1)
      | (L_Timeout, e1) \<Rightarrow> (L_Timeout, e1)
      | (L_Error err, e1) \<Rightarrow> (L_Error err, e1)
      | (L_Other cls, e1) \<Rightarrow> (L_Other cls, e1))"

definition OS_ERRORS :: "string list" where
  "OS_ERRORS = [''OSError'', ''FileNotFoundError'', ''PermissionError'', ''FileExistsError'']"

definition os_error :: "'e sftp_server \<Rightarrow> 'a link_outcome \<times> 'e \<Rightarrow> bool" where
  "os_error S r =
     (case r of (L_Timeout, _) \<Rightarrow> True | (L_Dropped, e) \<Rightarrow> sf_lost S e | (L_Other cls, _) \<Rightarrow> cls \<in> set OS_ERRORS | _ \<Rightarrow> False)"

text \<open>\<open>_mkdirs\<close>: stat, and mkdir where it fails with an OSError; a mkdir that fails so is ignored too.\<close>

fun mkdirs_each :: "'e sftp_server \<Rightarrow> string list \<Rightarrow> ('e, unit) sftp_work" where
  "mkdirs_each S [] e = doneL () e"
| "mkdirs_each S (p # ps) e =
     (case sf_stat S p e of
        r \<Rightarrow>
          if os_error S r
          then (case sf_mkdir S p (snd r) of
                  r2 \<Rightarrow> if os_error S r2 then mkdirs_each S ps (snd r2) else bindL (\<lambda>_. r2) (\<lambda>_. mkdirs_each S ps) e)
          else bindL (\<lambda>_. r) (\<lambda>_. mkdirs_each S ps) e)"

definition put_work :: "'e sftp_server \<Rightarrow> string \<Rightarrow> string \<Rightarrow> ('e, int) sftp_work" where
  "put_work S local target =
     bindL (mkdirs_each S (mkdirs_paths (remote_dirname target))) (\<lambda>_.
     bindL (sf_put S local target) (\<lambda>_. sf_size S local))"

definition get_work :: "'e sftp_server \<Rightarrow> string \<Rightarrow> string \<Rightarrow> ('e, int) sftp_work" where
  "get_work S source local =
     bindL (sf_makedirs S (sf_parent S local)) (\<lambda>_. bindL (sf_get S source local) (\<lambda>_. sf_size S local))"

text \<open>The digest of the chunks up to the empty one that ends the file.\<close>

definition hash_work :: "'e sftp_server \<Rightarrow> string \<Rightarrow> ('e, string) sftp_work" where
  "hash_work S source =
     bindL (sf_chunks S source) (\<lambda>chunks. doneL (sf_sha256 S (concat (takeWhile (\<lambda>c. c \<noteq> []) chunks))))"

text \<open>None is a missing path; the name the entry is given is dropped again.\<close>

definition stat_work :: "'e sftp_server \<Rightarrow> string \<Rightarrow> ('e, (string, json) dict option) sftp_work" where
  "stat_work S source e =
     (case sf_stat S source e of
        (L_Other cls, e1) \<Rightarrow> if cls = ''FileNotFoundError'' then (L_Done None, e1) else (L_Other cls, e1)
      | r \<Rightarrow> bindL (\<lambda>_. r) (\<lambda>a. doneL (Some (dict_pop ''name'' (attr_dict [] a)))) e)"

definition list_work :: "'e sftp_server \<Rightarrow> string \<Rightarrow> ('e, (string, json) dict list) sftp_work" where
  "list_work S source = bindL (sf_list S source) (\<lambda>entries. doneL (map (\<lambda>(name, a). attr_dict name a) entries))"

text \<open>The operations over the link, reconnected once when it had dropped.\<close>

type_synonym ('e, 'a) sftp_call = "('e ssh_link, 'a) app"

definition put_file :: "'e ssh_api \<Rightarrow> (nat \<Rightarrow> 'e sftp_server) \<Rightarrow> string \<Rightarrow> string \<Rightarrow> ('e, int) sftp_call" where
  "put_file A S local remote = sftp_do A (\<lambda>c. put_work (S c) local (sftp_path remote))"

definition get_file :: "'e ssh_api \<Rightarrow> (nat \<Rightarrow> 'e sftp_server) \<Rightarrow> string \<Rightarrow> string \<Rightarrow> ('e, int) sftp_call" where
  "get_file A S remote local = sftp_do A (\<lambda>c. get_work (S c) (sftp_path remote) local)"

definition remote_sha256 :: "'e ssh_api \<Rightarrow> (nat \<Rightarrow> 'e sftp_server) \<Rightarrow> string \<Rightarrow> ('e, string) sftp_call" where
  "remote_sha256 A S remote = sftp_do A (\<lambda>c. hash_work (S c) (sftp_path remote))"

definition stat_file :: "'e ssh_api \<Rightarrow> (nat \<Rightarrow> 'e sftp_server) \<Rightarrow> string \<Rightarrow> ('e, (string, json) dict option) sftp_call" where
  "stat_file A S remote = sftp_do A (\<lambda>c. stat_work (S c) (sftp_path remote))"

definition list_dir :: "'e ssh_api \<Rightarrow> (nat \<Rightarrow> 'e sftp_server) \<Rightarrow> string \<Rightarrow> ('e, (string, json) dict list) sftp_call" where
  "list_dir A S remote = sftp_do A (\<lambda>c. list_work (S c) (sftp_path remote))"

section \<open>Facts of the operations\<close>

text \<open>A path that is not there is an answer and not an error.\<close>

lemma stat_missing: "sf_stat S source e = (L_Other ''FileNotFoundError'', e1) \<Longrightarrow> stat_work S source e = (L_Done None, e1)"
  by (simp add: stat_work_def)

text \<open>The epoch, a leap day and the last day of a century.\<close>

lemma civil_examples: "civil 0 = (1970, 1, 1)" "civil 11016 = (2000, 2, 29)" "civil 47481 = (2099, 12, 31)"
  by (simp_all add: civil_def in_era_def in_year_def year_of_era_def day_of_year_def month_day_def)

text \<open>The directories a push makes are the ones of its target, whatever the server says to each.\<close>

lemma mkdirs_each_quiet:
  assumes "\<And>p e. \<exists>e'. sf_stat S p e = (L_Other ''FileNotFoundError'', e')" "\<And>p e. \<exists>e'. sf_mkdir S p e = (L_Other ''PermissionError'', e')"
  shows "\<exists>e'. mkdirs_each S ps e = (L_Done (), e')"
proof (induction ps arbitrary: e)
  case (Cons p ps)
  obtain e1 where s: "sf_stat S p e = (L_Other ''FileNotFoundError'', e1)" using assms(1) by blast
  obtain e2 where m: "sf_mkdir S p e1 = (L_Other ''PermissionError'', e2)" using assms(2) by blast
  show ?case using Cons.IH by (simp add: s m os_error_def OS_ERRORS_def)
qed (simp add: doneL_def)

end
